(* ===== verification/Prelude.thy ===== *)
theory Prelude
  imports Main "HOL-Library.Sublist"
begin

text \<open>
  Shared vocabulary of the development: the Python string and byte operations the services use
  (\<^verbatim>\<open>str.lower\<close>, \<^verbatim>\<open>str.strip\<close>, \<^verbatim>\<open>str.rstrip\<close>, \<^verbatim>\<open>str.split\<close>, \<^verbatim>\<open>str.join\<close>, \<^verbatim>\<open>str.replace\<close>),
  the reading of a domain name as its list of labels, and the generic lemmas on them.

  A Python \<^verbatim>\<open>str\<close> is an Isabelle \<^typ>\<open>string\<close>, so one character is one code point below 256; case
  mapping and white space are the ASCII ones. An optional Python value is an \<open>option\<close>; a Python
  truth test on an optional string is \<open>truthy\<close>.
\<close>


section \<open>Python strings\<close>

definition lower_char :: "char \<Rightarrow> char" where
  "lower_char c = (if 65 \<le> (of_char c :: nat) \<and> (of_char c :: nat) \<le> 90
                   then char_of ((of_char c :: nat) + 32) else c)"

definition upper_char :: "char \<Rightarrow> char" where
  "upper_char c = (if 97 \<le> (of_char c :: nat) \<and> (of_char c :: nat) \<le> 122
                   then char_of ((of_char c :: nat) - 32) else c)"

definition py_lower :: "string \<Rightarrow> string" where
  "py_lower s = map lower_char s"

definition py_upper :: "string \<Rightarrow> string" where
  "py_upper s = map upper_char s"

definition py_isspace :: "char \<Rightarrow> bool" where
  "py_isspace c = (let n = (of_char c :: nat) in (9 \<le> n \<and> n \<le> 13) \<or> (28 \<le> n \<and> n \<le> 32))"

definition py_rstrip_by :: "(char \<Rightarrow> bool) \<Rightarrow> string \<Rightarrow> string" where
  "py_rstrip_by p s = rev (dropWhile p (rev s))"

definition py_strip :: "string \<Rightarrow> string" where
  "py_strip s = py_rstrip_by py_isspace (dropWhile py_isspace s)"

definition py_rstrip_dot :: "string \<Rightarrow> string" where
  "py_rstrip_dot s = py_rstrip_by (\<lambda>c. c = CHR ''.'') s"

fun py_split :: "char \<Rightarrow> string \<Rightarrow> string list" where
  "py_split c [] = [[]]"
| "py_split c (x # xs) =
     (if x = c then [] # py_split c xs
      else (case py_split c xs of [] \<Rightarrow> [[x]] | w # ws \<Rightarrow> (x # w) # ws))"

fun py_join :: "char \<Rightarrow> string list \<Rightarrow> string" where
  "py_join c [] = []"
| "py_join c [w] = w"
| "py_join c (w # v # ws) = w @ c # py_join c (v # ws)"

text \<open>\<^verbatim>\<open>str.split()\<close> without argument: the maximal runs of characters that are not white space.\<close>

fun py_words_acc :: "string \<Rightarrow> string \<Rightarrow> string list" where
  "py_words_acc acc [] = (if acc = [] then [] else [rev acc])"
| "py_words_acc acc (x # xs) =
     (if py_isspace x then (if acc = [] then py_words_acc [] xs else rev acc # py_words_acc [] xs)
      else py_words_acc (x # acc) xs)"

definition py_words :: "string \<Rightarrow> string list" where
  "py_words s = py_words_acc [] s"

text \<open>\<^verbatim>\<open>s.replace(pat, new)\<close> for a non-empty pattern: left to right, non-overlapping.\<close>

function py_replace :: "string \<Rightarrow> string \<Rightarrow> string \<Rightarrow> string" where
  "py_replace pat new s =
     (if pat = [] then s
      else case s of [] \<Rightarrow> []
           | x # xs \<Rightarrow> (if prefix pat s then new @ py_replace pat new (drop (length pat) s)
                       else x # py_replace pat new xs))"
  by pat_completeness auto
termination
  by (relation "measure (\<lambda>(pat, new, s). length s)") auto

declare py_replace.simps [simp del]

abbreviation py_remove :: "string \<Rightarrow> string \<Rightarrow> string" where
  "py_remove pat s \<equiv> py_replace pat [] s"

abbreviation py_startswith :: "string \<Rightarrow> string \<Rightarrow> bool" where
  "py_startswith s p \<equiv> prefix p s"

abbreviation py_endswith :: "string \<Rightarrow> string \<Rightarrow> bool" where
  "py_endswith s p \<equiv> suffix p s"

text \<open>Truth of an optional string (\<^verbatim>\<open>None\<close> and the empty string are false).\<close>

definition truthy :: "string option \<Rightarrow> bool" where
  "truthy v = (case v of None \<Rightarrow> False | Some s \<Rightarrow> s \<noteq> [])"

text \<open>\<^verbatim>\<open>a or b\<close> on optional strings.\<close>

definition py_or :: "string option \<Rightarrow> string option \<Rightarrow> string option" where
  "py_or a b = (if truthy a then a else b)"

lemma truthy_simps [simp]:
  "\<not> truthy None" "truthy (Some s) \<longleftrightarrow> s \<noteq> []"
  by (simp_all add: truthy_def)

lemma py_or_simps [simp]:
  "py_or None b = b" "py_or (Some []) b = b" "s \<noteq> [] \<Longrightarrow> py_or (Some s) b = Some s"
  by (simp_all add: py_or_def)

section \<open>Dynamically typed values\<close>

text \<open>
  A value decoded from JSON: request bodies, token claims and configuration entries keep their
  dynamic type, so that the \<^verbatim>\<open>isinstance\<close> tests and truth tests of the code are branches of the model.
\<close>

datatype json =
    JNull
  | JBool bool
  | JInt int
  | JStr string
  | JList "json list"
  | JObj "(string \<times> json) list"

definition json_truthy :: "json \<Rightarrow> bool" where
  "json_truthy j = (case j of JNull \<Rightarrow> False | JBool b \<Rightarrow> b | JInt i \<Rightarrow> i \<noteq> 0 | JStr s \<Rightarrow> s \<noteq> []
                    | JList xs \<Rightarrow> xs \<noteq> [] | JObj kvs \<Rightarrow> kvs \<noteq> [])"

text \<open>\<^verbatim>\<open>obj.get(key)\<close>: the value stored under the key, \<^verbatim>\<open>None\<close> when there is none.\<close>

definition json_get :: "(string \<times> json) list \<Rightarrow> string \<Rightarrow> json" where
  "json_get kvs k = (case map_of kvs k of None \<Rightarrow> JNull | Some v \<Rightarrow> v)"

lemma json_truthy_simps [simp]:
  "\<not> json_truthy JNull" "json_truthy (JBool b) \<longleftrightarrow> b" "json_truthy (JInt i) \<longleftrightarrow> i \<noteq> 0"
  "json_truthy (JStr s) \<longleftrightarrow> s \<noteq> []" "json_truthy (JList xs) \<longleftrightarrow> xs \<noteq> []"
  "json_truthy (JObj kvs) \<longleftrightarrow> kvs \<noteq> []"
  by (simp_all add: json_truthy_def)

text \<open>\<^verbatim>\<open>d.get(key, default)\<close> on a record of optional members.\<close>

definition get_default :: "'a option \<Rightarrow> 'a \<Rightarrow> 'a" where
  "get_default v d = (case v of None \<Rightarrow> d | Some x \<Rightarrow> x)"

lemma get_default_simps [simp]: "get_default None d = d" "get_default (Some x) d = x"
  by (simp_all add: get_default_def)

section \<open>Slices\<close>

lemma concat_slices: "0 < n \<Longrightarrow> concat (map (\<lambda>k. take n (drop (k * n) xs)) [0..<m]) = take (m * n) xs"
proof (induction m)
  case (Suc m)
  then show ?case by (simp add: add.commute [of n] take_add)
qed simp

section \<open>Split and join\<close>

lemma py_split_not_Nil [simp]: "py_split c s \<noteq> []"
  by (induction s) (auto split: list.splits)

lemma py_join_Cons: "ws \<noteq> [] \<Longrightarrow> py_join c (w # ws) = w @ c # py_join c ws"
  by (cases ws) auto

text \<open>Joining the parts of a split restores the string.\<close>

lemma py_join_split [simp]: "py_join c (py_split c s) = s"
proof (induction s)
  case Nil
  then show ?case by simp
next
  case (Cons x xs)
  obtain w ws where w: "py_split c xs = w # ws"
    by (cases "py_split c xs") auto
  with Cons show ?case
    by (cases ws) (auto simp: py_join_Cons)
qed

lemma py_split_free: "w \<in> set (py_split c s) \<Longrightarrow> c \<notin> set w"
proof (induction s arbitrary: w)
  case Nil
  then show ?case by simp
next
  case (Cons x xs)
  obtain v vs where v: "py_split c xs = v # vs"
    by (cases "py_split c xs") auto
  with Cons show ?case
    by (auto split: if_splits)
qed

lemma py_split_append_sep: "py_split c (u @ c # v) = py_split c u @ py_split c v"
proof (induction u)
  case Nil
  then show ?case by simp
next
  case (Cons x xs)
  obtain w ws where "py_split c xs = w # ws"
    by (cases "py_split c xs") auto
  with Cons show ?case by auto
qed

lemma py_split_single: "c \<notin> set w \<Longrightarrow> py_split c w = [w]"
  by (induction w) auto

text \<open>Splitting a join of separator-free words restores the words.\<close>

lemma py_split_join:
  "\<lbrakk> ws \<noteq> []; \<And>w. w \<in> set ws \<Longrightarrow> c \<notin> set w \<rbrakk> \<Longrightarrow> py_split c (py_join c ws) = ws"
proof (induction c ws rule: py_join.induct)
  case (3 c w v ws)
  then show ?case by (simp add: py_split_append_sep py_split_single)
qed (auto simp: py_split_single)

lemma py_split_inject: "py_split c s = py_split c t \<longleftrightarrow> s = t"
  by (metis py_join_split)

lemma py_join_append:
  "\<lbrakk> us \<noteq> []; vs \<noteq> [] \<rbrakk> \<Longrightarrow> py_join c (us @ vs) = py_join c us @ c # py_join c vs"
proof (induction us)
  case (Cons u us)
  then show ?case by (cases us) (auto simp: py_join_Cons)
qed simp

section \<open>Domain names as label lists\<close>

abbreviation dot :: char where
  "dot \<equiv> CHR ''.''"

definition labels :: "string \<Rightarrow> string list" where
  "labels d = py_split dot d"

lemma labels_not_Nil [simp]: "labels d \<noteq> []"
  by (simp add: labels_def)

lemma labels_inject [simp]: "labels d = labels e \<longleftrightarrow> d = e"
  by (simp add: labels_def py_split_inject)

lemma labels_append_dot: "labels (u @ dot # v) = labels u @ labels v"
  by (simp add: labels_def py_split_append_sep)

lemma join_labels [simp]: "py_join dot (labels d) = d"
  by (simp add: labels_def)

text \<open>A name ends in \<^verbatim>\<open>.parent\<close> exactly when its labels properly extend the parent's labels.\<close>

lemma endswith_dot_iff: "py_endswith d (dot # p) \<longleftrightarrow> strict_suffix (labels p) (labels d)"
proof
  assume "py_endswith d (dot # p)"
  then obtain u where "d = u @ dot # p"
    by (auto simp: suffix_def)
  then show "strict_suffix (labels p) (labels d)"
    by (auto simp: labels_append_dot strict_suffix_def suffix_def)
next
  assume "strict_suffix (labels p) (labels d)"
  then obtain us where us: "labels d = us @ labels p" "p \<noteq> d"
    by (auto simp: strict_suffix_def suffix_def)
  then have ne: "us \<noteq> []" by auto
  have "d = py_join dot (us @ labels p)"
    using us(1) by (metis join_labels)
  also have "\<dots> = py_join dot us @ dot # p"
    using ne by (simp add: py_join_append)
  finally show "py_endswith d (dot # p)"
    by (auto simp: suffix_def)
qed

text \<open>\<open>in_zone p d\<close>: the name \<open>d\<close> is \<open>p\<close> or lies below it.\<close>

definition in_zone :: "string \<Rightarrow> string \<Rightarrow> bool" where
  "in_zone p d \<longleftrightarrow> suffix (labels p) (labels d)"

lemma in_zone_refl [simp]: "in_zone d d"
  by (simp add: in_zone_def)

lemma in_zone_trans: "\<lbrakk> in_zone p q; in_zone q d \<rbrakk> \<Longrightarrow> in_zone p d"
  unfolding in_zone_def by (rule suffix_order.trans)

lemma in_zone_antisym: "\<lbrakk> in_zone p q; in_zone q p \<rbrakk> \<Longrightarrow> p = q"
  unfolding in_zone_def by (metis labels_inject suffix_order.antisym)

lemma in_zone_endswith: "in_zone p d \<longleftrightarrow> d = p \<or> py_endswith d (dot # p)"
  by (auto simp: in_zone_def endswith_dot_iff strict_suffix_def)

text \<open>The parents a lookup loop tries: every tail of the label list, from the longest.\<close>

definition parents_from :: "nat \<Rightarrow> string \<Rightarrow> string list" where
  "parents_from k d = map (\<lambda>i. py_join dot (drop i (labels d))) [k ..< length (labels d)]"

lemma labels_free: "w \<in> set (labels d) \<Longrightarrow> dot \<notin> set w"
  by (auto simp: labels_def dest: py_split_free)

lemma labels_parent:
  "i < length (labels d) \<Longrightarrow> labels (py_join dot (drop i (labels d))) = drop i (labels d)"
  unfolding labels_def
  by (rule py_split_join) (auto dest!: in_set_dropD dest: py_split_free)

lemma set_parents_from:
  "set (parents_from k d) =
     {p. in_zone p d \<and> length (labels p) + k \<le> length (labels d)}"
proof (intro set_eqI iffI)
  fix p assume "p \<in> set (parents_from k d)"
  then obtain i where i: "k \<le> i" "i < length (labels d)" "p = py_join dot (drop i (labels d))"
    by (auto simp: parents_from_def)
  then have "labels p = drop i (labels d)" by (simp add: labels_parent)
  with i show "p \<in> {p. in_zone p d \<and> length (labels p) + k \<le> length (labels d)}"
    by (auto simp: in_zone_def suffix_drop)
next
  fix p assume "p \<in> {p. in_zone p d \<and> length (labels p) + k \<le> length (labels d)}"
  then obtain us where us: "labels d = us @ labels p" "k \<le> length us"
    by (auto simp: in_zone_def suffix_def)
  then have "p = py_join dot (drop (length us) (labels d))" by simp
  moreover have "length us < length (labels d)" using us by simp
  ultimately show "p \<in> set (parents_from k d)"
    using us(2) by (auto simp: parents_from_def)
qed

lemma set_parents_0 [simp]: "set (parents_from 0 d) = {p. in_zone p d}"
  by (auto simp: set_parents_from in_zone_def dest: suffix_length_le)

lemma set_parents_1: "set (parents_from 1 d) = {p. in_zone p d \<and> p \<noteq> d}"
proof -
  have "length (labels p) + 1 \<le> length (labels d) \<longleftrightarrow> p \<noteq> d" if "in_zone p d" for p
  proof -
    obtain us where us: "labels d = us @ labels p"
      using \<open>in_zone p d\<close> by (auto simp: in_zone_def suffix_def)
    have "p = d \<longleftrightarrow> us = []"
      using us by (metis labels_inject append_self_conv2)
    with us show ?thesis by (cases us) auto
  qed
  then show ?thesis by (auto simp: set_parents_from)
qed

section \<open>Searching\<close>

lemma find_append: "find P (xs @ ys) = (case find P xs of None \<Rightarrow> find P ys | Some x \<Rightarrow> Some x)"
  by (induction xs) auto

lemma find_SomeD: "find P xs = Some x \<Longrightarrow> x \<in> set xs \<and> P x"
  by (auto simp: find_Some_iff)

lemma find_NoneD: "find P xs = None \<Longrightarrow> x \<in> set xs \<Longrightarrow> \<not> P x"
  by (induction xs) (auto split: if_splits)

section \<open>Refinement by an abstraction function\<close>

text \<open>Running commands one after the other, with the results they return.\<close>

fun run_cmds :: "('c \<Rightarrow> 's \<Rightarrow> 'r \<times> 's) \<Rightarrow> 'c list \<Rightarrow> 's \<Rightarrow> 'r list \<times> 's" where
  "run_cmds step [] s = ([], s)"
| "run_cmds step (c # cs) s =
     (case step c s of (r, s') \<Rightarrow> (case run_cmds step cs s' of (rs, s'') \<Rightarrow> (r # rs, s'')))"

text \<open>
  A concrete machine implements an abstract one when every command keeps the invariant, returns what the
  abstract command returns, and leads to a state whose abstraction is the abstract successor.
\<close>

locale refinement =
  fixes cstep :: "'c \<Rightarrow> 's \<Rightarrow> 'r \<times> 's" and astep :: "'c \<Rightarrow> 'a \<Rightarrow> 'r \<times> 'a"
    and absf :: "'s \<Rightarrow> 'a" and inv :: "'s \<Rightarrow> bool"
  assumes step_inv: "inv s \<Longrightarrow> inv (snd (cstep c s))"
    and step_sim: "inv s \<Longrightarrow> astep c (absf s) = map_prod id absf (cstep c s)"
begin

lemma run_refines:
  "inv s \<Longrightarrow> inv (snd (run_cmds cstep cs s)) \<and> run_cmds astep cs (absf s) = map_prod id absf (run_cmds cstep cs s)"
proof (induction cs arbitrary: s)
  case (Cons c cs)
  obtain r s' where c: "cstep c s = (r, s')" by fastforce
  then have "inv s'" "astep c (absf s) = (r, absf s')"
    using step_inv [OF Cons.prems, of c] step_sim [OF Cons.prems, of c] by simp_all
  with Cons.IH [of s'] c show ?case by (auto split: prod.splits)
qed simp

end

end
