(* ===== verification/Rate_Limiter.thy ===== *)
theory Rate_Limiter
  imports Complex_Main Prelude "HOL-Library.AList"
begin

text \<open>
  Per-identity rate limiting of DoH queries (\<^verbatim>\<open>dns-server/app/services/rate_limiter.py\<close>): the token
  bucket, the in-memory backend with least-recently-used eviction, and the limiter on top of it.
  Python floats are rationals (no rounding); \<^verbatim>\<open>time.time()\<close> is an argument. The \<^verbatim>\<open>OrderedDict\<close> of
  buckets is an association list in its order.
\<close>

section \<open>Token bucket\<close>

record bucket =
  capacity :: rat
  tokens :: rat
  refill_rate :: rat
  last_refill :: rat

definition tokens_available :: "bucket \<Rightarrow> rat \<Rightarrow> rat" where
  "tokens_available b now =
     (let time_passed = now - last_refill b
      in min (capacity b) (tokens b + time_passed * refill_rate b))"

definition allow :: "bucket \<Rightarrow> rat \<Rightarrow> bool \<times> bucket" where
  "allow b now =
     (let time_passed = now - last_refill b;
          t = min (capacity b) (tokens b + time_passed * refill_rate b);
          b' = b\<lparr> tokens := t, last_refill := now \<rparr>
      in if 1 \<le> t then (True, b'\<lparr> tokens := t - 1 \<rparr>) else (False, b'))"

section \<open>In-memory backend\<close>

record inmem =
  rps :: rat
  burst :: rat
  max_keys :: int
  buckets :: "(string \<times> bucket) list"

text \<open>\<open>None\<close> is the \<^verbatim>\<open>KeyError\<close> of popping an empty dictionary.\<close>

definition evict :: "inmem \<Rightarrow> string \<Rightarrow> (string \<times> bucket) list option" where
  "evict s key =
     (if key \<notin> fst ` set (buckets s) \<and> max_keys s \<le> int (length (buckets s))
      then (case buckets s of [] \<Rightarrow> None | _ # rest \<Rightarrow> Some rest)
      else Some (buckets s))"

definition touch :: "inmem \<Rightarrow> string \<Rightarrow> rat \<Rightarrow> (string \<times> bucket) list \<Rightarrow> (string \<times> bucket) list" where
  "touch s key now bs =
     (case map_of bs key of
        None \<Rightarrow> bs @ [(key, \<lparr> capacity = burst s, tokens = burst s, refill_rate = rps s,
                              last_refill = now \<rparr>)]
      | Some b \<Rightarrow> AList.delete key bs @ [(key, b)])"

definition check_and_consume :: "inmem \<Rightarrow> string \<Rightarrow> rat \<Rightarrow> (bool \<times> inmem) option" where
  "check_and_consume s key now =
     (case evict s key of
        None \<Rightarrow> None
      | Some bs1 \<Rightarrow>
          (let bs2 = touch s key now bs1; b = the (map_of bs2 key);
               (ok, b') = allow b now
           in Some (ok, s\<lparr> buckets := AList.update key b' bs2 \<rparr>)))"

definition get_retry_after :: "inmem \<Rightarrow> string \<Rightarrow> rat \<Rightarrow> rat" where
  "get_retry_after s key now =
     (case map_of (buckets s) key of
        None \<Rightarrow> 0
      | Some b \<Rightarrow>
          if 1 \<le> tokens_available b now then 0
          else (let tokens_needed = 1 - tokens_available b now
                in if 0 < rps s then tokens_needed / rps s else 60))"

section \<open>The limiter\<close>

record limiter =
  enabled :: bool
  backend :: inmem
  request_counter :: nat
  limited_counter :: nat

definition limiter_init :: "bool \<Rightarrow> rat \<Rightarrow> rat \<Rightarrow> int \<Rightarrow> limiter" where
  "limiter_init en r b mk =
     \<lparr> enabled = en,
       backend = \<lparr> rps = max 1 r, burst = max 1 b, max_keys = mk, buckets = [] \<rparr>,
       request_counter = 0, limited_counter = 0 \<rparr>"

definition limit_key ::
  "string option \<Rightarrow> string option \<Rightarrow> string option \<Rightarrow> string option \<Rightarrow> string" where
  "limit_key identity token_identity spiffe_id client_ip =
     the (py_or (py_or (py_or (py_or identity token_identity) spiffe_id) client_ip) (Some ''unknown''))"

definition check_limit ::
  "limiter \<Rightarrow> string option \<Rightarrow> string option \<Rightarrow> string option \<Rightarrow> string option \<Rightarrow> rat \<Rightarrow>
   ((bool \<times> rat) \<times> limiter) option" where
  "check_limit l identity token_identity spiffe_id client_ip now =
     (if \<not> enabled l then Some ((True, 0), l)
      else
        (let key = limit_key identity token_identity spiffe_id client_ip;
             l1 = l\<lparr> request_counter := request_counter l + 1 \<rparr>
         in case check_and_consume (backend l1) key now of
              None \<Rightarrow> None
            | Some (allowed, be) \<Rightarrow>
                (if \<not> allowed
                 then Some ((False, get_retry_after be key now),
                            l1\<lparr> backend := be, limited_counter := limited_counter l1 + 1 \<rparr>)
                 else Some ((True, 0), l1\<lparr> backend := be \<rparr>))))"

section \<open>Invariant\<close>

definition bucket_ok :: "inmem \<Rightarrow> rat \<Rightarrow> bucket \<Rightarrow> bool" where
  "bucket_ok s t b \<longleftrightarrow> capacity b = burst s \<and> refill_rate b = rps s \<and> 0 \<le> tokens b \<and>
     tokens b \<le> burst s \<and> last_refill b \<le> t"

definition inmem_inv :: "rat \<Rightarrow> inmem \<Rightarrow> bool" where
  "inmem_inv t s \<longleftrightarrow> 0 \<le> rps s \<and> 1 \<le> burst s \<and> 1 \<le> max_keys s \<and> distinct (map fst (buckets s)) \<and>
     int (length (buckets s)) \<le> max_keys s \<and>
     (\<forall>k b. map_of (buckets s) k = Some b \<longrightarrow> bucket_ok s t b)"

lemma bucket_ok_allow:
  assumes "bucket_ok s t b" "t \<le> now" "0 \<le> rps s" "1 \<le> burst s"
  shows "bucket_ok s now (snd (allow b now))"
proof -
  have "0 \<le> (now - last_refill b) * rps s" using assms by (auto simp: bucket_ok_def)
  then show ?thesis using assms by (auto simp: bucket_ok_def allow_def Let_def)
qed

lemma bucket_ok_later: "\<lbrakk> bucket_ok s t b; t \<le> now \<rbrakk> \<Longrightarrow> bucket_ok s now b"
  by (simp add: bucket_ok_def)

lemma bucket_ok_new:
  "1 \<le> burst s \<Longrightarrow>
     bucket_ok s now \<lparr> capacity = burst s, tokens = burst s, refill_rate = rps s, last_refill = now \<rparr>"
  by (simp add: bucket_ok_def)

text \<open>Admitting one request costs at most what the refill gives.\<close>

lemma allow_cost:
  assumes "allow b now = (ok, b')"
  shows "(if ok then 1 else 0) + tokens b' \<le> tokens b + (now - last_refill b) * refill_rate b
         \<and> last_refill b' = now"
  using assms by (auto simp: allow_def Let_def split: if_splits)

lemma length_delete:
  "\<lbrakk> distinct (map fst bs); k \<in> fst ` set bs \<rbrakk> \<Longrightarrow> Suc (length (AList.delete k bs)) = length bs"
proof (induction bs)
  case (Cons x bs)
  have no: "k \<notin> fst ` set ys \<Longrightarrow> AList.delete k ys = ys" for ys :: "('a \<times> 'b) list"
    by (induction ys) auto
  from Cons show ?case
    by (cases x; cases "fst x = k") (auto simp: no)
qed simp

lemma evict_props:
  assumes "evict s key = Some bs1" "inmem_inv t s"
  shows "distinct (map fst bs1) \<and> set bs1 \<subseteq> set (buckets s) \<and>
    (key \<notin> fst ` set bs1 \<longrightarrow> int (length bs1) < max_keys s) \<and> int (length bs1) \<le> max_keys s"
proof -
  have d: "distinct (map fst (buckets s))" "int (length (buckets s)) \<le> max_keys s"
    using assms(2) by (auto simp: inmem_inv_def)
  show ?thesis
  proof (cases "key \<notin> fst ` set (buckets s) \<and> max_keys s \<le> int (length (buckets s))")
    case True
    then obtain x where "buckets s = x # bs1"
      using assms(1) by (auto simp: evict_def split: list.splits)
    with d show ?thesis by auto
  next
    case False
    then have "bs1 = buckets s" using assms(1) unfolding evict_def by (simp split: if_splits)
    with d False show ?thesis by auto
  qed
qed

lemma map_of_touch: "map_of (touch s key now bs) = (map_of bs)(key \<mapsto>
    (case map_of bs key of None \<Rightarrow> \<lparr> capacity = burst s, tokens = burst s, refill_rate = rps s,
        last_refill = now \<rparr> | Some b \<Rightarrow> b))"
  by (auto simp: touch_def map_add_def fun_eq_iff delete_conv' dom_map_of_conv_image_fst
      split: option.splits)

lemma keys_touch: "map fst (touch s key now bs) = filter (\<lambda>k. k \<noteq> key) (map fst bs) @ [key]"
proof (cases "map_of bs key")
  case None
  then have "key \<notin> set (map fst bs)" by (simp add: map_of_eq_None_iff)
  then have "filter (\<lambda>k. k \<noteq> key) (map fst bs) = map fst bs"
    by (metis (mono_tags, lifting) filter_True)
  with None show ?thesis by (simp add: touch_def)
next
  case (Some b)
  have "filter (\<lambda>k. key \<noteq> k) (map fst bs) = filter (\<lambda>k. k \<noteq> key) (map fst bs)"
    by (rule filter_cong) auto
  with Some show ?thesis by (simp add: touch_def delete_keys removeAll_filter_not_eq)
qed

lemma length_filter_key:
  "distinct ks \<Longrightarrow> length (filter (\<lambda>k. k \<noteq> key) ks) = (if key \<in> set ks then length ks - 1 else length ks)"
  by (induction ks) (auto simp: Suc_diff_le dest: length_pos_if_in_set)

text \<open>One request: the bucket used, what happens to it, and the buckets of the other identities.\<close>

lemma check_and_consume_step:
  assumes "check_and_consume s key now = Some (ok, s')" "inmem_inv t s"
  obtains bs1 b b' where "evict s key = Some bs1" "allow b now = (ok, b')"
    "b = (case map_of bs1 key of None \<Rightarrow> \<lparr> capacity = burst s, tokens = burst s, refill_rate = rps s,
            last_refill = now \<rparr> | Some b \<Rightarrow> b)"
    "map_of (buckets s') = (map_of bs1)(key \<mapsto> b')"
    "map fst (buckets s') = filter (\<lambda>k. k \<noteq> key) (map fst bs1) @ [key]"
    "rps s' = rps s" "burst s' = burst s" "max_keys s' = max_keys s"
proof -
  from assms(1) obtain bs1 where e: "evict s key = Some bs1"
    by (auto simp: check_and_consume_def split: option.splits)
  let ?b = "case map_of bs1 key of None \<Rightarrow> \<lparr> capacity = burst s, tokens = burst s, refill_rate = rps s,
            last_refill = now \<rparr> | Some b \<Rightarrow> b"
  obtain ok1 b' where a: "allow ?b now = (ok1, b')" by (cases "allow ?b now")
  have r: "ok1 = ok" "s' = s\<lparr> buckets := AList.update key b' (touch s key now bs1) \<rparr>"
    using assms(1) a by (simp_all add: check_and_consume_def e map_of_touch Let_def)
  have "map_of (buckets s') = (map_of bs1)(key \<mapsto> b')"
    by (simp add: r(2) update_conv' map_of_touch)
  moreover have "map fst (buckets s') = filter (\<lambda>k. k \<noteq> key) (map fst bs1) @ [key]"
    by (simp add: r(2) update_keys keys_touch del: set_map)
  ultimately show ?thesis using that [OF e _ refl] a r by simp
qed

lemma map_of_mono:
  "\<lbrakk> distinct (map fst bs); set as \<subseteq> set bs; map_of as k = Some b \<rbrakk> \<Longrightarrow> map_of bs k = Some b"
  by (meson map_of_SomeD map_of_eq_Some_iff subsetD)

lemma check_and_consume_inv:
  assumes "check_and_consume s key now = Some (ok, s')" "inmem_inv t s" "t \<le> now"
  shows "inmem_inv now s'"
proof -
  have i: "0 \<le> rps s" "1 \<le> burst s" "1 \<le> max_keys s" "distinct (map fst (buckets s))"
    "\<And>k b. map_of (buckets s) k = Some b \<Longrightarrow> bucket_ok s t b"
    using assms(2) by (auto simp: inmem_inv_def)
  obtain bs1 b b' where c: "evict s key = Some bs1" "allow b now = (ok, b')"
    "b = (case map_of bs1 key of None \<Rightarrow> \<lparr> capacity = burst s, tokens = burst s, refill_rate = rps s,
            last_refill = now \<rparr> | Some b \<Rightarrow> b)"
    "map_of (buckets s') = (map_of bs1)(key \<mapsto> b')"
    "map fst (buckets s') = filter (\<lambda>k. k \<noteq> key) (map fst bs1) @ [key]"
    "rps s' = rps s" "burst s' = burst s" "max_keys s' = max_keys s"
    by (rule check_and_consume_step [OF assms(1,2)])
  note ev = evict_props [OF c(1) assms(2)]
  have old: "bucket_ok s t x" if "map_of bs1 k = Some x" for k x
    using i(4,5) ev map_of_mono [OF i(4) _ that] by blast
  have bok: "bucket_ok s' x y \<longleftrightarrow> bucket_ok s x y" for x y by (simp add: bucket_ok_def c)
  have "bucket_ok s now b"
    using old bucket_ok_later [OF _ assms(3)] i(2) by (auto simp: c(3) bucket_ok_new split: option.splits)
  then have b': "bucket_ok s now b'" using bucket_ok_allow [of s now b now] i c(2) by simp
  have "length (buckets s') = length (filter (\<lambda>k. k \<noteq> key) (map fst bs1)) + 1"
    using c(5) by (metis length_append_singleton length_map Suc_eq_plus1)
  also have "\<dots> = (if key \<in> set (map fst bs1) then length bs1 else length bs1 + 1)"
    using ev length_filter_key [of "map fst bs1" key]
    by (cases bs1) (auto simp del: filter.simps)
  finally have "int (length (buckets s')) \<le> max_keys s"
    using ev by (auto split: if_splits)
  moreover have "distinct (map fst (buckets s'))" using ev by (simp add: c(5))
  moreover have "bucket_ok s' now x" if "map_of (buckets s') k = Some x" for k x
    using that b' bucket_ok_later [OF old assms(3)] by (auto simp: c(4) bok split: if_splits)
  ultimately show ?thesis using i c by (simp add: inmem_inv_def)
qed

lemma check_and_consume_total: "inmem_inv t s \<Longrightarrow> \<exists>ok s'. check_and_consume s key now = Some (ok, s')"
  by (auto simp: check_and_consume_def evict_def inmem_inv_def Let_def split: list.splits prod.splits)

section \<open>Runs of requests\<close>

text \<open>How many requests of the identity \<open>k\<close> a sequence of requests gets admitted.\<close>

fun admitted :: "string \<Rightarrow> inmem \<Rightarrow> (string \<times> rat) list \<Rightarrow> nat" where
  "admitted k s [] = 0"
| "admitted k s ((key, now) # rs) =
     (case check_and_consume s key now of
        None \<Rightarrow> 0
      | Some (ok, s') \<Rightarrow> (if ok \<and> key = k then 1 else 0) + admitted k s' rs)"

fun run_requests :: "inmem \<Rightarrow> (string \<times> rat) list \<Rightarrow> inmem option" where
  "run_requests s [] = Some s"
| "run_requests s ((key, now) # rs) =
     (case check_and_consume s key now of None \<Rightarrow> None | Some (ok, s') \<Rightarrow> run_requests s' rs)"

text \<open>While the identities fit the table nobody is evicted.\<close>

definition keys_within :: "string set \<Rightarrow> inmem \<Rightarrow> bool" where
  "keys_within K s \<longleftrightarrow> fst ` set (buckets s) \<subseteq> K \<and> finite K \<and> int (card K) \<le> max_keys s"

lemma no_eviction:
  assumes "keys_within K s" "distinct (map fst (buckets s))" "key \<in> K"
  shows "evict s key = Some (buckets s)"
proof (cases "key \<in> fst ` set (buckets s)")
  case False
  have "length (buckets s) = card (fst ` set (buckets s))"
    using assms(2) by (metis distinct_card length_map set_map)
  also have "\<dots> < card K"
    using assms False by (intro psubset_card_mono) (auto simp: keys_within_def)
  finally show ?thesis using assms(1) by (simp add: evict_def keys_within_def)
qed (simp add: evict_def)

text \<open>What the identity \<open>k\<close> may still be admitted until the time \<open>T\<close>, seen from time \<open>t\<close>.\<close>

definition credit :: "string \<Rightarrow> rat \<Rightarrow> rat \<Rightarrow> inmem \<Rightarrow> rat" where
  "credit k T t s =
     (case map_of (buckets s) k of
        None \<Rightarrow> burst s + (T - t) * rps s
      | Some b \<Rightarrow> tokens b + (T - last_refill b) * rps s)"

lemma credit_step:
  assumes "check_and_consume s key now = Some (ok, s')" "inmem_inv t s" "t \<le> now"
    and "keys_within K s" "key \<in> K"
  shows "(if ok \<and> key = k then 1 else 0) + credit k T now s' \<le> credit k T t s \<and> keys_within K s'"
proof -
  have d: "distinct (map fst (buckets s))" "0 \<le> rps s"
    and okb: "\<And>b. map_of (buckets s) k = Some b \<Longrightarrow> refill_rate b = rps s"
    using assms(2) by (auto simp: inmem_inv_def bucket_ok_def)
  obtain bs1 b b' where c: "evict s key = Some bs1" "allow b now = (ok, b')"
    "b = (case map_of bs1 key of None \<Rightarrow> \<lparr> capacity = burst s, tokens = burst s, refill_rate = rps s,
            last_refill = now \<rparr> | Some b \<Rightarrow> b)"
    "map_of (buckets s') = (map_of bs1)(key \<mapsto> b')"
    "map fst (buckets s') = filter (\<lambda>k. k \<noteq> key) (map fst bs1) @ [key]"
    "rps s' = rps s" "burst s' = burst s" "max_keys s' = max_keys s"
    by (rule check_and_consume_step [OF assms(1,2)])
  have bs1: "bs1 = buckets s" using c(1) no_eviction [OF assms(4) d(1) assms(5)] by simp
  have "set (map fst (buckets s')) \<subseteq> K"
    using assms(4,5) by (auto simp: c(5) bs1 keys_within_def)
  then have "fst ` set (buckets s') \<subseteq> K" by simp
  then have kw: "keys_within K s'" using assms(4) c(8) by (simp add: keys_within_def)
  have mono: "(T - now) * rps s \<le> (T - t) * rps s"
    using assms(3) d(2) by (intro mult_right_mono) auto
  have step: "(if ok then 1 else 0) + (tokens b' + (T - now) * rps s)
      \<le> tokens b + (now - last_refill b) * refill_rate b + (T - now) * rps s"
    using allow_cost [OF c(2)] by simp
  have "(if ok \<and> key = k then 1 else 0) + credit k T now s' \<le> credit k T t s"
  proof (cases "key = k")
    case True
    have lr: "last_refill b' = now" using allow_cost [OF c(2)] by simp
    show ?thesis
    proof (cases "map_of (buckets s) k")
      case None
      then show ?thesis using step mono lr True c bs1 by (simp add: credit_def)
    next
      case (Some x)
      then have "refill_rate b = rps s" "b = x" using okb True c(3) bs1 by auto
      then show ?thesis using step lr True c bs1 Some by (simp add: credit_def algebra_simps)
    qed
  next
    case False
    then show ?thesis using c bs1 mono by (simp add: credit_def split: option.splits)
  qed
  with kw show ?thesis by blast
qed

lemma admitted_credit:
  assumes "inmem_inv t s" "keys_within K s" "fst ` set rs \<subseteq> K" "sorted (t # map snd rs)"
    and "\<forall>r\<in>set rs. snd r \<le> T" "t \<le> T"
  shows "of_nat (admitted k s rs) \<le> credit k T t s"
  using assms
proof (induction rs arbitrary: s t)
  case Nil
  then have "0 \<le> rps s" "1 \<le> burst s"
    and "\<And>b. map_of (buckets s) k = Some b \<Longrightarrow> 0 \<le> tokens b \<and> last_refill b \<le> t"
    by (auto simp: inmem_inv_def bucket_ok_def)
  with \<open>t \<le> T\<close> show ?case
    by (fastforce simp: credit_def split: option.splits intro!: add_nonneg_nonneg mult_nonneg_nonneg)
next
  case (Cons r rs)
  obtain key now where r: "r = (key, now)" by (cases r)
  obtain ok s' where c: "check_and_consume s key now = Some (ok, s')"
    using check_and_consume_total [OF Cons.prems(1)] by blast
  have t: "t \<le> now" "key \<in> K" using Cons.prems r by auto
  note st = credit_step [OF c Cons.prems(1) t(1) Cons.prems(2) t(2), of k T]
  have "of_nat (admitted k s' rs) \<le> credit k T now s'"
    using Cons.prems r check_and_consume_inv [OF c Cons.prems(1) t(1)] st
    by (intro Cons.IH) auto
  with st c r show ?case by (auto split: if_splits)
qed

lemma run_requests_inv:
  assumes "inmem_inv t s" "sorted (t # map snd rs)"
  shows "\<exists>s' t'. run_requests s rs = Some s' \<and> inmem_inv t' s'"
  using assms
proof (induction rs arbitrary: s t)
  case Nil
  then show ?case by auto
next
  case (Cons r rs)
  obtain key now where r: "r = (key, now)" by (cases r)
  obtain ok s' where c: "check_and_consume s key now = Some (ok, s')"
    using check_and_consume_total [OF Cons.prems(1)] by blast
  have "inmem_inv now s'" using check_and_consume_inv [OF c Cons.prems(1)] Cons.prems r by simp
  then show ?case using Cons.IH [of now s'] Cons.prems r c by auto
qed

lemma inmem_inv_init: "\<lbrakk> 1 \<le> mk \<rbrakk> \<Longrightarrow> inmem_inv t (backend (limiter_init en r b mk))"
  by (simp add: inmem_inv_def limiter_init_def)

section \<open>Properties\<close>

text \<open>
  C4. The rate limit of the in-memory backend holds as long as nobody is evicted (an identity that was starts again with a
  full bucket): from a freshly started limiter, for any interleaving of requests of at
  most \<^verbatim>\<open>max_keys\<close> identities at non-decreasing times between \<open>t\<close> and \<open>T\<close>, no identity is admitted more
  than the burst capacity plus the rate times the elapsed time (both at least one).
\<close>

theorem admitted_bounded:
  assumes "1 \<le> mk" "finite K" "int (card K) \<le> mk" "fst ` set rs \<subseteq> K" "sorted (t # map snd rs)"
    and "\<forall>q\<in>set rs. snd q \<le> T" "t \<le> T"
  shows "of_nat (admitted k (backend (limiter_init True r b mk)) rs) \<le> max 1 b + (T - t) * max 1 r"
proof -
  let ?s = "backend (limiter_init True r b mk)"
  have "keys_within K ?s" using assms by (simp add: keys_within_def limiter_init_def)
  then have "of_nat (admitted k ?s rs) \<le> credit k T t ?s"
    using assms inmem_inv_init [OF assms(1)] by (intro admitted_credit) auto
  then show ?thesis by (simp add: credit_def limiter_init_def)
qed

theorem admitted_bounded_witness:
  "admitted ''10.0.0.1'' (backend (limiter_init True 1 2 100))
     [(''10.0.0.1'', 0), (''10.0.0.1'', 0), (''10.0.0.1'', 0), (''10.0.0.2'', 1), (''10.0.0.1'', 1)] = 3
   \<and> (3::rat) \<le> max 1 2 + (1 - 0) * max 1 1"
proof -
  let ?rs = "[(''10.0.0.1'', 0), (''10.0.0.1'', 0), (''10.0.0.1'', 0), (''10.0.0.2'', 1), (''10.0.0.1'', 1::rat)]"
  have a: "admitted ''10.0.0.1'' (backend (limiter_init True 1 2 100)) ?rs = 3"
    by code_simp
  have "of_nat (admitted ''10.0.0.1'' (backend (limiter_init True 1 2 100)) ?rs) \<le> max 1 2 + (1 - 0) * max 1 (1::rat)"
    by (rule admitted_bounded [where K = "{''10.0.0.1'', ''10.0.0.2''}"]) auto
  with a show ?thesis by simp
qed

text \<open>
  Memory is bounded and requests never fail: from a fresh limiter with at least one slot, every
  sequence of requests at non-decreasing times, from any number of identities, is processed, and
  afterwards at most \<^verbatim>\<open>max_keys\<close> identities are tracked, each once, with between zero and burst tokens.
\<close>

theorem tracked_keys_bounded:
  assumes "1 \<le> mk" "sorted (t # map snd rs)"
  shows "\<exists>s. run_requests (backend (limiter_init True r b mk)) rs = Some s \<and>
    int (length (buckets s)) \<le> mk \<and> distinct (map fst (buckets s)) \<and>
    (\<forall>k bk. map_of (buckets s) k = Some bk \<longrightarrow> 0 \<le> tokens bk \<and> tokens bk \<le> max 1 b)"
proof -
  have frame: "max_keys s' = max_keys s \<and> burst s' = burst s" if "run_requests s rs = Some s'" for s s' rs
    using that
    by (induction s rs rule: run_requests.induct)
      (auto simp: check_and_consume_def Let_def split: option.splits prod.splits)
  obtain s t' where s: "run_requests (backend (limiter_init True r b mk)) rs = Some s" "inmem_inv t' s"
    using run_requests_inv [OF inmem_inv_init assms(2)] assms(1) by blast
  with frame [OF s(1)] show ?thesis
    by (auto simp: inmem_inv_def bucket_ok_def limiter_init_def)
qed

theorem tracked_keys_bounded_witness:
  "\<exists>s. run_requests (backend (limiter_init True 1 2 1)) [(''a'', 0), (''b'', 1), (''c'', 2)] = Some s \<and>
     int (length (buckets s)) \<le> 1"
proof -
  have "sorted ((0::rat) # map snd [(''a'', 0), (''b'', 1), (''c'', 2)])" by simp
  from tracked_keys_bounded [OF _ this, of 1 1 2] show ?thesis by auto
qed

text \<open>
  The advertised retry time is enough: after a refused request, waiting exactly the time
  \<^verbatim>\<open>get_retry_after\<close> reports leaves a full token in the bucket, so the next request is admitted.
\<close>

theorem retry_after_suffices:
  assumes "inmem_inv t s" "map_of (buckets s) key = Some b" "t \<le> now" "0 < rps s"
  shows "1 \<le> tokens_available b (now + get_retry_after s key now)"
proof -
  have b: "capacity b = burst s" "refill_rate b = rps s" "1 \<le> burst s"
    using assms(1,2) by (auto simp: inmem_inv_def bucket_ok_def)
  show ?thesis
  proof (cases "1 \<le> tokens_available b now")
    case True
    then show ?thesis using assms(2) by (simp add: get_retry_after_def)
  next
    case False
    then have v: "tokens_available b now = tokens b + (now - last_refill b) * rps s"
      using b by (auto simp: tokens_available_def Let_def min_def split: if_splits)
    have g: "get_retry_after s key now = (1 - tokens_available b now) / rps s"
      using False assms(2,4) by (simp add: get_retry_after_def Let_def)
    have "tokens b + (now + get_retry_after s key now - last_refill b) * rps s = 1"
      unfolding g v using assms(4) by (simp add: field_simps)
    then show ?thesis using b by (simp add: tokens_available_def Let_def)
  qed
qed

theorem retry_after_suffices_witness:
  "1 \<le> tokens_available \<lparr> capacity = 1, tokens = 0, refill_rate = 2, last_refill = 5 \<rparr>
     (5 + get_retry_after \<lparr> rps = 2, burst = 1, max_keys = 1, buckets =
        [(''a'', \<lparr> capacity = 1, tokens = 0, refill_rate = 2, last_refill = 5 \<rparr>)] \<rparr> ''a'' 5)"
  by (rule retry_after_suffices [where t = 5]) (simp_all add: inmem_inv_def bucket_ok_def)

end
