(* ===== verification/Ip_Address.thy ===== *)
theory Ip_Address
  imports Prelude
begin

text \<open>
  The part of Python's \<^verbatim>\<open>ipaddress\<close> module the services rely on: IPv4 addresses and networks.
  \<open>ipv4_parse\<close> is the constructor \<^verbatim>\<open>IPv4Address(str)\<close> (four decimal octets of at most three ASCII
  digits, no leading zero, at most 255; \<open>None\<close> is the \<^verbatim>\<open>ValueError\<close>), \<open>ipv4_str\<close> is \<^verbatim>\<open>str()\<close> of an
  address given by its integer value, \<open>ipv4_network\<close> is \<^verbatim>\<open>IPv4Network(str, strict=False)\<close> for an
  address with an optional decimal prefix length. The lemmas show that parsing and printing are
  inverse to each other.
\<close>

section \<open>Decimal numerals\<close>

definition is_digit :: "char \<Rightarrow> bool" where
  "is_digit c \<longleftrightarrow> 48 \<le> (of_char c :: nat) \<and> (of_char c :: nat) \<le> 57"

definition digit_val :: "char \<Rightarrow> nat" where
  "digit_val c = of_char c - 48"

definition digit_chr :: "nat \<Rightarrow> char" where
  "digit_chr d = char_of (48 + d)"

fun dec :: "nat \<Rightarrow> string" where
  "dec n = (if n < 10 then [digit_chr n] else dec (n div 10) @ [digit_chr (n mod 10)])"

declare dec.simps [simp del]

definition dec_val :: "string \<Rightarrow> nat" where
  "dec_val s = foldl (\<lambda>a c. 10 * a + digit_val c) 0 s"

section \<open>Addresses\<close>

definition parse_octet :: "string \<Rightarrow> nat option" where
  "parse_octet s =
     (if s = [] then None
      else if \<not> list_all is_digit s then None
      else if length s > 3 then None
      else if s \<noteq> ''0'' \<and> hd s = CHR ''0'' then None
      else if dec_val s > 255 then None
      else Some (dec_val s))"

definition ipv4_parse :: "string \<Rightarrow> nat option" where
  "ipv4_parse s =
     (case labels s of
        [a, b, c, d] \<Rightarrow>
          (case (parse_octet a, parse_octet b, parse_octet c, parse_octet d) of
             (Some w, Some x, Some y, Some z) \<Rightarrow> Some (((w * 256 + x) * 256 + y) * 256 + z)
           | _ \<Rightarrow> None)
      | _ \<Rightarrow> None)"

definition ipv4_str :: "nat \<Rightarrow> string" where
  "ipv4_str n =
     py_join dot [dec (n div 256 div 256 div 256 mod 256), dec (n div 256 div 256 mod 256),
                  dec (n div 256 mod 256), dec (n mod 256)]"

section \<open>Networks\<close>

definition ipv4_prefix :: "string \<Rightarrow> nat option" where
  "ipv4_prefix s = (if s = [] \<or> \<not> list_all is_digit s \<or> dec_val s > 32 then None
                    else Some (dec_val s))"

text \<open>A network is its address and its prefix length; the host bits are cleared.\<close>

definition ipv4_network :: "string \<Rightarrow> (nat \<times> nat) option" where
  "ipv4_network s =
     (case py_split CHR ''/'' s of
        [a] \<Rightarrow> map_option (\<lambda>n. (n, 32)) (ipv4_parse a)
      | [a, p] \<Rightarrow> (case (ipv4_parse a, ipv4_prefix p) of
                    (Some n, Some k) \<Rightarrow> Some (n div 2 ^ (32 - k) * 2 ^ (32 - k), k)
                  | _ \<Rightarrow> None)
      | _ \<Rightarrow> None)"

definition ipv4_in_network :: "nat \<Rightarrow> nat \<times> nat \<Rightarrow> bool" where
  "ipv4_in_network a net \<longleftrightarrow> a div 2 ^ (32 - snd net) * 2 ^ (32 - snd net) = fst net"

definition ipv4_num_addresses :: "nat \<times> nat \<Rightarrow> nat" where
  "ipv4_num_addresses net = 2 ^ (32 - snd net)"

section \<open>Lemmas\<close>

lemma of_digit_chr: "d < 10 \<Longrightarrow> (of_char (digit_chr d) :: nat) = 48 + d"
  by (simp add: digit_chr_def of_char_of)

lemma digit_val_chr [simp]: "d < 10 \<Longrightarrow> digit_val (digit_chr d) = d"
  by (simp add: digit_val_def of_digit_chr)

lemma is_digit_chr [simp]: "d < 10 \<Longrightarrow> is_digit (digit_chr d)"
  by (simp add: is_digit_def of_digit_chr)

lemma digit_chr_val: "is_digit c \<Longrightarrow> digit_chr (digit_val c) = c \<and> digit_val c < 10"
  by (auto simp: is_digit_def digit_val_def digit_chr_def)

lemma dec_val_snoc [simp]: "dec_val (s @ [c]) = 10 * dec_val s + digit_val c"
  by (simp add: dec_val_def)

lemma dec_val_Nil [simp]: "dec_val [] = 0"
  by (simp add: dec_val_def)

lemma dec_val_single [simp]: "dec_val [c] = digit_val c"
  using dec_val_snoc [of "[]" c] by simp

lemma dec_val_dec [simp]: "dec_val (dec n) = n"
proof (induction n rule: dec.induct)
  case (1 n)
  then show ?case
    by (cases "n < 10") (simp_all add: dec.simps [of n])
qed

lemma dec_digits: "list_all is_digit (dec n)"
proof (induction n rule: dec.induct)
  case (1 n)
  then show ?case
    by (cases "n < 10") (simp_all add: dec.simps [of n])
qed

lemma dec_not_Nil [simp]: "dec n \<noteq> []"
  by (subst dec.simps) simp

lemma dec_hd: "0 < n \<Longrightarrow> hd (dec n) \<noteq> CHR ''0''"
proof (induction n rule: dec.induct)
  case (1 n)
  show ?case
  proof (cases "n < 10")
    case True
    have "digit_chr n \<noteq> CHR ''0''"
      using True 1(2) of_digit_chr [of n] by auto
    with True show ?thesis by (simp add: dec.simps [of n])
  next
    case False
    with 1 show ?thesis by (simp add: dec.simps [of n])
  qed
qed

lemma digit_val_0 [simp]: "digit_val CHR ''0'' = 0"
  by (simp add: digit_val_def)

lemma digit_chr_0 [simp]: "digit_chr 0 = CHR ''0''"
  using digit_chr_val [of "CHR ''0''"] by (simp add: is_digit_def)

lemma dec_0 [simp]: "dec 0 = ''0''"
  by (simp add: dec.simps)

text \<open>A digit string without superfluous leading zero is the numeral of its value.\<close>

lemma dec_val_pos: "\<lbrakk> list_all is_digit s; s \<noteq> []; hd s \<noteq> CHR ''0'' \<rbrakk> \<Longrightarrow> 0 < dec_val s"
proof (induction s rule: rev_induct)
  case (snoc c s)
  show ?case
  proof (cases s)
    case Nil
    with snoc.prems have "is_digit c" "c \<noteq> CHR ''0''" by auto
    then have "digit_val c \<noteq> 0" using digit_chr_val [of c] by (metis digit_chr_0)
    with Nil show ?thesis by simp
  next
    case (Cons a t)
    then have "0 < dec_val s" using snoc by (auto simp: list_all_append)
    then show ?thesis by simp
  qed
qed simp

lemma dec_dec_val:
  "\<lbrakk> list_all is_digit s; s \<noteq> []; hd s \<noteq> CHR ''0'' \<or> s = ''0'' \<rbrakk> \<Longrightarrow> dec (dec_val s) = s"
proof (induction s rule: rev_induct)
  case (snoc c s)
  have c: "digit_chr (digit_val c) = c" "digit_val c < 10"
    using snoc.prems digit_chr_val [of c] by (auto simp: list_all_append)
  show ?case
  proof (cases "s = []")
    case True
    with c show ?thesis by (simp add: dec.simps)
  next
    case False
    with snoc.prems have s: "list_all is_digit s" "hd s \<noteq> CHR ''0''"
      by (auto simp: list_all_append append_eq_Cons_conv)
    then have "0 < dec_val s" using False dec_val_pos by blast
    with False s snoc.IH c show ?thesis
      by (simp add: dec.simps [of "10 * dec_val s + digit_val c"])
  qed
qed simp

lemma dec_length_octet: "n < 256 \<Longrightarrow> length (dec n) \<le> 3"
proof -
  have small: "m < 10 \<Longrightarrow> length (dec m) = 1" for m by (simp add: dec.simps [of m])
  have mid: "m < 100 \<Longrightarrow> length (dec m) \<le> 2" for m
    using small [of "m div 10"] by (cases "m < 10") (simp_all add: small dec.simps [of m])
  assume "n < 256"
  then show ?thesis
    using mid [of "n div 10"] by (cases "n < 10") (simp_all add: small dec.simps [of n])
qed

lemma parse_octet_iff: "parse_octet s = Some n \<longleftrightarrow> n < 256 \<and> s = dec n"
proof
  assume "parse_octet s = Some n"
  then show "n < 256 \<and> s = dec n"
    by (auto simp: parse_octet_def dec_dec_val split: if_splits)
next
  assume n: "n < 256 \<and> s = dec n"
  have "hd (dec n) \<noteq> CHR ''0'' \<or> dec n = ''0''"
    using dec_hd [of n] by (cases "n = 0") auto
  with n dec_length_octet [of n] show "parse_octet s = Some n"
    by (auto simp: parse_octet_def dec_digits)
qed

lemma digit_not_dot: "is_digit c \<Longrightarrow> c \<noteq> dot"
  by (auto simp: is_digit_def)

lemma dot_notin_dec [simp]: "dot \<notin> set (dec n)"
  using dec_digits [of n] by (auto simp: list_all_iff dest: digit_not_dot)

lemma labels_ipv4_str: "labels (ipv4_str n) =
    [dec (n div 256 div 256 div 256 mod 256), dec (n div 256 div 256 mod 256),
     dec (n div 256 mod 256), dec (n mod 256)]"
  unfolding labels_def ipv4_str_def by (rule py_split_join) auto

lemma octets_eq:
  fixes n :: nat
  assumes "n < 2 ^ 32"
  shows "((n div 256 div 256 div 256 mod 256 * 256 + n div 256 div 256 mod 256) * 256
           + n div 256 mod 256) * 256 + n mod 256 = n"
proof -
  have "n div 256 div 256 div 256 < 256"
    using assms by (simp add: div_mult2_eq [symmetric] less_mult_imp_div_less)
  then show ?thesis by simp
qed

lemma octets_split:
  fixes w x y z :: nat
  assumes "w < 256" "x < 256" "y < 256" "z < 256"
  defines "n \<equiv> ((w * 256 + x) * 256 + y) * 256 + z"
  shows "n < 2 ^ 32" "n mod 256 = z" "n div 256 mod 256 = y"
    "n div 256 div 256 mod 256 = x" "n div 256 div 256 div 256 mod 256 = w"
proof -
  have d: "n div 256 = (w * 256 + x) * 256 + y" "n div 256 div 256 = w * 256 + x"
    "n div 256 div 256 div 256 = w"
    using assms by (simp_all add: n_def div_mult1_eq)
  show "n < 2 ^ 32" using assms by (simp add: n_def)
  show "n mod 256 = z" using assms(4) unfolding n_def by (simp only: mod_mult_self3 mod_less)
  show "n div 256 mod 256 = y" using assms(3) unfolding d by (simp only: mod_mult_self3 mod_less)
  show "n div 256 div 256 mod 256 = x"
    using assms(2) by (simp only: d(2) mod_mult_self3 mod_less)
  show "n div 256 div 256 div 256 mod 256 = w" using assms(1) by (simp only: d(3) mod_less)
qed

text \<open>Parsing succeeds exactly on the printed form of an address below $2^{32}$.\<close>

lemma ipv4_parse_iff: "ipv4_parse s = Some n \<longleftrightarrow> n < 2 ^ 32 \<and> s = ipv4_str n"
proof
  assume "ipv4_parse s = Some n"
  then obtain a b c d w x y z where
    l: "labels s = [a, b, c, d]" and n: "n = ((w * 256 + x) * 256 + y) * 256 + z"
    and o: "parse_octet a = Some w" "parse_octet b = Some x" "parse_octet c = Some y"
           "parse_octet d = Some z"
    by (auto simp: ipv4_parse_def split: list.splits option.splits)
  then have b: "w < 256" "x < 256" "y < 256" "z < 256"
    and e: "a = dec w" "b = dec x" "c = dec y" "d = dec z"
    by (auto simp: parse_octet_iff)
  note sp = octets_split [OF b, folded n]
  have "s = py_join dot [a, b, c, d]" using l by (metis join_labels)
  also have "\<dots> = ipv4_str n" by (simp only: ipv4_str_def sp e)
  finally show "n < 2 ^ 32 \<and> s = ipv4_str n" using sp(1) by simp
next
  assume a: "n < 2 ^ 32 \<and> s = ipv4_str n"
  have o: "parse_octet (dec (m mod 256)) = Some (m mod 256)" for m
    by (simp add: parse_octet_iff)
  show "ipv4_parse s = Some n"
    using a octets_eq [of n] by (simp add: ipv4_parse_def labels_ipv4_str o)
qed

lemma ipv4_parse_str [simp]: "n < 2 ^ 32 \<Longrightarrow> ipv4_parse (ipv4_str n) = Some n"
  by (simp add: ipv4_parse_iff)

lemma ipv4_str_inject: "\<lbrakk> m < 2 ^ 32; n < 2 ^ 32 \<rbrakk> \<Longrightarrow> ipv4_str m = ipv4_str n \<longleftrightarrow> m = n"
  by (metis ipv4_parse_str option.inject)

lemma ipv4_parse_bound: "ipv4_parse s = Some n \<Longrightarrow> n < 2 ^ 32"
  by (simp add: ipv4_parse_iff)

lemma ipv4_single_network:
  assumes "ipv4_network s = Some net" "ipv4_num_addresses net = 1"
  shows "ipv4_in_network a net \<longleftrightarrow> a = fst net"
proof -
  have "(2::nat) ^ (32 - snd net) = 1" using assms(2) by (simp add: ipv4_num_addresses_def)
  then show ?thesis by (simp add: ipv4_in_network_def)
qed

lemma ipv4_network_bound: "ipv4_network s = Some net \<Longrightarrow> fst net < 2 ^ 32"
proof -
  assume "ipv4_network s = Some net"
  then have "\<exists>a n. ipv4_parse a = Some n \<and> fst net \<le> n"
    by (fastforce simp: ipv4_network_def div_times_less_eq_dividend split: list.splits option.splits)
  then show ?thesis using ipv4_parse_bound by fastforce
qed

end
