(* ===== verification/Rate_Valkey.thy ===== *)
theory Rate_Valkey
  imports Rate_Limiter Ip_Address
begin

text \<open>
  The distributed backend of the rate limiter (\<^verbatim>\<open>ValKeyBackend\<close> in
  \<^verbatim>\<open>dns-server/app/services/rate_limiter.py\<close>): one counter per identity and window in a Redis store.

  The Redis client is a parameter, a record of the three operations the backend calls (\<open>None\<close> is an
  exception), over a store of any type; what the backend relies on is the locale \<open>counter_store\<close>. Times are
  rationals and not negative, so that \<^verbatim>\<open>int()\<close> rounds down.
\<close>

section \<open>The backend\<close>

record 'r counter_ops =
  co_incr :: "rat \<Rightarrow> 'r \<Rightarrow> string \<Rightarrow> (int \<times> 'r) option"
  co_expire :: "rat \<Rightarrow> 'r \<Rightarrow> string \<Rightarrow> int \<Rightarrow> 'r option"
  co_get :: "rat \<Rightarrow> 'r \<Rightarrow> string \<Rightarrow> int option option"

record valkey =
  vk_rps :: rat
  vk_window_size :: int

definition max_requests :: "valkey \<Rightarrow> int" where
  "max_requests v = max 1 \<lfloor>vk_rps v * of_int (vk_window_size v)\<rfloor>"

definition window_index :: "valkey \<Rightarrow> rat \<Rightarrow> nat" where
  "window_index v now = nat \<lfloor>now / of_int (vk_window_size v)\<rfloor>"

definition window_key :: "string \<Rightarrow> nat \<Rightarrow> string" where
  "window_key key n = ''rate_limit:'' @ key @ CHR '':'' # dec n"

text \<open>An exception denies the request; what the store did before it stays.\<close>

definition vk_check_and_consume ::
  "'r counter_ops \<Rightarrow> valkey \<Rightarrow> 'r \<Rightarrow> string \<Rightarrow> rat \<Rightarrow> bool \<times> 'r" where
  "vk_check_and_consume ops v r key now =
     (let wk = window_key key (window_index v now) in
      case co_incr ops now r wk of
        None \<Rightarrow> (False, r)
      | Some (count, r1) \<Rightarrow>
          (if count = 1
           then (case co_expire ops now r1 wk (vk_window_size v + 1) of
                   None \<Rightarrow> (False, r1) | Some r2 \<Rightarrow> (count \<le> max_requests v, r2))
           else (count \<le> max_requests v, r1)))"

definition rat_mod :: "rat \<Rightarrow> int \<Rightarrow> rat" where
  "rat_mod x w = x - of_int (w * \<lfloor>x / of_int w\<rfloor>)"

definition vk_get_retry_after :: "'r counter_ops \<Rightarrow> valkey \<Rightarrow> 'r \<Rightarrow> string \<Rightarrow> rat \<Rightarrow> rat" where
  "vk_get_retry_after ops v r key now =
     (case co_get ops now r (window_key key (window_index v now)) of
        None \<Rightarrow> 0
      | Some None \<Rightarrow> 0
      | Some (Some count) \<Rightarrow>
          (if count < max_requests v then 0
           else of_int (vk_window_size v) - rat_mod now (vk_window_size v) + 1 / 10))"

record 'r vk_limiter =
  vl_enabled :: bool
  vl_backend :: valkey
  vl_store :: 'r
  vl_request_counter :: nat
  vl_limited_counter :: nat

definition vk_limiter_init :: "bool \<Rightarrow> rat \<Rightarrow> 'r \<Rightarrow> 'r vk_limiter" where
  "vk_limiter_init en r store =
     \<lparr> vl_enabled = en, vl_backend = \<lparr> vk_rps = max 1 r, vk_window_size = 1 \<rparr>, vl_store = store,
       vl_request_counter = 0, vl_limited_counter = 0 \<rparr>"

definition vk_check_limit ::
  "'r counter_ops \<Rightarrow> 'r vk_limiter \<Rightarrow> string option \<Rightarrow> string option \<Rightarrow> string option \<Rightarrow> string option \<Rightarrow> rat \<Rightarrow>
   (bool \<times> rat) \<times> 'r vk_limiter" where
  "vk_check_limit ops l identity token_identity spiffe_id client_ip now =
     (if \<not> vl_enabled l then ((True, 0), l)
      else (let key = limit_key identity token_identity spiffe_id client_ip;
                (allowed, store) = vk_check_and_consume ops (vl_backend l) (vl_store l) key now;
                l1 = l\<lparr> vl_request_counter := vl_request_counter l + 1, vl_store := store \<rparr>
            in if \<not> allowed
               then ((False, vk_get_retry_after ops (vl_backend l) store key now),
                     l1\<lparr> vl_limited_counter := vl_limited_counter l1 + 1 \<rparr>)
               else ((True, 0), l1)))"

text \<open>Requests of identities at given times, with the decisions in order.\<close>

fun vk_run :: "'r counter_ops \<Rightarrow> valkey \<Rightarrow> (string \<times> rat) list \<Rightarrow> 'r \<Rightarrow> bool list \<times> 'r" where
  "vk_run ops v [] r = ([], r)"
| "vk_run ops v ((key, now) # reqs) r =
     (case vk_check_and_consume ops v r key now of
        (ok, r') \<Rightarrow> (case vk_run ops v reqs r' of (oks, r'') \<Rightarrow> (ok # oks, r'')))"

section \<open>Window keys\<close>

lemma dec_no_colon: "CHR '':'' \<notin> set (dec n)"
  using dec_digits [of n] by (auto simp: list_all_iff is_digit_def)

lemma window_key_inject: "window_key k n = window_key k' n' \<longleftrightarrow> k = k' \<and> n = n'"
proof
  assume "window_key k n = window_key k' n'"
  then have e: "k @ CHR '':'' # dec n = k' @ CHR '':'' # dec n'" by (simp add: window_key_def)
  have s: "takeWhile (\<lambda>c. c \<noteq> CHR '':'') (rev (x @ CHR '':'' # dec m)) = rev (dec m)" for x m
    unfolding rev_append using dec_no_colon [of m] by (simp, subst takeWhile_append2) auto
  from s [of k n] s [of k' n'] e have "dec n = dec n'" by simp
  then show "k = k' \<and> n = n'" using e by (metis append_same_eq dec_val_dec)
qed simp

section \<open>What the store promises\<close>

text \<open>
  \<open>seen t r k\<close> is the counter of \<open>k\<close> at time \<open>t\<close>, zero when there is none, and \<open>deadline r k\<close> the time at which
  it goes. Incrementing creates or increases one counter; expiring sets the deadline of one.
\<close>

locale counter_store =
  fixes ops :: "'r counter_ops" and seen :: "rat \<Rightarrow> 'r \<Rightarrow> string \<Rightarrow> int" and deadline :: "'r \<Rightarrow> string \<Rightarrow> rat option"
  assumes seen_nonneg: "0 \<le> seen t r k"
    and seen_later: "\<lbrakk> t \<le> t'; \<forall>d. deadline r k = Some d \<longrightarrow> t' < d \<rbrakk> \<Longrightarrow> seen t' r k = seen t r k"
    and incr_count: "co_incr ops t r k = Some (c, r') \<Longrightarrow> c = seen t r k + 1 \<and> seen t r' k = c"
    and incr_deadline: "\<lbrakk> co_incr ops t r k = Some (c, r'); c \<noteq> 1 \<rbrakk> \<Longrightarrow> deadline r' k = deadline r k"
    and incr_fresh: "co_incr ops t r k = Some (1, r') \<Longrightarrow> deadline r' k = None"
    and incr_other: "\<lbrakk> co_incr ops t r k = Some (c, r'); j \<noteq> k \<rbrakk> \<Longrightarrow> seen t r' j = seen t r j \<and> deadline r' j = deadline r j"
    and expire_seen: "\<lbrakk> co_expire ops t r k s = Some r'; 0 < s \<rbrakk> \<Longrightarrow> seen t r' j = seen t r j"
    and expire_deadline: "co_expire ops t r k s = Some r' \<Longrightarrow>
      deadline r' j = (if j = k \<and> seen t r k \<noteq> 0 then Some (t + of_int s) else deadline r j)"
begin

text \<open>A window begins at \<open>t0\<close>; its counter lives at least to the end of the window.\<close>

definition window_safe :: "valkey \<Rightarrow> rat \<Rightarrow> 'r \<Rightarrow> string \<Rightarrow> bool" where
  "window_safe v t0 r wk \<longleftrightarrow> (\<forall>d. deadline r wk = Some d \<longrightarrow> t0 + of_int (vk_window_size v) < d)"

lemma check_own:
  assumes "vk_check_and_consume ops v r key now = (ok, r')" "wk = window_key key (window_index v now)"
    and "window_safe v t0 r wk" "t0 \<le> now" "0 < vk_window_size v"
  shows "window_safe v t0 r' wk \<and> seen now r wk \<le> seen now r' wk
    \<and> (ok \<longrightarrow> seen now r' wk = seen now r wk + 1 \<and> seen now r' wk \<le> max_requests v)"
proof (cases "co_incr ops now r wk")
  case None
  then show ?thesis using assms(1-3) by (simp add: vk_check_and_consume_def Let_def)
next
  case (Some p)
  then obtain c r1 where i: "co_incr ops now r wk = Some (c, r1)" by (cases p) auto
  note ic = incr_count [OF i]
  have s1: "window_safe v t0 r1 wk"
  proof (cases "c = 1")
    case True
    then show ?thesis using incr_fresh i by (simp add: window_safe_def)
  next
    case False
    then show ?thesis using incr_deadline [OF i] assms(3) by (simp add: window_safe_def)
  qed
  show ?thesis
  proof (cases "c = 1 \<and> co_expire ops now r1 wk (vk_window_size v + 1) \<noteq> None")
    case True
    then obtain r2 where e: "co_expire ops now r1 wk (vk_window_size v + 1) = Some r2" by auto
    have "seen now r2 wk = seen now r1 wk" using expire_seen [OF e] assms(5) by simp
    moreover have "deadline r2 wk = Some (now + of_int (vk_window_size v + 1))"
      using expire_deadline [OF e, of wk] ic True by simp
    ultimately show ?thesis using assms(1,2,4) i e True ic
      by (auto simp: vk_check_and_consume_def Let_def window_safe_def)
  next
    case False
    then show ?thesis using assms(1,2) i ic s1 by (auto simp: vk_check_and_consume_def Let_def split: if_splits)
  qed
qed

lemma check_other:
  assumes "vk_check_and_consume ops v r key now = (ok, r')" "wk \<noteq> window_key key (window_index v now)" "0 < vk_window_size v"
  shows "seen now r' wk = seen now r wk \<and> deadline r' wk = deadline r wk"
proof -
  let ?k = "window_key key (window_index v now)"
  show ?thesis
  proof (cases "co_incr ops now r ?k")
    case None
    then show ?thesis using assms(1) by (simp add: vk_check_and_consume_def Let_def)
  next
    case (Some p)
    then obtain c r1 where i: "co_incr ops now r ?k = Some (c, r1)" by (cases p) auto
    note o = incr_other [OF i assms(2)]
    show ?thesis
    proof (cases "co_expire ops now r1 ?k (vk_window_size v + 1)")
      case None
      then show ?thesis using assms(1) i o by (auto simp: vk_check_and_consume_def Let_def split: if_splits)
    next
      case (Some r2)
      then show ?thesis
        using assms i o expire_seen [OF Some, of wk] expire_deadline [OF Some, of wk]
        by (auto simp: vk_check_and_consume_def Let_def split: if_splits)
    qed
  qed
qed

lemma run_bound:
  assumes "sorted (map snd reqs)" "\<forall>q\<in>set reqs. t \<le> snd q \<and> snd q < t0 + of_int (vk_window_size v) \<and> window_index v (snd q) = n"
    and "window_safe v t0 r (window_key key n)" "t0 \<le> t" "0 < vk_window_size v" "vk_run ops v reqs r = (oks, r')"
  shows "int (length (filter (\<lambda>(q, ok). fst q = key \<and> ok) (zip reqs oks)))
    \<le> max 0 (max_requests v - seen t r (window_key key n))"
  using assms
proof (induction reqs arbitrary: r t oks)
  case (Cons q reqs)
  obtain k now where q: "q = (k, now)" by fastforce
  obtain ok r1 where s: "vk_check_and_consume ops v r k now = (ok, r1)" by fastforce
  obtain oks' r2 where u: "vk_run ops v reqs r1 = (oks', r2)" by fastforce
  have o: "oks = ok # oks'" "r2 = r'" using Cons.prems(6) q s u by auto
  let ?wk = "window_key key n"
  have now: "t \<le> now" "now < t0 + of_int (vk_window_size v)" "window_index v now = n" using Cons.prems(2) q by auto
  have same: "seen now r ?wk = seen t r ?wk"
    using seen_later [OF now(1), of r ?wk] Cons.prems(3) now(2) by (force simp: window_safe_def)
  have safe: "window_safe v t0 r1 ?wk \<and> seen now r ?wk \<le> seen now r1 ?wk
      \<and> (k = key \<and> ok \<longrightarrow> seen now r1 ?wk = seen now r ?wk + 1 \<and> seen now r1 ?wk \<le> max_requests v)"
  proof (cases "k = key")
    case True
    then show ?thesis using check_own [OF s, of ?wk t0] Cons.prems(3-5) now by auto
  next
    case False
    then have "?wk \<noteq> window_key k (window_index v now)" by (simp add: window_key_inject)
    from check_other [OF s this Cons.prems(5)] show ?thesis using Cons.prems(3) False by (auto simp: window_safe_def)
  qed
  have "int (length (filter (\<lambda>(q, ok). fst q = key \<and> ok) (zip reqs oks'))) \<le> max 0 (max_requests v - seen now r1 ?wk)"
    by (rule Cons.IH [of now r1]) (use Cons.prems q safe u o now in \<open>auto\<close>)
  then show ?case using safe same unfolding o q by (auto simp: max_def split: if_splits)
qed simp

end

section \<open>A store in memory\<close>

type_synonym counters = "(string \<times> nat \<times> rat option) list"

definition counter_seen :: "rat \<Rightarrow> counters \<Rightarrow> string \<Rightarrow> int" where
  "counter_seen t r k =
     (case map_of r k of
        None \<Rightarrow> 0
      | Some (c, d) \<Rightarrow> (case d of None \<Rightarrow> int c | Some x \<Rightarrow> if x \<le> t then 0 else int c))"

definition counter_deadline :: "counters \<Rightarrow> string \<Rightarrow> rat option" where
  "counter_deadline r k = (case map_of r k of None \<Rightarrow> None | Some (c, d) \<Rightarrow> d)"

definition memory_counters :: "counters counter_ops" where
  "memory_counters = \<lparr>
     co_incr = (\<lambda>t r k. let n = nat (counter_seen t r k) in
       Some (int n + 1, AList.update k (n + 1, if n = 0 then None else counter_deadline r k) r)),
     co_expire = (\<lambda>t r k s. let n = nat (counter_seen t r k) in
       Some (if n = 0 then r else AList.update k (n, Some (t + of_int s)) r)),
     co_get = (\<lambda>t r k. Some (if counter_seen t r k = 0 then None else Some (counter_seen t r k))) \<rparr>"

interpretation memory: counter_store memory_counters counter_seen counter_deadline
  by unfold_locales
    (auto simp: memory_counters_def counter_seen_def counter_deadline_def update_conv' Let_def
       split: option.splits if_splits)

section \<open>Property\<close>

text \<open>
  Over any store that counts, an identity is admitted in one window no more often than the window allows,
  however its requests interleave with those of others and whenever the store fails.
\<close>

theorem valkey_window_bounded:
  assumes "counter_store ops seen deadline" "sorted (map snd reqs)" "0 < vk_window_size v"
    and "\<forall>q\<in>set reqs. t0 \<le> snd q \<and> snd q < t0 + of_int (vk_window_size v) \<and> window_index v (snd q) = n"
    and "deadline r (window_key key n) = None" "seen t0 r (window_key key n) = 0"
    and "vk_run ops v reqs r = (oks, r')"
  shows "int (length (filter (\<lambda>(q, ok). fst q = key \<and> ok) (zip reqs oks))) \<le> max_requests v"
  using counter_store.run_bound [OF assms(1), of reqs t0 t0 v n r key oks r'] assms
  by (simp add: counter_store.window_safe_def [OF assms(1)] max_requests_def)

theorem valkey_window_bounded_witness:
  "int (length (filter (\<lambda>(q, ok). fst q = ''ann'' \<and> ok) (zip [(''ann'', 7 :: rat), (''bob'', 7 + 1/4), (''ann'', 7 + 1/2), (''ann'', 7 + 3/4)]
     (fst (vk_run memory_counters \<lparr> vk_rps = 2, vk_window_size = 1 \<rparr>
        [(''ann'', 7), (''bob'', 7 + 1/4), (''ann'', 7 + 1/2), (''ann'', 7 + 3/4)] []))))) \<le> 2"
proof -
  let ?v = "\<lparr> vk_rps = 2, vk_window_size = 1 \<rparr>"
  let ?reqs = "[(''ann'', 7), (''bob'', 7 + 1/4), (''ann'', 7 + 1/2), (''ann'', 7 + 3/4 :: rat)]"
  have s: "sorted (map snd ?reqs)" "0 < vk_window_size ?v" by simp_all
  have w: "\<forall>q\<in>set ?reqs. 7 \<le> snd q \<and> snd q < 7 + of_int (vk_window_size ?v) \<and> window_index ?v (snd q) = 7"
  proof -
    have "\<lfloor>29 / 4 :: rat\<rfloor> = 7" "\<lfloor>15 / 2 :: rat\<rfloor> = 7" "\<lfloor>31 / 4 :: rat\<rfloor> = 7" by (rule floor_unique; simp)+
    then show ?thesis by (simp add: window_index_def)
  qed
  have d: "counter_deadline [] (window_key ''ann'' 7) = None" "counter_seen 7 [] (window_key ''ann'' 7) = 0"
    by (simp_all add: counter_deadline_def counter_seen_def)
  have "vk_run memory_counters ?v ?reqs [] = (fst (vk_run memory_counters ?v ?reqs []), snd (vk_run memory_counters ?v ?reqs []))"
    by simp
  from valkey_window_bounded [OF memory.counter_store_axioms s w d this] show ?thesis by (simp add: max_requests_def)
qed

end
