(* ===== verification/Jwt_Verify.thy ===== *)
theory Jwt_Verify
  imports Prelude
begin

text \<open>
  Verification of bearer tokens in the three data-plane services: \<^verbatim>\<open>verify_squawk_jwt\<close> of the DNS server
  (\<^verbatim>\<open>dns-server/app/utils/jwt_verify.py\<close>), \<^verbatim>\<open>verify_token\<close>, \<^verbatim>\<open>check_scope\<close> and \<^verbatim>\<open>check_auth\<close> of the DHCP
  server (\<^verbatim>\<open>dhcp-server/app/auth.py\<close>) and \<^verbatim>\<open>verify_jwt\<close> of the NTP server (\<^verbatim>\<open>ntp-server/bins/server.py\<close>).

  PyJWT is a parameter: the record \<open>jwt_lib\<close> holds the two functions the services call. A decoded
  token is its claims, an association list of JSON values. \<open>jwt_exn\<close> lists the exceptions the
  handlers distinguish; a constructor stands for the most specific class, so \<^verbatim>\<open>except InvalidTokenError\<close>
  catches all but \<open>OtherException\<close>.
\<close>

section \<open>The JWT library\<close>

type_synonym claims = "(string \<times> json) list"

datatype jwt_exn =
    InvalidSignatureError
  | DecodeError
  | ExpiredSignatureError
  | InvalidAudienceError
  | InvalidIssuerError
  | MissingRequiredClaimError
  | OtherInvalidTokenError
  | OtherException

text \<open>
  \<open>unverified_kid\<close> is \<^verbatim>\<open>get_unverified_header(token).get('kid')\<close>: \<open>None\<close> when the call raises (PyJWT
  also raises on a \<^verbatim>\<open>kid\<close> that is not a string). \<open>jwt_decode\<close> takes the token, the key, the algorithms,
  the audience, the issuer and the required claims.
\<close>

record jwt_lib =
  unverified_kid :: "string \<Rightarrow> string option option"
  jwt_decode :: "string \<Rightarrow> string \<Rightarrow> string list \<Rightarrow> string \<Rightarrow> string \<Rightarrow> string list \<Rightarrow> jwt_exn + claims"

record jwt_cfg =
  JWT_AUDIENCE :: string
  JWT_ISSUER :: string

type_synonym key_ring = "(string \<times> string) list"

definition required_claims :: "string list" where
  "required_claims = [''exp'', ''iat'', ''tenant'']"

text \<open>The call all three services make, with their algorithm lists.\<close>

abbreviation dns_decode :: "jwt_lib \<Rightarrow> jwt_cfg \<Rightarrow> string \<Rightarrow> string \<Rightarrow> jwt_exn + claims" where
  "dns_decode J cfg token key \<equiv>
     jwt_decode J token key [''ES256'', ''RS256''] (JWT_AUDIENCE cfg) (JWT_ISSUER cfg) required_claims"

definition has_tenant :: "claims \<Rightarrow> bool" where
  "has_tenant payload = json_truthy (json_get payload ''tenant'')"

section \<open>Choosing the keys\<close>

text \<open>
  The keys to try, in order; \<open>None\<close> is the early rejection (unknown \<^verbatim>\<open>kid\<close>, or nothing configured).
  The three services carry the same code.
\<close>

definition keys_to_try :: "string option \<Rightarrow> string option \<Rightarrow> key_ring \<Rightarrow> string list option" where
  "keys_to_try kid public_key public_keys =
     (if truthy kid then
        (if public_keys \<noteq> [] then map_option (\<lambda>k. [k]) (map_of public_keys (the kid)) else None)
      else if public_keys \<noteq> [] then Some (map snd public_keys)
      else if truthy public_key then Some [the public_key]
      else None)"

section \<open>DNS server\<close>

fun dns_try_keys :: "jwt_lib \<Rightarrow> jwt_cfg \<Rightarrow> string \<Rightarrow> string list \<Rightarrow> claims option" where
  "dns_try_keys J cfg token [] = None"
| "dns_try_keys J cfg token (key # rest) =
     (if key = [] then dns_try_keys J cfg token rest
      else (case dns_decode J cfg token key of
              Inr payload \<Rightarrow> (if has_tenant payload then Some payload else None)
            | Inl InvalidSignatureError \<Rightarrow> dns_try_keys J cfg token rest
            | Inl DecodeError \<Rightarrow> dns_try_keys J cfg token rest
            | Inl _ \<Rightarrow> None))"

definition verify_squawk_jwt ::
  "jwt_lib \<Rightarrow> jwt_cfg \<Rightarrow> string \<Rightarrow> string option \<Rightarrow> key_ring \<Rightarrow> claims option" where
  "verify_squawk_jwt J cfg token public_key public_keys =
     (if token = [] then None
      else (case unverified_kid J token of
              None \<Rightarrow> None
            | Some kid \<Rightarrow> (case keys_to_try kid public_key public_keys of
                             None \<Rightarrow> None
                           | Some keys \<Rightarrow> dns_try_keys J cfg token keys)))"

section \<open>DHCP server\<close>

definition extract_token :: "string \<Rightarrow> string option" where
  "extract_token auth_header =
     (if auth_header = [] \<or> \<not> py_startswith auth_header ''Bearer '' then None
      else Some (drop 7 auth_header))"

fun dhcp_try_keys :: "jwt_lib \<Rightarrow> jwt_cfg \<Rightarrow> string \<Rightarrow> bool \<Rightarrow> string list \<Rightarrow> claims option" where
  "dhcp_try_keys J cfg token has_kid [] = None"
| "dhcp_try_keys J cfg token has_kid (key # rest) =
     (if key = [] then dhcp_try_keys J cfg token has_kid rest
      else (case dns_decode J cfg token key of
              Inr payload \<Rightarrow> (if has_tenant payload then Some payload else None)
            | Inl InvalidSignatureError \<Rightarrow>
                (if has_kid then None else dhcp_try_keys J cfg token has_kid rest)
            | Inl ExpiredSignatureError \<Rightarrow>
                (if has_kid then None else dhcp_try_keys J cfg token has_kid rest)
            | Inl _ \<Rightarrow> None))"

text \<open>The pair \<^verbatim>\<open>(is_valid, payload)\<close> is an option: \<^verbatim>\<open>(False, None)\<close> is \<open>None\<close>.\<close>

definition verify_token ::
  "jwt_lib \<Rightarrow> jwt_cfg \<Rightarrow> string option \<Rightarrow> key_ring \<Rightarrow> string \<Rightarrow> claims option" where
  "verify_token J cfg JWT_PUBLIC_KEY JWT_PUBLIC_KEYS token =
     (if token = [] then None
      else (case unverified_kid J token of
              None \<Rightarrow> None
            | Some kid \<Rightarrow> (case keys_to_try kid JWT_PUBLIC_KEY JWT_PUBLIC_KEYS of
                             None \<Rightarrow> None
                           | Some keys \<Rightarrow> dhcp_try_keys J cfg token (truthy kid) keys)))"

text \<open>
  \<^verbatim>\<open>payload.get("scope", "").split()\<close>: \<open>None\<close> is the exception raised when the claim is present and
  not a string.
\<close>

definition scope_words :: "claims \<Rightarrow> string list option" where
  "scope_words payload =
     (case map_of payload ''scope'' of
        None \<Rightarrow> Some []
      | Some (JStr s) \<Rightarrow> Some (py_words s)
      | Some _ \<Rightarrow> None)"

definition check_scope :: "claims \<Rightarrow> string \<Rightarrow> bool option" where
  "check_scope payload required_scope =
     map_option (\<lambda>scopes. required_scope \<in> set scopes) (scope_words payload)"

text \<open>The outcome of the full check: \<open>None\<close> is an exception that escapes to the framework.\<close>

definition check_auth ::
  "jwt_lib \<Rightarrow> jwt_cfg \<Rightarrow> string option \<Rightarrow> key_ring \<Rightarrow> string \<Rightarrow> string \<Rightarrow> (nat \<times> claims option) option" where
  "check_auth J cfg pk pks auth_header required_scope =
     (case extract_token auth_header of
        None \<Rightarrow> Some (403, None)
      | Some token \<Rightarrow>
          if token = [] then Some (403, None)
          else (case verify_token J cfg pk pks token of
                  None \<Rightarrow> Some (401, None)
                | Some payload \<Rightarrow>
                    (case check_scope payload required_scope of
                       None \<Rightarrow> None
                     | Some False \<Rightarrow> Some (403, None)
                     | Some True \<Rightarrow> Some (200, Some payload))))"

section \<open>NTP server\<close>

text \<open>After a successful decode the tenant and, when one is required, the scope are checked; an
  exception of the scope test is caught by the final handler and rejects.\<close>

definition ntp_accepts :: "string option \<Rightarrow> claims \<Rightarrow> bool" where
  "ntp_accepts required_scope payload =
     (if \<not> has_tenant payload then False
      else if truthy required_scope then
        (case scope_words payload of None \<Rightarrow> False | Some ws \<Rightarrow> the required_scope \<in> set ws)
      else True)"

fun ntp_try_keys :: "jwt_lib \<Rightarrow> jwt_cfg \<Rightarrow> string \<Rightarrow> string option \<Rightarrow> bool \<Rightarrow> string list \<Rightarrow> bool" where
  "ntp_try_keys J cfg token scope has_kid [] = False"
| "ntp_try_keys J cfg token scope has_kid (key # rest) =
     (if key = [] then ntp_try_keys J cfg token scope has_kid rest
      else (case dns_decode J cfg token key of
              Inr payload \<Rightarrow> ntp_accepts scope payload
            | Inl InvalidSignatureError \<Rightarrow>
                (if has_kid then False else ntp_try_keys J cfg token scope has_kid rest)
            | Inl DecodeError \<Rightarrow>
                (if has_kid then False else ntp_try_keys J cfg token scope has_kid rest)
            | Inl _ \<Rightarrow> False))"

text \<open>\<open>env_key\<close> is the single key read from the environment variable or the key file at call time.\<close>

definition verify_jwt ::
  "jwt_lib \<Rightarrow> jwt_cfg \<Rightarrow> string option \<Rightarrow> key_ring \<Rightarrow> string \<Rightarrow> string option \<Rightarrow> bool" where
  "verify_jwt J cfg env_key JWT_PUBLIC_KEYS token required_scope =
     (if token = [] then False
      else (case unverified_kid J token of
              None \<Rightarrow> False
            | Some kid \<Rightarrow> (case keys_to_try kid env_key JWT_PUBLIC_KEYS of
                             None \<Rightarrow> False
                           | Some keys \<Rightarrow> ntp_try_keys J cfg token required_scope (truthy kid) keys)))"

section \<open>The shared contract\<close>

text \<open>
  \<open>admits J cfg pk pks t p\<close>: some configured, non-empty key that is a candidate for the token's \<^verbatim>\<open>kid\<close>
  decodes the token to \<open>p\<close> under the fixed algorithms, audience, issuer and required claims, and the
  tenant claim of \<open>p\<close> is non-empty. With a \<^verbatim>\<open>kid\<close> the only candidate is the key of that name.
\<close>

definition admits ::
  "jwt_lib \<Rightarrow> jwt_cfg \<Rightarrow> string option \<Rightarrow> key_ring \<Rightarrow> string \<Rightarrow> claims \<Rightarrow> bool" where
  "admits J cfg pk pks t p \<longleftrightarrow>
     t \<noteq> [] \<and> has_tenant p \<and>
     (\<exists>kid keys key. unverified_kid J t = Some kid \<and> keys_to_try kid pk pks = Some keys \<and>
        key \<in> set keys \<and> key \<noteq> [] \<and> dns_decode J cfg t key = Inr p)"

lemma keys_to_try_kid:
  "\<lbrakk> keys_to_try kid pk pks = Some keys; kid = Some k; k \<noteq> [] \<rbrakk> \<Longrightarrow>
     \<exists>key. map_of pks k = Some key \<and> keys = [key]"
  by (auto simp: keys_to_try_def split: if_splits)

lemma keys_to_try_configured:
  "keys_to_try kid pk pks = Some keys \<Longrightarrow> set keys \<subseteq> snd ` set pks \<union> set_option pk"
proof -
  have "z \<in> snd ` set pks" if "map_of pks k = Some z" for k z
    using map_of_SomeD [OF that] by force
  moreover have "the pk \<in> set_option pk" if "truthy pk"
    using that by (cases pk) auto
  moreover assume "keys_to_try kid pk pks = Some keys"
  ultimately show ?thesis by (auto simp: keys_to_try_def split: if_splits)
qed

lemma admitsE:
  assumes "admits J cfg pk pks t p"
  obtains kid keys key where "t \<noteq> []" "has_tenant p" "unverified_kid J t = Some kid"
    "keys_to_try kid pk pks = Some keys" "key \<in> set keys" "key \<noteq> []" "dns_decode J cfg t key = Inr p"
  using assms unfolding admits_def by blast

locale jwt_gate =
  fixes verify :: "jwt_lib \<Rightarrow> jwt_cfg \<Rightarrow> string option \<Rightarrow> key_ring \<Rightarrow> string \<Rightarrow> claims option"
  assumes verify_admits: "verify J cfg pk pks t = Some p \<Longrightarrow> admits J cfg pk pks t p"
begin

lemma fail_closed:
  assumes "verify J cfg pk pks t = Some p"
  shows "has_tenant p \<and>
    (\<exists>key \<in> snd ` set pks \<union> set_option pk. key \<noteq> [] \<and> dns_decode J cfg t key = Inr p)"
proof -
  from verify_admits [OF assms] obtain kid keys key where
    a: "has_tenant p" "keys_to_try kid pk pks = Some keys" "key \<in> set keys" "key \<noteq> []"
       "dns_decode J cfg t key = Inr p" by (rule admitsE)
  then have "key \<in> snd ` set pks \<union> set_option pk" using keys_to_try_configured [OF a(2)] by auto
  with a show ?thesis by auto
qed

lemma no_key_rejected: "verify J cfg None [] t = None"
  using fail_closed [of J cfg None "[]" t] by (cases "verify J cfg None [] t") auto

lemma kid_selects_key:
  assumes "verify J cfg pk pks t = Some p" "unverified_kid J t = Some (Some k)" "k \<noteq> []"
  shows "\<exists>key. map_of pks k = Some key \<and> dns_decode J cfg t key = Inr p"
proof -
  from verify_admits [OF assms(1)] obtain kid keys key where
    a: "unverified_kid J t = Some kid" "keys_to_try kid pk pks = Some keys" "key \<in> set keys"
       "dns_decode J cfg t key = Inr p" by (rule admitsE)
  with assms(2,3) keys_to_try_kid [OF a(2)] show ?thesis by auto
qed

lemma unknown_kid_rejected:
  "\<lbrakk> unverified_kid J t = Some (Some k); k \<noteq> []; map_of pks k = None \<rbrakk> \<Longrightarrow>
     verify J cfg pk pks t = None"
  using kid_selects_key [of J cfg pk pks t _ k] by (cases "verify J cfg pk pks t") auto

end

lemma dns_try_keys_Some:
  "dns_try_keys J cfg t keys = Some p \<Longrightarrow>
     has_tenant p \<and> (\<exists>key\<in>set keys. key \<noteq> [] \<and> dns_decode J cfg t key = Inr p)"
  by (induction keys) (auto split: if_splits sum.splits jwt_exn.splits)

lemma dhcp_try_keys_Some:
  "dhcp_try_keys J cfg t hk keys = Some p \<Longrightarrow>
     has_tenant p \<and> (\<exists>key\<in>set keys. key \<noteq> [] \<and> dns_decode J cfg t key = Inr p)"
  by (induction keys) (auto split: if_splits sum.splits jwt_exn.splits)

lemma ntp_try_keys_True:
  "ntp_try_keys J cfg t sc hk keys \<Longrightarrow>
     \<exists>p. ntp_accepts sc p \<and> (\<exists>key\<in>set keys. key \<noteq> [] \<and> dns_decode J cfg t key = Inr p)"
  by (induction keys) (auto split: if_splits sum.splits jwt_exn.splits)

interpretation dns_gate: jwt_gate "\<lambda>J cfg pk pks t. verify_squawk_jwt J cfg t pk pks"
proof
  fix J cfg pk pks t p
  assume "verify_squawk_jwt J cfg t pk pks = Some p"
  then show "admits J cfg pk pks t p"
    by (auto simp: verify_squawk_jwt_def admits_def dest!: dns_try_keys_Some
        split: if_splits option.splits)
qed

interpretation dhcp_gate: jwt_gate verify_token
proof
  fix J cfg pk pks t p
  assume "verify_token J cfg pk pks t = Some p"
  then show "admits J cfg pk pks t p"
    by (auto simp: verify_token_def admits_def dest!: dhcp_try_keys_Some
        split: if_splits option.splits)
qed

lemma verify_jwt_admits:
  assumes "verify_jwt J cfg pk pks t sc"
  shows "\<exists>p. admits J cfg pk pks t p \<and> ntp_accepts sc p"
proof -
  from assms obtain kid keys where
    k: "t \<noteq> []" "unverified_kid J t = Some kid" "keys_to_try kid pk pks = Some keys"
    and n: "ntp_try_keys J cfg t sc (truthy kid) keys"
    by (auto simp: verify_jwt_def split: if_splits option.splits)
  from ntp_try_keys_True [OF n] obtain p key where
    "ntp_accepts sc p" "key \<in> set keys" "key \<noteq> []" "dns_decode J cfg t key = Inr p" by blast
  moreover from this(1) have "has_tenant p" by (simp add: ntp_accepts_def split: if_splits)
  ultimately show ?thesis using k unfolding admits_def by blast
qed

text \<open>A key ring with one key accepts whatever that key decodes with a tenant claim.\<close>

lemma verify_squawk_jwt_kid:
  assumes "t \<noteq> []" "unverified_kid J t = Some (Some k)" "k \<noteq> []" "map_of pks k = Some key" "key \<noteq> []"
    "dns_decode J cfg t key = Inr p" "has_tenant p"
  shows "verify_squawk_jwt J cfg t pk pks = Some p"
proof -
  have "pks \<noteq> []" using assms(4) by auto
  then show ?thesis using assms by (simp add: verify_squawk_jwt_def keys_to_try_def)
qed

text \<open>Without a key ring the DNS server rejects every token that names a key.\<close>

lemma verify_squawk_jwt_no_ring:
  "\<lbrakk> unverified_kid J t = Some (Some k); k \<noteq> [] \<rbrakk> \<Longrightarrow> verify_squawk_jwt J cfg t pk [] = None"
  by (simp add: verify_squawk_jwt_def keys_to_try_def)

section \<open>A concrete library for the witnesses\<close>

text \<open>
  A library that knows two tokens: one that names the key \<^verbatim>\<open>k1\<close> and is signed by \<^verbatim>\<open>PEM1\<close>, and one
  without a key name that is signed by \<^verbatim>\<open>PEM2\<close>.
\<close>

definition demo_claims :: claims where
  "demo_claims = [(''tenant'', JStr ''default''), (''sub'', JStr ''7''),
                  (''scope'', JStr ''dhcp:read ntp:client''), (''role'', JStr ''user''),
                  (''dns_domains'', JList [JStr ''*.allowed.org''])]"

definition demo_jwt :: jwt_lib where
  "demo_jwt =
     \<lparr> unverified_kid = (\<lambda>t. if t = ''tok-k1'' then Some (Some ''k1'')
                            else if t = ''tok-2'' then Some None else None),
       jwt_decode = (\<lambda>t key algs aud iss req.
          if t = ''tok-k1'' \<and> key = ''PEM1'' \<or> t = ''tok-2'' \<and> key = ''PEM2'' then Inr demo_claims
          else Inl InvalidSignatureError) \<rparr>"

definition demo_cfg :: jwt_cfg where
  "demo_cfg = \<lparr> JWT_AUDIENCE = ''squawk'', JWT_ISSUER = ''squawk-manager'' \<rparr>"

section \<open>Properties\<close>

text \<open>
  The DNS server's verifier fails closed: a token it accepts was decoded, under ES256/RS256, the
  configured audience and issuer and the required claims, by a non-empty key the server is configured
  with, and carries a non-empty tenant; when the token names a key by \<^verbatim>\<open>kid\<close>, that very key of the ring
  decoded it.
\<close>

theorem verify_squawk_jwt_fails_closed:
  assumes "verify_squawk_jwt J cfg t pk pks = Some p"
  shows "has_tenant p \<and>
    (\<exists>key \<in> snd ` set pks \<union> set_option pk. key \<noteq> [] \<and>
       jwt_decode J t key [''ES256'', ''RS256''] (JWT_AUDIENCE cfg) (JWT_ISSUER cfg)
         [''exp'', ''iat'', ''tenant''] = Inr p) \<and>
    (\<forall>k. unverified_kid J t = Some (Some k) \<and> k \<noteq> [] \<longrightarrow>
       (\<exists>key. map_of pks k = Some key \<and>
          jwt_decode J t key [''ES256'', ''RS256''] (JWT_AUDIENCE cfg) (JWT_ISSUER cfg)
            [''exp'', ''iat'', ''tenant''] = Inr p))"
  using dns_gate.fail_closed [OF assms] dns_gate.kid_selects_key [OF assms]
  unfolding required_claims_def by blast

theorem verify_squawk_jwt_fails_closed_witness:
  "verify_squawk_jwt demo_jwt demo_cfg ''tok-k1'' None [(''k1'', ''PEM1'')] = Some demo_claims
   \<and> has_tenant demo_claims"
proof -
  have v: "verify_squawk_jwt demo_jwt demo_cfg ''tok-k1'' None [(''k1'', ''PEM1'')] = Some demo_claims"
    by code_simp
  show ?thesis using v verify_squawk_jwt_fails_closed [OF v] by blast
qed

text \<open>
  The DHCP server's full check answers 200 exactly when the header is \<^verbatim>\<open>Bearer\<close> and a non-empty
  token that the verifier accepts and whose scope words contain the required scope; the payload
  returned is the verified one.
\<close>

theorem check_auth_200_iff:
  "check_auth J cfg pk pks auth_header required = Some (200, r) \<longleftrightarrow>
     (\<exists>token payload ws. auth_header = ''Bearer '' @ token \<and> token \<noteq> [] \<and>
        verify_token J cfg pk pks token = Some payload \<and>
        scope_words payload = Some ws \<and> required \<in> set ws \<and> r = Some payload)"
proof -
  have e: "extract_token auth_header = Some token \<longleftrightarrow> auth_header = ''Bearer '' @ token" for token
    by (auto simp: extract_token_def prefix_def)
  show ?thesis
  proof (cases "extract_token auth_header")
    case None
    then have "auth_header \<noteq> ''Bearer '' @ token" for token using e by auto
    with None show ?thesis by (simp add: check_auth_def)
  next
    case (Some token)
    then have h: "auth_header = ''Bearer '' @ t \<longleftrightarrow> t = token" for t using e by (metis option.inject)
    show ?thesis
      unfolding h check_auth_def Some
      by (auto simp: check_scope_def split: option.splits bool.splits if_splits)
  qed
qed

text \<open>
  The NTP server's verifier, asked for a scope, says yes only to a token that a configured
  candidate key decodes, that carries a tenant, and whose scope words contain that scope; with no
  key configured it says no to everything.
\<close>

theorem verify_jwt_scope_sound:
  assumes "verify_jwt J cfg pk pks t (Some scope)" "scope \<noteq> []"
  shows "(pks \<noteq> [] \<or> truthy pk) \<and>
    (\<exists>p ws. admits J cfg pk pks t p \<and> scope_words p = Some ws \<and> scope \<in> set ws)"
proof -
  obtain p where p: "admits J cfg pk pks t p" "ntp_accepts (Some scope) p"
    using verify_jwt_admits [OF assms(1)] by blast
  then have "\<exists>ws. scope_words p = Some ws \<and> scope \<in> set ws"
    using assms(2) by (auto simp: ntp_accepts_def split: if_splits option.splits)
  moreover have "pks \<noteq> [] \<or> truthy pk"
    using p(1) by (rule admitsE) (auto simp: keys_to_try_def split: if_splits)
  ultimately show ?thesis using p(1) by blast
qed

theorem verify_jwt_scope_sound_witness:
  "\<exists>p ws. admits demo_jwt demo_cfg (Some ''PEM2'') [] ''tok-2'' p \<and>
     scope_words p = Some ws \<and> ''ntp:client'' \<in> set ws"
proof -
  have "verify_jwt demo_jwt demo_cfg (Some ''PEM2'') [] ''tok-2'' (Some ''ntp:client'')"
    by code_simp
  then show ?thesis using verify_jwt_scope_sound by blast
qed

end
