(* ===== verification/Selective_Router.thy ===== *)
theory Selective_Router
  imports Jwt_Verify "HOL-Library.AList"
begin

text \<open>
  Zone visibility in the DNS server (\<^verbatim>\<open>dns-server/app/services/selective_router.py\<close>). A zone of the
  Manager's configuration is a \<open>zone_cfg\<close> (a dict whose members may be missing); a loaded zone is a
  \<open>zone\<close>; \<^verbatim>\<open>self.zones\<close> is an association list in insertion order, updated by \<open>AList.update\<close> as a
  Python dict is.
\<close>

section \<open>Data\<close>

record zone_rec =
  rec_name :: string
  rec_type :: string
  rec_value :: string
  rec_ttl :: "int option"

record zone_cfg =
  zc_name :: string
  zc_visibility :: "string option"
  zc_allowed_teams :: "json list option"
  zc_records :: "zone_rec list option"

record zone =
  z_name :: string
  z_visibility :: string
  z_allowed_teams :: "json list"
  z_records :: "zone_rec list"

type_synonym zones = "(string \<times> zone) list"

section \<open>Loading and finding zones\<close>

definition load_zone :: "zone_cfg \<Rightarrow> zones \<Rightarrow> zones" where
  "load_zone z = AList.update (zc_name z)
     \<lparr> z_name = zc_name z, z_visibility = get_default (zc_visibility z) ''public'',
       z_allowed_teams = get_default (zc_allowed_teams z) [],
       z_records = get_default (zc_records z) [] \<rparr>"

definition load_zones :: "zone_cfg list \<Rightarrow> zones \<Rightarrow> zones" where
  "load_zones cfgs _ = fold load_zone cfgs []"

fun first_zone :: "zones \<Rightarrow> string list \<Rightarrow> zone option" where
  "first_zone zs [] = None"
| "first_zone zs (parent # rest) =
     (case map_of zs parent of Some z \<Rightarrow> Some z | None \<Rightarrow> first_zone zs rest)"

definition find_zone_for_domain :: "zones \<Rightarrow> string \<Rightarrow> zone option" where
  "find_zone_for_domain zs domain =
     (case map_of zs domain of
        Some z \<Rightarrow> Some z
      | None \<Rightarrow> first_zone zs (parents_from 0 domain))"

definition get_zone_records :: "zones \<Rightarrow> string \<Rightarrow> zone_rec list option" where
  "get_zone_records zs domain = map_option z_records (find_zone_for_domain zs domain)"

section \<open>Permissions\<close>

text \<open>
  \<^verbatim>\<open>payload.get('team_roles', {}).keys() if payload.get('team_roles') else []\<close>; \<open>None\<close> is the exception
  raised when the claim is true but not an object.
\<close>

definition user_teams :: "claims \<Rightarrow> string list option" where
  "user_teams payload =
     (let tr = json_get payload ''team_roles'' in
      if json_truthy tr then (case tr of JObj kvs \<Rightarrow> Some (map fst kvs) | _ \<Rightarrow> None) else Some [])"

definition any_team_in :: "string list \<Rightarrow> json list \<Rightarrow> bool" where
  "any_team_in teams allowed = list_ex (\<lambda>team. JStr team \<in> set allowed) teams"

record verify_env =
  ve_jwt :: jwt_lib
  ve_cfg :: jwt_cfg
  ve_public_key :: "string option"
  ve_public_keys :: key_ring

definition ve_verify :: "verify_env \<Rightarrow> string \<Rightarrow> claims option" where
  "ve_verify E token =
     verify_squawk_jwt (ve_jwt E) (ve_cfg E) token (ve_public_key E) (ve_public_keys E)"

text \<open>\<open>None\<close> is an exception that escapes.\<close>

definition router_check_zone_permission ::
  "verify_env \<Rightarrow> zones \<Rightarrow> string \<Rightarrow> string option \<Rightarrow> bool option" where
  "router_check_zone_permission E zs domain token =
     (case find_zone_for_domain zs domain of
        None \<Rightarrow> Some True
      | Some zone \<Rightarrow>
          if z_visibility zone = ''public'' then Some True
          else if \<not> truthy token then Some False
          else (case ve_verify E (the token) of
                  None \<Rightarrow> Some False
                | Some payload \<Rightarrow>
                    (case user_teams payload of
                       None \<Rightarrow> None
                     | Some teams \<Rightarrow>
                         if z_visibility zone = ''internal'' then
                           Some (z_allowed_teams zone = [] \<or> any_team_in teams (z_allowed_teams zone))
                         else if z_visibility zone = ''restricted'' then
                           Some (any_team_in teams (z_allowed_teams zone))
                         else if z_visibility zone = ''private'' then
                           Some (json_get payload ''role'' = JStr ''admin'')
                         else Some False)))"

definition router_should_serve_zone ::
  "verify_env \<Rightarrow> zones \<Rightarrow> string \<Rightarrow> string option \<Rightarrow> string \<Rightarrow> bool option" where
  "router_should_serve_zone E zs domain token mode =
     (case find_zone_for_domain zs domain of
        None \<Rightarrow> Some True
      | Some zone \<Rightarrow>
          if mode = ''normal'' then router_check_zone_permission E zs domain token
          else if mode = ''cached'' then router_check_zone_permission E zs domain token
          else if mode = ''degraded'' then Some (z_visibility zone = ''public'')
          else Some False)"

definition router_stats :: "zones \<Rightarrow> nat \<times> (string \<times> nat) list" where
  "router_stats zs =
     (length zs,
      fold (\<lambda>(_, z) counts. AList.update (z_visibility z)
              (get_default (map_of counts (z_visibility z)) 0 + 1) counts) zs [])"

section \<open>Lemmas\<close>

lemma first_zone_Some:
  "first_zone zs ps = Some z \<Longrightarrow>
     \<exists>us p vs. ps = us @ p # vs \<and> map_of zs p = Some z \<and> (\<forall>u\<in>set us. map_of zs u = None)"
proof (induction ps)
  case (Cons q ps)
  show ?case
  proof (cases "map_of zs q")
    case None
    with Cons obtain us p vs where u: "ps = us @ p # vs" "map_of zs p = Some z"
      "\<forall>u\<in>set us. map_of zs u = None" by auto
    show ?thesis
      by (rule exI [of _ "q # us"], rule exI [of _ p], rule exI [of _ vs]) (use u None in simp)
  next
    case (Some y)
    with Cons.prems show ?thesis
      by (intro exI [of _ "[]"] exI [of _ q] exI [of _ ps]) simp
  qed
qed simp

lemma first_zone_None: "first_zone zs ps = None \<longleftrightarrow> (\<forall>p\<in>set ps. map_of zs p = None)"
  by (induction ps) (auto split: option.splits)

lemma parents_0_Cons: "parents_from 0 d = d # parents_from 1 d"
proof -
  have "[0..<length (labels d)] = 0 # [1..<length (labels d)]"
    by (simp add: upt_conv_Cons)
  then show ?thesis by (simp add: parents_from_def)
qed

text \<open>The exact-match test first is the first round of the parent loop.\<close>

lemma find_zone_first: "find_zone_for_domain zs d = first_zone zs (parents_from 0 d)"
  by (simp add: find_zone_for_domain_def parents_0_Cons split: option.splits)

text \<open>In the list of parents, an earlier element lies below a later one.\<close>

lemma parents_ordered:
  assumes "parents_from 0 d = us @ p # vs" "q \<in> set vs"
  shows "in_zone q p"
proof -
  let ?n = "length (labels d)"
  have len: "length us < ?n" "length (parents_from 0 d) = ?n"
    using arg_cong [OF assms(1), of length] by (simp_all add: parents_from_def)
  have p: "p = py_join dot (drop (length us) (labels d))"
    using arg_cong [OF assms(1), of "\<lambda>xs. xs ! length us"] len by (simp add: parents_from_def)
  obtain j where j: "j < length vs" "q = vs ! j" using assms(2) by (auto simp: in_set_conv_nth)
  have "length us + 1 + length vs = ?n" using assms(1) len(2) by simp
  with j have jn: "Suc (length us + j) < ?n" by simp
  have "q = (us @ p # vs) ! Suc (length us + j)" using j by (simp add: nth_append)
  also have "\<dots> = py_join dot (drop (Suc (length us + j)) (labels d))"
    using jn by (simp add: assms(1) [symmetric] parents_from_def)
  finally have "labels q = drop (Suc j) (labels p)"
    using jn len p by (simp add: labels_parent ac_simps)
  then show ?thesis by (simp add: in_zone_def suffix_drop)
qed

lemma find_zone_covers:
  assumes "find_zone_for_domain zs d = Some z"
  shows "\<exists>n. map_of zs n = Some z \<and> in_zone n d \<and>
    (\<forall>m. map_of zs m \<noteq> None \<and> in_zone m d \<longrightarrow> in_zone m n)"
proof -
  from assms obtain us n vs where
    s: "parents_from 0 d = us @ n # vs" "map_of zs n = Some z" "\<forall>u\<in>set us. map_of zs u = None"
    by (auto simp: find_zone_first dest: first_zone_Some)
  have "in_zone n d" using s(1) set_parents_0 [of d] by (metis in_set_conv_decomp mem_Collect_eq)
  moreover have "in_zone m n" if m: "map_of zs m \<noteq> None" "in_zone m d" for m
  proof -
    have "m \<in> set us \<union> {n} \<union> set vs"
      using set_parents_0 [of d] m(2) s(1) by auto
    then show ?thesis using m(1) s parents_ordered [OF s(1)] by auto
  qed
  ultimately show ?thesis using s(2) by blast
qed

lemma find_zone_None: "find_zone_for_domain zs d = None \<longleftrightarrow> (\<forall>n. in_zone n d \<longrightarrow> map_of zs n = None)"
  by (simp add: find_zone_first first_zone_None)

lemma map_of_load_zones:
  "map_of (load_zones cfgs old) n \<noteq> None \<longleftrightarrow> n \<in> zc_name ` set cfgs"
proof -
  have "map_of (fold load_zone cfgs zs) n \<noteq> None \<longleftrightarrow> n \<in> zc_name ` set cfgs \<or> map_of zs n \<noteq> None" for zs
    by (induction cfgs arbitrary: zs) (auto simp: load_zone_def update_conv')
  then show ?thesis by (simp add: load_zones_def)
qed

section \<open>Properties\<close>

text \<open>
  Zone lookup is most-specific match: the zone found covers the domain (it is the domain or a
  parent by whole labels) and every other loaded zone that covers the domain also covers the found
  zone's name; when no zone is found, no loaded zone covers the domain.
\<close>

theorem find_zone_most_specific:
  "case find_zone_for_domain zs d of
     None \<Rightarrow> (\<forall>n. in_zone n d \<longrightarrow> map_of zs n = None)
   | Some z \<Rightarrow> (\<exists>n. map_of zs n = Some z \<and> in_zone n d \<and>
                  (\<forall>m. map_of zs m \<noteq> None \<and> in_zone m d \<longrightarrow> in_zone m n))"
  using find_zone_covers [of zs d] find_zone_None [of zs d] by (auto split: option.split)

definition demo_zones :: zones where
  "demo_zones = load_zones
     [ \<lparr> zc_name = ''corp.example'', zc_visibility = Some ''public'', zc_allowed_teams = None,
         zc_records = None \<rparr>,
       \<lparr> zc_name = ''hr.corp.example'', zc_visibility = Some ''private'', zc_allowed_teams = Some [],
         zc_records = Some [\<lparr> rec_name = ''pay.hr.corp.example'', rec_type = ''A'',
                              rec_value = ''10.0.0.7'', rec_ttl = None \<rparr>] \<rparr> ] []"

theorem find_zone_most_specific_witness:
  "map_option z_name (find_zone_for_domain demo_zones ''pay.hr.corp.example'') = Some ''hr.corp.example''
   \<and> (\<exists>n. map_of demo_zones n = find_zone_for_domain demo_zones ''pay.hr.corp.example'' \<and>
          in_zone n ''pay.hr.corp.example'')"
proof -
  have "map_option z_name (find_zone_for_domain demo_zones ''pay.hr.corp.example'')
          = Some ''hr.corp.example''"
    by code_simp
  moreover from this obtain z where "find_zone_for_domain demo_zones ''pay.hr.corp.example'' = Some z"
    by auto
  ultimately show ?thesis
    using find_zone_most_specific [of "''pay.hr.corp.example''" demo_zones] by auto
qed

text \<open>
  A zone of any visibility other than public is never permitted without a token that the
  verifier accepts; a private zone only to a token whose role claim is admin; a restricted zone only
  to a member of an allowed team; and a visibility outside the four known values to nobody.
\<close>

theorem router_permission_requires_token:
  assumes "router_check_zone_permission E zs d token = Some True"
    and "find_zone_for_domain zs d = Some z" and "z_visibility z \<noteq> ''public''"
  shows "\<exists>t payload teams. token = Some t \<and> t \<noteq> [] \<and> ve_verify E t = Some payload \<and>
    user_teams payload = Some teams \<and>
    (z_visibility z = ''private'' \<and> json_get payload ''role'' = JStr ''admin'' \<or>
     z_visibility z = ''restricted'' \<and> any_team_in teams (z_allowed_teams z) \<or>
     z_visibility z = ''internal'' \<and>
       (z_allowed_teams z = [] \<or> any_team_in teams (z_allowed_teams z)))"
proof -
  from assms obtain t where t: "token = Some t" "t \<noteq> []"
    by (cases token) (auto simp: router_check_zone_permission_def split: if_splits)
  with assms obtain payload teams where
    p: "ve_verify E t = Some payload" "user_teams payload = Some teams"
    by (auto simp: router_check_zone_permission_def split: option.splits)
  from assms t p show ?thesis
    by (auto simp: router_check_zone_permission_def split: if_splits)
qed

definition demo_admin_jwt :: jwt_lib where
  "demo_admin_jwt =
     \<lparr> unverified_kid = (\<lambda>t. Some None),
       jwt_decode = (\<lambda>t key algs aud iss req.
          if t = ''admin-token'' \<and> key = ''PEM'' then
            Inr [(''tenant'', JStr ''default''), (''role'', JStr ''admin'')]
          else Inl InvalidSignatureError) \<rparr>"

definition demo_env :: verify_env where
  "demo_env = \<lparr> ve_jwt = demo_admin_jwt, ve_cfg = demo_cfg, ve_public_key = Some ''PEM'',
               ve_public_keys = [] \<rparr>"

theorem router_permission_requires_token_witness:
  "router_check_zone_permission demo_env demo_zones ''pay.hr.corp.example'' (Some ''admin-token'') = Some True
   \<and> (\<exists>payload. ve_verify demo_env ''admin-token'' = Some payload)"
proof -
  have a: "router_check_zone_permission demo_env demo_zones ''pay.hr.corp.example''
             (Some ''admin-token'') = Some True"
    by code_simp
  have "map_option z_visibility (find_zone_for_domain demo_zones ''pay.hr.corp.example'')
          = Some ''private''"
    by code_simp
  then obtain z where z: "find_zone_for_domain demo_zones ''pay.hr.corp.example'' = Some z"
    "z_visibility z = ''private''" by auto
  then have "z_visibility z \<noteq> ''public''" by simp
  from router_permission_requires_token [OF a z(1) this] a show ?thesis by auto
qed

end
