(* ===== verification/Domain_Policy.thy ===== *)
theory Domain_Policy
  imports Prelude
begin

text \<open>
  Per-identity domain allowlists: the matcher of the DNS server
  (\<^verbatim>\<open>dns-server/app/utils/domain_policy.py\<close>) and the validator the manager runs when an allowlist is
  stored (\<^verbatim>\<open>manager/backend/app/utils/domain_validation.py\<close>).
\<close>

section \<open>The matcher\<close>

definition normalize_domain :: "string \<Rightarrow> string" where
  "normalize_domain domain = py_rstrip_dot (py_lower domain)"

text \<open>One round of the loop: \<open>Some r\<close> is \<^verbatim>\<open>return r\<close>, \<open>None\<close> goes on to the next entry.\<close>

definition policy_entry :: "string \<Rightarrow> string \<Rightarrow> bool option" where
  "policy_entry normalized_query entry =
     (let normalized_entry = normalize_domain entry in
      if normalized_query = normalized_entry then Some True
      else if py_startswith normalized_entry ''*.'' then
        (let sfx = drop 2 normalized_entry in
         if py_endswith normalized_query (''.'' @ sfx) \<or> normalized_query = sfx
         then (if normalized_query = sfx then None else Some True)
         else None)
      else None)"

fun policy_loop :: "string \<Rightarrow> string list \<Rightarrow> bool" where
  "policy_loop q [] = False"
| "policy_loop q (entry # rest) =
     (case policy_entry q entry of Some r \<Rightarrow> r | None \<Rightarrow> policy_loop q rest)"

definition matches_policy :: "string \<Rightarrow> string list option \<Rightarrow> bool" where
  "matches_policy queried_name allowed_domains =
     (case allowed_domains of
        None \<Rightarrow> True
      | Some ds \<Rightarrow> (if ds = [] then False else policy_loop (normalize_domain queried_name) ds))"

section \<open>The validator\<close>

definition is_lower_alnum :: "char \<Rightarrow> bool" where
  "is_lower_alnum c = (let n = (of_char c :: nat) in (97 \<le> n \<and> n \<le> 122) \<or> (48 \<le> n \<and> n \<le> 57))"

text \<open>
  The language of \<^verbatim>\<open>[a-z0-9]([a-z0-9-]{0,61}[a-z0-9])?\<close>: one to 63 characters, a hyphen neither
  first nor last.
\<close>

definition host_label_core :: "string \<Rightarrow> bool" where
  "host_label_core l \<longleftrightarrow>
     l \<noteq> [] \<and> length l \<le> 63 \<and> is_lower_alnum (hd l) \<and> is_lower_alnum (last l) \<and>
     list_all (\<lambda>c. is_lower_alnum c \<or> c = CHR ''-'') l"

text \<open>
  \<^verbatim>\<open>re.match(r'^...$', label)\<close>: the \<^verbatim>\<open>$\<close> anchor matches at the end of the string and also just before
  a newline that ends it.
\<close>

definition host_label_re :: "string \<Rightarrow> bool" where
  "host_label_re l \<longleftrightarrow>
     host_label_core l \<or> (l \<noteq> [] \<and> last l = CHR 0x0A \<and> host_label_core (butlast l))"

definition validate_hostname :: "string \<Rightarrow> bool" where
  "validate_hostname hostname =
     (let base = (if py_startswith hostname ''*.'' then drop 2 hostname else hostname) in
      if length base > 253 \<or> length base = 0 then False
      else list_all (\<lambda>l. \<not> (length l = 0 \<or> length l > 63) \<and> host_label_re l) (labels base))"

datatype allowlist_error =
    Not_A_List
  | Too_Many nat
  | Not_A_String
  | Invalid_Pattern string

fun validate_entries :: "json list \<Rightarrow> bool \<times> allowlist_error option" where
  "validate_entries [] = (True, None)"
| "validate_entries (j # rest) =
     (case j of
        JStr d \<Rightarrow> (let domain = py_lower d in
                  if \<not> validate_hostname domain then (False, Some (Invalid_Pattern domain))
                  else validate_entries rest)
      | _ \<Rightarrow> (False, Some Not_A_String))"

definition validate_allowed_domains :: "json \<Rightarrow> bool \<times> allowlist_error option" where
  "validate_allowed_domains domains =
     (case domains of
        JNull \<Rightarrow> (True, None)
      | JList ds \<Rightarrow> (if length ds > 256 then (False, Some (Too_Many (length ds)))
                    else validate_entries ds)
      | _ \<Rightarrow> (False, Some Not_A_List))"

section \<open>Lemmas\<close>

lemma lower_char_idem [simp]: "lower_char (lower_char c) = lower_char c"
proof (cases "65 \<le> (of_char c :: nat) \<and> (of_char c :: nat) \<le> 90")
  case True
  then have "(of_char (char_of ((of_char c :: nat) + 32) :: char) :: nat) = of_char c + 32"
    by (simp add: of_char_of)
  with True show ?thesis by (simp add: lower_char_def)
next
  case False
  then show ?thesis by (auto simp: lower_char_def)
qed

lemma py_lower_idem [simp]: "py_lower (py_lower s) = py_lower s"
  by (simp add: py_lower_def)

lemma lower_char_dot [simp]: "lower_char c = dot \<longleftrightarrow> c = dot"
proof -
  have "lower_char c = dot \<Longrightarrow> c = dot"
  proof (cases "65 \<le> (of_char c :: nat) \<and> (of_char c :: nat) \<le> 90")
    case True
    assume "lower_char c = dot"
    with True have "char_of ((of_char c :: nat) + 32) = dot" by (simp add: lower_char_def)
    then have "(of_char (char_of ((of_char c :: nat) + 32) :: char) :: nat) = 46" by simp
    with True show ?thesis by (simp add: of_char_of)
  qed (auto simp: lower_char_def)
  moreover have "lower_char dot = dot" by (simp add: lower_char_def)
  ultimately show ?thesis by blast
qed

lemma rstrip_by_idem [simp]: "py_rstrip_by p (py_rstrip_by p s) = py_rstrip_by p s"
proof -
  have "dropWhile p (dropWhile p xs) = dropWhile p xs" for xs :: string
    by (induction xs) auto
  then show ?thesis by (simp add: py_rstrip_by_def)
qed

lemma py_lower_rstrip_dot: "py_lower (py_rstrip_dot s) = py_rstrip_dot (py_lower s)"
proof -
  have "map lower_char (dropWhile (\<lambda>c. c = dot) xs) = dropWhile (\<lambda>c. c = dot) (map lower_char xs)"
    for xs :: string by (induction xs) auto
  then show ?thesis
    by (simp add: py_lower_def py_rstrip_dot_def py_rstrip_by_def rev_map [symmetric])
qed

lemma normalize_domain_idem [simp]: "normalize_domain (normalize_domain d) = normalize_domain d"
  by (simp add: normalize_domain_def py_lower_rstrip_dot) (simp add: py_rstrip_dot_def)

text \<open>One entry decides the query exactly when it equals it or is a wildcard strictly above it.\<close>

definition entry_allows :: "string \<Rightarrow> string \<Rightarrow> bool" where
  "entry_allows q e \<longleftrightarrow>
     q = e \<or> (\<exists>w. e = ''*.'' @ w \<and> strict_suffix (labels w) (labels q))"

lemma entry_allows_wildcard:
  "entry_allows q (CHR ''*'' # dot # w) \<longleftrightarrow>
     q = CHR ''*'' # dot # w \<or> strict_suffix (labels w) (labels q)"
  by (auto simp: entry_allows_def)

lemma entry_allows_exact: "\<not> py_startswith e ''*.'' \<Longrightarrow> entry_allows q e \<longleftrightarrow> q = e"
  by (auto simp: entry_allows_def)

lemma policy_entry_allows:
  "policy_entry q e = (if entry_allows q (normalize_domain e) then Some True else None)"
proof (cases "py_startswith (normalize_domain e) ''*.''")
  case True
  then obtain w where w: "normalize_domain e = ''*.'' @ w"
    by (auto simp: prefix_def)
  have "q \<noteq> w" if "strict_suffix (labels w) (labels q)"
    using that by auto
  with w show ?thesis
    by (auto simp: policy_entry_def Let_def entry_allows_wildcard endswith_dot_iff)
next
  case False
  then show ?thesis
    by (simp add: policy_entry_def entry_allows_exact)
qed

lemma policy_loop_iff: "policy_loop q ds \<longleftrightarrow> (\<exists>d\<in>set ds. entry_allows q (normalize_domain d))"
  by (induction ds) (auto simp: policy_entry_allows)

lemma validate_entries_ok:
  "validate_entries ds = (True, e) \<longleftrightarrow>
     e = None \<and> (\<forall>j\<in>set ds. \<exists>d. j = JStr d \<and> validate_hostname (py_lower d))"
proof (induction ds)
  case (Cons j ds)
  then show ?case by (cases j) (auto simp: Let_def)
qed auto

section \<open>Properties\<close>

text \<open>
  C15. The per-identity allowlist decides exactly its documented rule: a query is allowed when there
  is no allowlist, or when, after lower-casing and removing trailing dots, it equals an entry or lies
  strictly below (by whole labels, never by the apex itself) the suffix of a wildcard entry; an
  empty list allows nothing.
\<close>

theorem matches_policy_iff:
  "matches_policy q allowed \<longleftrightarrow>
     (case allowed of
        None \<Rightarrow> True
      | Some ds \<Rightarrow>
          (\<exists>d\<in>set ds. normalize_domain q = normalize_domain d
             \<or> (\<exists>w. normalize_domain d = ''*.'' @ w
                    \<and> strict_suffix (labels w) (labels (normalize_domain q)))))"
  by (auto simp: matches_policy_def policy_loop_iff entry_allows_def split: option.splits)

lemma labels_last_char: "d \<noteq> [] \<Longrightarrow> last d = dot \<Longrightarrow> last (labels d) = []"
proof -
  assume "d \<noteq> []" "last d = dot"
  then obtain u where "d = u @ dot # []" by (metis append_butlast_last_id)
  then have "labels d = labels u @ [[]]"
    using labels_append_dot [of u "[]"] by (simp add: labels_def)
  then show ?thesis by simp
qed

lemma rstrip_dot_id: "s = [] \<or> last s \<noteq> dot \<Longrightarrow> py_rstrip_dot s = s"
  by (cases s rule: rev_cases) (auto simp: py_rstrip_dot_def py_rstrip_by_def)

lemma validate_hostname_last: "validate_hostname h \<Longrightarrow> h \<noteq> [] \<and> last h \<noteq> dot"
proof -
  assume v: "validate_hostname h"
  define b where "b = (if py_startswith h ''*.'' then drop 2 h else h)"
  from v have b: "b \<noteq> []" "[] \<notin> set (labels b)"
    by (auto simp: validate_hostname_def b_def Let_def list_all_iff split: if_splits)
  then have lb: "last b \<noteq> dot" by (metis labels_last_char labels_not_Nil last_in_set)
  have "h \<noteq> []" "last h = last b"
    using b(1) by (auto simp: b_def last_drop split: if_splits)
  with lb show ?thesis by simp
qed

text \<open>
  What the manager's validator accepts is what the DNS server compares: an accepted allowlist
  entry, lower-cased, is a fixed point of the server's normalisation, is allowed for itself, and an
  accepted wildcard is allowed for exactly the names strictly below its suffix (never its apex).
\<close>

theorem accepted_entry_semantics:
  assumes "validate_allowed_domains (JList [JStr d]) = (True, None)"
  shows "normalize_domain d = py_lower d \<and> matches_policy d (Some [d]) \<and>
    (\<forall>w q. py_lower d = ''*.'' @ w \<longrightarrow>
       matches_policy q (Some [d]) =
         (normalize_domain q = py_lower d \<or> strict_suffix (labels w) (labels (normalize_domain q))))"
proof -
  have "validate_hostname (py_lower d)"
    using assms by (auto simp: validate_allowed_domains_def Let_def split: if_splits)
  then have n: "normalize_domain d = py_lower d"
    using validate_hostname_last by (simp add: normalize_domain_def rstrip_dot_id)
  moreover have "matches_policy d (Some [d])"
    by (simp add: matches_policy_def policy_entry_def)
  moreover have "matches_policy q (Some [d]) =
      (normalize_domain q = py_lower d \<or> strict_suffix (labels w) (labels (normalize_domain q)))"
    if "py_lower d = ''*.'' @ w" for w q
  proof -
    have "matches_policy q (Some [d]) = entry_allows (normalize_domain q) (''*.'' @ w)"
      using that n by (simp add: matches_policy_def policy_loop_iff del: policy_loop.simps)
    then show ?thesis using that by (simp add: entry_allows_wildcard)
  qed
  ultimately show ?thesis by blast
qed

theorem accepted_entry_semantics_witness:
  "matches_policy ''A.example.com.'' (Some [''*.Example.com''])
   \<and> \<not> matches_policy ''example.com'' (Some [''*.Example.com''])"
proof -
  have v: "validate_allowed_domains (JList [JStr ''*.Example.com'']) = (True, None)"
    by code_simp
  have l: "py_lower ''*.Example.com'' = ''*.'' @ ''example.com''"
    by code_simp
  have "normalize_domain ''A.example.com.'' = ''a.example.com''"
       "normalize_domain ''example.com'' = ''example.com''" by code_simp+
  moreover have "strict_suffix (labels ''example.com'') (labels ''a.example.com'')" by code_simp
  ultimately show ?thesis
    using accepted_entry_semantics [OF v] l by auto
qed

text \<open>
  The \<^verbatim>\<open>$\<close> anchor lets a pattern that ends in a newline through: such an entry is stored but can never
  be the normal form of a well-formed query name.
\<close>

lemma newline_pattern_accepted:
  "validate_allowed_domains (JList [JStr (''example.com'' @ [CHR 0x0A])]) = (True, None)"
  by code_simp

end
