(* ===== verification/Ioc_Checker.thy ===== *)
theory Ioc_Checker
  imports Domain_Policy Ip_Address
begin

text \<open>
  The threat-intelligence checker (\<^verbatim>\<open>dns-server/app/services/ioc_checker.py\<close>) and the log sanitiser it
  uses (\<^verbatim>\<open>dns-server/app/utils/log_sanitize.py\<close>). The state is the object's five attributes; the
  \<^verbatim>\<open>ipaddress\<close> functions are a record \<open>ip_lib\<close> of operations, instantiated with the IPv4 model of
  \<open>Ip_Address\<close>; what the checker needs of them is the locale \<open>ip_library\<close>.
\<close>

section \<open>The operations of the ipaddress module\<close>

record ('net, 'addr) ip_lib =
  ip_network :: "string \<Rightarrow> 'net option"
  num_addresses :: "'net \<Rightarrow> nat"
  network_address_str :: "'net \<Rightarrow> string"
  ip_address :: "string \<Rightarrow> 'addr option"
  in_network :: "'addr \<Rightarrow> 'net \<Rightarrow> bool"

definition ipv4_lib :: "(nat \<times> nat, nat) ip_lib" where
  "ipv4_lib = \<lparr> ip_network = ipv4_network, num_addresses = ipv4_num_addresses,
               network_address_str = (\<lambda>net. ipv4_str (fst net)),
               ip_address = ipv4_parse, in_network = ipv4_in_network \<rparr>"

section \<open>State\<close>

record feed =
  feed_id :: "int option"
  feed_name :: "string option"
  feed_type :: string
  feed_entries :: "string list"

record feed_stats =
  fs_id :: "int option"
  fs_type :: string
  fs_domains :: nat
  fs_ips :: nat
  fs_total :: nat

record 'net ioc_state =
  blocked_domains :: "string set"
  wildcard_domains :: "string set"
  blocked_ips :: "string set"
  blocked_cidrs :: "'net list"
  feed_sources :: "string option \<rightharpoonup> feed_stats"

definition ioc_clear :: "'net ioc_state \<Rightarrow> 'net ioc_state" where
  "ioc_clear s = s\<lparr> blocked_domains := {}, wildcard_domains := {}, blocked_ips := {},
                   blocked_cidrs := [], feed_sources := Map.empty \<rparr>"

definition ioc_init :: "'net ioc_state" where
  "ioc_init = \<lparr> blocked_domains = {}, wildcard_domains = {}, blocked_ips = {},
               blocked_cidrs = [], feed_sources = Map.empty \<rparr>"

section \<open>Loading feeds\<close>

definition ioc_normalize :: "string \<Rightarrow> string" where
  "ioc_normalize e = py_lower (py_rstrip_dot (py_strip e))"

definition try_load_ip_or_cidr ::
  "('net, 'addr) ip_lib \<Rightarrow> string \<Rightarrow> 'net ioc_state \<Rightarrow> bool \<times> 'net ioc_state" where
  "try_load_ip_or_cidr L entry s =
     (case ip_network L entry of
        None \<Rightarrow> (False, s)
      | Some network \<Rightarrow>
          if num_addresses L network = 1
          then (True, s\<lparr> blocked_ips := insert (network_address_str L network) (blocked_ips s) \<rparr>)
          else (True, s\<lparr> blocked_cidrs := blocked_cidrs s @ [network] \<rparr>))"

fun load_entries ::
  "('net, 'addr) ip_lib \<Rightarrow> string list \<Rightarrow> nat \<Rightarrow> nat \<Rightarrow> 'net ioc_state \<Rightarrow>
   nat \<times> nat \<times> 'net ioc_state" where
  "load_entries L [] domain_count ip_count s = (domain_count, ip_count, s)"
| "load_entries L (entry # rest) domain_count ip_count s =
     (if entry = [] then load_entries L rest domain_count ip_count s
      else
        (let normalized = ioc_normalize entry in
         case try_load_ip_or_cidr L normalized s of
           (True, s') \<Rightarrow> load_entries L rest domain_count (ip_count + 1) s'
         | (False, _) \<Rightarrow>
             (if py_startswith normalized ''*.''
              then load_entries L rest (domain_count + 1) ip_count
                     (s\<lparr> wildcard_domains := insert normalized (wildcard_domains s) \<rparr>)
              else load_entries L rest (domain_count + 1) ip_count
                     (s\<lparr> blocked_domains := insert normalized (blocked_domains s) \<rparr>))))"

definition load_feed :: "('net, 'addr) ip_lib \<Rightarrow> feed \<Rightarrow> 'net ioc_state \<Rightarrow> 'net ioc_state" where
  "load_feed L f s =
     (case load_entries L (feed_entries f) 0 0 s of
        (domain_count, ip_count, s') \<Rightarrow>
          s'\<lparr> feed_sources := (feed_sources s')(feed_name f \<mapsto>
                \<lparr> fs_id = feed_id f, fs_type = feed_type f, fs_domains = domain_count,
                  fs_ips = ip_count, fs_total = length (feed_entries f) \<rparr>) \<rparr>)"

definition load_feeds :: "('net, 'addr) ip_lib \<Rightarrow> feed list \<Rightarrow> 'net ioc_state \<Rightarrow> 'net ioc_state" where
  "load_feeds L feeds s = fold (load_feed L) feeds (ioc_clear s)"

section \<open>Checking\<close>

definition check_wildcard :: "'net ioc_state \<Rightarrow> string \<Rightarrow> bool" where
  "check_wildcard s domain \<longleftrightarrow>
     (\<exists>wildcard\<in>wildcard_domains s.
        let pattern = drop 2 wildcard in
        py_endswith domain (''.'' @ pattern) \<or> domain = pattern)"

definition is_blocked :: "'net ioc_state \<Rightarrow> string \<Rightarrow> bool" where
  "is_blocked s domain =
     (let normalized = ioc_normalize domain in
      if normalized \<in> blocked_domains s then True
      else if check_wildcard s normalized then True
      else list_ex (\<lambda>parent. parent \<in> blocked_domains s) (parents_from 1 normalized))"

definition is_ip_blocked :: "('net, 'addr) ip_lib \<Rightarrow> 'net ioc_state \<Rightarrow> string \<Rightarrow> bool" where
  "is_ip_blocked L s ip =
     (let ip_normalized = py_lower (py_strip ip) in
      if ip_normalized \<in> blocked_ips s then True
      else (case ip_address L ip_normalized of
              None \<Rightarrow> False
            | Some ip_obj \<Rightarrow> list_ex (\<lambda>cidr. in_network L ip_obj cidr) (blocked_cidrs s)))"

definition ioc_stats :: "'net ioc_state \<Rightarrow> nat \<times> nat \<times> nat \<times> nat" where
  "ioc_stats s = (card (blocked_domains s), card (wildcard_domains s), card (blocked_ips s),
                  length (blocked_cidrs s))"

section \<open>Log sanitising\<close>

definition is_control :: "char \<Rightarrow> bool" where
  "is_control c \<longleftrightarrow> (of_char c :: nat) < 32 \<or> (of_char c :: nat) = 127"

definition sanitize_for_log :: "string option \<Rightarrow> string" where
  "sanitize_for_log v = (case v of None \<Rightarrow> [] | Some s \<Rightarrow> filter (\<lambda>c. \<not> is_control c) s)"

section \<open>Lemmas: what a load puts into the state\<close>

text \<open>The entries of a list of feeds that are not empty, normalised.\<close>

definition feed_indicators :: "feed list \<Rightarrow> string set" where
  "feed_indicators feeds =
     {ioc_normalize e | e f. f \<in> set feeds \<and> e \<in> set (feed_entries f) \<and> e \<noteq> []}"

definition entry_indicators :: "string list \<Rightarrow> string set" where
  "entry_indicators es = {ioc_normalize e | e. e \<in> set es \<and> e \<noteq> []}"

lemma entry_indicators_simps [simp]:
  "entry_indicators [] = {}"
  "entry_indicators (e # es) =
     (if e = [] then {} else {ioc_normalize e}) \<union> entry_indicators es"
  by (auto simp: entry_indicators_def)

lemma feed_indicators_simps [simp]:
  "feed_indicators [] = {}"
  "feed_indicators (f # fs) = entry_indicators (feed_entries f) \<union> feed_indicators fs"
  by (auto simp: feed_indicators_def entry_indicators_def)

text \<open>How a set of indicators is filed: exact domains, wildcards, single addresses, networks.\<close>

definition exact_of :: "('net, 'addr) ip_lib \<Rightarrow> string set \<Rightarrow> string set" where
  "exact_of L X = {n \<in> X. ip_network L n = None \<and> \<not> py_startswith n ''*.''}"

definition wild_of :: "('net, 'addr) ip_lib \<Rightarrow> string set \<Rightarrow> string set" where
  "wild_of L X = {n \<in> X. ip_network L n = None \<and> py_startswith n ''*.''}"

definition nets_of :: "('net, 'addr) ip_lib \<Rightarrow> string set \<Rightarrow> 'net set" where
  "nets_of L X = {net. \<exists>n\<in>X. ip_network L n = Some net}"

definition singles_of :: "('net, 'addr) ip_lib \<Rightarrow> string set \<Rightarrow> string set" where
  "singles_of L X = network_address_str L ` {net \<in> nets_of L X. num_addresses L net = 1}"

definition cidrs_of :: "('net, 'addr) ip_lib \<Rightarrow> string set \<Rightarrow> 'net set" where
  "cidrs_of L X = {net \<in> nets_of L X. num_addresses L net \<noteq> 1}"

lemmas filed_defs = exact_of_def wild_of_def nets_of_def singles_of_def cidrs_of_def

lemma filed_Un:
  "exact_of L (X \<union> Y) = exact_of L X \<union> exact_of L Y"
  "wild_of L (X \<union> Y) = wild_of L X \<union> wild_of L Y"
  "singles_of L (X \<union> Y) = singles_of L X \<union> singles_of L Y"
  "cidrs_of L (X \<union> Y) = cidrs_of L X \<union> cidrs_of L Y"
  by (auto simp: filed_defs)

text \<open>\<open>loaded L X s t\<close>: \<open>t\<close> is \<open>s\<close> with the indicators \<open>X\<close> filed by their kind.\<close>

definition loaded ::
  "('net, 'addr) ip_lib \<Rightarrow> string set \<Rightarrow> 'net ioc_state \<Rightarrow> 'net ioc_state \<Rightarrow> bool" where
  "loaded L X s t \<longleftrightarrow>
     blocked_domains t = blocked_domains s \<union> exact_of L X \<and>
     wildcard_domains t = wildcard_domains s \<union> wild_of L X \<and>
     blocked_ips t = blocked_ips s \<union> singles_of L X \<and>
     set (blocked_cidrs t) = set (blocked_cidrs s) \<union> cidrs_of L X"

lemma loaded_refl: "loaded L {} s s"
  by (simp add: loaded_def filed_defs)

lemma loaded_trans: "\<lbrakk> loaded L X s t; loaded L Y t u \<rbrakk> \<Longrightarrow> loaded L (X \<union> Y) s u"
  by (simp add: loaded_def filed_Un Un_assoc)

lemma filed_single:
  "ip_network L n = None \<Longrightarrow> exact_of L {n} = (if py_startswith n ''*.'' then {} else {n})"
  "ip_network L n = None \<Longrightarrow> wild_of L {n} = (if py_startswith n ''*.'' then {n} else {})"
  "ip_network L n = None \<Longrightarrow> nets_of L {n} = {}"
  "ip_network L n = Some net \<Longrightarrow> exact_of L {n} = {}"
  "ip_network L n = Some net \<Longrightarrow> wild_of L {n} = {}"
  "ip_network L n = Some net \<Longrightarrow> nets_of L {n} = {net}"
  by (auto simp: exact_of_def wild_of_def nets_of_def)

lemma loaded_network:
  assumes "ip_network L n = Some net"
  shows "\<exists>t. try_load_ip_or_cidr L n s = (True, t) \<and> loaded L {n} s t"
proof (cases "num_addresses L net = 1")
  case True
  then have "singles_of L {n} = {network_address_str L net}" "cidrs_of L {n} = {}"
    using assms by (auto simp: singles_of_def cidrs_of_def filed_single)
  with assms True show ?thesis by (simp add: try_load_ip_or_cidr_def loaded_def filed_single)
next
  case False
  then have "singles_of L {n} = {}" "cidrs_of L {n} = {net}"
    using assms by (auto simp: singles_of_def cidrs_of_def filed_single)
  with assms False show ?thesis by (simp add: try_load_ip_or_cidr_def loaded_def filed_single)
qed

lemma loaded_domain:
  "ip_network L n = None \<Longrightarrow>
     loaded L {n} s (if py_startswith n ''*.''
       then s\<lparr> wildcard_domains := insert n (wildcard_domains s) \<rparr>
       else s\<lparr> blocked_domains := insert n (blocked_domains s) \<rparr>)"
  by (simp add: loaded_def filed_single singles_of_def cidrs_of_def)

lemma load_entries_loaded:
  "load_entries L es dc ic s = (dc', ic', s') \<Longrightarrow> loaded L (entry_indicators es) s s'"
proof (induction es arbitrary: dc ic s)
  case Nil
  then show ?case by (simp add: loaded_refl)
next
  case (Cons e es)
  show ?case
  proof (cases "e = []")
    case True
    with Cons show ?thesis by simp
  next
    case False
    define n where "n = ioc_normalize e"
    have "\<exists>t dc1 ic1. loaded L {n} s t \<and> load_entries L es dc1 ic1 t = (dc', ic', s')"
    proof (cases "ip_network L n")
      case None
      then have "try_load_ip_or_cidr L n s = (False, s)"
        by (simp add: try_load_ip_or_cidr_def)
      with Cons.prems False loaded_domain [OF None, of s] show ?thesis
        by (auto simp: n_def [symmetric] Let_def split: if_splits)
    next
      case (Some net)
      then obtain t where t: "try_load_ip_or_cidr L n s = (True, t)" "loaded L {n} s t"
        using loaded_network [of L n net s] by auto
      have "load_entries L es dc (ic + 1) t = (dc', ic', s')"
        using Cons.prems False t(1) by (simp add: n_def [symmetric] Let_def)
      with t(2) show ?thesis by (intro exI conjI)
    qed
    then obtain t where "loaded L {n} s t" "loaded L (entry_indicators es) t s'"
      using Cons.IH by blast
    then have "loaded L ({n} \<union> entry_indicators es) s s'" by (rule loaded_trans)
    with False show ?thesis by (simp add: n_def)
  qed
qed

lemma load_feed_loaded: "loaded L (entry_indicators (feed_entries f)) s (load_feed L f s)"
proof -
  obtain dc ic s' where e: "load_entries L (feed_entries f) 0 0 s = (dc, ic, s')"
    by (cases "load_entries L (feed_entries f) 0 0 s") auto
  from load_entries_loaded [OF e] show ?thesis
    by (simp add: load_feed_def e loaded_def)
qed

lemma load_feeds_loaded: "loaded L (feed_indicators feeds) (ioc_clear s) (load_feeds L feeds s)"
proof -
  have "loaded L (feed_indicators feeds) s0 (fold (load_feed L) feeds s0)" for s0 :: "'a ioc_state"
  proof (induction feeds arbitrary: s0)
    case Nil
    then show ?case by (simp add: loaded_refl)
  next
    case (Cons f fs)
    from loaded_trans [OF load_feed_loaded Cons.IH] show ?case by simp
  qed
  then show ?thesis by (simp add: load_feeds_def)
qed

lemma load_feeds_state:
  "blocked_domains (load_feeds L feeds s) = exact_of L (feed_indicators feeds)"
  "wildcard_domains (load_feeds L feeds s) = wild_of L (feed_indicators feeds)"
  "blocked_ips (load_feeds L feeds s) = singles_of L (feed_indicators feeds)"
  "set (blocked_cidrs (load_feeds L feeds s)) = cidrs_of L (feed_indicators feeds)"
  using load_feeds_loaded [of L feeds s] by (simp_all add: loaded_def ioc_clear_def)

text \<open>The zone an indicator names: a wildcard stands for its suffix.\<close>

definition indicator_zone :: "string \<Rightarrow> string" where
  "indicator_zone n = (if py_startswith n ''*.'' then drop 2 n else n)"

lemma check_wildcard_iff:
  "check_wildcard s d \<longleftrightarrow> (\<exists>w\<in>wildcard_domains s. in_zone (drop 2 w) d)"
  by (auto simp: check_wildcard_def Let_def in_zone_endswith)

lemma is_blocked_state:
  "is_blocked s d \<longleftrightarrow>
     (\<exists>b\<in>blocked_domains s. in_zone b (ioc_normalize d)) \<or>
     (\<exists>w\<in>wildcard_domains s. in_zone (drop 2 w) (ioc_normalize d))"
  unfolding is_blocked_def Let_def list_ex_iff set_parents_1 check_wildcard_iff
  by (metis (mono_tags, lifting) in_zone_refl mem_Collect_eq)

section \<open>What the checker needs of the ipaddress module\<close>

locale ip_library =
  fixes L :: "('net, 'addr) ip_lib"
  assumes single_text: "\<lbrakk> ip_network L s = Some net; num_addresses L net = 1 \<rbrakk> \<Longrightarrow>
    ip = network_address_str L net \<longleftrightarrow> (\<exists>a. ip_address L ip = Some a \<and> in_network L a net)"
begin

lemma singles_of_iff:
  "ip \<in> singles_of L X \<longleftrightarrow>
     (\<exists>net\<in>nets_of L X. num_addresses L net = 1 \<and>
        (\<exists>a. ip_address L ip = Some a \<and> in_network L a net))"
proof -
  have "ip = network_address_str L net \<longleftrightarrow> (\<exists>a. ip_address L ip = Some a \<and> in_network L a net)"
    if "net \<in> nets_of L X" "num_addresses L net = 1" for net
    using that single_text unfolding nets_of_def by blast
  then have "(\<exists>net\<in>nets_of L X. num_addresses L net = 1 \<and> ip = network_address_str L net) \<longleftrightarrow>
     (\<exists>net\<in>nets_of L X. num_addresses L net = 1 \<and>
        (\<exists>a. ip_address L ip = Some a \<and> in_network L a net))"
    by blast
  then show ?thesis unfolding singles_of_def by blast
qed

lemma is_ip_blocked_networks:
  "is_ip_blocked L (load_feeds L feeds s) ip \<longleftrightarrow>
     (\<exists>net\<in>nets_of L (feed_indicators feeds).
        \<exists>a. ip_address L (py_lower (py_strip ip)) = Some a \<and> in_network L a net)"
proof (cases "ip_address L (py_lower (py_strip ip))")
  case None
  then show ?thesis by (simp add: is_ip_blocked_def Let_def load_feeds_state singles_of_iff)
next
  case (Some a)
  then show ?thesis
    by (auto simp: is_ip_blocked_def Let_def list_ex_iff load_feeds_state singles_of_iff cidrs_of_def)
qed

end

interpretation ip4: ip_library ipv4_lib
proof
  fix s ip :: string and net :: "nat \<times> nat"
  assume "ip_network ipv4_lib s = Some net" "num_addresses ipv4_lib net = 1"
  then have n: "ipv4_network s = Some net" "ipv4_num_addresses net = 1"
    by (simp_all add: ipv4_lib_def)
  show "ip = network_address_str ipv4_lib net \<longleftrightarrow>
    (\<exists>a. ip_address ipv4_lib ip = Some a \<and> in_network ipv4_lib a net)"
    using ipv4_network_bound [OF n(1)] ipv4_single_network [OF n]
    by (auto simp: ipv4_lib_def ipv4_parse_iff)
qed

section \<open>Properties\<close>

text \<open>
  C16. After a feed load, whatever was loaded before, a domain is blocked exactly when some non-empty
  entry of some feed that is not an IP address or network, normalised and read without a leading \<^verbatim>\<open>*.\<close>, is
  the normalised domain or a parent of it by whole labels; so a wildcard blocks its apex too. A feed has no flag here: all
  that are delivered count.
\<close>

theorem is_blocked_after_load:
  "is_blocked (load_feeds L feeds s) d \<longleftrightarrow>
     (\<exists>n\<in>feed_indicators feeds. ip_network L n = None \<and> in_zone (indicator_zone n) (ioc_normalize d))"
  by (auto simp: is_blocked_state load_feeds_state exact_of_def wild_of_def indicator_zone_def)

text \<open>
  After a feed load, an IPv4 answer is blocked exactly when it parses as an address (after
  stripping and lower-casing) that lies in the network of some feed entry, single addresses and CIDR
  blocks alike.
\<close>

theorem is_ip_blocked_after_load:
  "is_ip_blocked ipv4_lib (load_feeds ipv4_lib feeds s) ip \<longleftrightarrow>
     (\<exists>n\<in>feed_indicators feeds. \<exists>net a. ipv4_network n = Some net \<and>
        ipv4_parse (py_lower (py_strip ip)) = Some a \<and> ipv4_in_network a net)"
  unfolding ip4.is_ip_blocked_networks by (auto simp: nets_of_def ipv4_lib_def)

text \<open>
  A sanitised value holds no carriage return, line feed or other control character, keeps all
  other characters in order, and is left alone by a second pass, so a logged request value cannot
  start a new log line.
\<close>

theorem sanitize_for_log_safe:
  "\<not> list_ex is_control (sanitize_for_log v)
   \<and> sanitize_for_log (Some (sanitize_for_log v)) = sanitize_for_log v
   \<and> subseq (sanitize_for_log v) (case v of None \<Rightarrow> [] | Some s \<Rightarrow> s)"
  by (auto simp: sanitize_for_log_def list_ex_iff split: option.splits)

end
