(* ===== verification/Manager_Client.thy ===== *)
theory Manager_Client
  imports Selective_Router Ioc_Checker
begin

text \<open>
  The DNS server's link to the Manager (\<^verbatim>\<open>dns-server/app/services/manager_client.py\<close>) and the
  degradation logic on top of it (\<^verbatim>\<open>dns-server/app/utils/resilience.py\<close>).

  Every HTTP call consumes one element of a list of responses, the behaviour of the Manager during
  the run; an exhausted list is an unreachable Manager. A response is typed by the endpoint that
  gives it. An operation returns \<open>None\<close> for an exception that escapes it, or \<open>Some\<close> of its result,
  together with the new client state and the remaining responses. Clock readings are arguments, in
  microseconds; one operation reads the clock once.
\<close>

section \<open>State\<close>

record config =
  cfg_zones :: "zone_cfg list option"
  cfg_feeds :: "feed list option"

definition empty_config :: config where
  "empty_config = \<lparr> cfg_zones = None, cfg_feeds = None \<rparr>"

record disk_cache =
  d_jwt_token :: "string option"
  d_server_id :: "string option"
  d_config :: config
  d_cached_at :: "int option"

record mclient =
  join_key :: "string option"
  jwt_token :: "string option"
  server_id :: "string option"
  config_cache :: config
  cached_at :: "int option"
  cache_file :: "disk_cache option"
  cache_writable :: bool

datatype http_resp =
    RequestException
  | StatusNot200 nat
  | RegisterOk string string "config option"
  | RegisterNoServerId string
  | RefreshOk string
  | ConfigOk config
  | HeartbeatOk bool
  | BodyWithoutMember

type_synonym world = "http_resp list"

type_synonym 'a mc_result = "'a option \<times> mclient \<times> world"

fun next_resp :: "world \<Rightarrow> http_resp \<times> world" where
  "next_resp [] = (RequestException, [])"
| "next_resp (r # w) = (r, w)"

section \<open>The disk cache\<close>

definition save_to_cache :: "mclient \<Rightarrow> mclient" where
  "save_to_cache c =
     (if cache_writable c
      then c\<lparr> cache_file := Some \<lparr> d_jwt_token = jwt_token c, d_server_id = server_id c,
                                   d_config = config_cache c, d_cached_at = cached_at c \<rparr> \<rparr>
      else c)"

definition load_from_cache :: "mclient \<Rightarrow> bool \<times> mclient" where
  "load_from_cache c =
     (case cache_file c of
        None \<Rightarrow> (False, c)
      | Some d \<Rightarrow> (True, c\<lparr> jwt_token := d_jwt_token d, server_id := d_server_id d,
                           config_cache := d_config d, cached_at := d_cached_at d \<rparr>))"

section \<open>Calls to the Manager\<close>

definition register :: "int \<Rightarrow> mclient \<Rightarrow> world \<Rightarrow> bool mc_result" where
  "register now c w =
     (if \<not> truthy (join_key c) then (Some False, c, w)
      else (case next_resp w of (resp, w') \<Rightarrow>
        (case resp of
           RequestException \<Rightarrow> (Some False, c, w')
         | StatusNot200 _ \<Rightarrow> (Some False, c, w')
         | RegisterOk jwt sid conf \<Rightarrow>
             (Some True,
              save_to_cache (c\<lparr> jwt_token := Some jwt, server_id := Some sid,
                               config_cache := get_default conf empty_config,
                               cached_at := Some now \<rparr>), w')
         | RegisterNoServerId jwt \<Rightarrow> (None, c\<lparr> jwt_token := Some jwt \<rparr>, w')
         | _ \<Rightarrow> (None, c, w'))))"

definition refresh_jwt :: "int \<Rightarrow> mclient \<Rightarrow> world \<Rightarrow> bool mc_result" where
  "refresh_jwt now c w =
     (if \<not> truthy (jwt_token c) then register now c w
      else (case next_resp w of (resp, w') \<Rightarrow>
        (case resp of
           RequestException \<Rightarrow> (Some False, c, w')
         | StatusNot200 _ \<Rightarrow> register now c w'
         | RefreshOk jwt \<Rightarrow> (Some True, save_to_cache (c\<lparr> jwt_token := Some jwt \<rparr>), w')
         | _ \<Rightarrow> (None, c, w'))))"

lemma next_resp_length: "length (snd (next_resp w)) \<le> length w"
  by (cases w) auto

lemma next_resp_le: "next_resp w = (resp, v) \<Longrightarrow> length v \<le> length w"
  using next_resp_length [of w] by simp

lemma register_world: "register now c w = (r, c', w') \<Longrightarrow> length w' \<le> length w"
  by (auto simp: register_def dest: next_resp_le split: if_splits prod.splits http_resp.splits)

lemma refresh_world: "refresh_jwt now c w = (r, c', w') \<Longrightarrow> length w' \<le> length w"
  by (auto simp: refresh_jwt_def dest: next_resp_le dest!: register_world
      split: if_splits prod.splits http_resp.splits)

text \<open>
  \<^verbatim>\<open>sync_config\<close> calls itself again after a successful refresh; each round consumes a response, which
  bounds the recursion by the length of the Manager's behaviour.
\<close>

function sync_config :: "int \<Rightarrow> mclient \<Rightarrow> world \<Rightarrow> bool mc_result" where
  "sync_config now c w =
     (if \<not> truthy (jwt_token c) \<or> \<not> truthy (server_id c) then (Some False, c, w)
      else (case w of
         [] \<Rightarrow> (Some False, c, [])
       | resp # w' \<Rightarrow>
          (case resp of
             ConfigOk conf \<Rightarrow>
               (Some True, save_to_cache (c\<lparr> config_cache := conf, cached_at := Some now \<rparr>), w')
           | StatusNot200 n \<Rightarrow>
               (if n = 401 then
                  (case refresh_jwt now c w' of
                     (Some True, c', w'') \<Rightarrow> sync_config now c' w''
                   | (Some False, c', w'') \<Rightarrow> (Some False, c', w'')
                   | (None, c', w'') \<Rightarrow> (None, c', w''))
                else (Some False, c, w'))
           | _ \<Rightarrow> (Some False, c, w'))))"
  by pat_completeness auto
termination
proof (relation "measure (\<lambda>(now, c, w). length w)", goal_cases)
  case (2 now c w resp w' n x y b c' w'')
  then have "length w'' \<le> length w'" by (auto dest!: sym [of _ "refresh_jwt now c w'"] refresh_world)
  with 2 show ?case by (auto dest!: sym [of "(c', w'')"])
qed simp

declare sync_config.simps [simp del]

definition heartbeat :: "int \<Rightarrow> mclient \<Rightarrow> world \<Rightarrow> bool mc_result" where
  "heartbeat now c w =
     (if \<not> truthy (jwt_token c) \<or> \<not> truthy (server_id c) then (Some False, c, w)
      else (case next_resp w of (resp, w') \<Rightarrow>
        (case resp of
           HeartbeatOk should_sync \<Rightarrow>
             (if should_sync then
                (case sync_config now c w' of
                   (None, c', w'') \<Rightarrow> (None, c', w'')
                 | (Some _, c', w'') \<Rightarrow> (Some True, c', w''))
              else (Some True, c, w'))
         | StatusNot200 n \<Rightarrow>
             (if n = 401 then
                (case refresh_jwt now c w' of
                   (None, c', w'') \<Rightarrow> (None, c', w'')
                 | (Some _, c', w'') \<Rightarrow> (Some False, c', w''))
              else (Some False, c, w'))
         | _ \<Rightarrow> (Some False, c, w'))))"

text \<open>\<open>jwt_exp\<close> is the expiry of an unverified decode, in microseconds; \<open>None\<close> is an exception.\<close>

definition is_jwt_valid :: "(string \<Rightarrow> int option) \<Rightarrow> int \<Rightarrow> mclient \<Rightarrow> bool" where
  "is_jwt_valid jwt_exp now c =
     (if \<not> truthy (jwt_token c) then False
      else (case jwt_exp (the (jwt_token c)) of
              None \<Rightarrow> False
            | Some e \<Rightarrow> now < e - 300 * 1000000))"

section \<open>Operational mode\<close>

record resilience =
  res_mode :: string
  res_ttl :: int

definition res_init :: resilience where
  "res_init = \<lparr> res_mode = ''normal'', res_ttl = 24 * 3600 * 1000000 \<rparr>"

definition check_mode ::
  "(string \<Rightarrow> int option) \<Rightarrow> int \<Rightarrow> resilience \<Rightarrow> mclient \<Rightarrow> world \<Rightarrow>
   string option \<times> resilience \<times> mclient \<times> world" where
  "check_mode jwt_exp now r c w =
     (if is_jwt_valid jwt_exp now c then (Some ''normal'', r\<lparr> res_mode := ''normal'' \<rparr>, c, w)
      else (case refresh_jwt now c w of
              (None, c', w') \<Rightarrow> (None, r, c', w')
            | (Some True, c', w') \<Rightarrow> (Some ''normal'', r\<lparr> res_mode := ''normal'' \<rparr>, c', w')
            | (Some False, c', w') \<Rightarrow>
                (case cached_at c' of
                   None \<Rightarrow> (Some ''degraded'', r\<lparr> res_mode := ''degraded'' \<rparr>, c', w')
                 | Some at \<Rightarrow>
                     (if now - at < res_ttl r
                      then (Some ''cached'', r\<lparr> res_mode := ''cached'' \<rparr>, c', w')
                      else (Some ''degraded'', r\<lparr> res_mode := ''degraded'' \<rparr>, c', w')))))"

definition res_check_zone_permission :: "verify_env \<Rightarrow> zone_cfg \<Rightarrow> string option \<Rightarrow> bool option" where
  "res_check_zone_permission E zone token =
     (let visibility = get_default (zc_visibility zone) ''public'' in
      if visibility = ''public'' then Some True
      else if \<not> truthy token then Some False
      else (case ve_verify E (the token) of
              None \<Rightarrow> Some False
            | Some payload \<Rightarrow>
                (case user_teams payload of
                   None \<Rightarrow> None
                 | Some teams \<Rightarrow>
                     (let allowed_teams = get_default (zc_allowed_teams zone) [] in
                      if allowed_teams = [] then Some True
                      else Some (any_team_in teams allowed_teams)))))"

definition res_zone_decision ::
  "verify_env \<Rightarrow> config \<Rightarrow> string \<Rightarrow> string option \<Rightarrow> string option \<Rightarrow> bool option" where
  "res_zone_decision E conf mode zone_name token =
     (if \<not> truthy zone_name then Some True
      else (case find (\<lambda>z. zc_name z = the zone_name) (get_default (cfg_zones conf) []) of
              None \<Rightarrow> Some True
            | Some zone \<Rightarrow>
                if mode = ''normal'' then res_check_zone_permission E zone token
                else if mode = ''cached'' then res_check_zone_permission E zone token
                else if mode = ''degraded'' then
                  Some (get_default (zc_visibility zone) ''public'' = ''public'')
                else Some False))"

definition res_should_serve_zone ::
  "verify_env \<Rightarrow> (string \<Rightarrow> int option) \<Rightarrow> int \<Rightarrow> string option \<Rightarrow> string option \<Rightarrow>
   resilience \<Rightarrow> mclient \<Rightarrow> world \<Rightarrow> bool option \<times> resilience \<times> mclient \<times> world" where
  "res_should_serve_zone E jwt_exp now zone_name token r c w =
     (case check_mode jwt_exp now r c w of
        (None, r', c', w') \<Rightarrow> (None, r', c', w')
      | (Some mode, r', c', w') \<Rightarrow>
          (res_zone_decision E (config_cache c') mode zone_name token, r', c', w'))"

section \<open>Lemmas\<close>

lemma register_cases:
  assumes "register now c w = (res, c', w')"
  shows "c' = c \<and> res \<noteq> Some True
    \<or> (\<exists>jwt sid conf. res = Some True \<and>
         c' = save_to_cache (c\<lparr> jwt_token := Some jwt, server_id := Some sid,
                               config_cache := get_default conf empty_config, cached_at := Some now \<rparr>))
    \<or> (\<exists>jwt. res = None \<and> c' = c\<lparr> jwt_token := Some jwt \<rparr>)"
  using assms by (auto simp: register_def split: if_splits prod.splits http_resp.splits)

lemma refresh_False: "refresh_jwt now c w = (Some False, c', w') \<Longrightarrow> c' = c"
  by (auto simp: refresh_jwt_def dest: register_cases split: if_splits prod.splits http_resp.splits)

lemma save_to_cache_fields [simp]:
  "jwt_token (save_to_cache c) = jwt_token c" "server_id (save_to_cache c) = server_id c"
  "config_cache (save_to_cache c) = config_cache c" "cached_at (save_to_cache c) = cached_at c"
  "join_key (save_to_cache c) = join_key c" "cache_writable (save_to_cache c) = cache_writable c"
  by (simp_all add: save_to_cache_def)

text \<open>What each mode says about the client it leaves behind.\<close>

lemma check_mode_cases:
  assumes "check_mode jwt_exp now r c w = (Some m, r', c', w')"
  shows "res_mode r' = m \<and> res_ttl r' = res_ttl r \<and>
    (m = ''normal'' \<and> (is_jwt_valid jwt_exp now c \<or> (\<exists>v. refresh_jwt now c w = (Some True, c', v)))
     \<or> m = ''cached'' \<and> c' = c \<and> \<not> is_jwt_valid jwt_exp now c \<and>
         (\<exists>at. cached_at c = Some at \<and> now - at < res_ttl r)
     \<or> m = ''degraded'' \<and> c' = c \<and> \<not> is_jwt_valid jwt_exp now c \<and>
         (\<forall>at. cached_at c = Some at \<longrightarrow> res_ttl r \<le> now - at))"
  using assms
  by (auto simp: check_mode_def dest: refresh_False
      split: if_splits prod.splits option.splits bool.splits)

lemma find_zone_cfg:
  "find (\<lambda>z. zc_name z = n) zs = Some z \<Longrightarrow> z \<in> set zs \<and> zc_name z = n"
  by (auto simp: find_Some_iff)

lemma next_resp_set: "next_resp w = (resp, v) \<Longrightarrow> set v \<subseteq> set w"
  by (cases w) auto

lemma refresh_world_set: "refresh_jwt now c w = (r, c', w') \<Longrightarrow> set w' \<subseteq> set w"
proof -
  have reg: "set v' \<subseteq> set v" if "register now c v = (r, c', v')" for v v'
    using that by (auto simp: register_def dest!: next_resp_set split: if_splits prod.splits http_resp.splits)
  assume "refresh_jwt now c w = (r, c', w')"
  then show ?thesis
    by (auto simp: refresh_jwt_def dest!: next_resp_set dest: reg [THEN subsetD]
        split: if_splits prod.splits http_resp.splits)
qed

text \<open>The JSON integers of a team list are never equal to the string keys of a token's team map.\<close>

lemma any_team_in_ints: "\<not> any_team_in teams (map JInt ids)"
  by (auto simp: any_team_in_def list_ex_iff)

lemma sync_config_True:
  "sync_config now c w = (Some True, c', w') \<Longrightarrow>
     (\<exists>conf. ConfigOk conf \<in> set w \<and> config_cache c' = conf) \<and> cached_at c' = Some now"
proof (induction now c w rule: sync_config.induct)
  case (1 now c w)
  then show ?case
  proof (cases w)
    case (Cons resp v)
    show ?thesis
    proof (cases "\<exists>c1 v1. resp = StatusNot200 401 \<and> refresh_jwt now c v = (Some True, c1, v1)")
      case True
      then obtain c1 v1 where r: "resp = StatusNot200 401" "refresh_jwt now c v = (Some True, c1, v1)"
        by blast
      from 1(2) Cons r have tok: "truthy (jwt_token c)" "truthy (server_id c)"
        and "sync_config now c1 v1 = (Some True, c', w')"
        by (auto simp: sync_config.simps [of now c "StatusNot200 401 # v"] split: if_splits)
      with 1(1) Cons r have "(\<exists>conf. ConfigOk conf \<in> set v1 \<and> config_cache c' = conf) \<and> cached_at c' = Some now"
        by auto
      moreover have "set v1 \<subseteq> set v" using r(2) by (rule refresh_world_set)
      ultimately show ?thesis using Cons by auto
    next
      case False
      with 1(2) Cons show ?thesis
        by (auto simp: sync_config.simps [of now c "resp # v"]
            split: if_splits http_resp.splits prod.splits option.splits bool.splits)
    qed
  qed (auto simp: sync_config.simps [of now c "[]"] split: if_splits)
qed

section \<open>Properties\<close>

text \<open>
  The operational mode is what the Manager link supports: \<^verbatim>\<open>normal\<close> only with an unexpired server
  token or a refresh that just succeeded, \<^verbatim>\<open>cached\<close> only when neither holds and a configuration younger
  than the cache lifetime is held, \<^verbatim>\<open>degraded\<close> only when there is none or it is too old; the reported
  mode is always one of the three and is the one recorded.
\<close>

theorem check_mode_sound:
  assumes "check_mode jwt_exp now r c w = (Some m, r', c', w')"
  shows "res_mode r' = m \<and>
    (m = ''normal'' \<and> (is_jwt_valid jwt_exp now c \<or> (\<exists>v. refresh_jwt now c w = (Some True, c', v)))
     \<or> m = ''cached'' \<and> c' = c \<and> \<not> is_jwt_valid jwt_exp now c \<and>
         (\<exists>at. cached_at c = Some at \<and> now - at < res_ttl r)
     \<or> m = ''degraded'' \<and> c' = c \<and> \<not> is_jwt_valid jwt_exp now c \<and>
         (\<forall>at. cached_at c = Some at \<longrightarrow> res_ttl r \<le> now - at))"
  using check_mode_cases [OF assms] by blast

definition demo_client :: mclient where
  "demo_client = \<lparr> join_key = Some ''key'', jwt_token = Some ''srv'', server_id = Some ''1'',
     config_cache = \<lparr> cfg_zones = Some [\<lparr> zc_name = ''corp'', zc_visibility = Some ''internal'',
        zc_allowed_teams = None, zc_records = None \<rparr>], cfg_feeds = None \<rparr>,
     cached_at = Some 0, cache_file = None, cache_writable = True \<rparr>"

theorem check_mode_sound_witness:
  "fst (check_mode (\<lambda>_. Some 0) 1000 res_init demo_client []) = Some ''cached''
   \<and> fst (check_mode (\<lambda>_. Some 0) (25 * 3600 * 1000000) res_init demo_client []) = Some ''degraded''
   \<and> \<not> is_jwt_valid (\<lambda>_. Some 0) 1000 demo_client"
proof -
  have c: "check_mode (\<lambda>_. Some 0) 1000 res_init demo_client []
      = (Some ''cached'', res_init\<lparr> res_mode := ''cached'' \<rparr>, demo_client, [])"
    by (simp add: check_mode_def is_jwt_valid_def refresh_jwt_def demo_client_def res_init_def)
  have d: "fst (check_mode (\<lambda>_. Some 0) (25 * 3600 * 1000000) res_init demo_client []) = Some ''degraded''"
    by (simp add: check_mode_def is_jwt_valid_def refresh_jwt_def demo_client_def res_init_def)
  show ?thesis using check_mode_sound [OF c] c d by auto
qed

text \<open>
  A zone the configuration names is served only as its visibility allows: in degraded mode only
  when it is public; in the other two modes, when it is not public, only to a token the verifier
  accepts and, when the zone lists teams, only to a member of one of them.
\<close>

theorem zone_served_only_as_allowed:
  assumes "res_zone_decision E conf mode (Some zn) token = Some True" "zn \<noteq> []"
    and "find (\<lambda>z. zc_name z = zn) (get_default (cfg_zones conf) []) = Some z"
    and "get_default (zc_visibility z) ''public'' \<noteq> ''public''"
  shows "(mode = ''normal'' \<or> mode = ''cached'') \<and>
    (\<exists>t payload teams. token = Some t \<and> t \<noteq> [] \<and> ve_verify E t = Some payload \<and>
       user_teams payload = Some teams \<and>
       (get_default (zc_allowed_teams z) [] = [] \<or>
        any_team_in teams (get_default (zc_allowed_teams z) [])))"
proof -
  from assms have m: "mode = ''normal'' \<or> mode = ''cached''"
    and p: "res_check_zone_permission E z token = Some True"
    by (auto simp: res_zone_decision_def split: if_splits)
  from p assms(4) obtain t where t: "token = Some t" "t \<noteq> []"
    by (cases token) (auto simp: res_check_zone_permission_def Let_def split: if_splits)
  with p assms(4) m show ?thesis
    by (auto simp: res_check_zone_permission_def Let_def split: if_splits option.splits)
qed

theorem zone_served_only_as_allowed_witness:
  "res_zone_decision demo_env (config_cache demo_client) ''normal'' (Some ''corp'') (Some ''admin-token'') = Some True
   \<and> (\<exists>payload. ve_verify demo_env ''admin-token'' = Some payload)"
proof -
  have d: "res_zone_decision demo_env (config_cache demo_client) ''normal'' (Some ''corp'')
             (Some ''admin-token'') = Some True"
    by code_simp
  have f: "find (\<lambda>z. zc_name z = ''corp'') (get_default (cfg_zones (config_cache demo_client)) [])
      = Some \<lparr> zc_name = ''corp'', zc_visibility = Some ''internal'', zc_allowed_teams = None,
               zc_records = None \<rparr>"
    by (simp add: demo_client_def)
  from zone_served_only_as_allowed [OF d _ f] d show ?thesis by auto
qed

text \<open>
  The two permission checks of the DNS server disagree on private zones: for every token the
  verifier accepts whose role is not admin (and whose team claim is well formed), the check used for
  queries lets a private zone without a team list through, while the router's own check, given the
  same zone, denies it.
\<close>

theorem private_zone_checks_disagree:
  assumes "t \<noteq> []" "ve_verify E t = Some payload" "user_teams payload = Some teams"
    and "json_get payload ''role'' \<noteq> JStr ''admin''"
    and "zc_visibility zc = Some ''private''" "get_default (zc_allowed_teams zc) [] = []"
  shows "res_check_zone_permission E zc (Some t) = Some True \<and>
    router_check_zone_permission E (load_zones [zc] []) (zc_name zc) (Some t) = Some False"
  using assms
  by (simp add: res_check_zone_permission_def router_check_zone_permission_def Let_def
      find_zone_for_domain_def load_zones_def load_zone_def)

theorem private_zone_checks_disagree_witness:
  "res_check_zone_permission
     \<lparr> ve_jwt = demo_jwt, ve_cfg = demo_cfg, ve_public_key = Some ''PEM2'', ve_public_keys = [] \<rparr>
     \<lparr> zc_name = ''hr'', zc_visibility = Some ''private'', zc_allowed_teams = None, zc_records = None \<rparr>
     (Some ''tok-2'') = Some True"
proof -
  let ?E = "\<lparr> ve_jwt = demo_jwt, ve_cfg = demo_cfg, ve_public_key = Some ''PEM2'', ve_public_keys = [] \<rparr>"
  have v: "ve_verify ?E ''tok-2'' = Some demo_claims" by code_simp
  have t: "user_teams demo_claims = Some []" by code_simp
  have r: "json_get demo_claims ''role'' = JStr ''user''" by code_simp
  show ?thesis
    using private_zone_checks_disagree [OF _ v t, of
        "\<lparr> zc_name = ''hr'', zc_visibility = Some ''private'', zc_allowed_teams = None, zc_records = None \<rparr>"] r
    by simp
qed

text \<open>
  A team-restricted zone whose team list holds the numeric team ids the Manager's REST
  configuration sends is served to no token at all: the token's team map has string keys, and no
  string equals a number.
\<close>

theorem numeric_team_list_denies_all:
  "zc_visibility zc = Some ''internal'' \<and> ids \<noteq> [] \<and> zc_allowed_teams zc = Some (map JInt ids)
   \<longrightarrow> res_check_zone_permission E zc token \<noteq> Some True"
  by (auto simp: res_check_zone_permission_def Let_def any_team_in_ints split: option.splits)

theorem numeric_team_list_denies_all_witness:
  "res_check_zone_permission demo_env
     \<lparr> zc_name = ''corp'', zc_visibility = Some ''internal'', zc_allowed_teams = Some [JInt 3],
       zc_records = None \<rparr> (Some ''admin-token'') \<noteq> Some True"
  using numeric_team_list_denies_all [of
      "\<lparr> zc_name = ''corp'', zc_visibility = Some ''internal'', zc_allowed_teams = Some [JInt 3],
        zc_records = None \<rparr>" "[3]"]
  by simp

text \<open>
  The disk cache restores the link: what one client saved, a later client reads back exactly
  (server token, server id, configuration and its age), provided the cache file could be written.
\<close>

theorem cache_save_load_roundtrip:
  assumes "cache_writable c"
  shows "load_from_cache (fresh\<lparr> cache_file := cache_file (save_to_cache c) \<rparr>) =
    (True, fresh\<lparr> cache_file := cache_file (save_to_cache c), jwt_token := jwt_token c,
                  server_id := server_id c, config_cache := config_cache c, cached_at := cached_at c \<rparr>)"
  using assms by (simp add: load_from_cache_def save_to_cache_def)

theorem cache_save_load_roundtrip_witness:
  "jwt_token (snd (load_from_cache
      (demo_client\<lparr> jwt_token := None, cache_file := cache_file (save_to_cache demo_client) \<rparr>))) = Some ''srv''"
  using cache_save_load_roundtrip [of demo_client "demo_client\<lparr> jwt_token := None \<rparr>"]
  by (simp add: demo_client_def)

text \<open>
  A configuration sync that reports success has stored, as the current configuration, one the
  Manager sent during this very call, stamped with the time of the call, however many token
  refreshes the call went through.
\<close>

theorem sync_config_success:
  assumes "sync_config now c w = (Some True, c', w')"
  shows "(\<exists>conf. ConfigOk conf \<in> set w \<and> config_cache c' = conf) \<and> cached_at c' = Some now"
  using assms by (rule sync_config_True)

theorem sync_config_success_witness:
  "cached_at (fst (snd (sync_config 42 demo_client
      [StatusNot200 401, RefreshOk ''srv2'', ConfigOk empty_config]))) = Some 42"
proof -
  obtain c' w' where s: "sync_config 42 demo_client
      [StatusNot200 401, RefreshOk ''srv2'', ConfigOk empty_config] = (Some True, c', w')"
    by (simp add: sync_config.simps refresh_jwt_def demo_client_def)
  from sync_config_success [OF s] s show ?thesis by simp
qed

end
