(* ===== verification/Dns_Query.thy ===== *)
theory Dns_Query
  imports Manager_Client Rate_Limiter
begin

text \<open>
  The DNS-over-HTTPS server itself: answer cache (\<^verbatim>\<open>dns-server/app/services/cache_manager.py\<close>), resolver
  (\<^verbatim>\<open>dns-server/app/services/dns_resolver.py\<close>) and the request handler, startup and background tasks
  (\<^verbatim>\<open>dns-server/app/main.py\<close>).

  Third-party code is a parameter: dnspython is \<open>dns_lib\<close>, the Redis client is \<open>redis_ops\<close> over a store
  of any type, SHA-256 is a function. A cached value is the response itself, because the JSON text of
  a response decodes to that response. \<open>st_metrics\<close> collects the calls to the metrics reporter.
\<close>

section \<open>Responses and the resolver\<close>

record dns_answer =
  a_name :: string
  a_type :: string
  a_ttl :: int
  a_data :: string

record dns_response =
  r_status :: int
  r_question :: "string \<times> string"
  r_answer :: "dns_answer list"

datatype resolver_outcome =
    Answers int "string list"
  | NXDOMAIN
  | ResolverTimeout
  | NoAnswer
  | OtherResolverError

record dns_lib =
  rdatatype_ok :: "string \<Rightarrow> bool"
  resolver_resolve :: "string \<Rightarrow> string \<Rightarrow> resolver_outcome"

definition empty_response :: "int \<Rightarrow> string \<Rightarrow> string \<Rightarrow> dns_response" where
  "empty_response status domain record_type =
     \<lparr> r_status = status, r_question = (domain, record_type), r_answer = [] \<rparr>"

definition resolve :: "dns_lib \<Rightarrow> string \<Rightarrow> string \<Rightarrow> dns_response" where
  "resolve D domain record_type =
     (if \<not> rdatatype_ok D (py_upper record_type) then empty_response 2 domain record_type
      else (case resolver_resolve D domain (py_upper record_type) of
              Answers ttl datas \<Rightarrow>
                \<lparr> r_status = 0, r_question = (domain, record_type),
                  r_answer = map (\<lambda>d. \<lparr> a_name = domain, a_type = record_type, a_ttl = ttl,
                                        a_data = d \<rparr>) datas \<rparr>
            | NXDOMAIN \<Rightarrow> empty_response 3 domain record_type
            | ResolverTimeout \<Rightarrow> empty_response 2 domain record_type
            | NoAnswer \<Rightarrow> empty_response 0 domain record_type
            | OtherResolverError \<Rightarrow> empty_response 2 domain record_type))"

definition resolve_custom_zone :: "string \<Rightarrow> string \<Rightarrow> zone_rec list \<Rightarrow> dns_response" where
  "resolve_custom_zone domain record_type zone_records =
     (let matching_records =
        map (\<lambda>r. \<lparr> a_name = domain, a_type = record_type, a_ttl = get_default (rec_ttl r) 300,
                  a_data = rec_value r \<rparr>)
          (filter (\<lambda>r. rec_name r = domain \<and> rec_type r = record_type) zone_records)
      in if matching_records \<noteq> []
         then \<lparr> r_status = 0, r_question = (domain, record_type), r_answer = matching_records \<rparr>
         else empty_response 3 domain record_type)"

section \<open>The answer cache\<close>

text \<open>\<open>redis_get\<close>: \<open>None\<close> is an exception, \<open>Some None\<close> a miss. \<open>redis_setex\<close>: \<open>None\<close> is an exception.\<close>

record 'r redis_ops =
  redis_get :: "'r \<Rightarrow> string \<Rightarrow> dns_response option option"
  redis_setex :: "'r \<Rightarrow> string \<Rightarrow> int \<Rightarrow> dns_response \<Rightarrow> 'r option"

record 'r cache_mgr =
  cm_redis :: "'r option"
  cm_hits :: nat
  cm_misses :: nat

definition cache_key :: "string \<Rightarrow> string \<Rightarrow> string" where
  "cache_key domain record_type = ''dns:'' @ domain @ '':'' @ record_type"

definition cache_get ::
  "'r redis_ops \<Rightarrow> string \<Rightarrow> string \<Rightarrow> 'r cache_mgr \<Rightarrow> dns_response option \<times> 'r cache_mgr" where
  "cache_get R domain record_type cm =
     (case cm_redis cm of
        None \<Rightarrow> (None, cm)
      | Some store \<Rightarrow>
          (case redis_get R store (cache_key domain record_type) of
             None \<Rightarrow> (None, cm)
           | Some None \<Rightarrow> (None, cm\<lparr> cm_misses := cm_misses cm + 1 \<rparr>)
           | Some (Some v) \<Rightarrow> (Some v, cm\<lparr> cm_hits := cm_hits cm + 1 \<rparr>)))"

definition cache_set ::
  "'r redis_ops \<Rightarrow> int \<Rightarrow> string \<Rightarrow> string \<Rightarrow> dns_response \<Rightarrow> 'r cache_mgr \<Rightarrow> 'r cache_mgr" where
  "cache_set R ttl domain record_type result cm =
     (case cm_redis cm of
        None \<Rightarrow> cm
      | Some store \<Rightarrow>
          (case redis_setex R store (cache_key domain record_type) ttl result of
             None \<Rightarrow> cm
           | Some store' \<Rightarrow> cm\<lparr> cm_redis := Some store' \<rparr>))"

section \<open>Metrics labels\<close>

definition VALID_DNS_RECORD_TYPES :: "string list" where
  "VALID_DNS_RECORD_TYPES =
     [''A'', ''AAAA'', ''CNAME'', ''MX'', ''TXT'', ''NS'', ''SOA'', ''SRV'', ''PTR'', ''CAA'',
      ''DS'', ''DNSKEY'', ''NAPTR'', ''TLSA'', ''SSHFP'', ''CERT'', ''HTTPS'', ''SVCB'', ''ANY'']"

definition metric_record_type :: "string option \<Rightarrow> string" where
  "metric_record_type record_type =
     (if \<not> truthy record_type then ''A''
      else (let upper = py_upper (py_strip (the record_type))
            in if upper \<in> set VALID_DNS_RECORD_TYPES then upper else ''OTHER''))"

definition metrics_source :: "(string \<Rightarrow> string) \<Rightarrow> string \<Rightarrow> string option \<Rightarrow> string" where
  "metrics_source sha256 token token_identity =
     (if truthy token_identity then the token_identity
      else if token \<noteq> [] then take 8 (sha256 token)
      else ''anonymous'')"

datatype metric =
    MRateLimited string string string string
  | MPolicyDenial
  | MQuery string string string string

text \<open>\<open>MRateLimited domain type identity_type source\<close>, \<open>MQuery domain type status source\<close>.\<close>

section \<open>Server state and request\<close>

record ('net, 'addr, 'r) dns_env =
  e_verify :: verify_env
  e_jwt_exp :: "string \<Rightarrow> int option"
  e_sha256 :: "string \<Rightarrow> string"
  e_ip :: "('net, 'addr) ip_lib"
  e_dns :: dns_lib
  e_redis :: "'r redis_ops"
  e_cache_ttl :: int

record ('net, 'r) dns_state =
  st_limiter :: limiter
  st_resilience :: resilience
  st_client :: mclient
  st_world :: world
  st_ioc :: "'net ioc_state"
  st_zones :: zones
  st_cache :: "'r cache_mgr"
  st_metrics :: "metric list"

record dns_request =
  q_name :: "string option"
  q_type :: "string option"
  q_authorization :: "string option"
  q_remote_addr :: "string option"
  q_now :: int

datatype http_out =
    Bad_Request
  | Too_Many_Requests int
  | Ok_Response dns_response
  | Unauthorized
  | Internal_Error

definition emit :: "metric \<Rightarrow> ('net, 'r) dns_state \<Rightarrow> ('net, 'r) dns_state" where
  "emit m st = st\<lparr> st_metrics := st_metrics st @ [m] \<rparr>"

text \<open>\<^verbatim>\<open>request.headers.get('Authorization', '').replace('Bearer ', '')\<close>\<close>

definition extract_bearer_token :: "string option \<Rightarrow> string" where
  "extract_bearer_token auth = py_remove ''Bearer '' (get_default auth [])"

text \<open>The handlers verify with the single key only: the key ring is not passed.\<close>

definition main_verify :: "verify_env \<Rightarrow> string \<Rightarrow> claims option" where
  "main_verify E token = verify_squawk_jwt (ve_jwt E) (ve_cfg E) token (ve_public_key E) []"

definition require_valid_token :: "verify_env \<Rightarrow> string option \<Rightarrow> claims option" where
  "require_valid_token E auth =
     (let token = extract_bearer_token auth
      in if token = [] then None else main_verify E token)"

text \<open>\<^verbatim>\<open>payload.get('sub')\<close>; PyJWT accepts only string subjects.\<close>

definition subject_of :: "claims \<Rightarrow> string option" where
  "subject_of payload = (case json_get payload ''sub'' of JStr s \<Rightarrow> Some s | _ \<Rightarrow> None)"

definition find_zone_name :: "config \<Rightarrow> string \<Rightarrow> string option" where
  "find_zone_name conf domain =
     map_option zc_name
       (find (\<lambda>z. domain = zc_name z \<or> py_endswith domain (''.'' @ zc_name z))
             (get_default (cfg_zones conf) []))"

text \<open>
  \<^verbatim>\<open>matches_policy(domain, payload.get('dns_domains'))\<close> on the claim as decoded: a string is iterated
  by characters, an object by its keys; \<open>None\<close> is the exception raised by a value that cannot be
  iterated or by reaching an entry that is not a string.
\<close>

definition claim_policy :: "string \<Rightarrow> json \<Rightarrow> bool option" where
  "claim_policy domain claim =
     (case claim of
        JNull \<Rightarrow> Some True
      | JStr s \<Rightarrow> Some (matches_policy domain (Some (map (\<lambda>c. [c]) s)))
      | JObj kvs \<Rightarrow> Some (matches_policy domain (Some (map fst kvs)))
      | JBool b \<Rightarrow> (if b then None else Some False)
      | JInt i \<Rightarrow> (if i = 0 then Some False else None)
      | JList js \<Rightarrow>
          (let strs = takeWhile (\<lambda>j. case j of JStr _ \<Rightarrow> True | _ \<Rightarrow> False) js;
               ds = map (\<lambda>j. case j of JStr s \<Rightarrow> s | _ \<Rightarrow> []) strs
           in if matches_policy domain (Some ds) then Some True
              else if length strs = length js then Some False else None))"

section \<open>The query handler\<close>

text \<open>Operational mode and zone permission (the two calls into the resilience manager).\<close>

definition zone_gate ::
  "('net, 'addr, 'r) dns_env \<Rightarrow> int \<Rightarrow> string \<Rightarrow> string \<Rightarrow> ('net, 'r) dns_state \<Rightarrow>
   bool option \<times> ('net, 'r) dns_state" where
  "zone_gate E now domain token st =
     (case check_mode (e_jwt_exp E) now (st_resilience st) (st_client st) (st_world st) of
        (None, r, c, w) \<Rightarrow>
          (None, st\<lparr> st_resilience := r, st_client := c, st_world := w \<rparr>)
      | (Some mode, r, c, w) \<Rightarrow>
          (let zone_name = find_zone_name (config_cache c) domain in
           case res_should_serve_zone (e_verify E) (e_jwt_exp E) now zone_name (Some token) r c w of
             (ok, r', c', w') \<Rightarrow>
               (ok, st\<lparr> st_resilience := r', st_client := c', st_world := w' \<rparr>)))"

text \<open>The per-identity allowlist; \<open>None\<close> is an exception.\<close>

definition policy_gate :: "verify_env \<Rightarrow> string \<Rightarrow> string \<Rightarrow> bool option" where
  "policy_gate E domain token =
     (if token = [] then Some True
      else (case main_verify E token of
              None \<Rightarrow> Some True
            | Some payload \<Rightarrow> claim_policy domain (json_get payload ''dns_domains'')))"

text \<open>From the cache lookup to the end of the handler.\<close>

definition answer_query ::
  "('net, 'addr, 'r) dns_env \<Rightarrow> string \<Rightarrow> string \<Rightarrow> string \<Rightarrow> ('net, 'r) dns_state \<Rightarrow>
   http_out \<times> ('net, 'r) dns_state" where
  "answer_query E domain record_type src st =
     (let mrt = metric_record_type (Some record_type) in
      case cache_get (e_redis E) domain record_type (st_cache st) of
        (Some cached, cm) \<Rightarrow>
          (Ok_Response cached, emit (MQuery domain mrt ''success'' src) (st\<lparr> st_cache := cm \<rparr>))
      | (None, cm) \<Rightarrow>
          (let st1 = st\<lparr> st_cache := cm \<rparr>;
               zone_records = get_default (get_zone_records (st_zones st) domain) [];
               result = (if zone_records \<noteq> []
                         then resolve_custom_zone domain record_type zone_records
                         else resolve (e_dns E) domain record_type)
           in if list_ex (\<lambda>a. is_ip_blocked (e_ip E) (st_ioc st) (a_data a)) (r_answer result)
              then (Ok_Response (empty_response 3 domain record_type),
                    emit (MQuery domain mrt ''blocked'' src) st1)
              else (let st2 = (if r_status result = 0
                               then st1\<lparr> st_cache := cache_set (e_redis E) (e_cache_ttl E) domain
                                                        record_type result cm \<rparr>
                               else st1)
                    in (Ok_Response result,
                        emit (MQuery domain mrt (if r_status result = 0 then ''success'' else ''error'') src)
                          st2))))"

definition dns_query ::
  "('net, 'addr, 'r) dns_env \<Rightarrow> dns_request \<Rightarrow> ('net, 'r) dns_state \<Rightarrow>
   http_out \<times> ('net, 'r) dns_state" where
  "dns_query E req st =
     (let record_type = get_default (q_type req) ''A'';
          mrt = metric_record_type (Some record_type);
          token = extract_bearer_token (q_authorization req)
      in
      if \<not> truthy (q_name req) then (Bad_Request, st)
      else
        (let domain = the (q_name req);
             token_identity = (if token = [] then None
                               else (case main_verify (e_verify E) token of
                                       None \<Rightarrow> None | Some payload \<Rightarrow> subject_of payload));
             identity_type = (if truthy token_identity then ''token'' else ''ip'');
             src = metrics_source (e_sha256 E) token token_identity
         in
         case check_limit (st_limiter st) None token_identity None (q_remote_addr req)
                (of_int (q_now req) / 1000000) of
           None \<Rightarrow> (Internal_Error, st)
         | Some ((False, retry_after), l) \<Rightarrow>
             (Too_Many_Requests (\<lfloor>retry_after\<rfloor> + 1),
              emit (MRateLimited domain mrt identity_type src) (st\<lparr> st_limiter := l \<rparr>))
         | Some ((True, _), l) \<Rightarrow>
             (case zone_gate E (q_now req) domain token (st\<lparr> st_limiter := l \<rparr>) of
                (None, st1) \<Rightarrow> (Internal_Error, st1)
              | (Some False, st1) \<Rightarrow>
                  (Ok_Response (empty_response 3 domain record_type),
                   emit (MQuery domain mrt ''error'' src) st1)
              | (Some True, st1) \<Rightarrow>
                  (case policy_gate (e_verify E) domain token of
                     None \<Rightarrow> (Internal_Error, st1)
                   | Some False \<Rightarrow>
                       (Ok_Response (empty_response 3 domain record_type),
                        emit (MQuery domain mrt ''policy_denied'' src) (emit MPolicyDenial st1))
                   | Some True \<Rightarrow>
                       (if is_blocked (st_ioc st1) domain
                        then (Ok_Response (empty_response 3 domain record_type),
                              emit (MQuery domain mrt ''blocked'' src) st1)
                        else answer_query E domain record_type src st1)))))"

text \<open>The gate of the operational endpoints \<^verbatim>\<open>/metrics\<close> and \<^verbatim>\<open>/status\<close>.\<close>

definition operational_endpoint :: "('net, 'addr, 'r) dns_env \<Rightarrow> string option \<Rightarrow> bool" where
  "operational_endpoint E auth =
     (case require_valid_token (e_verify E) auth of None \<Rightarrow> False | Some payload \<Rightarrow> payload \<noteq> [])"

section \<open>Startup and background tasks\<close>

text \<open>Zones and feeds are reloaded only when the configuration's list is there and not empty.\<close>

definition reload_config ::
  "('net, 'addr, 'r) dns_env \<Rightarrow> ('net, 'r) dns_state \<Rightarrow> ('net, 'r) dns_state" where
  "reload_config E st =
     (let conf = config_cache (st_client st);
          st1 = (if get_default (cfg_zones conf) [] \<noteq> []
                 then st\<lparr> st_zones := load_zones (the (cfg_zones conf)) (st_zones st) \<rparr> else st)
      in if get_default (cfg_feeds conf) [] \<noteq> []
         then st1\<lparr> st_ioc := load_feeds (e_ip E) (the (cfg_feeds conf)) (st_ioc st1) \<rparr> else st1)"

definition startup ::
  "('net, 'addr, 'r) dns_env \<Rightarrow> int \<Rightarrow> ('net, 'r) dns_state \<Rightarrow> bool option \<times> ('net, 'r) dns_state" where
  "startup E now st =
     (case load_from_cache (st_client st) of (was_cached, c0) \<Rightarrow>
        (let st0 = (if was_cached then reload_config E (st\<lparr> st_client := c0 \<rparr>) else st\<lparr> st_client := c0 \<rparr>)
         in if is_jwt_valid (e_jwt_exp E) now c0 then (Some True, st0)
            else (case register now c0 (st_world st0) of
                    (None, c1, w1) \<Rightarrow> (None, st0\<lparr> st_client := c1, st_world := w1 \<rparr>)
                  | (Some False, c1, w1) \<Rightarrow> (Some True, st0\<lparr> st_client := c1, st_world := w1 \<rparr>)
                  | (Some True, c1, w1) \<Rightarrow>
                      (case sync_config now c1 w1 of
                         (None, c2, w2) \<Rightarrow> (None, st0\<lparr> st_client := c2, st_world := w2 \<rparr>)
                       | (Some False, c2, w2) \<Rightarrow> (Some True, st0\<lparr> st_client := c2, st_world := w2 \<rparr>)
                       | (Some True, c2, w2) \<Rightarrow>
                           (Some True, reload_config E (st0\<lparr> st_client := c2, st_world := w2 \<rparr>))))))"

definition sync_step ::
  "('net, 'addr, 'r) dns_env \<Rightarrow> int \<Rightarrow> ('net, 'r) dns_state \<Rightarrow> bool option \<times> ('net, 'r) dns_state" where
  "sync_step E now st =
     (case sync_config now (st_client st) (st_world st) of
        (Some True, c, w) \<Rightarrow> (Some True, reload_config E (st\<lparr> st_client := c, st_world := w \<rparr>))
      | (res, c, w) \<Rightarrow> (res, st\<lparr> st_client := c, st_world := w \<rparr>))"

definition heartbeat_step ::
  "int \<Rightarrow> ('net, 'r) dns_state \<Rightarrow> bool option \<times> ('net, 'r) dns_state" where
  "heartbeat_step now st =
     (case heartbeat now (st_client st) (st_world st) of
        (res, c, w) \<Rightarrow> (res, st\<lparr> st_client := c, st_world := w \<rparr>))"

section \<open>Lemmas\<close>

lemma emit_fields [simp]:
  "st_ioc (emit m st) = st_ioc st" "st_zones (emit m st) = st_zones st"
  "st_cache (emit m st) = st_cache st" "st_client (emit m st) = st_client st"
  "st_metrics (emit m st) = st_metrics st @ [m]"
  by (simp_all add: emit_def)

lemma zone_gate_frame:
  "zone_gate E now d t st = (ok, st') \<Longrightarrow>
     st_ioc st' = st_ioc st \<and> st_zones st' = st_zones st \<and> st_cache st' = st_cache st \<and>
     st_metrics st' = st_metrics st"
  by (auto simp: zone_gate_def Let_def split: option.splits prod.splits)

lemma empty_response_simps [simp]:
  "r_answer (empty_response n d t) = []" "r_status (empty_response n d t) = n"
  by (simp_all add: empty_response_def)

text \<open>An answer section that is not empty came out of the last stage, past all four gates.\<close>

lemma dns_query_reaches_answer:
  assumes "dns_query E req st = (Ok_Response resp, st')" "r_answer resp \<noteq> []"
  shows "\<exists>d l r st1 src. q_name req = Some d \<and> d \<noteq> [] \<and>
    (\<exists>ti. check_limit (st_limiter st) None ti None (q_remote_addr req)
            (of_int (q_now req) / 1000000) = Some ((True, r), l)) \<and>
    zone_gate E (q_now req) d (extract_bearer_token (q_authorization req))
      (st\<lparr> st_limiter := l \<rparr>) = (Some True, st1) \<and>
    policy_gate (e_verify E) d (extract_bearer_token (q_authorization req)) = Some True \<and>
    \<not> is_blocked (st_ioc st1) d \<and>
    answer_query E d (get_default (q_type req) ''A'') src st1 = (Ok_Response resp, st')"
proof -
  from assms(1) obtain d where d: "q_name req = Some d" "d \<noteq> []"
    by (cases "q_name req") (auto simp: dns_query_def Let_def split: if_splits)
  show ?thesis
    using assms d
    by (auto simp: dns_query_def Let_def split: if_splits option.splits prod.splits bool.splits)
qed

text \<open>What the last stage answers: the cached response, or one whose addresses no feed lists.\<close>

lemma answer_query_checked:
  assumes "answer_query E d rt src st = (Ok_Response resp, st')" "r_answer resp \<noteq> []"
  shows "fst (cache_get (e_redis E) d rt (st_cache st)) = Some resp \<or>
         (\<forall>a\<in>set (r_answer resp). \<not> is_ip_blocked (e_ip E) (st_ioc st) (a_data a))"
  using assms
  by (auto simp: answer_query_def Let_def list_ex_iff split: prod.splits option.splits if_splits)

text \<open>
  What an open zone gate means: the zone that the name belongs to by the first match, if there is one, is public in the
  configuration in force, or the token verifies and is one of a member of an allowed team (any member, if none is listed).
\<close>

definition zone_admits :: "verify_env \<Rightarrow> config \<Rightarrow> string option \<Rightarrow> string \<Rightarrow> bool" where
  "zone_admits V conf zone_name token \<longleftrightarrow>
     (\<forall>zone. truthy zone_name \<and> find (\<lambda>z. zc_name z = the zone_name) (get_default (cfg_zones conf) []) = Some zone
        \<and> get_default (zc_visibility zone) ''public'' \<noteq> ''public'' \<longrightarrow>
        token \<noteq> [] \<and> (\<exists>payload teams. ve_verify V token = Some payload \<and> user_teams payload = Some teams
          \<and> (get_default (zc_allowed_teams zone) [] = [] \<or> any_team_in teams (get_default (zc_allowed_teams zone) []))))"

lemma zone_gate_open:
  assumes "zone_gate E now d token st = (Some True, st')"
  shows "\<exists>mode r c w. check_mode (e_jwt_exp E) now (st_resilience st) (st_client st) (st_world st) = (Some mode, r, c, w)
    \<and> zone_admits (e_verify E) (config_cache (st_client st')) (find_zone_name (config_cache c) d) token"
proof -
  from assms obtain mode r c w r' c' w' where
    m: "check_mode (e_jwt_exp E) now (st_resilience st) (st_client st) (st_world st) = (Some mode, r, c, w)"
    and s: "res_should_serve_zone (e_verify E) (e_jwt_exp E) now (find_zone_name (config_cache c) d) (Some token) r c w
      = (Some True, r', c', w')"
    and st': "st' = st\<lparr> st_resilience := r', st_client := c', st_world := w' \<rparr>"
    by (auto simp: zone_gate_def Let_def split: option.splits prod.splits)
  from s obtain mode' where d: "res_zone_decision (e_verify E) (config_cache c') mode' (find_zone_name (config_cache c) d) (Some token) = Some True"
    by (auto simp: res_should_serve_zone_def split: option.splits prod.splits)
  have "zone_admits (e_verify E) (config_cache c') (find_zone_name (config_cache c) d) token"
    unfolding zone_admits_def
  proof (intro allI impI)
    fix zone
    assume z: "truthy (find_zone_name (config_cache c) d)
        \<and> find (\<lambda>z. zc_name z = the (find_zone_name (config_cache c) d)) (get_default (cfg_zones (config_cache c')) []) = Some zone
        \<and> get_default (zc_visibility zone) ''public'' \<noteq> ''public''"
    then have "res_check_zone_permission (e_verify E) zone (Some token) = Some True"
      using d by (auto simp: res_zone_decision_def split: if_splits)
    with z show "token \<noteq> [] \<and> (\<exists>payload teams. ve_verify (e_verify E) token = Some payload \<and> user_teams payload = Some teams
        \<and> (get_default (zc_allowed_teams zone) [] = [] \<or> any_team_in teams (get_default (zc_allowed_teams zone) [])))"
      by (auto simp: res_check_zone_permission_def Let_def truthy_def split: if_splits option.splits)
  qed
  with m st' show ?thesis by auto
qed

lemma takeWhile_strings: "takeWhile (\<lambda>j. case j of JStr s \<Rightarrow> True | _ \<Rightarrow> False) (map JStr ds) = map JStr ds"
  by (induction ds) simp_all

text \<open>An open policy gate: a token that verifies with the single key admits the name by its claim, a list of names included.\<close>

lemma policy_gate_open:
  assumes "policy_gate V d token = Some True" "token \<noteq> []" "main_verify V token = Some payload"
  shows "claim_policy d (json_get payload ''dns_domains'') = Some True"
    and "json_get payload ''dns_domains'' = JList (map JStr ds) \<Longrightarrow> matches_policy d (Some ds)"
proof -
  show c: "claim_policy d (json_get payload ''dns_domains'') = Some True" using assms by (simp add: policy_gate_def)
  assume "json_get payload ''dns_domains'' = JList (map JStr ds)"
  with c show "matches_policy d (Some ds)"
    by (simp add: claim_policy_def takeWhile_strings comp_def Let_def split: if_splits)
qed

lemma find_zone_name_first:
  assumes "cfg_zones conf = Some (pre @ p # rest)"
    and "\<And>z. z \<in> set pre \<Longrightarrow> \<not> in_zone (zc_name z) d" and "in_zone (zc_name p) d"
  shows "find_zone_name conf d = Some (zc_name p)"
proof -
  have c: "(d = zc_name z \<or> py_endswith d (''.'' @ zc_name z)) = in_zone (zc_name z) d" for z
    using in_zone_endswith [of "zc_name z" d] by auto
  have "find (\<lambda>z. in_zone (zc_name z) d) (pre @ p # rest) = Some p"
    using assms(2,3) by (induction pre) auto
  with assms(1) show ?thesis
    unfolding find_zone_name_def by (simp only: c get_default_simps option.map)
qed

lemma metric_record_type_bounded:
  "metric_record_type rt \<in> set VALID_DNS_RECORD_TYPES \<union> {''OTHER''}"
proof -
  have "''A'' \<in> set VALID_DNS_RECORD_TYPES" by code_simp
  then show ?thesis by (simp add: metric_record_type_def Let_def)
qed

section \<open>A concrete server for the witnesses\<close>

text \<open>
  An in-memory store for the cache, an upstream resolver that answers every name with
  \<^verbatim>\<open>93.184.216.34\<close>, and a registered server whose configuration lists a public zone before a private
  zone below it.
\<close>

definition alist_redis :: "(string \<times> dns_response) list redis_ops" where
  "alist_redis = \<lparr> redis_get = (\<lambda>s k. Some (map_of s k)),
                   redis_setex = (\<lambda>s k ttl v. Some (AList.update k v s)) \<rparr>"

definition demo_dns :: dns_lib where
  "demo_dns = \<lparr> rdatatype_ok = (\<lambda>t. t = ''A''),
               resolver_resolve = (\<lambda>d t. Answers 60 [''93.184.216.34'']) \<rparr>"

text \<open>Single hosts written out, so that the witnesses do not compute with 32-bit numbers.\<close>

definition demo_ip :: "(string, string) ip_lib" where
  "demo_ip = \<lparr> ip_network = (\<lambda>s. if 3 \<le> length (py_split dot s) then Some s else None),
              num_addresses = (\<lambda>_. 1), network_address_str = (\<lambda>s. s),
              ip_address = (\<lambda>s. if 3 \<le> length (py_split dot s) then Some s else None),
              in_network = (=) \<rparr>"

definition demo_dns_env :: "jwt_lib \<Rightarrow> (string, string, (string \<times> dns_response) list) dns_env" where
  "demo_dns_env J = \<lparr> e_verify = \<lparr> ve_jwt = J, ve_cfg = demo_cfg, ve_public_key = Some ''PEM2'',
                                   ve_public_keys = [(''k1'', ''PEM1'')] \<rparr>,
     e_jwt_exp = (\<lambda>_. Some 1000000000000), e_sha256 = (\<lambda>s. ''0123456789abcdef''),
     e_ip = demo_ip, e_dns = demo_dns, e_redis = alist_redis, e_cache_ttl = 300 \<rparr>"

definition demo_zone_cfgs :: "zone_cfg list" where
  "demo_zone_cfgs =
     [ \<lparr> zc_name = ''corp.example'', zc_visibility = Some ''public'', zc_allowed_teams = None,
         zc_records = None \<rparr>,
       \<lparr> zc_name = ''hr.corp.example'', zc_visibility = Some ''private'', zc_allowed_teams = Some [],
         zc_records = Some [\<lparr> rec_name = ''pay.hr.corp.example'', rec_type = ''A'',
                              rec_value = ''10.0.0.7'', rec_ttl = None \<rparr>] \<rparr> ]"

definition demo_state :: "config \<Rightarrow> (string, (string \<times> dns_response) list) dns_state" where
  "demo_state conf =
     \<lparr> st_limiter = limiter_init True 10 20 100,
       st_resilience = res_init,
       st_client = \<lparr> join_key = Some ''jk'', jwt_token = Some ''server'', server_id = Some ''1'',
                     config_cache = conf, cached_at = Some 0, cache_file = None,
                     cache_writable = False \<rparr>,
       st_world = [], st_ioc = ioc_init, st_zones = load_zones (get_default (cfg_zones conf) []) [],
       st_cache = \<lparr> cm_redis = Some [], cm_hits = 0, cm_misses = 0 \<rparr>, st_metrics = [] \<rparr>"

definition demo_conf :: config where
  "demo_conf = \<lparr> cfg_zones = Some demo_zone_cfgs, cfg_feeds = None \<rparr>"

definition demo_query :: "string \<Rightarrow> string option \<Rightarrow> dns_request" where
  "demo_query d auth = \<lparr> q_name = Some d, q_type = None, q_authorization = auth,
                        q_remote_addr = Some ''198.51.100.9'', q_now = 1000000 \<rparr>"

section \<open>Properties\<close>



text \<open>
  The handlers pass no key ring to the verifier, so every token that names its signing key by
  \<^verbatim>\<open>kid\<close> fails there: its \<^verbatim>\<open>dns_domains\<close> allowlist is never consulted, whatever the name, and the
  operational endpoints refuse it; the same token may well be accepted by the zone gate, which does
  use the ring.
\<close>

theorem kid_token_skips_allowlist:
  assumes "unverified_kid (ve_jwt (e_verify E)) t = Some (Some k)" "k \<noteq> []"
  shows "policy_gate (e_verify E) d t = Some True \<and>
    (extract_bearer_token auth = t \<longrightarrow> \<not> operational_endpoint E auth)"
  using verify_squawk_jwt_no_ring [OF assms]
  by (simp add: policy_gate_def main_verify_def operational_endpoint_def require_valid_token_def)

theorem kid_token_skips_allowlist_witness:
  "ve_verify (e_verify (demo_dns_env demo_jwt)) ''tok-k1'' = Some demo_claims \<and>
   \<not> matches_policy ''other.net'' (Some [''*.allowed.org'']) \<and>
   json_get demo_claims ''dns_domains'' = JList [JStr ''*.allowed.org''] \<and>
   policy_gate (e_verify (demo_dns_env demo_jwt)) ''other.net'' ''tok-k1'' = Some True"
proof -
  have k: "unverified_kid (ve_jwt (e_verify (demo_dns_env demo_jwt))) ''tok-k1'' = Some (Some ''k1'')"
    by code_simp
  have "ve_verify (e_verify (demo_dns_env demo_jwt)) ''tok-k1'' = Some demo_claims"
    "\<not> matches_policy ''other.net'' (Some [''*.allowed.org''])"
    "json_get demo_claims ''dns_domains'' = JList [JStr ''*.allowed.org'']"
    by code_simp+
  with kid_token_skips_allowlist [OF k, of "''other.net''"] show ?thesis by simp
qed

lemma res_zone_decision_public:
  assumes "find (\<lambda>z. zc_name z = n) (get_default (cfg_zones conf) []) = Some z"
    and "get_default (zc_visibility z) ''public'' = ''public''"
    and "mode \<in> {''normal'', ''cached'', ''degraded''}"
  shows "res_zone_decision E conf mode (Some n) token = Some True"
  using assms by (auto simp: res_zone_decision_def res_check_zone_permission_def)

lemma find_name_first:
  assumes "\<And>z. z \<in> set pre \<Longrightarrow> zc_name z \<noteq> zc_name p"
  shows "find (\<lambda>z. zc_name z = zc_name p) (pre @ p # rest) = Some p"
  using assms by (induction pre) auto

text \<open>
  The zone gate goes by the first zone of the configuration that covers the name, while the
  records come from the most specific one. When a public zone comes before a zone below it, the gate
  opens for every name of the lower zone, for every token and mode, and the handler then takes the
  records from the lower zone, whatever its visibility.
\<close>

theorem earlier_public_zone_opens_gate:
  assumes "cfg_zones conf = Some (pre @ p # rest)"
    and "\<And>z. z \<in> set pre \<Longrightarrow> \<not> in_zone (zc_name z) d"
    and "in_zone (zc_name p) d" "zc_name p \<noteq> []" "get_default (zc_visibility p) ''public'' = ''public''"
    and "mode \<in> {''normal'', ''cached'', ''degraded''}"
    and "map_of (load_zones (pre @ p # rest) old) n = Some zn" "in_zone n d"
    and "\<And>m. map_of (load_zones (pre @ p # rest) old) m \<noteq> None \<Longrightarrow> in_zone m d \<Longrightarrow> in_zone m n"
  shows "res_zone_decision E conf mode (find_zone_name conf d) token = Some True \<and>
    get_zone_records (load_zones (pre @ p # rest) old) d = Some (z_records zn)"
proof
  have f: "find (\<lambda>z. zc_name z = zc_name p) (get_default (cfg_zones conf) []) = Some p"
  proof -
    have "zc_name z \<noteq> zc_name p" if "z \<in> set pre" for z using assms(2) [OF that] assms(3) by metis
    from find_name_first [of pre p rest, OF this] assms(1) show ?thesis by simp
  qed
  show "res_zone_decision E conf mode (find_zone_name conf d) token = Some True"
  proof -
    have "find_zone_name conf d = Some (zc_name p)" using assms(1-3) by (rule find_zone_name_first)
    with res_zone_decision_public [OF f assms(5,6)] show ?thesis by simp
  qed
  let ?zs = "load_zones (pre @ p # rest) old"
  obtain y where y: "find_zone_for_domain ?zs d = Some y"
    using find_zone_None [of ?zs d] assms(7,8) by (cases "find_zone_for_domain ?zs d") auto
  then obtain m where n: "map_of ?zs m = Some y" "in_zone m d" "in_zone n m"
    using find_zone_covers [OF y] assms(7,8) by auto
  then have "m = n" using assms(9) in_zone_antisym by blast
  with n assms(7) y show "get_zone_records ?zs d = Some (z_records zn)"
    by (simp add: get_zone_records_def)
qed


theorem earlier_public_zone_opens_gate_witness:
  "res_zone_decision demo_env demo_conf ''normal'' (find_zone_name demo_conf ''pay.hr.corp.example'') None = Some True
   \<and> map_option (map rec_value)
        (get_zone_records (load_zones demo_zone_cfgs []) ''pay.hr.corp.example'') = Some [''10.0.0.7'']
   \<and> map a_data (case fst (dns_query (demo_dns_env demo_jwt) (demo_query ''pay.hr.corp.example'' None)
        (demo_state demo_conf)) of Ok_Response r \<Rightarrow> r_answer r | _ \<Rightarrow> []) = [''10.0.0.7'']"
proof -
  let ?d = "''pay.hr.corp.example''"
  have q: "map a_data (case fst (dns_query (demo_dns_env demo_jwt) (demo_query ?d None)
        (demo_state demo_conf)) of Ok_Response r \<Rightarrow> r_answer r | _ \<Rightarrow> []) = [''10.0.0.7'']"
    by code_simp
  let ?p = "hd demo_zone_cfgs" and ?c = "demo_zone_cfgs ! 1" and ?n = "''hr.corp.example''"
  let ?zs = "load_zones ([] @ ?p # [?c]) []"
  have l: "demo_zone_cfgs = [] @ ?p # [?c]" by (simp add: demo_zone_cfgs_def)
  have v: "map_option (map rec_value) (Some (z_records (the (map_of ?zs ?n)))) = Some [''10.0.0.7'']"
    by code_simp
  have "res_zone_decision demo_env demo_conf ''normal'' (find_zone_name demo_conf ?d) None = Some True \<and>
      get_zone_records ?zs ?d = Some (z_records (the (map_of ?zs ?n)))"
  proof (rule earlier_public_zone_opens_gate)
    show "cfg_zones demo_conf = Some ([] @ ?p # [?c])" unfolding l [symmetric] by (simp add: demo_conf_def)
    show "in_zone (zc_name ?p) ?d" "zc_name ?p \<noteq> []" "in_zone ?n ?d"
      "get_default (zc_visibility ?p) ''public'' = ''public''"
      "map_of ?zs ?n = Some (the (map_of ?zs ?n))" by code_simp+
    have k: "list_all (\<lambda>e. in_zone (fst e) ?n) ?zs" by code_simp
    show "in_zone m ?n" if "map_of ?zs m \<noteq> None" "in_zone m ?d" for m
    proof -
      from that(1) obtain y where "(m, y) \<in> set ?zs" using map_of_SomeD by fast
      with k show ?thesis unfolding list_all_iff by fastforce
    qed
  qed simp_all
  with q v show ?thesis unfolding l [symmetric] by simp
qed

text \<open>
  Emptying the zone list at the Manager does not empty the server: a successful sync of a
  configuration without zones keeps every loaded zone and its records, and opens the zone gate for
  every name, token and mode.
\<close>

theorem sync_without_zones_keeps_records:
  assumes "truthy (jwt_token (st_client st))" "truthy (server_id (st_client st))"
    and "st_world st = ConfigOk conf # w" "get_default (cfg_zones conf) [] = []"
  shows "\<exists>st'. sync_step E now st = (Some True, st') \<and> st_zones st' = st_zones st \<and>
    (\<forall>d mode token. res_zone_decision (e_verify E) (config_cache (st_client st')) mode
        (find_zone_name (config_cache (st_client st')) d) token = Some True)"
  using assms
  by (auto simp: sync_step_def sync_config.simps [of now "st_client st" "ConfigOk conf # w"]
      reload_config_def find_zone_name_def res_zone_decision_def Let_def)

theorem sync_without_zones_keeps_records_witness:
  "\<exists>st'. sync_step (demo_dns_env demo_jwt) 5
      ((demo_state demo_conf)\<lparr> st_world := [ConfigOk empty_config] \<rparr>) = (Some True, st') \<and>
    st_zones st' = st_zones (demo_state demo_conf) \<and> length (st_zones st') = 2"
proof -
  have "length (st_zones (demo_state demo_conf)) = 2" by code_simp
  with sync_without_zones_keeps_records
    [of "(demo_state demo_conf)\<lparr> st_world := [ConfigOk empty_config] \<rparr>" empty_config "[]"
      "demo_dns_env demo_jwt" 5]
  show ?thesis by (auto simp: demo_state_def empty_config_def)
qed

fun metric_ok :: "(string \<Rightarrow> string) \<Rightarrow> string \<Rightarrow> string option \<Rightarrow> metric \<Rightarrow> bool" where
  "metric_ok sha256 token ident (MRateLimited d t it src) =
     (t \<in> set VALID_DNS_RECORD_TYPES \<union> {''OTHER''} \<and> src = metrics_source sha256 token ident \<and>
      it = (if truthy ident then ''token'' else ''ip''))"
| "metric_ok sha256 token ident MPolicyDenial = True"
| "metric_ok sha256 token ident (MQuery d t s src) =
     (t \<in> set VALID_DNS_RECORD_TYPES \<union> {''OTHER''} \<and> src = metrics_source sha256 token ident \<and>
      s \<in> {''success'', ''error'', ''blocked'', ''policy_denied''})"

lemma answer_query_metrics:
  "\<exists>s. st_metrics (snd (answer_query E d rt src st)) =
         st_metrics st @ [MQuery d (metric_record_type (Some rt)) s src] \<and>
       s \<in> {''success'', ''error'', ''blocked''}"
  by (auto simp: answer_query_def emit_def Let_def split: prod.splits option.splits if_splits)

text \<open>
  The metrics a query leaves behind have bounded labels and never the token: whatever the client
  sends, the handler only appends entries whose type is a known record type or \<^verbatim>\<open>OTHER\<close> and whose
  source is the subject of the verified token, the first eight characters of the token's digest, or
  \<^verbatim>\<open>anonymous\<close>.
\<close>

theorem dns_query_metrics_bounded:
  "\<exists>ms. st_metrics (snd (dns_query E req st)) = st_metrics st @ ms \<and> length ms \<le> 2 \<and>
    list_all (metric_ok (e_sha256 E) (extract_bearer_token (q_authorization req))
      (Option.bind (require_valid_token (e_verify E) (q_authorization req)) subject_of)) ms"
proof -
  let ?t = "extract_bearer_token (q_authorization req)"
  let ?rt = "get_default (q_type req) ''A''"
  have id: "(if ?t = [] then None else case main_verify (e_verify E) ?t of
        None \<Rightarrow> None | Some payload \<Rightarrow> subject_of payload)
      = Option.bind (require_valid_token (e_verify E) (q_authorization req)) subject_of"
    by (auto simp: require_valid_token_def split: option.splits)
  obtain f where f: "\<And>d src st'. st_metrics (snd (answer_query E d ?rt src st')) =
         st_metrics st' @ [MQuery d (metric_record_type (Some ?rt)) (f d src st') src]"
    "\<And>d src st'. f d src st' \<in> {''success'', ''error'', ''blocked''}"
    using answer_query_metrics [of E _ ?rt] by metis
  have ok: "f d src st' \<in> {''success'', ''error'', ''blocked'', ''policy_denied''}" for d src st'
    using f(2) by blast
  show ?thesis
    using metric_record_type_bounded [of "Some ?rt"]
    unfolding dns_query_def Let_def id
    by (auto simp: emit_def f(1) ok [simplified] split: option.splits prod.splits bool.splits if_splits
        dest!: zone_gate_frame)
qed

text \<open>The cache contract the handler relies on, for entries that have not expired.\<close>

locale answer_store =
  fixes R :: "'r redis_ops"
  assumes get_set: "redis_setex R s k ttl v = Some s' \<Longrightarrow> redis_get R s' k = Some (Some v)"
    and get_other: "\<lbrakk> redis_setex R s k ttl v = Some s'; k' \<noteq> k \<rbrakk> \<Longrightarrow> redis_get R s' k' = redis_get R s k'"
begin

lemma cache_get_set:
  assumes "cm_redis cm = Some s" "redis_setex R s (cache_key d t) ttl v = Some s'"
  shows "fst (cache_get R d t (cache_set R ttl d t v cm)) = Some v"
  using assms get_set [OF assms(2)] by (simp add: cache_set_def cache_get_def)

lemma cache_get_other:
  assumes "cache_key d' t' \<noteq> cache_key d t"
  shows "fst (cache_get R d' t' (cache_set R ttl d t v cm)) = fst (cache_get R d' t' cm)"
  using assms get_other
  by (auto simp: cache_set_def cache_get_def split: option.splits)

end

interpretation alist_store: answer_store alist_redis
  by unfold_locales (auto simp: alist_redis_def update_conv')


text \<open>
  Over any store that returns what was last set, a response computed by the handler with status 0
  is what the next query for the same name and type is given, a response with another status is not
  stored, and the entries of other cache keys stay as they were.
\<close>

theorem answer_cached_iff_success:
  assumes "answer_store (e_redis E)" and "cm_redis (st_cache st) = Some s"
    and "\<And>v. redis_setex (e_redis E) s (cache_key d rt) (e_cache_ttl E) v \<noteq> None"
    and "fst (cache_get (e_redis E) d rt (st_cache st)) = None"
    and "answer_query E d rt src st = (Ok_Response resp, st')"
  shows "fst (cache_get (e_redis E) d rt (st_cache st')) = (if r_status resp = 0 then Some resp else None) \<and>
    (\<forall>d' rt'. cache_key d' rt' \<noteq> cache_key d rt \<longrightarrow>
       fst (cache_get (e_redis E) d' rt' (st_cache st')) = fst (cache_get (e_redis E) d' rt' (st_cache st)))"
proof -
  from assms(4) obtain cm where cm: "cache_get (e_redis E) d rt (st_cache st) = (None, cm)"
    by (cases "cache_get (e_redis E) d rt (st_cache st)") auto
  have r: "cm_redis cm = Some s" using cm assms(2) by (auto simp: cache_get_def split: option.splits)
  have same: "fst (cache_get (e_redis E) d' rt' cm) = fst (cache_get (e_redis E) d' rt' (st_cache st))" for d' rt'
    using r assms(2) by (simp add: cache_get_def split: option.splits)
  have c: "st_cache st' = (if r_status resp = 0
      then cache_set (e_redis E) (e_cache_ttl E) d rt resp cm else cm)"
    using assms(5) cm by (auto simp: answer_query_def Let_def split: if_splits)
  obtain s' where s': "redis_setex (e_redis E) s (cache_key d rt) (e_cache_ttl E) resp = Some s'"
    using assms(3) by blast
  show ?thesis
    using c same assms(4) answer_store.cache_get_set [OF assms(1) r s']
      answer_store.cache_get_other [OF assms(1)]
    by simp
qed

theorem answer_cached_iff_success_witness:
  "\<exists>resp. r_status resp = 0 \<and> fst (cache_get alist_redis ''www.allowed.org'' ''A''
     (st_cache (snd (answer_query (demo_dns_env demo_jwt) ''www.allowed.org'' ''A'' ''anonymous'' (demo_state demo_conf)))))
     = Some resp"
proof -
  let ?E = "demo_dns_env demo_jwt" and ?st = "demo_state demo_conf" and ?d = "''www.allowed.org''"
  have e: "e_redis ?E = alist_redis" by (simp add: demo_dns_env_def)
  have st0: "(case fst (answer_query ?E ?d ''A'' ''anonymous'' ?st) of
      Ok_Response resp \<Rightarrow> r_status resp = 0 | _ \<Rightarrow> False)" by code_simp
  then obtain resp st' where a: "answer_query ?E ?d ''A'' ''anonymous'' ?st = (Ok_Response resp, st')"
    "r_status resp = 0"
    by (cases "answer_query ?E ?d ''A'' ''anonymous'' ?st") (auto split: http_out.splits)
  have n: "fst (cache_get (e_redis ?E) ?d ''A'' (st_cache ?st)) = None" by code_simp
  have c: "cm_redis (st_cache ?st) = Some []" by (simp add: demo_state_def)
  have s: "redis_setex (e_redis ?E) [] (cache_key ?d ''A'') (e_cache_ttl ?E) v \<noteq> None" for v
    by (simp add: e alist_redis_def)
  have "answer_store (e_redis ?E)" unfolding e by (rule alist_store.answer_store_axioms)
  from answer_cached_iff_success [OF this c s n a(1)] a show ?thesis by (auto simp: e)
qed

end
