(* ===== verification/Manager_Rbac.thy ===== *)
theory Manager_Rbac
  imports Jwt_Verify Ip_Address "HOL-Library.List_Lexorder" "HOL-Library.Char_ord"
begin

text \<open>
  Authorisation in the Manager: scope bundles (\<^verbatim>\<open>manager/backend/app/services/scopes.py\<close>), the claims of
  an access token (\<^verbatim>\<open>services/auth_service.py\<close>), the user record of a request
  (\<^verbatim>\<open>middleware/auth.py\<close>) and the checks on it (\<^verbatim>\<open>middleware/rbac.py\<close>).

  A Python dict may have integer and string keys, a JSON object only strings: \<open>py_key\<close> keeps the two
  apart, because the team roles of a user pass through JSON between issuing and checking. Signing and
  verifying is outside this theory: the claims of a verified token are those it was issued with.
\<close>

section \<open>Scopes\<close>

definition SUPERADMIN_SCOPE :: string where
  "SUPERADMIN_SCOPE = ''admin:super''"

definition READ_SCOPES :: "string list" where
  "READ_SCOPES =
     [''users:read'', ''servers:read'', ''teams:read'', ''time:read'', ''dhcp:read'', ''ioc:read'',
      ''zones:read'', ''tokens:read'', ''analytics:read'', ''whois:read'', ''sso:read'', ''config:read'']"

definition ROLE_SCOPES :: "(string \<times> string list) list" where
  "ROLE_SCOPES =
     [(''SystemAdmin'',
       [SUPERADMIN_SCOPE, ''users:write'', ''users:admin'', ''servers:write'', ''servers:admin'',
        ''teams:write'', ''teams:admin'', ''time:write'', ''time:admin'', ''dhcp:write'', ''dhcp:admin'',
        ''zones:write'', ''zones:admin'', ''config:write'', ''config:admin'', ''ioc:admin'',
        ''sso:write'', ''sso:admin'', ''audit:read''] @ READ_SCOPES),
      (''OrgAdmin'',
       [''servers:write'', ''teams:write'', ''time:write'', ''dhcp:write'', ''zones:write'',
        ''config:write''] @ READ_SCOPES),
      (''UserManager'', [''users:write''] @ READ_SCOPES),
      (''Viewer'', READ_SCOPES)]"

definition role_bundle :: "string option \<Rightarrow> string list" where
  "role_bundle global_role =
     (case map_of ROLE_SCOPES (the (py_or global_role (Some []))) of None \<Rightarrow> [] | Some ss \<Rightarrow> ss)"

definition expand_scopes :: "string option \<Rightarrow> string list" where
  "expand_scopes global_role = sort (remdups (role_bundle global_role))"

definition scope_string :: "string option \<Rightarrow> string" where
  "scope_string global_role = py_join CHR '' '' (expand_scopes global_role)"

section \<open>Access tokens and the current user\<close>

text \<open>
  The claims of an access token. The team roles, a dict from team ids to role names, become a JSON
  object: \<^verbatim>\<open>json.dumps\<close> writes an integer key as its decimal numeral.
\<close>

definition access_claims ::
  "jwt_cfg \<Rightarrow> string \<Rightarrow> nat \<Rightarrow> string \<Rightarrow> string option \<Rightarrow> (nat \<times> string) list \<Rightarrow> int \<Rightarrow> int \<Rightarrow> claims" where
  "access_claims cfg tenant user_id username global_role team_roles now lifetime =
     [(''sub'', JStr (dec user_id)), (''iss'', JStr (JWT_ISSUER cfg)), (''aud'', JStr (JWT_AUDIENCE cfg)),
      (''tenant'', JStr tenant), (''user_id'', JInt (int user_id)), (''username'', JStr username),
      (''scope'', JStr (scope_string global_role)),
      (''global_role'', case global_role of None \<Rightarrow> JNull | Some r \<Rightarrow> JStr r),
      (''team_roles'', JObj (map (\<lambda>(t, r). (dec t, JStr r)) team_roles)),
      (''type'', JStr ''access''), (''exp'', JInt (now + lifetime)), (''iat'', JInt now)]"

datatype py_key = KInt int | KStr string

text \<open>The members of \<^verbatim>\<open>g.current_user\<close> the checks read. \<open>None\<close> is the rejection of the token's type.\<close>

record current_user =
  cu_user_id :: json
  cu_username :: json
  cu_scope :: json
  cu_global_role :: json
  cu_team_roles :: "(py_key \<times> json) list"

text \<open>A decoded JSON object is a dict with string keys; the Manager issues no other \<^verbatim>\<open>team_roles\<close>.\<close>

definition json_dict :: "json \<Rightarrow> (py_key \<times> json) list" where
  "json_dict j = (case j of JObj kvs \<Rightarrow> map (\<lambda>(k, v). (KStr k, v)) kvs | _ \<Rightarrow> [])"

definition token_user :: "claims \<Rightarrow> current_user option" where
  "token_user payload =
     (if json_get payload ''type'' \<notin> {JStr ''access'', JStr ''server''} then None
      else Some \<lparr> cu_user_id = json_get payload ''user_id'', cu_username = json_get payload ''username'',
                  cu_scope = (case map_of payload ''scope'' of None \<Rightarrow> JStr [] | Some s \<Rightarrow> s),
                  cu_global_role = json_get payload ''global_role'',
                  cu_team_roles = json_dict (json_get payload ''team_roles'') \<rparr>)"

section \<open>Checks\<close>

datatype outcome = Proceed | Denied nat | Raised

text \<open>\<open>None\<close> is the exception for a scope claim that is true but not a string.\<close>

definition user_scopes :: "current_user option \<Rightarrow> string list option" where
  "user_scopes user =
     (case user of
        None \<Rightarrow> Some []
      | Some u \<Rightarrow> (if \<not> json_truthy (cu_scope u) then Some (py_words [])
                   else (case cu_scope u of JStr s \<Rightarrow> Some (py_words s) | _ \<Rightarrow> None)))"

definition is_superadmin :: "current_user option \<Rightarrow> bool option" where
  "is_superadmin user = map_option (\<lambda>ss. SUPERADMIN_SCOPE \<in> set ss) (user_scopes user)"

definition requires_scope :: "string list \<Rightarrow> current_user option \<Rightarrow> outcome" where
  "requires_scope required_scopes user =
     (if user = None then Denied 401
      else (case user_scopes user of
              None \<Rightarrow> Raised
            | Some ss \<Rightarrow> (if set ss \<inter> set required_scopes = {} then Denied 403 else Proceed)))"

definition requires_role :: "string list \<Rightarrow> current_user option \<Rightarrow> outcome" where
  "requires_role allowed_roles user =
     (case user of
        None \<Rightarrow> Denied 401
      | Some u \<Rightarrow> (if cu_global_role u \<notin> JStr ` set allowed_roles then Denied 403 else Proceed))"

definition requires_team_role :: "string list \<Rightarrow> nat option \<Rightarrow> current_user option \<Rightarrow> outcome" where
  "requires_team_role allowed_roles team_id user =
     (case user of
        None \<Rightarrow> Denied 401
      | Some u \<Rightarrow>
          (case is_superadmin user of
             None \<Rightarrow> Raised
           | Some True \<Rightarrow> Proceed
           | Some False \<Rightarrow>
               (if team_id = None \<or> team_id = Some 0 then Denied 400
                else (let user_role = (case map_of (cu_team_roles u) (KInt (int (the team_id))) of
                                         None \<Rightarrow> JNull | Some r \<Rightarrow> r)
                      in if \<not> json_truthy user_role \<or> user_role \<notin> JStr ` set allowed_roles
                         then Denied 403 else Proceed))))"

definition can_access_team :: "current_user option \<Rightarrow> nat \<Rightarrow> bool option" where
  "can_access_team user team_id =
     (case user of
        None \<Rightarrow> Some False
      | Some u \<Rightarrow>
          (case is_superadmin user of
             None \<Rightarrow> None
           | Some True \<Rightarrow> Some True
           | Some False \<Rightarrow> Some (KInt (int team_id) \<in> fst ` set (cu_team_roles u))))"

definition can_manage_users :: "current_user option \<Rightarrow> bool option" where
  "can_manage_users user =
     (if user = None then Some False
      else map_option (\<lambda>ss. set ss \<inter> {''users:write'', ''users:admin''} \<noteq> {}) (user_scopes user))"

definition can_manage_teams :: "current_user option \<Rightarrow> bool option" where
  "can_manage_teams user =
     (if user = None then Some False
      else map_option (\<lambda>ss. ''teams:write'' \<in> set ss) (user_scopes user))"

text \<open>\<open>all_teams\<close> are the ids of the team table.\<close>

definition filter_teams_by_access :: "nat list \<Rightarrow> current_user option \<Rightarrow> py_key list option" where
  "filter_teams_by_access all_teams user =
     (case user of
        None \<Rightarrow> Some []
      | Some u \<Rightarrow>
          (case is_superadmin user of
             None \<Rightarrow> None
           | Some True \<Rightarrow> Some (map (\<lambda>t. KInt (int t)) all_teams)
           | Some False \<Rightarrow> Some (map fst (cu_team_roles u))))"

definition requires_system_admin :: "current_user option \<Rightarrow> outcome" where
  "requires_system_admin = requires_scope [SUPERADMIN_SCOPE]"

definition requires_admin :: "current_user option \<Rightarrow> outcome" where
  "requires_admin = requires_scope [''teams:write'']"

definition check_team_access :: "current_user option \<Rightarrow> nat \<Rightarrow> bool option" where
  "check_team_access user team_id =
     (case user of
        None \<Rightarrow> Some False
      | Some u \<Rightarrow>
          (case is_superadmin user of
             None \<Rightarrow> None
           | Some True \<Rightarrow> Some True
           | Some False \<Rightarrow> Some (KInt (int team_id) \<in> fst ` set (cu_team_roles u))))"

record dns_zone_row =
  dz_id :: nat
  dz_name :: string
  dz_visibility :: string
  dz_team_id :: "nat option"
  dz_description :: "string option"

definition find_zone :: "dns_zone_row list \<Rightarrow> nat \<Rightarrow> dns_zone_row option" where
  "find_zone db zone_id = find (\<lambda>z. dz_id z = zone_id) db"

definition check_zone_access :: "dns_zone_row list \<Rightarrow> current_user option \<Rightarrow> nat \<Rightarrow> bool option" where
  "check_zone_access db user zone_id =
     (if user = None then Some False
      else (case is_superadmin user of
              None \<Rightarrow> None
            | Some True \<Rightarrow> Some True
            | Some False \<Rightarrow>
                (case find_zone db zone_id of
                   None \<Rightarrow> Some False
                 | Some zone \<Rightarrow>
                     (if dz_visibility zone = ''public'' then Some True
                      else if dz_team_id zone \<noteq> None \<and> dz_team_id zone \<noteq> Some 0
                      then can_access_team user (the (dz_team_id zone))
                      else Some False))))"

definition check_zone_write_access :: "dns_zone_row list \<Rightarrow> current_user option \<Rightarrow> nat \<Rightarrow> bool option" where
  "check_zone_write_access db user zone_id =
     (if user = None then Some False
      else (case is_superadmin user of
              None \<Rightarrow> None
            | Some True \<Rightarrow> Some True
            | Some False \<Rightarrow>
                (case find_zone db zone_id of
                   None \<Rightarrow> Some False
                 | Some zone \<Rightarrow>
                     (case dz_team_id zone of
                        None \<Rightarrow> Some True
                      | Some team \<Rightarrow> can_access_team user team))))"

text \<open>\<open>belongs\<close> is the database's membership test of a team id among the keys given.\<close>

definition filter_zones_by_access ::
  "(nat option \<Rightarrow> py_key list \<Rightarrow> bool) \<Rightarrow> nat list \<Rightarrow> dns_zone_row list \<Rightarrow> current_user option \<Rightarrow> nat list option" where
  "filter_zones_by_access belongs all_teams db user =
     (if user = None then Some (map dz_id (filter (\<lambda>z. dz_visibility z = ''public'') db))
      else (case is_superadmin user of
              None \<Rightarrow> None
            | Some True \<Rightarrow> Some (map dz_id db)
            | Some False \<Rightarrow>
                (case filter_teams_by_access all_teams user of
                   None \<Rightarrow> None
                 | Some accessible_teams \<Rightarrow>
                     Some (map dz_id (filter (\<lambda>z. dz_visibility z = ''public'' \<or>
                                                 belongs (dz_team_id z) accessible_teams) db)))))"

section \<open>Lemmas\<close>

lemma words_acc_word:
  "list_all (\<lambda>c. \<not> py_isspace c) w \<Longrightarrow> py_words_acc acc (w @ s) = py_words_acc (rev w @ acc) s"
  by (induction w arbitrary: acc) auto

text \<open>Joining words by a blank and splitting at white space gives the words back.\<close>

lemma words_join:
  assumes "\<forall>w\<in>set ws. w \<noteq> [] \<and> list_all (\<lambda>c. \<not> py_isspace c) w"
  shows "py_words (py_join CHR '' '' ws) = ws"
proof -
  have b: "py_isspace CHR '' ''" by code_simp
  show ?thesis
    using assms unfolding py_words_def
  proof (induction "CHR '' ''" ws rule: py_join.induct)
    case (2 w)
    then show ?case using words_acc_word [of w "[]" "[]"] by simp
  next
    case (3 w v ws)
    have "py_words_acc [] (w @ CHR '' '' # py_join CHR '' '' (v # ws)) =
        py_words_acc (rev w) (CHR '' '' # py_join CHR '' '' (v # ws))"
      using words_acc_word [of w "[]" "CHR '' '' # py_join CHR '' '' (v # ws)"] 3(2) by simp
    then show ?case using 3 b by simp
  qed simp
qed

lemma bundles_are_words:
  "\<forall>w\<in>set (role_bundle r). w \<noteq> [] \<and> list_all (\<lambda>c. \<not> py_isspace c) w"
proof -
  have "list_all (\<lambda>(role, ss). list_all (\<lambda>w. w \<noteq> [] \<and> list_all (\<lambda>c. \<not> py_isspace c) w) ss) ROLE_SCOPES"
    by code_simp
  then have b: "\<forall>w\<in>set ss. w \<noteq> [] \<and> list_all (\<lambda>c. \<not> py_isspace c) w" if "map_of ROLE_SCOPES k = Some ss" for k ss
    using map_of_SomeD [OF that] by (auto simp: list_all_iff)
  show ?thesis
    using b by (cases "map_of ROLE_SCOPES (the (py_or r (Some [])))") (simp_all add: role_bundle_def)
qed

lemma words_scope_string: "set (py_words (scope_string r)) = set (role_bundle r)"
  using words_join [of "expand_scopes r"] bundles_are_words [of r]
  by (simp add: scope_string_def expand_scopes_def)

lemma token_user_access:
  "token_user (access_claims cfg tenant uid name role teams now life) =
     Some \<lparr> cu_user_id = JInt (int uid), cu_username = JStr name, cu_scope = JStr (scope_string role),
            cu_global_role = (case role of None \<Rightarrow> JNull | Some r \<Rightarrow> JStr r),
            cu_team_roles = map (\<lambda>(t, r). (KStr (dec t), JStr r)) teams \<rparr>"
  by (simp add: token_user_def access_claims_def json_get_def json_dict_def split_def)


lemma user_scopes_access:
  assumes "token_user (access_claims cfg tenant uid name role teams now life) = user"
  shows "\<exists>ss. user_scopes user = Some ss \<and> set ss = set (role_bundle role)"
proof (cases "scope_string role = []")
  case True
  then have "set (role_bundle role) = {}" using words_scope_string [of role] by (simp add: py_words_def)
  then show ?thesis using assms True by (auto simp: token_user_access user_scopes_def py_words_def)
next
  case False
  then show ?thesis using assms words_scope_string [of role]
    by (auto simp: token_user_access user_scopes_def)
qed

lemma is_superadmin_access:
  "is_superadmin (token_user (access_claims cfg tenant uid name role teams now life)) =
     Some (role = Some ''SystemAdmin'')"
proof -
  have "list_all (\<lambda>(r, ss). SUPERADMIN_SCOPE \<in> set ss \<longleftrightarrow> r = ''SystemAdmin'') ROLE_SCOPES" by code_simp
  then have b: "SUPERADMIN_SCOPE \<in> set ss \<longleftrightarrow> k = ''SystemAdmin''" if "map_of ROLE_SCOPES k = Some ss" for k ss
    using map_of_SomeD [OF that] by (auto simp: list_all_iff)
  have n: "map_of ROLE_SCOPES [] = None" "map_of ROLE_SCOPES ''SystemAdmin'' \<noteq> None" by code_simp+
  have "SUPERADMIN_SCOPE \<in> set (role_bundle role) \<longleftrightarrow> role = Some ''SystemAdmin''"
  proof (cases role)
    case None
    then show ?thesis by (simp add: role_bundle_def n(1))
  next
    case (Some r)
    show ?thesis
    proof (cases "map_of ROLE_SCOPES r")
      case None
      then show ?thesis using Some n by (cases "r = []") (auto simp: role_bundle_def)
    next
      case ss: (Some ss)
      then have "r \<noteq> []" using n(1) by auto
      then show ?thesis using Some ss b by (simp add: role_bundle_def)
    qed
  qed
  with user_scopes_access [OF refl, of cfg tenant uid name role teams now life] show ?thesis
    by (auto simp: is_superadmin_def)
qed

section \<open>Properties\<close>

text \<open>
  The scope check decides exactly by the role the token was issued for: with the scopes of the role
  sorted, joined into the claim, and split again, a request passes a required scope exactly when the
  role's bundle has it; only the system administrator passes the administrator gate; and the check
  never raises.
\<close>

theorem issued_scopes_decide:
  "requires_scope req (token_user (access_claims cfg tenant uid name role teams now life)) =
     (if set (role_bundle role) \<inter> set req = {} then Denied 403 else Proceed) \<and>
   (requires_system_admin (token_user (access_claims cfg tenant uid name role teams now life)) = Proceed \<longleftrightarrow>
      role = Some ''SystemAdmin'')"
proof -
  let ?u = "token_user (access_claims cfg tenant uid name role teams now life)"
  obtain ss where s: "user_scopes ?u = Some ss" "set ss = set (role_bundle role)"
    using user_scopes_access [OF refl] by blast
  have n: "?u \<noteq> None" by (simp add: token_user_access)
  have "SUPERADMIN_SCOPE \<in> set ss \<longleftrightarrow> role = Some ''SystemAdmin''"
    using is_superadmin_access [of cfg tenant uid name role teams now life] s by (simp add: is_superadmin_def)
  with n s show ?thesis by (auto simp: requires_scope_def requires_system_admin_def)
qed

text \<open>
  Team roles never take effect: the ids of the teams become string keys in the token, the checks
  look the team up by an integer, and so every user other than the system administrator is denied their
  own team, whatever their roles in it: by the role check, the team access checks, and the read and
  write checks of a zone that belongs to the team.
\<close>

theorem team_members_locked_out:
  assumes "role \<noteq> Some ''SystemAdmin''" "0 < team" "(team, r) \<in> set teams" "r \<in> set allowed"
    and "find_zone db zid = Some z" "dz_team_id z = Some team" "dz_visibility z \<noteq> ''public''"
    and "user = token_user (access_claims cfg tenant uid name role teams now life)"
  shows "requires_team_role allowed (Some team) user = Denied 403 \<and> can_access_team user team = Some False \<and>
    check_team_access user team = Some False \<and> check_zone_access db user zid = Some False \<and>
    check_zone_write_access db user zid = Some False"
proof -
  have s: "is_superadmin user = Some False" using assms(1,8) is_superadmin_access by simp
  obtain u where u: "user = Some u" "cu_team_roles u = map (\<lambda>(t, r). (KStr (dec t), JStr r)) teams"
    using assms(8) by (simp add: token_user_access)
  have k: "KInt i \<notin> fst ` set (cu_team_roles u)" for i by (auto simp: u(2))
  then have m: "map_of (cu_team_roles u) (KInt i) = None" for i by (simp add: map_of_eq_None_iff)
  have c: "can_access_team user t = Some False" for t using s k u(1) by (simp add: can_access_team_def)
  show ?thesis
    using s c k m u(1) assms(2,5-7)
    by (simp add: requires_team_role_def check_team_access_def check_zone_access_def
        check_zone_write_access_def)
qed

theorem team_members_locked_out_witness:
  "can_access_team (token_user (access_claims demo_cfg ''default'' 7 ''ann'' (Some ''Viewer'') [(3, ''TeamAdmin'')] 0 900)) 3
     = Some False \<and>
   requires_team_role [''TeamAdmin''] (Some 3)
     (token_user (access_claims demo_cfg ''default'' 7 ''ann'' (Some ''Viewer'') [(3, ''TeamAdmin'')] 0 900)) = Denied 403"
  using team_members_locked_out [of "Some ''Viewer''" 3 "''TeamAdmin''" "[(3, ''TeamAdmin'')]" "[''TeamAdmin'']"
      "[\<lparr> dz_id = 1, dz_name = ''z'', dz_visibility = ''private'', dz_team_id = Some 3, dz_description = None \<rparr>]" 1
      "\<lparr> dz_id = 1, dz_name = ''z'', dz_visibility = ''private'', dz_team_id = Some 3, dz_description = None \<rparr>" _ demo_cfg "''default''" 7 "''ann''" 0 900]
  by (simp add: find_zone_def)

end
