(* ===== verification/Manager_Auth.thy ===== *)
theory Manager_Auth
  imports Manager_Rbac "HOL-Library.AList"
begin

text \<open>
  Accounts and sessions in the Manager (\<^verbatim>\<open>manager/backend/app/services/auth_service.py\<close>): password login
  with lockout, rotation and revocation of refresh tokens, legacy DNS tokens and machine clients.

  Tables are lists of rows, a query by a key takes the first match. bcrypt, SHA-256 and the token
  decoder are parameters. Times are microseconds; a token's \<^verbatim>\<open>exp\<close> is in seconds. An outer \<open>None\<close> of an
  operation is an exception.
\<close>

section \<open>State\<close>

record auth_user =
  au_id :: nat
  au_username :: string
  au_email :: string
  au_active :: bool
  au_password_hash :: "string option"
  au_global_role :: string
  au_failed_login_count :: "nat option"
  au_locked_until :: "int option"

record revoked_token =
  rt_jti :: string
  rt_user_id :: "nat option"
  rt_reason :: string
  rt_expires_at :: int

record team_member =
  tm_team_id :: nat
  tm_user_id :: nat
  tm_role :: string

record auth_db =
  users :: "auth_user list"
  team_members :: "team_member list"
  revoked :: "revoked_token list"

record auth_cfg =
  LOGIN_LOCKOUT_THRESHOLD :: nat
  LOGIN_LOCKOUT_BASE_SECONDS :: int
  LOGIN_LOCKOUT_MAX_SECONDS :: int

record user_info =
  ui_id :: nat
  ui_username :: string
  ui_email :: string
  ui_global_role :: string
  ui_team_roles :: "(nat \<times> string) list"

section \<open>Password login\<close>

definition verify_password :: "(string \<Rightarrow> string \<Rightarrow> bool) \<Rightarrow> string \<Rightarrow> string option \<Rightarrow> bool" where
  "verify_password checkpw password password_hash =
     (if \<not> truthy password_hash then False else checkpw password (the password_hash))"

definition update_user :: "nat \<Rightarrow> (auth_user \<Rightarrow> auth_user) \<Rightarrow> auth_db \<Rightarrow> auth_db" where
  "update_user uid f db = db\<lparr> users := map (\<lambda>u. if au_id u = uid then f u else u) (users db) \<rparr>"

definition locked :: "int \<Rightarrow> auth_user \<Rightarrow> bool" where
  "locked now u = (case au_locked_until u of None \<Rightarrow> False | Some t \<Rightarrow> t > now)"

definition failed_count :: "auth_user \<Rightarrow> nat" where
  "failed_count u = (case au_failed_login_count u of None \<Rightarrow> 0 | Some n \<Rightarrow> n)"

text \<open>The lockout window after the given number of failures, in microseconds.\<close>

definition backoff :: "auth_cfg \<Rightarrow> nat \<Rightarrow> int" where
  "backoff cfg n =
     min (LOGIN_LOCKOUT_BASE_SECONDS cfg * 2 ^ (n - LOGIN_LOCKOUT_THRESHOLD cfg)) (LOGIN_LOCKOUT_MAX_SECONDS cfg)
       * 1000000"

definition record_failure :: "auth_cfg \<Rightarrow> int \<Rightarrow> auth_user \<Rightarrow> auth_user" where
  "record_failure cfg now u =
     (let n = failed_count u + 1; u' = u\<lparr> au_failed_login_count := Some n \<rparr>
      in if n \<ge> LOGIN_LOCKOUT_THRESHOLD cfg then u'\<lparr> au_locked_until := Some (now + backoff cfg n) \<rparr> else u')"

definition team_roles_of :: "nat \<Rightarrow> auth_db \<Rightarrow> (nat \<times> string) list" where
  "team_roles_of uid db =
     fold (\<lambda>m. AList.update (tm_team_id m) (tm_role m)) (filter (\<lambda>m. tm_user_id m = uid) (team_members db)) []"

definition authenticate_user ::
  "(string \<Rightarrow> string \<Rightarrow> bool) \<Rightarrow> auth_cfg \<Rightarrow> int \<Rightarrow> string \<Rightarrow> string \<Rightarrow> auth_db \<Rightarrow> user_info option \<times> auth_db" where
  "authenticate_user checkpw cfg now username password db =
     (case find (\<lambda>u. au_username u = username) (users db) of
        None \<Rightarrow> (None, db)
      | Some user \<Rightarrow>
          (if \<not> au_active user then (None, db)
           else if locked now user then (None, db)
           else if \<not> verify_password checkpw password (au_password_hash user)
           then (None, update_user (au_id user) (record_failure cfg now) db)
           else
             (let db' = (if failed_count user \<noteq> 0 \<or> au_locked_until user \<noteq> None
                         then update_user (au_id user)
                                (\<lambda>u. u\<lparr> au_failed_login_count := Some 0, au_locked_until := None \<rparr>) db
                         else db)
              in (Some \<lparr> ui_id = au_id user, ui_username = au_username user, ui_email = au_email user,
                         ui_global_role = au_global_role user, ui_team_roles = team_roles_of (au_id user) db' \<rparr>,
                  db'))))"

section \<open>Refresh tokens\<close>

definition revoke_jti :: "int \<Rightarrow> string \<Rightarrow> nat option \<Rightarrow> int \<Rightarrow> string \<Rightarrow> auth_db \<Rightarrow> auth_db" where
  "revoke_jti now jti user_id expires_at reason db =
     (let kept = filter (\<lambda>r. \<not> rt_expires_at r < now) (revoked db)
      in db\<lparr> revoked := (if list_ex (\<lambda>r. rt_jti r = jti) kept then kept
                         else kept @ [\<lparr> rt_jti = jti, rt_user_id = user_id, rt_reason = reason,
                                        rt_expires_at = expires_at \<rparr>]) \<rparr>)"

definition is_refresh_token_revoked :: "string \<Rightarrow> auth_db \<Rightarrow> bool" where
  "is_refresh_token_revoked jti db = list_ex (\<lambda>r. rt_jti r = jti) (revoked db)"

text \<open>
  \<open>decode now token\<close> is \<^verbatim>\<open>AuthService.decode_token\<close>. The claims that the Manager's own refresh tokens
  carry: the identifier as a string, expiry and user id as integers.
\<close>

definition refresh_claim_jti :: "claims \<Rightarrow> string option" where
  "refresh_claim_jti payload = (case json_get payload ''jti'' of JStr s \<Rightarrow> (if s = [] then None else Some s) | _ \<Rightarrow> None)"

definition claim_exp :: "claims \<Rightarrow> int" where
  "claim_exp payload = (case json_get payload ''exp'' of JInt e \<Rightarrow> e * 1000000 | _ \<Rightarrow> 0)"

definition claim_user :: "claims \<Rightarrow> nat option" where
  "claim_user payload = (case json_get payload ''user_id'' of JInt i \<Rightarrow> (if 0 \<le> i then Some (nat i) else None) | _ \<Rightarrow> None)"

definition revoke_refresh_token ::
  "(int \<Rightarrow> string \<Rightarrow> claims option) \<Rightarrow> int \<Rightarrow> string \<Rightarrow> string \<Rightarrow> auth_db \<Rightarrow> bool \<times> auth_db" where
  "revoke_refresh_token decode now token reason db =
     (case decode now token of
        None \<Rightarrow> (False, db)
      | Some payload \<Rightarrow>
          (if json_get payload ''type'' \<noteq> JStr ''refresh'' then (False, db)
           else (case refresh_claim_jti payload of
                   None \<Rightarrow> (False, db)
                 | Some jti \<Rightarrow> (True, revoke_jti now jti (claim_user payload) (claim_exp payload) reason db))))"

definition refresh_claims :: "jwt_cfg \<Rightarrow> string \<Rightarrow> nat \<Rightarrow> string \<Rightarrow> int \<Rightarrow> int \<Rightarrow> claims" where
  "refresh_claims cfg tenant user_id jti now lifetime =
     [(''sub'', JStr (dec user_id)), (''iss'', JStr (JWT_ISSUER cfg)), (''aud'', JStr (JWT_AUDIENCE cfg)),
      (''tenant'', JStr tenant), (''user_id'', JInt (int user_id)), (''type'', JStr ''refresh''),
      (''jti'', JStr jti), (''exp'', JInt (now + lifetime)), (''iat'', JInt now)]"

text \<open>
  The result is the pair of claims that are signed. \<open>new_jti\<close> is the random identifier; lifetimes are in
  seconds.
\<close>

definition refresh_access_token ::
  "(int \<Rightarrow> string \<Rightarrow> claims option) \<Rightarrow> jwt_cfg \<Rightarrow> string \<Rightarrow> int \<Rightarrow> int \<Rightarrow> string \<Rightarrow> int \<Rightarrow> string \<Rightarrow> auth_db \<Rightarrow>
   (claims \<times> claims) option \<times> auth_db" where
  "refresh_access_token decode cfg tenant access_life refresh_life new_jti now token db =
     (case decode now token of
        None \<Rightarrow> (None, db)
      | Some payload \<Rightarrow>
          (if json_get payload ''type'' \<noteq> JStr ''refresh'' then (None, db)
           else (case refresh_claim_jti payload of
                   None \<Rightarrow> (None, db)
                 | Some jti \<Rightarrow>
                     (if is_refresh_token_revoked jti db then (None, db)
                      else (case Option.bind (claim_user payload) (\<lambda>uid. find (\<lambda>u. au_id u = uid) (users db)) of
                              None \<Rightarrow> (None, db)
                            | Some user \<Rightarrow>
                                (if \<not> au_active user then (None, db)
                                 else
                                   (Some (access_claims cfg tenant (au_id user) (au_username user)
                                            (Some (au_global_role user)) (team_roles_of (au_id user) db)
                                            (now div 1000000) access_life,
                                          refresh_claims cfg tenant (au_id user) new_jti (now div 1000000) refresh_life),
                                    revoke_jti now jti (Some (au_id user)) (claim_exp payload) ''rotated'' db)))))))"

section \<open>Scopes of machine clients\<close>

definition validate_scope_subset :: "string \<Rightarrow> string \<Rightarrow> bool" where
  "validate_scope_subset requested_scopes registered_scopes =
     (set (if requested_scopes \<noteq> [] then py_words requested_scopes else [])
      \<subseteq> set (if registered_scopes \<noteq> [] then py_words registered_scopes else []))"

definition machine_claims ::
  "jwt_cfg \<Rightarrow> string \<Rightarrow> string \<Rightarrow> string \<Rightarrow> string option \<Rightarrow> string list option \<Rightarrow> int \<Rightarrow> int \<Rightarrow> claims" where
  "machine_claims cfg client_id tenant granted_scopes dpop_jkt allowed_domains now ttl =
     [(''sub'', JStr (''client:'' @ client_id)), (''iss'', JStr (JWT_ISSUER cfg)), (''aud'', JStr (JWT_AUDIENCE cfg)),
      (''tenant'', JStr tenant), (''client_id'', JStr client_id), (''scope'', JStr granted_scopes),
      (''type'', JStr ''access''), (''machine'', JBool True), (''exp'', JInt (now + ttl)), (''iat'', JInt now)]
     @ (if truthy dpop_jkt then [(''cnf'', JObj [(''jkt'', JStr (the dpop_jkt))])] else [])
     @ (case allowed_domains of None \<Rightarrow> [] | Some ds \<Rightarrow> [(''dns_domains'', JList (map JStr ds))])"


section \<open>Brute force against one account\<close>

text \<open>
  An attempt meets the stored hash when the outcome depends on bcrypt: had it accepted, the attempt would have signed
  in. How many of a series of attempts on an account do so.
\<close>

definition meets_hash :: "auth_cfg \<Rightarrow> int \<Rightarrow> string \<Rightarrow> string \<Rightarrow> auth_db \<Rightarrow> bool" where
  "meets_hash cfg now username password db \<longleftrightarrow> fst (authenticate_user (\<lambda>pw h. True) cfg now username password db) \<noteq> None"

fun guesses_checked ::
  "(string \<Rightarrow> string \<Rightarrow> bool) \<Rightarrow> auth_cfg \<Rightarrow> string \<Rightarrow> (int \<times> string) list \<Rightarrow> auth_db \<Rightarrow> nat" where
  "guesses_checked checkpw cfg username [] db = 0"
| "guesses_checked checkpw cfg username ((now, password) # rest) db =
     (if meets_hash cfg now username password db then 1 else 0)
     + guesses_checked checkpw cfg username rest (snd (authenticate_user checkpw cfg now username password db))"

lemma find_update_user:
  assumes "find (\<lambda>u. au_username u = name) (users db) = Some u" "distinct (map au_id (users db))"
    and "\<And>v. au_username (f v) = au_username v"
  shows "find (\<lambda>u. au_username u = name) (users (update_user (au_id u) f db)) = Some (f u)"
proof -
  have "find (\<lambda>u. au_username u = name) (map (\<lambda>v. if au_id v = i then f v else v) us) = Some (f u)"
    if "find (\<lambda>u. au_username u = name) us = Some u" "i = au_id u" "distinct (map au_id us)" for us i
    using that
  proof (induction us)
    case (Cons v us)
    show ?case
    proof (cases "au_username v = name")
      case False
      with Cons.prems have "u \<in> set us" by (auto simp: find_Some_iff)
      with Cons.prems have "au_id v \<noteq> i" by auto
      with Cons False show ?thesis by simp
    qed (use Cons.prems assms(3) in auto)
  qed simp
  then show ?thesis using assms(1,2) by (simp add: update_user_def)
qed

lemma distinct_update_user:
  assumes "\<And>v. au_id (f v) = au_id v" "distinct (map au_id (users db))"
  shows "distinct (map au_id (users (update_user uid f db)))"
proof -
  have "map au_id (users (update_user uid f db)) = map au_id (users db)"
    by (simp add: update_user_def assms(1))
  with assms(2) show ?thesis by simp
qed

lemma record_failure_fields [simp]:
  "au_username (record_failure cfg now u) = au_username u" "au_id (record_failure cfg now u) = au_id u"
  "au_active (record_failure cfg now u) = au_active u"
  "au_password_hash (record_failure cfg now u) = au_password_hash u"
  "failed_count (record_failure cfg now u) = failed_count u + 1"
  by (simp_all add: record_failure_def failed_count_def Let_def)

text \<open>
  What is left of the attacker's budget: the free failures before the threshold, and one comparison per
  lockout window from the moment the account is (or becomes) open until the end \<open>T\<close>.
\<close>

definition windows :: "int \<Rightarrow> int \<Rightarrow> int \<Rightarrow> nat" where
  "windows B from T = (if T < from then 0 else Suc (nat ((T - from) div B)))"

definition budget :: "auth_cfg \<Rightarrow> int \<Rightarrow> int \<Rightarrow> int \<Rightarrow> auth_user \<Rightarrow> nat" where
  "budget cfg B t T u =
     (LOGIN_LOCKOUT_THRESHOLD cfg - 1 - failed_count u)
     + windows B (case au_locked_until u of None \<Rightarrow> t | Some l \<Rightarrow> max t l) T"

lemma windows_mono: "\<lbrakk> 0 < B; a \<le> b \<rbrakk> \<Longrightarrow> windows B b T \<le> windows B a T"
  unfolding windows_def by (auto intro!: nat_mono zdiv_mono1)

lemma windows_step: "\<lbrakk> 0 < B; s \<le> T; s + B \<le> b \<rbrakk> \<Longrightarrow> Suc (windows B b T) \<le> windows B s T"
proof -
  assume a: "0 < B" "s \<le> T" "s + B \<le> b"
  have "windows B b T \<le> windows B (s + B) T" using a by (intro windows_mono) auto
  moreover have "Suc (windows B (s + B) T) \<le> windows B s T"
  proof (cases "T < s + B")
    case False
    have "(T - s) div B = (T - (s + B)) div B + 1"
      using a div_add_self2 [of B "T - (s + B)"] by (simp add: algebra_simps)
    moreover have "0 \<le> (T - (s + B)) div B" using a False by (simp add: pos_imp_zdiv_nonneg_iff)
    ultimately show ?thesis using a False by (simp add: windows_def)
  qed (use a in \<open>simp add: windows_def\<close>)
  ultimately show ?thesis by simp
qed

lemma backoff_ge_base:
  assumes "0 < LOGIN_LOCKOUT_BASE_SECONDS cfg" "LOGIN_LOCKOUT_BASE_SECONDS cfg \<le> LOGIN_LOCKOUT_MAX_SECONDS cfg"
  shows "LOGIN_LOCKOUT_BASE_SECONDS cfg * 1000000 \<le> backoff cfg n"
proof -
  have "LOGIN_LOCKOUT_BASE_SECONDS cfg * 1 \<le> LOGIN_LOCKOUT_BASE_SECONDS cfg * 2 ^ (n - LOGIN_LOCKOUT_THRESHOLD cfg)"
    using assms(1) by (intro mult_left_mono) auto
  then show ?thesis using assms by (simp add: backoff_def)
qed

text \<open>A failed comparison costs at least one unit of the budget.\<close>

lemma budget_step:
  assumes "0 < LOGIN_LOCKOUT_BASE_SECONDS cfg" "LOGIN_LOCKOUT_BASE_SECONDS cfg \<le> LOGIN_LOCKOUT_MAX_SECONDS cfg"
    and "B = LOGIN_LOCKOUT_BASE_SECONDS cfg * 1000000" "t \<le> s" "s \<le> T" "\<not> locked s u"
  shows "Suc (budget cfg B s T (record_failure cfg s u)) \<le> budget cfg B t T u"
proof -
  have B: "0 < B" using assms by simp
  let ?n = "failed_count u + 1" and ?thr = "LOGIN_LOCKOUT_THRESHOLD cfg"
  let ?from = "case au_locked_until u of None \<Rightarrow> t | Some l \<Rightarrow> max t l"
  have fs: "?from \<le> s" using assms(4,6) by (auto simp: locked_def split: option.splits)
  have w: "windows B s T \<le> windows B ?from T" using B fs by (rule windows_mono)
  show ?thesis
  proof (cases "?thr \<le> ?n")
    case True
    have "Suc (windows B (s + backoff cfg ?n) T) \<le> windows B s T"
      using B assms(5) backoff_ge_base [OF assms(1,2)] assms(3) by (intro windows_step) auto
    moreover have "max s (s + backoff cfg ?n) = s + backoff cfg ?n"
      using backoff_ge_base [OF assms(1,2), of ?n] assms(1) by simp
    ultimately show ?thesis using w True
      by (simp add: budget_def record_failure_def failed_count_def Let_def)
  next
    case False
    have "(case au_locked_until u of None \<Rightarrow> s | Some l \<Rightarrow> max s l) = s"
      using assms(6) by (auto simp: locked_def split: option.splits)
    with w False show ?thesis
      by (simp add: budget_def record_failure_def failed_count_def Let_def)
  qed
qed

lemma guesses_within_budget:
  assumes "0 < LOGIN_LOCKOUT_BASE_SECONDS cfg" "LOGIN_LOCKOUT_BASE_SECONDS cfg \<le> LOGIN_LOCKOUT_MAX_SECONDS cfg"
    and "B = LOGIN_LOCKOUT_BASE_SECONDS cfg * 1000000"
    and "find (\<lambda>u. au_username u = name) (users db) = Some u" "distinct (map au_id (users db))"
    and "sorted (t # map fst as)" "\<forall>a\<in>set as. fst a \<le> T \<and> \<not> verify_password checkpw (snd a) (au_password_hash u)"
  shows "guesses_checked checkpw cfg name as db \<le> budget cfg B t T u"
  using assms(4-7)
proof (induction as arbitrary: db u t)
  case (Cons a as)
  obtain s p where a: "a = (s, p)" by (cases a)
  let ?db = "snd (authenticate_user checkpw cfg s name p db)"
  have mono: "budget cfg B s T v \<le> budget cfg B t T v" for v
    unfolding budget_def using Cons.prems(3) assms(1,3) a
    by (intro add_left_mono windows_mono) (auto split: option.splits)
  show ?case
  proof (cases "au_active u \<and> \<not> locked s u")
    case True
    have db: "?db = update_user (au_id u) (record_failure cfg s) db"
      using True Cons.prems(1,4) a by (simp add: authenticate_user_def)
    have f: "find (\<lambda>u. au_username u = name) (users ?db) = Some (record_failure cfg s u)"
      unfolding db by (rule find_update_user [OF Cons.prems(1,2)]) simp
    have d: "distinct (map au_id (users ?db))"
      unfolding db by (rule distinct_update_user [OF _ Cons.prems(2)]) simp
    have "guesses_checked checkpw cfg name as ?db \<le> budget cfg B s T (record_failure cfg s u)"
      using Cons.prems a by (intro Cons.IH f d) auto
    moreover have "Suc (budget cfg B s T (record_failure cfg s u)) \<le> budget cfg B t T u"
      using Cons.prems a True by (intro budget_step assms(1-3)) auto
    ultimately show ?thesis by (simp add: a)
  next
    case False
    then have "?db = db" "\<not> meets_hash cfg s name p db"
      using Cons.prems(1) by (auto simp: authenticate_user_def meets_hash_def)
    moreover have "guesses_checked checkpw cfg name as db \<le> budget cfg B s T u"
      using Cons.prems a by (intro Cons.IH) auto
    ultimately show ?thesis using mono [of u] by (simp add: a)
  qed
qed simp


section \<open>Histories of session operations\<close>

text \<open>
  What the code relies on of the decoder: a token always decodes to the same claims, and is refused from
  its expiry on.
\<close>

definition decoder_ok :: "(int \<Rightarrow> string \<Rightarrow> claims option) \<Rightarrow> bool" where
  "decoder_ok decode \<longleftrightarrow>
     (\<forall>t t' token p p'. decode t token = Some p \<and> decode t' token = Some p' \<longrightarrow> p = p') \<and>
     (\<forall>t token p. decode t token = Some p \<longrightarrow> t < claim_exp p)"

datatype session_op =
    Do_Refresh int string string
  | Do_Logout int string string
  | Do_Consume int string "nat option" int string
  | Do_Login int string string

fun op_time :: "session_op \<Rightarrow> int" where
  "op_time (Do_Refresh t token new_jti) = t"
| "op_time (Do_Logout t token reason) = t"
| "op_time (Do_Consume t jti uid expires reason) = t"
| "op_time (Do_Login t name password) = t"

record session_env =
  se_decode :: "int \<Rightarrow> string \<Rightarrow> claims option"
  se_checkpw :: "string \<Rightarrow> string \<Rightarrow> bool"
  se_jwt_cfg :: jwt_cfg
  se_cfg :: auth_cfg
  se_tenant :: string
  se_access_life :: int
  se_refresh_life :: int

definition do_refresh :: "session_env \<Rightarrow> int \<Rightarrow> string \<Rightarrow> string \<Rightarrow> auth_db \<Rightarrow> (claims \<times> claims) option \<times> auth_db" where
  "do_refresh S t token new_jti =
     refresh_access_token (se_decode S) (se_jwt_cfg S) (se_tenant S) (se_access_life S) (se_refresh_life S) new_jti t token"

fun run_op :: "session_env \<Rightarrow> session_op \<Rightarrow> auth_db \<Rightarrow> auth_db" where
  "run_op S (Do_Refresh t token new_jti) db = snd (do_refresh S t token new_jti db)"
| "run_op S (Do_Logout t token reason) db = snd (revoke_refresh_token (se_decode S) t token reason db)"
| "run_op S (Do_Consume t jti uid expires reason) db = revoke_jti t jti uid expires reason db"
| "run_op S (Do_Login t name password) db = snd (authenticate_user (se_checkpw S) (se_cfg S) t name password db)"

text \<open>The identifier is on the list with the token's own expiry, or that expiry has passed.\<close>

definition burnt :: "string \<Rightarrow> int \<Rightarrow> int \<Rightarrow> auth_db \<Rightarrow> bool" where
  "burnt jti e now db \<longleftrightarrow> e < now \<or> (\<exists>r\<in>set (revoked db). rt_jti r = jti \<and> rt_expires_at r = e)"

lemma burnt_revoke: "burnt jti e t db \<Longrightarrow> t \<le> now \<Longrightarrow> burnt jti e now (revoke_jti now j uid ex reason db)"
  by (auto simp: burnt_def revoke_jti_def Let_def)

lemma burnt_later: "burnt jti e t db \<Longrightarrow> t \<le> now \<Longrightarrow> revoked db' = revoked db \<Longrightarrow> burnt jti e now db'"
  by (auto simp: burnt_def)

lemma run_op_cases:
  "revoked (run_op S oper db) = revoked db \<or>
   (\<exists>j uid ex reason. run_op S oper db = revoke_jti (op_time oper) j uid ex reason db)"
  by (cases oper)
    (auto simp: do_refresh_def refresh_access_token_def revoke_refresh_token_def authenticate_user_def
      update_user_def Let_def split: option.splits if_splits)

lemma burnt_run_op: "burnt jti e t db \<Longrightarrow> t \<le> op_time oper \<Longrightarrow> burnt jti e (op_time oper) (run_op S oper db)"
  using run_op_cases [of S oper db] burnt_revoke burnt_later by metis

lemma burnt_run:
  "\<lbrakk> burnt jti e t db; sorted (t # map op_time ops) \<rbrakk> \<Longrightarrow>
     \<exists>t'. burnt jti e t' (fold (run_op S) ops db) \<and> t' \<in> insert t (set (map op_time ops))"
proof (induction ops arbitrary: t db)
  case (Cons oper ops)
  have "burnt jti e (op_time oper) (run_op S oper db)" using Cons.prems by (intro burnt_run_op [where t = t]) auto
  from Cons.IH [OF this] Cons.prems(2) show ?case by auto
qed auto

lemma refresh_burns:
  assumes "do_refresh S t token new_jti db = (Some res, db')"
  obtains payload jti where "se_decode S t token = Some payload" "refresh_claim_jti payload = Some jti"
    "burnt jti (claim_exp payload) t db'"
proof -
  note def = do_refresh_def refresh_access_token_def
  from assms obtain payload where p: "se_decode S t token = Some payload"
    by (cases "se_decode S t token") (auto simp: def)
  from assms p obtain jti where j: "refresh_claim_jti payload = Some jti"
    by (cases "refresh_claim_jti payload") (auto simp: def split: if_splits)
  from assms p j have n: "\<not> is_refresh_token_revoked jti db" by (auto simp: def split: if_splits)
  from assms p j obtain uid where "db' = revoke_jti t jti uid (claim_exp payload) ''rotated'' db"
    by (auto simp: def split: if_splits option.splits)
  then have "burnt jti (claim_exp payload) t db'"
    using n by (auto simp: burnt_def revoke_jti_def is_refresh_token_revoked_def list_ex_iff Let_def)
  with that p j show ?thesis by blast
qed

section \<open>Properties\<close>

text \<open>
  C3. The lockout bounds guessing: against an account in good standing, of any number of wrong
  passwords tried between \<open>t\<close> and \<open>T\<close>, at most the threshold plus one per base window would have signed in
  had they been right; all others are refused whatever the password, since the account is locked.
\<close>

theorem brute_force_bounded:
  assumes "0 < LOGIN_LOCKOUT_BASE_SECONDS cfg" "LOGIN_LOCKOUT_BASE_SECONDS cfg \<le> LOGIN_LOCKOUT_MAX_SECONDS cfg"
    and "0 < LOGIN_LOCKOUT_THRESHOLD cfg"
    and "find (\<lambda>u. au_username u = name) (users db) = Some u" "distinct (map au_id (users db))"
    and "failed_count u = 0" "au_locked_until u = None"
    and "sorted (t # map fst as)" "t \<le> T"
    and "\<forall>a\<in>set as. fst a \<le> T \<and> \<not> verify_password checkpw (snd a) (au_password_hash u)"
  shows "guesses_checked checkpw cfg name as db
    \<le> LOGIN_LOCKOUT_THRESHOLD cfg + nat ((T - t) div (LOGIN_LOCKOUT_BASE_SECONDS cfg * 1000000))"
proof -
  have "guesses_checked checkpw cfg name as db \<le> budget cfg (LOGIN_LOCKOUT_BASE_SECONDS cfg * 1000000) t T u"
    by (rule guesses_within_budget [OF assms(1,2) refl assms(4,5,8,10)])
  with assms(3,6,7,9) show ?thesis by (simp add: budget_def windows_def)
qed

definition demo_auth_db :: auth_db where
  "demo_auth_db = \<lparr> users = [\<lparr> au_id = 1, au_username = ''ann'', au_email = ''a@x'', au_active = True,
       au_password_hash = Some ''secret'', au_global_role = ''Viewer'', au_failed_login_count = None,
       au_locked_until = None \<rparr>], team_members = [\<lparr> tm_team_id = 3, tm_user_id = 1, tm_role = ''TeamAdmin'' \<rparr>],
     revoked = [] \<rparr>"

definition demo_auth_cfg :: auth_cfg where
  "demo_auth_cfg = \<lparr> LOGIN_LOCKOUT_THRESHOLD = 2, LOGIN_LOCKOUT_BASE_SECONDS = 30, LOGIN_LOCKOUT_MAX_SECONDS = 3600 \<rparr>"

theorem brute_force_bounded_witness:
  "guesses_checked (=) demo_auth_cfg ''ann'' [(0, ''a''), (1, ''b''), (2, ''c''), (3, ''d'')] demo_auth_db = 2 \<and>
   guesses_checked (=) demo_auth_cfg ''ann'' [(0, ''a''), (1, ''b''), (2, ''c''), (3, ''d'')] demo_auth_db \<le> 2"
proof -
  let ?as = "[(0, ''a''), (1, ''b''), (2, ''c''), (3 :: int, ''d'')]"
  have "guesses_checked (=) demo_auth_cfg ''ann'' ?as demo_auth_db
      \<le> LOGIN_LOCKOUT_THRESHOLD demo_auth_cfg + nat ((3 - 0) div (LOGIN_LOCKOUT_BASE_SECONDS demo_auth_cfg * 1000000))"
    by (rule brute_force_bounded [where u = "hd (users demo_auth_db)"])
      (simp_all add: demo_auth_cfg_def demo_auth_db_def failed_count_def verify_password_def)
  moreover have "guesses_checked (=) demo_auth_cfg ''ann'' ?as demo_auth_db = 2" by code_simp
  ultimately show ?thesis by (simp add: demo_auth_cfg_def)
qed

text \<open>
  C7. A refresh token works once: after a rotation succeeded, no history of rotations, logouts, consumed
  identifiers and logins, at any later times, makes the same token acceptable again, although expired
  entries are purged from the revocation list.
\<close>

theorem refresh_token_single_use:
  assumes "decoder_ok (se_decode S)" "do_refresh S t token new_jti db = (Some res, db')"
    and "sorted (t # map op_time ops @ [t'])"
  shows "fst (do_refresh S t' token new_jti' (fold (run_op S) ops db')) = None"
proof -
  from assms(2) obtain payload jti where p: "se_decode S t token = Some payload"
    "refresh_claim_jti payload = Some jti" and b: "burnt jti (claim_exp payload) t db'"
    by (rule refresh_burns)
  have "sorted (t # map op_time ops)" and le: "\<forall>x\<in>insert t (set (map op_time ops)). x \<le> t'"
    using assms(3) by (auto simp: sorted_append)
  from burnt_run [OF b this(1)] obtain t'' where
    "burnt jti (claim_exp payload) t'' (fold (run_op S) ops db')" "t'' \<in> insert t (set (map op_time ops))"
    by blast
  with le have c: "burnt jti (claim_exp payload) t' (fold (run_op S) ops db')" by (auto simp: burnt_def)
  show ?thesis
  proof (cases "se_decode S t' token")
    case (Some payload')
    then have "payload' = payload" "t' < claim_exp payload'" using assms(1) p(1) unfolding decoder_ok_def by blast+
    with c have "is_refresh_token_revoked jti (fold (run_op S) ops db')"
      by (auto simp: burnt_def is_refresh_token_revoked_def list_ex_iff)
    with Some \<open>payload' = payload\<close> p(2) show ?thesis by (simp add: do_refresh_def refresh_access_token_def)
  qed (simp add: do_refresh_def refresh_access_token_def)
qed

definition demo_session :: session_env where
  "demo_session = \<lparr> se_decode = (\<lambda>t token. if token = ''r1'' \<and> t < 1000000000
         then Some (refresh_claims demo_cfg ''default'' 1 ''j1'' 0 1000) else None),
     se_checkpw = (=), se_jwt_cfg = demo_cfg, se_cfg = demo_auth_cfg, se_tenant = ''default'',
     se_access_life = 900, se_refresh_life = 604800 \<rparr>"

theorem refresh_token_single_use_witness:
  "fst (do_refresh demo_session 5 ''r1'' ''j2'' demo_auth_db) \<noteq> None \<and>
   fst (do_refresh demo_session 9 ''r1'' ''j3'' (fold (run_op demo_session) [Do_Login 7 ''ann'' ''x'']
          (snd (do_refresh demo_session 5 ''r1'' ''j2'' demo_auth_db)))) = None"
proof -
  let ?r = "do_refresh demo_session 5 ''r1'' ''j2'' demo_auth_db"
  have n: "fst ?r \<noteq> None" by code_simp
  then obtain res where r: "?r = (Some res, snd ?r)" by (cases ?r) auto
  have "claim_exp (refresh_claims demo_cfg ''default'' 1 ''j1'' 0 1000) = 1000000000" by code_simp
  then have d: "decoder_ok (se_decode demo_session)"
    by (auto simp: decoder_ok_def demo_session_def split: if_splits)
  from refresh_token_single_use [OF d r, of "[Do_Login 7 ''ann'' ''x'']" 9] n show ?thesis by simp
qed

end
