(* ===== verification/Ioc_Ingestion.thy ===== *)
theory Ioc_Ingestion
  imports Ioc_Checker
begin

text \<open>
  The Manager's feed ingestion (\<^verbatim>\<open>manager/backend/app/services/ioc_ingestion_service.py\<close>): validation and
  normalisation of indicators, the four feed parsers, the feed, entry and override tables, the caches
  built from them and the two checks.

  The tables are lists of rows in insertion order and accept every row that is inserted; an instance's
  caches are separate fields, so that what a check answers depends on when the caches were last built.
  The \<^verbatim>\<open>ipaddress\<close> functions are the parameter \<open>ip_text\<close>. The decoders of CSV, JSON and XML text are
  parameters too: CSV yields the rows up to the first malformed one, a missing cell being \<open>None\<close>, JSON
  and XML yield \<open>None\<close> for malformed text. Times are microseconds, and one call of an operation reads
  the clock once.
\<close>

section \<open>Indicators\<close>

record ('net, 'addr) ip_text = "('net, 'addr) ip_lib" +
  addr_str :: "'addr \<Rightarrow> string"
  net_str :: "'net \<Rightarrow> string"

definition ipv4_text :: "(nat \<times> nat, nat) ip_text" where
  "ipv4_text = ip_lib.extend ipv4_lib
     \<lparr> addr_str = ipv4_str, net_str = (\<lambda>net. ipv4_str (fst net) @ ''/'' @ dec (snd net)) \<rparr>"

definition mgr_normalize_domain :: "string \<Rightarrow> string" where
  "mgr_normalize_domain domain = (if domain = [] then [] else py_rstrip_dot (py_lower (py_strip domain)))"

definition mgr_normalize_ip :: "('net, 'addr) ip_text \<Rightarrow> string \<Rightarrow> string" where
  "mgr_normalize_ip L ip =
     (if ip = [] then []
      else (let normalized = py_strip ip in
            case ip_address L normalized of
              Some addr \<Rightarrow> addr_str L addr
            | None \<Rightarrow> (case ip_network L normalized of Some net \<Rightarrow> net_str L net | None \<Rightarrow> normalized)))"

abbreviation newline :: char where
  "newline \<equiv> CHR 0x0A"

definition domain_char :: "char \<Rightarrow> bool" where
  "domain_char c \<longleftrightarrow> (let n = (of_char c :: nat) in
     (97 \<le> n \<and> n \<le> 122) \<or> (65 \<le> n \<and> n \<le> 90) \<or> (48 \<le> n \<and> n \<le> 57) \<or> c = dot \<or> c = CHR ''-'')"

text \<open>\<^verbatim>\<open>re.match(r'^[a-zA-Z0-9.-]+$', s)\<close>: the dollar also matches before a final newline.\<close>

definition domain_chars_re :: "string \<Rightarrow> bool" where
  "domain_chars_re s =
     (let core = (if s \<noteq> [] \<and> last s = newline then butlast s else s)
      in core \<noteq> [] \<and> list_all domain_char core)"

definition is_valid_domain :: "string \<Rightarrow> bool" where
  "is_valid_domain domain =
     (if domain = [] \<or> length domain > 255 \<or> length domain < 4 then False
      else (let d = (if py_startswith domain ''*.'' then drop 2 domain else domain)
            in domain_chars_re d \<and> dot \<in> set d \<and>
               list_all (\<lambda>part. part \<noteq> [] \<and> length part \<le> 63 \<and>
                                \<not> py_startswith part ''-'' \<and> \<not> py_endswith part ''-'') (labels d)))"

definition is_valid_ip :: "('net, 'addr) ip_text \<Rightarrow> string \<Rightarrow> bool" where
  "is_valid_ip L ip \<longleftrightarrow> ip_address L ip \<noteq> None \<or> ip_network L ip \<noteq> None"

record indicator =
  in_value :: string
  in_type :: string
  in_threat :: json
  in_confidence :: int
  in_description :: json

text \<open>The type and normalised value of an indicator whose type the feed does not give, and of one whose type it gives.\<close>

definition classify :: "('net, 'addr) ip_text \<Rightarrow> string \<Rightarrow> (string \<times> string) option" where
  "classify L v =
     (if is_valid_domain v then Some (''domain'', mgr_normalize_domain v)
      else if is_valid_ip L v then Some (''ip'', mgr_normalize_ip L v) else None)"

definition classify_as :: "('net, 'addr) ip_text \<Rightarrow> string \<Rightarrow> string \<Rightarrow> (string \<times> string) option" where
  "classify_as L ty v =
     (if ty = ''domain'' then (if is_valid_domain v then Some (ty, mgr_normalize_domain v) else None)
      else (if is_valid_ip L v then Some (ty, mgr_normalize_ip L v) else None))"

section \<open>Parsers\<close>

definition parse_text_line :: "('net, 'addr) ip_text \<Rightarrow> string \<Rightarrow> string list \<Rightarrow> string \<Rightarrow> indicator list" where
  "parse_text_line L feed_ty comment_chars raw =
     (let line = py_strip raw in
      if line = [] \<or> list_ex (\<lambda>c. py_startswith line c) comment_chars then []
      else if feed_ty = ''domain''
      then (if is_valid_domain line
            then [\<lparr> in_value = mgr_normalize_domain line, in_type = ''domain'', in_threat = JStr ''malware'',
                    in_confidence = 75, in_description = JNull \<rparr>] else [])
      else if feed_ty = ''ip''
      then (if is_valid_ip L line
            then [\<lparr> in_value = mgr_normalize_ip L line, in_type = ''ip'', in_threat = JStr ''malware'',
                    in_confidence = 75, in_description = JNull \<rparr>] else [])
      else [])"

definition parse_text_feed :: "('net, 'addr) ip_text \<Rightarrow> string \<Rightarrow> string list \<Rightarrow> string \<Rightarrow> indicator list" where
  "parse_text_feed L feed_ty comment_chars content =
     concat (map (parse_text_line L feed_ty comment_chars) (py_split newline content))"

text \<open>\<^verbatim>\<open>int(s)\<close> of a string: surrounding white space, a sign, digits with single underscores between them.\<close>

fun int_digits :: "bool \<Rightarrow> nat \<Rightarrow> string \<Rightarrow> nat option" where
  "int_digits after_digit acc [] = (if after_digit then Some acc else None)"
| "int_digits after_digit acc (c # cs) =
     (if is_digit c then int_digits True (10 * acc + digit_val c) cs
      else if c = CHR ''_'' \<and> after_digit then int_digits False acc cs else None)"

definition py_int :: "string \<Rightarrow> int option" where
  "py_int s =
     (case py_strip s of
        [] \<Rightarrow> None
      | c # cs \<Rightarrow>
          (if c = CHR ''-'' then map_option (\<lambda>n. - int n) (int_digits False 0 cs)
           else if c = CHR ''+'' then map_option int (int_digits False 0 cs)
           else map_option int (int_digits False 0 (c # cs))))"

type_synonym csv_row = "(string \<times> string option) list"

definition cell :: "csv_row \<Rightarrow> string \<Rightarrow> string option" where
  "cell row col = (case map_of row col of None \<Rightarrow> None | Some v \<Rightarrow> v)"

definition csv_columns :: "string list" where
  "csv_columns = [''indicator'', ''domain'', ''host'', ''ip'', ''ip_address'']"

definition csv_value :: "csv_row \<Rightarrow> string option" where
  "csv_value row =
     map_option (\<lambda>col. py_strip (the (cell row col))) (find (\<lambda>col. truthy (cell row col)) csv_columns)"

text \<open>One row: \<open>None\<close> is the exception for a \<^verbatim>\<open>type\<close> cell that is missing, which ends the loop.\<close>

definition parse_csv_row :: "('net, 'addr) ip_text \<Rightarrow> string \<Rightarrow> csv_row \<Rightarrow> indicator list option" where
  "parse_csv_row L feed_ty row =
     (let typed = feed_ty = ''mixed'' \<and> map_of row ''type'' \<noteq> None in
      if typed \<and> map_of row ''type'' = Some None then None
      else
        (let row_type = (if typed then py_lower (py_strip (the (cell row ''type''))) else []);
             ind_type = (if row_type \<in> {''domain'', ''ip''} then Some row_type else None)
         in case csv_value row of
              None \<Rightarrow> Some []
            | Some v \<Rightarrow>
                (if v = [] then Some []
                 else (case (case ind_type of None \<Rightarrow> classify L v | Some t \<Rightarrow> classify_as L t v) of
                         None \<Rightarrow> Some []
                       | Some (t, value) \<Rightarrow>
                           Some [\<lparr> in_value = value, in_type = t,
                                   in_threat = JStr (the (py_or (cell row ''threat_type'')
                                                     (py_or (cell row ''category'') (Some ''unknown'')))),
                                   in_confidence = (case map_of row ''confidence'' of
                                      None \<Rightarrow> 50 | Some None \<Rightarrow> 50
                                    | Some (Some c) \<Rightarrow> (case py_int c of None \<Rightarrow> 50 | Some i \<Rightarrow> i)),
                                   in_description = (case map_of row ''description'' of
                                      None \<Rightarrow> JStr [] | Some None \<Rightarrow> JNull | Some (Some d) \<Rightarrow> JStr d) \<rparr>]))))"

text \<open>The loops over rows and items: an exception ends the loop and keeps what was collected.\<close>

fun collect :: "('a \<Rightarrow> 'b list option) \<Rightarrow> 'a list \<Rightarrow> 'b list" where
  "collect f [] = []"
| "collect f (x # xs) = (case f x of None \<Rightarrow> [] | Some ys \<Rightarrow> ys @ collect f xs)"

definition parse_csv_feed :: "('net, 'addr) ip_text \<Rightarrow> string \<Rightarrow> csv_row list option \<Rightarrow> indicator list" where
  "parse_csv_feed L feed_ty rows =
     (case rows of None \<Rightarrow> [] | Some rs \<Rightarrow> collect (parse_csv_row L feed_ty) rs)"

text \<open>
  \<^verbatim>\<open>str(v)\<close> of a decoded value; \<open>None\<close> for a list or object, whose text begins with a bracket and is
  neither a domain nor an address nor one of the two type names.
\<close>

definition json_str :: "json \<Rightarrow> string option" where
  "json_str j =
     (case j of JNull \<Rightarrow> Some ''None'' | JBool b \<Rightarrow> Some (if b then ''True'' else ''False'')
      | JInt i \<Rightarrow> Some (if i < 0 then CHR ''-'' # dec (nat (- i)) else dec (nat i))
      | JStr s \<Rightarrow> Some s | JList _ \<Rightarrow> None | JObj _ \<Rightarrow> None)"

text \<open>\<^verbatim>\<open>int(v)\<close> of a decoded value; \<open>None\<close> is the exception.\<close>

definition json_int :: "json \<Rightarrow> int option" where
  "json_int j = (case j of JInt i \<Rightarrow> Some i | JBool b \<Rightarrow> Some (if b then 1 else 0) | JStr s \<Rightarrow> py_int s | _ \<Rightarrow> None)"

definition parse_json_item :: "('net, 'addr) ip_text \<Rightarrow> string \<Rightarrow> json \<Rightarrow> indicator list option" where
  "parse_json_item L feed_ty item =
     (case item of
        JObj kvs \<Rightarrow>
          (if \<not> json_truthy (json_get kvs ''indicator'') then Some []
           else
             (let v = map_option py_strip (json_str (json_get kvs ''indicator''));
                  given = (if feed_ty = ''mixed'' \<and> map_of kvs ''type'' \<noteq> None
                           then map_option (\<lambda>t. py_lower (py_strip t)) (json_str (json_get kvs ''type'')) else None);
                  ind_type = (if given \<in> {Some ''domain'', Some ''ip''} then given else None)
              in case Option.bind v (\<lambda>v. case ind_type of None \<Rightarrow> classify L v | Some t \<Rightarrow> classify_as L t v) of
                   None \<Rightarrow> Some []
                 | Some (t, value) \<Rightarrow>
                     (case json_int (case map_of kvs ''confidence'' of None \<Rightarrow> JInt 50 | Some c \<Rightarrow> c) of
                        None \<Rightarrow> None
                      | Some c \<Rightarrow>
                          Some [\<lparr> in_value = value, in_type = t,
                                  in_threat = (case map_of kvs ''threat_type'' of None \<Rightarrow> JStr ''unknown'' | Some x \<Rightarrow> x),
                                  in_confidence = c, in_description = json_get kvs ''description'' \<rparr>])))
      | _ \<Rightarrow> Some [])"

fun json_navigate :: "string list \<Rightarrow> json \<Rightarrow> json" where
  "json_navigate [] data = data"
| "json_navigate (k # ks) (JObj kvs) = json_navigate ks (case map_of kvs k of None \<Rightarrow> JObj [] | Some v \<Rightarrow> v)"
| "json_navigate (k # ks) data = data"

text \<open>
  The items. A member \<^verbatim>\<open>indicators\<close> that is no list yields none: its elements are no objects, or iterating
  it is an exception before the first one.
\<close>

definition json_items :: "json \<Rightarrow> json list" where
  "json_items data =
     (case data of
        JList items \<Rightarrow> items
      | JObj kvs \<Rightarrow> (case map_of kvs ''indicators'' of Some (JList items) \<Rightarrow> items | _ \<Rightarrow> [])
      | _ \<Rightarrow> [])"

datatype feed_error = JSONDecodeError | FeedError string

definition parse_json_feed ::
  "('net, 'addr) ip_text \<Rightarrow> string \<Rightarrow> string option \<Rightarrow> json option \<Rightarrow> feed_error + indicator list" where
  "parse_json_feed L feed_ty json_path decoded =
     (case decoded of
        None \<Rightarrow> Inl JSONDecodeError
      | Some data \<Rightarrow>
          Inr (collect (parse_json_item L feed_ty)
                 (json_items (if truthy json_path then json_navigate (py_split dot (the json_path)) data else data))))"

type_synonym xml_elem = "string option \<times> (string \<times> string) list"

definition parse_xml_elem :: "('net, 'addr) ip_text \<Rightarrow> xml_elem \<Rightarrow> indicator list" where
  "parse_xml_elem L e =
     (if \<not> truthy (fst e) then []
      else (case classify L (py_strip (the (fst e))) of
              None \<Rightarrow> []
            | Some (t, value) \<Rightarrow>
                [\<lparr> in_value = value, in_type = t,
                   in_threat = JStr (case map_of (snd e) ''threat_type'' of None \<Rightarrow> ''unknown'' | Some x \<Rightarrow> x),
                   in_confidence = 50, in_description = JNull \<rparr>]))"

definition parse_xml_feed :: "('net, 'addr) ip_text \<Rightarrow> xml_elem list option \<Rightarrow> indicator list" where
  "parse_xml_feed L elems = (case elems of None \<Rightarrow> [] | Some es \<Rightarrow> concat (map (parse_xml_elem L) es))"

record decoders =
  csv_rows :: "string \<Rightarrow> csv_row list option"
  json_loads :: "string \<Rightarrow> json option"
  xml_elems :: "string \<Rightarrow> xml_elem list option"

definition default_comment_chars :: "string list" where
  "default_comment_chars = [''#'', '';'']"

text \<open>Every caller leaves the parser configuration empty.\<close>

definition parse_feed_content ::
  "('net, 'addr) ip_text \<Rightarrow> decoders \<Rightarrow> string \<Rightarrow> string \<Rightarrow> string \<Rightarrow> feed_error + indicator list" where
  "parse_feed_content L D content feed_ty format_type =
     (if format_type = ''txt'' then Inr (parse_text_feed L feed_ty default_comment_chars content)
      else if format_type = ''csv'' then Inr (parse_csv_feed L feed_ty (csv_rows D content))
      else if format_type = ''json'' then parse_json_feed L feed_ty None (json_loads D content)
      else if format_type = ''xml'' then Inr (parse_xml_feed L (xml_elems D content))
      else Inr [])"

section \<open>State\<close>

record mgr_feed =
  mf_id :: nat
  mf_name :: string
  mf_url :: string
  mf_type :: string
  mf_format :: "string option"
  mf_active :: bool
  mf_enabled :: bool
  mf_interval :: int
  mf_last_updated :: "int option"
  mf_last_success :: "int option"
  mf_entry_count :: nat

record mgr_entry =
  me_id :: nat
  me_feed_id :: nat
  me_indicator :: string
  me_type :: string
  me_threat :: json
  me_confidence :: int
  me_format :: "string option"
  me_created :: int
  me_updated :: "int option"

record mgr_override =
  mo_token :: nat
  mo_indicator :: string
  mo_type :: string
  mo_kind :: string
  mo_reason :: string
  mo_created_by :: string
  mo_created :: int
  mo_expires :: "int option"

type_synonym override_id = "nat \<times> string \<times> string"

record 'net ioc_mgr =
  mfeeds :: "mgr_feed list"
  mentries :: "mgr_entry list"
  moverrides :: "mgr_override list"
  feed_seq :: nat
  entry_seq :: nat
  c_domains :: "string set"
  c_ips :: "string set"
  c_cidrs :: "'net list"
  c_allow :: "override_id set"
  c_block :: "override_id set"
  c_expiry :: "override_id \<rightharpoonup> int option"

section \<open>Caches\<close>

definition override_live :: "int \<Rightarrow> mgr_override \<Rightarrow> bool" where
  "override_live now ov = (case mo_expires ov of None \<Rightarrow> True | Some t \<Rightarrow> \<not> t < now)"

definition override_key :: "mgr_override \<Rightarrow> override_id" where
  "override_key ov = (mo_token ov, mo_indicator ov, mo_type ov)"

definition load_overrides :: "int \<Rightarrow> 'net ioc_mgr \<Rightarrow> 'net ioc_mgr" where
  "load_overrides now s =
     (let live = filter (override_live now) (moverrides s) in
      s\<lparr> c_allow := set (map override_key (filter (\<lambda>ov. mo_kind ov = ''allow'') live)),
         c_block := set (map override_key (filter (\<lambda>ov. mo_kind ov = ''block'') live)),
         c_expiry := fold (\<lambda>ov m. m(override_key ov \<mapsto> mo_expires ov)) live Map.empty \<rparr>)"

definition rebuild_cache :: "('net, 'addr) ip_text \<Rightarrow> int \<Rightarrow> 'net ioc_mgr \<Rightarrow> 'net ioc_mgr" where
  "rebuild_cache L now s =
     (let ips = map me_indicator (filter (\<lambda>e. me_type e = ''ip'') (mentries s)) in
      load_overrides now
        (s\<lparr> c_domains := set (map me_indicator (filter (\<lambda>e. me_type e = ''domain'') (mentries s))),
            c_ips := set (filter (\<lambda>i. ip_network L i = None) ips),
            c_cidrs := List.map_filter (ip_network L) ips \<rparr>))"

section \<open>Feeds\<close>

definition COMMUNITY_FORMATS :: "string list" where
  "COMMUNITY_FORMATS = [''txt'', ''csv'', ''json'', ''xml'']"

definition ENTERPRISE_FORMATS :: "string list" where
  "ENTERPRISE_FORMATS = [''taxii'', ''misp'', ''stix'', ''openioc'']"

text \<open>\<open>license\<close> is \<open>None\<close> without a license manager, else its answer for \<^verbatim>\<open>ioc_advanced_feeds\<close>.\<close>

definition is_format_licensed :: "bool option \<Rightarrow> string \<Rightarrow> bool" where
  "is_format_licensed license format_type =
     (let fmt = py_lower format_type in
      if fmt \<in> set COMMUNITY_FORMATS then True
      else if fmt \<in> set ENTERPRISE_FORMATS then (case license of None \<Rightarrow> False | Some b \<Rightarrow> b)
      else False)"

definition new_feed :: "nat \<Rightarrow> string \<Rightarrow> string \<Rightarrow> string \<Rightarrow> string \<Rightarrow> bool \<Rightarrow> int \<Rightarrow> mgr_feed" where
  "new_feed i name url feed_ty format_type en interval =
     \<lparr> mf_id = i, mf_name = name, mf_url = url, mf_type = feed_ty, mf_format = Some format_type,
       mf_active = True, mf_enabled = en, mf_interval = interval, mf_last_updated = None,
       mf_last_success = None, mf_entry_count = 0 \<rparr>"

definition insert_feed :: "string \<Rightarrow> string \<Rightarrow> string \<Rightarrow> string \<Rightarrow> bool \<Rightarrow> int \<Rightarrow> 'net ioc_mgr \<Rightarrow> nat \<times> 'net ioc_mgr" where
  "insert_feed name url feed_ty format_type en interval s =
     (feed_seq s, s\<lparr> mfeeds := mfeeds s @ [new_feed (feed_seq s) name url feed_ty format_type en interval],
                     feed_seq := feed_seq s + 1 \<rparr>)"

definition find_feed :: "string \<Rightarrow> 'net ioc_mgr \<Rightarrow> mgr_feed option" where
  "find_feed name s = find (\<lambda>f. mf_name f = name) (mfeeds s)"

definition delete_entries :: "nat \<Rightarrow> 'net ioc_mgr \<Rightarrow> 'net ioc_mgr" where
  "delete_entries fid s = s\<lparr> mentries := filter (\<lambda>e. me_feed_id e \<noteq> fid) (mentries s) \<rparr>"

definition insert_entry :: "nat \<Rightarrow> string option \<Rightarrow> int \<Rightarrow> indicator \<Rightarrow> 'net ioc_mgr \<Rightarrow> 'net ioc_mgr" where
  "insert_entry fid format_type now ind s =
     s\<lparr> mentries := mentries s @
          [\<lparr> me_id = entry_seq s, me_feed_id = fid, me_indicator = in_value ind, me_type = in_type ind,
             me_threat = in_threat ind, me_confidence = in_confidence ind, me_format = format_type,
             me_created = now, me_updated = None \<rparr>],
        entry_seq := entry_seq s + 1 \<rparr>"

definition insert_entries :: "nat \<Rightarrow> string option \<Rightarrow> int \<Rightarrow> indicator list \<Rightarrow> 'net ioc_mgr \<Rightarrow> 'net ioc_mgr" where
  "insert_entries fid format_type now inds s = fold (insert_entry fid format_type now) inds s"

datatype feed_result = Added nat | NoIndicators | Failed feed_error

definition update_feed_from_content ::
  "('net, 'addr) ip_text \<Rightarrow> decoders \<Rightarrow> bool option \<Rightarrow> int \<Rightarrow> int \<Rightarrow> string \<Rightarrow> string \<Rightarrow> string \<Rightarrow> string \<Rightarrow>
   'net ioc_mgr \<Rightarrow> feed_result \<times> 'net ioc_mgr" where
  "update_feed_from_content L D license interval now name content feed_ty format_type s =
     (if \<not> is_format_licensed license format_type then (Failed (FeedError ''requires Enterprise license''), s)
      else
        (case parse_feed_content L D content feed_ty format_type of
           Inl e \<Rightarrow> (Failed e, s)
         | Inr inds \<Rightarrow>
             (if inds = [] then (NoIndicators, s)
              else
                (let (fid, s1) = (case find_feed name s of
                                    None \<Rightarrow> insert_feed name [] feed_ty format_type True interval s
                                  | Some f \<Rightarrow> (mf_id f, delete_entries (mf_id f) s))
                 in (Added (length inds), rebuild_cache L now (insert_entries fid (Some format_type) now inds s1))))))"

definition register_feed ::
  "bool option \<Rightarrow> string \<Rightarrow> string \<Rightarrow> string \<Rightarrow> string \<Rightarrow> int \<Rightarrow> bool \<Rightarrow> 'net ioc_mgr \<Rightarrow> nat option \<times> 'net ioc_mgr" where
  "register_feed license name url feed_ty format_type interval en s =
     (if \<not> is_format_licensed license format_type then (None, s)
      else (case find_feed name s of
              Some _ \<Rightarrow> (None, s)
            | None \<Rightarrow> (case insert_feed name url feed_ty format_type en interval s of (fid, s') \<Rightarrow> (Some fid, s'))))"

text \<open>
  Fetching. \<open>url_parts\<close> is the scheme and host of a URL, \<open>resolve\<close> its addresses (\<open>None\<close> when it does not
  resolve), \<open>disallowed\<close> whether an address is private, loopback, link-local, reserved, multicast or
  unspecified, \<open>http_get\<close> the status and body of a request that follows no redirect.
\<close>

record fetcher =
  url_parts :: "string \<Rightarrow> string \<times> string option"
  allow_private :: bool
  resolve_host :: "string \<Rightarrow> string list option"
  disallowed :: "string \<Rightarrow> bool"
  http_get :: "string \<Rightarrow> (nat \<times> string) option"

definition assert_feed_url_safe :: "fetcher \<Rightarrow> string \<Rightarrow> bool" where
  "assert_feed_url_safe F url =
     (case url_parts F url of (scheme, host) \<Rightarrow>
        if scheme \<notin> {''http'', ''https''} then False
        else if \<not> truthy host then False
        else if allow_private F then True
        else (case resolve_host F url of None \<Rightarrow> False | Some infos \<Rightarrow> list_all (\<lambda>ip. \<not> disallowed F ip) infos))"

definition update_single_feed ::
  "('net, 'addr) ip_text \<Rightarrow> decoders \<Rightarrow> fetcher \<Rightarrow> int \<Rightarrow> mgr_feed \<Rightarrow> 'net ioc_mgr \<Rightarrow> feed_error + 'net ioc_mgr" where
  "update_single_feed L D F now f s =
     (if \<not> assert_feed_url_safe F (mf_url f) then Inl (FeedError ''unsafe URL'')
      else (case http_get F (mf_url f) of
              None \<Rightarrow> Inl (FeedError ''fetch failed'')
            | Some (status, content) \<Rightarrow>
                (if status \<noteq> 200 then Inl (FeedError ''HTTP status'')
                 else (case parse_feed_content L D content (mf_type f) (the (py_or (mf_format f) (Some []))) of
                         Inl e \<Rightarrow> Inl e
                       | Inr inds \<Rightarrow>
                           (let s1 = insert_entries (mf_id f) (mf_format f) now inds (delete_entries (mf_id f) s)
                            in Inr (s1\<lparr> mfeeds := map (\<lambda>g. if mf_id g = mf_id f
                                     then g\<lparr> mf_last_updated := Some now, mf_last_success := Some now,
                                             mf_entry_count := length inds \<rparr> else g) (mfeeds s1) \<rparr>))))))"

definition feed_due :: "int \<Rightarrow> mgr_feed \<Rightarrow> bool" where
  "feed_due now f = (case mf_last_updated f of None \<Rightarrow> True | Some t \<Rightarrow> \<not> now < t + mf_interval f * 3600000000)"

record update_counts =
  uc_updated :: nat
  uc_skipped :: nat
  uc_failed :: nat

definition update_one ::
  "('net, 'addr) ip_text \<Rightarrow> decoders \<Rightarrow> fetcher \<Rightarrow> int \<Rightarrow> mgr_feed \<Rightarrow>
   update_counts \<times> 'net ioc_mgr \<Rightarrow> update_counts \<times> 'net ioc_mgr" where
  "update_one L D F now f = (\<lambda>(c, s).
     if \<not> feed_due now f then (c\<lparr> uc_skipped := uc_skipped c + 1 \<rparr>, s)
     else (case update_single_feed L D F now f s of
             Inl _ \<Rightarrow> (c\<lparr> uc_failed := uc_failed c + 1 \<rparr>, s)
           | Inr s' \<Rightarrow> (c\<lparr> uc_updated := uc_updated c + 1 \<rparr>, s')))"

text \<open>The first component is the member \<^verbatim>\<open>success\<close> of the result.\<close>

definition update_all_feeds ::
  "('net, 'addr) ip_text \<Rightarrow> decoders \<Rightarrow> fetcher \<Rightarrow> int \<Rightarrow> 'net ioc_mgr \<Rightarrow> (bool \<times> update_counts) \<times> 'net ioc_mgr" where
  "update_all_feeds L D F now s =
     (case fold (update_one L D F now) (filter mf_enabled (mfeeds s))
             (\<lparr> uc_updated = 0, uc_skipped = 0, uc_failed = 0 \<rparr>, s) of
        (c, s') \<Rightarrow> ((uc_failed c = 0, c), rebuild_cache L now s'))"

definition set_feed_enabled :: "nat \<Rightarrow> bool \<Rightarrow> 'net ioc_mgr \<Rightarrow> 'net ioc_mgr" where
  "set_feed_enabled fid en s =
     s\<lparr> mfeeds := map (\<lambda>f. if mf_id f = fid then f\<lparr> mf_enabled := en \<rparr> else f) (mfeeds s) \<rparr>"

definition default_feeds :: "(string \<times> string \<times> string \<times> string \<times> int) list" where
  "default_feeds =
     [(''abuse.ch URLhaus'', ''https://urlhaus.abuse.ch/downloads/hostfile/'', ''domain'', ''txt'', 1),
      (''abuse.ch Malware Domains'', ''https://malware-filter.gitlab.io/malware-filter/urlhaus-filter-hosts.txt'',
       ''domain'', ''txt'', 6),
      (''Emerging Threats Compromised IPs'', ''https://rules.emergingthreats.net/blockrules/compromised-ips.txt'',
       ''ip'', ''txt'', 1),
      (''Feodo Tracker'', ''https://feodotracker.abuse.ch/downloads/ipblocklist.txt'', ''ip'', ''txt'', 1),
      (''Generic Threat Feed'', [], ''mixed'', ''json'', 6)]"

definition ensure_feed :: "string \<times> string \<times> string \<times> string \<times> int \<Rightarrow> 'net ioc_mgr \<Rightarrow> 'net ioc_mgr" where
  "ensure_feed = (\<lambda>(name, url, ty, fmt, interval) s.
     if find_feed name s = None then snd (insert_feed name url ty fmt True interval s) else s)"

definition initialize_default_feeds :: "'net ioc_mgr \<Rightarrow> 'net ioc_mgr" where
  "initialize_default_feeds s =
     fold ensure_feed default_feeds s"

definition cleanup_old_indicators :: "('net, 'addr) ip_text \<Rightarrow> int \<Rightarrow> int \<Rightarrow> 'net ioc_mgr \<Rightarrow> nat \<times> 'net ioc_mgr" where
  "cleanup_old_indicators L now retention_days s =
     (let cutoff = (if retention_days = 0 then now + 86400000000 else now - retention_days * 86400000000)
      in (length (filter (\<lambda>e. me_created e \<le> cutoff) (mentries s)),
          rebuild_cache L now (s\<lparr> mentries := filter (\<lambda>e. \<not> me_created e \<le> cutoff) (mentries s) \<rparr>)))"

definition mgr_ioc_stats :: "'net ioc_mgr \<Rightarrow> nat \<times> nat \<times> nat \<times> nat" where
  "mgr_ioc_stats s = (length (mfeeds s), length (filter mf_enabled (mfeeds s)), length (mentries s), length (moverrides s))"

section \<open>Overrides\<close>

definition normalize_indicator :: "('net, 'addr) ip_text \<Rightarrow> string \<Rightarrow> string \<Rightarrow> string" where
  "normalize_indicator L ind_ty ind =
     (if ind_ty = ''domain'' then mgr_normalize_domain ind
      else if ind_ty = ''ip'' then mgr_normalize_ip L ind else ind)"

definition add_override ::
  "('net, 'addr) ip_text \<Rightarrow> int \<Rightarrow> nat \<Rightarrow> string \<Rightarrow> string \<Rightarrow> string \<Rightarrow> string \<Rightarrow> string \<Rightarrow> int option \<Rightarrow>
   'net ioc_mgr \<Rightarrow> 'net ioc_mgr" where
  "add_override L now token_id raw ind_ty kind reason created_by expires_at s =
     (let key = (token_id, normalize_indicator L ind_ty raw, ind_ty);
          row = \<lparr> mo_token = token_id, mo_indicator = normalize_indicator L ind_ty raw, mo_type = ind_ty,
                  mo_kind = kind, mo_reason = reason, mo_created_by = created_by, mo_created = now,
                  mo_expires = expires_at \<rparr>
      in load_overrides now
           (s\<lparr> moverrides := (if list_ex (\<lambda>ov. override_key ov = key) (moverrides s)
                              then map (\<lambda>ov. if override_key ov = key then row else ov) (moverrides s)
                              else moverrides s @ [row]) \<rparr>))"

definition remove_override ::
  "('net, 'addr) ip_text \<Rightarrow> int \<Rightarrow> nat \<Rightarrow> string \<Rightarrow> string \<Rightarrow> 'net ioc_mgr \<Rightarrow> 'net ioc_mgr" where
  "remove_override L now token_id raw ind_ty s =
     load_overrides now
       (s\<lparr> moverrides := filter (\<lambda>ov. override_key ov \<noteq> (token_id, normalize_indicator L ind_ty raw, ind_ty))
                           (moverrides s) \<rparr>)"

definition get_overrides :: "int \<Rightarrow> nat \<Rightarrow> 'net ioc_mgr \<Rightarrow> mgr_override list" where
  "get_overrides now token_id s =
     filter (override_live now) (filter (\<lambda>ov. mo_token ov = token_id) (moverrides s))"

section \<open>Checks\<close>

definition override_matches :: "string \<Rightarrow> string \<Rightarrow> bool" where
  "override_matches ind d \<longleftrightarrow>
     ind = d \<or> py_startswith ind ''*.'' \<and> (py_endswith d (''.'' @ drop 2 ind) \<or> d = drop 2 ind)"

definition domain_override :: "nat option \<Rightarrow> override_id set \<Rightarrow> string \<Rightarrow> bool" where
  "domain_override token_id ovs d \<longleftrightarrow>
     token_id \<noteq> None \<and> token_id \<noteq> Some 0 \<and>
     (\<exists>(t, ind, ty)\<in>ovs. Some t = token_id \<and> ty = ''domain'' \<and> override_matches ind d)"

definition check_domain :: "'net ioc_mgr \<Rightarrow> string \<Rightarrow> nat option \<Rightarrow> bool \<times> string" where
  "check_domain s domain token_id =
     (let d = mgr_normalize_domain domain in
      if domain_override token_id (c_allow s) d then (False, ''Allowed by override'')
      else if domain_override token_id (c_block s) d then (True, ''Blocked by override'')
      else if d \<in> c_domains s then (True, ''Blocked by threat intelligence'')
      else (case find (\<lambda>x. x \<in> c_domains s) (concat (map (\<lambda>parent. [parent, ''*.'' @ parent]) (parents_from 1 d))) of
              Some hit \<Rightarrow> (True, ''Blocked by threat intelligence ('' @ hit @ '')'')
            | None \<Rightarrow> (False, ''Not blocked'')))"

definition ip_in_range :: "('net, 'addr) ip_text \<Rightarrow> string \<Rightarrow> string \<Rightarrow> bool" where
  "ip_in_range L ip range_str =
     (case ip_address L ip of
        None \<Rightarrow> False
      | Some addr \<Rightarrow>
          (case ip_address L range_str of
             Some range_addr \<Rightarrow> addr = range_addr
           | None \<Rightarrow> (case ip_network L range_str of None \<Rightarrow> False | Some net \<Rightarrow> in_network L addr net)))"

definition ip_override :: "('net, 'addr) ip_text \<Rightarrow> nat option \<Rightarrow> override_id set \<Rightarrow> string \<Rightarrow> bool" where
  "ip_override L token_id ovs ip \<longleftrightarrow>
     token_id \<noteq> None \<and> token_id \<noteq> Some 0 \<and>
     (\<exists>(t, ind, ty)\<in>ovs. Some t = token_id \<and> ty = ''ip'' \<and> ip_in_range L ip ind)"

definition check_ip :: "('net, 'addr) ip_text \<Rightarrow> 'net ioc_mgr \<Rightarrow> string \<Rightarrow> nat option \<Rightarrow> bool \<times> string" where
  "check_ip L s ip_addr token_id =
     (let ip = mgr_normalize_ip L ip_addr in
      if ip_override L token_id (c_allow s) ip then (False, ''Allowed by override'')
      else if ip_override L token_id (c_block s) ip then (True, ''Blocked by override'')
      else if ip \<in> c_ips s then (True, ''Blocked by threat intelligence'')
      else (case find (\<lambda>net. case ip_address L ip of None \<Rightarrow> False | Some addr \<Rightarrow> in_network L addr net) (c_cidrs s) of
              Some net \<Rightarrow> (True, ''Blocked by threat intelligence (CIDR: '' @ net_str L net @ '')'')
            | None \<Rightarrow> (False, ''Not blocked'')))"

section \<open>Lemmas: normal forms\<close>

lemma mgr_normalize_ioc: "mgr_normalize_domain d = ioc_normalize d"
  by (auto simp: mgr_normalize_domain_def ioc_normalize_def py_lower_rstrip_dot)
    (simp add: py_strip_def py_rstrip_by_def py_lower_def py_rstrip_dot_def)

lemma strip_no_space: "list_all (\<lambda>c. \<not> py_isspace c) s \<Longrightarrow> py_strip s = s"
proof -
  assume s: "list_all (\<lambda>c. \<not> py_isspace c) s"
  have "dropWhile py_isspace t = t" if "list_all (\<lambda>c. \<not> py_isspace c) t" for t
    using that by (cases t) auto
  with s show ?thesis by (simp add: py_strip_def py_rstrip_by_def)
qed

lemma strip_last: "py_strip s = s \<Longrightarrow> s \<noteq> [] \<Longrightarrow> \<not> py_isspace (last s)"
proof -
  assume s: "py_strip s = s" "s \<noteq> []"
  have "\<not> py_isspace (last (rev (dropWhile py_isspace t)))" if "dropWhile py_isspace t \<noteq> []" for t
    using that hd_dropWhile [of py_isspace t] by (simp add: last_rev)
  with s show ?thesis by (metis py_rstrip_by_def py_strip_def rev_is_Nil_conv)
qed

lemma strip_strip [simp]: "py_strip (py_strip s) = py_strip s"
proof -
  have a: "dropWhile p (dropWhile p xs) = dropWhile p xs" for p :: "char \<Rightarrow> bool" and xs by (induction xs) auto
  have b: "dropWhile p (py_rstrip_by p xs) = py_rstrip_by p xs" if "dropWhile p xs = xs" for p and xs :: string
  proof (cases xs)
    case (Cons x ys)
    with that have "\<not> p x" by (metis dropWhile.simps(2) dropWhile_eq_self_iff list.distinct(1) list.sel(1))
    moreover have "prefix (py_rstrip_by p xs) xs"
      unfolding py_rstrip_by_def using suffix_dropWhile [of p "rev xs"] by (simp add: suffix_to_prefix)
    ultimately show ?thesis using Cons by (cases "py_rstrip_by p xs") (auto simp: prefix_Cons)
  qed (simp add: py_rstrip_by_def)
  show ?thesis unfolding py_strip_def using a b by simp
qed

lemma domain_char_lower: "domain_char c \<Longrightarrow> domain_char (lower_char c)"
  by (auto simp: domain_char_def lower_char_def Let_def of_char_of)

lemma domain_char_printable: "domain_char c \<Longrightarrow> \<not> py_isspace c \<and> c \<noteq> CHR ''*'' \<and> c \<noteq> CHR ''/''"
  by (auto simp: domain_char_def py_isspace_def Let_def)

lemma lower_char_sign:
  "lower_char c = CHR ''-'' \<longleftrightarrow> c = CHR ''-''" "lower_char c = CHR ''*'' \<longleftrightarrow> c = CHR ''*''"
proof -
  have "lower_char c = x \<longleftrightarrow> c = x" if "(of_char x :: nat) < 65" for x :: char
  proof
    assume l: "lower_char c = x"
    show "c = x"
    proof (cases "65 \<le> (of_char c :: nat) \<and> (of_char c :: nat) \<le> 90")
      case True
      with l have "char_of ((of_char c :: nat) + 32) = x" by (simp add: lower_char_def)
      then have "(of_char (char_of ((of_char c :: nat) + 32) :: char) :: nat) = of_char x" by simp
      with True that show ?thesis by (simp add: of_char_of)
    qed (use l in \<open>auto simp: lower_char_def\<close>)
  qed (use that in \<open>auto simp: lower_char_def\<close>)
  from this [of "CHR ''-''"] this [of "CHR ''*''"]
  show "lower_char c = CHR ''-'' \<longleftrightarrow> c = CHR ''-''" "lower_char c = CHR ''*'' \<longleftrightarrow> c = CHR ''*''" by simp_all
qed

lemma labels_lower: "labels (py_lower d) = map py_lower (labels d)"
proof (induction d)
  case (Cons x xs)
  obtain w ws where "py_split dot xs = w # ws" by (cases "py_split dot xs") auto
  with Cons show ?case by (auto simp: labels_def py_lower_def)
qed (simp add: labels_def py_lower_def)

text \<open>The body of a valid domain: without the wildcard mark, made of letters, digits, dots and hyphens.\<close>

definition domain_body :: "string \<Rightarrow> string" where
  "domain_body d = (if py_startswith d ''*.'' then drop 2 d else d)"

lemma domain_body_append: "\<exists>u. d = u @ domain_body d \<and> u \<in> {[], ''*.''}"
  by (auto simp: domain_body_def prefix_def)

lemma domain_body_lower: "domain_body (py_lower d) = py_lower (domain_body d)"
proof -
  have "prefix ''*.'' (py_lower d) \<longleftrightarrow> prefix ''*.'' d"
    by (cases d; cases "tl d")
      (auto simp: py_lower_def lower_char_sign eq_commute [of _ "lower_char _"])
  then show ?thesis by (simp add: domain_body_def py_lower_def drop_map)
qed

text \<open>A stripped valid domain, and hence every domain the parsers let through.\<close>

definition clean_domain :: "string \<Rightarrow> bool" where
  "clean_domain d \<longleftrightarrow> 4 \<le> length d \<and> length d \<le> 255 \<and> domain_body d \<noteq> [] \<and> list_all domain_char (domain_body d) \<and>
     dot \<in> set (domain_body d) \<and>
     list_all (\<lambda>part. part \<noteq> [] \<and> length part \<le> 63 \<and> hd part \<noteq> CHR ''-'' \<and> last part \<noteq> CHR ''-'') (labels (domain_body d))"

lemma hyphen_ends:
  "part \<noteq> [] \<Longrightarrow> \<not> py_startswith part ''-'' \<longleftrightarrow> hd part \<noteq> CHR ''-''"
  "part \<noteq> [] \<Longrightarrow> \<not> py_endswith part ''-'' \<longleftrightarrow> last part \<noteq> CHR ''-''"
  by (cases part; auto) (cases part rule: rev_cases; auto)

lemma clean_valid: "clean_domain d \<Longrightarrow> is_valid_domain d"
proof -
  assume c: "clean_domain d"
  then have "domain_body d \<noteq> []" "domain_char (last (domain_body d))" by (auto simp: clean_domain_def list_all_iff)
  then have "last (domain_body d) \<noteq> newline" by (auto simp: domain_char_def)
  with c show ?thesis
    by (auto simp: clean_domain_def is_valid_domain_def domain_chars_re_def domain_body_def [symmetric] Let_def
        list_all_iff hyphen_ends)
qed

lemma valid_clean:
  assumes "is_valid_domain d" "py_strip d = d"
  shows "clean_domain d"
proof -
  let ?b = "domain_body d"
  from assms(1) have v: "d \<noteq> []" "4 \<le> length d" "length d \<le> 255" "domain_chars_re ?b" "dot \<in> set ?b"
    "list_all (\<lambda>part. part \<noteq> [] \<and> length part \<le> 63 \<and> hd part \<noteq> CHR ''-'' \<and> last part \<noteq> CHR ''-'') (labels ?b)"
    by (auto simp: is_valid_domain_def domain_body_def [symmetric] Let_def list_all_iff hyphen_ends split: if_splits)
  have b: "?b \<noteq> []" using v(5) by auto
  then have "last ?b = last d" by (auto simp: domain_body_def last_drop split: if_splits)
  then have "last ?b \<noteq> newline" using strip_last [OF assms(2) v(1)] by (auto simp: py_isspace_def)
  with v(4) b have "list_all domain_char ?b" by (auto simp: domain_chars_re_def Let_def)
  with v b show ?thesis by (simp add: clean_domain_def)
qed

lemma clean_lower:
  assumes "clean_domain d"
  shows "clean_domain (py_lower d)"
proof -
  have "dot \<in> set (py_lower x)" if "dot \<in> set x" for x
    using that by (auto simp: py_lower_def image_iff intro: bexI [of _ dot] simp: lower_char_def)
  then show ?thesis
    using assms unfolding clean_domain_def domain_body_lower labels_lower
    by (auto simp: py_lower_def list_all_iff domain_char_lower hd_map last_map lower_char_sign)
qed

lemma clean_no_space: "clean_domain d \<Longrightarrow> list_all (\<lambda>c. \<not> py_isspace c) d"
proof -
  assume c: "clean_domain d"
  obtain u where u: "d = u @ domain_body d" "u \<in> {[], ''*.''}" using domain_body_append by blast
  have "list_all (\<lambda>c. \<not> py_isspace c) (u @ domain_body d)"
    using c u(2) domain_char_printable by (auto simp: clean_domain_def list_all_iff py_isspace_def)
  with u(1) show ?thesis by simp
qed

lemma clean_last: "clean_domain d \<Longrightarrow> last d \<noteq> dot"
proof -
  assume c: "clean_domain d"
  let ?b = "domain_body d"
  have "?b \<noteq> []" "[] \<notin> set (labels ?b)" using c by (auto simp: clean_domain_def list_all_iff)
  moreover from this have "last ?b \<noteq> dot" by (metis labels_last_char labels_not_Nil last_in_set)
  moreover have "last ?b = last d" using \<open>?b \<noteq> []\<close> by (auto simp: domain_body_def last_drop split: if_splits)
  ultimately show ?thesis by simp
qed

lemma normalize_clean: "clean_domain d \<Longrightarrow> mgr_normalize_domain d = py_lower d"
proof -
  assume c: "clean_domain d"
  then have "last (py_lower d) \<noteq> dot" using clean_last [OF clean_lower] by blast
  moreover have "d \<noteq> []" using c by (auto simp: clean_domain_def)
  ultimately show ?thesis
    by (simp add: mgr_normalize_domain_def strip_no_space [OF clean_no_space [OF c]] rstrip_dot_id)
qed

section \<open>Printing addresses\<close>

text \<open>
  What ingestion needs of \<^verbatim>\<open>ipaddress\<close>: the text of an address or network parses back to it, is not empty
  and has no space around it, an address is also a network, and the text of a network is no address.
\<close>

locale ip_printing =
  fixes L :: "('net, 'addr) ip_text"
  assumes empty_text: "ip_address L [] = None" "ip_network L [] = None"
    and addr_text: "ip_address L s = Some a \<Longrightarrow>
      ip_address L (addr_str L a) = Some a \<and> ip_network L (addr_str L a) \<noteq> None \<and> py_strip (addr_str L a) = addr_str L a"
    and net_text: "ip_network L s = Some n \<Longrightarrow>
      ip_network L (net_str L n) = Some n \<and> ip_address L (net_str L n) = None \<and> py_strip (net_str L n) = net_str L n"
begin

text \<open>Normalising a valid address or network gives a text that is valid, denotes a network and is normal.\<close>

lemma normalize_ip_valid:
  assumes "is_valid_ip L v" "py_strip v = v"
  shows "mgr_normalize_ip L (mgr_normalize_ip L v) = mgr_normalize_ip L v \<and> ip_network L (mgr_normalize_ip L v) \<noteq> None"
proof -
  have v: "v \<noteq> []" using assms(1) empty_text by (auto simp: is_valid_ip_def)
  show ?thesis
  proof (cases "ip_address L v")
    case (Some a)
    then have n: "mgr_normalize_ip L v = addr_str L a" using v assms(2) by (simp add: mgr_normalize_ip_def Let_def)
    have "addr_str L a \<noteq> []" using addr_text [OF Some] empty_text by auto
    then show ?thesis using addr_text [OF Some] by (simp add: n) (simp add: mgr_normalize_ip_def)
  next
    case None
    then obtain net where net: "ip_network L v = Some net" using assms(1) by (auto simp: is_valid_ip_def)
    then have n: "mgr_normalize_ip L v = net_str L net"
      using v assms(2) None by (simp add: mgr_normalize_ip_def Let_def)
    have "net_str L net \<noteq> []" using net_text [OF net] empty_text by auto
    then show ?thesis using net_text [OF net] by (simp add: n) (simp add: mgr_normalize_ip_def)
  qed
qed

end

lemma ipv4_str_chars: "c \<in> set (ipv4_str n) \<Longrightarrow> is_digit c \<or> c = dot"
  using dec_digits by (auto simp: ipv4_str_def list_all_iff)

lemma digit_printable: "is_digit c \<Longrightarrow> \<not> py_isspace c \<and> c \<noteq> CHR ''/''"
  by (auto simp: is_digit_def py_isspace_def Let_def)

lemma slash_free [simp]: "CHR ''/'' \<notin> set (ipv4_str n)" "CHR ''/'' \<notin> set (dec n)"
proof -
  show "CHR ''/'' \<notin> set (ipv4_str n)"
    using ipv4_str_chars [of "CHR ''/''" n] digit_printable [of "CHR ''/''"] by auto
  show "CHR ''/'' \<notin> set (dec n)"
    using dec_digits [of n] digit_printable [of "CHR ''/''"] by (auto simp: list_all_iff)
qed

lemma ipv4_network_str:
  assumes "a < 2 ^ 32" "k \<le> 32" "a div 2 ^ (32 - k) * 2 ^ (32 - k) = a"
  shows "ipv4_network (ipv4_str a @ ''/'' @ dec k) = Some (a, k)"
proof -
  have "py_split CHR ''/'' (ipv4_str a @ ''/'' @ dec k) = [ipv4_str a, dec k]"
    using py_split_append_sep [of "CHR ''/''" "ipv4_str a" "dec k"] by (simp add: py_split_single)
  moreover have "ipv4_prefix (dec k) = Some k" using assms(2) dec_digits [of k] by (simp add: ipv4_prefix_def)
  ultimately show ?thesis using assms(3) ipv4_parse_str [OF assms(1)] by (simp add: ipv4_network_def)
qed

lemma ipv4_network_form:
  "ipv4_network s = Some (a, k) \<Longrightarrow> a < 2 ^ 32 \<and> k \<le> 32 \<and> a div 2 ^ (32 - k) * 2 ^ (32 - k) = a"
proof -
  assume n: "ipv4_network s = Some (a, k)"
  then have "k \<le> 32 \<and> a div 2 ^ (32 - k) * 2 ^ (32 - k) = a"
    by (auto simp: ipv4_network_def ipv4_prefix_def split: list.splits option.splits if_splits)
  with ipv4_network_bound [OF n] show ?thesis by simp
qed

lemma strip_ipv4_text: "list_all (\<lambda>c. is_digit c \<or> c = dot \<or> c = CHR ''/'') s \<Longrightarrow> py_strip s = s"
  by (rule strip_no_space) (auto simp: list_all_iff is_digit_def py_isspace_def Let_def)

interpretation ip4t: ip_printing ipv4_text
proof
  show "ip_address ipv4_text [] = None" "ip_network ipv4_text [] = None" by code_simp+
next
  fix s a assume "ip_address ipv4_text s = Some a"
  then have a: "a < 2 ^ 32"
    by (intro ipv4_parse_bound [of s]) (simp add: ipv4_text_def ip_lib.defs ipv4_lib_def)
  have "py_strip (ipv4_str a) = ipv4_str a"
    by (rule strip_ipv4_text) (use ipv4_str_chars in \<open>auto simp: list_all_iff\<close>)
  moreover have "ipv4_network (ipv4_str a) = Some (a, 32)"
    using ipv4_parse_str [OF a] by (simp add: ipv4_network_def py_split_single)
  ultimately show "ip_address ipv4_text (addr_str ipv4_text a) = Some a \<and> ip_network ipv4_text (addr_str ipv4_text a) \<noteq> None \<and>
      py_strip (addr_str ipv4_text a) = addr_str ipv4_text a"
    using ipv4_parse_str [OF a] by (simp add: ipv4_text_def ip_lib.defs ipv4_lib_def)
next
  fix s n assume n: "ip_network ipv4_text s = Some n"
  obtain a k where ak: "n = (a, k)" by (cases n)
  have f: "a < 2 ^ 32" "k \<le> 32" "a div 2 ^ (32 - k) * 2 ^ (32 - k) = a"
    using n ak ipv4_network_form by (auto simp: ipv4_text_def ip_lib.defs ipv4_lib_def)
  have "ipv4_parse (ipv4_str a @ ''/'' @ dec k) = None"
    by (metis ipv4_parse_iff append_Cons in_set_conv_decomp option.exhaust slash_free(1))
  moreover have "py_strip (ipv4_str a @ ''/'' @ dec k) = ipv4_str a @ ''/'' @ dec k"
    by (rule strip_ipv4_text) (use ipv4_str_chars dec_digits [of k] in \<open>auto simp: list_all_iff\<close>)
  ultimately show "ip_network ipv4_text (net_str ipv4_text n) = Some n \<and> ip_address ipv4_text (net_str ipv4_text n) = None \<and>
      py_strip (net_str ipv4_text n) = net_str ipv4_text n"
    using ipv4_network_str [OF f] by (simp add: ak ipv4_text_def ip_lib.defs ipv4_lib_def)
qed

section \<open>What the parsers let through\<close>

text \<open>A stored indicator: a valid domain in lower case, or the normal text of a network, under its own type.\<close>

definition typed_indicator :: "('net, 'addr) ip_text \<Rightarrow> string \<Rightarrow> string \<Rightarrow> bool" where
  "typed_indicator L ty v \<longleftrightarrow>
     ty = ''domain'' \<and> clean_domain v \<and> py_lower v = v \<or>
     ty = ''ip'' \<and> mgr_normalize_ip L v = v \<and> ip_network L v \<noteq> None"

lemma typed_domain:
  "\<lbrakk> is_valid_domain v; py_strip v = v \<rbrakk> \<Longrightarrow> typed_indicator L ''domain'' (mgr_normalize_domain v)"
  by (simp add: typed_indicator_def valid_clean normalize_clean clean_lower)

lemma set_collect: "x \<in> set (collect f xs) \<Longrightarrow> \<exists>y\<in>set xs. \<exists>ys. f y = Some ys \<and> x \<in> set ys"
  by (induction xs) (auto split: option.splits)

context ip_printing
begin

lemma typed_ip: "\<lbrakk> is_valid_ip L v; py_strip v = v \<rbrakk> \<Longrightarrow> typed_indicator L ''ip'' (mgr_normalize_ip L v)"
  using normalize_ip_valid [of v] by (simp add: typed_indicator_def)

lemma typed_classify:
  "\<lbrakk> classify L v = Some (t, x); py_strip v = v \<rbrakk> \<Longrightarrow> typed_indicator L t x"
  "\<lbrakk> classify_as L ''domain'' v = Some (t, x); py_strip v = v \<rbrakk> \<Longrightarrow> typed_indicator L t x"
  "\<lbrakk> classify_as L ''ip'' v = Some (t, x); py_strip v = v \<rbrakk> \<Longrightarrow> typed_indicator L t x"
  by (auto simp: classify_def classify_as_def typed_domain typed_ip split: if_splits)

lemma parse_text_typed:
  "i \<in> set (parse_text_feed L feed_ty cs content) \<Longrightarrow> typed_indicator L (in_type i) (in_value i)"
  by (auto simp: parse_text_feed_def parse_text_line_def Let_def typed_domain typed_ip split: if_splits)

lemma csv_value_strip: "csv_value row = Some v \<Longrightarrow> py_strip v = v"
  by (auto simp: csv_value_def)

lemma parse_csv_row_typed:
  assumes "parse_csv_row L feed_ty row = Some is" "i \<in> set is"
  shows "typed_indicator L (in_type i) (in_value i)"
proof -
  define ty where "ty = (let typed = feed_ty = ''mixed'' \<and> map_of row ''type'' \<noteq> None;
      row_type = (if typed then py_lower (py_strip (the (cell row ''type''))) else [])
    in if row_type \<in> {''domain'', ''ip''} then Some row_type else None)"
  obtain v where v: "csv_value row = Some v" "v \<noteq> []"
    and c: "(case ty of None \<Rightarrow> classify L v | Some t \<Rightarrow> classify_as L t v) = Some (in_type i, in_value i)"
    using assms by (auto simp: parse_csv_row_def ty_def Let_def split: if_splits option.splits prod.splits)
  have s: "py_strip v = v" using v(1) by (rule csv_value_strip)
  have "ty \<in> {None, Some ''domain'', Some ''ip''}" by (auto simp: ty_def Let_def)
  then show ?thesis using c s typed_classify by (auto split: option.splits)
qed

lemma parse_json_item_typed:
  assumes "parse_json_item L feed_ty item = Some is" "i \<in> set is"
  shows "typed_indicator L (in_type i) (in_value i)"
proof -
  obtain kvs where item: "item = JObj kvs" using assms by (cases item) (auto simp: parse_json_item_def)
  define given where "given = (if feed_ty = ''mixed'' \<and> map_of kvs ''type'' \<noteq> None
      then map_option (\<lambda>t. py_lower (py_strip t)) (json_str (json_get kvs ''type'')) else None)"
  define ty where "ty = (if given \<in> {Some ''domain'', Some ''ip''} then given else None)"
  obtain v where c: "(case ty of None \<Rightarrow> classify L (py_strip v) | Some t \<Rightarrow> classify_as L t (py_strip v)) =
      Some (in_type i, in_value i)"
    using assms unfolding item parse_json_item_def
    by (auto simp: ty_def given_def Let_def Option.bind_eq_Some_conv map_option_case
        split: if_splits option.splits prod.splits)
  have "ty \<in> {None, Some ''domain'', Some ''ip''}" by (auto simp: ty_def)
  then show ?thesis using c strip_strip typed_classify by (auto split: option.splits)
qed

lemma parse_feed_typed:
  assumes "parse_feed_content L D content feed_ty format_type = Inr is" "i \<in> set is"
  shows "typed_indicator L (in_type i) (in_value i)"
  using assms
  by (auto simp: parse_feed_content_def parse_csv_feed_def parse_json_feed_def parse_xml_feed_def parse_xml_elem_def
      parse_text_typed parse_csv_row_typed parse_json_item_typed typed_classify(1)
      dest!: set_collect split: if_splits option.splits)

end

section \<open>Histories of one instance\<close>

text \<open>An instance over empty tables, and every state its operations lead to, at any times and with any answers of the network.\<close>

definition ioc_mgr_init :: "'net ioc_mgr" where
  "ioc_mgr_init = \<lparr> mfeeds = [], mentries = [], moverrides = [], feed_seq = 1, entry_seq = 1, c_domains = {},
     c_ips = {}, c_cidrs = [], c_allow = {}, c_block = {}, c_expiry = Map.empty \<rparr>"

inductive ioc_reach :: "('net, 'addr) ip_text \<Rightarrow> decoders \<Rightarrow> 'net ioc_mgr \<Rightarrow> bool" for L D where
  init: "ioc_reach L D ioc_mgr_init"
| content: "ioc_reach L D s \<Longrightarrow>
    ioc_reach L D (snd (update_feed_from_content L D license interval now name text ty fmt s))"
| register: "ioc_reach L D s \<Longrightarrow> ioc_reach L D (snd (register_feed license name url ty fmt interval en s))"
| update_all: "ioc_reach L D s \<Longrightarrow> ioc_reach L D (snd (update_all_feeds L D F now s))"
| enable: "ioc_reach L D s \<Longrightarrow> ioc_reach L D (set_feed_enabled fid en s)"
| defaults: "ioc_reach L D s \<Longrightarrow> ioc_reach L D (initialize_default_feeds s)"
| cleanup: "ioc_reach L D s \<Longrightarrow> ioc_reach L D (snd (cleanup_old_indicators L now days s))"
| add_ov: "ioc_reach L D s \<Longrightarrow> ioc_reach L D (add_override L now tok raw ty kind reason by_whom ex s)"
| remove_ov: "ioc_reach L D s \<Longrightarrow> ioc_reach L D (remove_override L now tok raw ty s)"

text \<open>
  The invariant of the tables: feeds have distinct ids and names, entries belong to a feed and are typed;
  and of the caches: they file every entry of the tables.
\<close>

definition tables_ok :: "('net, 'addr) ip_text \<Rightarrow> 'net ioc_mgr \<Rightarrow> bool" where
  "tables_ok L s \<longleftrightarrow>
     distinct (map mf_id (mfeeds s)) \<and> distinct (map mf_name (mfeeds s)) \<and>
     (\<forall>f\<in>set (mfeeds s). mf_id f < feed_seq s) \<and>
     (\<forall>e\<in>set (mentries s). me_feed_id e \<in> mf_id ` set (mfeeds s) \<and> typed_indicator L (me_type e) (me_indicator e))"

definition caches_ok :: "('net, 'addr) ip_text \<Rightarrow> 'net ioc_mgr \<Rightarrow> bool" where
  "caches_ok L s \<longleftrightarrow>
     c_domains s = {me_indicator e | e. e \<in> set (mentries s) \<and> me_type e = ''domain''} \<and>
     c_ips s = {me_indicator e | e. e \<in> set (mentries s) \<and> me_type e = ''ip'' \<and> ip_network L (me_indicator e) = None} \<and>
     set (c_cidrs s) = {n. \<exists>e\<in>set (mentries s). me_type e = ''ip'' \<and> ip_network L (me_indicator e) = Some n}"

lemma load_overrides_fields [simp]:
  "mfeeds (load_overrides now s) = mfeeds s" "mentries (load_overrides now s) = mentries s"
  "moverrides (load_overrides now s) = moverrides s" "feed_seq (load_overrides now s) = feed_seq s"
  "c_domains (load_overrides now s) = c_domains s" "c_ips (load_overrides now s) = c_ips s"
  "c_cidrs (load_overrides now s) = c_cidrs s"
  by (simp_all add: load_overrides_def Let_def)

lemma rebuild_cache_fields [simp]:
  "mfeeds (rebuild_cache L now s) = mfeeds s" "mentries (rebuild_cache L now s) = mentries s"
  "moverrides (rebuild_cache L now s) = moverrides s" "feed_seq (rebuild_cache L now s) = feed_seq s"
  by (simp_all add: rebuild_cache_def Let_def)

lemma set_map_filter: "set (List.map_filter f xs) = {y. \<exists>x\<in>set xs. f x = Some y}"
  by (induction xs) (auto simp: List.map_filter_simps split: option.splits)

lemma rebuild_caches_ok [simp]: "caches_ok L (rebuild_cache L now s)"
  by (auto simp: caches_ok_def rebuild_cache_def Let_def set_map_filter)

lemma insert_entries_fields:
  "mfeeds (insert_entries fid fmt now inds s) = mfeeds s"
  "feed_seq (insert_entries fid fmt now inds s) = feed_seq s"
  by (induction inds arbitrary: s) (simp_all add: insert_entries_def insert_entry_def)

lemma insert_entries_set:
  "e \<in> set (mentries (insert_entries fid fmt now inds s)) \<Longrightarrow>
     e \<in> set (mentries s) \<or> (me_feed_id e = fid \<and> (\<exists>i\<in>set inds. me_type e = in_type i \<and> me_indicator e = in_value i))"
proof (induction inds arbitrary: s)
  case (Cons i inds)
  then have "e \<in> set (mentries (insert_entries fid fmt now inds (insert_entry fid fmt now i s)))"
    by (simp add: insert_entries_def)
  from Cons.IH [OF this] show ?case by (auto simp: insert_entry_def)
qed (simp add: insert_entries_def)

lemma tables_ok_rebuild [simp]: "tables_ok L (rebuild_cache L now s) = tables_ok L s"
  by (simp add: tables_ok_def)

lemma tables_ok_load [simp]: "tables_ok L (load_overrides now s) = tables_ok L s"
  by (simp add: tables_ok_def)

lemma tables_ok_insert_feed:
  assumes "tables_ok L s" "find_feed name s = None" "insert_feed name url ty fmt en interval s = (fid, s')"
  shows "tables_ok L s' \<and> fid \<in> mf_id ` set (mfeeds s') \<and> mentries s' = mentries s"
  using assms less_SucI
  by (fastforce simp: tables_ok_def insert_feed_def new_feed_def find_feed_def find_None_iff)

lemma tables_ok_delete: "tables_ok L s \<Longrightarrow> tables_ok L (delete_entries fid s) \<and> mfeeds (delete_entries fid s) = mfeeds s"
  by (auto simp: tables_ok_def delete_entries_def)

lemma tables_ok_insert_entries:
  assumes "tables_ok L s" "fid \<in> mf_id ` set (mfeeds s)" "\<And>i. i \<in> set inds \<Longrightarrow> typed_indicator L (in_type i) (in_value i)"
  shows "tables_ok L (insert_entries fid fmt now inds s)"
  using assms insert_entries_set [of _ fid fmt now inds s]
  unfolding tables_ok_def insert_entries_fields by fastforce

lemma tables_ok_map_feed:
  assumes "\<And>f. mf_id (g f) = mf_id f \<and> mf_name (g f) = mf_name f"
  shows "tables_ok L (s\<lparr> mfeeds := map g (mfeeds s) \<rparr>) = tables_ok L s"
  using assms by (simp add: tables_ok_def comp_def image_image)

text \<open>Inserting a missing default feed keeps the tables well formed and touches neither entries nor caches.\<close>

lemma ensure_feed_ok: "tables_ok L s \<Longrightarrow> tables_ok L (ensure_feed f s)"
  using tables_ok_insert_feed [of L s "fst f"] by (cases f) (auto simp: ensure_feed_def insert_feed_def)

lemma ensure_feed_caches: "caches_ok L (ensure_feed f s) = caches_ok L s"
  by (cases f) (simp add: ensure_feed_def insert_feed_def caches_ok_def)

lemma ensure_feeds_ok: "tables_ok L s \<Longrightarrow> tables_ok L (fold ensure_feed fs s)"
  by (induction fs arbitrary: s) (simp_all add: ensure_feed_ok)

lemma ensure_feeds_caches: "caches_ok L (fold ensure_feed fs s) = caches_ok L s"
  by (induction fs arbitrary: s) (simp_all add: ensure_feed_caches)

context ip_printing
begin

lemma content_ok:
  assumes "tables_ok L s"
  shows "tables_ok L (snd (update_feed_from_content L D license interval now name text ty fmt s))"
proof (cases "is_format_licensed license fmt")
  case lic: True
  show ?thesis
  proof (cases "parse_feed_content L D text ty fmt")
    case (Inr inds)
    define r where "r = (case find_feed name s of None \<Rightarrow> insert_feed name [] ty fmt True interval s
                         | Some f \<Rightarrow> (mf_id f, delete_entries (mf_id f) s))"
    obtain fid s1 where r: "r = (fid, s1)" by (cases r)
    have "tables_ok L s1 \<and> fid \<in> mf_id ` set (mfeeds s1)"
    proof (cases "find_feed name s")
      case None
      then show ?thesis using tables_ok_insert_feed [OF assms None] r by (simp add: r_def)
    next
      case (Some f)
      then have "f \<in> set (mfeeds s)" by (auto simp: find_feed_def find_Some_iff)
      then show ?thesis using Some r tables_ok_delete [OF assms, of "mf_id f"] by (auto simp: r_def)
    qed
    then have "tables_ok L (insert_entries fid (Some fmt) now inds s1)"
      using parse_feed_typed [OF Inr] by (blast intro: tables_ok_insert_entries)
    then show ?thesis
      using lic Inr r assms by (simp add: update_feed_from_content_def r_def)
  qed (use lic assms in \<open>simp add: update_feed_from_content_def\<close>)
qed (use assms in \<open>simp add: update_feed_from_content_def\<close>)

lemma single_feed_ok:
  assumes "tables_ok L s" "mf_id f \<in> mf_id ` set (mfeeds s)" "update_single_feed L D F now f s = Inr s'"
  shows "tables_ok L s' \<and> mf_id ` set (mfeeds s') = mf_id ` set (mfeeds s)"
proof -
  obtain content inds fmt where p: "parse_feed_content L D content (mf_type f) fmt = Inr inds"
    and s': "s' = (insert_entries (mf_id f) (mf_format f) now inds (delete_entries (mf_id f) s))\<lparr> mfeeds := map (\<lambda>g.
        if mf_id g = mf_id f
        then g\<lparr> mf_last_updated := Some now, mf_last_success := Some now, mf_entry_count := length inds \<rparr> else g)
        (mfeeds (insert_entries (mf_id f) (mf_format f) now inds (delete_entries (mf_id f) s))) \<rparr>"
    using assms(3) by (auto simp: update_single_feed_def Let_def split: if_splits option.splits sum.splits)
  let ?s1 = "insert_entries (mf_id f) (mf_format f) now inds (delete_entries (mf_id f) s)"
  have "tables_ok L ?s1"
    using tables_ok_delete [OF assms(1), of "mf_id f"] assms(2) parse_feed_typed [OF p]
    by (auto intro: tables_ok_insert_entries)
  moreover have "mfeeds ?s1 = mfeeds s" using tables_ok_delete [OF assms(1)] by (simp add: insert_entries_fields)
  moreover have "tables_ok L s' = tables_ok L ?s1" unfolding s' by (rule tables_ok_map_feed) simp
  moreover have "map mf_id (mfeeds s') = map mf_id (mfeeds ?s1)" unfolding s' by simp
  then have "mf_id ` set (mfeeds s') = mf_id ` set (mfeeds ?s1)" by (metis list.set_map)
  ultimately show ?thesis by simp
qed

lemma update_fold_ok:
  assumes "tables_ok L s" "mf_id ` set fs \<subseteq> mf_id ` set (mfeeds s)"
  shows "tables_ok L (snd (fold (update_one L D F now) fs (c, s)))"
  using assms
proof (induction fs arbitrary: c s)
  case (Cons f fs)
  obtain c' s' where u: "update_one L D F now f (c, s) = (c', s')" by fastforce
  have "s' = s \<or> update_single_feed L D F now f s = Inr s'"
    using u by (auto simp: update_one_def split: if_splits sum.splits)
  then have k: "tables_ok L s' \<and> mf_id ` set (mfeeds s') = mf_id ` set (mfeeds s)"
  proof
    assume "update_single_feed L D F now f s = Inr s'"
    then show ?thesis using Cons.prems by (intro single_feed_ok) simp_all
  qed (use Cons.prems in simp)
  then have "mf_id ` set fs \<subseteq> mf_id ` set (mfeeds s')" using Cons.prems(2) by simp
  with Cons.IH [of s' c'] k u show ?case by simp
qed simp

lemma update_all_ok: "tables_ok L s \<Longrightarrow> tables_ok L (snd (update_all_feeds L D F now s))"
  using update_fold_ok [of s "filter mf_enabled (mfeeds s)" D F now "\<lparr> uc_updated = 0, uc_skipped = 0, uc_failed = 0 \<rparr>"]
  by (auto simp: update_all_feeds_def image_mono split: prod.splits)

lemma register_ok: "tables_ok L s \<Longrightarrow> tables_ok L (snd (register_feed license name url ty fmt interval en s))"
  using tables_ok_insert_feed [of L s name url ty fmt en interval]
  by (auto simp: register_feed_def split: option.splits prod.splits)

text \<open>Every reachable state has well-formed tables.\<close>

lemma reach_tables: "ioc_reach L D s \<Longrightarrow> tables_ok L s"
proof (induction rule: ioc_reach.induct)
  case init
  show ?case by (simp add: tables_ok_def ioc_mgr_init_def)
next
  case (enable s fid en)
  then show ?case by (simp add: set_feed_enabled_def tables_ok_map_feed)
next
  case (defaults s)
  then show ?case by (simp add: initialize_default_feeds_def ensure_feeds_ok)
next
  case (cleanup s now days)
  then show ?case by (auto simp: cleanup_old_indicators_def Let_def tables_ok_def)
next
  case (add_ov s now tok raw ty kind reason by_whom ex)
  then show ?case by (simp add: add_override_def Let_def) (simp add: tables_ok_def)
next
  case (remove_ov s now tok raw ty)
  then show ?case by (simp add: remove_override_def) (simp add: tables_ok_def)
qed (simp_all add: content_ok register_ok update_all_ok)

end

lemma insert_feed_caches: "insert_feed name url ty fmt en interval s = (fid, s') \<Longrightarrow>
    caches_ok L s' = caches_ok L s \<and> mentries s' = mentries s"
  by (auto simp: insert_feed_def caches_ok_def)

text \<open>The caches of a reachable state file its tables: only operations that rebuild them change entries.\<close>

lemma reach_caches: "ioc_reach L D s \<Longrightarrow> caches_ok L s"
proof (induction rule: ioc_reach.induct)
  case init
  show ?case by (simp add: caches_ok_def ioc_mgr_init_def)
next
  case (content s license interval now name body ty fmt)
  then show ?case by (auto simp: update_feed_from_content_def Let_def split: sum.splits prod.splits)
next
  case (register s license name url ty fmt interval en)
  then show ?case
    by (auto simp: register_feed_def split: option.splits prod.splits dest: insert_feed_caches [where L = L])
next
  case (update_all s F now)
  then show ?case by (simp add: update_all_feeds_def split: prod.splits)
next
  case (cleanup s now days)
  then show ?case by (simp add: cleanup_old_indicators_def Let_def)
next
  case (defaults s)
  then show ?case by (simp add: initialize_default_feeds_def ensure_feeds_caches)
qed (simp_all add: set_feed_enabled_def caches_ok_def add_override_def remove_override_def Let_def)

section \<open>Lemmas: the checks\<close>

lemma domain_override_None [simp]: "\<not> domain_override None ovs d"
  by (simp add: domain_override_def)

lemma ip_override_None [simp]: "\<not> ip_override L None ovs d"
  by (simp add: ip_override_def)

text \<open>Without a token, a domain is blocked by an entry that is it or a parent, or a wildcard entry strictly above it.\<close>

lemma check_domain_feeds:
  "fst (check_domain s d None) \<longleftrightarrow>
     (\<exists>x\<in>c_domains s. in_zone x (mgr_normalize_domain d) \<or>
        (\<exists>p. x = ''*.'' @ p \<and> in_zone p (mgr_normalize_domain d) \<and> p \<noteq> mgr_normalize_domain d))"
proof -
  let ?d = "mgr_normalize_domain d"
  let ?c = "concat (map (\<lambda>parent. [parent, ''*.'' @ parent]) (parents_from 1 ?d))"
  have c: "set ?c = {p. in_zone p ?d \<and> p \<noteq> ?d} \<union> {''*.'' @ p | p. in_zone p ?d \<and> p \<noteq> ?d}"
    using set_parents_1 [of ?d] by auto
  have f: "find (\<lambda>x. x \<in> c_domains s) xs \<noteq> None \<longleftrightarrow> (\<exists>x\<in>set xs. x \<in> c_domains s)" for xs
    by (auto simp: find_None_iff)
  have "fst (check_domain s d None) \<longleftrightarrow> ?d \<in> c_domains s \<or> find (\<lambda>x. x \<in> c_domains s) ?c \<noteq> None"
    unfolding check_domain_def Let_def by (cases "find (\<lambda>x. x \<in> c_domains s) ?c") simp_all
  also have "\<dots> \<longleftrightarrow> ?d \<in> c_domains s \<or> (\<exists>x\<in>set ?c. x \<in> c_domains s)" unfolding f ..
  also have "\<dots> \<longleftrightarrow> (\<exists>x\<in>c_domains s. x = ?d \<or> x \<in> set ?c)" by blast
  also have "\<dots> \<longleftrightarrow> (\<exists>x\<in>c_domains s. in_zone x ?d \<or> (\<exists>p. x = ''*.'' @ p \<and> in_zone p ?d \<and> p \<noteq> ?d))"
    unfolding c using in_zone_refl by blast
  finally show ?thesis .
qed

lemma digit_not_hyphen: "is_digit c \<Longrightarrow> c \<noteq> CHR ''-''"
  by (auto simp: is_digit_def)

lemma digit_domain_char: "is_digit c \<Longrightarrow> domain_char c \<and> lower_char c = c"
  by (auto simp: is_digit_def domain_char_def lower_char_def Let_def)

lemma dotted_quad_clean:
  assumes w: "list_all (\<lambda>k. k < 256) ks" "length ks = 4"
  shows "clean_domain (py_join dot (map dec ks)) \<and> py_lower (py_join dot (map dec ks)) = py_join dot (map dec ks)"
proof -
  obtain k1 k2 k3 k4 where ks: "ks = [k1, k2, k3, k4]" using w(2) by (auto simp: length_Suc_conv numeral_eq_Suc)
  let ?a = "py_join dot (map dec ks)"
  have part: "length (dec k) \<le> 3 \<and> 1 \<le> length (dec k)" if h: "k \<in> set ks" for k
    using dec_length_octet [of k] w(1) h by (auto simp: list_all_iff Suc_le_eq)
  have dig: "is_digit (hd (dec k))" "is_digit (last (dec k))" for k
    using dec_digits [of k] by (simp_all add: list_all_iff)
  have chars: "c = dot \<or> is_digit c" if "c \<in> set ?a" for c
    using that dec_digits by (auto simp: ks list_all_iff)
  have star: "CHR ''*'' \<notin> set ?a" using chars [of "CHR ''*''"] by (auto simp: is_digit_def)
  have b: "domain_body ?a = ?a" using star by (auto simp: domain_body_def prefix_def)
  have l: "labels ?a = map dec ks" unfolding labels_def by (rule py_split_join) (auto simp: ks)
  have "length ?a = length (dec k1) + length (dec k2) + length (dec k3) + length (dec k4) + 3" by (simp add: ks)
  then have "4 \<le> length ?a \<and> length ?a \<le> 255"
    using part [of k1] part [of k2] part [of k3] part [of k4] by (simp add: ks)
  moreover have "list_all (\<lambda>q. q \<noteq> [] \<and> length q \<le> 63 \<and> hd q \<noteq> CHR ''-'' \<and> last q \<noteq> CHR ''-'') (map dec ks)"
    using part dig digit_not_hyphen by (fastforce simp: list_all_iff)
  moreover have "list_all domain_char ?a"
    using chars digit_domain_char by (force simp: list_all_iff domain_char_def)
  moreover have "dot \<in> set ?a" by (simp add: ks)
  ultimately have "clean_domain ?a" unfolding clean_domain_def b l by auto
  moreover have "lower_char c = c" if "c \<in> set ?a" for c
    using chars [OF that] digit_domain_char [of c] lower_char_dot [of c] by auto
  then have "py_lower ?a = ?a" by (simp add: py_lower_def map_idI)
  ultimately show ?thesis ..
qed

lemma ipv4_clean: "ipv4_parse a = Some n \<Longrightarrow> clean_domain a \<and> py_lower a = a \<and> py_strip a = a"
proof -
  assume "ipv4_parse a = Some n"
  then have "a = py_join dot (map dec
      [n div 256 div 256 div 256 mod 256, n div 256 div 256 mod 256, n div 256 mod 256, n mod 256])"
    unfolding ipv4_parse_iff ipv4_str_def by (simp only: list.map)
  then have "clean_domain a \<and> py_lower a = a" by (simp only:) (rule dotted_quad_clean, simp_all)
  then show ?thesis using clean_no_space strip_no_space by blast
qed

lemma ipv4_classified: "ipv4_parse a = Some n \<Longrightarrow> classify L a = Some (''domain'', a)"
  using ipv4_clean [of a n] by (simp add: classify_def clean_valid normalize_clean)

section \<open>Properties\<close>

text \<open>
  C14. In every state an instance reaches from empty tables, by any history of uploads, registrations,
  refreshes, cleanups and overrides, feeds have distinct ids and names, every entry belongs to a feed
  and is stored under its type in normal form (a valid lower-case domain or the text of a network), and
  the caches the checks read hold exactly the entries of the tables.
\<close>

theorem ingestion_invariant:
  assumes "ioc_reach ipv4_text D s"
  shows "tables_ok ipv4_text s \<and> caches_ok ipv4_text s"
  using ip4t.reach_tables [OF assms] reach_caches [OF assms] ..

definition demo_decoders :: decoders where
  "demo_decoders = \<lparr> csv_rows = (\<lambda>_. None),
     json_loads = (\<lambda>_. Some (JList [JObj [(''indicator'', JStr ''0.0.0.9'')]])), xml_elems = (\<lambda>_. None) \<rparr>"

theorem ingestion_invariant_witness:
  "tables_ok ipv4_text (snd (update_feed_from_content ipv4_text demo_decoders None 6 0 ''f'' ''Evil.Example''
       ''domain'' ''txt'' ioc_mgr_init)) \<and>
   mentries (snd (update_feed_from_content ipv4_text demo_decoders None 6 0 ''f'' ''Evil.Example''
       ''domain'' ''txt'' ioc_mgr_init)) =
     [\<lparr> me_id = 1, me_feed_id = 1, me_indicator = ''evil.example'', me_type = ''domain'', me_threat = JStr ''malware'',
        me_confidence = 75, me_format = Some ''txt'', me_created = 0, me_updated = None \<rparr>]"
  using ingestion_invariant [OF ioc_reach.content [OF ioc_reach.init], of demo_decoders None 6 0 "''f''" "''Evil.Example''"
      "''domain''" "''txt''"]
  by (rule conjI [OF conjunct1]) code_simp

text \<open>
  An IPv4 address in a feed that does not give types is never enforced as an address by the Manager:
  the domain test accepts dotted decimal, so an address from a mixed JSON feed is filed as a domain,
  the upload reports success, and the address check does not block it.
\<close>

theorem untyped_address_not_blocked:
  assumes "ipv4_parse a = Some n" "json_loads D content = Some (JList [JObj [(''indicator'', JStr a)]])"
  shows "case update_feed_from_content ipv4_text D license interval now name content ''mixed'' ''json'' ioc_mgr_init of
     (r, s) \<Rightarrow> r = Added 1 \<and> map me_type (mentries s) = [''domain''] \<and> map me_indicator (mentries s) = [a] \<and>
       check_ip ipv4_text s a token_id = (False, ''Not blocked'')"
proof -
  have a: "a \<noteq> []" "py_strip a = a" using assms(1) ipv4_clean [OF assms(1)] by (auto simp: clean_domain_def)
  let ?i = "\<lparr> in_value = a, in_type = ''domain'', in_threat = JStr ''unknown'', in_confidence = 50, in_description = JNull \<rparr>"
  have "parse_json_item ipv4_text ''mixed'' (JObj [(''indicator'', JStr a)]) = Some [?i]"
    using a ipv4_classified [OF assms(1), of ipv4_text]
    by (simp add: parse_json_item_def json_get_def json_str_def json_int_def Let_def)
  then have p: "parse_feed_content ipv4_text D content ''mixed'' ''json'' = Inr [?i]"
    using assms(2) by (simp add: parse_feed_content_def parse_json_feed_def json_items_def)
  have l: "is_format_licensed license ''json''" by code_simp
  show ?thesis
    by (simp add: update_feed_from_content_def p l find_feed_def insert_feed_def ioc_mgr_init_def insert_entries_def
        insert_entry_def check_ip_def rebuild_cache_def load_overrides_def ip_override_def List.map_filter_simps Let_def)
qed

theorem untyped_address_not_blocked_witness:
  "check_ip ipv4_text (snd (update_feed_from_content ipv4_text demo_decoders None 6 0 ''f'' ''text'' ''mixed'' ''json''
      ioc_mgr_init)) ''0.0.0.9'' None = (False, ''Not blocked'')"
proof -
  have "json_loads demo_decoders ''text'' = Some (JList [JObj [(''indicator'', JStr ''0.0.0.9'')]])"
    by (simp add: demo_decoders_def)
  moreover have "ipv4_parse ''0.0.0.9'' = Some 9" by code_simp
  ultimately show ?thesis
    using untyped_address_not_blocked [of "''0.0.0.9''" 9 demo_decoders "''text''" None None 6 0 "''f''"]
    by (auto split: prod.splits)
qed

text \<open>
  An override outlives its expiry: once an allow override with an expiry is added, the domain passes
  the check for that token, whatever the feeds say, also when at a later time the list of active
  overrides no longer shows it, because the check reads the loaded set and never the time.
\<close>

theorem expired_override_still_allows:
  assumes "0 < tok" "now \<le> t" "t < later"
    and "s' = add_override L now tok d ''domain'' ''allow'' reason by_whom (Some t) s"
  shows "check_domain s' d (Some tok) = (False, ''Allowed by override'') \<and>
    (tok, mgr_normalize_domain d, ''domain'') \<notin> override_key ` set (get_overrides later tok s')"
proof -
  let ?k = "(tok, mgr_normalize_domain d, ''domain'')"
  let ?row = "\<lparr> mo_token = tok, mo_indicator = mgr_normalize_domain d, mo_type = ''domain'', mo_kind = ''allow'',
     mo_reason = reason, mo_created_by = by_whom, mo_created = now, mo_expires = Some t \<rparr>"
  have rows: "?row \<in> set (moverrides s') \<and> (\<forall>ov\<in>set (moverrides s'). override_key ov = ?k \<longrightarrow> ov = ?row)"
    using assms(4) by (auto simp: add_override_def normalize_indicator_def Let_def list_ex_iff override_key_def image_iff)
  have s': "s' = load_overrides now s'" using assms(4) by (simp add: add_override_def Let_def load_overrides_def)
  have "?row \<in> set (filter (\<lambda>ov. mo_kind ov = ''allow'') (filter (override_live now) (moverrides s')))"
    using rows assms(2) by (simp add: override_live_def)
  then have "override_key ?row \<in> c_allow (load_overrides now s')" by (auto simp: load_overrides_def Let_def)
  then have "override_key ?row \<in> c_allow s'" using s' by metis
  then have "?k \<in> c_allow s'" by (simp add: override_key_def)
  then have "domain_override (Some tok) (c_allow s') (mgr_normalize_domain d)"
    using assms(1) by (auto simp: domain_override_def override_matches_def)
  moreover have "?k \<notin> override_key ` set (get_overrides later tok s')"
  proof
    assume "?k \<in> override_key ` set (get_overrides later tok s')"
    then obtain ov where "ov \<in> set (moverrides s')" "override_key ov = ?k" "override_live later ov"
      by (auto simp: get_overrides_def)
    moreover from this have "ov = ?row" using rows by blast
    ultimately show False using assms(3) by (simp add: override_live_def)
  qed
  ultimately show ?thesis by (simp add: check_domain_def Let_def)
qed

theorem expired_override_still_allows_witness:
  "check_domain (add_override ipv4_text 0 7 ''evil.example'' ''domain'' ''allow'' [] [] (Some 10) ioc_mgr_init)
     ''evil.example'' (Some 7) = (False, ''Allowed by override'')"
  using expired_override_still_allows [of 7 0 10 11 _ ipv4_text "''evil.example''" "[]" "[]" ioc_mgr_init, OF _ _ _ refl]
  by simp

end
