(* ===== verification/Manager_Config.thy ===== *)
theory Manager_Config
  imports Dns_Query Manager_Auth Ioc_Ingestion
begin

text \<open>
  The configuration the Manager hands to the DNS servers
  (\<^verbatim>\<open>manager/backend/app/services/config_service.py\<close>), and what the two sides make of each other's data:
  team ids, zone order, domain allowlists and threat feeds from the Manager's tables to the DNS server's
  decision. The database orders text by code point; Python's \<^verbatim>\<open>hash\<close> of a string, which differs between
  processes, and the row the database returns first by descending modification time are parameters.
\<close>

section \<open>The zone list\<close>

record dns_record_row =
  dr_id :: nat
  dr_zone_id :: nat
  dr_name :: string
  dr_type :: string
  dr_value :: string
  dr_ttl :: "int option"
  dr_priority :: "int option"
  dr_weight :: "int option"
  dr_port :: "int option"

definition zone_entry :: "dns_record_row list \<Rightarrow> dns_zone_row \<Rightarrow> zone_cfg" where
  "zone_entry records zone =
     \<lparr> zc_name = dz_name zone, zc_visibility = Some (dz_visibility zone),
       zc_allowed_teams = Some (if dz_team_id zone \<noteq> None \<and> dz_team_id zone \<noteq> Some 0
                                then [JInt (int (the (dz_team_id zone)))] else []),
       zc_records = Some (map (\<lambda>r. \<lparr> rec_name = dr_name r, rec_type = dr_type r, rec_value = dr_value r,
                                      rec_ttl = dr_ttl r \<rparr>)
                           (sort_key dr_name (filter (\<lambda>r. dr_zone_id r = dz_id zone) records))) \<rparr>"

definition get_all_zones :: "dns_record_row list \<Rightarrow> dns_zone_row list \<Rightarrow> zone_cfg list" where
  "get_all_zones records zones = map (zone_entry records) (sort_key dz_name zones)"

definition get_zone_by_name :: "dns_record_row list \<Rightarrow> dns_zone_row list \<Rightarrow> string \<Rightarrow> (dns_zone_row \<times> dns_record_row list) option" where
  "get_zone_by_name records zones zone_name =
     map_option (\<lambda>zone. (zone, filter (\<lambda>r. dr_zone_id r = dz_id zone) records)) (find (\<lambda>z. dz_name z = zone_name) zones)"

section \<open>Feeds, version and heartbeat\<close>

definition delivered_entry :: "mgr_entry \<Rightarrow> string" where
  "delivered_entry e =
     (if me_type e = ''domain'' then py_rstrip_dot (py_lower (py_strip (me_indicator e))) else py_strip (me_indicator e))"

definition get_active_ioc_feeds :: "'net ioc_mgr \<Rightarrow> feed list" where
  "get_active_ioc_feeds s =
     map (\<lambda>f. \<lparr> feed_id = Some (int (mf_id f)), feed_name = Some (mf_name f), feed_type = mf_type f,
               feed_entries = map delivered_entry
                 (sort_key me_indicator (filter (\<lambda>e. me_feed_id e = mf_id f) (mentries s))) \<rparr>)
       (sort_key mf_name (filter mf_active (mfeeds s)))"

definition get_config_version ::
  "(string \<Rightarrow> int) \<Rightarrow> (mgr_entry list \<Rightarrow> mgr_entry option) \<Rightarrow> dns_zone_row list \<Rightarrow> dns_record_row list \<Rightarrow> 'net ioc_mgr \<Rightarrow> int" where
  "get_config_version hash latest zones records s =
     (let latest_ts = (case latest (mentries s) of
                         None \<Rightarrow> 0 | Some e \<Rightarrow> (case me_updated e of None \<Rightarrow> 0 | Some t \<Rightarrow> t div 1000000))
      in hash (py_join CHR '':'' [dec (length zones), dec (length records), dec (length (filter mf_active (mfeeds s))),
                 dec (length (mentries s)), (if latest_ts < 0 then CHR ''-'' # dec (nat (- latest_ts)) else dec (nat latest_ts))])
         mod 1000000)"

text \<open>The settings of the application are a parameter: \<open>conf key default\<close>. A server reads neither of the two groups.\<close>

definition get_cache_settings :: "(string \<Rightarrow> json \<Rightarrow> json) \<Rightarrow> (string \<times> json) list" where
  "get_cache_settings conf =
     [(''enabled'', JBool True), (''ttl'', JInt 300), (''max_size'', JInt 10000),
      (''redis_url'', conf ''REDIS_URL'' (JStr ''redis://localhost:6379''))]"

definition get_server_settings :: "(string \<Rightarrow> json \<Rightarrow> json) \<Rightarrow> (string \<times> json) list" where
  "get_server_settings conf =
     [(''max_workers'', conf ''MAX_WORKERS'' (JInt 100)),
      (''max_concurrent_requests'', conf ''MAX_CONCURRENT_REQUESTS'' (JInt 1000)),
      (''enable_mtls'', conf ''ENABLE_MTLS'' (JBool False)), (''log_level'', JStr ''INFO'')]"

record server_config =
  sc_zones :: "zone_cfg list"
  sc_ioc_feeds :: "feed list"
  sc_cache_settings :: "(string \<times> json) list"
  sc_settings :: "(string \<times> json) list"
  sc_version :: int
  sc_timestamp :: int

definition get_server_config ::
  "(string \<Rightarrow> json \<Rightarrow> json) \<Rightarrow> (string \<Rightarrow> int) \<Rightarrow> (mgr_entry list \<Rightarrow> mgr_entry option) \<Rightarrow> int \<Rightarrow> dns_zone_row list \<Rightarrow>
   dns_record_row list \<Rightarrow> 'net ioc_mgr \<Rightarrow> server_config" where
  "get_server_config conf hash latest now zones records s =
     \<lparr> sc_zones = get_all_zones records zones, sc_ioc_feeds = get_active_ioc_feeds s,
       sc_cache_settings = get_cache_settings conf, sc_settings = get_server_settings conf,
       sc_version = get_config_version hash latest zones records s, sc_timestamp = now \<rparr>"

record dns_server_row =
  ds_id :: nat
  ds_name :: string
  ds_join_key_hash :: string
  ds_jwt_secret :: string
  ds_status :: string
  ds_last_heartbeat :: "int option"
  ds_version :: "string option"
  ds_region :: string
  ds_hostname :: "string option"
  ds_created_at :: int
  ds_updated_at :: "int option"

record server_metrics_row =
  sm_server_id :: nat
  sm_timestamp :: int
  sm_values :: "(string \<times> json) list"

definition metric_values :: "(string \<times> json) list \<Rightarrow> (string \<times> json) list" where
  "metric_values metrics =
     map (\<lambda>k. (k, case map_of metrics k of None \<Rightarrow> JInt 0 | Some v \<Rightarrow> v))
       [''queries_total'', ''cache_hits'', ''errors'', ''avg_response_ms'']"

text \<open>The reply carries the version and a flag that always asks for a sync.\<close>

definition record_heartbeat ::
  "int \<Rightarrow> nat \<Rightarrow> (string \<times> json) list \<Rightarrow> int \<Rightarrow> dns_server_row list \<times> server_metrics_row list \<Rightarrow>
   (int \<times> bool) \<times> dns_server_row list \<times> server_metrics_row list" where
  "record_heartbeat now sid metrics version db =
     ((version, True),
      map (\<lambda>r. if ds_id r = sid
               then r\<lparr> ds_status := ''online'', ds_last_heartbeat := Some now, ds_updated_at := Some now \<rparr> else r) (fst db),
      snd db @ [\<lparr> sm_server_id = sid, sm_timestamp = now, sm_values = metric_values metrics \<rparr>])"

section \<open>Lemmas\<close>

lemma user_teams_access:
  "user_teams (access_claims cfg tenant uid name role teams now life) = Some (map (\<lambda>(t, r). dec t) teams)"
  by (simp add: user_teams_def access_claims_def json_get_def Let_def split_def comp_def)

lemma json_get_machine_domains:
  "json_get (machine_claims cfg cid tenant scopes jkt domains now ttl) ''dns_domains'' =
     (case domains of None \<Rightarrow> JNull | Some ds \<Rightarrow> JList (map JStr ds))"
  by (simp add: machine_claims_def json_get_def split: option.splits)

lemma claim_policy_strings: "claim_policy d (JList (map JStr ds)) = Some (matches_policy d (Some ds))"
proof -
  let ?str = "\<lambda>j. case j of JStr _ \<Rightarrow> True | _ \<Rightarrow> False"
  have t: "takeWhile ?str (map JStr ds) = map JStr ds" by (simp add: takeWhile_eq_all_conv)
  show ?thesis by (simp add: claim_policy_def Let_def t comp_def)
qed

section \<open>Properties\<close>

text \<open>
  The allowlist registered for a machine client is the one enforced on its queries: for a token the
  query handler verifies whose claims are those the Manager issued, the policy gate lets a name pass
  exactly when the registered list (or the absence of one) admits it, and raises no exception.
\<close>

theorem registered_allowlist_enforced:
  assumes "main_verify E t = Some (machine_claims cfg cid tenant scopes jkt domains now ttl)" "t \<noteq> []"
  shows "policy_gate E d t = Some (matches_policy d domains)"
  using assms
  by (cases domains)
    (simp_all add: policy_gate_def json_get_machine_domains claim_policy_strings, simp_all add: claim_policy_def matches_policy_def)

theorem registered_allowlist_enforced_witness:
  "policy_gate \<lparr> ve_jwt = \<lparr> unverified_kid = (\<lambda>_. Some None), jwt_decode = (\<lambda>_ _ _ _ _ _.
        Inr (machine_claims demo_cfg ''c1'' ''default'' ''dns:query'' None (Some [''*.allowed.org'']) 0 900)) \<rparr>,
      ve_cfg = demo_cfg, ve_public_key = Some ''PEM'', ve_public_keys = [] \<rparr> ''other.net'' ''tok''
   = Some (matches_policy ''other.net'' (Some [''*.allowed.org'']))"
  by (rule registered_allowlist_enforced [where t = "''tok''" and cfg = demo_cfg and cid = "''c1''" and
        tenant = "''default''" and scopes = "''dns:query''" and jkt = None and now = 0 and ttl = 900])
    (simp_all add: main_verify_def verify_squawk_jwt_def keys_to_try_def has_tenant_def
      machine_claims_def json_get_def)

text \<open>
  A zone assigned to a team is served to nobody: the Manager sends the team as a number and puts the
  user's teams as string keys into the token, so the query-path check denies a zone that is not public
  and has a team to every token the Manager issued, members of the team included, and so does the
  router for an internal or restricted zone.
\<close>

theorem team_zone_denied_to_members:
  assumes "ve_verify E t = Some (access_claims cfg tenant uid name role teams now life)" "t \<noteq> []"
    and "dz_team_id z = Some team" "0 < team" "(team, r) \<in> set teams" "dz_visibility z \<in> {''internal'', ''restricted''}"
  shows "res_check_zone_permission E (zone_entry records z) (Some t) = Some False \<and>
    router_check_zone_permission E (load_zones [zone_entry records z] []) (dz_name z) (Some t) = Some False"
proof -
  have a: "zc_allowed_teams (zone_entry records z) = Some [JInt (int team)]"
    and v: "zc_visibility (zone_entry records z) = Some (dz_visibility z)"
    and n: "zc_name (zone_entry records z) = dz_name z"
    using assms(3,4) by (simp_all add: zone_entry_def)
  have k: "\<not> any_team_in teams' [JInt i]" for teams' i using any_team_in_ints [of teams' "[i]"] by simp
  have f: "find_zone_for_domain (load_zones [zone_entry records z] []) (dz_name z) =
      Some \<lparr> z_name = dz_name z, z_visibility = dz_visibility z, z_allowed_teams = [JInt (int team)],
             z_records = get_default (zc_records (zone_entry records z)) [] \<rparr>"
    using a v n by (simp add: find_zone_for_domain_def load_zones_def load_zone_def)
  show ?thesis
    using assms(1,2,6) a v f k
    by (auto simp: res_check_zone_permission_def router_check_zone_permission_def user_teams_access Let_def)
qed

theorem team_zone_denied_to_members_witness:
  "res_check_zone_permission \<lparr> ve_jwt = \<lparr> unverified_kid = (\<lambda>_. Some None), jwt_decode = (\<lambda>_ _ _ _ _ _.
        Inr (access_claims demo_cfg ''default'' 7 ''ann'' (Some ''Viewer'') [(3, ''TeamAdmin'')] 0 900)) \<rparr>,
      ve_cfg = demo_cfg, ve_public_key = Some ''PEM'', ve_public_keys = [] \<rparr>
     (zone_entry [] \<lparr> dz_id = 1, dz_name = ''hr.corp'', dz_visibility = ''internal'', dz_team_id = Some 3, dz_description = None \<rparr>)
     (Some ''tok'') = Some False"
proof -
  let ?E = "\<lparr> ve_jwt = \<lparr> unverified_kid = (\<lambda>_. Some None), jwt_decode = (\<lambda>_ _ _ _ _ _.
        Inr (access_claims demo_cfg ''default'' 7 ''ann'' (Some ''Viewer'') [(3, ''TeamAdmin'')] 0 900)) \<rparr>,
      ve_cfg = demo_cfg, ve_public_key = Some ''PEM'', ve_public_keys = [] \<rparr>"
  let ?z = "\<lparr> dz_id = 1, dz_name = ''hr.corp'', dz_visibility = ''internal'', dz_team_id = Some 3, dz_description = None \<rparr>"
  have "ve_verify ?E ''tok'' = Some (access_claims demo_cfg ''default'' 7 ''ann'' (Some ''Viewer'') [(3, ''TeamAdmin'')] 0 900)"
    by (simp add: ve_verify_def verify_squawk_jwt_def keys_to_try_def has_tenant_def access_claims_def json_get_def)
  from team_zone_denied_to_members [OF this, of ?z 3 "''TeamAdmin''"] show ?thesis by simp
qed

section \<open>Threat feeds from the Manager to the DNS servers\<close>

lemma lower_ip_char: "is_digit c \<or> c = dot \<or> c = CHR ''/'' \<Longrightarrow> lower_char c = c"
  using digit_domain_char [of c] lower_char_dot [of c] by (cases "c = CHR ''/''") (simp add: lower_char_def, blast)

text \<open>The text of an IPv4 address or network is left alone by the domain normalisation.\<close>

lemma ip_text_fixed:
  assumes "typed_indicator ipv4_text ''ip'' v"
  shows "py_strip v = v \<and> ioc_normalize v = v"
proof -
  have v: "mgr_normalize_ip ipv4_text v = v" "v \<noteq> []" using assms ip4t.empty_text by (auto simp: typed_indicator_def)
  obtain u x where u: "v = ipv4_str x \<or> v = ipv4_str x @ ''/'' @ dec u"
  proof (cases "ipv4_parse (py_strip v)")
    case (Some a)
    then show thesis using v that by (auto simp: mgr_normalize_ip_def ipv4_text_def ip_lib.defs ipv4_lib_def Let_def)
  next
    case None
    show thesis
    proof (cases "ipv4_network (py_strip v)")
      case n: (Some net)
      with None show thesis using v that by (auto simp: mgr_normalize_ip_def ipv4_text_def ip_lib.defs ipv4_lib_def Let_def)
    next
      case n: None
      then have "py_strip v = v" using None v by (simp add: mgr_normalize_ip_def ipv4_text_def ip_lib.defs ipv4_lib_def)
      then show thesis using n assms by (simp add: typed_indicator_def ipv4_text_def ip_lib.defs ipv4_lib_def)
    qed
  qed
  have chars: "list_all (\<lambda>c. is_digit c \<or> c = dot \<or> c = CHR ''/'') v"
  proof -
    have "list_all (\<lambda>c. is_digit c \<or> c = dot \<or> c = CHR ''/'') (ipv4_str x)"
      using ipv4_str_chars by (force simp: list_all_iff)
    then show ?thesis using u dec_digits [of u] by (auto simp: list_all_iff)
  qed
  have "is_digit (last (dec k))" for k using dec_digits [of k] by (simp add: list_all_iff)
  then have "last v \<noteq> dot" using u digit_not_dot by (auto simp: ipv4_str_def)
  moreover have "py_lower v = v" using chars lower_ip_char by (simp add: py_lower_def list_all_iff map_idI)
  moreover have "py_strip v = v" using chars by (rule strip_ipv4_text)
  ultimately show ?thesis by (simp add: ioc_normalize_def rstrip_dot_id)
qed

lemma delivered_fixed:
  "typed_indicator ipv4_text (me_type e) (me_indicator e) \<Longrightarrow>
     delivered_entry e = me_indicator e \<and> ioc_normalize (me_indicator e) = me_indicator e \<and> me_indicator e \<noteq> []"
proof -
  assume t: "typed_indicator ipv4_text (me_type e) (me_indicator e)"
  show ?thesis
  proof (cases "me_type e = ''domain''")
    case True
    with t have c: "clean_domain (me_indicator e)" "py_lower (me_indicator e) = me_indicator e"
      by (auto simp: typed_indicator_def)
    moreover have "me_indicator e \<noteq> []" using c(1) by (auto simp: clean_domain_def)
    ultimately show ?thesis
      using True normalize_clean [OF c(1)] mgr_normalize_ioc [of "me_indicator e"]
      by (simp add: delivered_entry_def mgr_normalize_domain_def)
  next
    case False
    with t have i: "typed_indicator ipv4_text ''ip'' (me_indicator e)" by (auto simp: typed_indicator_def)
    moreover have "me_indicator e \<noteq> []" using i ip4t.empty_text by (auto simp: typed_indicator_def)
    ultimately show ?thesis using False ip_text_fixed by (simp add: delivered_entry_def)
  qed
qed

lemma delivered_indicators:
  assumes "tables_ok ipv4_text s" "\<forall>f\<in>set (mfeeds s). mf_active f"
  shows "feed_indicators (get_active_ioc_feeds s) = me_indicator ` set (mentries s)"
proof -
  have "feed_indicators (get_active_ioc_feeds s) =
      {ioc_normalize (delivered_entry e) | e. e \<in> set (mentries s) \<and> me_feed_id e \<in> mf_id ` {f \<in> set (mfeeds s). mf_active f}
        \<and> delivered_entry e \<noteq> []}"
    by (auto simp: feed_indicators_def get_active_ioc_feeds_def)
  also have "\<dots> = {ioc_normalize (delivered_entry e) | e. e \<in> set (mentries s) \<and> delivered_entry e \<noteq> []}"
    using assms by (fastforce simp: tables_ok_def)
  also have "\<dots> = me_indicator ` set (mentries s)"
    using assms(1) delivered_fixed by (auto simp: tables_ok_def image_iff) (metis delivered_fixed)+
  finally show ?thesis .
qed


definition demo_feed_state :: "(nat \<times> nat) ioc_mgr" where
  "demo_feed_state = snd (update_feed_from_content ipv4_text demo_decoders None 6 0 ''f'' ''*.Evil.Example''
     ''domain'' ''txt'' ioc_mgr_init)"


text \<open>
  Disabling a feed in the ingestion service changes nothing downstream: feeds are delivered by their
  \<^verbatim>\<open>active\<close> mark, which the service never sets, so the DNS servers receive the same feeds, and the
  Manager's own checks, which read entries of every feed, answer as before, even after a cache rebuild.
\<close>

theorem disabled_feed_still_delivered:
  "get_active_ioc_feeds (set_feed_enabled fid False s) = get_active_ioc_feeds s \<and>
   check_domain (rebuild_cache L now (set_feed_enabled fid False s)) d tok = check_domain (rebuild_cache L now s) d tok \<and>
   check_ip L (rebuild_cache L now (set_feed_enabled fid False s)) ip tok = check_ip L (rebuild_cache L now s) ip tok"
proof -
  let ?g = "\<lambda>f. if mf_id f = fid then f\<lparr> mf_enabled := False \<rparr> else f"
  let ?view = "\<lambda>f. (mf_id f, mf_name f, mf_type f)"
  have f: "filter mf_active (map ?g fs) = map ?g (filter mf_active fs)" for fs by (induction fs) auto
  have m: "sort_key mf_name (map ?g fs) = map ?g (sort_key mf_name fs)" for fs
  proof (induction fs)
    case (Cons a fs)
    have "insort_key mf_name (?g a) (map ?g xs) = map ?g (insort_key mf_name a xs)" for xs
      by (induction xs) auto
    with Cons show ?case by (simp del: if_split)
  qed simp
  have "get_active_ioc_feeds (set_feed_enabled fid False s) = get_active_ioc_feeds s"
    by (simp add: get_active_ioc_feeds_def set_feed_enabled_def f m comp_def if_distrib cong: if_cong)
  moreover have "rebuild_cache L now (set_feed_enabled fid False s) = (rebuild_cache L now s)\<lparr> mfeeds := map ?g (mfeeds s) \<rparr>"
    by (cases s) (simp add: rebuild_cache_def load_overrides_def set_feed_enabled_def Let_def)
  ultimately show ?thesis by (simp add: check_domain_def check_ip_def Let_def)
qed

text \<open>
  The configuration version counts zones and records but not their contents: replacing a record leaves
  it as it was.
\<close>

lemma record_edit_keeps_version:
  "get_config_version hash latest zones (records[i := r]) s = get_config_version hash latest zones records s"
  by (simp add: get_config_version_def)

end
