(* ===== verification/Manager_Machine.thy ===== *)
theory Manager_Machine
  imports Manager_Auth Domain_Policy
begin

text \<open>
  Machine identities in the Manager: registration of machine clients and trust anchors
  (\<^verbatim>\<open>blueprints/machine_clients.py\<close>, \<^verbatim>\<open>blueprints/oidc_trust_anchors.py\<close>), DPoP proofs
  (\<^verbatim>\<open>services/dpop_service.py\<close>), the token endpoint with its two grants (\<^verbatim>\<open>blueprints/auth.py\<close>) and the
  checks it calls in \<^verbatim>\<open>services/auth_service.py\<close>, and legacy DNS tokens.

  bcrypt, SHA-256, JSON text, URL splitting and the JWT library are parameters; the glob matching of
  \<^verbatim>\<open>fnmatch\<close> is modelled. Times are microseconds. A proof whose identifier is no string is refused by the
  replay table.
\<close>

section \<open>Glob patterns\<close>

text \<open>
  A character class after its opening bracket: whether it is negated, its text, and what follows the
  closing bracket. A bracket right after the opening (or the negation) is a member.
\<close>

definition glob_class :: "string \<Rightarrow> (bool \<times> string \<times> string) option" where
  "glob_class p =
     (let neg = (p \<noteq> [] \<and> hd p = CHR ''!'');
          q = (if neg then tl p else p);
          lead = (if q \<noteq> [] \<and> hd q = CHR '']'' then [CHR '']''] else []);
          body = drop (length lead) q;
          stuff = takeWhile (\<lambda>c. c \<noteq> CHR '']'') body
      in if length stuff = length body then None
         else Some (neg, lead @ stuff, drop (Suc (length stuff)) body))"

fun class_member :: "string \<Rightarrow> char \<Rightarrow> bool" where
  "class_member (a # d # b # rest) x =
     (if d = CHR ''-'' then ((of_char a :: nat) \<le> of_char x \<and> (of_char x :: nat) \<le> of_char b) \<or> class_member rest x
      else x = a \<or> class_member (d # b # rest) x)"
| "class_member [a, b] x = (x = a \<or> x = b)"
| "class_member [a] x = (x = a)"
| "class_member [] x = False"

lemma glob_class_shorter: "glob_class p = Some (neg, stuff, rest) \<Longrightarrow> length rest < length p"
  by (cases p) (auto simp: glob_class_def Let_def split: if_splits)

function glob_match :: "string \<Rightarrow> string \<Rightarrow> bool" where
  "glob_match [] s = (s = [])"
| "glob_match (c # p) s =
     (if c = CHR ''*'' then glob_match p s \<or> (case s of [] \<Rightarrow> False | _ # xs \<Rightarrow> glob_match (c # p) xs)
      else (case s of
              [] \<Rightarrow> False
            | x # xs \<Rightarrow>
                (if c = CHR ''?'' then glob_match p xs
                 else if c = CHR ''['' then
                   (case glob_class p of
                      None \<Rightarrow> x = c \<and> glob_match p xs
                    | Some (neg, stuff, rest) \<Rightarrow> class_member stuff x \<noteq> neg \<and> glob_match rest xs)
                 else x = c \<and> glob_match p xs)))"
  by pat_completeness auto
termination
  by (relation "measure (\<lambda>(p, s). length p + length s)") (auto dest!: glob_class_shorter)

definition subject_matches_pattern :: "string \<Rightarrow> string option \<Rightarrow> bool" where
  "subject_matches_pattern subject pattern = (if \<not> truthy pattern then True else glob_match (the pattern) subject)"

section \<open>State\<close>

record machine_client =
  mcl_id :: nat
  mcl_client_id :: string
  mcl_secret_hash :: string
  mcl_tenant :: string
  mcl_scopes :: string
  mcl_allowed_domains :: "string option"
  mcl_description :: string
  mcl_active :: bool
  mcl_last_used :: "int option"

record trust_anchor =
  ta_id :: nat
  ta_issuer :: string
  ta_audience :: string
  ta_jwks_url :: "string option"
  ta_static_jwks_pem :: "string option"
  ta_tenant :: string
  ta_allowed_scopes :: string
  ta_subject_pattern :: "string option"
  ta_allowed_domains :: "string option"
  ta_active :: bool

record machine_db =
  mm_clients :: "machine_client list"
  mm_anchors :: "trust_anchor list"
  mm_replay :: "(string \<times> int) list"
  mm_seq :: nat
  mm_anchor_seq :: nat

text \<open>
  \<open>dumps\<close> and \<open>loads\<close> write and read a list of domains as JSON text (\<open>None\<close>: malformed); \<open>checkpw\<close> and
  \<open>hashpw\<close> are bcrypt; \<open>unverified\<close>, \<open>header\<close> and \<open>signed_by\<close> are the JWT library on DPoP proofs and external
  tokens; \<open>url_split\<close> yields scheme, authority and path; \<open>thumb\<close> is the RFC 7638 hash of the members
  listed.
\<close>

record machine_env =
  mv_dumps :: "string list \<Rightarrow> string"
  mv_loads :: "string \<Rightarrow> string list option"
  mv_checkpw :: "string \<Rightarrow> string \<Rightarrow> bool"
  mv_hashpw :: "string \<Rightarrow> string"
  mv_unverified :: "string \<Rightarrow> claims option"
  mv_header :: "string \<Rightarrow> claims option"
  mv_signed_by :: "string \<Rightarrow> claims \<Rightarrow> string \<Rightarrow> bool"
  mv_oidc_decode :: "int \<Rightarrow> string \<Rightarrow> string \<Rightarrow> string \<Rightarrow> string \<Rightarrow> claims option"
  mv_url_split :: "string \<Rightarrow> (string \<times> string \<times> string) option"
  mv_thumb :: "claims \<Rightarrow> string"
  mv_jwt_cfg :: jwt_cfg
  mv_ttl :: int

section \<open>Registration\<close>

definition all_valid_scopes :: "string list" where
  "all_valid_scopes = concat (map snd ROLE_SCOPES)"

definition scopes_registrable :: "string \<Rightarrow> bool" where
  "scopes_registrable scopes \<longleftrightarrow> set (py_words scopes) \<subseteq> set all_valid_scopes"

text \<open>\<open>domains_ok\<close> is the outcome of \<^verbatim>\<open>validate_allowed_domains\<close> of the theory on domain policies.\<close>

definition domains_ok :: "string list option \<Rightarrow> bool" where
  "domains_ok domains = (case domains of None \<Rightarrow> True | Some ds \<Rightarrow> fst (validate_allowed_domains (JList (map JStr ds))))"

datatype admin_result = AdminOk | AdminErr nat

definition admin_only :: "current_user option \<Rightarrow> (admin_result \<times> machine_db) \<Rightarrow> machine_db \<Rightarrow> admin_result \<times> machine_db" where
  "admin_only user body db =
     (case requires_system_admin user of Proceed \<Rightarrow> body | Denied n \<Rightarrow> (AdminErr n, db) | Raised \<Rightarrow> (AdminErr 500, db))"

text \<open>\<open>new_id\<close> and \<open>secret\<close> are the random identifier and secret.\<close>

definition create_machine_client ::
  "machine_env \<Rightarrow> current_user option \<Rightarrow> string \<Rightarrow> string \<Rightarrow> string \<Rightarrow> string \<Rightarrow> string \<Rightarrow> string list option \<Rightarrow>
   machine_db \<Rightarrow> admin_result \<times> machine_db" where
  "create_machine_client E user new_id secret raw_scopes description tenant domains db =
     admin_only user
       (let scopes = py_strip raw_scopes in
        if scopes = [] then (AdminErr 400, db)
        else if \<not> domains_ok domains then (AdminErr 400, db)
        else if \<not> scopes_registrable scopes then (AdminErr 400, db)
        else (AdminOk, db\<lparr> mm_clients := mm_clients db @
               [\<lparr> mcl_id = mm_seq db, mcl_client_id = ''sqk_mc_'' @ new_id, mcl_secret_hash = mv_hashpw E secret,
                  mcl_tenant = py_strip tenant, mcl_scopes = scopes, mcl_allowed_domains = map_option (mv_dumps E) domains,
                  mcl_description = py_strip description, mcl_active = True, mcl_last_used = None \<rparr>],
              mm_seq := mm_seq db + 1 \<rparr>)) db"

definition update_clients :: "(machine_client \<Rightarrow> bool) \<Rightarrow> (machine_client \<Rightarrow> machine_client) \<Rightarrow> machine_db \<Rightarrow> machine_db" where
  "update_clients P f db = db\<lparr> mm_clients := map (\<lambda>c. if P c then f c else c) (mm_clients db) \<rparr>"

text \<open>A field of the body that is absent is \<open>None\<close>.\<close>

definition update_machine_client ::
  "machine_env \<Rightarrow> current_user option \<Rightarrow> nat \<Rightarrow> string option \<Rightarrow> string option \<Rightarrow> bool option \<Rightarrow> string list option option \<Rightarrow>
   machine_db \<Rightarrow> admin_result \<times> machine_db" where
  "update_machine_client E user cid scopes description act domains db =
     admin_only user
       (if \<not> list_ex (\<lambda>c. mcl_id c = cid) (mm_clients db) then (AdminErr 404, db)
        else if scopes \<noteq> None \<and> \<not> scopes_registrable (py_strip (the scopes)) then (AdminErr 400, db)
        else if domains \<noteq> None \<and> \<not> domains_ok (the domains) then (AdminErr 400, db)
        else (AdminOk, update_clients (\<lambda>c. mcl_id c = cid) (\<lambda>c. c\<lparr>
               mcl_scopes := (case scopes of None \<Rightarrow> mcl_scopes c | Some s \<Rightarrow> py_strip s),
               mcl_description := (case description of None \<Rightarrow> mcl_description c | Some d \<Rightarrow> d),
               mcl_active := (case act of None \<Rightarrow> mcl_active c | Some a \<Rightarrow> a),
               mcl_allowed_domains := (case domains of None \<Rightarrow> mcl_allowed_domains c
                                       | Some ds \<Rightarrow> map_option (mv_dumps E) ds) \<rparr>) db)) db"

definition delete_machine_client :: "current_user option \<Rightarrow> nat \<Rightarrow> machine_db \<Rightarrow> admin_result \<times> machine_db" where
  "delete_machine_client user cid db =
     admin_only user
       (if \<not> list_ex (\<lambda>c. mcl_id c = cid) (mm_clients db) then (AdminErr 404, db)
        else (AdminOk, db\<lparr> mm_clients := filter (\<lambda>c. mcl_id c \<noteq> cid) (mm_clients db) \<rparr>)) db"

definition rotate_machine_client_secret ::
  "machine_env \<Rightarrow> current_user option \<Rightarrow> nat \<Rightarrow> string \<Rightarrow> machine_db \<Rightarrow> admin_result \<times> machine_db" where
  "rotate_machine_client_secret E user cid new_secret db =
     admin_only user
       (if \<not> list_ex (\<lambda>c. mcl_id c = cid) (mm_clients db) then (AdminErr 404, db)
        else (AdminOk, update_clients (\<lambda>c. mcl_id c = cid) (\<lambda>c. c\<lparr> mcl_secret_hash := mv_hashpw E new_secret \<rparr>) db)) db"

definition none_if_empty :: "string \<Rightarrow> string option" where
  "none_if_empty s = (if s = [] then None else Some s)"

definition create_oidc_trust_anchor ::
  "machine_env \<Rightarrow> current_user option \<Rightarrow> string \<Rightarrow> string \<Rightarrow> string \<Rightarrow> string \<Rightarrow> string \<Rightarrow> string \<Rightarrow> string list option \<Rightarrow> string \<Rightarrow>
   machine_db \<Rightarrow> admin_result \<times> machine_db" where
  "create_oidc_trust_anchor E user issuer audience jwks_url pem scopes pattern domains tenant db =
     admin_only user
       (if py_strip issuer = [] \<or> py_strip audience = [] \<or> py_strip scopes = [] then (AdminErr 400, db)
        else if py_strip jwks_url = [] \<and> py_strip pem = [] then (AdminErr 400, db)
        else if \<not> domains_ok domains then (AdminErr 400, db)
        else if \<not> scopes_registrable (py_strip scopes) then (AdminErr 400, db)
        else if list_ex (\<lambda>a. ta_issuer a = py_strip issuer \<and> ta_active a) (mm_anchors db) then (AdminErr 409, db)
        else (AdminOk, db\<lparr> mm_anchors := mm_anchors db @
               [\<lparr> ta_id = mm_anchor_seq db, ta_issuer = py_strip issuer, ta_audience = py_strip audience,
                  ta_jwks_url = none_if_empty (py_strip jwks_url), ta_static_jwks_pem = none_if_empty (py_strip pem),
                  ta_tenant = py_strip tenant, ta_allowed_scopes = py_strip scopes,
                  ta_subject_pattern = none_if_empty (py_strip pattern),
                  ta_allowed_domains = map_option (mv_dumps E) domains, ta_active = True \<rparr>],
              mm_anchor_seq := mm_anchor_seq db + 1 \<rparr>)) db"

definition update_oidc_trust_anchor ::
  "machine_env \<Rightarrow> current_user option \<Rightarrow> nat \<Rightarrow> string option \<Rightarrow> string option option \<Rightarrow> bool option \<Rightarrow> string list option option \<Rightarrow>
   machine_db \<Rightarrow> admin_result \<times> machine_db" where
  "update_oidc_trust_anchor E user aid scopes pattern act domains db =
     admin_only user
       (if \<not> list_ex (\<lambda>a. ta_id a = aid) (mm_anchors db) then (AdminErr 404, db)
        else if scopes \<noteq> None \<and> \<not> scopes_registrable (py_strip (the scopes)) then (AdminErr 400, db)
        else if domains \<noteq> None \<and> \<not> domains_ok (the domains) then (AdminErr 400, db)
        else (AdminOk, db\<lparr> mm_anchors := map (\<lambda>a. if ta_id a = aid then a\<lparr>
               ta_allowed_scopes := (case scopes of None \<Rightarrow> ta_allowed_scopes a | Some s \<Rightarrow> py_strip s),
               ta_subject_pattern := (case pattern of None \<Rightarrow> ta_subject_pattern a | Some p \<Rightarrow> p),
               ta_active := (case act of None \<Rightarrow> ta_active a | Some b \<Rightarrow> b),
               ta_allowed_domains := (case domains of None \<Rightarrow> ta_allowed_domains a
                                      | Some ds \<Rightarrow> map_option (mv_dumps E) ds) \<rparr> else a) (mm_anchors db) \<rparr>)) db"

definition delete_oidc_trust_anchor :: "current_user option \<Rightarrow> nat \<Rightarrow> machine_db \<Rightarrow> admin_result \<times> machine_db" where
  "delete_oidc_trust_anchor user aid db =
     admin_only user
       (if \<not> list_ex (\<lambda>a. ta_id a = aid) (mm_anchors db) then (AdminErr 404, db)
        else (AdminOk, db\<lparr> mm_anchors := filter (\<lambda>a. ta_id a \<noteq> aid) (mm_anchors db) \<rparr>)) db"

section \<open>DPoP proofs\<close>

definition CLOCK_SKEW_SECONDS :: int where
  "CLOCK_SKEW_SECONDS = 60"

definition ALLOWED_ALGS :: "string list" where
  "ALLOWED_ALGS = [''ES256'', ''RS256'']"

record dpop_proof =
  dp_htm :: string
  dp_htu :: string
  dp_iat :: int
  dp_jti :: string
  dp_jkt :: string

definition private_params :: "string list" where
  "private_params = [''d'', ''p'', ''q'', ''dp'', ''dq'', ''qi'', ''oth'', ''k'']"

definition contains_private_key_material :: "claims \<Rightarrow> bool" where
  "contains_private_key_material jwk = list_ex (\<lambda>kv. fst kv \<in> set private_params) jwk"

definition verify_with_jwk :: "machine_env \<Rightarrow> string \<Rightarrow> claims \<Rightarrow> string \<Rightarrow> bool" where
  "verify_with_jwk E dpop_header jwk alg =
     (if json_get jwk ''kty'' = JStr ''RSA'' then
        (if \<not> json_truthy (json_get jwk ''n'') \<or> \<not> json_truthy (json_get jwk ''e'') then False
         else mv_signed_by E dpop_header jwk alg)
      else if json_get jwk ''kty'' = JStr ''EC'' then
        (if \<not> json_truthy (json_get jwk ''crv'') \<or> \<not> json_truthy (json_get jwk ''x'') \<or> \<not> json_truthy (json_get jwk ''y'')
         then False
         else if json_get jwk ''crv'' \<notin> {JStr ''P-256'', JStr ''P-384'', JStr ''P-521''} then False
         else mv_signed_by E dpop_header jwk alg)
      else False)"

definition htu_matches :: "machine_env \<Rightarrow> string \<Rightarrow> string \<Rightarrow> bool" where
  "htu_matches E htu_claim http_uri =
     (case (mv_url_split E htu_claim, mv_url_split E http_uri) of
        (Some (s1, n1, p1), Some (s2, n2, p2)) \<Rightarrow> py_lower s1 = py_lower s2 \<and> py_lower n1 = py_lower n2 \<and> p1 = p2
      | _ \<Rightarrow> False)"

definition iat_within_skew :: "int \<Rightarrow> int \<Rightarrow> bool" where
  "iat_within_skew now iat \<longleftrightarrow> now div 1000000 - CLOCK_SKEW_SECONDS \<le> iat \<and> iat \<le> now div 1000000 + CLOCK_SKEW_SECONDS"

definition compute_jwk_thumbprint :: "machine_env \<Rightarrow> claims \<Rightarrow> string" where
  "compute_jwk_thumbprint E jwk =
     (if json_get jwk ''kty'' = JStr ''RSA''
      then mv_thumb E [(''e'', json_get jwk ''e''), (''kty'', json_get jwk ''kty''), (''n'', json_get jwk ''n'')]
      else if json_get jwk ''kty'' = JStr ''EC''
      then mv_thumb E [(''crv'', json_get jwk ''crv''), (''kty'', json_get jwk ''kty''), (''x'', json_get jwk ''x''),
                       (''y'', json_get jwk ''y'')]
      else [])"

definition check_and_record_jti :: "int \<Rightarrow> string \<Rightarrow> machine_db \<Rightarrow> bool \<times> machine_db" where
  "check_and_record_jti now jti db =
     (let kept = filter (\<lambda>e. \<not> snd e < now) (mm_replay db) in
      if list_ex (\<lambda>e. fst e = jti) kept then (False, db\<lparr> mm_replay := kept \<rparr>)
      else (True, db\<lparr> mm_replay := kept @ [(jti, now + 900000000)] \<rparr>))"

text \<open>The checks before the replay table, which depend on the proof, the request and the time only.\<close>

definition proof_fields :: "machine_env \<Rightarrow> int \<Rightarrow> string \<Rightarrow> string \<Rightarrow> string \<Rightarrow> dpop_proof option" where
  "proof_fields E now dpop_header http_method http_uri =
     (if dpop_header = [] then None
      else (case (mv_unverified E dpop_header, mv_header E dpop_header) of
              (Some unverified, Some header) \<Rightarrow>
                (if json_get header ''typ'' \<noteq> JStr ''dpop+jwt'' then None
                 else (case (json_get header ''alg'', json_get header ''jwk'') of
                         (JStr alg, JObj jwk) \<Rightarrow>
                           (if alg \<notin> set ALLOWED_ALGS \<or> jwk = [] \<or> contains_private_key_material jwk
                               \<or> \<not> verify_with_jwk E dpop_header jwk alg then None
                            else (case (if map_of unverified ''htm'' = None then JStr [] else json_get unverified ''htm'',
                                        json_get unverified ''htu'', json_get unverified ''iat'', json_get unverified ''jti'') of
                                    (JStr htm, JStr htu, iat_claim, JStr jti) \<Rightarrow>
                                      (if py_upper htm \<noteq> py_upper http_method \<or> htu = [] \<or> \<not> htu_matches E htu http_uri then None
                                       else (case (case iat_claim of JInt i \<Rightarrow> Some i | JBool b \<Rightarrow> Some (if b then 1 else 0) | _ \<Rightarrow> None) of
                                               None \<Rightarrow> None
                                             | Some iat \<Rightarrow>
                                                 (if \<not> iat_within_skew now iat \<or> jti = [] then None
                                                  else Some \<lparr> dp_htm = py_upper htm, dp_htu = htu, dp_iat = iat, dp_jti = jti,
                                                              dp_jkt = compute_jwk_thumbprint E jwk \<rparr>)))
                                  | _ \<Rightarrow> None))
                       | _ \<Rightarrow> None))
            | _ \<Rightarrow> None))"

definition validate_proof ::
  "machine_env \<Rightarrow> int \<Rightarrow> string \<Rightarrow> string \<Rightarrow> string \<Rightarrow> machine_db \<Rightarrow> dpop_proof option \<times> machine_db" where
  "validate_proof E now dpop_header http_method http_uri db =
     (case proof_fields E now dpop_header http_method http_uri of
        None \<Rightarrow> (None, db)
      | Some prf \<Rightarrow> (case check_and_record_jti now (dp_jti prf) db of
                        (True, db') \<Rightarrow> (Some prf, db') | (False, db') \<Rightarrow> (None, db')))"

text \<open>The decorator for bound tokens; the second component is whether the route runs.\<close>

definition dpop_bound_token ::
  "machine_env \<Rightarrow> int \<Rightarrow> claims \<Rightarrow> string \<Rightarrow> string \<Rightarrow> string \<Rightarrow> machine_db \<Rightarrow> bool \<times> machine_db" where
  "dpop_bound_token E now payload dpop_header http_method http_uri db =
     (case json_get payload ''cnf'' of
        JObj cnf \<Rightarrow>
          (if cnf = [] then (True, db)
           else if \<not> json_truthy (json_get cnf ''jkt'') then (False, db)
           else if py_strip dpop_header = [] then (False, db)
           else (case validate_proof E now (py_strip dpop_header) http_method http_uri db of
                   (None, db') \<Rightarrow> (False, db')
                 | (Some prf, db') \<Rightarrow> (JStr (dp_jkt prf) = json_get cnf ''jkt'', db')))
      | _ \<Rightarrow> (True, db))"

section \<open>The token endpoint\<close>

definition verify_machine_client :: "machine_env \<Rightarrow> string \<Rightarrow> string \<Rightarrow> machine_db \<Rightarrow> machine_client option" where
  "verify_machine_client E cid secret db =
     (case find (\<lambda>c. mcl_client_id c = cid \<and> mcl_active c) (mm_clients db) of
        None \<Rightarrow> None
      | Some c \<Rightarrow> (if \<not> mv_checkpw E secret (mcl_secret_hash c) then None else Some c))"

definition update_machine_client_last_used :: "int \<Rightarrow> string \<Rightarrow> machine_db \<Rightarrow> machine_db" where
  "update_machine_client_last_used now cid db =
     update_clients (\<lambda>c. mcl_client_id c = cid) (\<lambda>c. c\<lparr> mcl_last_used := Some now \<rparr>) db"

definition granted_scopes :: "string \<Rightarrow> string \<Rightarrow> string option" where
  "granted_scopes requested registered =
     (if py_strip requested \<noteq> []
      then (if validate_scope_subset (py_strip requested) registered then Some (py_strip requested) else None)
      else Some registered)"

definition parsed_domains :: "machine_env \<Rightarrow> string option \<Rightarrow> string list option" where
  "parsed_domains E stored = (if truthy stored then mv_loads E (the stored) else None)"

definition validate_oidc_token :: "machine_env \<Rightarrow> int \<Rightarrow> string \<Rightarrow> trust_anchor \<Rightarrow> claims option option" where
  "validate_oidc_token E now token anchor =
     (if truthy (ta_static_jwks_pem anchor)
      then Some (mv_oidc_decode E now token (the (ta_static_jwks_pem anchor)) (ta_audience anchor) (ta_issuer anchor))
      else None)"

record token_req =
  tr_grant_type :: string
  tr_method :: string
  tr_uri :: string
  tr_dpop :: string
  tr_basic :: "(string \<times> string) option"
  tr_client_id :: string
  tr_client_secret :: string
  tr_scope :: string
  tr_subject_token :: string
  tr_subject_token_type :: string

datatype token_resp = TokenOk claims string string | TokenErr nat string | TokenRaised

definition request_credentials :: "token_req \<Rightarrow> string \<times> string" where
  "request_credentials req =
     (case tr_basic req of Some c \<Rightarrow> c | None \<Rightarrow> (py_strip (tr_client_id req), py_strip (tr_client_secret req)))"

definition client_credentials_grant ::
  "machine_env \<Rightarrow> int \<Rightarrow> token_req \<Rightarrow> string option \<Rightarrow> machine_db \<Rightarrow> token_resp \<times> machine_db" where
  "client_credentials_grant E now req jkt db =
     (let (cid, secret) = request_credentials req
      in if cid = [] \<or> secret = [] then (TokenErr 400 ''invalid_request'', db)
         else (case verify_machine_client E cid secret db of
                 None \<Rightarrow> (TokenErr 401 ''invalid_client'', db)
               | Some c \<Rightarrow>
                   (case granted_scopes (tr_scope req) (mcl_scopes c) of
                      None \<Rightarrow> (TokenErr 400 ''invalid_scope'', db)
                    | Some scopes \<Rightarrow>
                        (let domains = (case find (\<lambda>x. mcl_client_id x = mcl_client_id c \<and> mcl_active x) (mm_clients db) of
                                          None \<Rightarrow> None | Some r \<Rightarrow> parsed_domains E (mcl_allowed_domains r))
                         in (TokenOk (machine_claims (mv_jwt_cfg E) (mcl_client_id c) (mcl_tenant c) scopes jkt domains
                                        (now div 1000000) (mv_ttl E))
                               (if jkt = None then ''Bearer'' else ''DPoP'') scopes,
                             update_machine_client_last_used now (mcl_client_id c) db)))))"

definition token_exchange_grant ::
  "machine_env \<Rightarrow> int \<Rightarrow> token_req \<Rightarrow> string option \<Rightarrow> machine_db \<Rightarrow> token_resp \<times> machine_db" where
  "token_exchange_grant E now req jkt db =
     (let subject_token = py_strip (tr_subject_token req) in
      if subject_token = [] \<or> py_strip (tr_subject_token_type req) \<noteq> ''urn:ietf:params:oauth:token-type:jwt''
      then (TokenErr 400 ''invalid_request'', db)
      else (case mv_unverified E subject_token of
              None \<Rightarrow> (TokenErr 401 ''invalid_grant'', db)
            | Some unverified \<Rightarrow>
                (case json_get unverified ''iss'' of
                   JStr issuer \<Rightarrow>
                     (if issuer = [] then (TokenErr 401 ''invalid_grant'', db)
                      else (case find (\<lambda>a. ta_issuer a = issuer \<and> ta_active a) (mm_anchors db) of
                              None \<Rightarrow> (TokenErr 401 ''invalid_grant'', db)
                            | Some anchor \<Rightarrow>
                                (case validate_oidc_token E now subject_token anchor of
                                   None \<Rightarrow> (TokenRaised, db)
                                 | Some None \<Rightarrow> (TokenErr 401 ''invalid_grant'', db)
                                 | Some (Some payload) \<Rightarrow>
                                     (if payload = [] then (TokenErr 401 ''invalid_grant'', db) else
                                      case (if map_of payload ''sub'' = None then JStr [] else json_get payload ''sub'') of
                                        JStr subject \<Rightarrow>
                                          (if \<not> subject_matches_pattern subject (ta_subject_pattern anchor)
                                           then (TokenErr 401 ''invalid_grant'', db)
                                           else (case granted_scopes (tr_scope req) (ta_allowed_scopes anchor) of
                                                   None \<Rightarrow> (TokenErr 400 ''invalid_scope'', db)
                                                 | Some scopes \<Rightarrow>
                                                     (TokenOk (machine_claims (mv_jwt_cfg E) (''oidc:'' @ subject) (ta_tenant anchor)
                                                          scopes jkt (parsed_domains E (ta_allowed_domains anchor))
                                                          (now div 1000000) (mv_ttl E))
                                                        (if jkt = None then ''Bearer'' else ''DPoP'') scopes, db)))
                                      | _ \<Rightarrow> (TokenRaised, db)))))
                 | _ \<Rightarrow> (TokenErr 401 ''invalid_grant'', db))))"

definition token_endpoint :: "machine_env \<Rightarrow> int \<Rightarrow> token_req \<Rightarrow> machine_db \<Rightarrow> token_resp \<times> machine_db" where
  "token_endpoint E now req db0 =
     (let header = py_strip (tr_dpop req);
          (prf, db) = (if header = [] then (None, db0) else validate_proof E now header (tr_method req) (tr_uri req) db0)
      in if header \<noteq> [] \<and> prf = None then (TokenErr 400 ''invalid_request'', db)
         else (let jkt = map_option dp_jkt prf in
               if tr_grant_type req = ''client_credentials'' then client_credentials_grant E now req jkt db
               else if tr_grant_type req = ''urn:ietf:params:oauth:grant-type:token-exchange''
               then token_exchange_grant E now req jkt db
               else (TokenErr 400 ''unsupported_grant_type'', db)))"

section \<open>Legacy DNS tokens\<close>

record dns_token_row =
  dt_id :: nat
  dt_hash :: string
  dt_name :: string
  dt_team :: "nat option"
  dt_created_by :: "nat option"
  dt_active :: bool
  dt_expires :: "int option"
  dt_last_used :: "int option"

text \<open>The zones are the names and team ids of the zone table.\<close>

definition validate_dns_token ::
  "(string \<Rightarrow> string) \<Rightarrow> int \<Rightarrow> (string \<times> nat option) list \<Rightarrow> string \<Rightarrow> dns_token_row list \<Rightarrow>
   (nat \<times> nat option \<times> string list) option \<times> dns_token_row list" where
  "validate_dns_token sha256 now zones token tokens =
     (case find (\<lambda>r. dt_hash r = sha256 token \<and> dt_active r) tokens of
        None \<Rightarrow> (None, tokens)
      | Some r \<Rightarrow>
          (if (case dt_expires r of None \<Rightarrow> False | Some t \<Rightarrow> t < now) then (None, tokens)
           else (Some (dt_id r, dt_team r,
                       if dt_team r \<noteq> None \<and> dt_team r \<noteq> Some 0
                       then map fst (filter (\<lambda>z. snd z = dt_team r) zones) else []),
                 map (\<lambda>x. if dt_id x = dt_id r then x\<lparr> dt_last_used := Some now \<rparr> else x) tokens)))"

section \<open>Lemmas\<close>

text \<open>Globbing: a pattern without special characters matches itself alone, and a star splits the subject.\<close>

lemma glob_literal: "list_all (\<lambda>c. c \<notin> {CHR ''*'', CHR ''?'', CHR ''[''}) p \<Longrightarrow> glob_match p s \<longleftrightarrow> s = p"
proof (induction p arbitrary: s)
  case (Cons c p)
  then show ?case by (cases s) auto
qed simp

lemma glob_star: "glob_match (CHR ''*'' # p) s \<longleftrightarrow> (\<exists>u v. s = u @ v \<and> glob_match p v)"
proof (induction s)
  case Nil
  then show ?case by simp
next
  case (Cons x xs)
  have "glob_match (CHR ''*'' # p) (x # xs) \<longleftrightarrow> glob_match p (x # xs) \<or> (\<exists>u v. xs = u @ v \<and> glob_match p v)"
    using Cons by (subst glob_match.simps) simp
  also have "\<dots> \<longleftrightarrow> (\<exists>u v. x # xs = u @ v \<and> glob_match p v)"
    by (metis Cons_eq_append_conv append_Cons append_Nil)
  finally show ?case .
qed

lemma granted_scopes_subset:
  "granted_scopes requested registered = Some g \<Longrightarrow> set (py_words g) \<subseteq> set (py_words registered)"
  by (auto simp: granted_scopes_def validate_scope_subset_def py_words_def split: if_splits)

lemma validate_proof_Some:
  "validate_proof E now h m u db = (Some prf, db') \<Longrightarrow>
     proof_fields E now h m u = Some prf \<and> check_and_record_jti now (dp_jti prf) db = (True, db')"
  by (auto simp: validate_proof_def split: option.splits prod.splits bool.splits)

lemma validate_proof_frame: "mm_clients (snd (validate_proof E now h m u db)) = mm_clients db"
    "mm_anchors (snd (validate_proof E now h m u db)) = mm_anchors db"
  by (auto simp: validate_proof_def check_and_record_jti_def Let_def split: option.splits prod.splits bool.splits)

text \<open>What makes a grant good: the identity is registered and proved, and scopes, tenant and domains are those registered.\<close>

definition grant_source :: "machine_env \<Rightarrow> int \<Rightarrow> token_req \<Rightarrow> machine_db \<Rightarrow> string \<Rightarrow> string \<Rightarrow> string \<Rightarrow> string option \<Rightarrow> bool" where
  "grant_source E now req db cid tenant registered stored \<longleftrightarrow>
     (\<exists>c secret. request_credentials req = (cid, secret) \<and> c \<in> set (mm_clients db) \<and> mcl_active c \<and>
        mcl_client_id c = cid \<and> mv_checkpw E secret (mcl_secret_hash c) \<and>
        tenant = mcl_tenant c \<and> registered = mcl_scopes c \<and> stored = mcl_allowed_domains c) \<or>
     (\<exists>a payload subject pem. a \<in> set (mm_anchors db) \<and> ta_active a \<and> ta_static_jwks_pem a = Some pem \<and>
        mv_oidc_decode E now (py_strip (tr_subject_token req)) pem (ta_audience a) (ta_issuer a) = Some payload \<and>
        subject_matches_pattern subject (ta_subject_pattern a) \<and> cid = ''oidc:'' @ subject \<and>
        json_get payload ''sub'' \<in> {JStr subject, JNull} \<and>
        tenant = ta_tenant a \<and> registered = ta_allowed_scopes a \<and> stored = ta_allowed_domains a)"

lemma client_grant_claims:
  assumes "client_credentials_grant E now req jkt db = (TokenOk c ty scopes, db')" "request_credentials req = (cid, secret)"
  shows "\<exists>mc. verify_machine_client E cid secret db = Some mc \<and> granted_scopes (tr_scope req) (mcl_scopes mc) = Some scopes \<and>
    c = machine_claims (mv_jwt_cfg E) (mcl_client_id mc) (mcl_tenant mc) scopes jkt
      (parsed_domains E (mcl_allowed_domains mc)) (now div 1000000) (mv_ttl E)"
proof -
  from assms obtain mc where v: "verify_machine_client E cid secret db = Some mc"
    and g: "granted_scopes (tr_scope req) (mcl_scopes mc) = Some scopes"
    and d: "c = machine_claims (mv_jwt_cfg E) (mcl_client_id mc) (mcl_tenant mc) scopes jkt
       (case find (\<lambda>x. mcl_client_id x = mcl_client_id mc \<and> mcl_active x) (mm_clients db) of
          None \<Rightarrow> None | Some r \<Rightarrow> parsed_domains E (mcl_allowed_domains r)) (now div 1000000) (mv_ttl E)"
    by (auto simp: client_credentials_grant_def Let_def split: if_splits option.splits)
  from v have f: "find (\<lambda>x. mcl_client_id x = cid \<and> mcl_active x) (mm_clients db) = Some mc"
    by (auto simp: verify_machine_client_def split: option.splits if_splits)
  then have "mcl_client_id mc = cid" by (auto simp: find_Some_iff)
  then show ?thesis using v g d f by simp
qed

lemma client_grant_Ok:
  assumes "client_credentials_grant E now req jkt db = (TokenOk c ty scopes, db')"
  shows "\<exists>cid tenant registered stored. grant_source E now req db cid tenant registered stored \<and>
    set (py_words scopes) \<subseteq> set (py_words registered) \<and>
    c = machine_claims (mv_jwt_cfg E) cid tenant scopes jkt (parsed_domains E stored) (now div 1000000) (mv_ttl E)"
proof -
  obtain cid secret where cs: "request_credentials req = (cid, secret)" by fastforce
  obtain mc where v: "verify_machine_client E cid secret db = Some mc"
    and g: "granted_scopes (tr_scope req) (mcl_scopes mc) = Some scopes"
    and c: "c = machine_claims (mv_jwt_cfg E) (mcl_client_id mc) (mcl_tenant mc) scopes jkt
      (parsed_domains E (mcl_allowed_domains mc)) (now div 1000000) (mv_ttl E)"
    using client_grant_claims [OF assms cs] by blast
  from v have "mc \<in> set (mm_clients db)" "mcl_client_id mc = cid" "mcl_active mc" "mv_checkpw E secret (mcl_secret_hash mc)"
    by (auto simp: verify_machine_client_def find_Some_iff split: option.splits if_splits)
  then have "grant_source E now req db (mcl_client_id mc) (mcl_tenant mc) (mcl_scopes mc) (mcl_allowed_domains mc)"
    using cs by (auto simp: grant_source_def)
  then show ?thesis using granted_scopes_subset [OF g] c by blast
qed

lemma exchange_grant_Ok:
  assumes "token_exchange_grant E now req jkt db = (TokenOk c ty scopes, db')"
  shows "\<exists>cid tenant registered stored. grant_source E now req db cid tenant registered stored \<and>
    set (py_words scopes) \<subseteq> set (py_words registered) \<and>
    c = machine_claims (mv_jwt_cfg E) cid tenant scopes jkt (parsed_domains E stored) (now div 1000000) (mv_ttl E)"
proof -
  from assms obtain issuer anchor payload subject where
    a: "find (\<lambda>a. ta_issuer a = issuer \<and> ta_active a) (mm_anchors db) = Some anchor"
    and o: "validate_oidc_token E now (py_strip (tr_subject_token req)) anchor = Some (Some payload)"
    and s: "(if map_of payload ''sub'' = None then JStr [] else json_get payload ''sub'') = JStr subject"
      "subject_matches_pattern subject (ta_subject_pattern anchor)"
    and g: "granted_scopes (tr_scope req) (ta_allowed_scopes anchor) = Some scopes"
    and c: "c = machine_claims (mv_jwt_cfg E) (''oidc:'' @ subject) (ta_tenant anchor) scopes jkt
       (parsed_domains E (ta_allowed_domains anchor)) (now div 1000000) (mv_ttl E)"
    unfolding token_exchange_grant_def Let_def
    by (auto split: if_splits option.splits json.splits)
  have m: "anchor \<in> set (mm_anchors db)" "ta_active anchor" using a by (auto simp: find_Some_iff)
  obtain pem where "ta_static_jwks_pem anchor = Some pem"
    "mv_oidc_decode E now (py_strip (tr_subject_token req)) pem (ta_audience anchor) (ta_issuer anchor) = Some payload"
    using o by (cases "ta_static_jwks_pem anchor") (auto simp: validate_oidc_token_def split: if_splits)
  moreover have "json_get payload ''sub'' \<in> {JStr subject, JNull}" using s(1) by (auto simp: json_get_def split: if_splits)
  ultimately have "grant_source E now req db (''oidc:'' @ subject) (ta_tenant anchor) (ta_allowed_scopes anchor)
      (ta_allowed_domains anchor)"
    using m s(2) unfolding grant_source_def by blast
  with granted_scopes_subset [OF g] c show ?thesis by blast
qed

section \<open>What the token endpoint grants\<close>

text \<open>The key thumbprint a request binds its token to: none without a DPoP header, else that of a valid proof.\<close>

definition bound_key :: "machine_env \<Rightarrow> int \<Rightarrow> token_req \<Rightarrow> string option \<Rightarrow> bool" where
  "bound_key E now req jkt \<longleftrightarrow>
     (if py_strip (tr_dpop req) = [] then jkt = None
      else (\<exists>dpf. proof_fields E now (py_strip (tr_dpop req)) (tr_method req) (tr_uri req) = Some dpf \<and>
                  jkt = Some (dp_jkt dpf)))"

lemma grant_source_frame:
  "\<lbrakk> mm_clients db = mm_clients db'; mm_anchors db = mm_anchors db' \<rbrakk> \<Longrightarrow>
     grant_source E now req db cid tenant registered stored = grant_source E now req db' cid tenant registered stored"
  by (simp add: grant_source_def)

lemma token_endpoint_Ok:
  assumes "token_endpoint E now req db0 = (TokenOk c ty scopes, db')"
  shows "\<exists>cid tenant registered stored jkt. grant_source E now req db0 cid tenant registered stored \<and>
    set (py_words scopes) \<subseteq> set (py_words registered) \<and> bound_key E now req jkt \<and>
    c = machine_claims (mv_jwt_cfg E) cid tenant scopes jkt (parsed_domains E stored) (now div 1000000) (mv_ttl E)"
proof -
  obtain dpf db where pf: "(if py_strip (tr_dpop req) = [] then (None, db0)
      else validate_proof E now (py_strip (tr_dpop req)) (tr_method req) (tr_uri req) db0) = (dpf, db)" by fastforce
  have fr: "mm_clients db = mm_clients db0" "mm_anchors db = mm_anchors db0"
    using pf validate_proof_frame [of E now "py_strip (tr_dpop req)" "tr_method req" "tr_uri req" db0]
    by (auto split: if_splits)
  have some: "py_strip (tr_dpop req) = [] \<or> dpf \<noteq> None"
    using assms pf by (auto simp: token_endpoint_def Let_def split: if_splits)
  have bk: "bound_key E now req (map_option dp_jkt dpf)"
    using pf some validate_proof_Some by (auto simp: bound_key_def split: if_splits)
  have "client_credentials_grant E now req (map_option dp_jkt dpf) db = (TokenOk c ty scopes, db') \<or>
      token_exchange_grant E now req (map_option dp_jkt dpf) db = (TokenOk c ty scopes, db')"
    using assms pf by (auto simp: token_endpoint_def Let_def split: if_splits)
  then obtain cid tenant registered stored where "grant_source E now req db cid tenant registered stored"
    "set (py_words scopes) \<subseteq> set (py_words registered)"
    "c = machine_claims (mv_jwt_cfg E) cid tenant scopes (map_option dp_jkt dpf) (parsed_domains E stored) (now div 1000000) (mv_ttl E)"
    by (elim disjE) (drule client_grant_Ok, blast, drule exchange_grant_Ok, blast)
  then show ?thesis using bk fr grant_source_frame by blast
qed

text \<open>Every state the administration and the endpoint reach, and its invariant: registered scopes are known ones.\<close>

inductive machine_reach :: "machine_env \<Rightarrow> machine_db \<Rightarrow> bool" for E where
  init: "machine_reach E \<lparr> mm_clients = [], mm_anchors = [], mm_replay = [], mm_seq = 1, mm_anchor_seq = 1 \<rparr>"
| create: "machine_reach E db \<Longrightarrow> machine_reach E (snd (create_machine_client E user i k sc d t ds db))"
| update: "machine_reach E db \<Longrightarrow> machine_reach E (snd (update_machine_client E user n sco de act dso db))"
| delete: "machine_reach E db \<Longrightarrow> machine_reach E (snd (delete_machine_client user n db))"
| rotate: "machine_reach E db \<Longrightarrow> machine_reach E (snd (rotate_machine_client_secret E user n k db))"
| anchor: "machine_reach E db \<Longrightarrow> machine_reach E (snd (create_oidc_trust_anchor E user i a j p sc pat ds t db))"
| anchor_update: "machine_reach E db \<Longrightarrow> machine_reach E (snd (update_oidc_trust_anchor E user n sco pto act dso db))"
| anchor_delete: "machine_reach E db \<Longrightarrow> machine_reach E (snd (delete_oidc_trust_anchor user n db))"
| token: "machine_reach E db \<Longrightarrow> machine_reach E (snd (token_endpoint E now req db))"
| bound: "machine_reach E db \<Longrightarrow> machine_reach E (snd (dpop_bound_token E now payload h m u db))"

definition registered_ok :: "machine_db \<Rightarrow> bool" where
  "registered_ok db \<longleftrightarrow> list_all (\<lambda>c. scopes_registrable (mcl_scopes c)) (mm_clients db) \<and>
     list_all (\<lambda>a. scopes_registrable (ta_allowed_scopes a)) (mm_anchors db)"

lemma registered_ok_update:
  "\<lbrakk> registered_ok db; \<And>c. scopes_registrable (mcl_scopes c) \<Longrightarrow> scopes_registrable (mcl_scopes (f c)) \<rbrakk> \<Longrightarrow>
     registered_ok (update_clients P f db)"
  by (auto simp: registered_ok_def update_clients_def list_all_iff)

lemma admin_only_keeps: "\<lbrakk> I db; I (snd body) \<rbrakk> \<Longrightarrow> I (snd (admin_only user body db))"
  by (auto simp: admin_only_def split: outcome.splits)

lemma snd_update_last_used:
  "registered_ok db \<Longrightarrow> registered_ok (update_machine_client_last_used now cid db)"
  by (auto simp: update_machine_client_last_used_def intro!: registered_ok_update)

lemma registered_ok_token: "registered_ok db \<Longrightarrow> registered_ok (snd (token_endpoint E now req db))"
proof -
  assume ok: "registered_ok db"
  obtain dpf db1 where pf: "(if py_strip (tr_dpop req) = [] then (None, db)
      else validate_proof E now (py_strip (tr_dpop req)) (tr_method req) (tr_uri req) db) = (dpf, db1)" by fastforce
  have "registered_ok db1"
    using ok pf validate_proof_frame [of E now "py_strip (tr_dpop req)" "tr_method req" "tr_uri req" db]
    by (auto simp: registered_ok_def split: if_splits)
  moreover have "snd (client_credentials_grant E now req jkt db1) = db1 \<or>
      (\<exists>cid. snd (client_credentials_grant E now req jkt db1) = update_machine_client_last_used now cid db1)" for jkt
    by (auto simp: client_credentials_grant_def Let_def split: prod.splits option.splits)
  moreover have "snd (token_exchange_grant E now req jkt db1) = db1" for jkt
    by (auto simp: token_exchange_grant_def Let_def split: option.splits json.splits)
  ultimately show ?thesis
    using pf snd_update_last_used by (auto simp: token_endpoint_def Let_def split: if_splits) metis+
qed

lemma reach_registered_ok: "machine_reach E db \<Longrightarrow> registered_ok db"
proof (induction rule: machine_reach.induct)
  case (create db user i k sc d t ds)
  then show ?case unfolding create_machine_client_def
    by (intro admin_only_keeps [where I = registered_ok]) (auto simp: registered_ok_def Let_def)
next
  case (update db user n sco de act dso)
  then show ?case unfolding update_machine_client_def
    by (intro admin_only_keeps [where I = registered_ok]) (auto intro!: registered_ok_update split: option.splits)
next
  case (delete db user n)
  then show ?case unfolding delete_machine_client_def
    by (intro admin_only_keeps [where I = registered_ok]) (auto simp: registered_ok_def list_all_iff)
next
  case (rotate db user n k)
  then show ?case unfolding rotate_machine_client_secret_def
    by (intro admin_only_keeps [where I = registered_ok]) (auto intro!: registered_ok_update)
next
  case (anchor db user i a j p sc pat ds t)
  then show ?case unfolding create_oidc_trust_anchor_def
    by (intro admin_only_keeps [where I = registered_ok]) (auto simp: registered_ok_def)
next
  case (anchor_update db user n sco pto act dso)
  then show ?case unfolding update_oidc_trust_anchor_def
    by (intro admin_only_keeps [where I = registered_ok]) (auto simp: registered_ok_def list_all_iff split: option.splits)
next
  case (anchor_delete db user n)
  then show ?case unfolding delete_oidc_trust_anchor_def
    by (intro admin_only_keeps [where I = registered_ok]) (auto simp: registered_ok_def list_all_iff)
next
  case (token db now req)
  from token.IH show ?case by (rule registered_ok_token)
next
  case (bound db now payload h m u)
  have "registered_ok (snd (validate_proof E now h' m u db))" for h'
    using bound.IH by (simp add: registered_ok_def validate_proof_frame)
  then show ?case using bound.IH unfolding dpop_bound_token_def
    by (auto split: json.splits option.splits prod.splits) (metis snd_conv)+
qed (simp add: registered_ok_def)

lemma granted_scopes_known:
  assumes "machine_reach E db" "token_endpoint E now req db = (TokenOk c ty scopes, db')"
  shows "set (py_words scopes) \<subseteq> set all_valid_scopes \<and> json_get c ''scope'' = JStr scopes"
proof -
  obtain cid tenant registered stored jkt where g: "grant_source E now req db cid tenant registered stored"
    and s: "set (py_words scopes) \<subseteq> set (py_words registered)"
    and c: "c = machine_claims (mv_jwt_cfg E) cid tenant scopes jkt (parsed_domains E stored) (now div 1000000) (mv_ttl E)"
    using token_endpoint_Ok [OF assms(2)] by blast
  have "scopes_registrable registered"
    using g reach_registered_ok [OF assms(1)] by (auto simp: grant_source_def registered_ok_def list_all_iff)
  then show ?thesis using s c by (auto simp: scopes_registrable_def machine_claims_def json_get_def)
qed

section \<open>Replayed proofs\<close>

text \<open>A sequence of requests with DPoP proofs: time, proof, method and address; the proofs accepted, in order.\<close>

fun proofs_accepted :: "machine_env \<Rightarrow> (int \<times> string \<times> string \<times> string) list \<Rightarrow> machine_db \<Rightarrow> string list" where
  "proofs_accepted E [] db = []"
| "proofs_accepted E ((now, h, m, u) # rest) db =
     (case validate_proof E now h m u db of
        (None, db') \<Rightarrow> proofs_accepted E rest db'
      | (Some _, db') \<Rightarrow> h # proofs_accepted E rest db')"

lemma proof_fields_Some:
  assumes "proof_fields E now h m u = Some dpf"
  shows "\<exists>unverified. mv_unverified E h = Some unverified \<and> json_get unverified ''jti'' = JStr (dp_jti dpf) \<and>
    dp_iat dpf = (case json_get unverified ''iat'' of JInt i \<Rightarrow> i | JBool b \<Rightarrow> (if b then 1 else 0) | _ \<Rightarrow> 0) \<and>
    iat_within_skew now (dp_iat dpf)"
  using assms unfolding proof_fields_def
  by (auto split: if_splits option.splits json.splits)

text \<open>A proof is fresh for about two minutes, the replay table remembers its identifier for fifteen.\<close>

lemma proof_fields_stable:
  assumes "proof_fields E t h m u = Some d" "proof_fields E t' h m' u' = Some d'"
  shows "dp_jti d' = dp_jti d \<and> t' \<le> t + 900000000"
proof -
  have j: "dp_jti d' = dp_jti d" and i: "dp_iat d' = dp_iat d"
    using proof_fields_Some [OF assms(1)] proof_fields_Some [OF assms(2)] by auto
  have "t' div 1000000 - 60 \<le> dp_iat d" "dp_iat d \<le> t div 1000000 + 60"
    using proof_fields_Some [OF assms(1)] proof_fields_Some [OF assms(2)] i
    by (auto simp: iat_within_skew_def CLOCK_SKEW_SECONDS_def)
  then have "t' div 1000000 \<le> t div 1000000 + 120" by linarith
  then show ?thesis using j by linarith
qed

lemma validate_proof_keeps_entry:
  assumes "e \<in> set (mm_replay db)" "now \<le> snd e"
  shows "e \<in> set (mm_replay (snd (validate_proof E now h m u db)))"
  using assms by (auto simp: validate_proof_def check_and_record_jti_def Let_def split: option.splits)

lemma used_proof_rejected:
  assumes "proof_fields E t h m u = Some d" "(dp_jti d, t + 900000000) \<in> set (mm_replay db)" "now \<le> t + 900000000"
  shows "fst (validate_proof E now h m' u' db) = None"
proof (cases "proof_fields E now h m' u'")
  case (Some d')
  then have "dp_jti d' = dp_jti d" using proof_fields_stable assms(1) by blast
  then have "\<not> fst (check_and_record_jti now (dp_jti d') db)"
    using assms(2,3) by (auto simp: check_and_record_jti_def Let_def list_ex_iff intro: bexI [rotated])
  then show ?thesis by (auto simp: validate_proof_def Some split: prod.splits bool.splits)
qed (simp add: validate_proof_def)

lemma stale_proof_rejected:
  "\<lbrakk> proof_fields E t h m u = Some d; t + 900000000 < now \<rbrakk> \<Longrightarrow> fst (validate_proof E now h m' u' db) = None"
  using proof_fields_stable [of E t h m u d now m' u'] by (auto simp: validate_proof_def split: option.splits)

lemma used_proof_never_again:
  assumes "proof_fields E t h m u = Some d"
  shows "\<lbrakk> sorted (map fst reqs); list_all (\<lambda>r. t \<le> fst r) reqs;
      (dp_jti d, t + 900000000) \<in> set (mm_replay db) \<or> list_all (\<lambda>r. t + 900000000 < fst r) reqs \<rbrakk> \<Longrightarrow>
     h \<notin> set (proofs_accepted E reqs db)"
proof (induction reqs arbitrary: db)
  case (Cons r rest)
  obtain now h' m' u' where r: "r = (now, h', m', u')" by (cases r)
  obtain res db' where v: "validate_proof E now h' m' u' db = (res, db')" by fastforce
  have later: "list_all (\<lambda>q. now \<le> fst q) rest" using Cons.prems(1) r by (auto simp: list_all_iff)
  have "(dp_jti d, t + 900000000) \<in> set (mm_replay db') \<or> list_all (\<lambda>q. t + 900000000 < fst q) rest"
  proof (cases "now \<le> t + 900000000")
    case True
    then show ?thesis
      using Cons.prems(3) validate_proof_keeps_entry [of "(dp_jti d, t + 900000000)" db now E h' m' u'] v r by auto
  next
    case False
    then have "list_all (\<lambda>q. t + 900000000 < fst q) rest" using later by (fastforce simp: list_all_iff)
    then show ?thesis ..
  qed
  then have ih: "h \<notin> set (proofs_accepted E rest db')"
    using Cons.IH [of db'] Cons.prems(1,2) by simp
  have "h' = h \<Longrightarrow> res = None"
    using used_proof_rejected [OF assms, of db now m' u'] stale_proof_rejected [OF assms, of now m' u' db]
      Cons.prems(3) v r by (cases "now \<le> t + 900000000") auto
  then show ?case using ih v r by (cases res) auto
qed simp

text \<open>
  C8. A DPoP proof is accepted at most once: over any sequence of requests in the order of their times,
  whatever the replay table held before, no proof is accepted by two of them. The purge of expired
  entries never readmits one, since a proof is stale long before its entry is dropped.
\<close>

theorem dpop_proof_single_use:
  assumes "sorted (map fst reqs)"
  shows "distinct (proofs_accepted E reqs db)"
  using assms
proof (induction reqs arbitrary: db)
  case (Cons r rest)
  obtain now h m u where r: "r = (now, h, m, u)" by (cases r)
  obtain res db' where v: "validate_proof E now h m u db = (res, db')" by fastforce
  have ih: "distinct (proofs_accepted E rest db')" using Cons by simp
  show ?case
  proof (cases res)
    case (Some d)
    have p: "proof_fields E now h m u = Some d" "check_and_record_jti now (dp_jti d) db = (True, db')"
      using validate_proof_Some v Some by auto
    have "(dp_jti d, now + 900000000) \<in> set (mm_replay db')"
      using p(2) by (auto simp: check_and_record_jti_def Let_def split: if_splits)
    moreover have "list_all (\<lambda>q. now \<le> fst q) rest" using Cons.prems r by (auto simp: list_all_iff)
    ultimately have "h \<notin> set (proofs_accepted E rest db')"
      using used_proof_never_again [OF p(1)] Cons.prems by simp
    then show ?thesis using ih v r Some by simp
  qed (use ih v r in simp)
qed simp

text \<open>A concrete environment: a proof is its own identifier, issued at second 100 for \<^verbatim>\<open>POST /t\<close> and signed by an RSA key.\<close>

definition sample_env :: machine_env where
  "sample_env = \<lparr> mv_dumps = py_join CHR '' '', mv_loads = (\<lambda>s. if s = ''!'' then None else Some (py_words s)),
     mv_checkpw = (\<lambda>pw h. h = ''#'' @ pw), mv_hashpw = (\<lambda>pw. ''#'' @ pw),
     mv_unverified = (\<lambda>h. Some [(''htm'', JStr ''POST''), (''htu'', JStr ''/t''), (''iat'', JInt 100), (''jti'', JStr h)]),
     mv_header = (\<lambda>h. Some [(''typ'', JStr ''dpop+jwt''), (''alg'', JStr ''RS256''),
        (''jwk'', JObj [(''kty'', JStr ''RSA''), (''n'', JStr ''n''), (''e'', JStr ''e'')])]),
     mv_signed_by = (\<lambda>h k a. True), mv_oidc_decode = (\<lambda>now t k a i. None),
     mv_url_split = (\<lambda>u. Some ([], [], u)), mv_thumb = (\<lambda>c. ''thumb''),
     mv_jwt_cfg = \<lparr> JWT_AUDIENCE = ''squawk'', JWT_ISSUER = ''squawk'' \<rparr>, mv_ttl = 900 \<rparr>"

definition sample_db :: machine_db where
  "sample_db = \<lparr> mm_clients = [], mm_anchors = [], mm_replay = [], mm_seq = 1, mm_anchor_seq = 1 \<rparr>"

theorem dpop_proof_single_use_witness:
  "distinct (proofs_accepted sample_env [(100000000, ''p'', ''post'', ''/t''), (101000000, ''p'', ''POST'', ''/t''),
       (102000000, ''q'', ''POST'', ''/t''), (900000000, ''p'', ''POST'', ''/t'')] sample_db) \<and>
   proofs_accepted sample_env [(100000000, ''p'', ''post'', ''/t''), (101000000, ''p'', ''POST'', ''/t''),
       (102000000, ''q'', ''POST'', ''/t''), (900000000, ''p'', ''POST'', ''/t'')] sample_db = [''p'', ''q'']"
  using dpop_proof_single_use [of "[(100000000, ''p'', ''post'', ''/t''), (101000000, ''p'', ''POST'', ''/t''),
       (102000000, ''q'', ''POST'', ''/t''), (900000000, ''p'', ''POST'', ''/t'')]" sample_env sample_db]
  by (intro conjI) (simp, code_simp)

text \<open>
  C6. Every access token the endpoint grants, in every state the administration can reach, belongs to an
  active registered identity that the request proved (a machine client by its secret, a workload by a token
  verified against the trust anchor of its issuer whose subject pattern it meets). Its tenant and domains are those registered,
  its scopes are among those registered and among the scopes the Manager knows, and it is bound to the key of
  a valid DPoP proof exactly when the request carries a DPoP header.
\<close>

theorem token_grant_sound:
  assumes "machine_reach E db" "token_endpoint E now req db = (TokenOk c ty scopes, db')"
  shows "\<exists>cid tenant registered stored jkt. grant_source E now req db cid tenant registered stored \<and>
    set (py_words scopes) \<subseteq> set (py_words registered) \<and> set (py_words scopes) \<subseteq> set all_valid_scopes \<and>
    bound_key E now req jkt \<and>
    c = machine_claims (mv_jwt_cfg E) cid tenant scopes jkt (parsed_domains E stored) (now div 1000000) (mv_ttl E)"
  using token_endpoint_Ok [OF assms(2)] granted_scopes_known [OF assms] by blast

definition sample_user :: "current_user option" where
  "sample_user = Some \<lparr> cu_user_id = JInt 1, cu_username = JStr ''root'', cu_scope = JStr ''admin:super'', cu_global_role = JStr ''SystemAdmin'', cu_team_roles = [] \<rparr>"

definition sample_registered :: machine_db where
  "sample_registered = snd (create_machine_client sample_env sample_user ''x'' ''s'' ''zones:read teams:read'' ''d'' ''acme'' None sample_db)"

definition sample_request :: token_req where
  "sample_request = \<lparr> tr_grant_type = ''client_credentials'', tr_method = ''POST'', tr_uri = ''/t'', tr_dpop = ''p'',
     tr_basic = Some (''sqk_mc_x'', ''s''), tr_client_id = [], tr_client_secret = [], tr_scope = ''zones:read'',
     tr_subject_token = [], tr_subject_token_type = [] \<rparr>"

lemma sample_registered_reach: "machine_reach sample_env sample_registered"
  unfolding sample_registered_def sample_db_def by (intro machine_reach.create machine_reach.init)

lemma sample_grant:
  "fst (token_endpoint sample_env 100000000 sample_request sample_registered) =
     TokenOk (machine_claims (mv_jwt_cfg sample_env) ''sqk_mc_x'' ''acme'' ''zones:read'' (Some ''thumb'') None 100 900) ''DPoP'' ''zones:read''"
  by code_simp

theorem token_grant_sound_witness:
  "\<exists>cid tenant registered stored jkt. grant_source sample_env 100000000 sample_request sample_registered cid tenant registered stored \<and>
    set (py_words ''zones:read'') \<subseteq> set (py_words registered) \<and> set (py_words ''zones:read'') \<subseteq> set all_valid_scopes \<and>
    bound_key sample_env 100000000 sample_request jkt \<and>
    machine_claims (mv_jwt_cfg sample_env) ''sqk_mc_x'' ''acme'' ''zones:read'' (Some ''thumb'') None 100 900
      = machine_claims (mv_jwt_cfg sample_env) cid tenant ''zones:read'' jkt (parsed_domains sample_env stored) (100000000 div 1000000) (mv_ttl sample_env)"
proof -
  obtain db' where "token_endpoint sample_env 100000000 sample_request sample_registered =
     (TokenOk (machine_claims (mv_jwt_cfg sample_env) ''sqk_mc_x'' ''acme'' ''zones:read'' (Some ''thumb'') None 100 900) ''DPoP'' ''zones:read'', db')"
    using sample_grant by (metis prod.collapse)
  from token_grant_sound [OF sample_registered_reach this] show ?thesis .
qed

end
