(* ===== verification/Py_Regex.thy ===== *)
theory Py_Regex
  imports Ip_Address
begin

text \<open>
  The character classes and patterns of the standard library's \<^verbatim>\<open>re\<close> that more than one program uses: the label of
  a host name in \<^verbatim>\<open>manager/backend/app/utils/validators.py\<close> and in \<^verbatim>\<open>squawk-client/bins/client.py\<close>.
\<close>

definition is_letter :: "char \<Rightarrow> bool" where
  "is_letter c = (let n = (of_char c :: nat) in (65 \<le> n \<and> n \<le> 90) \<or> (97 \<le> n \<and> n \<le> 122))"

definition is_word_char :: "char \<Rightarrow> bool" where
  "is_word_char c \<longleftrightarrow> is_letter c \<or> is_digit c"

text \<open>\<^verbatim>\<open>re.match\<close> with a pattern that ends in \<^verbatim>\<open>$\<close>: a final newline is not looked at.\<close>

definition re_dollar :: "(string \<Rightarrow> bool) \<Rightarrow> string \<Rightarrow> bool" where
  "re_dollar p s \<longleftrightarrow> p s \<or> (s \<noteq> [] \<and> last s = CHR 0x0A \<and> p (butlast s))"

definition label_pattern :: "string \<Rightarrow> bool" where
  "label_pattern l \<longleftrightarrow>
     l \<noteq> [] \<and> length l \<le> 63 \<and> is_word_char (hd l) \<and> is_word_char (last l)
     \<and> list_all (\<lambda>c. is_word_char c \<or> c = CHR ''-'') l"

end
