(* ===== verification/Manager_Admin.thy ===== *)
theory Manager_Admin
  imports Manager_Config Manager_Machine Py_Regex
begin

text \<open>
  Administration of the Manager: the validators (\<^verbatim>\<open>manager/backend/app/utils/validators.py\<close>), the decorator for
  request bodies (\<^verbatim>\<open>utils/decorators.py\<close>) and the routes for users, teams, zones with their records, and
  DNS tokens (\<^verbatim>\<open>blueprints/users.py\<close>, \<^verbatim>\<open>teams.py\<close>, \<^verbatim>\<open>zones.py\<close>, \<^verbatim>\<open>tokens.py\<close>).

  A request body is a JSON object, \<open>None\<close> for a request without one; the caller is the user of a verified
  token, \<open>None\<close> when the token check failed. A member that goes into a column unchecked must have the
  column's type, otherwise the database raises. Tables are lists of rows in insertion order, and identifiers are
  not reused. bcrypt, SHA-256 and the parser of ISO dates are parameters. Times are microseconds.
\<close>

section \<open>State\<close>

record team_row =
  te_id :: nat
  te_name :: string
  te_description :: "string option"

record admin_db =
  ad_auth :: auth_db
  ad_teams :: "team_row list"
  ad_zones :: "dns_zone_row list"
  ad_records :: "dns_record_row list"
  ad_tokens :: "dns_token_row list"
  ad_seq :: nat

text \<open>\<open>ae_fk\<close> is whether the database enforces foreign keys, cascades included.\<close>

record admin_env =
  ae_hash_password :: "string \<Rightarrow> string option"
  ae_sha256 :: "string \<Rightarrow> string"
  ae_fromisoformat :: "string \<Rightarrow> int option"
  ae_fk :: bool

datatype admin_body =
    User_Body auth_user "(nat \<times> string option \<times> string) list"
  | Team_Body team_row nat
  | Members_Body "team_member list"
  | Member_Body nat string
  | Zone_Body dns_zone_row "dns_record_row list"
  | Record_Body dns_record_row
  | Records_Body "dns_record_row list"
  | Token_Body dns_token_row "string option"
  | Done_Body

text \<open>\<open>Crashed\<close> is an exception that no handler catches.\<close>

datatype 'b web_reply = Answered nat 'b | Refused nat | Crashed

type_synonym admin_reply = "admin_body web_reply"

section \<open>Validators\<close>

definition email_pattern :: "string \<Rightarrow> bool" where
  "email_pattern s =
     (case py_split CHR ''@'' s of
        [l, d] \<Rightarrow>
          (let parts = py_split dot d; tld = last parts
           in l \<noteq> [] \<and> list_all (\<lambda>c. is_word_char c \<or> c \<in> set ''._%+-'') l
              \<and> list_all (\<lambda>c. is_word_char c \<or> c \<in> set ''.-'') d
              \<and> 2 \<le> length parts \<and> length tld + 1 < length d
              \<and> 2 \<le> length tld \<and> list_all is_letter tld)
      | _ \<Rightarrow> False)"

text \<open>\<open>None\<close> is the exception for a value of the wrong type.\<close>

definition validate_email :: "json \<Rightarrow> bool option" where
  "validate_email j = (case j of JStr s \<Rightarrow> Some (re_dollar email_pattern s) | _ \<Rightarrow> None)"

definition py_len :: "json \<Rightarrow> nat option" where
  "py_len j = (case j of JStr s \<Rightarrow> Some (length s) | JList xs \<Rightarrow> Some (length xs) | JObj kvs \<Rightarrow> Some (length kvs) | _ \<Rightarrow> None)"

definition username_pattern :: "string \<Rightarrow> bool" where
  "username_pattern s \<longleftrightarrow> s \<noteq> [] \<and> list_all (\<lambda>c. is_word_char c \<or> c \<in> set ''_-'') s"

definition validate_username :: "json \<Rightarrow> bool option" where
  "validate_username j =
     (if \<not> json_truthy j then Some False
      else (case py_len j of
              None \<Rightarrow> None
            | Some n \<Rightarrow> (if n < 3 \<or> n > 50 then Some False
                       else (case j of JStr s \<Rightarrow> Some (re_dollar username_pattern s) | _ \<Rightarrow> None))))"

definition domain_name_ok :: "string \<Rightarrow> bool" where
  "domain_name_ok domain =
     list_all (\<lambda>l. l \<noteq> [] \<and> length l \<le> 63 \<and> re_dollar label_pattern l)
       (py_split dot (if py_endswith domain ''.'' then butlast domain else domain))"

definition validate_domain_name :: "json \<Rightarrow> bool option" where
  "validate_domain_name j =
     (if \<not> json_truthy j then Some False
      else (case py_len j of
              None \<Rightarrow> None
            | Some n \<Rightarrow> (if n > 253 then Some False
                       else (case j of JStr s \<Rightarrow> Some (domain_name_ok s) | _ \<Rightarrow> None))))"

definition dns_record_types :: "string list" where
  "dns_record_types = [''A'', ''AAAA'', ''CNAME'', ''MX'', ''TXT'', ''NS'', ''SOA'', ''PTR'', ''SRV'', ''CAA'']"

definition validate_dns_record_type :: "json \<Rightarrow> bool option" where
  "validate_dns_record_type j = (case j of JStr s \<Rightarrow> Some (py_upper s \<in> set dns_record_types) | _ \<Rightarrow> None)"

definition validate_ttl :: "json \<Rightarrow> bool option" where
  "validate_ttl j = (case j of JInt n \<Rightarrow> Some (0 \<le> n \<and> n \<le> 2147483647) | JBool b \<Rightarrow> Some True | _ \<Rightarrow> None)"

definition global_roles :: "string list" where
  "global_roles = [''SystemAdmin'', ''OrgAdmin'', ''UserManager'', ''Viewer'']"

definition team_roles_list :: "string list" where
  "team_roles_list = [''TeamAdmin'', ''TeamMember'', ''TeamViewer'']"

definition visibilities :: "string list" where
  "visibilities = [''public'', ''internal'', ''restricted'', ''private'']"

definition validate_global_role :: "json \<Rightarrow> bool" where
  "validate_global_role j \<longleftrightarrow> j \<in> JStr ` set global_roles"

definition validate_team_role :: "json \<Rightarrow> bool" where
  "validate_team_role j \<longleftrightarrow> j \<in> JStr ` set team_roles_list"

definition validate_visibility :: "json \<Rightarrow> bool" where
  "validate_visibility j \<longleftrightarrow> j \<in> JStr ` set visibilities"

definition validate_port :: "int \<Rightarrow> bool" where
  "validate_port port \<longleftrightarrow> 1 \<le> port \<and> port \<le> 65535"

definition sanitize_string :: "string option \<Rightarrow> nat option \<Rightarrow> string" where
  "sanitize_string value max_length =
     (if \<not> truthy value then []
      else (let sanitized = py_strip (the value) in
            case max_length of
              Some m \<Rightarrow> (if m \<noteq> 0 \<and> length sanitized > m then take m sanitized else sanitized)
            | None \<Rightarrow> sanitized))"

section \<open>Guards and columns\<close>

definition admin_guard :: "outcome \<Rightarrow> ('b web_reply \<times> 's) \<Rightarrow> 's \<Rightarrow> 'b web_reply \<times> 's" where
  "admin_guard verdict body db =
     (case verdict of Proceed \<Rightarrow> body | Denied n \<Rightarrow> (Refused n, db) | Raised \<Rightarrow> (Crashed, db))"

text \<open>\<^verbatim>\<open>@token_required\<close> alone, and a Boolean check inside a route.\<close>

definition signed_in :: "current_user option \<Rightarrow> outcome" where
  "signed_in user = (if user = None then Denied 401 else Proceed)"

definition or_403 :: "bool option \<Rightarrow> outcome" where
  "or_403 ok = (case ok of None \<Rightarrow> Raised | Some True \<Rightarrow> Proceed | Some False \<Rightarrow> Denied 403)"

definition or_400 :: "bool option \<Rightarrow> outcome" where
  "or_400 ok = (case ok of None \<Rightarrow> Raised | Some True \<Rightarrow> Proceed | Some False \<Rightarrow> Denied 400)"

type_synonym body = "(string \<times> json) list"

definition validate_json ::
  "string list \<Rightarrow> body option \<Rightarrow> (body \<Rightarrow> 'b web_reply \<times> 's) \<Rightarrow> 's \<Rightarrow> 'b web_reply \<times> 's" where
  "validate_json required_fields data f db =
     (case data of
        None \<Rightarrow> (Refused 400, db)
      | Some d \<Rightarrow> (if list_all (\<lambda>k. k \<in> fst ` set d) required_fields then f d else (Refused 400, db)))"

text \<open>\<^verbatim>\<open>request.get_json()\<close> in a route without the decorator: a request that is not JSON is answered 415.\<close>

definition get_json :: "body option \<Rightarrow> (body \<Rightarrow> 'b web_reply \<times> 's) \<Rightarrow> 's \<Rightarrow> 'b web_reply \<times> 's" where
  "get_json data f db = (case data of None \<Rightarrow> (Refused 415, db) | Some d \<Rightarrow> f d)"

text \<open>
  Values for columns: \<open>None\<close> where the type does not fit, which a database with typed columns refuses (SQLite would turn a
  number into its text).
\<close>

definition col_text :: "json \<Rightarrow> string option" where
  "col_text j = (case j of JStr s \<Rightarrow> Some s | _ \<Rightarrow> None)"

definition col_text_null :: "json \<Rightarrow> string option option" where
  "col_text_null j = (case j of JStr s \<Rightarrow> Some (Some s) | JNull \<Rightarrow> Some None | _ \<Rightarrow> None)"

definition col_int_null :: "json \<Rightarrow> int option option" where
  "col_int_null j = (case j of JInt i \<Rightarrow> Some (Some i) | JNull \<Rightarrow> Some None | _ \<Rightarrow> None)"

definition col_id_null :: "json \<Rightarrow> nat option option" where
  "col_id_null j = (case j of JInt i \<Rightarrow> (if 0 \<le> i then Some (Some (nat i)) else None) | JNull \<Rightarrow> Some None | _ \<Rightarrow> None)"

definition json_get_or :: "body \<Rightarrow> string \<Rightarrow> json \<Rightarrow> json" where
  "json_get_or d k v = (case map_of d k of None \<Rightarrow> v | Some x \<Rightarrow> x)"

definition has_key :: "body \<Rightarrow> string \<Rightarrow> bool" where
  "has_key d k \<longleftrightarrow> k \<in> fst ` set d"

text \<open>One member of an update: the old value stays when the member is absent.\<close>

definition patched :: "body \<Rightarrow> string \<Rightarrow> (json \<Rightarrow> 'a option) \<Rightarrow> 'a \<Rightarrow> 'a option" where
  "patched d k conv old = (if has_key d k then conv (json_get d k) else Some old)"

section \<open>Users\<close>

definition user_at :: "nat \<Rightarrow> admin_db \<Rightarrow> auth_user option" where
  "user_at i db = find (\<lambda>u. au_id u = i) (users (ad_auth db))"

definition set_users :: "(auth_user list \<Rightarrow> auth_user list) \<Rightarrow> admin_db \<Rightarrow> admin_db" where
  "set_users f db = db\<lparr> ad_auth := (ad_auth db)\<lparr> users := f (users (ad_auth db)) \<rparr> \<rparr>"

definition has_scope :: "json \<Rightarrow> string \<Rightarrow> bool option" where
  "has_scope scopes required_scope =
     (if \<not> json_truthy scopes then Some False
      else (case scopes of JStr s \<Rightarrow> Some (required_scope \<in> set (py_words s)) | _ \<Rightarrow> None))"

definition can_assign_role :: "current_user option \<Rightarrow> json \<Rightarrow> bool option" where
  "can_assign_role caller target_role =
     (case caller of
        None \<Rightarrow> None
      | Some u \<Rightarrow> (case has_scope (cu_scope u) ''users:admin'' of
                     None \<Rightarrow> None
                   | Some True \<Rightarrow> Some True
                   | Some False \<Rightarrow> Some (target_role \<in> {cu_global_role u, JStr ''Viewer''})))"

definition create_user :: "admin_env \<Rightarrow> current_user option \<Rightarrow> body option \<Rightarrow> admin_db \<Rightarrow> admin_reply \<times> admin_db" where
  "create_user E user data db =
     admin_guard (requires_scope [''users:write''] user)
      (validate_json [''username'', ''email'', ''password'', ''global_role''] data (\<lambda>d.
        admin_guard (or_400 (validate_username (json_get d ''username'')))
         (admin_guard (or_400 (validate_email (json_get d ''email'')))
          (admin_guard (or_400 (Some (validate_global_role (json_get d ''global_role''))))
           (admin_guard (or_403 (can_assign_role user (json_get d ''global_role'')))
             (case (col_text (json_get d ''username''), col_text (json_get d ''email''), col_text (json_get d ''global_role'')) of
                (Some n, Some e, Some r) \<Rightarrow>
                  (if list_ex (\<lambda>u. au_username u = n) (users (ad_auth db)) then (Refused 409, db)
                   else if list_ex (\<lambda>u. au_email u = e) (users (ad_auth db)) then (Refused 409, db)
                   else (case Option.bind (col_text (json_get d ''password'')) (ae_hash_password E) of
                           None \<Rightarrow> (Crashed, db)
                         | Some h \<Rightarrow>
                             (let u = \<lparr> au_id = ad_seq db, au_username = n, au_email = e, au_active = True,
                                        au_password_hash = Some h, au_global_role = r, au_failed_login_count = Some 0,
                                        au_locked_until = None \<rparr>
                              in (Answered 201 (User_Body u []), (set_users (\<lambda>us. us @ [u]) db)\<lparr> ad_seq := ad_seq db + 1 \<rparr>))))
              | _ \<Rightarrow> (Crashed, db)) db) db) db) db) db) db"

text \<open>The memberships of a user with the names of the teams.\<close>

definition user_memberships :: "nat \<Rightarrow> admin_db \<Rightarrow> (nat \<times> string option \<times> string) list" where
  "user_memberships i db =
     map (\<lambda>m. (tm_team_id m, map_option te_name (find (\<lambda>t. te_id t = tm_team_id m) (ad_teams db)), tm_role m))
       (filter (\<lambda>m. tm_user_id m = i) (team_members (ad_auth db)))"

definition get_user :: "current_user option \<Rightarrow> nat \<Rightarrow> admin_db \<Rightarrow> admin_reply \<times> admin_db" where
  "get_user user i db =
     admin_guard (requires_scope [''users:write''] user)
       (case user_at i db of
          None \<Rightarrow> (Refused 404, db) | Some u \<Rightarrow> (Answered 200 (User_Body u (user_memberships i db)), db)) db"

text \<open>An address that another user has breaks the unique constraint.\<close>

definition update_user_route :: "current_user option \<Rightarrow> nat \<Rightarrow> body option \<Rightarrow> admin_db \<Rightarrow> admin_reply \<times> admin_db" where
  "update_user_route user i data db =
     admin_guard (requires_scope [''users:write''] user)
       (case user_at i db of
          None \<Rightarrow> (Refused 404, db)
        | Some u \<Rightarrow>
            get_json data (\<lambda>d.
              admin_guard (if has_key d ''email'' then or_400 (validate_email (json_get d ''email'')) else Proceed)
               (admin_guard (if has_key d ''global_role''
                             then or_400 (Some (validate_global_role (json_get d ''global_role''))) else Proceed)
                 (admin_guard (if has_key d ''global_role''
                               then or_403 (can_assign_role user (json_get d ''global_role'')) else Proceed)
                   (case (patched d ''email'' col_text (au_email u), patched d ''global_role'' col_text (au_global_role u)) of
                      (Some e, Some r) \<Rightarrow>
                        (if has_key d ''email'' \<and> list_ex (\<lambda>x. au_id x \<noteq> i \<and> au_email x = e) (users (ad_auth db)) then (Crashed, db)
                         else (let u' = u\<lparr> au_email := e, au_global_role := r,
                                          au_active := (if has_key d ''active'' then json_truthy (json_get d ''active'')
                                                        else au_active u) \<rparr>
                               in (Answered 200 (User_Body u' []), set_users (map (\<lambda>x. if au_id x = i then u' else x)) db)))
                    | _ \<Rightarrow> (Crashed, db)) db) db) db) db) db"

definition delete_user :: "current_user option \<Rightarrow> nat \<Rightarrow> admin_db \<Rightarrow> admin_reply \<times> admin_db" where
  "delete_user user i db =
     admin_guard (requires_scope [''users:admin''] user)
       (case user_at i db of
          None \<Rightarrow> (Refused 404, db)
        | Some _ \<Rightarrow> (Answered 200 Done_Body,
                      set_users (map (\<lambda>x. if au_id x = i then x\<lparr> au_active := False \<rparr> else x)) db)) db"

section \<open>Teams\<close>

definition team_at :: "nat \<Rightarrow> admin_db \<Rightarrow> team_row option" where
  "team_at i db = find (\<lambda>t. te_id t = i) (ad_teams db)"

definition member_count :: "nat \<Rightarrow> admin_db \<Rightarrow> nat" where
  "member_count i db = length (filter (\<lambda>m. tm_team_id m = i) (team_members (ad_auth db)))"

definition set_members :: "(team_member list \<Rightarrow> team_member list) \<Rightarrow> admin_db \<Rightarrow> admin_db" where
  "set_members f db = db\<lparr> ad_auth := (ad_auth db)\<lparr> team_members := f (team_members (ad_auth db)) \<rparr> \<rparr>"

definition create_team :: "current_user option \<Rightarrow> body option \<Rightarrow> admin_db \<Rightarrow> admin_reply \<times> admin_db" where
  "create_team user data db =
     admin_guard (requires_scope [''teams:write''] user)
      (validate_json [''name''] data (\<lambda>d.
        case (col_text (json_get d ''name''), col_text_null (json_get_or d ''description'' (JStr []))) of
          (Some n, Some descr) \<Rightarrow>
            (if list_ex (\<lambda>t. te_name t = n) (ad_teams db) then (Refused 409, db)
             else (let t = \<lparr> te_id = ad_seq db, te_name = n, te_description = descr \<rparr>
                   in (Answered 201 (Team_Body t 0), db\<lparr> ad_teams := ad_teams db @ [t], ad_seq := ad_seq db + 1 \<rparr>)))
        | _ \<Rightarrow> (Crashed, db)) db) db"

definition get_team :: "current_user option \<Rightarrow> nat \<Rightarrow> admin_db \<Rightarrow> admin_reply \<times> admin_db" where
  "get_team user i db =
     admin_guard (signed_in user)
      (admin_guard (or_403 (can_access_team user i))
        (case team_at i db of
           None \<Rightarrow> (Refused 404, db) | Some t \<Rightarrow> (Answered 200 (Team_Body t (member_count i db)), db)) db) db"

definition update_team :: "current_user option \<Rightarrow> nat \<Rightarrow> body option \<Rightarrow> admin_db \<Rightarrow> admin_reply \<times> admin_db" where
  "update_team user i data db =
     admin_guard (requires_team_role [''TeamAdmin''] (Some i) user)
       (case team_at i db of
          None \<Rightarrow> (Refused 404, db)
        | Some t \<Rightarrow>
            get_json data (\<lambda>d.
              case (patched d ''name'' col_text (te_name t), patched d ''description'' col_text_null (te_description t)) of
                (Some n, Some descr) \<Rightarrow>
                  (if has_key d ''name'' \<and> list_ex (\<lambda>x. te_name x = n \<and> te_id x \<noteq> i) (ad_teams db) then (Refused 409, db)
                   else (let t' = t\<lparr> te_name := n, te_description := descr \<rparr>
                         in (Answered 200 (Team_Body t' 0),
                             db\<lparr> ad_teams := map (\<lambda>x. if te_id x = i then t' else x) (ad_teams db) \<rparr>)))
              | _ \<Rightarrow> (Crashed, db)) db) db"

text \<open>With foreign keys enforced, the memberships, zones (with their records) and tokens of a team go with it.\<close>

definition cascade_team :: "nat \<Rightarrow> admin_db \<Rightarrow> admin_db" where
  "cascade_team i db =
     (let gone = map dz_id (filter (\<lambda>z. dz_team_id z = Some i) (ad_zones db))
      in (set_members (filter (\<lambda>m. tm_team_id m \<noteq> i)) db)
           \<lparr> ad_zones := filter (\<lambda>z. dz_team_id z \<noteq> Some i) (ad_zones db),
             ad_records := filter (\<lambda>r. dr_zone_id r \<notin> set gone) (ad_records db),
             ad_tokens := filter (\<lambda>t. dt_team t \<noteq> Some i) (ad_tokens db) \<rparr>)"

definition delete_team :: "admin_env \<Rightarrow> current_user option \<Rightarrow> nat \<Rightarrow> admin_db \<Rightarrow> admin_reply \<times> admin_db" where
  "delete_team E user i db =
     admin_guard (requires_scope [''teams:write''] user)
       (case team_at i db of
          None \<Rightarrow> (Refused 404, db)
        | Some _ \<Rightarrow>
            (let db' = (if ae_fk E then cascade_team i db else db)
             in (Answered 200 Done_Body, db'\<lparr> ad_teams := filter (\<lambda>t. te_id t \<noteq> i) (ad_teams db') \<rparr>))) db"

definition list_team_members :: "current_user option \<Rightarrow> nat \<Rightarrow> admin_db \<Rightarrow> admin_reply \<times> admin_db" where
  "list_team_members user i db =
     admin_guard (signed_in user)
      (admin_guard (or_403 (can_access_team user i))
        (Answered 200 (Members_Body (filter (\<lambda>m. tm_team_id m = i) (team_members (ad_auth db)))), db) db) db"

definition is_member :: "nat \<Rightarrow> nat \<Rightarrow> admin_db \<Rightarrow> bool" where
  "is_member i u db = list_ex (\<lambda>m. tm_team_id m = i \<and> tm_user_id m = u) (team_members (ad_auth db))"

text \<open>A user identifier that is no natural number finds no user.\<close>

definition add_team_member :: "admin_env \<Rightarrow> current_user option \<Rightarrow> nat \<Rightarrow> body option \<Rightarrow> admin_db \<Rightarrow> admin_reply \<times> admin_db" where
  "add_team_member E user i data db =
     admin_guard (requires_team_role [''TeamAdmin''] (Some i) user)
      (validate_json [''user_id'', ''role''] data (\<lambda>d.
        admin_guard (or_400 (Some (validate_team_role (json_get d ''role''))))
          (case (col_id_null (json_get d ''user_id''), col_text (json_get d ''role'')) of
             (Some (Some u), Some r) \<Rightarrow>
               (if user_at u db = None then (Refused 404, db)
                else if is_member i u db then (Refused 409, db)
                else if ae_fk E \<and> team_at i db = None then (Crashed, db)
                else (Answered 201 (Member_Body u r),
                      set_members (\<lambda>ms. ms @ [\<lparr> tm_team_id = i, tm_user_id = u, tm_role = r \<rparr>]) db))
           | _ \<Rightarrow> (Refused 404, db)) db) db) db"

definition update_team_member_role ::
  "current_user option \<Rightarrow> nat \<Rightarrow> nat \<Rightarrow> body option \<Rightarrow> admin_db \<Rightarrow> admin_reply \<times> admin_db" where
  "update_team_member_role user i u data db =
     admin_guard (requires_team_role [''TeamAdmin''] (Some i) user)
      (get_json data (\<lambda>d.
        if \<not> has_key d ''role'' then (Refused 400, db)
        else admin_guard (or_400 (Some (validate_team_role (json_get d ''role''))))
          (case col_text (json_get d ''role'') of
             None \<Rightarrow> (Crashed, db)
           | Some r \<Rightarrow>
               (if \<not> is_member i u db then (Refused 404, db)
                else (Answered 200 (Member_Body u r),
                      set_members (map (\<lambda>m. if tm_team_id m = i \<and> tm_user_id m = u then m\<lparr> tm_role := r \<rparr> else m)) db))) db) db) db"

definition remove_team_member :: "current_user option \<Rightarrow> nat \<Rightarrow> nat \<Rightarrow> admin_db \<Rightarrow> admin_reply \<times> admin_db" where
  "remove_team_member user i u db =
     admin_guard (requires_team_role [''TeamAdmin''] (Some i) user)
       (if \<not> is_member i u db then (Refused 404, db)
        else (Answered 200 Done_Body, set_members (filter (\<lambda>m. \<not> (tm_team_id m = i \<and> tm_user_id m = u))) db)) db"

section \<open>Zones and records\<close>

definition zone_at :: "nat \<Rightarrow> admin_db \<Rightarrow> dns_zone_row option" where
  "zone_at i db = find (\<lambda>z. dz_id z = i) (ad_zones db)"

definition record_at :: "nat \<Rightarrow> admin_db \<Rightarrow> dns_record_row option" where
  "record_at i db = find (\<lambda>r. dr_id r = i) (ad_records db)"

definition zone_records_of :: "nat \<Rightarrow> admin_db \<Rightarrow> dns_record_row list" where
  "zone_records_of i db = sort_key dr_name (filter (\<lambda>r. dr_zone_id r = i) (ad_records db))"

text \<open>\<^verbatim>\<open>team_id is not None and not can_access_team(team_id)\<close>, negated.\<close>

definition may_use_team :: "current_user option \<Rightarrow> nat option \<Rightarrow> bool option" where
  "may_use_team user team = (case team of None \<Rightarrow> Some True | Some t \<Rightarrow> can_access_team user t)"

definition team_missing :: "admin_env \<Rightarrow> nat option \<Rightarrow> admin_db \<Rightarrow> bool" where
  "team_missing E team db \<longleftrightarrow> ae_fk E \<and> (case team of None \<Rightarrow> False | Some t \<Rightarrow> team_at t db = None)"

definition create_zone :: "admin_env \<Rightarrow> current_user option \<Rightarrow> body option \<Rightarrow> admin_db \<Rightarrow> admin_reply \<times> admin_db" where
  "create_zone E user data db =
     admin_guard (requires_scope [''zones:write''] user)
      (validate_json [''name'', ''visibility''] data (\<lambda>d.
        admin_guard (or_400 (validate_domain_name (json_get d ''name'')))
         (admin_guard (or_400 (Some (validate_visibility (json_get d ''visibility''))))
           (case (col_text (json_get d ''name''), col_text (json_get d ''visibility''), col_id_null (json_get d ''team_id'')) of
              (Some n, Some v, Some team) \<Rightarrow>
                admin_guard (or_403 (may_use_team user team))
                  (if list_ex (\<lambda>z. dz_name z = n) (ad_zones db) then (Refused 409, db)
                   else (case col_text_null (json_get_or d ''description'' (JStr [])) of
                           None \<Rightarrow> (Crashed, db)
                         | Some descr \<Rightarrow>
                             (if team_missing E team db then (Crashed, db)
                              else (let z = \<lparr> dz_id = ad_seq db, dz_name = n, dz_visibility = v, dz_team_id = team,
                                              dz_description = descr \<rparr>
                                    in (Answered 201 (Zone_Body z []),
                                        db\<lparr> ad_zones := ad_zones db @ [z], ad_seq := ad_seq db + 1 \<rparr>))))) db
            | _ \<Rightarrow> (Crashed, db)) db) db) db) db"

definition get_zone :: "current_user option \<Rightarrow> nat \<Rightarrow> admin_db \<Rightarrow> admin_reply \<times> admin_db" where
  "get_zone user i db =
     admin_guard (signed_in user)
      (admin_guard (or_403 (check_zone_access (ad_zones db) user i))
        (case zone_at i db of
           None \<Rightarrow> (Refused 404, db) | Some z \<Rightarrow> (Answered 200 (Zone_Body z (zone_records_of i db)), db)) db) db"

text \<open>The guards all routes share that change a zone or its records.\<close>

definition zone_writer ::
  "string \<Rightarrow> current_user option \<Rightarrow> nat \<Rightarrow> (admin_reply \<times> admin_db) \<Rightarrow> admin_db \<Rightarrow> admin_reply \<times> admin_db" where
  "zone_writer scope user i body db =
     admin_guard (requires_scope [scope] user)
       (admin_guard (or_403 (check_zone_write_access (ad_zones db) user i)) body db) db"

definition update_zone :: "admin_env \<Rightarrow> current_user option \<Rightarrow> nat \<Rightarrow> body option \<Rightarrow> admin_db \<Rightarrow> admin_reply \<times> admin_db" where
  "update_zone E user i data db =
     zone_writer ''zones:write'' user i
       (case zone_at i db of
          None \<Rightarrow> (Refused 404, db)
        | Some z \<Rightarrow>
            get_json data (\<lambda>d.
              admin_guard (if has_key d ''visibility'' then or_400 (Some (validate_visibility (json_get d ''visibility''))) else Proceed)
               (case (patched d ''visibility'' col_text (dz_visibility z), patched d ''description'' col_text_null (dz_description z),
                      patched d ''team_id'' col_id_null (dz_team_id z)) of
                  (Some v, Some descr, Some team) \<Rightarrow>
                    admin_guard (if has_key d ''team_id'' then or_403 (may_use_team user team) else Proceed)
                      (if has_key d ''team_id'' \<and> team_missing E team db then (Crashed, db)
                       else (let z' = z\<lparr> dz_visibility := v, dz_description := descr, dz_team_id := team \<rparr>
                             in (Answered 200 (Zone_Body z' []),
                                 db\<lparr> ad_zones := map (\<lambda>x. if dz_id x = i then z' else x) (ad_zones db) \<rparr>))) db
                | _ \<Rightarrow> (Crashed, db)) db) db) db"

definition delete_zone :: "admin_env \<Rightarrow> current_user option \<Rightarrow> nat \<Rightarrow> admin_db \<Rightarrow> admin_reply \<times> admin_db" where
  "delete_zone E user i db =
     zone_writer ''zones:admin'' user i
       (case zone_at i db of
          None \<Rightarrow> (Refused 404, db)
        | Some _ \<Rightarrow>
            (Answered 200 Done_Body,
             db\<lparr> ad_zones := filter (\<lambda>z. dz_id z \<noteq> i) (ad_zones db),
                 ad_records := (if ae_fk E then filter (\<lambda>r. dr_zone_id r \<noteq> i) (ad_records db) else ad_records db) \<rparr>)) db"

definition list_zone_records :: "current_user option \<Rightarrow> nat \<Rightarrow> admin_db \<Rightarrow> admin_reply \<times> admin_db" where
  "list_zone_records user i db =
     admin_guard (signed_in user)
      (admin_guard (or_403 (check_zone_access (ad_zones db) user i))
        (Answered 200 (Records_Body (zone_records_of i db)), db) db) db"

definition col_ttl :: "json \<Rightarrow> int" where
  "col_ttl j = (case j of JInt n \<Rightarrow> n | JBool True \<Rightarrow> 1 | _ \<Rightarrow> 0)"

definition create_dns_record ::
  "admin_env \<Rightarrow> current_user option \<Rightarrow> nat \<Rightarrow> body option \<Rightarrow> admin_db \<Rightarrow> admin_reply \<times> admin_db" where
  "create_dns_record E user i data db =
     admin_guard (requires_scope [''zones:write''] user)
      (validate_json [''name'', ''type'', ''value''] data (\<lambda>d.
        admin_guard (or_403 (check_zone_write_access (ad_zones db) user i))
         (admin_guard (or_400 (validate_dns_record_type (json_get d ''type'')))
          (admin_guard (or_400 (validate_ttl (json_get_or d ''ttl'' (JInt 300))))
            (case (col_text (json_get d ''name''), col_text (json_get d ''type''), col_text (json_get d ''value''),
                   col_int_null (json_get d ''priority''), col_int_null (json_get d ''weight''), col_int_null (json_get d ''port'')) of
               (Some n, Some t, Some v, Some p, Some w, Some pt) \<Rightarrow>
                 (if ae_fk E \<and> zone_at i db = None then (Crashed, db)
                  else (let r = \<lparr> dr_id = ad_seq db, dr_zone_id = i, dr_name = n, dr_type = py_upper t, dr_value = v,
                                  dr_ttl = Some (col_ttl (json_get_or d ''ttl'' (JInt 300))), dr_priority = p,
                                  dr_weight = w, dr_port = pt \<rparr>
                        in (Answered 201 (Record_Body r), db\<lparr> ad_records := ad_records db @ [r], ad_seq := ad_seq db + 1 \<rparr>)))
             | _ \<Rightarrow> (Crashed, db)) db) db) db) db) db"

definition update_dns_record ::
  "current_user option \<Rightarrow> nat \<Rightarrow> nat \<Rightarrow> body option \<Rightarrow> admin_db \<Rightarrow> admin_reply \<times> admin_db" where
  "update_dns_record user i j data db =
     zone_writer ''zones:write'' user i
       (case record_at j db of
          None \<Rightarrow> (Refused 404, db)
        | Some r \<Rightarrow>
            (if dr_zone_id r \<noteq> i then (Refused 404, db)
             else get_json data (\<lambda>d.
               admin_guard (if has_key d ''ttl'' then or_400 (validate_ttl (json_get d ''ttl'')) else Proceed)
                (case (patched d ''value'' col_text (dr_value r), patched d ''priority'' col_int_null (dr_priority r),
                       patched d ''weight'' col_int_null (dr_weight r), patched d ''port'' col_int_null (dr_port r)) of
                   (Some v, Some p, Some w, Some pt) \<Rightarrow>
                     (let r' = r\<lparr> dr_value := v, dr_priority := p, dr_weight := w, dr_port := pt,
                                  dr_ttl := (if has_key d ''ttl'' then Some (col_ttl (json_get d ''ttl'')) else dr_ttl r) \<rparr>
                      in (Answered 200 (Record_Body r'),
                          db\<lparr> ad_records := map (\<lambda>x. if dr_id x = j then r' else x) (ad_records db) \<rparr>))
                 | _ \<Rightarrow> (Crashed, db)) db) db)) db"

definition delete_dns_record :: "current_user option \<Rightarrow> nat \<Rightarrow> nat \<Rightarrow> admin_db \<Rightarrow> admin_reply \<times> admin_db" where
  "delete_dns_record user i j db =
     zone_writer ''zones:write'' user i
       (case record_at j db of
          None \<Rightarrow> (Refused 404, db)
        | Some r \<Rightarrow>
            (if dr_zone_id r \<noteq> i then (Refused 404, db)
             else (Answered 200 Done_Body, db\<lparr> ad_records := filter (\<lambda>x. dr_id x \<noteq> j) (ad_records db) \<rparr>))) db"

section \<open>DNS tokens\<close>

definition token_at :: "nat \<Rightarrow> admin_db \<Rightarrow> dns_token_row option" where
  "token_at i db = find (\<lambda>t. dt_id t = i) (ad_tokens db)"

definition update_token_row :: "nat \<Rightarrow> (dns_token_row \<Rightarrow> dns_token_row) \<Rightarrow> admin_db \<Rightarrow> admin_db" where
  "update_token_row i f db = db\<lparr> ad_tokens := map (\<lambda>t. if dt_id t = i then f t else t) (ad_tokens db) \<rparr>"

definition can_manage_token :: "dns_token_row \<Rightarrow> current_user option \<Rightarrow> bool option" where
  "can_manage_token tok user =
     (if dt_team tok \<noteq> None \<and> dt_team tok \<noteq> Some 0 then can_access_team user (the (dt_team tok))
      else Some (case user of None \<Rightarrow> False | Some u \<Rightarrow> cu_global_role u = JStr ''SystemAdmin''))"

text \<open>
  The expiry of a body: the outer \<open>None\<close> is an uncaught exception, \<open>Some None\<close> the \<^verbatim>\<open>ValueError\<close> that is
  answered 400. A final Z is read as a zero offset; the parser is given the text with every Z replaced.
\<close>

definition replace_z :: "string \<Rightarrow> string" where
  "replace_z s = concat (map (\<lambda>c. if c = CHR ''Z'' then ''+00:00'' else [c]) s)"

definition parse_expiry :: "admin_env \<Rightarrow> json \<Rightarrow> int option option" where
  "parse_expiry E j = (case j of JStr s \<Rightarrow> Some (ae_fromisoformat E (replace_z s)) | _ \<Rightarrow> None)"

definition expiry_field :: "admin_env \<Rightarrow> body \<Rightarrow> int option \<Rightarrow> int option option option" where
  "expiry_field E d old =
     (if \<not> has_key d ''expires_at'' then Some (Some old)
      else map_option (map_option Some) (parse_expiry E (json_get d ''expires_at'')))"

definition create_token ::
  "admin_env \<Rightarrow> string \<Rightarrow> current_user option \<Rightarrow> body option \<Rightarrow> admin_db \<Rightarrow> admin_reply \<times> admin_db" where
  "create_token E token_value user data db =
     admin_guard (signed_in user)
      (validate_json [''name''] data (\<lambda>d.
        case col_id_null (json_get d ''team_id'') of
          None \<Rightarrow> (Crashed, db)
        | Some team \<Rightarrow>
            admin_guard (if team \<noteq> None \<and> team \<noteq> Some 0 then or_403 (can_access_team user (the team)) else Proceed)
              (case expiry_field E d None of
                 None \<Rightarrow> (Crashed, db)
               | Some None \<Rightarrow> (Refused 400, db)
               | Some (Some expires) \<Rightarrow>
                   (case (col_text (json_get d ''name''), Option.bind user (\<lambda>u. col_id_null (cu_user_id u))) of
                      (Some n, Some creator) \<Rightarrow>
                        (if list_ex (\<lambda>t. dt_hash t = ae_sha256 E token_value) (ad_tokens db) \<or> team_missing E team db
                            \<or> (ae_fk E \<and> (case creator of None \<Rightarrow> False | Some c \<Rightarrow> user_at c db = None)) then (Crashed, db)
                         else (let t = \<lparr> dt_id = ad_seq db, dt_hash = ae_sha256 E token_value, dt_name = n, dt_team = team,
                                         dt_created_by = creator, dt_active = True, dt_expires = expires, dt_last_used = None \<rparr>
                               in (Answered 201 (Token_Body t (Some token_value)),
                                   db\<lparr> ad_tokens := ad_tokens db @ [t], ad_seq := ad_seq db + 1 \<rparr>)))
                    | _ \<Rightarrow> (Crashed, db))) db) db) db"

text \<open>The start of every route on one token: it must exist and be the caller's to manage.\<close>

definition token_manager ::
  "current_user option \<Rightarrow> nat \<Rightarrow> (dns_token_row \<Rightarrow> admin_reply \<times> admin_db) \<Rightarrow> admin_db \<Rightarrow> admin_reply \<times> admin_db" where
  "token_manager user i f db =
     admin_guard (signed_in user)
       (case token_at i db of
          None \<Rightarrow> (Refused 404, db) | Some t \<Rightarrow> admin_guard (or_403 (can_manage_token t user)) (f t) db) db"

definition get_token :: "current_user option \<Rightarrow> nat \<Rightarrow> admin_db \<Rightarrow> admin_reply \<times> admin_db" where
  "get_token user i db = token_manager user i (\<lambda>t. (Answered 200 (Token_Body t None), db)) db"

definition update_token :: "admin_env \<Rightarrow> current_user option \<Rightarrow> nat \<Rightarrow> body option \<Rightarrow> admin_db \<Rightarrow> admin_reply \<times> admin_db" where
  "update_token E user i data db =
     token_manager user i (\<lambda>t.
       get_json data (\<lambda>d.
         case expiry_field E d (dt_expires t) of
           None \<Rightarrow> (Crashed, db)
         | Some None \<Rightarrow> (Refused 400, db)
         | Some (Some expires) \<Rightarrow>
             (case patched d ''name'' col_text (dt_name t) of
                None \<Rightarrow> (Crashed, db)
              | Some n \<Rightarrow>
                  (let t' = t\<lparr> dt_name := n, dt_expires := expires,
                               dt_active := (if has_key d ''active'' then json_truthy (json_get d ''active'') else dt_active t) \<rparr>
                   in (Answered 200 (Token_Body t' None), update_token_row i (\<lambda>_. t') db)))) db) db"

definition delete_token :: "current_user option \<Rightarrow> nat \<Rightarrow> admin_db \<Rightarrow> admin_reply \<times> admin_db" where
  "delete_token user i db =
     token_manager user i (\<lambda>t. (Answered 200 Done_Body, db\<lparr> ad_tokens := filter (\<lambda>x. dt_id x \<noteq> i) (ad_tokens db) \<rparr>)) db"

definition revoke_token :: "current_user option \<Rightarrow> nat \<Rightarrow> admin_db \<Rightarrow> admin_reply \<times> admin_db" where
  "revoke_token user i db =
     token_manager user i (\<lambda>t. (Answered 200 Done_Body, update_token_row i (\<lambda>x. x\<lparr> dt_active := False \<rparr>) db)) db"

definition regenerate_token ::
  "admin_env \<Rightarrow> string \<Rightarrow> current_user option \<Rightarrow> nat \<Rightarrow> admin_db \<Rightarrow> admin_reply \<times> admin_db" where
  "regenerate_token E new_value user i db =
     token_manager user i (\<lambda>t.
       if list_ex (\<lambda>x. dt_id x \<noteq> i \<and> dt_hash x = ae_sha256 E new_value) (ad_tokens db) then (Crashed, db)
       else (Answered 200 (Token_Body (t\<lparr> dt_hash := ae_sha256 E new_value \<rparr>) (Some new_value)),
             update_token_row i (\<lambda>x. x\<lparr> dt_hash := ae_sha256 E new_value \<rparr>) db)) db"

section \<open>What the operations change\<close>

lemma admin_guard_change:
  "\<lbrakk> admin_guard v b db = (r, db'); db' \<noteq> db \<rbrakk> \<Longrightarrow> v = Proceed \<and> b = (r, db')"
  by (auto simp: admin_guard_def split: outcome.splits)

lemma admin_guard_answer:
  "admin_guard v b db = (Answered n x, db') \<Longrightarrow> v = Proceed \<and> b = (Answered n x, db')"
  by (auto simp: admin_guard_def split: outcome.splits)

lemma validate_json_change:
  "\<lbrakk> validate_json ks data f db = (r, db'); db' \<noteq> db \<rbrakk> \<Longrightarrow> \<exists>d. data = Some d \<and> f d = (r, db')"
  by (auto simp: validate_json_def split: option.splits if_splits)

lemma get_json_change:
  "\<lbrakk> get_json data f db = (r, db'); db' \<noteq> db \<rbrakk> \<Longrightarrow> \<exists>d. data = Some d \<and> f d = (r, db')"
  by (auto simp: get_json_def split: option.splits)

text \<open>An invariant through the decorators and branches of a handler.\<close>

lemma guard_inv: "\<lbrakk> P db; v = Proceed \<Longrightarrow> P (snd b) \<rbrakk> \<Longrightarrow> P (snd (admin_guard v b db))"
  by (simp add: admin_guard_def split: outcome.split)

lemma validate_inv:
  "\<lbrakk> P db; \<And>d. list_all (\<lambda>k. k \<in> fst ` set d) ks \<Longrightarrow> P (snd (f d)) \<rbrakk> \<Longrightarrow> P (snd (validate_json ks data f db))"
  by (simp add: validate_json_def split: option.split)

lemma get_inv: "\<lbrakk> P db; \<And>d. P (snd (f d)) \<rbrakk> \<Longrightarrow> P (snd (get_json data f db))"
  by (simp add: get_json_def split: option.split)

lemma find_inv: "\<lbrakk> P (snd a); \<And>x. m = Some x \<Longrightarrow> P (snd (f x)) \<rbrakk> \<Longrightarrow> P (snd (case m of None \<Rightarrow> a | Some x \<Rightarrow> f x))"
  by (cases m) simp_all

lemma let_inv: "(\<And>x. P (snd (f x))) \<Longrightarrow> P (snd (Let a f))"
  by simp

lemma or_simps [simp]:
  "or_400 ok = Proceed \<longleftrightarrow> ok = Some True" "or_403 ok = Proceed \<longleftrightarrow> ok = Some True"
  "signed_in user = Proceed \<longleftrightarrow> user \<noteq> None"
  by (auto simp: or_400_def or_403_def signed_in_def split: option.splits bool.splits)

lemma if_Proceed [simp]: "(if c then v else Proceed) = Proceed \<longleftrightarrow> (c \<longrightarrow> v = Proceed)"
  by simp

lemma patched_Some: "patched d k conv old = Some v \<longleftrightarrow> (if has_key d k then conv (json_get d k) = Some v else v = old)"
  by (auto simp: patched_def)

lemma col_text_Some [simp]: "col_text j = Some s \<longleftrightarrow> j = JStr s"
  by (auto simp: col_text_def split: json.splits)

lemmas change_dests = admin_guard_change validate_json_change get_json_change

lemma create_user_change:
  assumes "create_user E user data db = (r, db')" "db' \<noteq> db"
  obtains u where "db' = (set_users (\<lambda>us. us @ [u]) db)\<lparr> ad_seq := ad_seq db + 1 \<rparr>" "au_id u = ad_seq db"
    "\<forall>x\<in>set (users (ad_auth db)). au_username x \<noteq> au_username u \<and> au_email x \<noteq> au_email u"
    "au_global_role u \<in> set global_roles" "can_assign_role user (JStr (au_global_role u)) = Some True"
    "requires_scope [''users:write''] user = Proceed"
  using assms unfolding create_user_def
  by (auto dest!: change_dests simp: Let_def validate_global_role_def list_ex_iff split: option.splits if_splits)

lemma update_user_change:
  assumes "update_user_route user i data db = (r, db')" "db' \<noteq> db"
  obtains u u' where "user_at i db = Some u" "db' = set_users (map (\<lambda>x. if au_id x = i then u' else x)) db"
    "au_id u' = au_id u" "au_username u' = au_username u"
    "au_email u' = au_email u \<or> (\<forall>x\<in>set (users (ad_auth db)). au_id x \<noteq> i \<longrightarrow> au_email x \<noteq> au_email u')"
    "au_global_role u' = au_global_role u \<or>
       au_global_role u' \<in> set global_roles \<and> can_assign_role user (JStr (au_global_role u')) = Some True"
    "requires_scope [''users:write''] user = Proceed"
proof -
  obtain u where u: "user_at i db = Some u" and scope: "requires_scope [''users:write''] user = Proceed"
    using assms unfolding update_user_route_def by (auto dest!: change_dests split: option.splits)
  let ?new = "\<lambda>d e rl. u\<lparr> au_email := e, au_global_role := rl, au_active :=
       (if has_key d ''active'' then json_truthy (json_get d ''active'') else au_active u) \<rparr>"
  obtain d e rl where f: "patched d ''email'' col_text (au_email u) = Some e" "patched d ''global_role'' col_text (au_global_role u) = Some rl"
    and v: "has_key d ''global_role'' \<longrightarrow> validate_global_role (json_get d ''global_role'') \<and>
       can_assign_role user (json_get d ''global_role'') = Some True"
    and b: "(if has_key d ''email'' \<and> list_ex (\<lambda>x. au_id x \<noteq> i \<and> au_email x = e) (users (ad_auth db)) then (Crashed, db)
       else (let u' = ?new d e rl
             in (Answered 200 (User_Body u' []), set_users (map (\<lambda>x. if au_id x = i then u' else x)) db))) = (r, db')"
    using assms u unfolding update_user_route_def by (auto dest!: change_dests split: option.splits)
  have n: "\<not> (has_key d ''email'' \<and> list_ex (\<lambda>x. au_id x \<noteq> i \<and> au_email x = e) (users (ad_auth db)))"
    using b assms(2) by (auto simp del: list_ex_iff split: if_splits)
  have x: "db' = set_users (map (\<lambda>x. if au_id x = i then ?new d e rl else x)) db"
    using b unfolding if_not_P [OF n] by (simp add: Let_def)
  have y: "e = au_email u \<or> (\<forall>x\<in>set (users (ad_auth db)). au_id x \<noteq> i \<longrightarrow> au_email x \<noteq> e)"
    "rl = au_global_role u \<or> rl \<in> set global_roles \<and> can_assign_role user (JStr rl) = Some True"
    using n f v by (auto simp: patched_Some list_ex_iff validate_global_role_def split: if_splits)
  show thesis by (rule that [OF u x]) (use y scope in auto)
qed

lemma delete_user_change:
  assumes "delete_user user i db = (r, db')" "db' \<noteq> db"
  shows "db' = set_users (map (\<lambda>x. if au_id x = i then x\<lparr> au_active := False \<rparr> else x)) db"
  using assms unfolding delete_user_def by (auto dest!: change_dests split: option.splits)

lemma find_replace: "\<lbrakk> find (\<lambda>x. k x = i) xs = Some t; k t' = i \<rbrakk> \<Longrightarrow>
    find (\<lambda>x. k x = i) (map (\<lambda>x. if k x = i then t' else x) xs) = Some t'"
  by (induction xs) (auto split: if_splits)

lemma users_set_users [simp]: "users (ad_auth (set_users f db)) = f (users (ad_auth db))"
  by (simp add: set_users_def)

section \<open>Roles\<close>

datatype user_cmd =
    Create_User "body option"
  | Update_User nat "body option"
  | Delete_User nat

fun user_step :: "admin_env \<Rightarrow> current_user option \<times> user_cmd \<Rightarrow> admin_db \<Rightarrow> admin_reply \<times> admin_db" where
  "user_step E (caller, Create_User data) db = create_user E caller data db"
| "user_step E (caller, Update_User i data) db = update_user_route caller i data db"
| "user_step E (caller, Delete_User i) db = delete_user caller i db"

text \<open>The roles a caller without \<^verbatim>\<open>users:admin\<close> can give.\<close>

definition plain_caller :: "string set \<Rightarrow> current_user option \<Rightarrow> bool" where
  "plain_caller R caller \<longleftrightarrow>
     (\<exists>u. caller = Some u \<and> has_scope (cu_scope u) ''users:admin'' = Some False \<and> cu_global_role u \<in> JStr ` R)"

lemma plain_can_assign:
  "\<lbrakk> plain_caller R caller; can_assign_role caller (JStr r) = Some True \<rbrakk> \<Longrightarrow> r \<in> R \<union> {''Viewer''}"
  by (auto simp: plain_caller_def can_assign_role_def)

lemma user_step_roles:
  assumes "plain_caller R (fst c)" "user_step E c db = (r, db')" "x \<in> set (users (ad_auth db'))"
  shows "(\<exists>y\<in>set (users (ad_auth db)). au_id y = au_id x \<and> au_global_role y = au_global_role x)
    \<or> au_global_role x \<in> R \<union> {''Viewer''}"
proof (cases "db' = db")
  case False
  obtain caller cmd where c: "c = (caller, cmd)" by fastforce
  show ?thesis
  proof (cases cmd)
    case (Create_User data)
    with assms(2) c have "create_user E caller data db = (r, db')" by simp
    from create_user_change [OF this False] obtain u where
      "db' = (set_users (\<lambda>us. us @ [u]) db)\<lparr> ad_seq := ad_seq db + 1 \<rparr>" "can_assign_role caller (JStr (au_global_role u)) = Some True"
      by metis
    then show ?thesis using assms(1,3) c plain_can_assign [of R caller] by (auto simp: set_users_def)
  next
    case (Update_User i data)
    with assms(2) c have e: "update_user_route caller i data db = (r, db')" by simp
    from e False obtain u u' where
      u: "user_at i db = Some u" "db' = set_users (map (\<lambda>x. if au_id x = i then u' else x)) db" "au_id u' = au_id u"
        "au_global_role u' = au_global_role u \<or> can_assign_role caller (JStr (au_global_role u')) = Some True"
      by (rule update_user_change) blast
    from u(1) have "u \<in> set (users (ad_auth db))" by (auto simp: user_at_def dest: find_SomeD)
    then show ?thesis using u assms(1,3) c plain_can_assign [of R caller "au_global_role u'"]
      by (auto split: if_splits)
  next
    case (Delete_User i)
    with assms(2) c have "delete_user caller i db = (r, db')" by simp
    from delete_user_change [OF this False] show ?thesis using assms(3) by (auto split: if_splits)
  qed
qed (use assms(3) in blast)

text \<open>
  C12. Nobody is promoted without \<^verbatim>\<open>users:admin\<close>: over any sequence of user operations by callers who lack this
  scope, every account keeps the role it had, or has a role one of the callers has, or is a viewer.
\<close>

theorem no_role_escalation:
  assumes "\<forall>c\<in>set cmds. plain_caller R (fst c)" "run_cmds (user_step E) cmds db = (rs, db')"
    and "x \<in> set (users (ad_auth db'))"
  shows "(\<exists>y\<in>set (users (ad_auth db)). au_id y = au_id x \<and> au_global_role y = au_global_role x)
    \<or> au_global_role x \<in> R \<union> {''Viewer''}"
  using assms
proof (induction cmds arbitrary: db rs)
  case (Cons c cmds)
  obtain r db1 where s: "user_step E c db = (r, db1)" by fastforce
  obtain rs' db2 where t: "run_cmds (user_step E) cmds db1 = (rs', db2)" by fastforce
  have e: "db2 = db'" using Cons.prems(2) s t by simp
  have "(\<exists>y\<in>set (users (ad_auth db1)). au_id y = au_id x \<and> au_global_role y = au_global_role x)
    \<or> au_global_role x \<in> R \<union> {''Viewer''}"
    using Cons.IH [of db1 rs'] Cons.prems(1,3) t e by simp
  moreover have "plain_caller R (fst c)" using Cons.prems(1) by simp
  ultimately show ?case using user_step_roles [OF _ s] by metis
qed auto

text \<open>
  Though deleting an account takes \<^verbatim>\<open>users:admin\<close>, a user manager, who may not delete, demotes and
  deactivates any account by an update, administrators included: the role check looks only at the new role.
\<close>

theorem user_manager_disables_anyone:
  assumes "token_user (access_claims cfg tenant uid name (Some ''UserManager'') teams now life) = user"
    and "user_at i db = Some target"
  shows "delete_user user i db = (Refused 403, db)
    \<and> (\<exists>db'. update_user_route user i (Some [(''global_role'', JStr ''Viewer''), (''active'', JBool False)]) db =
          (Answered 200 (User_Body (target\<lparr> au_global_role := ''Viewer'', au_active := False \<rparr>) []), db')
        \<and> user_at i db' = Some (target\<lparr> au_global_role := ''Viewer'', au_active := False \<rparr>))"
proof -
  obtain ss where ss: "user_scopes user = Some ss" "set ss = set (role_bundle (Some ''UserManager''))"
    using user_scopes_access [OF assms(1)] by blast
  have sc: "''users:write'' \<in> set ss" "''users:admin'' \<notin> set ss"
    unfolding ss(2) by code_simp+
  obtain w where u: "user = Some w" "cu_scope w = JStr (scope_string (Some ''UserManager''))"
    using assms(1) by (auto simp: token_user_access)
  have "has_scope (JStr (scope_string (Some ''UserManager''))) ''users:admin'' = Some False" by code_simp
  then have ca: "can_assign_role user (JStr ''Viewer'') = Some True"
    using u by (simp add: can_assign_role_def)
  have "delete_user user i db = (Refused 403, db)"
    using u ss(1) sc by (auto simp: delete_user_def admin_guard_def requires_scope_def)
  moreover have w: "requires_scope [''users:write''] user = Proceed"
    using u ss(1) sc by (auto simp: requires_scope_def)
  let ?t = "target\<lparr> au_global_role := ''Viewer'', au_active := False \<rparr>"
  let ?db' = "set_users (map (\<lambda>x. if au_id x = i then ?t else x)) db"
  have "update_user_route user i (Some [(''global_role'', JStr ''Viewer''), (''active'', JBool False)]) db =
      (Answered 200 (User_Body ?t []), ?db')"
    by (simp add: update_user_route_def w assms(2) admin_guard_def get_json_def has_key_def json_get_def or_400_def or_403_def ca
        validate_global_role_def global_roles_def patched_def col_text_def Let_def)
  moreover have "au_id target = i" using assms(2) by (auto simp: user_at_def dest: find_SomeD)
  then have "user_at i ?db' = Some ?t"
    using assms(2) by (simp add: user_at_def find_replace)
  ultimately show ?thesis by blast
qed

section \<open>Zones of other teams\<close>

datatype zone_cmd =
    Create_Zone "body option"
  | Update_Zone nat "body option"
  | Delete_Zone nat
  | Create_Record nat "body option"
  | Update_Record nat nat "body option"
  | Delete_Record nat nat

fun zone_step :: "admin_env \<Rightarrow> current_user option \<times> zone_cmd \<Rightarrow> admin_db \<Rightarrow> admin_reply \<times> admin_db" where
  "zone_step E (user, Create_Zone data) db = create_zone E user data db"
| "zone_step E (user, Update_Zone i data) db = update_zone E user i data db"
| "zone_step E (user, Delete_Zone i) db = delete_zone E user i db"
| "zone_step E (user, Create_Record i data) db = create_dns_record E user i data db"
| "zone_step E (user, Update_Record i j data) db = update_dns_record user i j data db"
| "zone_step E (user, Delete_Record i j) db = delete_dns_record user i j db"

definition zones_ok :: "admin_db \<Rightarrow> bool" where
  "zones_ok db \<longleftrightarrow> distinct (map dz_id (ad_zones db)) \<and> distinct (map dz_name (ad_zones db)) \<and> distinct (map dr_id (ad_records db))
     \<and> (\<forall>z\<in>set (ad_zones db). dz_id z < ad_seq db) \<and> (\<forall>r\<in>set (ad_records db). dr_id r < ad_seq db)"

text \<open>A caller who may not write zone \<open>i\<close>.\<close>

lemma zone_writer_change:
  assumes "zone_writer scope user i body db = (r, db')" "db' \<noteq> db"
  shows "check_zone_write_access (ad_zones db) user i = Some True \<and> body = (r, db')"
  using assms by (auto simp: zone_writer_def dest!: change_dests)

lemma write_access_team:
  assumes "check_zone_write_access (ad_zones db) user i = Some True" "zones_ok db" "z \<in> set (ad_zones db)" "dz_team_id z = Some t"
    and "can_access_team user t = Some False"
  shows "dz_id z \<noteq> i"
proof
  assume "dz_id z = i"
  moreover have "y = z" if "y \<in> set (ad_zones db)" "dz_id y = dz_id z" for y
    using assms(2,3) that unfolding zones_ok_def distinct_map by (metis inj_onD)
  ultimately have "find_zone (ad_zones db) i = Some z"
    unfolding find_zone_def by (metis (mono_tags, lifting) assms(3) find_NoneD find_SomeD option.exhaust)
  then show False using assms(1,4,5)
    by (auto simp: check_zone_write_access_def can_access_team_def split: if_splits option.splits bool.splits)
qed

text \<open>How the two tables change.\<close>

lemma create_zone_change:
  assumes "create_zone E user data db = (r, db')" "db' \<noteq> db"
  obtains z where "db' = db\<lparr> ad_zones := ad_zones db @ [z], ad_seq := ad_seq db + 1 \<rparr>" "dz_id z = ad_seq db"
    "\<forall>y\<in>set (ad_zones db). dz_name y \<noteq> dz_name z" "dz_visibility z \<in> set visibilities"
    "validate_domain_name (JStr (dz_name z)) = Some True" "may_use_team user (dz_team_id z) = Some True"
  using assms unfolding create_zone_def
  by (auto dest!: change_dests simp: Let_def validate_visibility_def list_ex_iff split: option.splits if_splits)

lemma update_zone_change:
  assumes "update_zone E user i data db = (r, db')" "db' \<noteq> db"
  obtains z z' where "zone_at i db = Some z" "db' = db\<lparr> ad_zones := map (\<lambda>x. if dz_id x = i then z' else x) (ad_zones db) \<rparr>"
    "dz_id z' = dz_id z" "dz_name z' = dz_name z" "check_zone_write_access (ad_zones db) user i = Some True"
    "dz_visibility z' = dz_visibility z \<or> dz_visibility z' \<in> set visibilities"
    "dz_team_id z' = dz_team_id z \<or> may_use_team user (dz_team_id z') = Some True"
  using assms unfolding update_zone_def
  by (auto dest!: change_dests zone_writer_change simp: Let_def patched_Some validate_visibility_def split: option.splits if_splits)

lemma delete_zone_change:
  assumes "delete_zone E user i db = (r, db')" "db' \<noteq> db"
  shows "check_zone_write_access (ad_zones db) user i = Some True"
    "ad_zones db' = filter (\<lambda>z. dz_id z \<noteq> i) (ad_zones db)" "ad_seq db' = ad_seq db"
    "ad_records db' = (if ae_fk E then filter (\<lambda>r. dr_zone_id r \<noteq> i) (ad_records db) else ad_records db)"
  using assms unfolding delete_zone_def by (auto dest!: change_dests zone_writer_change split: option.splits)

lemma create_record_change:
  assumes "create_dns_record E user i data db = (r, db')" "db' \<noteq> db"
  obtains x where "db' = db\<lparr> ad_records := ad_records db @ [x], ad_seq := ad_seq db + 1 \<rparr>" "dr_id x = ad_seq db"
    "dr_zone_id x = i" "check_zone_write_access (ad_zones db) user i = Some True"
    "dr_type x \<in> set dns_record_types"
  using assms unfolding create_dns_record_def
  by (auto dest!: change_dests simp: Let_def validate_dns_record_type_def split: option.splits if_splits)

lemma update_record_change:
  assumes "update_dns_record user i j data db = (r, db')" "db' \<noteq> db"
  obtains x x' where "record_at j db = Some x" "dr_zone_id x = i"
    "db' = db\<lparr> ad_records := map (\<lambda>y. if dr_id y = j then x' else y) (ad_records db) \<rparr>"
    "dr_id x' = dr_id x" "dr_zone_id x' = i"
    "check_zone_write_access (ad_zones db) user i = Some True"
  using assms unfolding update_dns_record_def
  by (auto dest!: change_dests zone_writer_change simp: Let_def split: option.splits if_splits)

lemma delete_record_change:
  assumes "delete_dns_record user i j db = (r, db')" "db' \<noteq> db"
  obtains x where "record_at j db = Some x" "dr_zone_id x = i"
    "db' = db\<lparr> ad_records := filter (\<lambda>y. dr_id y \<noteq> j) (ad_records db) \<rparr>"
    "check_zone_write_access (ad_zones db) user i = Some True"
  using assms unfolding delete_dns_record_def by (auto dest!: change_dests zone_writer_change split: option.splits if_splits)

lemma create_record_answer:
  assumes "create_dns_record E user i data db = (Answered n (Record_Body x), db')"
  shows "ad_records db' = ad_records db @ [x]" "ad_zones db' = ad_zones db" "dr_zone_id x = i" "dr_ttl x \<noteq> None"
  using assms unfolding create_dns_record_def
  by (auto dest!: admin_guard_answer simp: Let_def validate_json_def split: option.splits if_splits)

lemma zone_step_ok:
  assumes "zones_ok db" "zone_step E c db = (r, db')"
  shows "zones_ok db'"
proof (cases "db' = db")
  case False
  obtain user cmd where c: "c = (user, cmd)" by fastforce
  show ?thesis
  proof (cases cmd)
    case (Create_Zone data)
    with assms(2) c have "create_zone E user data db = (r, db')" by simp
    from this False show ?thesis by (rule create_zone_change) (use assms(1) in \<open>auto simp: zones_ok_def dest: less_SucI\<close>)
  next
    case (Update_Zone i data)
    with assms(2) c have "update_zone E user i data db = (r, db')" by simp
    from this False obtain z z' where z: "zone_at i db = Some z"
      "db' = db\<lparr> ad_zones := map (\<lambda>x. if dz_id x = i then z' else x) (ad_zones db) \<rparr>" "dz_id z' = dz_id z" "dz_name z' = dz_name z"
      by (rule update_zone_change) blast
    have zi: "z \<in> set (ad_zones db)" "dz_id z = i" using z(1) by (auto simp: zone_at_def dest: find_SomeD)
    have same: "y = z" if "y \<in> set (ad_zones db)" "dz_id y = i" for y
      using assms(1) zi that unfolding zones_ok_def distinct_map by (metis inj_onD)
    have "map dz_id (ad_zones db') = map dz_id (ad_zones db)" "map dz_name (ad_zones db') = map dz_name (ad_zones db)"
      using z(3,4) zi(2) same by (auto simp: z(2))
    then show ?thesis using assms(1) zi z(3) by (auto simp: zones_ok_def z(2) simp del: map_map)
  next
    case (Delete_Zone i)
    with assms(2) c have "delete_zone E user i db = (r, db')" by simp
    from delete_zone_change [OF this False] show ?thesis using assms(1) by (auto simp: zones_ok_def distinct_map_filter)
  next
    case (Create_Record i data)
    with assms(2) c have "create_dns_record E user i data db = (r, db')" by simp
    from this False show ?thesis by (rule create_record_change) (use assms(1) in \<open>auto simp: zones_ok_def dest: less_SucI\<close>)
  next
    case (Update_Record i j data)
    with assms(2) c have "update_dns_record user i j data db = (r, db')" by simp
    from this False obtain x x' where x: "record_at j db = Some x"
      "db' = db\<lparr> ad_records := map (\<lambda>y. if dr_id y = j then x' else y) (ad_records db) \<rparr>" "dr_id x' = dr_id x"
      by (rule update_record_change) blast
    have xi: "x \<in> set (ad_records db)" "dr_id x = j" using x(1) by (auto simp: record_at_def dest: find_SomeD)
    have "map dr_id (ad_records db') = map dr_id (ad_records db)" using x(3) xi(2) by (auto simp: x(2))
    then show ?thesis using assms(1) xi x(3) by (auto simp: zones_ok_def x(2) simp del: map_map)
  next
    case (Delete_Record i j)
    with assms(2) c have "delete_dns_record user i j db = (r, db')" by simp
    from this False show ?thesis by (rule delete_record_change) (use assms(1) in \<open>auto simp: zones_ok_def distinct_map_filter\<close>)
  qed
qed (use assms in simp)

text \<open>What zone \<open>z\<close> is: its row and its records.\<close>

definition same_zone :: "dns_zone_row \<Rightarrow> admin_db \<Rightarrow> admin_db \<Rightarrow> bool" where
  "same_zone z db db' \<longleftrightarrow> z \<in> set (ad_zones db')
     \<and> filter (\<lambda>r. dr_zone_id r = dz_id z) (ad_records db') = filter (\<lambda>r. dr_zone_id r = dz_id z) (ad_records db)"

lemma filter_replace:
  "\<forall>y\<in>set xs. P y \<longrightarrow> k y \<noteq> j \<Longrightarrow> \<not> P x' \<Longrightarrow> filter P (map (\<lambda>y. if k y = j then x' else y) xs) = filter P xs"
  by (induction xs) auto

lemma zone_step_confined:
  assumes "zones_ok db" "zone_step E c db = (r, db')" "z \<in> set (ad_zones db)" "dz_team_id z = Some t"
    and "can_access_team (fst c) t = Some False"
  shows "same_zone z db db'"
proof (cases "db' = db")
  case False
  obtain user cmd where c: "c = (user, cmd)" by fastforce
  have other: "dz_id z \<noteq> i" if "check_zone_write_access (ad_zones db) user i = Some True" for i
    using write_access_team [OF that assms(1,3,4)] assms(5) c by simp
  show ?thesis
  proof (cases cmd)
    case (Create_Zone data)
    with assms(2) c have "create_zone E user data db = (r, db')" by simp
    from this False show ?thesis by (rule create_zone_change) (use assms(3) in \<open>auto simp: same_zone_def\<close>)
  next
    case (Update_Zone i data)
    with assms(2) c have "update_zone E user i data db = (r, db')" by simp
    from this False show ?thesis
      by (rule update_zone_change) (use assms(3) other [of i] in \<open>auto simp: same_zone_def image_iff\<close>)
  next
    case (Delete_Zone i)
    with assms(2) c have "delete_zone E user i db = (r, db')" by simp
    note d = delete_zone_change [OF this False]
    have "dz_id z \<noteq> i" using other [OF d(1)] .
    then show ?thesis using d assms(3) by (auto simp: same_zone_def intro!: filter_cong)
  next
    case (Create_Record i data)
    with assms(2) c have "create_dns_record E user i data db = (r, db')" by simp
    from this False show ?thesis
      by (rule create_record_change) (use assms(3) other [of i] in \<open>auto simp: same_zone_def\<close>)
  next
    case (Update_Record i j data)
    with assms(2) c have "update_dns_record user i j data db = (r, db')" by simp
    from this False obtain x x' where x: "record_at j db = Some x" "dr_zone_id x = i"
      "db' = db\<lparr> ad_records := map (\<lambda>y. if dr_id y = j then x' else y) (ad_records db) \<rparr>" "dr_zone_id x' = i"
      "check_zone_write_access (ad_zones db) user i = Some True"
      by (rule update_record_change) blast
    have xi: "x \<in> set (ad_records db)" "dr_id x = j" using x(1) by (auto simp: record_at_def dest: find_SomeD)
    have "y = x" if "y \<in> set (ad_records db)" "dr_id y = j" for y
      using assms(1) xi that unfolding zones_ok_def distinct_map by (metis inj_onD)
    then show ?thesis using x(2-4) other [OF x(5)] assms(3) by (auto simp: same_zone_def intro!: filter_replace)
  next
    case (Delete_Record i j)
    with assms(2) c have "delete_dns_record user i j db = (r, db')" by simp
    from this False obtain x where x: "record_at j db = Some x" "dr_zone_id x = i"
      "db' = db\<lparr> ad_records := filter (\<lambda>y. dr_id y \<noteq> j) (ad_records db) \<rparr>"
      "check_zone_write_access (ad_zones db) user i = Some True"
      by (rule delete_record_change) blast
    have xi: "x \<in> set (ad_records db)" "dr_id x = j" using x(1) by (auto simp: record_at_def dest: find_SomeD)
    have "y = x" if "y \<in> set (ad_records db)" "dr_id y = j" for y
      using assms(1) xi that unfolding zones_ok_def distinct_map by (metis inj_onD)
    then show ?thesis using x(2,3) other [OF x(4)] assms(3) by (auto simp: same_zone_def intro!: filter_cong)
  qed
qed (use assms in \<open>simp add: same_zone_def\<close>)

text \<open>
  C13. The zones of a team are out of reach for everybody else: over any sequence of zone and record operations by
  callers without access to the team, a zone of the team and its records stay exactly as they are.
\<close>

theorem team_zones_confined:
  assumes "\<forall>c\<in>set cmds. can_access_team (fst c) t = Some False" "zones_ok db"
    and "run_cmds (zone_step E) cmds db = (rs, db')" "z \<in> set (ad_zones db)" "dz_team_id z = Some t"
  shows "z \<in> set (ad_zones db')
    \<and> filter (\<lambda>r. dr_zone_id r = dz_id z) (ad_records db') = filter (\<lambda>r. dr_zone_id r = dz_id z) (ad_records db)"
  using assms(1-4)
proof (induction cmds arbitrary: db rs)
  case (Cons c cmds)
  obtain r db1 where s: "zone_step E c db = (r, db1)" by fastforce
  obtain rs' db2 where u: "run_cmds (zone_step E) cmds db1 = (rs', db2)" by fastforce
  have e: "db2 = db'" using Cons.prems(3) s u by simp
  have "same_zone z db db1"
    using zone_step_confined [OF Cons.prems(2) s Cons.prems(4) assms(5)] Cons.prems(1) by simp
  then show ?case
    using Cons.IH [OF _ zone_step_ok [OF Cons.prems(2) s] u [unfolded e]] Cons.prems(1) by (simp add: same_zone_def)
qed simp

section \<open>From the form to the answer\<close>

definition loaded_zone :: "zone_cfg \<Rightarrow> zone" where
  "loaded_zone z = \<lparr> z_name = zc_name z, z_visibility = get_default (zc_visibility z) ''public'',
     z_allowed_teams = get_default (zc_allowed_teams z) [], z_records = get_default (zc_records z) [] \<rparr>"

lemma load_zone_loaded: "load_zone z = AList.update (zc_name z) (loaded_zone z)"
  by (simp add: load_zone_def loaded_zone_def)

lemma fold_load_other: "n \<notin> zc_name ` set cfgs \<Longrightarrow> map_of (fold load_zone cfgs zs) n = map_of zs n"
  by (induction cfgs arbitrary: zs) (auto simp: load_zone_loaded update_conv')

lemma map_of_load_zone:
  "\<lbrakk> distinct (map zc_name cfgs); c \<in> set cfgs \<rbrakk> \<Longrightarrow> map_of (load_zones cfgs old) (zc_name c) = Some (loaded_zone c)"
proof -
  assume d: "distinct (map zc_name cfgs)" "c \<in> set cfgs"
  have "map_of (fold load_zone cfgs zs) (zc_name c) = Some (loaded_zone c)" for zs
    using d by (induction cfgs arbitrary: zs) (auto simp: fold_load_other load_zone_loaded update_conv')
  then show ?thesis by (simp add: load_zones_def)
qed

text \<open>The zone a server finds for a name is the one of the table, when no other zone lies between.\<close>

lemma delivered_zone_found:
  assumes "zones_ok db" "z \<in> set (ad_zones db)" "in_zone (dz_name z) d"
    and "\<forall>y\<in>set (ad_zones db). in_zone (dz_name y) d \<longrightarrow> in_zone (dz_name y) (dz_name z)"
  shows "find_zone_for_domain (load_zones (get_all_zones (ad_records db) (ad_zones db)) old) d =
    Some (loaded_zone (zone_entry (ad_records db) z))"
proof -
  let ?cfgs = "get_all_zones (ad_records db) (ad_zones db)"
  let ?zs = "load_zones ?cfgs old"
  have names: "map zc_name ?cfgs = map dz_name (sort_key dz_name (ad_zones db))"
    by (simp add: get_all_zones_def zone_entry_def comp_def)
  have "distinct (map dz_name (sort_key dz_name (ad_zones db)))"
    using assms(1) by (simp add: zones_ok_def distinct_map)
  then have dist: "distinct (map zc_name ?cfgs)" by (simp only: names)
  have "zone_entry (ad_records db) z \<in> set ?cfgs" using assms(2) by (simp add: get_all_zones_def)
  from map_of_load_zone [OF dist this, of old]
  have mz: "map_of ?zs (dz_name z) = Some (loaded_zone (zone_entry (ad_records db) z))" by (simp add: zone_entry_def)
  have loaded: "map_of ?zs m \<noteq> None \<longleftrightarrow> m \<in> dz_name ` set (ad_zones db)" for m
    unfolding map_of_load_zones set_map [symmetric] names by simp
  obtain y where y: "find_zone_for_domain ?zs d = Some y"
    using mz assms(3) find_zone_None [of ?zs d] by (metis option.distinct(1) option.exhaust)
  obtain m where m: "map_of ?zs m = Some y" "in_zone m d" "\<forall>k. map_of ?zs k \<noteq> None \<and> in_zone k d \<longrightarrow> in_zone k m"
    using find_zone_covers [OF y] by blast
  have "m \<in> dz_name ` set (ad_zones db)" using m(1) loaded [of m] by simp
  then have "in_zone m (dz_name z)" using assms(4) m(2) by auto
  moreover have "in_zone (dz_name z) m" using m(3) mz assms(3) by simp
  ultimately have "m = dz_name z" by (rule in_zone_antisym)
  then show ?thesis using y m(1) mz by simp
qed

text \<open>
  C18. A record that the Manager accepts under a name of its zone is what a DNS server answers: once a record is created
  in a zone that covers its name and is the most specific one that does (the route checks neither, and a record of another
  name is never served), a server that loads the delivered zones answers the name and type with the
  value and TTL of the record among its answers.
\<close>

theorem created_record_served:
  assumes "create_dns_record E user i data db = (Answered n (Record_Body r), db')" "zones_ok db'"
    and "zone_at i db' = Some z" "in_zone (dz_name z) (dr_name r)"
    and "\<forall>y\<in>set (ad_zones db'). in_zone (dz_name y) (dr_name r) \<longrightarrow> in_zone (dz_name y) (dz_name z)"
  shows "\<exists>a\<in>set (r_answer (resolve_custom_zone (dr_name r) (dr_type r) (get_default
      (get_zone_records (load_zones (get_all_zones (ad_records db') (ad_zones db')) old) (dr_name r)) []))).
    a_data a = dr_value r \<and> Some (a_ttl a) = dr_ttl r"
proof -
  let ?zs = "load_zones (get_all_zones (ad_records db') (ad_zones db')) old"
  have z: "z \<in> set (ad_zones db')" "dz_id z = i" using assms(3) by (auto simp: zone_at_def dest: find_SomeD)
  have recs: "get_zone_records ?zs (dr_name r) = zc_records (zone_entry (ad_records db') z)"
    using delivered_zone_found [OF assms(2) z(1) assms(4,5), of old]
    by (simp add: get_zone_records_def loaded_zone_def zone_entry_def)
  note cr = create_record_answer [OF assms(1)]
  obtain ttl where ttl: "dr_ttl r = Some ttl" using cr(4) by auto
  let ?rec = "\<lparr> rec_name = dr_name r, rec_type = dr_type r, rec_value = dr_value r, rec_ttl = dr_ttl r \<rparr>"
  let ?match = "filter (\<lambda>x. rec_name x = dr_name r \<and> rec_type x = dr_type r) (the (zc_records (zone_entry (ad_records db') z)))"
  have "?rec \<in> set (the (zc_records (zone_entry (ad_records db') z)))"
    using cr(1,3) z(2) by (auto simp: zone_entry_def)
  then have mem: "?rec \<in> set ?match" by simp
  then have "?match \<noteq> []" by (metis list.distinct(1) list.set_cases)
  then have "r_answer (resolve_custom_zone (dr_name r) (dr_type r) (get_default (get_zone_records ?zs (dr_name r)) [])) =
      map (\<lambda>x. \<lparr> a_name = dr_name r, a_type = dr_type r, a_ttl = get_default (rec_ttl x) 300, a_data = rec_value x \<rparr>) ?match"
    by (simp add: resolve_custom_zone_def recs zone_entry_def Let_def)
  then show ?thesis using mem ttl by (force simp: image_iff)
qed

section \<open>The life of a DNS token\<close>

lemma create_token_answer:
  assumes "create_token E v user data db = (Answered n (Token_Body t p), db')"
  shows "ad_tokens db' = ad_tokens db @ [t]" "dt_id t = ad_seq db" "dt_hash t = ae_sha256 E v" "dt_active t"
    "\<forall>x\<in>set (ad_tokens db). dt_hash x \<noteq> ae_sha256 E v" "p = Some v"
  using assms unfolding create_token_def
  by (auto dest!: admin_guard_answer simp: Let_def validate_json_def list_ex_iff split: option.splits if_splits)

lemma revoke_token_answer:
  assumes "revoke_token user i db = (Answered n b, db')"
  shows "ad_tokens db' = map (\<lambda>t. if dt_id t = i then t\<lparr> dt_active := False \<rparr> else t) (ad_tokens db)"
  using assms unfolding revoke_token_def token_manager_def update_token_row_def
  by (auto dest!: admin_guard_answer split: option.splits)

text \<open>
  A created token is accepted as long as it has not expired, for its team and the zones of the team, and from the
  moment it is revoked it never is, unless an update activates it again.
\<close>

theorem token_lifecycle:
  assumes "create_token E v user data db = (Answered 201 (Token_Body t (Some v)), db1)"
    and "\<forall>x\<in>set (ad_tokens db). dt_id x < ad_seq db" "case dt_expires t of None \<Rightarrow> True | Some x \<Rightarrow> now \<le> x"
    and "revoke_token user' (dt_id t) db1 = (Answered 200 Done_Body, db2)"
  shows "(\<exists>zone_names. fst (validate_dns_token (ae_sha256 E) now zones v (ad_tokens db1)) = Some (dt_id t, dt_team t, zone_names))
    \<and> fst (validate_dns_token (ae_sha256 E) now' zones' v (ad_tokens db2)) = None"
proof
  note ct = create_token_answer [OF assms(1)]
  have none: "find (\<lambda>r. dt_hash r = ae_sha256 E v \<and> dt_active r) (ad_tokens db) = None"
    using ct(5) by (auto simp: find_None_iff)
  have "find (\<lambda>r. dt_hash r = ae_sha256 E v \<and> dt_active r) (ad_tokens db1) = Some t"
    using none ct by (simp add: find_append)
  then show "\<exists>zone_names. fst (validate_dns_token (ae_sha256 E) now zones v (ad_tokens db1)) = Some (dt_id t, dt_team t, zone_names)"
    using assms(3) by (auto simp: validate_dns_token_def split: option.splits)
  have "\<not> (dt_hash x = ae_sha256 E v \<and> dt_active x)" if "x \<in> set (ad_tokens db2)" for x
    using that ct(1,5) assms(2) unfolding revoke_token_answer [OF assms(4)] by (auto split: if_splits)
  then have "find (\<lambda>r. dt_hash r = ae_sha256 E v \<and> dt_active r) (ad_tokens db2) = None" by (simp add: find_None_iff)
  then show "fst (validate_dns_token (ae_sha256 E) now' zones' v (ad_tokens db2)) = None"
    by (simp add: validate_dns_token_def)
qed

section \<open>Witnesses\<close>

definition sample_caller :: "string \<Rightarrow> string \<Rightarrow> (nat \<times> string) list \<Rightarrow> current_user option" where
  "sample_caller scopes role teams = Some \<lparr> cu_user_id = JInt 1, cu_username = JStr ''ann'', cu_scope = JStr scopes,
     cu_global_role = JStr role, cu_team_roles = map (\<lambda>(t, r). (KInt (int t), JStr r)) teams \<rparr>"

definition sample_admin_env :: admin_env where
  "sample_admin_env = \<lparr> ae_hash_password = Some, ae_sha256 = (\<lambda>s. s), ae_fromisoformat = (\<lambda>s. None), ae_fk = True \<rparr>"

definition sample_account :: "nat \<Rightarrow> string \<Rightarrow> string \<Rightarrow> auth_user" where
  "sample_account i name role = \<lparr> au_id = i, au_username = name, au_email = name @ ''@x.org'', au_active = True,
     au_password_hash = None, au_global_role = role, au_failed_login_count = None, au_locked_until = None \<rparr>"

definition sample_admin_db :: admin_db where
  "sample_admin_db = \<lparr>
     ad_auth = \<lparr> users = [sample_account 1 ''ann'' ''UserManager'', sample_account 2 ''root'' ''SystemAdmin''],
                 team_members = [], revoked = [] \<rparr>,
     ad_teams = [\<lparr> te_id = 3, te_name = ''hr'', te_description = None \<rparr>],
     ad_zones = [\<lparr> dz_id = 4, dz_name = ''hr.corp'', dz_visibility = ''private'', dz_team_id = Some 3, dz_description = None \<rparr>,
                 \<lparr> dz_id = 5, dz_name = ''corp'', dz_visibility = ''public'', dz_team_id = None, dz_description = None \<rparr>],
     ad_records = [], ad_tokens = [], ad_seq = 6 \<rparr>"

theorem no_role_escalation_witness:
  "au_global_role (last (users (ad_auth (snd (run_cmds (user_step sample_admin_env)
     [(sample_caller ''users:write'' ''UserManager'' [], Create_User (Some [(''username'', JStr ''bob''),
        (''email'', JStr ''bob@x.org''), (''password'', JStr ''p''), (''global_role'', JStr ''UserManager'')]))]
     sample_admin_db))))) = ''UserManager''"
proof -
  let ?c = "(sample_caller ''users:write'' ''UserManager'' [], Create_User (Some [(''username'', JStr ''bob''),
        (''email'', JStr ''bob@x.org''), (''password'', JStr ''p''), (''global_role'', JStr ''UserManager'')]))"
  let ?r = "run_cmds (user_step sample_admin_env) [?c] sample_admin_db"
  have p: "\<forall>c\<in>set [?c]. plain_caller {''UserManager''} (fst c)"
    by (simp add: plain_caller_def sample_caller_def) code_simp
  have l: "last (users (ad_auth (snd ?r))) \<in> set (users (ad_auth (snd ?r)))"
    "\<forall>y\<in>set (users (ad_auth sample_admin_db)). au_id y \<noteq> au_id (last (users (ad_auth (snd ?r))))"
    "au_global_role (last (users (ad_auth (snd ?r)))) \<noteq> ''Viewer''" by code_simp+
  have "?r = (fst ?r, snd ?r)" by simp
  from no_role_escalation [OF p this l(1)] l(2,3) show ?thesis by auto
qed

definition sample_manager :: "current_user option" where
  "sample_manager = token_user (access_claims demo_cfg ''default'' 1 ''ann'' (Some ''UserManager'') [] 0 900)"

theorem user_manager_disables_anyone_witness:
  "fst (delete_user sample_manager 2 sample_admin_db) = Refused 403 \<and>
    user_at 2 (snd (update_user_route sample_manager 2 (Some [(''global_role'', JStr ''Viewer''), (''active'', JBool False)])
        sample_admin_db)) =
      Some ((sample_account 2 ''root'' ''SystemAdmin'')\<lparr> au_global_role := ''Viewer'', au_active := False \<rparr>)"
proof -
  have u: "user_at 2 sample_admin_db = Some (sample_account 2 ''root'' ''SystemAdmin'')" by code_simp
  from user_manager_disables_anyone [OF sample_manager_def [symmetric] u] show ?thesis by auto
qed

theorem team_zones_confined_witness:
  "hd (ad_zones sample_admin_db) \<in> set (ad_zones (snd (run_cmds (zone_step sample_admin_env)
     [(sample_caller ''zones:write zones:admin'' ''OrgAdmin'' [(9, ''TeamAdmin'')], Delete_Zone 4),
      (sample_caller ''zones:write zones:admin'' ''OrgAdmin'' [], Delete_Zone 5)] sample_admin_db)))"
proof -
  let ?cs = "[(sample_caller ''zones:write zones:admin'' ''OrgAdmin'' [(9, ''TeamAdmin'')], Delete_Zone 4),
      (sample_caller ''zones:write zones:admin'' ''OrgAdmin'' [], Delete_Zone 5)]"
  have a: "\<forall>c\<in>set ?cs. can_access_team (fst c) 3 = Some False" by code_simp
  have z: "zones_ok sample_admin_db" "hd (ad_zones sample_admin_db) \<in> set (ad_zones sample_admin_db)"
    "dz_team_id (hd (ad_zones sample_admin_db)) = Some 3" by code_simp+
  have "run_cmds (zone_step sample_admin_env) ?cs sample_admin_db =
    (fst (run_cmds (zone_step sample_admin_env) ?cs sample_admin_db), snd (run_cmds (zone_step sample_admin_env) ?cs sample_admin_db))"
    by simp
  from team_zones_confined [OF a z(1) this z(2,3)] show ?thesis by blast
qed

definition sample_record :: body where
  "sample_record = [(''name'', JStr ''www.corp''), (''type'', JStr ''a''), (''value'', JStr ''10.0.0.9''), (''ttl'', JInt 60)]"

definition sample_row :: dns_record_row where
  "sample_row = \<lparr> dr_id = 6, dr_zone_id = 5, dr_name = ''www.corp'', dr_type = ''A'', dr_value = ''10.0.0.9'',
     dr_ttl = Some 60, dr_priority = None, dr_weight = None, dr_port = None \<rparr>"

theorem created_record_served_witness:
  "\<exists>a\<in>set (r_answer (resolve_custom_zone ''www.corp'' ''A'' (get_default (get_zone_records (load_zones
      (get_all_zones [sample_row] (ad_zones sample_admin_db)) []) ''www.corp'') []))).
    a_data a = ''10.0.0.9'' \<and> Some (a_ttl a) = Some 60"
proof -
  let ?user = "sample_caller ''zones:write'' ''OrgAdmin'' []"
  let ?r = "create_dns_record sample_admin_env ?user 5 (Some sample_record) sample_admin_db"
  have f: "fst ?r = Answered 201 (Record_Body sample_row)" "ad_records (snd ?r) = [sample_row]"
    "ad_zones (snd ?r) = ad_zones sample_admin_db" "zones_ok (snd ?r)"
    "zone_at 5 (snd ?r) = Some (last (ad_zones sample_admin_db))" by code_simp+
  then have r: "?r = (Answered 201 (Record_Body sample_row), snd ?r)" by (metis prod.collapse)
  have g: "in_zone (dz_name (last (ad_zones sample_admin_db))) (dr_name sample_row)"
    "\<forall>y\<in>set (ad_zones (snd ?r)). in_zone (dz_name y) (dr_name sample_row) \<longrightarrow>
        in_zone (dz_name y) (dz_name (last (ad_zones sample_admin_db)))" by code_simp+
  from created_record_served [OF r f(4,5) g, of "[]"] show ?thesis by (simp add: f(2,3)) (simp add: sample_row_def)
qed

theorem token_lifecycle_witness:
  "\<exists>t db1. create_token sample_admin_env ''secret'' (sample_caller [] ''SystemAdmin'' []) (Some [(''name'', JStr ''ci'')])
      sample_admin_db = (Answered 201 (Token_Body t (Some ''secret'')), db1)
    \<and> fst (validate_dns_token (\<lambda>s. s) 7 [] ''secret'' (ad_tokens db1)) \<noteq> None
    \<and> fst (validate_dns_token (\<lambda>s. s) 8 [] ''secret'' (ad_tokens (snd (revoke_token (sample_caller [] ''SystemAdmin'' []) (dt_id t) db1)))) = None"
proof -
  let ?user = "sample_caller [] ''SystemAdmin'' []"
  let ?r = "create_token sample_admin_env ''secret'' ?user (Some [(''name'', JStr ''ci'')]) sample_admin_db"
  define t where "t = hd (ad_tokens (snd ?r))"
  let ?v = "revoke_token ?user (dt_id t) (snd ?r)"
  have f: "fst ?r = Answered 201 (Token_Body t (Some ''secret''))" "dt_expires t = None" "fst ?v = Answered 200 Done_Body"
    unfolding t_def by code_simp+
  have r: "?r = (Answered 201 (Token_Body t (Some ''secret'')), snd ?r)" "?v = (Answered 200 Done_Body, snd ?v)"
    using f by (metis prod.collapse)+
  have b: "\<forall>x\<in>set (ad_tokens sample_admin_db). dt_id x < ad_seq sample_admin_db" by code_simp
  have e: "case dt_expires t of None \<Rightarrow> True | Some x \<Rightarrow> (7 :: int) \<le> x" using f(2) by simp
  have s: "ae_sha256 sample_admin_env = (\<lambda>s. s)" by (simp add: sample_admin_env_def)
  from token_lifecycle [OF r(1) b e r(2), of "[]" 8 "[]"] r(1) show ?thesis unfolding s
    by (intro exI [of _ t] exI [of _ "snd ?r"]) auto
qed
end
