(* ===== verification/Manager_Network.thy ===== *)
theory Manager_Network
  imports Manager_Admin
begin

text \<open>
  The address pools, reservations and leases the Manager administers, and its time servers
  (\<^verbatim>\<open>manager/backend/app/blueprints/dhcp.py\<close>, \<^verbatim>\<open>manager/backend/app/blueprints/time.py\<close>), route by route, with the
  guards of \<open>Manager_Rbac\<close> and the reply type of \<open>Manager_Admin\<close>.

  Times are microseconds. Columns with a JSON value keep it; the columns \<^verbatim>\<open>created_at\<close> and
  \<^verbatim>\<open>updated_at\<close> are left out. Statistics are rationals before \<^verbatim>\<open>round\<close>.
\<close>

section \<open>State\<close>

record mgr_pool =
  mp_id :: nat
  mp_name :: string
  mp_network :: string
  mp_range_start :: string
  mp_range_end :: string
  mp_gateway :: "string option"
  mp_dns_servers :: json
  mp_ntp_servers :: json
  mp_domain_name :: "string option"
  mp_lease_duration :: int
  mp_team_id :: "nat option"
  mp_active :: bool
  mp_enable_ddns :: bool
  mp_ddns_zone_id :: "nat option"

record mgr_reservation =
  mr_id :: nat
  mr_pool_id :: nat
  mr_mac :: string
  mr_ip :: string
  mr_hostname :: "string option"
  mr_description :: "string option"

record mgr_lease =
  ml_id :: nat
  ml_pool_id :: nat
  ml_mac :: string
  ml_ip :: string
  ml_hostname :: "string option"
  ml_start :: int
  ml_end :: int
  ml_status :: string

record time_server =
  ts_id :: nat
  ts_name :: string
  ts_server_url :: string
  ts_protocol :: string
  ts_stratum :: int
  ts_priority :: int
  ts_team_id :: "nat option"
  ts_active :: bool
  ts_status :: string
  ts_last_sync :: "int option"
  ts_last_offset_ms :: "rat option"
  ts_last_delay_ms :: "rat option"
  ts_ptp_config :: json

record time_log =
  tl_id :: nat
  tl_server_id :: nat
  tl_timestamp :: int
  tl_offset_ms :: rat
  tl_delay_ms :: rat
  tl_protocol :: string
  tl_status :: string
  tl_error_message :: "string option"

record network_db =
  nd_admin :: admin_db
  nd_pools :: "mgr_pool list"
  nd_reservations :: "mgr_reservation list"
  nd_leases :: "mgr_lease list"
  nd_servers :: "time_server list"
  nd_logs :: "time_log list"
  nd_seq :: nat

datatype net_body =
    Pools_Body "(mgr_pool \<times> nat \<times> nat) list"
  | Pool_Body mgr_pool
  | Pool_Stats_Body mgr_pool int nat nat int rat
  | Leases_Body "(mgr_lease \<times> int) list"
  | Released_Body string string
  | Reservations_Body "mgr_reservation list"
  | Reservation_Body mgr_reservation
  | Servers_Body "time_server list"
  | Server_Body time_server
  | Server_Stats_Body time_server nat nat rat rat rat
  | Status_Body bool "(nat \<times> string \<times> string \<times> int) option" "(rat \<times> rat \<times> int) option" bool
  | Sync_Body string string rat rat rat
  | Logs_Body "(time_log \<times> string) list" int int nat int
  | Done_Net

type_synonym net_reply = "net_body web_reply"

section \<open>Addresses\<close>

text \<open>
  \<^verbatim>\<open>ipaddress.ip_address\<close> of a JSON value: the IPv4 text forms of \<open>Ip_Address\<close>, the IPv6 ones by the parameter
  \<open>v6\<close>, and integers in range. Comparing the two versions raises a \<^verbatim>\<open>TypeError\<close>, which is not caught.
\<close>

datatype ip_value = V4 nat | V6 nat

definition ip_of_int :: "int \<Rightarrow> ip_value option" where
  "ip_of_int i = (if 0 \<le> i \<and> i < 2 ^ 32 then Some (V4 (nat i)) else if 0 \<le> i \<and> i < 2 ^ 128 then Some (V6 (nat i)) else None)"

definition ip_value_of :: "(string \<Rightarrow> nat option) \<Rightarrow> json \<Rightarrow> ip_value option" where
  "ip_value_of v6 j =
     (case j of
        JStr s \<Rightarrow> (case ipv4_parse s of Some n \<Rightarrow> Some (V4 n) | None \<Rightarrow> map_option V6 (v6 s))
      | JInt i \<Rightarrow> ip_of_int i
      | JBool b \<Rightarrow> ip_of_int (of_bool b)
      | _ \<Rightarrow> None)"

definition validate_ip_range :: "(string \<Rightarrow> nat option) \<Rightarrow> json \<Rightarrow> json \<Rightarrow> bool option" where
  "validate_ip_range v6 start finish =
     (case (ip_value_of v6 start, ip_value_of v6 finish) of
        (Some (V4 a), Some (V4 b)) \<Rightarrow> Some (a < b)
      | (Some (V6 a), Some (V6 b)) \<Rightarrow> Some (a < b)
      | (Some _, Some _) \<Rightarrow> None
      | _ \<Rightarrow> Some False)"

definition ip_number :: "ip_value \<Rightarrow> int" where
  "ip_number a = (case a of V4 n \<Rightarrow> int n | V6 n \<Rightarrow> int n)"

definition calculate_pool_size :: "(string \<Rightarrow> nat option) \<Rightarrow> string \<Rightarrow> string \<Rightarrow> int" where
  "calculate_pool_size v6 start finish =
     (case (ip_value_of v6 (JStr start), ip_value_of v6 (JStr finish)) of
        (Some a, Some b) \<Rightarrow> ip_number b - ip_number a + 1
      | _ \<Rightarrow> 0)"

section \<open>Access\<close>

definition get_user_team_ids :: "json \<Rightarrow> network_db \<Rightarrow> nat list" where
  "get_user_team_ids user_id db =
     map tm_team_id (filter (\<lambda>m. JInt (int (tm_user_id m)) = user_id) (team_members (ad_auth (nd_admin db))))"

definition org_wide :: "current_user \<Rightarrow> bool" where
  "org_wide u \<longleftrightarrow> cu_global_role u \<in> {JStr ''SystemAdmin'', JStr ''OrgAdmin''}"

text \<open>\<^verbatim>\<open>_can_access_pool\<close> and \<^verbatim>\<open>_can_access_server\<close> are the same test on the team of the row.\<close>

definition can_access_row :: "current_user option \<Rightarrow> nat option \<Rightarrow> network_db \<Rightarrow> bool" where
  "can_access_row user team db =
     (case user of
        None \<Rightarrow> False
      | Some u \<Rightarrow> org_wide u
          \<or> (case team of None \<Rightarrow> True | Some t \<Rightarrow> t \<in> set (get_user_team_ids (cu_user_id u) db)))"

section \<open>Columns\<close>

definition col_bool :: "json \<Rightarrow> bool option" where
  "col_bool j = (case j of JBool b \<Rightarrow> Some b | JInt i \<Rightarrow> (if i = 0 then Some False else if i = 1 then Some True else None) | _ \<Rightarrow> None)"

definition col_int :: "json \<Rightarrow> int option" where
  "col_int j = (case j of JInt i \<Rightarrow> Some i | _ \<Rightarrow> None)"

text \<open>A primary key from a JSON value: what is no natural number finds no row.\<close>

definition key_of :: "json \<Rightarrow> nat option" where
  "key_of j = (case j of JInt i \<Rightarrow> (if 0 \<le> i then Some (nat i) else None) | _ \<Rightarrow> None)"

definition zone_missing :: "admin_env \<Rightarrow> nat option \<Rightarrow> network_db \<Rightarrow> bool" where
  "zone_missing E zone db \<longleftrightarrow> ae_fk E \<and> (case zone of None \<Rightarrow> False | Some z \<Rightarrow> zone_at z (nd_admin db) = None)"

section \<open>Pools\<close>

definition pool_at :: "nat \<Rightarrow> network_db \<Rightarrow> mgr_pool option" where
  "pool_at i db = find (\<lambda>p. mp_id p = i) (nd_pools db)"

definition active_leases :: "nat \<Rightarrow> network_db \<Rightarrow> nat" where
  "active_leases i db = length (filter (\<lambda>l. ml_pool_id l = i \<and> ml_status l = ''active'') (nd_leases db))"

definition reserved_count :: "nat \<Rightarrow> network_db \<Rightarrow> nat" where
  "reserved_count i db = length (filter (\<lambda>r. mr_pool_id r = i) (nd_reservations db))"

text \<open>A query parameter with \<^verbatim>\<open>type=int\<close> that is absent, zero or no integer does not filter.\<close>

definition arg_selects :: "int option \<Rightarrow> nat option \<Rightarrow> bool" where
  "arg_selects arg v \<longleftrightarrow> (case arg of None \<Rightarrow> True | Some i \<Rightarrow> i = 0 \<or> map_option int v = Some i)"

definition flag_selects :: "string option \<Rightarrow> bool \<Rightarrow> bool" where
  "flag_selects arg v \<longleftrightarrow> (case arg of None \<Rightarrow> True | Some s \<Rightarrow> v = (py_lower s = ''true''))"

definition list_dhcp_pools ::
  "current_user option \<Rightarrow> int option \<Rightarrow> string option \<Rightarrow> network_db \<Rightarrow> net_reply \<times> network_db" where
  "list_dhcp_pools user team_id active db =
     (case user of
        None \<Rightarrow> (Refused 401, db)
      | Some u \<Rightarrow>
          (Answered 200 (Pools_Body (map (\<lambda>p. (p, active_leases (mp_id p) db, reserved_count (mp_id p) db))
             (sort_key mp_name (filter (\<lambda>p. arg_selects team_id (mp_team_id p) \<and> flag_selects active (mp_active p)
               \<and> (org_wide u \<or> (\<exists>t\<in>set (get_user_team_ids (cu_user_id u) db). mp_team_id p = Some t))) (nd_pools db))))), db))"

definition create_dhcp_pool ::
  "admin_env \<Rightarrow> (string \<Rightarrow> nat option) \<Rightarrow> current_user option \<Rightarrow> body option \<Rightarrow> network_db \<Rightarrow> net_reply \<times> network_db" where
  "create_dhcp_pool E v6 user data db =
     admin_guard (requires_scope [''dhcp:write''] user)
      (validate_json [''name'', ''network'', ''rangeStart'', ''rangeEnd''] data (\<lambda>d.
        admin_guard (or_400 (validate_ip_range v6 (json_get d ''rangeStart'') (json_get d ''rangeEnd'')))
         (case (col_text (json_get d ''name''), col_text (json_get d ''network''), col_text (json_get d ''rangeStart''),
                col_text (json_get d ''rangeEnd''), col_text_null (json_get d ''gateway''), col_text_null (json_get d ''domainName''),
                col_int (json_get_or d ''leaseDuration'' (JInt 86400)), col_id_null (json_get d ''teamId''),
                col_bool (json_get_or d ''active'' (JBool True)), col_bool (json_get_or d ''enableDdns'' (JBool False)),
                col_id_null (json_get d ''ddnsZoneId'')) of
            (Some n, Some net, Some s, Some e, Some gw, Some domain, Some dur, Some team, Some act, Some ddns, Some zone) \<Rightarrow>
              (if team_missing E team (nd_admin db) \<or> zone_missing E zone db then (Crashed, db)
               else (let p = \<lparr> mp_id = nd_seq db, mp_name = n, mp_network = net, mp_range_start = s, mp_range_end = e,
                               mp_gateway = gw, mp_dns_servers = json_get_or d ''dnsServers'' (JList []),
                               mp_ntp_servers = json_get_or d ''ntpServers'' (JList []), mp_domain_name = domain,
                               mp_lease_duration = dur, mp_team_id = team, mp_active = act, mp_enable_ddns = ddns,
                               mp_ddns_zone_id = zone \<rparr>
                     in (Answered 201 (Pool_Body p), db\<lparr> nd_pools := nd_pools db @ [p], nd_seq := nd_seq db + 1 \<rparr>)))
          | _ \<Rightarrow> (Crashed, db)) db) db) db"

text \<open>The guards of the routes below one pool, given what is done with the pool.\<close>

definition with_pool ::
  "current_user option \<Rightarrow> nat \<Rightarrow> (mgr_pool \<Rightarrow> net_reply \<times> network_db) \<Rightarrow> network_db \<Rightarrow> net_reply \<times> network_db" where
  "with_pool user i f db =
     (case pool_at i db of
        None \<Rightarrow> (Refused 404, db)
      | Some p \<Rightarrow> (if \<not> can_access_row user (mp_team_id p) db then (Refused 403, db) else f p))"

definition get_dhcp_pool ::
  "(string \<Rightarrow> nat option) \<Rightarrow> current_user option \<Rightarrow> nat \<Rightarrow> network_db \<Rightarrow> net_reply \<times> network_db" where
  "get_dhcp_pool v6 user i db =
     admin_guard (signed_in user)
      (with_pool user i (\<lambda>p.
        (let used = active_leases i db; reserved = reserved_count i db;
             total = calculate_pool_size v6 (mp_range_start p) (mp_range_end p)
         in (Answered 200 (Pool_Stats_Body p total used reserved (total - int used - int reserved)
               (if total > 0 then of_nat (used + reserved) / of_int total * 100 else 0)), db))) db) db"

definition update_dhcp_pool ::
  "admin_env \<Rightarrow> (string \<Rightarrow> nat option) \<Rightarrow> current_user option \<Rightarrow> nat \<Rightarrow> body option \<Rightarrow> network_db \<Rightarrow> net_reply \<times> network_db" where
  "update_dhcp_pool E v6 user i data db =
     admin_guard (requires_scope [''dhcp:write''] user)
      (get_json data (\<lambda>d. with_pool user i (\<lambda>p.
        (let ranged = has_key d ''rangeStart'' \<or> has_key d ''rangeEnd'';
             s = json_get_or d ''rangeStart'' (JStr (mp_range_start p)); e = json_get_or d ''rangeEnd'' (JStr (mp_range_end p))
         in admin_guard (if ranged then or_400 (validate_ip_range v6 s e) else Proceed)
              (case (patched d ''name'' col_text (mp_name p), patched d ''gateway'' col_text_null (mp_gateway p),
                     patched d ''domainName'' col_text_null (mp_domain_name p), patched d ''leaseDuration'' col_int (mp_lease_duration p),
                     patched d ''active'' col_bool (mp_active p), patched d ''enableDdns'' col_bool (mp_enable_ddns p),
                     patched d ''ddnsZoneId'' col_id_null (mp_ddns_zone_id p), col_text s, col_text e) of
                 (Some n, Some gw, Some domain, Some dur, Some act, Some ddns, Some zone, Some rs, Some re) \<Rightarrow>
                   (if has_key d ''ddnsZoneId'' \<and> zone_missing E zone db then (Crashed, db)
                    else (let p' = p\<lparr> mp_name := n, mp_gateway := gw, mp_domain_name := domain, mp_lease_duration := dur,
                                      mp_active := act, mp_enable_ddns := ddns, mp_ddns_zone_id := zone,
                                      mp_dns_servers := json_get_or d ''dnsServers'' (mp_dns_servers p),
                                      mp_ntp_servers := json_get_or d ''ntpServers'' (mp_ntp_servers p),
                                      mp_range_start := rs, mp_range_end := re \<rparr>
                          in (Answered 200 Done_Net,
                              db\<lparr> nd_pools := map (\<lambda>x. if mp_id x = i then p' else x) (nd_pools db) \<rparr>)))
               | _ \<Rightarrow> (Crashed, db)) db)) db) db) db"

text \<open>The cascade to leases and reservations is the database's.\<close>

definition delete_dhcp_pool :: "admin_env \<Rightarrow> current_user option \<Rightarrow> nat \<Rightarrow> network_db \<Rightarrow> net_reply \<times> network_db" where
  "delete_dhcp_pool E user i db =
     admin_guard (requires_scope [''dhcp:admin''] user)
      (with_pool user i (\<lambda>p.
        (Answered 200 Done_Net,
         db\<lparr> nd_pools := filter (\<lambda>x. mp_id x \<noteq> i) (nd_pools db),
             nd_leases := (if ae_fk E then filter (\<lambda>l. ml_pool_id l \<noteq> i) (nd_leases db) else nd_leases db),
             nd_reservations := (if ae_fk E then filter (\<lambda>r. mr_pool_id r \<noteq> i) (nd_reservations db) else nd_reservations db) \<rparr>)) db) db"

section \<open>Leases\<close>

definition remaining_seconds :: "int \<Rightarrow> mgr_lease \<Rightarrow> int" where
  "remaining_seconds now l = (if ml_status l = ''active'' then max 0 ((ml_end l - now) div 1000000) else 0)"

definition list_pool_leases ::
  "current_user option \<Rightarrow> int \<Rightarrow> nat \<Rightarrow> string option \<Rightarrow> string option \<Rightarrow> network_db \<Rightarrow> net_reply \<times> network_db" where
  "list_pool_leases user now i status mac db =
     admin_guard (signed_in user)
      (with_pool user i (\<lambda>p.
        (Answered 200 (Leases_Body (map (\<lambda>l. (l, remaining_seconds now l))
           (sort_key (\<lambda>l. - ml_start l) (filter (\<lambda>l. ml_pool_id l = i
              \<and> (truthy status \<longrightarrow> ml_status l = the status) \<and> (truthy mac \<longrightarrow> ml_mac l = py_upper (the mac))) (nd_leases db))))), db)) db) db"

definition lease_at :: "nat \<Rightarrow> network_db \<Rightarrow> mgr_lease option" where
  "lease_at j db = find (\<lambda>l. ml_id l = j) (nd_leases db)"

definition release_pool_lease :: "current_user option \<Rightarrow> nat \<Rightarrow> nat \<Rightarrow> network_db \<Rightarrow> net_reply \<times> network_db" where
  "release_pool_lease user i j db =
     admin_guard (requires_scope [''dhcp:write''] user)
      (case lease_at j db of
         None \<Rightarrow> (Refused 404, db)
       | Some l \<Rightarrow>
           (if ml_pool_id l \<noteq> i then (Refused 404, db)
            else with_pool user i (\<lambda>p. (Answered 200 (Released_Body (ml_ip l) (ml_mac l)),
                   db\<lparr> nd_leases := map (\<lambda>x. if ml_id x = j then x\<lparr> ml_status := ''released'' \<rparr> else x) (nd_leases db) \<rparr>)) db)) db"

section \<open>Reservations\<close>

definition list_reservations :: "current_user option \<Rightarrow> int option \<Rightarrow> network_db \<Rightarrow> net_reply \<times> network_db" where
  "list_reservations user pool_id db =
     (case user of
        None \<Rightarrow> (Refused 401, db)
      | Some u \<Rightarrow>
          (let teams = get_user_team_ids (cu_user_id u) db;
               accessible = map mp_id (filter (\<lambda>p. case mp_team_id p of None \<Rightarrow> True | Some t \<Rightarrow> t \<in> set teams) (nd_pools db))
           in (Answered 200 (Reservations_Body (sort_key mr_ip (filter (\<lambda>r. arg_selects pool_id (Some (mr_pool_id r))
                \<and> (org_wide u \<or> mr_pool_id r \<in> set accessible)) (nd_reservations db)))), db)))"

definition create_reservation :: "current_user option \<Rightarrow> body option \<Rightarrow> network_db \<Rightarrow> net_reply \<times> network_db" where
  "create_reservation user data db =
     admin_guard (requires_scope [''dhcp:write''] user)
      (validate_json [''poolId'', ''macAddress'', ''ipAddress''] data (\<lambda>d.
        case key_of (json_get d ''poolId'') of
          None \<Rightarrow> (Refused 404, db)
        | Some i \<Rightarrow> with_pool user i (\<lambda>p.
            (case (col_text (json_get d ''macAddress''), col_text (json_get d ''ipAddress''),
                   col_text_null (json_get d ''hostname''), col_text_null (json_get d ''description'')) of
               (Some m, Some ip, Some h, Some descr) \<Rightarrow>
                 (let mac = py_upper m
                  in if list_ex (\<lambda>r. mr_pool_id r = i \<and> (mr_mac r = mac \<or> mr_ip r = ip)) (nd_reservations db)
                     then (Refused 409, db)
                     else (let r = \<lparr> mr_id = nd_seq db, mr_pool_id = i, mr_mac = mac, mr_ip = ip, mr_hostname = h,
                                     mr_description = descr \<rparr>
                           in (Answered 201 (Reservation_Body r),
                               db\<lparr> nd_reservations := nd_reservations db @ [r], nd_seq := nd_seq db + 1 \<rparr>)))
             | _ \<Rightarrow> (Crashed, db))) db) db) db"

definition delete_reservation :: "current_user option \<Rightarrow> nat \<Rightarrow> network_db \<Rightarrow> net_reply \<times> network_db" where
  "delete_reservation user j db =
     admin_guard (requires_scope [''dhcp:write''] user)
      (case find (\<lambda>r. mr_id r = j) (nd_reservations db) of
         None \<Rightarrow> (Refused 404, db)
       | Some r \<Rightarrow> with_pool user (mr_pool_id r) (\<lambda>p. (Answered 200 Done_Net,
           db\<lparr> nd_reservations := filter (\<lambda>x. mr_id x \<noteq> j) (nd_reservations db) \<rparr>)) db) db"

section \<open>Time servers\<close>

definition time_server_at :: "nat \<Rightarrow> network_db \<Rightarrow> time_server option" where
  "time_server_at i db = find (\<lambda>s. ts_id s = i) (nd_servers db)"

definition list_time_servers ::
  "current_user option \<Rightarrow> string option \<Rightarrow> int option \<Rightarrow> string option \<Rightarrow> network_db \<Rightarrow> net_reply \<times> network_db" where
  "list_time_servers user protocol team_id active db =
     (case user of
        None \<Rightarrow> (Refused 401, db)
      | Some u \<Rightarrow>
          (Answered 200 (Servers_Body (sort_key ts_priority (filter (\<lambda>s.
             (truthy protocol \<longrightarrow> ts_protocol s = the protocol) \<and> arg_selects team_id (ts_team_id s)
             \<and> flag_selects active (ts_active s) \<and> can_access_row user (ts_team_id s) db) (nd_servers db)))), db))"

definition create_time_server :: "admin_env \<Rightarrow> current_user option \<Rightarrow> body option \<Rightarrow> network_db \<Rightarrow> net_reply \<times> network_db" where
  "create_time_server E user data db =
     admin_guard (requires_scope [''time:write''] user)
      (validate_json [''name'', ''serverUrl'', ''protocol''] data (\<lambda>d.
        if json_get d ''protocol'' \<notin> {JStr ''ptp'', JStr ''ntp''} then (Refused 400, db)
        else (case (col_text (json_get d ''name''), col_text (json_get d ''serverUrl''), col_text (json_get d ''protocol''),
                    col_int (json_get_or d ''stratum'' (JInt 2)), col_int (json_get_or d ''priority'' (JInt 100)),
                    col_id_null (json_get d ''teamId''), col_bool (json_get_or d ''active'' (JBool True))) of
                (Some n, Some u, Some pr, Some st, Some pri, Some team, Some act) \<Rightarrow>
                  (if team_missing E team (nd_admin db) then (Crashed, db)
                   else (let s = \<lparr> ts_id = nd_seq db, ts_name = n, ts_server_url = u, ts_protocol = pr, ts_stratum = st,
                                   ts_priority = pri, ts_team_id = team, ts_active = act, ts_status = ''unknown'',
                                   ts_last_sync = None, ts_last_offset_ms = None, ts_last_delay_ms = None,
                                   ts_ptp_config = json_get d ''ptpConfig'' \<rparr>
                         in (Answered 201 (Server_Body s), db\<lparr> nd_servers := nd_servers db @ [s], nd_seq := nd_seq db + 1 \<rparr>)))
              | _ \<Rightarrow> (Crashed, db))) db) db"

definition with_server ::
  "current_user option \<Rightarrow> nat \<Rightarrow> (time_server \<Rightarrow> net_reply \<times> network_db) \<Rightarrow> network_db \<Rightarrow> net_reply \<times> network_db" where
  "with_server user i f db =
     (case time_server_at i db of
        None \<Rightarrow> (Refused 404, db)
      | Some s \<Rightarrow> (if \<not> can_access_row user (ts_team_id s) db then (Refused 403, db) else f s))"

definition day_us :: int where
  "day_us = 24 * 3600 * 1000000"

definition get_time_server :: "current_user option \<Rightarrow> int \<Rightarrow> nat \<Rightarrow> network_db \<Rightarrow> net_reply \<times> network_db" where
  "get_time_server user now i db =
     admin_guard (signed_in user)
      (with_server user i (\<lambda>s.
        (let logs = filter (\<lambda>l. tl_server_id l = i \<and> now - day_us \<le> tl_timestamp l) (nd_logs db);
             ok = filter (\<lambda>l. tl_status l = ''success'') logs;
             failed = length (filter (\<lambda>l. tl_status l = ''failed'') logs);
             offsets = map (\<lambda>l. \<bar>tl_offset_ms l\<bar>) ok
         in (Answered 200
               (if ok = [] then Server_Stats_Body s 0 failed 0 0 0
                else Server_Stats_Body s (length ok) failed (sum_list offsets / of_nat (length ok))
                       (foldr max (tl offsets) (hd offsets)) (sum_list (map tl_delay_ms ok) / of_nat (length ok))), db))) db) db"

definition update_time_server :: "current_user option \<Rightarrow> nat \<Rightarrow> body option \<Rightarrow> network_db \<Rightarrow> net_reply \<times> network_db" where
  "update_time_server user i data db =
     admin_guard (requires_scope [''time:write''] user)
      (get_json data (\<lambda>d. with_server user i (\<lambda>s.
        (case (patched d ''name'' col_text (ts_name s), patched d ''serverUrl'' col_text (ts_server_url s),
               patched d ''stratum'' col_int (ts_stratum s), patched d ''priority'' col_int (ts_priority s),
               patched d ''active'' col_bool (ts_active s)) of
           (Some n, Some u, Some st, Some pri, Some act) \<Rightarrow>
             (let s' = s\<lparr> ts_name := n, ts_server_url := u, ts_stratum := st, ts_priority := pri, ts_active := act,
                          ts_ptp_config := json_get_or d ''ptpConfig'' (ts_ptp_config s) \<rparr>
              in (Answered 200 Done_Net, db\<lparr> nd_servers := map (\<lambda>x. if ts_id x = i then s' else x) (nd_servers db) \<rparr>))
         | _ \<Rightarrow> (Crashed, db))) db) db) db"

definition delete_time_server :: "admin_env \<Rightarrow> current_user option \<Rightarrow> nat \<Rightarrow> network_db \<Rightarrow> net_reply \<times> network_db" where
  "delete_time_server E user i db =
     admin_guard (requires_scope [''time:admin''] user)
      (with_server user i (\<lambda>s.
        (Answered 200 Done_Net,
         db\<lparr> nd_servers := filter (\<lambda>x. ts_id x \<noteq> i) (nd_servers db),
             nd_logs := (if ae_fk E then filter (\<lambda>l. tl_server_id l \<noteq> i) (nd_logs db) else nd_logs db) \<rparr>)) db) db"

section \<open>Status, synchronisation and logs\<close>

text \<open>\<^verbatim>\<open>orderby\<close> with \<^verbatim>\<open>limitby=(0, 1)\<close>: the first row of the ordered result.\<close>

definition best_server :: "(time_server \<Rightarrow> bool) \<Rightarrow> network_db \<Rightarrow> time_server option" where
  "best_server P db = (case sort_key ts_priority (filter P (nd_servers db)) of [] \<Rightarrow> None | s # _ \<Rightarrow> Some s)"

definition get_time_status :: "current_user option \<Rightarrow> network_db \<Rightarrow> net_reply \<times> network_db" where
  "get_time_status user db =
     admin_guard (signed_in user)
      (let source = best_server (\<lambda>s. ts_active s \<and> ts_status s = ''synchronized'') db;
           latest = (case sort_key (\<lambda>l. - tl_timestamp l) (filter (\<lambda>l. tl_status l = ''success'') (nd_logs db)) of
                       [] \<Rightarrow> None | l # _ \<Rightarrow> Some (tl_offset_ms l, tl_delay_ms l, tl_timestamp l))
       in (Answered 200 (Status_Body (source \<noteq> None)
             (map_option (\<lambda>s. (ts_id s, ts_name s, ts_protocol s, ts_stratum s)) source) latest
             (list_ex (\<lambda>s. ts_active s \<and> ts_protocol s = ''ntp'') (nd_servers db))), db)) db"

text \<open>
  \<open>draws\<close> are the three random numbers: the offsets before and after, and the delay. The server is the one of
  the request, or the active one of the highest priority whatever its team.
\<close>

definition synced :: "int \<Rightarrow> rat \<times> rat \<times> rat \<Rightarrow> time_server \<Rightarrow> network_db \<Rightarrow> net_reply \<times> network_db" where
  "synced now draws s db =
     (case draws of (off0, off1, delay) \<Rightarrow>
        (Answered 200 (Sync_Body (ts_name s) (ts_protocol s) off0 off1 (off1 - off0)),
         db\<lparr> nd_logs := nd_logs db @ [\<lparr> tl_id = nd_seq db, tl_server_id = ts_id s, tl_timestamp = now, tl_offset_ms = off1,
                         tl_delay_ms = delay, tl_protocol = ts_protocol s, tl_status = ''success'', tl_error_message = None \<rparr>],
             nd_servers := map (\<lambda>x. if ts_id x = ts_id s
                then x\<lparr> ts_status := ''synchronized'', ts_last_sync := Some now, ts_last_offset_ms := Some off1,
                         ts_last_delay_ms := Some delay \<rparr> else x) (nd_servers db),
             nd_seq := nd_seq db + 1 \<rparr>))"

definition trigger_time_sync ::
  "current_user option \<Rightarrow> int \<Rightarrow> rat \<times> rat \<times> rat \<Rightarrow> body option \<Rightarrow> network_db \<Rightarrow> net_reply \<times> network_db" where
  "trigger_time_sync user now draws data db =
     admin_guard (requires_scope [''time:write''] user)
      (get_json data (\<lambda>d.
        (let server_id = json_get d ''serverId''
         in if json_truthy server_id
            then (case Option.bind (key_of server_id) (\<lambda>i. time_server_at i db) of
                    None \<Rightarrow> (Refused 404, db)
                  | Some s \<Rightarrow>
                      (if \<not> ts_active s then (Refused 404, db)
                       else if \<not> can_access_row user (ts_team_id s) db then (Refused 403, db)
                       else synced now draws s db))
            else (case best_server ts_active db of None \<Rightarrow> (Refused 404, db) | Some s \<Rightarrow> synced now draws s db))) db) db"

text \<open>A date that does not parse does not filter.\<close>

definition date_bound :: "admin_env \<Rightarrow> string option \<Rightarrow> int option" where
  "date_bound E arg = (if truthy arg then ae_fromisoformat E (replace_z (the arg)) else None)"

definition selected_logs ::
  "admin_env \<Rightarrow> current_user \<Rightarrow> int option \<Rightarrow> string option \<Rightarrow> string option \<Rightarrow> string option \<Rightarrow> network_db \<Rightarrow> time_log list" where
  "selected_logs E u server start_date end_date status db =
     (let teams = get_user_team_ids (cu_user_id u) db;
          accessible = map ts_id (filter (\<lambda>s. case ts_team_id s of None \<Rightarrow> True | Some t \<Rightarrow> t \<in> set teams) (nd_servers db))
      in sort_key (\<lambda>l. - tl_timestamp l) (filter (\<lambda>l. arg_selects server (Some (tl_server_id l))
           \<and> (org_wide u \<or> tl_server_id l \<in> set accessible)
           \<and> (case date_bound E start_date of None \<Rightarrow> True | Some t \<Rightarrow> t \<le> tl_timestamp l)
           \<and> (case date_bound E end_date of None \<Rightarrow> True | Some t \<Rightarrow> tl_timestamp l \<le> t)
           \<and> (truthy status \<longrightarrow> tl_status l = the status)) (nd_logs db)))"

text \<open>The numbers of the page and of its rows are read with \<^verbatim>\<open>type=int\<close>; the defaults stand for anything else.\<close>

definition page_of :: "int option \<Rightarrow> int" where
  "page_of arg = max 1 (case arg of None \<Rightarrow> 1 | Some p \<Rightarrow> p)"

definition per_page_of :: "int option \<Rightarrow> int" where
  "per_page_of arg = min 500 (max 1 (case arg of None \<Rightarrow> 100 | Some p \<Rightarrow> p))"

definition page_slice :: "int \<Rightarrow> int \<Rightarrow> 'a list \<Rightarrow> 'a list" where
  "page_slice page per_page xs = take (nat per_page) (drop (nat ((page - 1) * per_page)) xs)"

definition server_name :: "network_db \<Rightarrow> nat \<Rightarrow> string" where
  "server_name db i = (case find (\<lambda>s. ts_id s = i) (nd_servers db) of None \<Rightarrow> ''Unknown'' | Some s \<Rightarrow> ts_name s)"

definition list_time_logs ::
  "admin_env \<Rightarrow> current_user option \<Rightarrow> int option \<Rightarrow> string option \<Rightarrow> string option \<Rightarrow> string option \<Rightarrow> int option \<Rightarrow> int option
    \<Rightarrow> network_db \<Rightarrow> net_reply \<times> network_db" where
  "list_time_logs E user server start_date end_date status page per_page db =
     (case user of
        None \<Rightarrow> (Refused 401, db)
      | Some u \<Rightarrow>
          (let p = page_of page; n = per_page_of per_page; logs = selected_logs E u server start_date end_date status db
           in (Answered 200 (Logs_Body (map (\<lambda>l. (l, server_name db (tl_server_id l))) (page_slice p n logs)) p n
                 (length logs) ((int (length logs) + n - 1) div n)), db)))"

section \<open>Steps\<close>

datatype net_cmd =
    Create_Pool "body option"
  | Update_Pool nat "body option"
  | Delete_Pool nat
  | Release_Lease nat nat
  | Create_Reservation "body option"
  | Delete_Reservation nat
  | Create_Server "body option"
  | Update_Server nat "body option"
  | Delete_Server nat
  | Trigger_Sync int "rat \<times> rat \<times> rat" "body option"

fun net_step ::
  "admin_env \<Rightarrow> (string \<Rightarrow> nat option) \<Rightarrow> current_user option \<times> net_cmd \<Rightarrow> network_db \<Rightarrow> net_reply \<times> network_db" where
  "net_step E v6 (user, Create_Pool data) db = create_dhcp_pool E v6 user data db"
| "net_step E v6 (user, Update_Pool i data) db = update_dhcp_pool E v6 user i data db"
| "net_step E v6 (user, Delete_Pool i) db = delete_dhcp_pool E user i db"
| "net_step E v6 (user, Release_Lease i j) db = release_pool_lease user i j db"
| "net_step E v6 (user, Create_Reservation data) db = create_reservation user data db"
| "net_step E v6 (user, Delete_Reservation j) db = delete_reservation user j db"
| "net_step E v6 (user, Create_Server data) db = create_time_server E user data db"
| "net_step E v6 (user, Update_Server i data) db = update_time_server user i data db"
| "net_step E v6 (user, Delete_Server i) db = delete_time_server E user i db"
| "net_step E v6 (user, Trigger_Sync now draws data) db = trigger_time_sync user now draws data db"

section \<open>What a step changes\<close>

lemma with_pool_change:
  "\<lbrakk> with_pool user i f db = (r, db'); db' \<noteq> db \<rbrakk> \<Longrightarrow>
     \<exists>p. pool_at i db = Some p \<and> can_access_row user (mp_team_id p) db \<and> f p = (r, db')"
  by (auto simp: with_pool_def split: option.splits if_splits)

lemma with_server_change:
  "\<lbrakk> with_server user i f db = (r, db'); db' \<noteq> db \<rbrakk> \<Longrightarrow>
     \<exists>s. time_server_at i db = Some s \<and> can_access_row user (ts_team_id s) db \<and> f s = (r, db')"
  by (auto simp: with_server_def split: option.splits if_splits)

lemmas route_changes = admin_guard_change validate_json_change get_json_change with_pool_change with_server_change

lemma create_pool_change:
  assumes "create_dhcp_pool E v6 user data db = (r, db')" "db' \<noteq> db"
  shows "\<exists>p. mp_id p = nd_seq db \<and> db' = db\<lparr> nd_pools := nd_pools db @ [p], nd_seq := nd_seq db + 1 \<rparr>"
  using assms unfolding create_dhcp_pool_def
  by (intro exI [of _ "last (nd_pools db')"]) (auto simp: Let_def dest!: route_changes split: option.splits if_splits)

lemma update_pool_change:
  assumes "update_dhcp_pool E v6 user i data db = (r, db')" "db' \<noteq> db"
  obtains p p' where "pool_at i db = Some p" "db' = db\<lparr> nd_pools := map (\<lambda>x. if mp_id x = i then p' else x) (nd_pools db) \<rparr>"
    "can_access_row user (mp_team_id p) db" "mp_id p' = mp_id p" "mp_team_id p' = mp_team_id p"
  using assms unfolding update_dhcp_pool_def
  by (auto simp: Let_def dest!: route_changes split: option.splits if_splits)

lemma delete_pool_change:
  assumes "delete_dhcp_pool E user i db = (r, db')" "db' \<noteq> db"
  obtains p where "pool_at i db = Some p" "can_access_row user (mp_team_id p) db"
    "db' = db\<lparr> nd_pools := filter (\<lambda>x. mp_id x \<noteq> i) (nd_pools db),
       nd_leases := (if ae_fk E then filter (\<lambda>l. ml_pool_id l \<noteq> i) (nd_leases db) else nd_leases db),
       nd_reservations := (if ae_fk E then filter (\<lambda>r. mr_pool_id r \<noteq> i) (nd_reservations db) else nd_reservations db) \<rparr>"
  using assms unfolding delete_dhcp_pool_def
  by (auto dest!: route_changes split: option.splits if_splits)

lemma release_lease_change:
  assumes "release_pool_lease user i j db = (r, db')" "db' \<noteq> db"
  obtains l p where "lease_at j db = Some l" "ml_pool_id l = i" "pool_at i db = Some p" "can_access_row user (mp_team_id p) db"
    "db' = db\<lparr> nd_leases := map (\<lambda>x. if ml_id x = j then x\<lparr> ml_status := ''released'' \<rparr> else x) (nd_leases db) \<rparr>"
  using assms unfolding release_pool_lease_def
  by (auto dest!: route_changes split: option.splits if_splits)

lemma create_reservation_change:
  assumes "create_reservation user data db = (r, db')" "db' \<noteq> db"
  obtains x p where "pool_at (mr_pool_id x) db = Some p" "can_access_row user (mp_team_id p) db" "mr_id x = nd_seq db"
    "mr_mac x \<in> range py_upper"
    "\<not> list_ex (\<lambda>y. mr_pool_id y = mr_pool_id x \<and> (mr_mac y = mr_mac x \<or> mr_ip y = mr_ip x)) (nd_reservations db)"
    "db' = db\<lparr> nd_reservations := nd_reservations db @ [x], nd_seq := nd_seq db + 1 \<rparr>"
  using assms unfolding create_reservation_def Let_def
  by - (rule that [of "last (nd_reservations db')" "the (pool_at (mr_pool_id (last (nd_reservations db'))) db)"]; auto dest!: route_changes split: option.splits if_splits)

lemma delete_reservation_change:
  assumes "delete_reservation user j db = (r, db')" "db' \<noteq> db"
  obtains x p where "find (\<lambda>x. mr_id x = j) (nd_reservations db) = Some x" "pool_at (mr_pool_id x) db = Some p"
    "can_access_row user (mp_team_id p) db"
    "db' = db\<lparr> nd_reservations := filter (\<lambda>x. mr_id x \<noteq> j) (nd_reservations db) \<rparr>"
  using assms unfolding delete_reservation_def
  by (auto dest!: route_changes split: option.splits if_splits)

lemma synced_frame:
  "nd_pools (snd (synced now draws s db)) = nd_pools db" "nd_reservations (snd (synced now draws s db)) = nd_reservations db"
  "nd_leases (snd (synced now draws s db)) = nd_leases db" "nd_admin (snd (synced now draws s db)) = nd_admin db"
  "nd_seq (snd (synced now draws s db)) = nd_seq db + 1"
  by (simp_all add: synced_def split: prod.splits)

text \<open>The routes of the time servers leave the pools alone.\<close>

definition same_pools :: "network_db \<Rightarrow> network_db \<Rightarrow> bool" where
  "same_pools db db' \<longleftrightarrow> nd_pools db' = nd_pools db \<and> nd_reservations db' = nd_reservations db
     \<and> nd_leases db' = nd_leases db \<and> nd_seq db \<le> nd_seq db'"

lemma create_server_frame: "create_time_server E user data db = (r, db') \<Longrightarrow> same_pools db db' \<and> nd_admin db' = nd_admin db"
  by (cases "db' = db") (auto simp: create_time_server_def same_pools_def Let_def dest!: route_changes split: option.splits if_splits)

lemma update_server_frame: "update_time_server user i data db = (r, db') \<Longrightarrow> same_pools db db' \<and> nd_admin db' = nd_admin db"
  by (cases "db' = db") (auto simp: update_time_server_def same_pools_def Let_def dest!: route_changes split: option.splits if_splits)

lemma delete_server_frame: "delete_time_server E user i db = (r, db') \<Longrightarrow> same_pools db db' \<and> nd_admin db' = nd_admin db"
  by (cases "db' = db") (auto simp: delete_time_server_def same_pools_def dest!: route_changes split: option.splits if_splits)

lemma synced_same_pools: "synced now draws s db = (r, db') \<Longrightarrow> same_pools db db' \<and> nd_admin db' = nd_admin db"
  using synced_frame [of now draws s db] by (simp add: same_pools_def)

lemma trigger_sync_frame: "trigger_time_sync user now draws data db = (r, db') \<Longrightarrow> same_pools db db' \<and> nd_admin db' = nd_admin db"
  by (cases "db' = db")
    (auto simp: trigger_time_sync_def same_pools_def Let_def dest!: route_changes synced_same_pools split: option.splits if_splits)

lemma net_step_admin: "net_step E v6 c db = (r, db') \<Longrightarrow> nd_admin db' = nd_admin db"
proof (cases "db' = db")
  case False
  assume s: "net_step E v6 c db = (r, db')"
  obtain user cmd where c: "c = (user, cmd)" by fastforce
  show ?thesis
    using s False unfolding c
    by (cases cmd)
      (auto dest!: create_pool_change elim!: update_pool_change delete_pool_change release_lease_change create_reservation_change
         delete_reservation_change dest: create_server_frame update_server_frame delete_server_frame trigger_sync_frame)
qed simp

section \<open>The state stays well formed\<close>

text \<open>
  Identifiers are unique and below the counter, and the reservations of a pool have different hardware addresses, in
  upper case, and different addresses.
\<close>

definition pools_ok :: "network_db \<Rightarrow> bool" where
  "pools_ok db \<longleftrightarrow> distinct (map mp_id (nd_pools db)) \<and> distinct (map mr_id (nd_reservations db)) \<and> distinct (map ml_id (nd_leases db))
     \<and> (\<forall>p\<in>set (nd_pools db). mp_id p < nd_seq db) \<and> (\<forall>r\<in>set (nd_reservations db). mr_id r < nd_seq db)"

definition reservations_ok :: "mgr_reservation list \<Rightarrow> bool" where
  "reservations_ok rs \<longleftrightarrow> distinct (map (\<lambda>r. (mr_pool_id r, mr_mac r)) rs) \<and> distinct (map (\<lambda>r. (mr_pool_id r, mr_ip r)) rs)
     \<and> (\<forall>r\<in>set rs. mr_mac r \<in> range py_upper)"

lemma pools_ok_frame: "\<lbrakk> pools_ok db; same_pools db db' \<rbrakk> \<Longrightarrow> pools_ok db'"
  by (fastforce simp: pools_ok_def same_pools_def)

lemma reservations_ok_filter: "reservations_ok rs \<Longrightarrow> reservations_ok (filter P rs)"
  by (simp add: reservations_ok_def distinct_map_filter)

lemma reservations_ok_snoc:
  "\<lbrakk> reservations_ok rs; mr_mac x \<in> range py_upper;
     \<not> list_ex (\<lambda>y. mr_pool_id y = mr_pool_id x \<and> (mr_mac y = mr_mac x \<or> mr_ip y = mr_ip x)) rs \<rbrakk> \<Longrightarrow> reservations_ok (rs @ [x])"
  by (auto simp: reservations_ok_def list_ex_iff)

lemma net_step_reservations:
  assumes "reservations_ok (nd_reservations db)" "net_step E v6 c db = (r, db')"
  shows "reservations_ok (nd_reservations db')"
proof (cases "db' = db")
  case False
  obtain user cmd where c: "c = (user, cmd)" by fastforce
  note changed = False
  show ?thesis
  proof (cases "\<exists>data. cmd = Create_Reservation data")
    case True
    then obtain data where "create_reservation user data db = (r, db')" using assms(2) c by auto
    from this changed show ?thesis
      by (rule create_reservation_change) (simp add: reservations_ok_snoc [OF assms(1)])
  next
    case False
    show ?thesis
      using assms changed False unfolding c
      by (cases cmd)
        (auto dest!: create_pool_change elim!: update_pool_change delete_pool_change release_lease_change
           delete_reservation_change intro: reservations_ok_filter
           dest: create_server_frame update_server_frame delete_server_frame trigger_sync_frame simp: same_pools_def)
  qed
qed (use assms in simp)

lemma pool_at_SomeD: "pool_at i db = Some p \<Longrightarrow> p \<in> set (nd_pools db) \<and> mp_id p = i"
  by (auto simp: pool_at_def dest: find_SomeD)

lemma map_update_ids: "k y' = i \<Longrightarrow> map k (map (\<lambda>x. if k x = i then y' else x) xs) = map k xs"
  by auto

lemma net_step_ok:
  assumes "pools_ok db" "net_step E v6 c db = (r, db')"
  shows "pools_ok db'"
proof (cases "db' = db")
  case False
  obtain user cmd where c: "c = (user, cmd)" by fastforce
  show ?thesis
  proof (cases cmd)
    case (Create_Pool data)
    with assms(2) c obtain p where "mp_id p = nd_seq db" "db' = db\<lparr> nd_pools := nd_pools db @ [p], nd_seq := nd_seq db + 1 \<rparr>"
      using create_pool_change False by (metis net_step.simps(1))
    then show ?thesis using assms(1) by (auto simp: pools_ok_def less_Suc_eq)
  next
    case (Update_Pool i data)
    with assms(2) c have "update_dhcp_pool E v6 user i data db = (r, db')" by simp
    from this False show ?thesis
    proof (rule update_pool_change)
      fix p p'
      assume p: "pool_at i db = Some p" "db' = db\<lparr> nd_pools := map (\<lambda>x. if mp_id x = i then p' else x) (nd_pools db) \<rparr>" "mp_id p' = mp_id p"
      then have "mp_id p' = i" "p' \<in> set (nd_pools db') \<longrightarrow> mp_id p' < nd_seq db" using pool_at_SomeD assms(1) by (auto simp: pools_ok_def)
      then show ?thesis using assms(1) p(2) map_update_ids [of mp_id p' i "nd_pools db"] by (auto simp: pools_ok_def simp del: map_map)
    qed
  next
    case (Release_Lease i j)
    with assms(2) c have "release_pool_lease user i j db = (r, db')" by simp
    from this False show ?thesis
    proof (rule release_lease_change)
      assume d: "db' = db\<lparr> nd_leases := map (\<lambda>x. if ml_id x = j then x\<lparr> ml_status := ''released'' \<rparr> else x) (nd_leases db) \<rparr>"
      have "map ml_id (map (\<lambda>x. if ml_id x = j then x\<lparr> ml_status := ''released'' \<rparr> else x) (nd_leases db)) = map ml_id (nd_leases db)" by auto
      then show ?thesis using assms(1) by (simp add: pools_ok_def d del: map_map)
    qed
  next
    case (Create_Reservation data)
    with assms(2) c have "create_reservation user data db = (r, db')" by simp
    from this False show ?thesis
      by (rule create_reservation_change) (use assms(1) in \<open>auto simp: pools_ok_def less_Suc_eq\<close>)
  next
    case (Delete_Pool i)
    with assms(2) c have "delete_dhcp_pool E user i db = (r, db')" by simp
    from this False show ?thesis
      by (rule delete_pool_change) (use assms(1) in \<open>auto simp: pools_ok_def distinct_map_filter\<close>)
  next
    case (Delete_Reservation j)
    with assms(2) c have "delete_reservation user j db = (r, db')" by simp
    from this False show ?thesis
      by (rule delete_reservation_change) (use assms(1) in \<open>auto simp: pools_ok_def distinct_map_filter\<close>)
  qed (use assms c pools_ok_frame create_server_frame update_server_frame delete_server_frame trigger_sync_frame in \<open>fastforce+\<close>)
qed (use assms in simp)

section \<open>Confinement\<close>

text \<open>What pool \<open>p\<close> is: its row, its reservations and its leases.\<close>

definition same_pool :: "mgr_pool \<Rightarrow> network_db \<Rightarrow> network_db \<Rightarrow> bool" where
  "same_pool p db db' \<longleftrightarrow> p \<in> set (nd_pools db')
     \<and> filter (\<lambda>r. mr_pool_id r = mp_id p) (nd_reservations db') = filter (\<lambda>r. mr_pool_id r = mp_id p) (nd_reservations db)
     \<and> filter (\<lambda>l. ml_pool_id l = mp_id p) (nd_leases db') = filter (\<lambda>l. ml_pool_id l = mp_id p) (nd_leases db)"

lemma same_pool_frame: "\<lbrakk> p \<in> set (nd_pools db); same_pools db db' \<rbrakk> \<Longrightarrow> same_pool p db db'"
  by (simp add: same_pool_def same_pools_def)

lemma pool_at_member: "\<lbrakk> pools_ok db; p \<in> set (nd_pools db) \<rbrakk> \<Longrightarrow> pool_at (mp_id p) db = Some p"
proof -
  assume ok: "pools_ok db" and p: "p \<in> set (nd_pools db)"
  obtain q where q: "pool_at (mp_id p) db = Some q" using find_NoneD [of _ _ p] p by (fastforce simp: pool_at_def)
  then have "q = p" using ok p pool_at_SomeD [OF q] unfolding pools_ok_def distinct_map by (metis inj_onD)
  with q show ?thesis by simp
qed

lemma filter_map_other:
  "\<lbrakk> \<forall>x\<in>set xs. c x \<longrightarrow> k x \<noteq> i; \<forall>x. k (g x) = k x \<rbrakk> \<Longrightarrow> filter (\<lambda>x. k x = i) (map (\<lambda>x. if c x then g x else x) xs) = filter (\<lambda>x. k x = i) xs"
  by (induction xs) auto

lemma net_step_confined:
  assumes "pools_ok db" "net_step E v6 c db = (r, db')" "p \<in> set (nd_pools db)"
    and "\<not> can_access_row (fst c) (mp_team_id p) db"
  shows "same_pool p db db'"
proof (cases "db' = db")
  case False
  obtain user cmd where c: "c = (user, cmd)" by fastforce
  have other: "i \<noteq> mp_id p" if "pool_at i db = Some q" "can_access_row user (mp_team_id q) db" for i q
    using that assms(3,4) pool_at_member [OF assms(1,3)] c by auto
  show ?thesis
  proof (cases cmd)
    case (Create_Pool data)
    with assms(2) c have "create_dhcp_pool E v6 user data db = (r, db')" by simp
    from create_pool_change [OF this False] show ?thesis using assms(3) by (auto simp: same_pool_def)
  next
    case (Update_Pool i data)
    with assms(2) c have "update_dhcp_pool E v6 user i data db = (r, db')" by simp
    from this False show ?thesis
      by (rule update_pool_change) (use assms(3) other [of i] in \<open>auto simp: same_pool_def image_iff\<close>)
  next
    case (Delete_Pool i)
    with assms(2) c have "delete_dhcp_pool E user i db = (r, db')" by simp
    from this False show ?thesis
      by (rule delete_pool_change) (use assms(3) other [of i] in \<open>auto simp: same_pool_def intro!: filter_cong\<close>)
  next
    case (Release_Lease i j)
    with assms(2) c have "release_pool_lease user i j db = (r, db')" by simp
    from this False show ?thesis
    proof (rule release_lease_change)
      fix l q
      assume l: "lease_at j db = Some l" "ml_pool_id l = i" and q: "pool_at i db = Some q" "can_access_row user (mp_team_id q) db"
        and d: "db' = db\<lparr> nd_leases := map (\<lambda>x. if ml_id x = j then x\<lparr> ml_status := ''released'' \<rparr> else x) (nd_leases db) \<rparr>"
      have "l \<in> set (nd_leases db)" "ml_id l = j" using l(1) by (auto simp: lease_at_def dest: find_SomeD)
      then have "x = l" if "x \<in> set (nd_leases db)" "ml_id x = j" for x
        using that assms(1) unfolding pools_ok_def distinct_map by (metis inj_onD)
      then have "\<forall>x\<in>set (nd_leases db). ml_id x = j \<longrightarrow> ml_pool_id x \<noteq> mp_id p" using other [OF q] l(2) by auto
      then show ?thesis using assms(3) by (simp add: same_pool_def d filter_map_other)
    qed
  next
    case (Create_Reservation data)
    with assms(2) c have "create_reservation user data db = (r, db')" by simp
    from this False show ?thesis
      by (rule create_reservation_change) (use assms(3) other in \<open>auto simp: same_pool_def\<close>)
  next
    case (Delete_Reservation j)
    with assms(2) c have "delete_reservation user j db = (r, db')" by simp
    from this False show ?thesis
    proof (rule delete_reservation_change)
      fix x q
      assume x: "find (\<lambda>x. mr_id x = j) (nd_reservations db) = Some x" and q: "pool_at (mr_pool_id x) db = Some q" "can_access_row user (mp_team_id q) db"
        and d: "db' = db\<lparr> nd_reservations := filter (\<lambda>x. mr_id x \<noteq> j) (nd_reservations db) \<rparr>"
      have "y = x" if "y \<in> set (nd_reservations db)" "mr_id y = j" for y
        using that assms(1) find_SomeD [OF x] unfolding pools_ok_def distinct_map by (metis inj_onD)
      then have "\<forall>y\<in>set (nd_reservations db). mr_pool_id y = mp_id p \<longrightarrow> mr_id y \<noteq> j" using other [OF q] by auto
      then show ?thesis using assms(3) by (auto simp: same_pool_def d intro!: filter_cong)
    qed
  qed (use assms(2,3) c same_pool_frame create_server_frame update_server_frame delete_server_frame trigger_sync_frame in \<open>fastforce+\<close>)
qed (use assms in \<open>simp add: same_pool_def\<close>)

lemma can_access_row_admin: "nd_admin db' = nd_admin db \<Longrightarrow> can_access_row user team db' = can_access_row user team db"
  by (simp add: can_access_row_def get_user_team_ids_def split: option.splits)

section \<open>Pages\<close>

lemma upto_Suc_map: "[1..int m] = map (\<lambda>k. int k + 1) [0..<m]"
  by (induction m) (auto simp: upto_rec2)

lemma pages_cover:
  assumes "0 < n"
  shows "concat (map (\<lambda>p. page_slice p n xs) [1..(int (length xs) + n - 1) div n]) = xs"
proof -
  define m where "m = nat ((int (length xs) + n - 1) div n)"
  have m: "int m = (int (length xs) + n - 1) div n" using assms by (simp add: m_def pos_imp_zdiv_nonneg_iff)
  have "int (length xs) \<le> int m * n"
  proof -
    have "int (length xs) + n - 1 = (int (length xs) + n - 1) div n * n + (int (length xs) + n - 1) mod n" by simp
    moreover have "(int (length xs) + n - 1) mod n < n" using assms by simp
    ultimately show ?thesis unfolding m by linarith
  qed
  then have "length xs \<le> m * nat n" using assms by (metis int_nat_eq less_imp_le of_nat_le_iff of_nat_mult)
  moreover have "page_slice (int k + 1) n xs = take (nat n) (drop (k * nat n) xs)" for k
    using assms by (simp add: page_slice_def nat_mult_distrib)
  ultimately show ?thesis
    unfolding m [symmetric] upto_Suc_map using concat_slices [of "nat n" xs m] assms by (simp add: comp_def)
qed

section \<open>Properties\<close>

text \<open>
  C28. The address pools of a team are out of reach for everybody else: over any sequence of operations by callers
  who are neither in the team nor administrators of the organisation, a pool of the team, its reservations and
  its leases stay exactly as they are.
\<close>

theorem team_pools_confined:
  assumes "\<forall>c\<in>set cmds. \<not> can_access_row (fst c) (Some t) db" "pools_ok db"
    and "run_cmds (net_step E v6) cmds db = (rs, db')" "p \<in> set (nd_pools db)" "mp_team_id p = Some t"
  shows "p \<in> set (nd_pools db')
    \<and> filter (\<lambda>r. mr_pool_id r = mp_id p) (nd_reservations db') = filter (\<lambda>r. mr_pool_id r = mp_id p) (nd_reservations db)
    \<and> filter (\<lambda>l. ml_pool_id l = mp_id p) (nd_leases db') = filter (\<lambda>l. ml_pool_id l = mp_id p) (nd_leases db)"
  using assms(1-4)
proof (induction cmds arbitrary: db rs)
  case (Cons c cmds)
  obtain r db1 where s: "net_step E v6 c db = (r, db1)" by fastforce
  obtain rs' db2 where u: "run_cmds (net_step E v6) cmds db1 = (rs', db2)" by fastforce
  have e: "db2 = db'" using Cons.prems(3) s u by simp
  have same: "same_pool p db db1"
    using net_step_confined [OF Cons.prems(2) s Cons.prems(4)] Cons.prems(1) assms(5) by simp
  have "\<forall>c\<in>set cmds. \<not> can_access_row (fst c) (Some t) db1"
    using Cons.prems(1) can_access_row_admin [OF net_step_admin [OF s]] by simp
  then show ?case
    using Cons.IH [OF _ net_step_ok [OF Cons.prems(2) s] u [unfolded e]] same by (simp add: same_pool_def)
qed simp

text \<open>
  C29. The reservations of a pool are consistent in every reachable state: no hardware address and no address is
  reserved twice, and hardware addresses are in upper case.
\<close>

theorem reservations_consistent:
  assumes "nd_reservations db = []" "run_cmds (net_step E v6) cmds db = (rs, db')"
  shows "distinct (map (\<lambda>r. (mr_pool_id r, mr_mac r)) (nd_reservations db'))
    \<and> distinct (map (\<lambda>r. (mr_pool_id r, mr_ip r)) (nd_reservations db'))
    \<and> (\<forall>r\<in>set (nd_reservations db'). mr_mac r \<in> range py_upper)"
proof -
  have "reservations_ok (nd_reservations db) \<Longrightarrow> reservations_ok (nd_reservations db')"
    using assms(2)
  proof (induction cmds arbitrary: db rs)
    case (Cons c cmds)
    obtain r db1 where s: "net_step E v6 c db = (r, db1)" by fastforce
    show ?case using Cons.IH [OF net_step_reservations [OF Cons.prems(1) s]] Cons.prems(2) s by (auto split: prod.splits)
  qed simp
  then show ?thesis using assms(1) by (simp add: reservations_ok_def)
qed

text \<open>
  The pages of the synchronisation log are complete: a caller who reads page after page, as many as the reply
  announces, sees every entry of the selection exactly once and in order.
\<close>

definition log_rows :: "net_reply \<Rightarrow> (time_log \<times> string) list" where
  "log_rows reply = (case reply of Answered n (Logs_Body rows p pp n_logs pages) \<Rightarrow> rows | _ \<Rightarrow> [])"

definition log_pages :: "net_reply \<Rightarrow> int" where
  "log_pages reply = (case reply of Answered n (Logs_Body rows p pp n_logs pages) \<Rightarrow> pages | _ \<Rightarrow> 0)"

theorem log_pages_complete:
  "concat (map (\<lambda>p. log_rows (fst (list_time_logs E (Some u) server start_date end_date status (Some p) per_page db)))
      [1..log_pages (fst (list_time_logs E (Some u) server start_date end_date status None per_page db))])
   = map (\<lambda>l. (l, server_name db (tl_server_id l))) (selected_logs E u server start_date end_date status db)"
proof -
  let ?logs = "selected_logs E u server start_date end_date status db" and ?n = "per_page_of per_page"
  have n: "0 < ?n" by (auto simp: per_page_of_def)
  let ?page = "\<lambda>p. log_rows (fst (list_time_logs E (Some u) server start_date end_date status (Some p) per_page db))"
  let ?pages = "(int (length ?logs) + ?n - 1) div ?n" and ?named = "\<lambda>l. (l, server_name db (tl_server_id l))"
  have "map ?page [1..?pages] = map (\<lambda>p. map ?named (page_slice p ?n ?logs)) [1..?pages]"
    by (rule map_cong) (auto simp: list_time_logs_def log_rows_def page_of_def Let_def)
  moreover have "log_pages (fst (list_time_logs E (Some u) server start_date end_date status None per_page db)) = ?pages"
    by (simp add: list_time_logs_def log_pages_def Let_def)
  moreover have "concat (map (\<lambda>p. map ?named (page_slice p ?n ?logs)) [1..?pages])
      = map ?named (concat (map (\<lambda>p. page_slice p ?n ?logs) [1..?pages]))"
    by (simp add: map_concat comp_def)
  ultimately show ?thesis using pages_cover [OF n, of ?logs] by presburger
qed

text \<open>
  A caller who may not touch the time server of a team when it names the server synchronises it by naming none,
  when it is the active server of the highest priority: that branch has no access check.
\<close>

theorem unnamed_sync_bypasses_access:
  assumes "requires_scope [''time:write''] user = Proceed" "best_server ts_active db = Some s" "ts_id s \<noteq> 0"
    and "\<not> can_access_row user (ts_team_id s) db" "distinct (map ts_id (nd_servers db))"
  shows "trigger_time_sync user now (off0, off1, delay) (Some [(''serverId'', JInt (int (ts_id s)))]) db = (Refused 403, db)
    \<and> (\<exists>db'. trigger_time_sync user now (off0, off1, delay) (Some []) db =
          (Answered 200 (Sync_Body (ts_name s) (ts_protocol s) off0 off1 (off1 - off0)), db')
        \<and> time_server_at (ts_id s) db' = Some (s\<lparr> ts_status := ''synchronized'', ts_last_sync := Some now,
             ts_last_offset_ms := Some off1, ts_last_delay_ms := Some delay \<rparr>))"
proof -
  obtain rest where e: "sort_key ts_priority (filter ts_active (nd_servers db)) = s # rest"
    using assms(2) by (auto simp: best_server_def split: list.splits)
  have "s \<in> set (s # rest)" by simp
  then have s: "s \<in> set (nd_servers db)" "ts_active s" unfolding e [symmetric] by simp_all
  have at: "find (\<lambda>x. ts_id x = ts_id s) xs = Some s" if "distinct (map ts_id xs)" "s \<in> set xs" for xs
    using that by (induction xs) auto
  have upd: "find (\<lambda>x. ts_id x = ts_id s) (map (\<lambda>x. if ts_id x = ts_id s then g x else x) xs) = Some (g s)"
    if "distinct (map ts_id xs)" "s \<in> set xs" "ts_id (g s) = ts_id s" for xs g
    using that by (induction xs) auto
  show ?thesis
    using assms s at [OF assms(5) s(1)] upd [OF assms(5) s(1)]
    by (simp add: trigger_time_sync_def get_json_def admin_guard_def json_get_def key_of_def time_server_at_def synced_def Let_def)
qed

section \<open>Concrete runs\<close>

definition sample_pool :: "nat \<Rightarrow> nat option \<Rightarrow> mgr_pool" where
  "sample_pool i team = \<lparr> mp_id = i, mp_name = ''lan'', mp_network = ''10.0.0.0/24'', mp_range_start = ''10.0.0.5'',
     mp_range_end = ''10.0.0.9'', mp_gateway = None, mp_dns_servers = JList [], mp_ntp_servers = JList [],
     mp_domain_name = None, mp_lease_duration = 86400, mp_team_id = team, mp_active = True, mp_enable_ddns = False,
     mp_ddns_zone_id = None \<rparr>"

definition sample_time_server :: time_server where
  "sample_time_server = \<lparr> ts_id = 7, ts_name = ''clock'', ts_server_url = ''ntp://10.0.0.1'', ts_protocol = ''ntp'',
     ts_stratum = 2, ts_priority = 1, ts_team_id = Some 3, ts_active = True, ts_status = ''unknown'', ts_last_sync = None,
     ts_last_offset_ms = None, ts_last_delay_ms = None, ts_ptp_config = JNull \<rparr>"

definition sample_network :: network_db where
  "sample_network = \<lparr> nd_admin = sample_admin_db, nd_pools = [sample_pool 10 (Some 3), sample_pool 11 None],
     nd_reservations = [], nd_leases = [], nd_servers = [sample_time_server], nd_logs = [], nd_seq = 12 \<rparr>"

definition reserve :: "int \<Rightarrow> string \<Rightarrow> string \<Rightarrow> net_cmd" where
  "reserve i mac ip = Create_Reservation (Some [(''poolId'', JInt i), (''macAddress'', JStr mac), (''ipAddress'', JStr ip)])"

definition sample_net_cmds :: "(current_user option \<times> net_cmd) list" where
  "sample_net_cmds = map (\<lambda>c. (sample_caller ''dhcp:write dhcp:admin time:write'' ''Viewer'' [], c))
     [reserve 11 ''aa:01'' ''10.0.0.5'', reserve 11 ''AA:01'' ''10.0.0.6'', reserve 10 ''aa:02'' ''10.0.0.7'', Delete_Pool 10,
      Trigger_Sync 0 (1, 0, 1) (Some [])]"

theorem team_pools_confined_witness:
  "sample_pool 10 (Some 3) \<in> set (nd_pools (snd (run_cmds (net_step sample_admin_env (\<lambda>s. None)) sample_net_cmds sample_network)))
   \<and> nd_reservations (snd (run_cmds (net_step sample_admin_env (\<lambda>s. None)) sample_net_cmds sample_network)) \<noteq> []"
proof -
  let ?r = "run_cmds (net_step sample_admin_env (\<lambda>s. None)) sample_net_cmds sample_network"
  have a: "\<forall>c\<in>set sample_net_cmds. \<not> can_access_row (fst c) (Some 3) sample_network" by code_simp
  have b: "pools_ok sample_network" by code_simp
  have p: "sample_pool 10 (Some 3) \<in> set (nd_pools sample_network)" "mp_team_id (sample_pool 10 (Some 3)) = Some 3"
    by (simp_all add: sample_network_def sample_pool_def)
  have n: "nd_reservations (snd ?r) \<noteq> []" by code_simp
  from team_pools_confined [OF a b _ p, of sample_admin_env "\<lambda>s. None" "fst ?r" "snd ?r"] n show ?thesis by simp
qed

theorem reservations_consistent_witness:
  "distinct (map (\<lambda>r. (mr_pool_id r, mr_mac r)) (nd_reservations (snd
      (run_cmds (net_step sample_admin_env (\<lambda>s. None)) sample_net_cmds sample_network))))"
proof -
  let ?r = "run_cmds (net_step sample_admin_env (\<lambda>s. None)) sample_net_cmds sample_network"
  have "nd_reservations sample_network = []" by (simp add: sample_network_def)
  from reservations_consistent [OF this, of sample_admin_env "\<lambda>s. None" sample_net_cmds "fst ?r" "snd ?r"] show ?thesis by simp
qed

theorem unnamed_sync_bypasses_access_witness:
  "fst (trigger_time_sync (sample_caller ''time:write'' ''Viewer'' []) 5 (1, 0, 1) (Some [(''serverId'', JInt 7)]) sample_network) = Refused 403"
proof -
  let ?u = "sample_caller ''time:write'' ''Viewer'' []"
  have a: "requires_scope [''time:write''] ?u = Proceed" "\<not> can_access_row ?u (ts_team_id sample_time_server) sample_network"
    "distinct (map ts_id (nd_servers sample_network))" by code_simp+
  have b: "best_server ts_active sample_network = Some sample_time_server" "ts_id sample_time_server = 7"
    by (simp_all add: best_server_def sample_network_def sample_time_server_def)
  from unnamed_sync_bypasses_access [OF a(1) b(1) _ a(2,3), of 5 1 0 1] b(2) show ?thesis by simp
qed

end
