(* ===== verification/Manager_Sso.thy ===== *)
theory Manager_Sso
  imports Manager_Admin
begin

text \<open>
  Single sign-on in the Manager: the OIDC flow (\<^verbatim>\<open>services/sso_service.py\<close>, \<^verbatim>\<open>blueprints/sso.py\<close>), the SAML flow
  (\<^verbatim>\<open>services/saml_service.py\<close>, \<^verbatim>\<open>blueprints/saml.py\<close>), and the administration of both kinds of providers
  (\<^verbatim>\<open>blueprints/sso_admin.py\<close>, \<^verbatim>\<open>blueprints/saml_admin.py\<close>).

  Parameters: SHA-256, Fernet, the token endpoint, the JWKS client with the JWT decoder, pysaml2 with the base64
  decoder, the URL encoder, the PEM parser and the licence. Random values are arguments. A violated unique
  column raises.
\<close>

section \<open>State\<close>

record sso_user = auth_user +
  su_sso_provider :: "string option"
  su_sso_subject :: "string option"
  su_external_id :: "string option"

record login_attempt =
  la_id :: nat
  la_state :: string
  la_provider :: string
  la_code_verifier :: string
  la_nonce :: string
  la_binding_hash :: string
  la_used :: bool
  la_created :: int

text \<open>The configuration of a provider is its row; the one the OIDC routes build has its secret decrypted.\<close>

record oidc_provider =
  op_id :: nat
  op_name :: string
  op_display_name :: string
  op_issuer :: string
  op_client_id :: string
  op_client_secret :: string
  op_authorization_endpoint :: string
  op_token_endpoint :: string
  op_jwks_url :: string
  op_scopes :: string
  op_enabled :: bool

record saml_provider =
  sp_id :: nat
  sp_name :: string
  sp_display_name :: string
  sp_idp_entity_id :: string
  sp_idp_sso_url :: string
  sp_idp_x509_cert :: string
  sp_entity_id :: string
  sp_acs_url :: string
  sp_name_id_format :: string
  sp_want_signed :: bool
  sp_enabled :: bool

record scim_token =
  sc_id :: nat
  sc_hash :: string
  sc_description :: "string option"
  sc_tenant :: string
  sc_active :: bool
  sc_last_used :: "int option"

record sso_db =
  sd_users :: "sso_user list"
  sd_attempts :: "login_attempt list"
  sd_oidc :: "oidc_provider list"
  sd_saml :: "saml_provider list"
  sd_assertions :: "(nat \<times> string) list"
  sd_scim_tokens :: "scim_token list"
  sd_seq :: nat

text \<open>What the token endpoint answers: an exception of the client, a status, or the JSON value of a 200 response.\<close>

datatype token_http = Post_Raised | Post_Status nat | Post_Body json

text \<open>
  An assertion as pysaml2 gives it: the identifiers in its subject confirmations (\<open>None\<close> where one has no data), its
  name identifier, its identifier, and the attributes with the texts of their values.
\<close>

record saml_assertion =
  as_confirmations :: "string option option list"
  as_name_id :: "string option"
  as_id :: "string option"
  as_attributes :: "(string \<times> string option list) list"

text \<open>
  \<open>io_insert_row\<close> is whether the database library's insert gives a row; the rest of the code uses what it gives as an
  identifier; \<open>io_table_delete\<close> whether its tables can delete by column.
\<close>

record sso_env =
  io_sha256 :: "string \<Rightarrow> string"
  io_challenge :: "string \<Rightarrow> string"
  io_encrypt :: "nat \<Rightarrow> string \<Rightarrow> string"
  io_decrypt :: "string \<Rightarrow> string option"
  io_urlencode :: "(string \<times> string) list \<Rightarrow> string"
  io_post :: "string \<Rightarrow> (string \<times> string) list \<Rightarrow> token_http"
  io_decode :: "oidc_provider \<Rightarrow> string \<Rightarrow> claims option"
  io_saml_parse :: "saml_provider \<Rightarrow> string \<Rightarrow> string \<Rightarrow> saml_assertion list option"
  io_saml_request :: "string \<Rightarrow> saml_provider \<Rightarrow> string"
  io_pem_ok :: "string \<Rightarrow> bool"
  io_redirect_uri :: string
  io_jwt_cfg :: jwt_cfg
  io_tenant :: string
  io_access_life :: int
  io_refresh_life :: int
  io_enterprise :: bool
  io_insert_row :: bool
  io_table_delete :: bool

datatype sso_body =
    Providers_List "(string \<times> string) list"
  | Authorize string string string
  | Saml_Redirect string string
  | Signed_In sso_user claims claims
  | Oidc_Row oidc_provider
  | Saml_Row saml_provider
  | Sso_Done

type_synonym sso_reply = "sso_body web_reply"

section \<open>Login attempts\<close>

definition LOGIN_ATTEMPT_EXPIRY :: int where
  "LOGIN_ATTEMPT_EXPIRY = 600 * 1000000"

definition create_login_attempt ::
  "int \<Rightarrow> string \<Rightarrow> string \<Rightarrow> string \<Rightarrow> string \<Rightarrow> string \<Rightarrow> sso_db \<Rightarrow> sso_db option" where
  "create_login_attempt now state provider verifier nonce binding_hash db =
     (if list_ex (\<lambda>a. la_state a = state) (sd_attempts db) then None
      else Some (db\<lparr> sd_attempts := sd_attempts db @ [\<lparr> la_id = sd_seq db, la_state = state, la_provider = provider,
                       la_code_verifier = verifier, la_nonce = nonce, la_binding_hash = binding_hash, la_used = False,
                       la_created = now \<rparr>], sd_seq := sd_seq db + 1 \<rparr>))"

text \<open>The two services have the same function; neither looks at the provider of the attempt.\<close>

definition get_login_attempt :: "int \<Rightarrow> string \<Rightarrow> sso_db \<Rightarrow> login_attempt option" where
  "get_login_attempt now state db =
     (case find (\<lambda>a. la_state a = state) (sd_attempts db) of
        None \<Rightarrow> None
      | Some a \<Rightarrow> (if la_used a then None else if now - la_created a > LOGIN_ATTEMPT_EXPIRY then None else Some a))"

definition mark_attempt_used :: "nat \<Rightarrow> sso_db \<Rightarrow> sso_db" where
  "mark_attempt_used i db =
     db\<lparr> sd_attempts := map (\<lambda>a. if la_id a = i then a\<lparr> la_used := True \<rparr> else a) (sd_attempts db) \<rparr>"

section \<open>Accounts\<close>

definition sso_user_at :: "nat \<Rightarrow> sso_db \<Rightarrow> sso_user option" where
  "sso_user_at i db = find (\<lambda>u. au_id u = i) (sd_users db)"

text \<open>Inserting an account: \<open>None\<close> is the violation of a unique column.\<close>

definition clashes :: "sso_user \<Rightarrow> sso_user \<Rightarrow> bool" where
  "clashes u v \<longleftrightarrow> au_username u = au_username v \<or> au_email u = au_email v
     \<or> (su_external_id u \<noteq> None \<and> su_external_id u = su_external_id v)"

definition insert_user :: "sso_user \<Rightarrow> sso_db \<Rightarrow> (nat \<times> sso_db) option" where
  "insert_user u db =
     (if list_ex (clashes u) (sd_users db) then None
      else Some (sd_seq db, db\<lparr> sd_users := sd_users db @ [u\<lparr> au_id := sd_seq db \<rparr>], sd_seq := sd_seq db + 1 \<rparr>))"

definition new_sso_user :: "string \<Rightarrow> string \<Rightarrow> string \<Rightarrow> sso_user" where
  "new_sso_user email provider subject =
     \<lparr> au_id = 0, au_username = hd (py_split CHR ''@'' email), au_email = email, au_active = True, au_password_hash = None,
       au_global_role = ''Viewer'', au_failed_login_count = Some 0, au_locked_until = None,
       su_sso_provider = Some provider, su_sso_subject = Some subject, su_external_id = None \<rparr>"

text \<open>The outcome of just-in-time provisioning: a refusal, an exception, or the identifier of the account.\<close>

datatype jit_result = Jit_Refused | Jit_Raised | Jit_User nat

definition jit_provision ::
  "string \<Rightarrow> string \<Rightarrow> string \<Rightarrow> bool \<Rightarrow> sso_db \<Rightarrow> jit_result \<times> sso_db" where
  "jit_provision provider subject email verified db =
     (case find (\<lambda>u. su_sso_provider u = Some provider \<and> su_sso_subject u = Some subject) (sd_users db) of
        Some u \<Rightarrow> (Jit_User (au_id u), db)
      | None \<Rightarrow>
          (if list_ex (\<lambda>u. au_email u = email) (sd_users db) then (Jit_Refused, db)
           else if \<not> verified then (Jit_Refused, db)
           else (case insert_user (new_sso_user email provider subject) db of
                   None \<Rightarrow> (Jit_Raised, db) | Some (i, db') \<Rightarrow> (Jit_User i, db'))))"

definition sign_in :: "sso_env \<Rightarrow> int \<Rightarrow> string \<Rightarrow> sso_user \<Rightarrow> sso_reply" where
  "sign_in E now jti u =
     Answered 200 (Signed_In u
       (access_claims (io_jwt_cfg E) (io_tenant E) (au_id u) (au_username u) (Some (au_global_role u)) [] (now div 1000000) (io_access_life E))
       (refresh_claims (io_jwt_cfg E) (io_tenant E) (au_id u) jti (now div 1000000) (io_refresh_life E)))"

section \<open>OIDC\<close>

definition oidc_enabled :: "string \<Rightarrow> sso_db \<Rightarrow> oidc_provider option" where
  "oidc_enabled name db = find (\<lambda>p. op_name p = name \<and> op_enabled p) (sd_oidc db)"

definition list_providers :: "sso_db \<Rightarrow> sso_reply" where
  "list_providers db = Answered 200 (Providers_List (map (\<lambda>p. (op_name p, op_display_name p)) (filter op_enabled (sd_oidc db))))"

definition oidc_config :: "sso_env \<Rightarrow> oidc_provider \<Rightarrow> oidc_provider option" where
  "oidc_config E p = map_option (\<lambda>secret. p\<lparr> op_client_secret := secret \<rparr>) (io_decrypt E (op_client_secret p))"

text \<open>\<open>rnd\<close> are the random values: verifier, nonce, state and the binding token of the browser.\<close>

record sso_random =
  rn_verifier :: string
  rn_nonce :: string
  rn_state :: string
  rn_binding :: string
  rn_jti :: string

definition build_authorization_url ::
  "sso_env \<Rightarrow> int \<Rightarrow> sso_random \<Rightarrow> oidc_provider \<Rightarrow> string \<Rightarrow> string \<Rightarrow> sso_db \<Rightarrow> ((string \<times> string) \<times> sso_db) option" where
  "build_authorization_url E now rnd config name binding db =
     (case create_login_attempt now (rn_state rnd) name (rn_verifier rnd) (rn_nonce rnd) (io_sha256 E binding) db of
        None \<Rightarrow> None
      | Some db' \<Rightarrow>
          Some ((op_authorization_endpoint config @ ''?'' @ io_urlencode E
                   [(''client_id'', op_client_id config), (''response_type'', ''code''), (''scope'', op_scopes config),
                    (''redirect_uri'', io_redirect_uri E), (''state'', rn_state rnd), (''nonce'', rn_nonce rnd),
                    (''code_challenge'', io_challenge E (rn_verifier rnd)), (''code_challenge_method'', ''S256'')],
                 rn_state rnd), db'))"

definition authorize :: "sso_env \<Rightarrow> int \<Rightarrow> sso_random \<Rightarrow> string \<Rightarrow> sso_db \<Rightarrow> sso_reply \<times> sso_db" where
  "authorize E now rnd name db =
     (case oidc_enabled name db of
        None \<Rightarrow> (Refused 404, db)
      | Some p \<Rightarrow>
          (case oidc_config E p of
             None \<Rightarrow> (Crashed, db)
           | Some config \<Rightarrow>
               (case build_authorization_url E now rnd config name (rn_binding rnd) db of
                  None \<Rightarrow> (Crashed, db)
                | Some ((url, state), db') \<Rightarrow> (Answered 200 (Authorize url state (rn_binding rnd)), db'))))"

datatype exchange = Exchange_Failed | Exchange_Raised | Exchanged json

definition exchange_code_for_token ::
  "sso_env \<Rightarrow> int \<Rightarrow> oidc_provider \<Rightarrow> string \<Rightarrow> string \<Rightarrow> string \<Rightarrow> sso_db \<Rightarrow> exchange \<times> sso_db" where
  "exchange_code_for_token E now config code state binding db =
     (case get_login_attempt now state db of
        None \<Rightarrow> (Exchange_Failed, db)
      | Some a \<Rightarrow>
          (if io_sha256 E binding \<noteq> la_binding_hash a then (Exchange_Failed, db)
           else (case io_decrypt E (op_client_secret config) of
                   None \<Rightarrow> (Exchange_Raised, db)
                 | Some secret \<Rightarrow>
                     (case io_post E (op_token_endpoint config)
                         [(''grant_type'', ''authorization_code''), (''code'', code), (''client_id'', op_client_id config),
                          (''client_secret'', secret), (''redirect_uri'', io_redirect_uri E), (''code_verifier'', la_code_verifier a)] of
                        Post_Raised \<Rightarrow> (Exchange_Failed, db)
                      | Post_Status n \<Rightarrow> (Exchange_Failed, db)
                      | Post_Body body \<Rightarrow>
                          (let db' = mark_attempt_used (la_id a) db
                           in case body of
                                JObj kvs \<Rightarrow> (Exchanged (case map_of kvs ''id_token'' of None \<Rightarrow> JStr [] | Some j \<Rightarrow> j), db')
                              | _ \<Rightarrow> (Exchange_Raised, db'))))))"

record validated_token =
  vt_sub :: json
  vt_email :: json
  vt_email_verified :: json

definition claim_or :: "claims \<Rightarrow> string \<Rightarrow> json \<Rightarrow> json" where
  "claim_or payload k d = (case map_of payload k of None \<Rightarrow> d | Some v \<Rightarrow> v)"

definition validate_id_token :: "sso_env \<Rightarrow> oidc_provider \<Rightarrow> json \<Rightarrow> string \<Rightarrow> validated_token option" where
  "validate_id_token E config id_token expected_nonce =
     (case id_token of
        JStr t \<Rightarrow>
          (case io_decode E config t of
             None \<Rightarrow> None
           | Some payload \<Rightarrow>
               (if json_get payload ''nonce'' \<noteq> JStr expected_nonce then None
                else Some \<lparr> vt_sub = claim_or payload ''sub'' (JStr []), vt_email = claim_or payload ''email'' (JStr []),
                            vt_email_verified = claim_or payload ''email_verified'' (JBool False) \<rparr>))
      | _ \<Rightarrow> None)"

text \<open>What follows the exchange; claims that are not strings raise in the database or in \<^verbatim>\<open>split\<close>.\<close>

definition finish_oidc ::
  "sso_env \<Rightarrow> int \<Rightarrow> sso_random \<Rightarrow> oidc_provider \<Rightarrow> json \<Rightarrow> string \<Rightarrow> sso_db \<Rightarrow> sso_reply \<times> sso_db" where
  "finish_oidc E now rnd config id_token nonce db =
     (case validate_id_token E config id_token nonce of
        None \<Rightarrow> (Refused 400, db)
      | Some v \<Rightarrow>
          (if \<not> json_truthy (vt_email v) then (Refused 400, db)
           else (case (vt_sub v, vt_email v) of
                   (JStr sub, JStr email) \<Rightarrow>
                     (case jit_provision (op_name config) sub email (json_truthy (vt_email_verified v)) db of
                        (Jit_Refused, db') \<Rightarrow> (Refused 403, db')
                      | (Jit_Raised, db') \<Rightarrow> (Crashed, db')
                      | (Jit_User i, db') \<Rightarrow>
                          (case sso_user_at i db' of None \<Rightarrow> (Refused 500, db') | Some u \<Rightarrow> (sign_in E now (rn_jti rnd) u, db')))
                 | _ \<Rightarrow> (Crashed, db))))"

text \<open>\<open>now1\<close> and \<open>now2\<close> are the clock when the attempt is read in the exchange and after it.\<close>

definition callback ::
  "sso_env \<Rightarrow> int \<Rightarrow> int \<Rightarrow> sso_random \<Rightarrow> string \<Rightarrow> string \<Rightarrow> string \<Rightarrow> string option \<Rightarrow> sso_db \<Rightarrow> sso_reply \<times> sso_db" where
  "callback E now1 now2 rnd name code state binding_cookie db =
     (case oidc_enabled name db of
        None \<Rightarrow> (Refused 404, db)
      | Some p \<Rightarrow>
          (case oidc_config E p of
             None \<Rightarrow> (Crashed, db)
           | Some config \<Rightarrow>
               (if \<not> truthy binding_cookie then (Refused 400, db)
                else (case exchange_code_for_token E now1 config code state (the binding_cookie) db of
                        (Exchange_Failed, db') \<Rightarrow> (Refused 400, db')
                      | (Exchange_Raised, db') \<Rightarrow> (Crashed, db')
                      | (Exchanged id_token, db') \<Rightarrow>
                          (if \<not> json_truthy id_token then (Refused 400, db')
                           else (case get_login_attempt now2 state db' of
                                   None \<Rightarrow> (Refused 400, db')
                                 | Some a \<Rightarrow> finish_oidc E now2 rnd config id_token (la_nonce a) db'))))))"

section \<open>SAML\<close>

definition saml_enabled :: "string \<Rightarrow> sso_db \<Rightarrow> saml_provider option" where
  "saml_enabled name db = find (\<lambda>p. sp_name p = name \<and> sp_enabled p) (sd_saml db)"

text \<open>The request identifier takes the column of the verifier.\<close>

definition saml_login :: "sso_env \<Rightarrow> int \<Rightarrow> sso_random \<Rightarrow> string \<Rightarrow> sso_db \<Rightarrow> sso_reply \<times> sso_db" where
  "saml_login E now rnd name db =
     (case saml_enabled name db of
        None \<Rightarrow> (Refused 404, db)
      | Some p \<Rightarrow>
          (let request_id = ''id_'' @ rn_verifier rnd
           in case create_login_attempt now (rn_state rnd) name request_id [] (io_sha256 E (rn_binding rnd)) db of
                None \<Rightarrow> (Crashed, db)
              | Some db' \<Rightarrow>
                  (Answered 302 (Saml_Redirect (sp_idp_sso_url p @ ''?'' @ io_urlencode E
                       [(''SAMLRequest'', io_saml_request E request_id p), (''RelayState'', rn_state rnd)]) (rn_binding rnd)), db')))"

text \<open>The first subject confirmation with data.\<close>

fun confirmation_of :: "string option option list \<Rightarrow> string option option" where
  "confirmation_of [] = None"
| "confirmation_of (Some d # rest) = Some d"
| "confirmation_of (None # rest) = confirmation_of rest"

definition email_attributes :: "string set" where
  "email_attributes = {''email'', ''mail'', ''emailAddress'', ''urn:oid:0.9.2342.19200300.100.1.3''}"

definition email_of :: "(string \<times> string option list) list \<Rightarrow> string option" where
  "email_of attrs = fold (\<lambda>(n, vs) e. case vs of [] \<Rightarrow> e | v # _ \<Rightarrow> (if n \<in> email_attributes then v else e)) attrs None"

text \<open>
  The subject and the email of a valid response. The identifier of the assertion is recorded before the email is
  looked for; the attempt is marked at the end.
\<close>

definition parse_and_validate_response ::
  "sso_env \<Rightarrow> int \<Rightarrow> saml_provider \<Rightarrow> string \<Rightarrow> string \<Rightarrow> string \<Rightarrow> sso_db \<Rightarrow> (string \<times> string) option \<times> sso_db" where
  "parse_and_validate_response E now config response relay_state binding db =
     (case get_login_attempt now relay_state db of
        None \<Rightarrow> (None, db)
      | Some a \<Rightarrow>
          (if io_sha256 E binding \<noteq> la_binding_hash a then (None, db)
           else if la_code_verifier a = [] then (None, db)
           else (case io_saml_parse E config response (la_code_verifier a) of
                   Some [s] \<Rightarrow>
                     (if confirmation_of (as_confirmations s) \<noteq> Some (Some (la_code_verifier a)) then (None, db)
                      else if \<not> truthy (as_name_id s) then (None, db)
                      else if \<not> truthy (as_id s) then (None, db)
                      else if list_ex (\<lambda>x. snd x = the (as_id s)) (sd_assertions db) then (None, db)
                      else (let db1 = (case find (\<lambda>p. sp_name p = sp_name config) (sd_saml db) of
                                         None \<Rightarrow> db
                                       | Some p \<Rightarrow> db\<lparr> sd_assertions := sd_assertions db @ [(sp_id p, the (as_id s))] \<rparr>)
                            in if \<not> truthy (email_of (as_attributes s)) then (None, db1)
                               else (Some (the (as_name_id s), the (email_of (as_attributes s))), mark_attempt_used (la_id a) db1)))
                 | _ \<Rightarrow> (None, db))))"

definition acs ::
  "sso_env \<Rightarrow> int \<Rightarrow> sso_random \<Rightarrow> string \<Rightarrow> string option \<Rightarrow> string option \<Rightarrow> string option \<Rightarrow> sso_db \<Rightarrow> sso_reply \<times> sso_db" where
  "acs E now rnd name saml_response relay_state binding_cookie db =
     (case saml_enabled name db of
        None \<Rightarrow> (Refused 404, db)
      | Some p \<Rightarrow>
          (if \<not> truthy saml_response \<or> \<not> truthy relay_state then (Refused 400, db)
           else if \<not> truthy binding_cookie then (Refused 400, db)
           else (case parse_and_validate_response E now p (the saml_response) (the relay_state) (the binding_cookie) db of
                   (None, db') \<Rightarrow> (Refused 400, db')
                 | (Some (subject, email), db') \<Rightarrow>
                     (case jit_provision (sp_name p) subject email True db' of
                        (Jit_Refused, db'') \<Rightarrow> (Refused 403, db'')
                      | (Jit_Raised, db'') \<Rightarrow> (Crashed, db'')
                      | (Jit_User i, db'') \<Rightarrow>
                          (case sso_user_at i db'' of None \<Rightarrow> (Crashed, db'') | Some u \<Rightarrow> (sign_in E now (rn_jti rnd) u, db''))))))"

section \<open>Administration of providers\<close>

text \<open>\<open>None\<close> is the exception for a value without \<^verbatim>\<open>startswith\<close>.\<close>

fun https_members :: "body \<Rightarrow> string list \<Rightarrow> bool option" where
  "https_members d [] = Some True"
| "https_members d (k # ks) =
     (if \<not> has_key d k then https_members d ks
      else (case json_get d k of
              JStr url \<Rightarrow> (if py_startswith url ''https://'' then https_members d ks else Some False)
            | _ \<Rightarrow> None))"

definition oidc_endpoints :: "string list" where
  "oidc_endpoints = [''authorization_endpoint'', ''token_endpoint'', ''jwks_url'']"

definition enterprise_only :: "sso_env \<Rightarrow> outcome" where
  "enterprise_only E = (if io_enterprise E then Proceed else Denied 403)"

definition sso_writer :: "sso_env \<Rightarrow> current_user option \<Rightarrow> (sso_reply \<times> sso_db) \<Rightarrow> sso_db \<Rightarrow> sso_reply \<times> sso_db" where
  "sso_writer E user body db = admin_guard (requires_scope [''sso:write''] user) (admin_guard (enterprise_only E) body db) db"

definition create_sso_provider ::
  "sso_env \<Rightarrow> nat \<Rightarrow> current_user option \<Rightarrow> body option \<Rightarrow> sso_db \<Rightarrow> sso_reply \<times> sso_db" where
  "create_sso_provider E nonce user data db =
     admin_guard (requires_scope [''sso:write''] user)
      (validate_json ([''name'', ''display_name'', ''issuer'', ''client_id'', ''client_secret''] @ oidc_endpoints) data (\<lambda>d.
        admin_guard (enterprise_only E)
         (admin_guard (or_400 (https_members d oidc_endpoints))
           (case (col_text (json_get d ''name''), col_text (json_get d ''display_name''), col_text (json_get d ''issuer''),
                  col_text (json_get d ''client_id''), col_text (json_get d ''client_secret''),
                  col_text (json_get d ''authorization_endpoint''), col_text (json_get d ''token_endpoint''),
                  col_text (json_get d ''jwks_url''), col_text (json_get_or d ''scopes'' (JStr ''openid email profile''))) of
              (Some n, Some dn, Some iss, Some cid, Some secret, Some authz, Some tok, Some jwks, Some scopes) \<Rightarrow>
                (if list_ex (\<lambda>p. op_name p = n) (sd_oidc db) then (Crashed, db)
                 else (let p = \<lparr> op_id = sd_seq db, op_name = n, op_display_name = dn, op_issuer = iss, op_client_id = cid,
                                 op_client_secret = io_encrypt E nonce secret, op_authorization_endpoint = authz,
                                 op_token_endpoint = tok, op_jwks_url = jwks, op_scopes = scopes, op_enabled = False \<rparr>
                       in (if io_insert_row E then Answered 201 (Oidc_Row p) else Crashed,
                           db\<lparr> sd_oidc := sd_oidc db @ [p], sd_seq := sd_seq db + 1 \<rparr>)))
            | _ \<Rightarrow> (Crashed, db)) db) db) db) db"

definition col_bool_of :: "json \<Rightarrow> bool option" where
  "col_bool_of j = (case j of JBool b \<Rightarrow> Some b | JInt i \<Rightarrow> (if i = 0 then Some False else if i = 1 then Some True else None) | _ \<Rightarrow> None)"

text \<open>With \<^verbatim>\<open>silent=True\<close> a body that is not JSON counts as empty.\<close>

definition update_sso_provider ::
  "sso_env \<Rightarrow> nat \<Rightarrow> current_user option \<Rightarrow> nat \<Rightarrow> body option \<Rightarrow> sso_db \<Rightarrow> sso_reply \<times> sso_db" where
  "update_sso_provider E nonce user i data db =
     sso_writer E user
      (case find (\<lambda>p. op_id p = i) (sd_oidc db) of
         None \<Rightarrow> (Refused 404, db)
       | Some p \<Rightarrow>
           (let d = (case data of None \<Rightarrow> [] | Some d \<Rightarrow> d)
            in admin_guard (or_400 (https_members d oidc_endpoints))
                (case (patched d ''display_name'' col_text (op_display_name p), patched d ''issuer'' col_text (op_issuer p),
                       patched d ''client_id'' col_text (op_client_id p),
                       patched d ''client_secret'' (\<lambda>j. map_option (io_encrypt E nonce) (col_text j)) (op_client_secret p),
                       patched d ''authorization_endpoint'' col_text (op_authorization_endpoint p),
                       patched d ''token_endpoint'' col_text (op_token_endpoint p), patched d ''jwks_url'' col_text (op_jwks_url p),
                       patched d ''scopes'' col_text (op_scopes p), patched d ''enabled'' col_bool_of (op_enabled p)) of
                   (Some dn, Some iss, Some cid, Some secret, Some authz, Some tok, Some jwks, Some scopes, Some en) \<Rightarrow>
                     (let p' = p\<lparr> op_display_name := dn, op_issuer := iss, op_client_id := cid, op_client_secret := secret,
                                  op_authorization_endpoint := authz, op_token_endpoint := tok, op_jwks_url := jwks,
                                  op_scopes := scopes, op_enabled := en \<rparr>
                      in (Answered 200 (Oidc_Row p'),
                          db\<lparr> sd_oidc := map (\<lambda>x. if op_id x = i then p' else x) (sd_oidc db) \<rparr>))
                 | _ \<Rightarrow> (Crashed, db)) db)) db"

definition delete_sso_provider :: "sso_env \<Rightarrow> current_user option \<Rightarrow> nat \<Rightarrow> sso_db \<Rightarrow> sso_reply \<times> sso_db" where
  "delete_sso_provider E user i db =
     sso_writer E user
      (case find (\<lambda>p. op_id p = i) (sd_oidc db) of
         None \<Rightarrow> (Refused 404, db)
       | Some p \<Rightarrow> (if io_table_delete E then (Answered 200 Sso_Done, db\<lparr> sd_oidc := filter (\<lambda>x. op_id x \<noteq> i) (sd_oidc db) \<rparr>)
                   else (Crashed, db))) db"

definition saml_endpoints :: "string list" where
  "saml_endpoints = [''idp_sso_url'', ''sp_acs_url'']"

text \<open>A certificate that is no text or does not parse is answered 400.\<close>

definition pem_member :: "sso_env \<Rightarrow> body \<Rightarrow> bool" where
  "pem_member E d \<longleftrightarrow> (case json_get d ''idp_x509_cert'' of JStr s \<Rightarrow> io_pem_ok E s | _ \<Rightarrow> False)"

definition create_saml_provider ::
  "sso_env \<Rightarrow> current_user option \<Rightarrow> body option \<Rightarrow> sso_db \<Rightarrow> sso_reply \<times> sso_db" where
  "create_saml_provider E user data db =
     admin_guard (requires_scope [''sso:write''] user)
      (validate_json ([''name'', ''display_name'', ''idp_entity_id'', ''idp_x509_cert'', ''sp_entity_id''] @ saml_endpoints) data (\<lambda>d.
        admin_guard (enterprise_only E)
         (admin_guard (or_400 (https_members d saml_endpoints))
          (admin_guard (or_400 (Some (pem_member E d)))
           (case (col_text (json_get d ''name''), col_text (json_get d ''display_name''), col_text (json_get d ''idp_entity_id''),
                  col_text (json_get d ''idp_sso_url''), col_text (json_get d ''idp_x509_cert''),
                  col_text (json_get d ''sp_entity_id''), col_text (json_get d ''sp_acs_url''),
                  col_text (json_get_or d ''name_id_format'' (JStr ''urn:oasis:names:tc:SAML:1.1:nameid-format:emailAddress'')),
                  col_bool_of (json_get_or d ''want_assertions_signed'' (JBool True))) of
              (Some n, Some dn, Some idp, Some sso, Some cert, Some ent, Some acs_url, Some fmt, Some want) \<Rightarrow>
                (if list_ex (\<lambda>p. sp_name p = n) (sd_saml db) then (Crashed, db)
                 else (let p = \<lparr> sp_id = sd_seq db, sp_name = n, sp_display_name = dn, sp_idp_entity_id = idp,
                                 sp_idp_sso_url = sso, sp_idp_x509_cert = cert, sp_entity_id = ent, sp_acs_url = acs_url,
                                 sp_name_id_format = fmt, sp_want_signed = want, sp_enabled = False \<rparr>
                       in (if io_insert_row E then Answered 201 (Saml_Row p) else Crashed,
                           db\<lparr> sd_saml := sd_saml db @ [p], sd_seq := sd_seq db + 1 \<rparr>)))
            | _ \<Rightarrow> (Crashed, db)) db) db) db) db) db"

definition update_saml_provider ::
  "sso_env \<Rightarrow> current_user option \<Rightarrow> nat \<Rightarrow> body option \<Rightarrow> sso_db \<Rightarrow> sso_reply \<times> sso_db" where
  "update_saml_provider E user i data db =
     sso_writer E user
      (case find (\<lambda>p. sp_id p = i) (sd_saml db) of
         None \<Rightarrow> (Refused 404, db)
       | Some p \<Rightarrow>
           get_json data (\<lambda>d.
             admin_guard (or_400 (https_members d saml_endpoints))
              (admin_guard (if has_key d ''idp_x509_cert'' then or_400 (Some (pem_member E d)) else Proceed)
                (case (patched d ''display_name'' col_text (sp_display_name p), patched d ''idp_entity_id'' col_text (sp_idp_entity_id p),
                       patched d ''idp_sso_url'' col_text (sp_idp_sso_url p), patched d ''idp_x509_cert'' col_text (sp_idp_x509_cert p),
                       patched d ''sp_entity_id'' col_text (sp_entity_id p), patched d ''sp_acs_url'' col_text (sp_acs_url p),
                       patched d ''name_id_format'' col_text (sp_name_id_format p),
                       patched d ''want_assertions_signed'' col_bool_of (sp_want_signed p), patched d ''enabled'' col_bool_of (sp_enabled p)) of
                   (Some dn, Some idp, Some sso, Some cert, Some ent, Some acs_url, Some fmt, Some want, Some en) \<Rightarrow>
                     (let p' = p\<lparr> sp_display_name := dn, sp_idp_entity_id := idp, sp_idp_sso_url := sso, sp_idp_x509_cert := cert,
                                  sp_entity_id := ent, sp_acs_url := acs_url, sp_name_id_format := fmt, sp_want_signed := want,
                                  sp_enabled := en \<rparr>
                      in (Answered 200 (Saml_Row p),
                          db\<lparr> sd_saml := map (\<lambda>x. if sp_id x = i then p' else x) (sd_saml db) \<rparr>))
                 | _ \<Rightarrow> (Crashed, db)) db) db) db) db"

definition toggle_saml_provider ::
  "sso_env \<Rightarrow> current_user option \<Rightarrow> nat \<Rightarrow> body option \<Rightarrow> sso_db \<Rightarrow> sso_reply \<times> sso_db" where
  "toggle_saml_provider E user i data db =
     sso_writer E user
      (get_json data (\<lambda>d.
        case find (\<lambda>p. sp_id p = i) (sd_saml db) of
          None \<Rightarrow> (Refused 404, db)
        | Some p \<Rightarrow>
            (case col_bool_of (json_get_or d ''enabled'' (JBool False)) of
               None \<Rightarrow> (Crashed, db)
             | Some en \<Rightarrow> (Answered 200 Sso_Done,
                 db\<lparr> sd_saml := map (\<lambda>x. if sp_id x = i then x\<lparr> sp_enabled := en \<rparr> else x) (sd_saml db) \<rparr>))) db) db"

definition delete_saml_provider :: "sso_env \<Rightarrow> current_user option \<Rightarrow> nat \<Rightarrow> sso_db \<Rightarrow> sso_reply \<times> sso_db" where
  "delete_saml_provider E user i db =
     sso_writer E user
      (case find (\<lambda>p. sp_id p = i) (sd_saml db) of
         None \<Rightarrow> (Refused 404, db)
       | Some p \<Rightarrow> (Answered 204 Sso_Done, db\<lparr> sd_saml := filter (\<lambda>x. sp_id x \<noteq> i) (sd_saml db) \<rparr>)) db"

section \<open>Steps\<close>

datatype sso_cmd =
    Authorize_Cmd int sso_random string
  | Callback int int sso_random string string string "string option"
  | Saml_Login int sso_random string
  | Acs int sso_random string "string option" "string option" "string option"
  | Create_Oidc nat "current_user option" "body option"
  | Update_Oidc nat "current_user option" nat "body option"
  | Delete_Oidc "current_user option" nat
  | Create_Saml "current_user option" "body option"
  | Update_Saml "current_user option" nat "body option"
  | Toggle_Saml "current_user option" nat "body option"
  | Delete_Saml "current_user option" nat

fun sso_step :: "sso_env \<Rightarrow> sso_cmd \<Rightarrow> sso_db \<Rightarrow> sso_reply \<times> sso_db" where
  "sso_step E (Authorize_Cmd now rnd name) db = authorize E now rnd name db"
| "sso_step E (Callback now1 now2 rnd name code state cookie) db = callback E now1 now2 rnd name code state cookie db"
| "sso_step E (Saml_Login now rnd name) db = saml_login E now rnd name db"
| "sso_step E (Acs now rnd name resp relay cookie) db = acs E now rnd name resp relay cookie db"
| "sso_step E (Create_Oidc nonce user data) db = create_sso_provider E nonce user data db"
| "sso_step E (Update_Oidc nonce user i data) db = update_sso_provider E nonce user i data db"
| "sso_step E (Delete_Oidc user i) db = delete_sso_provider E user i db"
| "sso_step E (Create_Saml user data) db = create_saml_provider E user data db"
| "sso_step E (Update_Saml user i data) db = update_saml_provider E user i data db"
| "sso_step E (Toggle_Saml user i data) db = toggle_saml_provider E user i data db"
| "sso_step E (Delete_Saml user i) db = delete_saml_provider E user i db"

section \<open>Lemmas on attempts and accounts\<close>

definition users_ok :: "sso_db \<Rightarrow> bool" where
  "users_ok db \<longleftrightarrow> distinct (map au_id (sd_users db)) \<and> (\<forall>u\<in>set (sd_users db). au_id u < sd_seq db)"

text \<open>The relay state or state parameter \<open>st\<close> was used.\<close>

definition spent :: "string \<Rightarrow> sso_db \<Rightarrow> bool" where
  "spent st db \<longleftrightarrow> (\<exists>a. find (\<lambda>a. la_state a = st) (sd_attempts db) = Some a \<and> la_used a)"

lemma spent_no_attempt: "spent st db \<Longrightarrow> get_login_attempt now st db = None"
  by (auto simp: spent_def get_login_attempt_def)

lemma find_marked:
  "find (\<lambda>a. la_state a = st) (map (\<lambda>a. if la_id a = i then a\<lparr> la_used := True \<rparr> else a) xs)
   = map_option (\<lambda>a. if la_id a = i then a\<lparr> la_used := True \<rparr> else a) (find (\<lambda>a. la_state a = st) xs)"
  by (induction xs) auto

lemma get_login_attempt_SomeD:
  "get_login_attempt now st db = Some a \<Longrightarrow> find (\<lambda>a. la_state a = st) (sd_attempts db) = Some a \<and> \<not> la_used a"
  by (auto simp: get_login_attempt_def split: option.splits if_splits)

lemma marked_spent: "get_login_attempt now st db = Some a \<Longrightarrow> spent st (mark_attempt_used (la_id a) db)"
  using get_login_attempt_SomeD [of now st db a] by (simp add: spent_def mark_attempt_used_def find_marked)

lemma spent_mark: "spent st db \<Longrightarrow> spent st (mark_attempt_used i db)"
proof -
  assume "spent st db"
  then obtain a where a: "find (\<lambda>a. la_state a = st) (sd_attempts db) = Some a" "la_used a" by (auto simp: spent_def)
  then show ?thesis by (cases "la_id a = i") (simp_all add: spent_def mark_attempt_used_def find_marked)
qed

lemma spent_cong: "sd_attempts db' = sd_attempts db \<Longrightarrow> spent st db' = spent st db"
  by (simp add: spent_def)

lemma create_attempt_shape:
  "create_login_attempt now st pr v n h db = Some db' \<Longrightarrow>
     \<exists>a. db' = db\<lparr> sd_attempts := sd_attempts db @ [a], sd_seq := sd_seq db + 1 \<rparr>"
  by (auto simp: create_login_attempt_def split: if_splits)

lemma spent_append: "\<lbrakk> spent st db; sd_attempts db' = sd_attempts db @ xs \<rbrakk> \<Longrightarrow> spent st db'"
  by (auto simp: spent_def find_append)

lemma jit_frame:
  assumes "jit_provision pr sub em v db = (r, db')"
  shows "sd_attempts db' = sd_attempts db" "sd_oidc db' = sd_oidc db" "sd_saml db' = sd_saml db"
    "sd_assertions db' = sd_assertions db" "sd_scim_tokens db' = sd_scim_tokens db"
  using assms by (auto simp: jit_provision_def insert_user_def split: option.splits if_splits)

lemma sso_user_at_eq: "\<lbrakk> users_ok db; u \<in> set (sd_users db) \<rbrakk> \<Longrightarrow> sso_user_at (au_id u) db = Some u"
proof -
  assume ok: "users_ok db" and u: "u \<in> set (sd_users db)"
  obtain w where w: "sso_user_at (au_id u) db = Some w" using find_NoneD [of _ _ u] u by (fastforce simp: sso_user_at_def)
  then have "w \<in> set (sd_users db)" "au_id w = au_id u" by (auto simp: sso_user_at_def dest: find_SomeD)
  then have "w = u" using ok u unfolding users_ok_def distinct_map by (metis inj_onD)
  with w show ?thesis by simp
qed

text \<open>The account of a provisioning: an existing one with this provider and subject, or a new viewer with a new email.\<close>

lemma jit_user:
  assumes "jit_provision pr sub em v db = (Jit_User i, db')" "users_ok db"
  obtains u where "sso_user_at i db' = Some u" "su_sso_provider u = Some pr" "su_sso_subject u = Some sub"
    "u \<in> set (sd_users db) \<and> db' = db
     \<or> au_global_role u = ''Viewer'' \<and> au_password_hash u = None \<and> (\<forall>w\<in>set (sd_users db). au_email w \<noteq> au_email u)"
proof (cases "find (\<lambda>u. su_sso_provider u = Some pr \<and> su_sso_subject u = Some sub) (sd_users db)")
  case (Some u)
  then have u: "i = au_id u" "db' = db" using assms(1) by (auto simp: jit_provision_def)
  have "u \<in> set (sd_users db)" "su_sso_provider u = Some pr" "su_sso_subject u = Some sub" using find_SomeD [OF Some] by auto
  then show ?thesis using that sso_user_at_eq [OF assms(2)] u by simp
next
  case None
  let ?u = "(new_sso_user em pr sub)\<lparr> au_id := sd_seq db \<rparr>"
  have n: "\<not> list_ex (\<lambda>u. au_email u = em) (sd_users db)" "i = sd_seq db"
    "db' = db\<lparr> sd_users := sd_users db @ [?u], sd_seq := sd_seq db + 1 \<rparr>"
    using assms(1) None by (auto simp: jit_provision_def insert_user_def split: if_splits option.splits)
  have "find (\<lambda>u. au_id u = sd_seq db) (sd_users db) = None"
    using assms(2) by (auto simp: users_ok_def find_None_iff)
  then have "sso_user_at i db' = Some ?u" using n(2,3) by (simp add: sso_user_at_def find_append)
  moreover have "su_sso_provider ?u = Some pr" "su_sso_subject ?u = Some sub" "au_global_role ?u = ''Viewer''"
    "au_password_hash ?u = None" "au_email ?u = em" by (simp_all add: new_sso_user_def)
  moreover have "\<forall>w\<in>set (sd_users db). au_email w \<noteq> em" using n(1) by (simp add: list_ex_iff)
  ultimately show ?thesis using that by metis
qed

section \<open>Lemmas on responses\<close>

lemma parse_Some:
  assumes "parse_and_validate_response E now p resp relay cookie db = (Some (sub, em), db')"
  obtains a s db1 where "get_login_attempt now relay db = Some a" "io_sha256 E cookie = la_binding_hash a"
    "io_saml_parse E p resp (la_code_verifier a) = Some [s]"
    "confirmation_of (as_confirmations s) = Some (Some (la_code_verifier a))" "as_name_id s = Some sub" "truthy (as_id s)"
    "\<not> list_ex (\<lambda>x. snd x = the (as_id s)) (sd_assertions db)"
    "db1 = (case find (\<lambda>q. sp_name q = sp_name p) (sd_saml db) of None \<Rightarrow> db
       | Some q \<Rightarrow> db\<lparr> sd_assertions := sd_assertions db @ [(sp_id q, the (as_id s))] \<rparr>)"
    "db' = mark_attempt_used (la_id a) db1"
  using assms unfolding parse_and_validate_response_def Let_def
  by (auto simp: truthy_def split: option.splits if_splits list.splits)

lemma parse_spends:
  assumes "parse_and_validate_response E now p resp relay cookie db = (Some (sub, em), db')"
  shows "spent relay db'"
proof (rule parse_Some [OF assms])
  fix a s db1
  assume a: "get_login_attempt now relay db = Some a" and db': "db' = mark_attempt_used (la_id a) db1"
    and db1: "db1 = (case find (\<lambda>q. sp_name q = sp_name p) (sd_saml db) of None \<Rightarrow> db
       | Some q \<Rightarrow> db\<lparr> sd_assertions := sd_assertions db @ [(sp_id q, the (as_id s))] \<rparr>)"
  have "sd_attempts db1 = sd_attempts db" using db1 by (simp split: option.split)
  then have "get_login_attempt now relay db1 = Some a" using a by (simp add: get_login_attempt_def)
  then show ?thesis using marked_spent db' by simp
qed

text \<open>Whatever comes of it, a response changes only the identifiers seen, by adding one, and the mark of its attempt.\<close>

lemma parse_frame:
  assumes "parse_and_validate_response E now p resp relay cookie db = (res, db')"
  shows "sd_users db' = sd_users db" "sd_oidc db' = sd_oidc db" "sd_saml db' = sd_saml db" "sd_seq db' = sd_seq db"
    "set (sd_assertions db) \<subseteq> set (sd_assertions db')" "spent st db \<Longrightarrow> spent st db'"
proof -
  let ?add = "\<lambda>x. db\<lparr> sd_assertions := sd_assertions db @ [x] \<rparr>"
  have "db' = db \<or> (\<exists>x. db' = ?add x) \<or> (\<exists>i. db' = mark_attempt_used i db) \<or> (\<exists>i x. db' = mark_attempt_used i (?add x))"
    using assms unfolding parse_and_validate_response_def Let_def
    by (simp split: option.splits if_splits list.splits) blast+
  then consider "db' = db" | x where "db' = ?add x" | i where "db' = mark_attempt_used i db"
    | i x where "db' = mark_attempt_used i (?add x)" by blast
  note cs = this
  show "sd_users db' = sd_users db" "sd_oidc db' = sd_oidc db" "sd_saml db' = sd_saml db" "sd_seq db' = sd_seq db"
    "set (sd_assertions db) \<subseteq> set (sd_assertions db')" by (rule cs; force simp: mark_attempt_used_def)+
  assume st: "spent st db"
  moreover have "spent st (?add x)" for x using st by (simp add: spent_def)
  ultimately show "spent st db'" by (rule_tac cs) (auto intro: spent_mark)
qed

section \<open>Nothing used becomes usable again\<close>

text \<open>Used attempts stay used and recorded assertion identifiers stay recorded.\<close>

definition grows :: "sso_db \<Rightarrow> sso_db \<Rightarrow> bool" where
  "grows db db' \<longleftrightarrow> (\<forall>st. spent st db \<longrightarrow> spent st db') \<and> set (sd_assertions db) \<subseteq> set (sd_assertions db')"

lemma grows_refl: "grows db db"
  by (simp add: grows_def)

lemma grows_trans: "\<lbrakk> grows a b; grows b c \<rbrakk> \<Longrightarrow> grows a c"
  by (auto simp: grows_def)

lemma grows_same: "\<lbrakk> sd_attempts db' = sd_attempts db; sd_assertions db' = sd_assertions db \<rbrakk> \<Longrightarrow> grows db db'"
  using spent_cong [of db' db] by (simp add: grows_def)

lemma grows_append: "\<lbrakk> sd_attempts db' = sd_attempts db @ xs; sd_assertions db' = sd_assertions db \<rbrakk> \<Longrightarrow> grows db db'"
  using spent_append by (auto simp: grows_def)

lemma grows_mark: "grows db (mark_attempt_used i db)"
  using spent_mark by (auto simp: grows_def mark_attempt_used_def)

lemma create_attempt_grows: "create_login_attempt now st pr v n h db = Some db' \<Longrightarrow> grows db db'"
  by (drule create_attempt_shape) (auto intro: grows_append)

lemma jit_grows: "jit_provision pr sub em v db = (r, db') \<Longrightarrow> grows db db'"
  by (rule grows_same) (simp_all add: jit_frame)

lemma parse_grows: "parse_and_validate_response E now p resp relay cookie db = (r, db') \<Longrightarrow> grows db db'"
  using parse_frame [of E now p resp relay cookie db r db'] by (auto simp: grows_def)

lemma authorize_grows: "grows db (snd (authorize E now rnd name db))"
  by (auto simp: authorize_def build_authorization_url_def grows_refl create_attempt_grows split: option.splits)

lemma saml_login_grows: "grows db (snd (saml_login E now rnd name db))"
  by (auto simp: saml_login_def Let_def grows_refl create_attempt_grows split: option.splits)

lemma exchange_shape:
  assumes "exchange_code_for_token E now config code state binding db = (r, db')"
  shows "db' = db \<and> (\<forall>t. r \<noteq> Exchanged t) \<or> (\<exists>a. get_login_attempt now state db = Some a \<and> db' = mark_attempt_used (la_id a) db)"
  using assms unfolding exchange_code_for_token_def Let_def
  by (auto split: option.splits if_splits token_http.splits json.splits)

text \<open>The exchange marks the attempt, so the attempt the callback reads next for its nonce is refused as used.\<close>

lemma exchanged_spent:
  assumes "exchange_code_for_token E now config code state binding db = (Exchanged t, db')"
  shows "get_login_attempt now2 state db' = None"
  using exchange_shape [OF assms] by (auto intro: spent_no_attempt marked_spent)

lemma callback_shape:
  "callback E now1 now2 rnd name code state cookie db = (r, db') \<Longrightarrow>
     (r = Crashed \<or> r = Refused 400 \<or> r = Refused 404) \<and> (db' = db \<or> (\<exists>i. db' = mark_attempt_used i db))"
  unfolding callback_def
  by (auto split: option.splits if_splits prod.splits exchange.splits dest: exchange_shape exchanged_spent [where ?now2.0 = now2])

lemma callback_grows: "grows db (snd (callback E now1 now2 rnd name code state cookie db))"
  using callback_shape [of E now1 now2 rnd name code state cookie db] grows_refl grows_mark by (metis prod.collapse)

lemma acs_grows: "grows db (snd (acs E now rnd name resp relay cookie db))"
  by (auto simp: acs_def grows_refl split: option.splits prod.splits jit_result.splits
      dest!: parse_grows jit_grows intro: grows_trans)

text \<open>The administration of providers leaves attempts, accounts and assertions alone.\<close>

definition providers_only :: "sso_db \<Rightarrow> sso_db \<Rightarrow> bool" where
  "providers_only db db' \<longleftrightarrow> sd_attempts db' = sd_attempts db \<and> sd_assertions db' = sd_assertions db
     \<and> sd_users db' = sd_users db \<and> sd_scim_tokens db' = sd_scim_tokens db \<and> sd_seq db \<le> sd_seq db'"

lemma providers_only_refl [simp]: "providers_only db db"
  by (simp add: providers_only_def)

lemma providers_only_grows: "providers_only db db' \<Longrightarrow> grows db db'"
  by (auto simp: providers_only_def intro: grows_same)

lemma guard_providers_only: "providers_only db (snd b) \<Longrightarrow> providers_only db (snd (admin_guard v b db))"
  by (simp add: admin_guard_def split: outcome.split)

lemma validate_providers_only:
  "(\<And>d. providers_only db (snd (f d))) \<Longrightarrow> providers_only db (snd (validate_json ks data f db))"
  by (simp add: validate_json_def split: option.split)

lemma get_providers_only: "(\<And>d. providers_only db (snd (f d))) \<Longrightarrow> providers_only db (snd (get_json data f db))"
  by (simp add: get_json_def split: option.split)

lemmas providers_only_intros = guard_providers_only validate_providers_only get_providers_only

lemma create_sso_provider_only: "providers_only db (snd (create_sso_provider E nonce user data db))"
  unfolding create_sso_provider_def Let_def
  by (intro providers_only_intros) (simp add: providers_only_def split: option.split)

lemma option_providers_only:
  "\<lbrakk> providers_only db (snd a); \<And>x. providers_only db (snd (f x)) \<rbrakk>
    \<Longrightarrow> providers_only db (snd (case m of None \<Rightarrow> a | Some x \<Rightarrow> f x))"
  by (cases m) simp_all

lemma update_sso_provider_only: "providers_only db (snd (update_sso_provider E nonce user i data db))"
  unfolding update_sso_provider_def sso_writer_def Let_def
  by (intro providers_only_intros option_providers_only) (simp_all add: providers_only_def split: option.split)

lemma create_saml_provider_only: "providers_only db (snd (create_saml_provider E user data db))"
  unfolding create_saml_provider_def Let_def
  by (intro providers_only_intros) (simp add: providers_only_def split: option.split)

lemma update_saml_provider_only: "providers_only db (snd (update_saml_provider E user i data db))"
  unfolding update_saml_provider_def sso_writer_def Let_def
  by (intro providers_only_intros option_providers_only) (simp_all add: providers_only_def split: option.split)

lemma toggle_saml_provider_only: "providers_only db (snd (toggle_saml_provider E user i data db))"
  unfolding toggle_saml_provider_def sso_writer_def
  by (intro providers_only_intros option_providers_only) (simp_all add: providers_only_def)

lemma delete_saml_provider_only: "providers_only db (snd (delete_saml_provider E user i db))"
  unfolding delete_saml_provider_def sso_writer_def
  by (intro providers_only_intros option_providers_only) (simp_all add: providers_only_def)

lemma delete_sso_provider_only: "providers_only db (snd (delete_sso_provider E user i db))"
  unfolding delete_sso_provider_def sso_writer_def
  by (intro providers_only_intros option_providers_only) (simp_all add: providers_only_def)

lemmas admin_providers_only = delete_sso_provider_only create_sso_provider_only update_sso_provider_only create_saml_provider_only
  update_saml_provider_only toggle_saml_provider_only delete_saml_provider_only

lemma sso_step_grows: "grows db (snd (sso_step E c db))"
  by (cases c) (simp_all add: authorize_grows callback_grows saml_login_grows acs_grows providers_only_grows admin_providers_only)

lemma run_grows: "grows db (snd (run_cmds (sso_step E) cs db))"
proof (induction cs arbitrary: db)
  case (Cons c cs)
  obtain r db1 where "sso_step E c db = (r, db1)" by fastforce
  with sso_step_grows [of db E c] Cons [of db1] show ?case by (auto intro: grows_trans split: prod.splits)
qed (simp add: grows_refl)

text \<open>Accounts are only added, and only as viewers without a password.\<close>

definition adds_viewers :: "sso_user list \<Rightarrow> sso_user list \<Rightarrow> bool" where
  "adds_viewers us us' \<longleftrightarrow> (\<exists>new. us' = us @ new \<and> (\<forall>u\<in>set new. au_global_role u = ''Viewer'' \<and> au_password_hash u = None))"

lemma adds_viewers_refl [simp]: "adds_viewers us us"
  by (simp add: adds_viewers_def)

lemma adds_viewers_trans: "\<lbrakk> adds_viewers a b; adds_viewers b c \<rbrakk> \<Longrightarrow> adds_viewers a c"
  by (auto simp: adds_viewers_def)

lemma jit_adds: "jit_provision pr sub em v db = (r, db') \<Longrightarrow> adds_viewers (sd_users db) (sd_users db')"
  by (auto simp: jit_provision_def insert_user_def adds_viewers_def new_sso_user_def split: option.splits if_splits)

lemma create_attempt_users: "create_login_attempt now st pr v n h db = Some db' \<Longrightarrow> sd_users db' = sd_users db"
  by (drule create_attempt_shape) auto

lemma callback_users: "sd_users (snd (callback E now1 now2 rnd name code state cookie db)) = sd_users db"
  using callback_shape [of E now1 now2 rnd name code state cookie db]
  by (cases "callback E now1 now2 rnd name code state cookie db") (auto simp: mark_attempt_used_def)

lemma acs_adds: "adds_viewers (sd_users db) (sd_users (snd (acs E now rnd name resp relay cookie db)))"
  by (auto simp: acs_def split: option.splits prod.splits jit_result.splits dest!: parse_frame(1) jit_adds)

lemma sso_step_adds: "adds_viewers (sd_users db) (sd_users (snd (sso_step E c db)))"
proof (cases c)
  case (Authorize_Cmd now rnd name)
  then show ?thesis
    by (auto simp: authorize_def build_authorization_url_def create_attempt_users split: option.splits)
next
  case (Saml_Login now rnd name)
  then show ?thesis by (auto simp: saml_login_def Let_def create_attempt_users split: option.splits)
qed (use admin_providers_only in \<open>simp_all add: callback_users acs_adds providers_only_def\<close>)

section \<open>Properties of the OIDC flow\<close>

text \<open>
  C36. The OIDC callback opens no session, whatever the identity provider answers: it is refused or raises, and no account
  is added. The exchange of the code marks the login attempt as used, and the callback then reads the attempt again,
  for the nonce, through the function that refuses used attempts.
\<close>

theorem sso_callback_never_signs_in:
  "case callback E now1 now2 rnd name code state cookie db of
     (r, db') \<Rightarrow> (r = Crashed \<or> r = Refused 400 \<or> r = Refused 404) \<and> sd_users db' = sd_users db"
  using callback_shape [of E now1 now2 rnd name code state cookie db] callback_users [of E now1 now2 rnd name code state cookie db]
  by (auto split: prod.split)

text \<open>
  Over any sequence of sign-ins and provider changes the accounts stay as they are; the new ones are viewers without
  a password.
\<close>

theorem sso_only_adds_viewers: "adds_viewers (sd_users db) (sd_users (snd (run_cmds (sso_step E) cs db)))"
proof (induction cs arbitrary: db)
  case (Cons c cs)
  obtain r db1 where "sso_step E c db = (r, db1)" by fastforce
  with sso_step_adds [of db E c] Cons [of db1] show ?case by (auto intro: adds_viewers_trans split: prod.splits)
qed simp

section \<open>Properties of the SAML flow\<close>

lemma acs_answered:
  assumes "acs E now rnd name resp relay cookie db = (Answered n b, db')"
  obtains p sub em db1 i u where "saml_enabled name db = Some p" "truthy resp" "truthy relay" "truthy cookie"
    "parse_and_validate_response E now p (the resp) (the relay) (the cookie) db = (Some (sub, em), db1)"
    "jit_provision (sp_name p) sub em True db1 = (Jit_User i, db')" "sso_user_at i db' = Some u"
    "(Answered n b :: sso_reply) = sign_in E now (rn_jti rnd) u"
  using assms unfolding acs_def by (auto split: option.splits if_splits prod.splits jit_result.splits)

lemma saml_enabled_name: "saml_enabled name db = Some p \<Longrightarrow> sp_name p = name \<and> sp_enabled p \<and> p \<in> set (sd_saml db)"
  by (auto simp: saml_enabled_def dest: find_SomeD)

text \<open>
  C23. A SAML response that opens a session came to an enabled provider, for an attempt that exists, is unused and not
  expired, from the browser the attempt is bound to, with one assertion that answers the request of the attempt and
  whose identifier was not seen before. The account is the one with this provider and the subject of the assertion, or
  a new viewer whose email no account has; afterwards the attempt is used and the identifier recorded.
\<close>

theorem saml_login_sound:
  assumes "acs E now rnd name resp relay cookie db = (Answered n b, db')" "users_ok db"
  shows "\<exists>p a s u. saml_enabled name db = Some p \<and> get_login_attempt now (the relay) db = Some a
    \<and> io_sha256 E (the cookie) = la_binding_hash a \<and> io_saml_parse E p (the resp) (la_code_verifier a) = Some [s]
    \<and> confirmation_of (as_confirmations s) = Some (Some (la_code_verifier a))
    \<and> the (as_id s) \<notin> snd ` set (sd_assertions db) \<and> su_sso_provider u = Some name \<and> su_sso_subject u = as_name_id s
    \<and> (u \<in> set (sd_users db) \<or> au_global_role u = ''Viewer'' \<and> au_email u \<notin> au_email ` set (sd_users db))
    \<and> Answered n b = sign_in E now (rn_jti rnd) u
    \<and> spent (the relay) db' \<and> the (as_id s) \<in> snd ` set (sd_assertions db')"
proof -
  from acs_answered [OF assms(1)] obtain p sub em db1 i u where p: "saml_enabled name db = Some p"
    and parse: "parse_and_validate_response E now p (the resp) (the relay) (the cookie) db = (Some (sub, em), db1)"
    and jit: "jit_provision (sp_name p) sub em True db1 = (Jit_User i, db')" "sso_user_at i db' = Some u"
    and out: "(Answered n b :: sso_reply) = sign_in E now (rn_jti rnd) u" by metis
  note pn = saml_enabled_name [OF p]
  from parse_Some [OF parse] obtain a s db0 where a: "get_login_attempt now (the relay) db = Some a"
    "io_sha256 E (the cookie) = la_binding_hash a" "io_saml_parse E p (the resp) (la_code_verifier a) = Some [s]"
    "confirmation_of (as_confirmations s) = Some (Some (la_code_verifier a))" "as_name_id s = Some sub"
    and fresh: "\<not> list_ex (\<lambda>x. snd x = the (as_id s)) (sd_assertions db)"
    and db0: "db0 = (case find (\<lambda>q. sp_name q = sp_name p) (sd_saml db) of None \<Rightarrow> db
       | Some q \<Rightarrow> db\<lparr> sd_assertions := sd_assertions db @ [(sp_id q, the (as_id s))] \<rparr>)"
    and db1: "db1 = mark_attempt_used (la_id a) db0" by metis
  have ok: "users_ok db1" "sd_users db1 = sd_users db" using assms(2) parse_frame [OF parse] by (simp_all add: users_ok_def)
  obtain w where "sso_user_at i db' = Some w" "su_sso_provider w = Some (sp_name p)" "su_sso_subject w = Some sub"
    "w \<in> set (sd_users db1) \<and> db' = db1
     \<or> au_global_role w = ''Viewer'' \<and> au_password_hash w = None \<and> (\<forall>v\<in>set (sd_users db1). au_email v \<noteq> au_email w)"
    using jit_user [OF jit(1) ok(1)] by metis
  then have u: "su_sso_provider u = Some name" "su_sso_subject u = Some sub"
    "u \<in> set (sd_users db) \<or> au_global_role u = ''Viewer'' \<and> au_email u \<notin> au_email ` set (sd_users db)"
    using jit(2) pn ok(2) by force+
  obtain q where q: "find (\<lambda>q. sp_name q = sp_name p) (sd_saml db) = Some q"
    using pn by (cases "find (\<lambda>q. sp_name q = sp_name p) (sd_saml db)") (auto simp: find_None_iff)
  have "spent (the relay) db'" using parse_spends [OF parse] jit_grows [OF jit(1)] by (simp add: grows_def)
  moreover have "the (as_id s) \<in> snd ` set (sd_assertions db')"
    using jit_frame(4) [OF jit(1)] db1 db0 q by (simp add: mark_attempt_used_def)
  moreover have "the (as_id s) \<notin> snd ` set (sd_assertions db)" using fresh by (auto simp: list_ex_iff)
  ultimately show ?thesis using p a u out by metis
qed

lemma parse_refuses_spent: "spent relay db \<Longrightarrow> parse_and_validate_response E now p resp relay cookie db = (None, db)"
  by (simp add: parse_and_validate_response_def spent_no_attempt)

lemma parse_refuses_seen:
  assumes "\<And>rid ss. io_saml_parse E p resp rid = Some ss \<Longrightarrow> \<forall>t\<in>set ss. as_id t = Some x" "x \<in> snd ` set (sd_assertions db)"
  shows "fst (parse_and_validate_response E now p resp relay cookie db) = None"
proof (rule ccontr)
  assume "fst (parse_and_validate_response E now p resp relay cookie db) \<noteq> None"
  then obtain sub em db' where "parse_and_validate_response E now p resp relay cookie db = (Some (sub, em), db')"
    by (cases "parse_and_validate_response E now p resp relay cookie db") auto
  from parse_Some [OF this] obtain rid t where t: "io_saml_parse E p resp rid = Some [t]"
    "\<not> list_ex (\<lambda>y. snd y = the (as_id t)) (sd_assertions db)" by metis
  from assms(1) [OF t(1)] have "the (as_id t) = x" by simp
  with t(2) assms(2) show False by (auto simp: list_ex_iff)
qed

lemma acs_needs_parse:
  assumes "\<And>p. fst (parse_and_validate_response E now p (the resp) (the relay) (the cookie) db) = None"
  shows "fst (acs E now rnd name resp relay cookie db) \<noteq> Answered n b"
proof
  assume "fst (acs E now rnd name resp relay cookie db) = Answered n b"
  then obtain db' where "acs E now rnd name resp relay cookie db = (Answered n b, db')" by (metis prod.collapse)
  from acs_answered [OF this] assms show False by (metis fst_conv option.distinct(1))
qed

text \<open>
  C10. After a response opened a session, and whatever happened since, neither its relay state nor a response with an
  assertion identifier that was recorded opens another one.
\<close>

theorem saml_response_single_use:
  assumes "acs E now rnd name resp relay cookie db = (Answered n b, db1)" "users_ok db"
    "db2 = snd (run_cmds (sso_step E) cs db1)"
    "relay' = relay \<or> (\<forall>p rid ss. io_saml_parse E p (the resp') rid = Some ss \<longrightarrow> (\<forall>t\<in>set ss. as_id t = Some x))
       \<and> x \<in> snd ` set (sd_assertions db1)"
  shows "fst (acs E now' rnd' name' resp' relay' cookie' db2) \<noteq> Answered n' b'"
proof (rule acs_needs_parse)
  fix p
  have g: "grows db1 db2" using assms(3) run_grows by simp
  from acs_answered [OF assms(1)] obtain q sub em db0 i where
    parse: "parse_and_validate_response E now q (the resp) (the relay) (the cookie) db = (Some (sub, em), db0)"
    and jit: "jit_provision (sp_name q) sub em True db0 = (Jit_User i, db1)" by metis
  have "spent (the relay) db1" using parse_spends [OF parse] jit_grows [OF jit] by (simp add: grows_def)
  then have sp: "spent (the relay) db2" using g by (simp add: grows_def)
  from assms(4) show "fst (parse_and_validate_response E now' p (the resp') (the relay') (the cookie') db2) = None"
  proof
    assume "relay' = relay"
    then show ?thesis using parse_refuses_spent [OF sp] by simp
  next
    assume "(\<forall>p rid ss. io_saml_parse E p (the resp') rid = Some ss \<longrightarrow> (\<forall>t\<in>set ss. as_id t = Some x))
       \<and> x \<in> snd ` set (sd_assertions db1)"
    moreover from this g have "x \<in> snd ` set (sd_assertions db2)" by (auto simp: grows_def)
    ultimately show ?thesis by (blast intro: parse_refuses_seen)
  qed
qed

section \<open>Endpoints\<close>

text \<open>Every endpoint the Manager contacts or redirects to is an https URL.\<close>

definition oidc_https :: "oidc_provider \<Rightarrow> bool" where
  "oidc_https p \<longleftrightarrow> py_startswith (op_authorization_endpoint p) ''https://'' \<and> py_startswith (op_token_endpoint p) ''https://''
     \<and> py_startswith (op_jwks_url p) ''https://''"

definition saml_https :: "saml_provider \<Rightarrow> bool" where
  "saml_https p \<longleftrightarrow> py_startswith (sp_idp_sso_url p) ''https://'' \<and> py_startswith (sp_acs_url p) ''https://''"

definition endpoints_ok :: "sso_db \<Rightarrow> bool" where
  "endpoints_ok db \<longleftrightarrow> list_all oidc_https (sd_oidc db) \<and> list_all saml_https (sd_saml db)"

lemma https_members_True:
  "\<lbrakk> https_members d ks = Some True; k \<in> set ks; has_key d k; col_text (json_get d k) = Some s \<rbrakk>
    \<Longrightarrow> py_startswith s ''https://''"
  by (induction ks) (auto simp: col_text_def split: if_splits json.splits)

lemma https_patched:
  "\<lbrakk> https_members d ks = Some True; k \<in> set ks; patched d k col_text old = Some s; py_startswith old ''https://'' \<rbrakk>
    \<Longrightarrow> py_startswith s ''https://''"
  using https_members_True by (fastforce simp: patched_def split: if_splits)

lemma required_has_key: "\<lbrakk> list_all (\<lambda>k. k \<in> fst ` set d) ks; k \<in> set ks \<rbrakk> \<Longrightarrow> has_key d k"
  by (auto simp: list_all_iff has_key_def)

lemmas handler_inv = guard_inv [where P = endpoints_ok] validate_inv [where P = endpoints_ok]
  get_inv [where P = endpoints_ok] find_inv [where P = endpoints_ok] let_inv [where P = endpoints_ok]

lemma update_list_all: "\<lbrakk> list_all P xs; P y \<rbrakk> \<Longrightarrow> list_all P (map (\<lambda>x. if c x then y else x) xs)"
  by (auto simp: list_all_iff)

lemma create_sso_endpoints: "endpoints_ok db \<Longrightarrow> endpoints_ok (snd (create_sso_provider E nonce user data db))"
  unfolding create_sso_provider_def
  by (intro handler_inv)
    (simp_all add: endpoints_ok_def Let_def oidc_https_def oidc_endpoints_def has_key_def col_text_def
      split: option.split if_splits json.splits)

lemma create_saml_endpoints: "endpoints_ok db \<Longrightarrow> endpoints_ok (snd (create_saml_provider E user data db))"
  unfolding create_saml_provider_def
  by (intro handler_inv)
    (simp_all add: endpoints_ok_def Let_def saml_https_def saml_endpoints_def has_key_def col_text_def
      split: option.split if_splits json.splits)

lemma oidc_updated:
  assumes "https_members d oidc_endpoints = Some True" "oidc_https p"
    "patched d ''authorization_endpoint'' col_text (op_authorization_endpoint p) = Some a"
    "patched d ''token_endpoint'' col_text (op_token_endpoint p) = Some t"
    "patched d ''jwks_url'' col_text (op_jwks_url p) = Some j"
  shows "py_startswith a ''https://'' \<and> py_startswith t ''https://'' \<and> py_startswith j ''https://''"
  using assms(2) https_patched [OF assms(1) _ assms(3)] https_patched [OF assms(1) _ assms(4)] https_patched [OF assms(1) _ assms(5)]
  by (simp add: oidc_https_def oidc_endpoints_def)

lemma saml_updated:
  assumes "https_members d saml_endpoints = Some True" "saml_https p"
    "patched d ''idp_sso_url'' col_text (sp_idp_sso_url p) = Some a" "patched d ''sp_acs_url'' col_text (sp_acs_url p) = Some t"
  shows "py_startswith a ''https://'' \<and> py_startswith t ''https://''"
  using assms(2) https_patched [OF assms(1) _ assms(3)] https_patched [OF assms(1) _ assms(4)]
  by (simp add: saml_https_def saml_endpoints_def)

lemma endpoints_ok_oidc:
  "\<lbrakk> endpoints_ok db; oidc_https p \<rbrakk> \<Longrightarrow> endpoints_ok (db\<lparr> sd_oidc := map (\<lambda>x. if op_id x = i then p else x) (sd_oidc db) \<rparr>)"
  by (auto simp: endpoints_ok_def list_all_iff)

lemma endpoints_ok_saml:
  "\<lbrakk> endpoints_ok db; \<And>x. saml_https x \<Longrightarrow> saml_https (f x) \<rbrakk>
    \<Longrightarrow> endpoints_ok (db\<lparr> sd_saml := map (\<lambda>x. if sp_id x = i then f x else x) (sd_saml db) \<rparr>)"
  by (auto simp: endpoints_ok_def list_all_iff)

lemma update_sso_endpoints: "endpoints_ok db \<Longrightarrow> endpoints_ok (snd (update_sso_provider E nonce user i data db))"
proof -
  assume ok: "endpoints_ok db"
  have old: "oidc_https p" if "find (\<lambda>p. op_id p = i) (sd_oidc db) = Some p" for p
    using ok find_SomeD [OF that] by (auto simp: endpoints_ok_def list_all_iff)
  show ?thesis unfolding update_sso_provider_def sso_writer_def
    by (intro handler_inv ok) (auto simp: ok Let_def oidc_https_def split: option.split
      intro!: endpoints_ok_oidc [OF ok] dest: oidc_updated [OF _ old])
qed

lemma update_saml_endpoints: "endpoints_ok db \<Longrightarrow> endpoints_ok (snd (update_saml_provider E user i data db))"
proof -
  assume ok: "endpoints_ok db"
  have old: "saml_https p" if "find (\<lambda>p. sp_id p = i) (sd_saml db) = Some p" for p
    using ok find_SomeD [OF that] by (auto simp: endpoints_ok_def list_all_iff)
  show ?thesis unfolding update_saml_provider_def sso_writer_def
    by (intro handler_inv ok) (auto simp: ok Let_def saml_https_def split: option.split
      intro!: endpoints_ok_saml [OF ok] dest: saml_updated [OF _ old])
qed

lemma toggle_saml_endpoints: "endpoints_ok db \<Longrightarrow> endpoints_ok (snd (toggle_saml_provider E user i data db))"
  unfolding toggle_saml_provider_def sso_writer_def
  by (intro handler_inv) (auto intro!: endpoints_ok_saml simp: saml_https_def)

lemma delete_saml_endpoints: "endpoints_ok db \<Longrightarrow> endpoints_ok (snd (delete_saml_provider E user i db))"
  unfolding delete_saml_provider_def sso_writer_def
  by (intro handler_inv) (auto simp: endpoints_ok_def list_all_iff)

lemma delete_sso_endpoints: "endpoints_ok db \<Longrightarrow> endpoints_ok (snd (delete_sso_provider E user i db))"
  unfolding delete_sso_provider_def sso_writer_def
  by (intro handler_inv) (auto simp: endpoints_ok_def list_all_iff)

lemma endpoints_cong: "\<lbrakk> sd_oidc db' = sd_oidc db; sd_saml db' = sd_saml db; endpoints_ok db \<rbrakk> \<Longrightarrow> endpoints_ok db'"
  by (simp add: endpoints_ok_def)

text \<open>The sign-in routes leave the providers alone.\<close>

lemma create_attempt_providers:
  "create_login_attempt now st pr v n h db = Some db' \<Longrightarrow> sd_oidc db' = sd_oidc db \<and> sd_saml db' = sd_saml db"
  by (drule create_attempt_shape) auto

lemma callback_providers:
  "callback E now1 now2 rnd name code state cookie db = (r, db') \<Longrightarrow> sd_oidc db' = sd_oidc db \<and> sd_saml db' = sd_saml db"
  by (drule callback_shape) (auto simp: mark_attempt_used_def)

lemma acs_providers:
  "acs E now rnd name resp relay cookie db = (r, db') \<Longrightarrow> sd_oidc db' = sd_oidc db \<and> sd_saml db' = sd_saml db"
  by (auto simp: acs_def parse_frame jit_frame split: option.splits if_splits prod.splits jit_result.splits)

text \<open>
  Over any sequence of sign-ins and provider changes, every provider keeps https endpoints only.
\<close>

theorem sso_endpoints_https:
  "endpoints_ok db \<Longrightarrow> endpoints_ok (snd (run_cmds (sso_step E) cs db))"
proof (induction cs arbitrary: db)
  case (Cons c cs)
  obtain r db1 where c: "sso_step E c db = (r, db1)" by fastforce
  have "endpoints_ok (snd (sso_step E c db))"
  proof (cases c)
    case (Authorize_Cmd now rnd name)
    then show ?thesis using Cons.prems create_attempt_providers
      by (auto simp: authorize_def build_authorization_url_def split: option.splits intro: endpoints_cong)
  next
    case (Saml_Login now rnd name)
    then show ?thesis using Cons.prems create_attempt_providers
      by (auto simp: saml_login_def Let_def split: option.splits intro: endpoints_cong)
  next
    case (Callback now1 now2 rnd name code state cookie)
    then show ?thesis using c Cons.prems callback_providers endpoints_cong by (metis snd_conv sso_step.simps(2))
  next
    case (Acs now rnd name resp relay cookie)
    then show ?thesis using c Cons.prems acs_providers endpoints_cong by (metis snd_conv sso_step.simps(4))
  qed (use Cons.prems in \<open>simp_all add: create_sso_endpoints create_saml_endpoints update_sso_endpoints
      update_saml_endpoints toggle_saml_endpoints delete_saml_endpoints delete_sso_endpoints\<close>)
  with c Cons.IH [of db1] show ?case by (auto split: prod.splits)
qed simp

text \<open>The same database with every account deactivated.\<close>

definition deactivated :: "sso_db \<Rightarrow> sso_db" where
  "deactivated db = db\<lparr> sd_users := map (\<lambda>v. v\<lparr> au_active := False \<rparr>) (sd_users db) \<rparr>"

lemma find_map_same: "(\<And>x. P (f x) = P x) \<Longrightarrow> find P (map f xs) = map_option f (find P xs)"
  by (induction xs) auto

lemma parse_deactivated:
  "parse_and_validate_response E now p resp relay cookie (deactivated db)
   = map_prod id deactivated (parse_and_validate_response E now p resp relay cookie db)"
proof -
  have g: "get_login_attempt now relay (deactivated db) = get_login_attempt now relay db"
    by (simp add: get_login_attempt_def deactivated_def)
  show ?thesis unfolding parse_and_validate_response_def Let_def g
    by (simp add: deactivated_def mark_attempt_used_def split: option.split list.split)
qed

lemma jit_deactivated:
  assumes "jit_provision pr sub em v db = (Jit_User i, db')" "sso_user_at i db' = Some u" "u \<in> set (sd_users db)" "users_ok db"
  shows "jit_provision pr sub em v (deactivated db) = (Jit_User i, deactivated db)
     \<and> sso_user_at i (deactivated db) = Some (u\<lparr> au_active := False \<rparr>)"
proof -
  let ?P = "\<lambda>u. su_sso_provider u = Some pr \<and> su_sso_subject u = Some sub"
  have "find ?P (sd_users db) \<noteq> None"
  proof
    assume "find ?P (sd_users db) = None"
    then have "i = sd_seq db" "\<forall>w\<in>set (sd_users db). au_id w \<noteq> sd_seq db"
      using assms(1,4) by (auto simp: jit_provision_def insert_user_def users_ok_def split: if_splits option.splits)
    moreover have "au_id u = i" using assms(2) by (auto simp: sso_user_at_def dest: find_SomeD)
    ultimately show False using assms(3) by blast
  qed
  then obtain w where w: "find ?P (sd_users db) = Some w" by blast
  then have i: "i = au_id w" "db' = db" using assms(1) by (simp_all add: jit_provision_def)
  show ?thesis using w i assms(2) by (simp add: jit_provision_def deactivated_def find_map_same sso_user_at_def)
qed

text \<open>
  No sign-in route looks at the flag of the account: where a known account gets a session, it gets the same one when
  all accounts are deactivated.
\<close>

theorem inactive_account_signs_in:
  assumes "acs E now rnd name resp relay cookie db = (Answered n (Signed_In u a r), db')" "u \<in> set (sd_users db)" "users_ok db"
  shows "fst (acs E now rnd name resp relay cookie (deactivated db)) = Answered n (Signed_In (u\<lparr> au_active := False \<rparr>) a r)"
proof -
  from acs_answered [OF assms(1)] obtain p sub em db1 i where p: "saml_enabled name db = Some p" "truthy resp" "truthy relay" "truthy cookie"
    and parse: "parse_and_validate_response E now p (the resp) (the relay) (the cookie) db = (Some (sub, em), db1)"
    and jit: "jit_provision (sp_name p) sub em True db1 = (Jit_User i, db')" "sso_user_at i db' = Some u"
    and out: "Answered n (Signed_In u a r) = sign_in E now (rn_jti rnd) u"
    by (metis sign_in_def web_reply.inject(1) sso_body.inject(4))
  have ok: "users_ok db1" "u \<in> set (sd_users db1)" using assms(2,3) parse_frame [OF parse] by (simp_all add: users_ok_def)
  have "saml_enabled name (deactivated db) = Some p" using p by (simp add: saml_enabled_def deactivated_def)
  moreover have "sign_in E now (rn_jti rnd) (u\<lparr> au_active := False \<rparr>) = Answered n (Signed_In (u\<lparr> au_active := False \<rparr>) a r)"
    using out by (simp add: sign_in_def)
  ultimately show ?thesis using p parse jit_deactivated [OF jit ok(2,1)] by (simp add: acs_def parse_deactivated)
qed

section \<open>Examples\<close>

definition sample_sso_env :: sso_env where
  "sample_sso_env = \<lparr> io_sha256 = (\<lambda>s. ''h'' @ s), io_challenge = (\<lambda>s. s), io_encrypt = (\<lambda>n s. s), io_decrypt = Some,
     io_urlencode = (\<lambda>kvs. concat (map snd kvs)), io_post = (\<lambda>u kvs. Post_Body (JObj [(''id_token'', JStr ''t'')])),
     io_decode = (\<lambda>p t. None),
     io_saml_parse = (\<lambda>p resp rid. if resp \<noteq> [] then Some [\<lparr> as_confirmations = [Some (Some rid)], as_name_id = Some ''ann'',
       as_id = Some resp, as_attributes = [(''mail'', [Some ''ann@x.org''])] \<rparr>] else None),
     io_saml_request = (\<lambda>rid p. rid), io_pem_ok = (\<lambda>s. True), io_redirect_uri = ''https://m/cb'', io_jwt_cfg = demo_cfg,
     io_tenant = ''default'', io_access_life = 900, io_refresh_life = 3600, io_enterprise = True, io_insert_row = True,
     io_table_delete = True \<rparr>"

definition sample_random :: sso_random where
  "sample_random = \<lparr> rn_verifier = ''v'', rn_nonce = ''n'', rn_state = ''st'', rn_binding = ''bind'', rn_jti = ''j'' \<rparr>"

definition sample_idp :: saml_provider where
  "sample_idp = \<lparr> sp_id = 1, sp_name = ''idp'', sp_display_name = ''IdP'', sp_idp_entity_id = ''e'',
     sp_idp_sso_url = ''https://idp/sso'', sp_idp_x509_cert = ''c'', sp_entity_id = ''sp'', sp_acs_url = ''https://m/acs'',
     sp_name_id_format = ''f'', sp_want_signed = True, sp_enabled = True \<rparr>"

definition sample_sso_db :: sso_db where
  "sample_sso_db = \<lparr> sd_users = [], sd_attempts = [], sd_oidc = [], sd_saml = [sample_idp], sd_assertions = [],
     sd_scim_tokens = [], sd_seq = 2 \<rparr>"

definition sample_login :: sso_db where
  "sample_login = snd (saml_login sample_sso_env 0 sample_random ''idp'' sample_sso_db)"

definition sample_answer :: "sso_reply \<times> sso_db" where
  "sample_answer = acs sample_sso_env 1 sample_random ''idp'' (Some ''ok'') (Some ''st'') (Some ''bind'') sample_login"

text \<open>The same account comes back with another request and another assertion.\<close>

definition sample_relogin :: sso_db where
  "sample_relogin = snd (saml_login sample_sso_env 2 (sample_random\<lparr> rn_state := ''st2'' \<rparr>) ''idp'' (snd sample_answer))"

definition sample_reanswer :: "sso_reply \<times> sso_db" where
  "sample_reanswer = acs sample_sso_env 3 sample_random ''idp'' (Some ''ok2'') (Some ''st2'') (Some ''bind'') sample_relogin"

definition signed_in_known :: "sso_reply \<times> sso_db \<Rightarrow> bool" where
  "signed_in_known out \<longleftrightarrow> (case out of (Answered n (Signed_In u a r), db) \<Rightarrow> list_ex (\<lambda>v. v = u) (sd_users sample_relogin) | _ \<Rightarrow> False)"

lemma sample_answers: "signed_in_known sample_answer" "signed_in_known sample_reanswer"
  by code_simp+

lemma sample_users: "users_ok sample_login" "users_ok sample_relogin"
  by code_simp+

lemma signed_in_knownD:
  "signed_in_known out \<Longrightarrow> \<exists>n u a r db. out = (Answered n (Signed_In u a r), db) \<and> u \<in> set (sd_users sample_relogin)"
  by (cases out; cases "fst out") (auto simp: signed_in_known_def list_ex_iff split: sso_body.split_asm)

theorem saml_login_sound_witness: "spent ''st'' (snd sample_answer)"
proof -
  obtain n u a r db where "sample_answer = (Answered n (Signed_In u a r), db)" using signed_in_knownD [OF sample_answers(1)] by blast
  with saml_login_sound [OF _ sample_users(1), of sample_sso_env 1 sample_random "''idp''" "Some ''ok''" "Some ''st''" "Some ''bind''"]
  show ?thesis unfolding sample_answer_def by fastforce
qed

theorem saml_response_single_use_witness:
  "\<forall>n b. fst (acs sample_sso_env 2 sample_random ''idp'' (Some ''ok3'') (Some ''st'') (Some ''bind'') (snd sample_answer)) \<noteq> Answered n b"
proof (intro allI)
  fix n b
  obtain m u a r db where "sample_answer = (Answered m (Signed_In u a r), db)" using signed_in_knownD [OF sample_answers(1)] by blast
  then show "fst (acs sample_sso_env 2 sample_random ''idp'' (Some ''ok3'') (Some ''st'') (Some ''bind'') (snd sample_answer)) \<noteq> Answered n b"
    using saml_response_single_use [OF _ sample_users(1), of sample_sso_env 1 sample_random "''idp''" "Some ''ok''"
      "Some ''st''" "Some ''bind''" m "Signed_In u a r" db db "[]" "Some ''st''"] by (simp add: sample_answer_def)
qed

theorem inactive_account_signs_in_witness:
  "\<exists>n u a r. fst (acs sample_sso_env 3 sample_random ''idp'' (Some ''ok2'') (Some ''st2'') (Some ''bind'') (deactivated sample_relogin))
     = Answered n (Signed_In (u\<lparr> au_active := False \<rparr>) a r)"
proof -
  obtain n u a r db where o: "sample_reanswer = (Answered n (Signed_In u a r), db)" "u \<in> set (sd_users sample_relogin)"
    using signed_in_knownD [OF sample_answers(2)] by blast
  from inactive_account_signs_in [OF o(1) [unfolded sample_reanswer_def] o(2) sample_users(2)] show ?thesis by blast
qed

theorem sso_endpoints_https_witness:
  "endpoints_ok (snd (run_cmds (sso_step sample_sso_env) [Saml_Login 0 sample_random ''idp'', Delete_Saml None 1] sample_sso_db))"
  by (rule sso_endpoints_https) code_simp

end
