(* ===== verification/Manager_Mfa.thy ===== *)
theory Manager_Mfa
  imports Manager_Auth
begin

text \<open>
  Browser sessions and the second factor in the Manager: token extraction and the CSRF check
  (\<^verbatim>\<open>services/cookie_auth.py\<close>, \<^verbatim>\<open>middleware/auth.py\<close>), the login handler (\<^verbatim>\<open>blueprints/auth.py\<close>), TOTP,
  recovery codes and pre-auth tokens (\<^verbatim>\<open>services/mfa_service.py\<close>) and their endpoints
  (\<^verbatim>\<open>blueprints/mfa.py\<close>).

  The columns \<^verbatim>\<open>mfa_*\<close> of the user table are a record of their own per user id. pyotp, bcrypt, Fernet and
  the token decoder are parameters; request bodies carry strings. Per-address rate limits and the audit
  trail are not modelled.
\<close>

section \<open>Token extraction and CSRF\<close>

record http_req =
  hr_method :: string
  hr_authorization :: "string option"
  hr_access_cookie :: "string option"
  hr_csrf_cookie :: "string option"
  hr_csrf_header :: "string option"

definition CSRF_PROTECTED_METHODS :: "string list" where
  "CSRF_PROTECTED_METHODS = [''POST'', ''PUT'', ''PATCH'', ''DELETE'']"

definition extract_bearer_or_cookie_token :: "http_req \<Rightarrow> string option \<times> bool" where
  "extract_bearer_or_cookie_token req =
     (if truthy (hr_authorization req)
      then (case py_split CHR '' '' (the (hr_authorization req)) of [_, token] \<Rightarrow> (Some token, False) | _ \<Rightarrow> (None, False))
      else if truthy (hr_access_cookie req) then (hr_access_cookie req, True)
      else (None, False))"

definition csrf_check_passes :: "http_req \<Rightarrow> bool" where
  "csrf_check_passes req =
     (if hr_method req \<notin> set CSRF_PROTECTED_METHODS then True
      else if \<not> truthy (hr_csrf_cookie req) \<or> \<not> truthy (hr_csrf_header req) then False
      else hr_csrf_cookie req = hr_csrf_header req)"

text \<open>The decorator: the status of the rejection, or the user the route sees.\<close>

definition token_required :: "(int \<Rightarrow> string \<Rightarrow> claims option) \<Rightarrow> int \<Rightarrow> http_req \<Rightarrow> nat + current_user" where
  "token_required decode now req =
     (case extract_bearer_or_cookie_token req of (token, from_cookie) \<Rightarrow>
        if truthy (hr_authorization req) \<and> \<not> truthy token then Inl 401
        else if \<not> truthy token then Inl 401
        else if from_cookie \<and> \<not> csrf_check_passes req then Inl 403
        else (case decode now (the token) of
                None \<Rightarrow> Inl 401
              | Some payload \<Rightarrow> (case token_user payload of None \<Rightarrow> Inl 401 | Some user \<Rightarrow> Inr user)))"

text \<open>The variant that lets requests without a token through; a bad token leaves the user unset.\<close>

definition optional_token :: "(int \<Rightarrow> string \<Rightarrow> claims option) \<Rightarrow> int \<Rightarrow> http_req \<Rightarrow> claims option" where
  "optional_token decode now req =
     (let token = (if truthy (hr_authorization req)
                   then (case py_split CHR '' '' (the (hr_authorization req)) of _ # t # _ \<Rightarrow> Some t | _ \<Rightarrow> None) else None)
      in if truthy token then decode now (the token) else None)"

section \<open>State\<close>

record mfa_cols =
  mc_enabled :: bool
  mc_secret :: "string option"
  mc_codes :: "string list option"
  mc_counter :: "int option"

record mfa_db =
  md_auth :: auth_db
  md_mfa :: "nat \<Rightarrow> mfa_cols"

record mfa_env =
  mx_session :: session_env
  mx_otp_verify :: "string \<Rightarrow> string \<Rightarrow> nat \<Rightarrow> int \<Rightarrow> bool"
  mx_timecode :: "int \<Rightarrow> int"
  mx_encrypt :: "string \<Rightarrow> string"
  mx_decrypt :: "string \<Rightarrow> string option"
  mx_hash :: "string \<Rightarrow> string"

definition mfa_user :: "nat \<Rightarrow> mfa_db \<Rightarrow> auth_user option" where
  "mfa_user uid db = find (\<lambda>u. au_id u = uid) (users (md_auth db))"

definition set_mfa :: "nat \<Rightarrow> (mfa_cols \<Rightarrow> mfa_cols) \<Rightarrow> mfa_db \<Rightarrow> mfa_db" where
  "set_mfa uid f db = db\<lparr> md_mfa := (md_mfa db)(uid := f (md_mfa db uid)) \<rparr>"

section \<open>Codes\<close>

text \<open>\<^verbatim>\<open>str.isdigit\<close> holds for the superscript digits of Latin-1 too.\<close>

definition py_isdigit :: "char \<Rightarrow> bool" where
  "py_isdigit c \<longleftrightarrow> is_digit c \<or> (of_char c :: nat) \<in> {178, 179, 185}"

definition verify_totp :: "mfa_env \<Rightarrow> string \<Rightarrow> string \<Rightarrow> nat \<Rightarrow> int \<Rightarrow> bool" where
  "verify_totp E secret code window now =
     (if code = [] \<or> length code \<noteq> 6 \<or> \<not> list_all py_isdigit code then False
      else mx_otp_verify E secret code window now)"

definition check_totp_replay :: "mfa_env \<Rightarrow> int \<Rightarrow> nat \<Rightarrow> mfa_db \<Rightarrow> bool \<times> mfa_db" where
  "check_totp_replay E now uid db =
     (if mfa_user uid db = None then (False, db)
      else (let current_counter = mx_timecode E now;
                last_counter = (case mc_counter (md_mfa db uid) of None \<Rightarrow> 0 | Some n \<Rightarrow> n)
            in if current_counter \<le> last_counter then (False, db)
               else (True, set_mfa uid (\<lambda>c. c\<lparr> mc_counter := Some current_counter \<rparr>) db)))"

definition store_recovery_codes :: "nat \<Rightarrow> string list \<Rightarrow> mfa_db \<Rightarrow> mfa_db" where
  "store_recovery_codes uid hashed db = set_mfa uid (\<lambda>c. c\<lparr> mc_codes := Some hashed \<rparr>) db"

definition get_recovery_codes :: "nat \<Rightarrow> mfa_db \<Rightarrow> string list" where
  "get_recovery_codes uid db =
     (if mfa_user uid db = None then [] else (case mc_codes (md_mfa db uid) of None \<Rightarrow> [] | Some hs \<Rightarrow> hs))"

text \<open>The first stored hash the code matches is removed.\<close>

fun pop_code :: "(string \<Rightarrow> bool) \<Rightarrow> string list \<Rightarrow> string list option" where
  "pop_code matches [] = None"
| "pop_code matches (h # hs) = (if matches h then Some hs else map_option (Cons h) (pop_code matches hs))"

definition consume_recovery_code :: "mfa_env \<Rightarrow> nat \<Rightarrow> string \<Rightarrow> mfa_db \<Rightarrow> bool \<times> mfa_db" where
  "consume_recovery_code E uid code db =
     (if mfa_user uid db = None then (False, db)
      else (case pop_code (se_checkpw (mx_session E) code) (get_recovery_codes uid db) of
              None \<Rightarrow> (False, db)
            | Some rest \<Rightarrow> (True, store_recovery_codes uid rest db)))"

definition generate_recovery_codes :: "mfa_env \<Rightarrow> string list \<Rightarrow> string list \<times> string list" where
  "generate_recovery_codes E random_hex = (map py_upper random_hex, map (mx_hash E) (map py_upper random_hex))"

section \<open>Pre-auth tokens\<close>

definition pre_auth_claims :: "jwt_cfg \<Rightarrow> string \<Rightarrow> nat \<Rightarrow> string \<Rightarrow> int \<Rightarrow> claims" where
  "pre_auth_claims cfg tenant uid jti now =
     [(''sub'', JStr (dec uid)), (''iss'', JStr (JWT_ISSUER cfg)), (''aud'', JStr (JWT_AUDIENCE cfg)),
      (''tenant'', JStr tenant), (''user_id'', JInt (int uid)), (''type'', JStr ''pre_auth''),
      (''scope'', JStr ''mfa:verify''), (''jti'', JStr jti), (''exp'', JInt (now + 300)), (''iat'', JInt now)]"

definition decode_pre_auth_token :: "(int \<Rightarrow> string \<Rightarrow> claims option) \<Rightarrow> int \<Rightarrow> string \<Rightarrow> claims option" where
  "decode_pre_auth_token decode now token =
     (case decode now token of
        None \<Rightarrow> None
      | Some payload \<Rightarrow>
          (if map_of payload ''type'' = None \<or> map_of payload ''scope'' = None then None
           else if json_get payload ''type'' \<noteq> JStr ''pre_auth'' \<or> json_get payload ''scope'' \<noteq> JStr ''mfa:verify'' then None
           else if \<not> json_truthy (json_get payload ''tenant'') then None
           else Some payload))"

section \<open>Endpoints\<close>

datatype mfa_result =
    MTokens claims claims
  | MPreAuth claims
  | MOk
  | MErr nat
  | MRaised

definition session_tokens :: "mfa_env \<Rightarrow> int \<Rightarrow> string \<Rightarrow> auth_user \<Rightarrow> (nat \<times> string) list \<Rightarrow> mfa_result" where
  "session_tokens E now new_jti u roles =
     (let S = mx_session E in
      MTokens (access_claims (se_jwt_cfg S) (se_tenant S) (au_id u) (au_username u) (Some (au_global_role u)) roles
                 (now div 1000000) (se_access_life S))
              (refresh_claims (se_jwt_cfg S) (se_tenant S) (au_id u) new_jti (now div 1000000) (se_refresh_life S)))"

definition login :: "mfa_env \<Rightarrow> int \<Rightarrow> string \<Rightarrow> string \<Rightarrow> string \<Rightarrow> mfa_db \<Rightarrow> mfa_result \<times> mfa_db" where
  "login E now new_jti username password db =
     (let S = mx_session E in
      case authenticate_user (se_checkpw S) (se_cfg S) now username password (md_auth db) of
        (None, a) \<Rightarrow> (MErr 401, db\<lparr> md_auth := a \<rparr>)
      | (Some user, a) \<Rightarrow>
          (let db' = db\<lparr> md_auth := a \<rparr> in
           if mfa_user (ui_id user) db' \<noteq> None \<and> mc_enabled (md_mfa db' (ui_id user))
           then (MPreAuth (pre_auth_claims (se_jwt_cfg S) (se_tenant S) (ui_id user) new_jti (now div 1000000)), db')
           else (MTokens (access_claims (se_jwt_cfg S) (se_tenant S) (ui_id user) (ui_username user)
                            (Some (ui_global_role user)) (ui_team_roles user) (now div 1000000) (se_access_life S))
                         (refresh_claims (se_jwt_cfg S) (se_tenant S) (ui_id user) new_jti (now div 1000000)
                            (se_refresh_life S)), db')))"

text \<open>
  The two ways to prove the second factor: \<open>None\<close> is the exception of a secret that does not decrypt.
  Only the verification endpoint guards the code against replay.
\<close>

definition try_totp :: "mfa_env \<Rightarrow> bool \<Rightarrow> int \<Rightarrow> nat \<Rightarrow> string \<Rightarrow> mfa_db \<Rightarrow> (bool \<times> mfa_db) option" where
  "try_totp E replay_guard now uid code db =
     (if code = [] then Some (False, db)
      else (case Option.bind (mc_secret (md_mfa db uid)) (mx_decrypt E) of
              None \<Rightarrow> None
            | Some secret \<Rightarrow>
                Some (if verify_totp E secret code 1 now
                      then (if replay_guard then check_totp_replay E now uid db else (True, db)) else (False, db))))"

definition try_recovery :: "mfa_env \<Rightarrow> nat \<Rightarrow> string \<Rightarrow> bool \<times> mfa_db \<Rightarrow> bool \<times> mfa_db" where
  "try_recovery E uid code r =
     (case r of (verified, db) \<Rightarrow> if \<not> verified \<and> code \<noteq> [] then consume_recovery_code E uid code db else r)"

definition mfa_verify ::
  "mfa_env \<Rightarrow> int \<Rightarrow> string \<Rightarrow> string \<Rightarrow> string \<Rightarrow> string \<Rightarrow> mfa_db \<Rightarrow> mfa_result \<times> mfa_db" where
  "mfa_verify E now new_jti pre_auth totp recovery db0 =
     (case decode_pre_auth_token (se_decode (mx_session E)) now (py_strip pre_auth) of
        None \<Rightarrow> (MErr 401, db0)
      | Some payload \<Rightarrow>
          (case refresh_claim_jti payload of
             None \<Rightarrow> (MErr 401, db0)
           | Some jti \<Rightarrow>
               (if is_refresh_token_revoked jti (md_auth db0) then (MErr 401, db0)
                else
                  (let db = db0\<lparr> md_auth := revoke_jti now jti (claim_user payload) (claim_exp payload)
                                             ''mfa_verify_attempted'' (md_auth db0) \<rparr>
                   in case claim_user payload of
                        None \<Rightarrow> (MRaised, db)
                      | Some uid \<Rightarrow>
                          (case mfa_user uid db of
                             None \<Rightarrow> (MErr 404, db)
                           | Some u \<Rightarrow>
                               (if \<not> au_active u then (MErr 404, db)
                                else if \<not> mc_enabled (md_mfa db uid) then (MErr 409, db)
                                else if py_strip totp = [] \<and> py_strip recovery = [] then (MErr 400, db)
                                else (case try_totp E True now uid (py_strip totp) db of
                                        None \<Rightarrow> (MRaised, db)
                                      | Some r \<Rightarrow>
                                          (case try_recovery E uid (py_strip recovery) r of
                                             (False, db') \<Rightarrow> (MErr 401, db')
                                           | (True, db') \<Rightarrow>
                                               (session_tokens E now new_jti u (team_roles_of uid (md_auth db')), db')))))))))"

definition activate :: "mfa_env \<Rightarrow> int \<Rightarrow> nat \<Rightarrow> string \<Rightarrow> string \<Rightarrow> string list \<Rightarrow> mfa_db \<Rightarrow> mfa_result \<times> mfa_db" where
  "activate E now uid secret code random_hex db =
     (if mfa_user uid db = None then (MErr 404, db)
      else if mc_enabled (md_mfa db uid) then (MErr 409, db)
      else if \<not> verify_totp E (py_strip secret) (py_strip code) 1 now then (MErr 401, db)
      else (MOk, store_recovery_codes uid (snd (generate_recovery_codes E random_hex))
                   (set_mfa uid (\<lambda>c. c\<lparr> mc_enabled := True, mc_secret := Some (mx_encrypt E (py_strip secret)) \<rparr>) db)))"

definition disable :: "mfa_env \<Rightarrow> int \<Rightarrow> nat \<Rightarrow> string \<Rightarrow> string \<Rightarrow> string \<Rightarrow> mfa_db \<Rightarrow> mfa_result \<times> mfa_db" where
  "disable E now uid password totp recovery db =
     (case mfa_user uid db of
        None \<Rightarrow> (MErr 404, db)
      | Some u \<Rightarrow>
          (if \<not> mc_enabled (md_mfa db uid) then (MErr 409, db)
           else if \<not> verify_password (se_checkpw (mx_session E)) (py_strip password) (au_password_hash u) then (MErr 401, db)
           else if py_strip totp = [] \<and> py_strip recovery = [] then (MErr 400, db)
           else (case try_totp E False now uid (py_strip totp) db of
                   None \<Rightarrow> (MRaised, db)
                 | Some r \<Rightarrow>
                     (case try_recovery E uid (py_strip recovery) r of
                        (False, db') \<Rightarrow> (MErr 401, db')
                      | (True, db') \<Rightarrow>
                          (MOk, set_mfa uid (\<lambda>c. c\<lparr> mc_enabled := False, mc_secret := None, mc_codes := None,
                                                   mc_counter := Some 0 \<rparr>) db')))))"

definition change_password :: "mfa_env \<Rightarrow> nat \<Rightarrow> string \<Rightarrow> string \<Rightarrow> mfa_db \<Rightarrow> mfa_result \<times> mfa_db" where
  "change_password E uid current new db =
     (case mfa_user uid db of
        None \<Rightarrow> (MErr 404, db)
      | Some u \<Rightarrow>
          (if \<not> verify_password (se_checkpw (mx_session E)) current (au_password_hash u) then (MErr 401, db)
           else (MOk, db\<lparr> md_auth := update_user uid (\<lambda>u. u\<lparr> au_password_hash := Some (mx_hash E new) \<rparr>) (md_auth db) \<rparr>)))"

section \<open>Histories\<close>

text \<open>One operation at time \<open>t\<close>, and runs of operations at times that do not decrease.\<close>

inductive mfa_step :: "mfa_env \<Rightarrow> int \<Rightarrow> mfa_db \<Rightarrow> mfa_db \<Rightarrow> bool" for E t db where
  verify: "mfa_step E t db (snd (mfa_verify E t new_jti pre totp rec db))"
| login: "mfa_step E t db (snd (login E t new_jti name password db))"
| activate: "mfa_step E t db (snd (activate E t uid secret code hex db))"
| disable: "mfa_step E t db (snd (disable E t uid password totp rec db))"
| change: "mfa_step E t db (snd (change_password E uid old new db))"
| session: "op_time oper = t \<Longrightarrow> mfa_step E t db (db\<lparr> md_auth := run_op (mx_session E) oper (md_auth db) \<rparr>)"

inductive mfa_run :: "mfa_env \<Rightarrow> int \<Rightarrow> mfa_db \<Rightarrow> int \<Rightarrow> mfa_db \<Rightarrow> bool" for E t db where
  start: "mfa_run E t db t db"
| step: "\<lbrakk> mfa_run E t db t1 db1; t1 \<le> t2; mfa_step E t2 db1 db2 \<rbrakk> \<Longrightarrow> mfa_run E t db t2 db2"

lemma set_mfa_auth [simp]: "md_auth (set_mfa uid f db) = md_auth db" "mfa_user i (set_mfa uid f db) = mfa_user i db"
  by (simp_all add: set_mfa_def mfa_user_def)

lemma try_factors_auth:
  "try_totp E g now uid code db = Some (b, db') \<Longrightarrow> md_auth db' = md_auth db"
  "try_recovery E uid code (b, db) = (b', db') \<Longrightarrow> md_auth db' = md_auth db"
  by (auto simp: try_totp_def check_totp_replay_def try_recovery_def consume_recovery_code_def store_recovery_codes_def
      Let_def split: if_splits option.splits)

text \<open>A pre-auth token that gets past decoding and is not on the list is put on it, whatever comes of the attempt.\<close>

lemma mfa_verify_spends:
  assumes "decode_pre_auth_token (se_decode (mx_session E)) t (py_strip pre) = Some payload"
    and "refresh_claim_jti payload = Some jti" "\<not> is_refresh_token_revoked jti (md_auth db)"
  shows "md_auth (snd (mfa_verify E t new_jti pre totp rec db)) =
    revoke_jti t jti (claim_user payload) (claim_exp payload) ''mfa_verify_attempted'' (md_auth db)"
  using assms unfolding mfa_verify_def Let_def
  by (auto split: option.splits if_splits prod.splits bool.splits dest!: try_factors_auth)

lemma mfa_verify_auth:
  "md_auth (snd (mfa_verify E t new_jti pre totp rec db)) = md_auth db \<or>
   (\<exists>j uid ex reason. md_auth (snd (mfa_verify E t new_jti pre totp rec db)) = revoke_jti t j uid ex reason (md_auth db))"
proof (cases "decode_pre_auth_token (se_decode (mx_session E)) t (py_strip pre)")
  case (Some payload)
  show ?thesis
  proof (cases "refresh_claim_jti payload")
    case j: (Some jti)
    show ?thesis
    proof (cases "is_refresh_token_revoked jti (md_auth db)")
      case False
      then show ?thesis using mfa_verify_spends [OF Some j] by blast
    qed (use Some j in \<open>simp add: mfa_verify_def\<close>)
  qed (use Some in \<open>simp add: mfa_verify_def\<close>)
qed (simp add: mfa_verify_def)

lemma disable_auth: "md_auth (snd (disable E t uid password totp rec db)) = md_auth db"
  unfolding disable_def
  by (auto split: option.splits if_splits prod.splits bool.splits dest!: try_factors_auth)

lemma login_revoked: "revoked (md_auth (snd (login E t new_jti name password db))) = revoked (md_auth db)"
  by (auto simp: login_def Let_def authenticate_user_def update_user_def split: prod.splits option.splits if_splits)

lemma burnt_step:
  assumes "mfa_step E t2 db db'" "burnt jti e t1 (md_auth db)" "t1 \<le> t2"
  shows "burnt jti e t2 (md_auth db')"
  using assms
proof (cases rule: mfa_step.cases)
  case (verify new_jti pre totp rec)
  then show ?thesis
    using mfa_verify_auth [of E t2 new_jti pre totp rec db] assms burnt_revoke burnt_later by metis
next
  case (login new_jti name password)
  then show ?thesis using assms login_revoked burnt_later by metis
next
  case (activate uid secret code hex)
  then have "md_auth db' = md_auth db" by (simp add: activate_def store_recovery_codes_def)
  then show ?thesis using assms burnt_later by metis
next
  case (disable uid password totp rec)
  then show ?thesis using assms disable_auth burnt_later by metis
next
  case (change uid old new)
  then have "revoked (md_auth db') = revoked (md_auth db)"
    by (auto simp: change_password_def update_user_def split: option.splits)
  then show ?thesis using assms burnt_later by metis
next
  case (session oper)
  then show ?thesis using assms burnt_run_op [of jti e t1 "md_auth db" oper] by simp
qed

lemma burnt_mfa_run:
  "\<lbrakk> mfa_run E t db t' db'; burnt jti e t (md_auth db) \<rbrakk> \<Longrightarrow> burnt jti e t' (md_auth db') \<and> t \<le> t'"
proof (induction rule: mfa_run.induct)
  case (step t1 db1 t2 db2)
  then show ?case using burnt_step [OF step(3), of jti e t1] by auto
qed simp

lemma mfa_verify_burns:
  assumes "decode_pre_auth_token (se_decode (mx_session E)) t (py_strip pre) = Some payload"
    and "refresh_claim_jti payload = Some jti" "\<not> is_refresh_token_revoked jti (md_auth db)"
  shows "burnt jti (claim_exp payload) t (md_auth (snd (mfa_verify E t new_jti pre totp rec db)))"
  unfolding mfa_verify_spends [OF assms]
  using assms(3) by (auto simp: burnt_def revoke_jti_def is_refresh_token_revoked_def list_ex_iff Let_def)

section \<open>Properties\<close>

text \<open>
  A request that authenticates by cookie and may change state carries the CSRF token twice: in the cookie and
  in the header, equal and not empty.
\<close>

lemma cookie_requests_need_csrf:
  assumes "token_required decode now req = Inr user" "\<not> truthy (hr_authorization req)"
    and "hr_method req \<in> set CSRF_PROTECTED_METHODS"
  shows "truthy (hr_csrf_header req) \<and> hr_csrf_header req = hr_csrf_cookie req"
  using assms
  by (auto simp: token_required_def extract_bearer_or_cookie_token_def csrf_check_passes_def split: if_splits option.splits)

lemma pop_code_Some: "pop_code P hs = Some rest \<Longrightarrow> \<exists>h\<in>set hs. P h"
  by (induction hs arbitrary: rest) (auto split: if_splits)

lemma second_factor_proved:
  assumes "try_totp E True now uid code db = Some r" "try_recovery E uid rec r = (True, db')"
  shows "(\<exists>secret. Option.bind (mc_secret (md_mfa db uid)) (mx_decrypt E) = Some secret \<and> verify_totp E secret code 1 now \<and>
        (case mc_counter (md_mfa db uid) of None \<Rightarrow> 0 | Some n \<Rightarrow> n) < mx_timecode E now) \<or>
      (\<exists>rest. pop_code (se_checkpw (mx_session E) rec) (get_recovery_codes uid db) = Some rest \<and> get_recovery_codes uid db' = rest)"
proof (cases "fst r")
  case True
  then obtain d where r: "r = (True, d)" by (cases r) auto
  then show ?thesis
    using assms(1) by (auto simp: try_totp_def check_totp_replay_def Let_def split: if_splits option.splits)
next
  case False
  then obtain d where r: "r = (False, d)" by (cases r) auto
  have "get_recovery_codes uid d = get_recovery_codes uid db"
    using assms(1) r
    by (auto simp: try_totp_def check_totp_replay_def Let_def split: if_splits option.splits)
  moreover have "consume_recovery_code E uid rec d = (True, db')"
    using assms(2) r by (auto simp: try_recovery_def split: if_splits)
  ultimately show ?thesis
    by (auto simp: consume_recovery_code_def store_recovery_codes_def get_recovery_codes_def mfa_user_def set_mfa_def
        split: if_splits option.splits)
qed


text \<open>
  A pre-auth token buys one attempt: once the verification endpoint has seen a fresh pre-auth token,
  every later call with it, after any run of logins, verifications, enrolments and session operations,
  is refused and changes nothing, whatever code it brings.
\<close>

theorem pre_auth_single_attempt:
  assumes "decoder_ok (se_decode (mx_session E))"
    and "decode_pre_auth_token (se_decode (mx_session E)) t (py_strip pre) = Some payload"
    and "refresh_claim_jti payload = Some jti" "\<not> is_refresh_token_revoked jti (md_auth db)"
    and "mfa_run E t (snd (mfa_verify E t n1 pre totp rec db)) t1 db1" "t1 \<le> t2"
  shows "mfa_verify E t2 n2 pre totp2 rec2 db1 = (MErr 401, db1)"
proof (cases "decode_pre_auth_token (se_decode (mx_session E)) t2 (py_strip pre)")
  case (Some payload2)
  have "se_decode (mx_session E) t (py_strip pre) = Some payload" "se_decode (mx_session E) t2 (py_strip pre) = Some payload2"
    using assms(2) Some by (auto simp: decode_pre_auth_token_def split: option.splits if_splits)
  then have pp: "payload2 = payload" "t2 < claim_exp payload" using assms(1) unfolding decoder_ok_def by blast+
  have "burnt jti (claim_exp payload) t1 (md_auth db1)"
    using burnt_mfa_run [OF assms(5) mfa_verify_burns [OF assms(2-4)]] ..
  then have "is_refresh_token_revoked jti (md_auth db1)"
    using assms(6) pp(2) by (auto simp: burnt_def is_refresh_token_revoked_def list_ex_iff)
  with Some pp(1) assms(3) show ?thesis by (simp add: mfa_verify_def)
qed (simp add: mfa_verify_def)

definition demo_mfa_env :: mfa_env where
  "demo_mfa_env = \<lparr> mx_session = demo_session\<lparr> se_decode := (\<lambda>t token.
         if t < 300000000 \<and> token = ''p1'' then Some (pre_auth_claims demo_cfg ''default'' 1 ''j1'' 0)
         else if t < 300000000 \<and> token = ''p2'' then Some (pre_auth_claims demo_cfg ''default'' 1 ''j2'' 0) else None) \<rparr>,
     mx_otp_verify = (\<lambda>secret code w t. list_ex (\<lambda>k. code = ''00000'' @ dec (nat (t + k))) [- int w .. int w]),
     mx_timecode = (\<lambda>t. t), mx_encrypt = id, mx_decrypt = Some, mx_hash = id \<rparr>"

definition demo_mfa_db :: mfa_db where
  "demo_mfa_db = \<lparr> md_auth = demo_auth_db,
     md_mfa = (\<lambda>_. \<lparr> mc_enabled = True, mc_secret = Some ''s'', mc_codes = None, mc_counter = None \<rparr>) \<rparr>"


lemma demo_decoder_ok: "decoder_ok (se_decode (mx_session demo_mfa_env))"
proof -
  have "claim_exp (pre_auth_claims demo_cfg ''default'' 1 j 0) = 300000000" for j
    by (simp add: claim_exp_def pre_auth_claims_def json_get_def)
  then show ?thesis by (auto simp: decoder_ok_def demo_mfa_env_def split: if_splits)
qed

theorem pre_auth_single_attempt_witness:
  "fst (mfa_verify demo_mfa_env 4 ''n'' ''p1'' ''000004'' [] (snd (mfa_verify demo_mfa_env 3 ''n'' ''p1'' ''000009'' [] demo_mfa_db)))
     = MErr 401"
proof -
  have "decode_pre_auth_token (se_decode (mx_session demo_mfa_env)) 3 (py_strip ''p1'') =
      Some (pre_auth_claims demo_cfg ''default'' 1 ''j1'' 0)" by code_simp
  moreover have "refresh_claim_jti (pre_auth_claims demo_cfg ''default'' 1 ''j1'' 0) = Some ''j1''" by code_simp
  moreover have "\<not> is_refresh_token_revoked ''j1'' (md_auth demo_mfa_db)" by code_simp
  ultimately show ?thesis
    using pre_auth_single_attempt [OF demo_decoder_ok _ _ _ mfa_run.start, of 3 "''p1''" _ "''j1''" demo_mfa_db 4] by simp
qed

text \<open>
  What the code relies on of pyotp: a code verifies within a window of \<open>w\<close> intervals exactly when it is the
  code of one of the intervals at most \<open>w\<close> away from the current one.
\<close>

definition otp_ok :: "mfa_env \<Rightarrow> (string \<Rightarrow> int \<Rightarrow> string) \<Rightarrow> bool" where
  "otp_ok E code_at \<longleftrightarrow>
     (\<forall>secret code w t. mx_otp_verify E secret code w t \<longleftrightarrow>
        (\<exists>k. - int w \<le> k \<and> k \<le> int w \<and> code = code_at secret (mx_timecode E t + k)))"

lemma mfa_verify_with_totp:
  assumes "decode_pre_auth_token (se_decode (mx_session E)) t (py_strip pre) = Some payload"
    and "refresh_claim_jti payload = Some jti" "\<not> is_refresh_token_revoked jti (md_auth db)"
    and "claim_user payload = Some uid" "mfa_user uid db = Some u" "au_active u" "mc_enabled (md_mfa db uid)"
    and "Option.bind (mc_secret (md_mfa db uid)) (mx_decrypt E) = Some secret"
    and "py_strip code = code" "verify_totp E secret code 1 t"
    and "(case mc_counter (md_mfa db uid) of None \<Rightarrow> 0 | Some n \<Rightarrow> n) < mx_timecode E t"
  shows "\<exists>a r. mfa_verify E t new_jti pre code [] db =
    (MTokens a r, set_mfa uid (\<lambda>c. c\<lparr> mc_counter := Some (mx_timecode E t) \<rparr>)
       (db\<lparr> md_auth := revoke_jti t jti (Some uid) (claim_exp payload) ''mfa_verify_attempted'' (md_auth db) \<rparr>))"
proof -
  let ?db = "db\<lparr> md_auth := revoke_jti t jti (Some uid) (claim_exp payload) ''mfa_verify_attempted'' (md_auth db) \<rparr>"
  have k: "mfa_user uid ?db = Some u" using assms(5) by (simp add: mfa_user_def revoke_jti_def Let_def)
  have c: "code \<noteq> []" using assms(10) by (auto simp: verify_totp_def)
  have "try_totp E True t uid code ?db = Some (True, set_mfa uid (\<lambda>c. c\<lparr> mc_counter := Some (mx_timecode E t) \<rparr>) ?db)"
    using assms(8,10,11) c k by (simp add: try_totp_def check_totp_replay_def Let_def)
  then show ?thesis
    using assms(1-7,9) c k
    by (simp add: mfa_verify_def session_tokens_def try_recovery_def Let_def)
qed

text \<open>
  C39. The replay guard does not stop a replayed code: it compares the current interval with the last one,
  not the interval of the code, and codes of the previous interval verify. So a code used in its own
  interval is accepted again, with another pre-auth token, in the next one.
\<close>

theorem totp_code_accepted_twice:
  assumes "otp_ok E code_at" "code = code_at secret (mx_timecode E t1)" "mx_timecode E t2 = mx_timecode E t1 + 1"
    and "length code = 6" "list_all is_digit code"
    and "mfa_user uid db = Some u" "au_active u" "mc_enabled (md_mfa db uid)"
    and "Option.bind (mc_secret (md_mfa db uid)) (mx_decrypt E) = Some secret"
    and "(case mc_counter (md_mfa db uid) of None \<Rightarrow> 0 | Some n \<Rightarrow> n) < mx_timecode E t1"
    and "decode_pre_auth_token (se_decode (mx_session E)) t1 (py_strip p1) = Some q1" "refresh_claim_jti q1 = Some j1"
    and "decode_pre_auth_token (se_decode (mx_session E)) t2 (py_strip p2) = Some q2" "refresh_claim_jti q2 = Some j2"
    and "claim_user q1 = Some uid" "claim_user q2 = Some uid" "j1 \<noteq> j2"
    and "\<not> is_refresh_token_revoked j1 (md_auth db)" "\<not> is_refresh_token_revoked j2 (md_auth db)"
  shows "\<exists>a r db1 a' r' db2. mfa_verify E t1 n1 p1 code [] db = (MTokens a r, db1) \<and>
    mfa_verify E t2 n2 p2 code [] db1 = (MTokens a' r', db2)"
proof -
  have strip: "py_strip code = code"
  proof -
    have "dropWhile py_isspace xs = xs" if "list_all is_digit xs" for xs :: string
      using that by (cases xs) (auto simp: is_digit_def py_isspace_def Let_def)
    with assms(5) show ?thesis by (simp add: py_strip_def py_rstrip_by_def)
  qed
  have "mx_otp_verify E secret code 1 t1" "mx_otp_verify E secret code 1 t2"
    using assms(1-3) unfolding otp_ok_def by (auto intro: exI [of _ 0] exI [of _ "-1"])
  moreover have "code \<noteq> []" "list_all py_isdigit code"
    using assms(4,5) by (auto simp: list_all_iff py_isdigit_def)
  ultimately have v: "verify_totp E secret code 1 t1" "verify_totp E secret code 1 t2"
    using assms(4) by (simp_all add: verify_totp_def)
  obtain a r where 1: "mfa_verify E t1 n1 p1 code [] db = (MTokens a r, set_mfa uid (\<lambda>c. c\<lparr> mc_counter := Some (mx_timecode E t1) \<rparr>)
       (db\<lparr> md_auth := revoke_jti t1 j1 (Some uid) (claim_exp q1) ''mfa_verify_attempted'' (md_auth db) \<rparr>))" (is "_ = (_, ?db1)")
    using mfa_verify_with_totp [OF assms(11,12,18,15,6-9) strip v(1) assms(10)] by blast
  have "\<not> is_refresh_token_revoked j2 (md_auth ?db1)"
    using assms(17,19) by (auto simp: is_refresh_token_revoked_def revoke_jti_def list_ex_iff Let_def)
  moreover have "mfa_user uid ?db1 = Some u" using assms(6) by (simp add: mfa_user_def revoke_jti_def Let_def set_mfa_def)
  moreover have "mc_enabled (md_mfa ?db1 uid)" "Option.bind (mc_secret (md_mfa ?db1 uid)) (mx_decrypt E) = Some secret"
    "(case mc_counter (md_mfa ?db1 uid) of None \<Rightarrow> 0 | Some n \<Rightarrow> n) < mx_timecode E t2"
    using assms(3,8,9) by (simp_all add: set_mfa_def)
  ultimately obtain a' r' db2 where "mfa_verify E t2 n2 p2 code [] ?db1 = (MTokens a' r', db2)"
    using mfa_verify_with_totp [OF assms(13,14) _ assms(16) _ assms(7) _ _ strip v(2)] by blast
  with 1 show ?thesis by blast
qed

theorem totp_code_accepted_twice_witness:
  "\<exists>a r db1 a' r' db2. mfa_verify demo_mfa_env 3 ''n'' ''p1'' ''000003'' [] demo_mfa_db = (MTokens a r, db1) \<and>
     mfa_verify demo_mfa_env 4 ''n'' ''p2'' ''000003'' [] db1 = (MTokens a' r', db2)"
proof (rule totp_code_accepted_twice [where code_at = "\<lambda>_ k. ''00000'' @ dec (nat k)" and secret = "''s''" and uid = 1
      and u = "hd (users demo_auth_db)" and ?q1.0 = "pre_auth_claims demo_cfg ''default'' 1 ''j1'' 0"
      and ?q2.0 = "pre_auth_claims demo_cfg ''default'' 1 ''j2'' 0" and ?j1.0 = "''j1''" and ?j2.0 = "''j2''"])
  show "otp_ok demo_mfa_env (\<lambda>_ k. ''00000'' @ dec (nat k))"
    by (auto simp: otp_ok_def demo_mfa_env_def list_ex_iff)
qed (code_simp)+

end
