(* ===== verification/Manager_Scim.thy ===== *)
theory Manager_Scim
  imports Manager_Sso Manager_Mfa Ioc_Ingestion
begin

text \<open>
  User provisioning over SCIM (\<^verbatim>\<open>services/scim_service.py\<close>, \<^verbatim>\<open>blueprints/scim.py\<close>), on the accounts of
  \<^verbatim>\<open>Manager_Sso\<close>.

  Parameters: bcrypt with its salts, the decoder of user tokens, the licence, and whether the database library keeps
  updates no commit followed. Random values are arguments. The audit trail and the request limits are left out, and so
  are the dates of the resources.
\<close>

section \<open>State\<close>

record scim_env =
  pk_check :: "string \<Rightarrow> string \<Rightarrow> bool"
  pk_hash :: "nat \<Rightarrow> string \<Rightarrow> string"
  pk_decode :: "string \<Rightarrow> claims option"
  pk_enterprise :: bool
  pk_persist :: bool

record scim_user =
  sr_id :: string
  sr_external_id :: string
  sr_user_name :: string
  sr_emails :: "string list"
  sr_active :: bool

datatype scim_body =
    Scim_User scim_user
  | Scim_List nat int "scim_user list"
  | Scim_Token nat string
  | Scim_Done

type_synonym scim_reply = "scim_body web_reply"

section \<open>Tokens\<close>

definition validate_scim_token :: "scim_env \<Rightarrow> int \<Rightarrow> string \<Rightarrow> string \<Rightarrow> sso_db \<Rightarrow> nat option \<times> sso_db" where
  "validate_scim_token E now token tenant db =
     (case find (\<lambda>t. sc_tenant t = tenant \<and> sc_active t \<and> pk_check E token (sc_hash t)) (sd_scim_tokens db) of
        None \<Rightarrow> (None, db)
      | Some t \<Rightarrow> (Some (sc_id t), db\<lparr> sd_scim_tokens :=
          map (\<lambda>x. if sc_id x = sc_id t then x\<lparr> sc_last_used := Some now \<rparr> else x) (sd_scim_tokens db) \<rparr>))"

definition DEFAULT_TENANT :: string where
  "DEFAULT_TENANT = ''default''"

definition require_scim_token :: "scim_env \<Rightarrow> int \<Rightarrow> string \<Rightarrow> sso_db \<Rightarrow> nat option \<times> sso_db" where
  "require_scim_token E now auth_header db =
     (if \<not> py_startswith auth_header ''Bearer '' then (None, db)
      else (case validate_scim_token E now (drop 7 auth_header) DEFAULT_TENANT db of
              (None, db') \<Rightarrow> (None, db')
            | (Some i, db') \<Rightarrow> (if i = 0 then None else Some i, db')))"

definition with_scim_token ::
  "scim_env \<Rightarrow> int \<Rightarrow> string \<Rightarrow> (sso_db \<Rightarrow> scim_reply \<times> sso_db) \<Rightarrow> sso_db \<Rightarrow> scim_reply \<times> sso_db" where
  "with_scim_token E now auth_header f db =
     (case require_scim_token E now auth_header db of (None, db') \<Rightarrow> (Refused 401, db') | (Some i, db') \<Rightarrow> f db')"

definition store_token :: "scim_env \<Rightarrow> nat \<Rightarrow> string \<Rightarrow> string option \<Rightarrow> string \<Rightarrow> sso_db \<Rightarrow> (nat \<times> sso_db) option" where
  "store_token E salt plaintext description tenant db =
     (let h = pk_hash E salt plaintext
      in if list_ex (\<lambda>t. sc_hash t = h) (sd_scim_tokens db) then None
         else Some (sd_seq db, db\<lparr> sd_scim_tokens := sd_scim_tokens db @ [\<lparr> sc_id = sd_seq db, sc_hash = h,
                sc_description = description, sc_tenant = tenant, sc_active = True, sc_last_used = None \<rparr>],
                sd_seq := sd_seq db + 1 \<rparr>))"

definition scim_revoke_token :: "int \<Rightarrow> sso_db \<Rightarrow> bool \<times> sso_db" where
  "scim_revoke_token token_id db =
     (if list_ex (\<lambda>t. int (sc_id t) = token_id) (sd_scim_tokens db)
      then (True, db\<lparr> sd_scim_tokens := map (\<lambda>t. if int (sc_id t) = token_id then t\<lparr> sc_active := False \<rparr> else t) (sd_scim_tokens db) \<rparr>)
      else (False, db))"

section \<open>Users\<close>

definition scim_manageable_user :: "sso_user \<Rightarrow> bool" where
  "scim_manageable_user user \<longleftrightarrow> au_global_role user \<noteq> ''SystemAdmin'' \<and> truthy (su_external_id user)"

definition user_record_to_scim :: "sso_user \<Rightarrow> scim_user" where
  "user_record_to_scim user =
     \<lparr> sr_id = dec (au_id user), sr_external_id = (if truthy (su_external_id user) then the (su_external_id user) else dec (au_id user)),
       sr_user_name = au_username user, sr_emails = (if au_email user = [] then [] else [au_email user]),
       sr_active = au_active user \<rparr>"

text \<open>\<^verbatim>\<open>request.get_json() or {}\<close>: a value without members raises at the first \<^verbatim>\<open>get\<close>.\<close>

definition with_object :: "json option \<Rightarrow> (body \<Rightarrow> scim_reply \<times> sso_db) \<Rightarrow> sso_db \<Rightarrow> scim_reply \<times> sso_db" where
  "with_object data f db =
     (case data of
        None \<Rightarrow> (Refused 415, db)
      | Some j \<Rightarrow> (if \<not> json_truthy j then f [] else case j of JObj d \<Rightarrow> f d | _ \<Rightarrow> (Crashed, db)))"

text \<open>The user a path names, if it is one SCIM manages; \<^verbatim>\<open>int\<close> raises on digits of other kinds.\<close>

definition managed_user :: "string \<Rightarrow> (sso_user \<Rightarrow> scim_reply \<times> sso_db) \<Rightarrow> sso_db \<Rightarrow> scim_reply \<times> sso_db" where
  "managed_user user_id f db =
     (if user_id = [] \<or> \<not> list_all py_isdigit user_id then (Refused 404, db)
      else if \<not> list_all is_digit user_id then (Crashed, db)
      else (case sso_user_at (dec_val user_id) db of
              None \<Rightarrow> (Refused 404, db)
            | Some u \<Rightarrow> (if scim_manageable_user u then f u else (Refused 404, db))))"

definition strip_quotes :: "string \<Rightarrow> string" where
  "strip_quotes s = rev (dropWhile (\<lambda>c. c = CHR 0x22) (rev (dropWhile (\<lambda>c. c = CHR 0x22) s)))"

definition list_users ::
  "scim_env \<Rightarrow> int \<Rightarrow> string \<Rightarrow> int \<Rightarrow> int \<Rightarrow> string \<Rightarrow> sso_db \<Rightarrow> scim_reply \<times> sso_db" where
  "list_users E now auth_header start_index count filter_param =
     with_scim_token E now auth_header (\<lambda>db.
       if start_index < 1 then (Refused 400, db)
       else if count < 0 \<or> count > 1000 then (Refused 400, db)
       else if filter_param \<noteq> [] then
         (if \<not> py_startswith filter_param ''userName eq '' then (Refused 400, db)
          else (case find (\<lambda>u. au_username u = strip_quotes (drop 12 filter_param)) (sd_users db) of
                  Some u \<Rightarrow> (if scim_manageable_user u then (Answered 200 (Scim_List 1 start_index [user_record_to_scim u]), db)
                             else (Answered 200 (Scim_List 0 start_index []), db))
                | None \<Rightarrow> (Answered 200 (Scim_List 0 start_index []), db)))
       else (let us = filter scim_manageable_user (filter au_active (sd_users db))
             in (Answered 200 (Scim_List (length us) start_index
                   (map user_record_to_scim (take (nat count) (drop (nat (start_index - 1)) us)))), db)))"

definition scim_get_user :: "scim_env \<Rightarrow> int \<Rightarrow> string \<Rightarrow> string \<Rightarrow> sso_db \<Rightarrow> scim_reply \<times> sso_db" where
  "scim_get_user E now auth_header user_id =
     with_scim_token E now auth_header (\<lambda>db. managed_user user_id (\<lambda>u. (Answered 200 (Scim_User (user_record_to_scim u)), db)) db)"

text \<open>The value of the first email: \<open>None\<close> is the exception for an element without members.\<close>

definition first_email :: "json \<Rightarrow> json option" where
  "first_email emails =
     (case emails of
        JList (e # es) \<Rightarrow> (case e of JObj d \<Rightarrow> Some (json_get d ''value'') | _ \<Rightarrow> None)
      | _ \<Rightarrow> Some JNull)"

text \<open>On creation a falsy first element counts as none.\<close>

definition first_email_lenient :: "json \<Rightarrow> json option" where
  "first_email_lenient emails =
     (case emails of JList (e # es) \<Rightarrow> (if json_truthy e then first_email emails else Some JNull) | _ \<Rightarrow> Some JNull)"

definition new_scim_user :: "string \<Rightarrow> string \<Rightarrow> string \<Rightarrow> string \<Rightarrow> bool \<Rightarrow> sso_user" where
  "new_scim_user username email external_id pw active =
     \<lparr> au_id = 0, au_username = username, au_email = email, au_active = active, au_password_hash = Some pw,
       au_global_role = ''Viewer'', au_failed_login_count = Some 0, au_locked_until = None,
       su_sso_provider = None, su_sso_subject = None, su_external_id = Some external_id \<rparr>"

definition create_scim_row :: "string \<Rightarrow> body \<Rightarrow> sso_db \<Rightarrow> scim_reply \<times> sso_db" where
  "create_scim_row pw d db =
     (if \<not> json_truthy (json_get d ''userName'') then (Refused 400, db)
      else if \<not> json_truthy (json_get d ''externalId'') then (Refused 400, db)
      else (case (first_email_lenient (json_get_or d ''emails'' (JList [])), json_get d ''userName'', json_get d ''externalId'') of
              (Some given, JStr username, JStr external_id) \<Rightarrow>
                (if list_ex (\<lambda>u. au_username u = username) (sd_users db) then (Refused 409, db)
                 else if list_ex (\<lambda>u. su_external_id u = Some external_id) (sd_users db) then (Refused 409, db)
                 else (case (if json_truthy given then col_text given else Some (username @ ''@'' @ DEFAULT_TENANT @ ''.local''),
                             col_bool_of (json_get_or d ''active'' (JBool True))) of
                         (Some email, Some active) \<Rightarrow>
                           (case insert_user (new_scim_user username email external_id pw active) db of
                              None \<Rightarrow> (Crashed, db)
                            | Some (i, db') \<Rightarrow>
                                (case find (\<lambda>u. au_username u = username) (sd_users db') of
                                   None \<Rightarrow> (Crashed, db')
                                 | Some u \<Rightarrow> (Answered 201 (Scim_User (user_record_to_scim u)), db')))
                       | _ \<Rightarrow> (Crashed, db)))
            | _ \<Rightarrow> (Crashed, db)))"

definition create_scim_user ::
  "scim_env \<Rightarrow> int \<Rightarrow> string \<Rightarrow> string \<Rightarrow> json option \<Rightarrow> sso_db \<Rightarrow> scim_reply \<times> sso_db" where
  "create_scim_user E now auth_header pw data =
     with_scim_token E now auth_header (\<lambda>db. with_object data (\<lambda>d. create_scim_row pw d db) db)"

text \<open>An update of one row: \<open>None\<close> is the violation of a unique column by another row.\<close>

definition update_row :: "nat \<Rightarrow> (sso_user \<Rightarrow> sso_user) \<Rightarrow> sso_db \<Rightarrow> sso_db option" where
  "update_row i f db =
     (if list_ex (\<lambda>u. au_id u = i \<and> list_ex (\<lambda>v. au_id v \<noteq> i \<and> clashes (f u) v) (sd_users db)) (sd_users db) then None
      else Some (db\<lparr> sd_users := map (\<lambda>u. if au_id u = i then f u else u) (sd_users db) \<rparr>))"

definition reload_user :: "nat \<Rightarrow> sso_db \<Rightarrow> scim_reply \<times> sso_db" where
  "reload_user i db =
     (case sso_user_at i db of None \<Rightarrow> (Crashed, db) | Some u \<Rightarrow> (Answered 200 (Scim_User (user_record_to_scim u)), db))"

definition update_scim_user ::
  "scim_env \<Rightarrow> int \<Rightarrow> string \<Rightarrow> string \<Rightarrow> json option \<Rightarrow> sso_db \<Rightarrow> scim_reply \<times> sso_db" where
  "update_scim_user E now auth_header user_id data =
     with_scim_token E now auth_header (\<lambda>db. managed_user user_id (\<lambda>u. with_object data (\<lambda>d.
       if \<not> json_truthy (json_get d ''userName'') then (Refused 400, db)
       else (case first_email (json_get_or d ''emails'' (JList [])) of
               None \<Rightarrow> (Crashed, db)
             | Some given \<Rightarrow>
                 (case (col_text (json_get d ''userName''), if json_truthy given then col_text given else Some (au_email u),
                        col_bool_of (json_get_or d ''active'' (JBool (au_active u)))) of
                    (Some username, Some email, Some active) \<Rightarrow>
                      (case update_row (au_id u) (\<lambda>x. x\<lparr> au_username := username, au_email := email, au_active := active \<rparr>) db of
                         None \<Rightarrow> (Crashed, db)
                       | Some db' \<Rightarrow> reload_user (au_id u) db')
                  | _ \<Rightarrow> (Crashed, db)))) db) db)"

datatype patch_result = Patch_Ok | Patch_Refused | Patch_Raised

definition patch_op :: "nat \<Rightarrow> json \<Rightarrow> sso_db \<Rightarrow> patch_result \<times> sso_db" where
  "patch_op i oper db =
     (case oper of
        JObj d \<Rightarrow>
          (let path = json_get_or d ''path'' (JStr []); value = json_get d ''value''
           in case json_get_or d ''op'' (JStr []) of
                JStr op_type \<Rightarrow>
                  (if py_lower op_type \<noteq> ''replace'' then (Patch_Refused, db)
                   else (case path of
                           JStr p \<Rightarrow>
                             (if p = ''active'' then
                                (case value of
                                   JBool b \<Rightarrow> (case update_row i (\<lambda>x. x\<lparr> au_active := b \<rparr>) db of
                                                None \<Rightarrow> (Patch_Raised, db) | Some db' \<Rightarrow> (Patch_Ok, db'))
                                 | _ \<Rightarrow> (Patch_Refused, db))
                              else if py_startswith p ''name.'' then (Patch_Ok, db)
                              else if py_startswith p ''emails['' then
                                (case value of
                                   JObj v \<Rightarrow>
                                     (if \<not> json_truthy (json_get v ''value'') then (Patch_Ok, db)
                                      else (case col_text (json_get v ''value'') of
                                              None \<Rightarrow> (Patch_Raised, db)
                                            | Some email \<Rightarrow> (case update_row i (\<lambda>x. x\<lparr> au_email := email \<rparr>) db of
                                                                None \<Rightarrow> (Patch_Raised, db) | Some db' \<Rightarrow> (Patch_Ok, db'))))
                                 | _ \<Rightarrow> (Patch_Ok, db))
                              else (Patch_Refused, db))
                         | _ \<Rightarrow> (Patch_Raised, db)))
              | _ \<Rightarrow> (Patch_Raised, db))
      | _ \<Rightarrow> (Patch_Raised, db))"

fun patch_ops :: "nat \<Rightarrow> json list \<Rightarrow> sso_db \<Rightarrow> patch_result \<times> sso_db" where
  "patch_ops i [] db = (Patch_Ok, db)"
| "patch_ops i (oper # rest) db =
     (case patch_op i oper db of (Patch_Ok, db') \<Rightarrow> patch_ops i rest db' | stop \<Rightarrow> stop)"

text \<open>
  The operations are committed together after the last. Iterating an object gives its keys and a string its
  characters, which have no members.
\<close>

definition iterated :: "json \<Rightarrow> json list option" where
  "iterated j =
     (case j of
        JList xs \<Rightarrow> Some xs
      | JObj kvs \<Rightarrow> Some (map (\<lambda>(k, v). JStr k) kvs)
      | JStr s \<Rightarrow> Some (map (\<lambda>c. JStr [c]) s)
      | _ \<Rightarrow> None)"

definition patch_scim_user ::
  "scim_env \<Rightarrow> int \<Rightarrow> string \<Rightarrow> string \<Rightarrow> json option \<Rightarrow> sso_db \<Rightarrow> scim_reply \<times> sso_db" where
  "patch_scim_user E now auth_header user_id data =
     with_scim_token E now auth_header (\<lambda>db. managed_user user_id (\<lambda>u. with_object data (\<lambda>d.
       case iterated (json_get_or d ''Operations'' (JList [])) of
         None \<Rightarrow> (Crashed, db)
       | Some opers \<Rightarrow>
           (case patch_ops (au_id u) opers db of
              (Patch_Ok, db') \<Rightarrow> reload_user (au_id u) db'
            | (Patch_Refused, db') \<Rightarrow> (Refused 400, if pk_persist E then db' else db)
            | (Patch_Raised, db') \<Rightarrow> (Crashed, if pk_persist E then db' else db))) db) db)"

definition delete_scim_user :: "scim_env \<Rightarrow> int \<Rightarrow> string \<Rightarrow> string \<Rightarrow> sso_db \<Rightarrow> scim_reply \<times> sso_db" where
  "delete_scim_user E now auth_header user_id =
     with_scim_token E now auth_header (\<lambda>db. managed_user user_id (\<lambda>u.
       (Answered 204 Scim_Done,
        db\<lparr> sd_users := map (\<lambda>x. if au_id x = au_id u then x\<lparr> au_active := False \<rparr> else x) (sd_users db) \<rparr>)) db)"

section \<open>Token administration\<close>

definition scim_verify_jwt :: "scim_env \<Rightarrow> string \<Rightarrow> claims option" where
  "scim_verify_jwt E auth_header =
     (if auth_header = [] \<or> \<not> py_startswith auth_header ''Bearer '' then None else pk_decode E (drop 7 auth_header))"

text \<open>A payload without members counts as none.\<close>

definition super_caller :: "scim_env \<Rightarrow> string \<Rightarrow> outcome" where
  "super_caller E auth_header =
     (case scim_verify_jwt E auth_header of
        None \<Rightarrow> Denied 403
      | Some payload \<Rightarrow>
          (if payload = [] then Denied 403
           else (case has_scope (claim_or payload ''scope'' (JStr [])) ''admin:super'' of
                   None \<Rightarrow> Raised | Some ok \<Rightarrow> (if ok then Proceed else Denied 403))))"

definition mint_scim_token ::
  "scim_env \<Rightarrow> string \<Rightarrow> string \<Rightarrow> nat \<Rightarrow> json option \<Rightarrow> sso_db \<Rightarrow> scim_reply \<times> sso_db" where
  "mint_scim_token E auth_header plaintext salt data db =
     admin_guard (super_caller E auth_header)
      (if \<not> pk_enterprise E then (Refused 403, db)
       else with_object data (\<lambda>d.
         case (col_text_null (json_get_or d ''description'' (JStr ''Unnamed token'')), col_text (json_get_or d ''tenant'' (JStr ''default''))) of
           (Some description, Some tenant) \<Rightarrow>
             (case store_token E salt plaintext description tenant db of
                None \<Rightarrow> (Crashed, db) | Some (i, db') \<Rightarrow> (Answered 201 (Scim_Token i plaintext), db'))
         | _ \<Rightarrow> (Crashed, db)) db) db"

definition revoke_scim_token :: "scim_env \<Rightarrow> string \<Rightarrow> string \<Rightarrow> sso_db \<Rightarrow> scim_reply \<times> sso_db" where
  "revoke_scim_token E auth_header token_id db =
     admin_guard (super_caller E auth_header)
      (case py_int token_id of
         None \<Rightarrow> (Crashed, db)
       | Some i \<Rightarrow> (case scim_revoke_token i db of
                      (True, db') \<Rightarrow> (Answered 204 Scim_Done, db')
                    | (False, db') \<Rightarrow> (Refused 404, db'))) db"

section \<open>Steps\<close>

datatype scim_cmd =
    List_Users int string int int string
  | Get_User int string string
  | Create_User int string string "json option"
  | Update_User int string string "json option"
  | Patch_User int string string "json option"
  | Delete_User int string string
  | Mint_Token string string nat "json option"
  | Revoke_Token string string

fun scim_step :: "scim_env \<Rightarrow> scim_cmd \<Rightarrow> sso_db \<Rightarrow> scim_reply \<times> sso_db" where
  "scim_step E (List_Users now h start count flt) db = list_users E now h start count flt db"
| "scim_step E (Get_User now h i) db = scim_get_user E now h i db"
| "scim_step E (Create_User now h pw data) db = create_scim_user E now h pw data db"
| "scim_step E (Update_User now h i data) db = update_scim_user E now h i data db"
| "scim_step E (Patch_User now h i data) db = patch_scim_user E now h i data db"
| "scim_step E (Delete_User now h i) db = delete_scim_user E now h i db"
| "scim_step E (Mint_Token h plaintext salt data) db = mint_scim_token E h plaintext salt data db"
| "scim_step E (Revoke_Token h i) db = revoke_scim_token E h i db"

section \<open>What provisioning touches\<close>

lemma managed_user_cases:
  "managed_user user_id f db = (r, db') \<Longrightarrow>
     db' = db \<and> (\<forall>n b. r \<noteq> Answered n b) \<or> (\<exists>u. sso_user_at (dec_val user_id) db = Some u \<and> scim_manageable_user u \<and> f u = (r, db'))"
  by (auto simp: managed_user_def split: if_splits option.splits)

lemma with_object_cases:
  "with_object data f db = (r, db') \<Longrightarrow> db' = db \<and> (\<forall>n b. r \<noteq> Answered n b) \<or> (\<exists>d. f d = (r, db'))"
  by (auto simp: with_object_def split: option.splits if_splits json.splits)

text \<open>Looking at a token changes its last use.\<close>

definition token_fields :: "scim_token \<Rightarrow> nat \<times> string \<times> string option \<times> string \<times> bool" where
  "token_fields t = (sc_id t, sc_hash t, sc_description t, sc_tenant t, sc_active t)"

definition same_but_use :: "sso_db \<Rightarrow> sso_db \<Rightarrow> bool" where
  "same_but_use db db' \<longleftrightarrow> (\<exists>ts. db' = db\<lparr> sd_scim_tokens := ts \<rparr> \<and> map token_fields ts = map token_fields (sd_scim_tokens db))"

lemma same_but_use_refl: "same_but_use db db"
  unfolding same_but_use_def by (rule exI [of _ "sd_scim_tokens db"]) simp

lemma require_same: "require_scim_token E now h db = (x, db') \<Longrightarrow> same_but_use db db'"
  by (auto simp: require_scim_token_def validate_scim_token_def same_but_use_def token_fields_def comp_def
      intro: same_but_use_refl [unfolded same_but_use_def] split: if_splits option.splits prod.splits)

lemma with_token_cases:
  "with_scim_token E now h f db = (r, db') \<Longrightarrow>
     same_but_use db db' \<and> r = Refused 401 \<or> (\<exists>i db0. require_scim_token E now h db = (Some i, db0) \<and> same_but_use db db0 \<and> f db0 = (r, db'))"
  by (auto simp: with_scim_token_def split: prod.splits option.splits dest: require_same)

text \<open>SCIM changes three columns, of accounts it manages.\<close>

definition touched :: "sso_user \<Rightarrow> sso_user \<Rightarrow> bool" where
  "touched u v \<longleftrightarrow> v = u \<or> scim_manageable_user u
     \<and> v = u\<lparr> au_username := au_username v, au_email := au_email v, au_active := au_active v \<rparr>"

definition confined :: "sso_user list \<Rightarrow> sso_user list \<Rightarrow> bool" where
  "confined us us' \<longleftrightarrow> (\<exists>kept new. us' = kept @ new \<and> list_all2 touched us kept
     \<and> (\<forall>u\<in>set new. au_global_role u = ''Viewer'' \<and> scim_manageable_user u \<and> su_sso_provider u = None))"

lemma touched_refl [simp]: "touched u u"
  by (simp add: touched_def)

lemma touched_shape: "touched u v \<Longrightarrow> \<exists>a b c. v = u\<lparr> au_username := a, au_email := b, au_active := c \<rparr>"
proof -
  have "u = u\<lparr> au_username := au_username u, au_email := au_email u, au_active := au_active u \<rparr>" by simp
  moreover assume "touched u v"
  ultimately show ?thesis unfolding touched_def by metis
qed

lemma touched_manageable: "touched u v \<Longrightarrow> scim_manageable_user v = scim_manageable_user u"
proof -
  assume "touched u v"
  from touched_shape [OF this] show ?thesis by (auto simp: scim_manageable_user_def)
qed

lemma touched_fields:
  assumes "touched u v"
  shows "au_id v = au_id u" "au_global_role v = au_global_role u" "su_sso_provider v = su_sso_provider u"
  using touched_shape [OF assms] by auto

lemma touched_trans: "\<lbrakk> touched u v; touched v w \<rbrakk> \<Longrightarrow> touched u w"
proof -
  assume uv: "touched u v" and vw: "touched v w"
  show ?thesis
  proof (cases "scim_manageable_user u")
    case False
    with touched_manageable [OF uv] uv vw show ?thesis by (auto simp: touched_def)
  next
    case True
    then show ?thesis using touched_shape [OF uv] touched_shape [OF vw] by (auto simp: touched_def)
  qed
qed

text \<open>The rows with the identifier are managed.\<close>

definition managed_id :: "nat \<Rightarrow> sso_db \<Rightarrow> bool" where
  "managed_id i db \<longleftrightarrow> (\<forall>u\<in>set (sd_users db). au_id u = i \<longrightarrow> scim_manageable_user u)"

lemma managed_idI: "\<lbrakk> sso_user_at i db = Some u; scim_manageable_user u; users_ok db \<rbrakk> \<Longrightarrow> managed_id i db \<and> au_id u = i"
proof -
  assume u: "sso_user_at i db = Some u" "scim_manageable_user u" "users_ok db"
  from u(1) have i: "au_id u = i" by (auto simp: sso_user_at_def dest: find_SomeD)
  have "w = u" if "w \<in> set (sd_users db)" "au_id w = i" for w using sso_user_at_eq [OF u(3) that(1)] that(2) u(1) by simp
  with u(2) i show ?thesis by (auto simp: managed_id_def)
qed

lemma confined_refl [simp]: "confined us us"
  unfolding confined_def by (rule exI [of _ us]) (simp add: list_all2_refl)

lemma list_all2_touched_trans: "\<lbrakk> list_all2 touched a b; list_all2 touched b c \<rbrakk> \<Longrightarrow> list_all2 touched a c"
  using list_all2_trans [of touched touched touched] touched_trans by blast

lemma confined_trans: "\<lbrakk> confined a b; confined b c \<rbrakk> \<Longrightarrow> confined a c"
proof -
  assume "confined a b" "confined b c"
  then obtain k n k' n' where b: "b = k @ n" "list_all2 touched a k" "list_all2 touched b k'" and c: "c = k' @ n'"
    and new: "\<forall>u\<in>set n \<union> set n'. au_global_role u = ''Viewer'' \<and> scim_manageable_user u \<and> su_sso_provider u = None"
    unfolding confined_def by blast
  from b(1,3) obtain k1 k2 where k: "k' = k1 @ k2" "list_all2 touched k k1" "list_all2 touched n k2"
    by (auto simp: list_all2_append1)
  have "\<forall>v\<in>set k2. au_global_role v = ''Viewer'' \<and> scim_manageable_user v \<and> su_sso_provider v = None"
  proof
    fix v assume "v \<in> set k2"
    then obtain u where "u \<in> set n" "touched u v" using k(3) by (metis list_all2_conv_all_nth in_set_conv_nth)
    then show "au_global_role v = ''Viewer'' \<and> scim_manageable_user v \<and> su_sso_provider v = None"
      using touched_fields [of u v] touched_manageable [of u v] new by simp
  qed
  moreover have "list_all2 touched a k1" using list_all2_touched_trans b(2) k(2) by blast
  ultimately show ?thesis using c k(1) new unfolding confined_def by (intro exI [of _ k1] exI [of _ "k2 @ n'"]) auto
qed

text \<open>One change of rows of a managed identifier.\<close>

lemma change_confined:
  assumes "managed_id i db" "\<And>u. \<exists>a b c. f u = u\<lparr> au_username := a, au_email := b, au_active := c \<rparr>"
  shows "confined (sd_users db) (map (\<lambda>u. if au_id u = i then f u else u) (sd_users db))"
proof -
  have "touched u (if au_id u = i then f u else u)" if "u \<in> set (sd_users db)" for u
    using assms(1) assms(2) [of u] that by (auto simp: touched_def managed_id_def)
  then have "list_all2 touched (sd_users db) (map (\<lambda>u. if au_id u = i then f u else u) (sd_users db))"
    by (auto simp: list_all2_conv_all_nth)
  then show ?thesis unfolding confined_def
    by (intro exI [of _ "map (\<lambda>u. if au_id u = i then f u else u) (sd_users db)"] exI [of _ "[]"]) simp
qed

lemma change_keeps_ids:
  assumes "\<And>u. au_id (f u) = au_id u" "users_ok db"
  shows "users_ok (db\<lparr> sd_users := map (\<lambda>u. if au_id u = i then f u else u) (sd_users db) \<rparr>)"
proof -
  have "map au_id (map (\<lambda>u. if au_id u = i then f u else u) (sd_users db)) = map au_id (sd_users db)" using assms(1) by simp
  then have "distinct (map au_id (map (\<lambda>u. if au_id u = i then f u else u) (sd_users db)))" using assms(2) unfolding users_ok_def by argo
  moreover have "\<forall>u\<in>set (map (\<lambda>u. if au_id u = i then f u else u) (sd_users db)). au_id u < sd_seq db"
    using assms by (auto simp: users_ok_def)
  ultimately show ?thesis by (simp add: users_ok_def del: map_map)
qed

definition keeps_users :: "sso_db \<Rightarrow> sso_db \<Rightarrow> bool" where
  "keeps_users db db' \<longleftrightarrow> confined (sd_users db) (sd_users db') \<and> users_ok db'"

lemma keeps_same: "\<lbrakk> users_ok db; sd_users db' = sd_users db; sd_seq db \<le> sd_seq db' \<rbrakk> \<Longrightarrow> keeps_users db db'"
  by (auto simp: keeps_users_def users_ok_def)

lemma keeps_refl: "users_ok db \<Longrightarrow> keeps_users db db"
  by (simp add: keeps_users_def)

lemma keeps_trans: "\<lbrakk> keeps_users a b; keeps_users b c \<rbrakk> \<Longrightarrow> keeps_users a c"
  unfolding keeps_users_def using confined_trans by blast

lemma keeps_same_but_use: "\<lbrakk> same_but_use db db'; users_ok db \<rbrakk> \<Longrightarrow> keeps_users db db'"
  by (rule keeps_same) (auto simp: same_but_use_def)

lemma update_row_keeps:
  assumes "update_row i f db = Some db'" "managed_id i db" "users_ok db"
    "\<And>u. \<exists>a b c. f u = u\<lparr> au_username := a, au_email := b, au_active := c \<rparr>"
  shows "keeps_users db db' \<and> managed_id i db'"
proof -
  have db': "db' = db\<lparr> sd_users := map (\<lambda>u. if au_id u = i then f u else u) (sd_users db) \<rparr>"
    using assms(1) by (simp add: update_row_def split: if_splits)
  have f: "au_id (f u) = au_id u" "scim_manageable_user (f u) = scim_manageable_user u" for u
    using assms(4) [of u] by (auto simp: scim_manageable_user_def)
  have "managed_id i db'" unfolding managed_id_def
  proof (intro ballI impI)
    fix v assume "v \<in> set (sd_users db')" "au_id v = i"
    then obtain u where "u \<in> set (sd_users db)" "v = (if au_id u = i then f u else u)" unfolding db' by auto
    moreover from this \<open>au_id v = i\<close> have "au_id u = i" using f(1) by (simp split: if_splits)
    ultimately show "scim_manageable_user v" using assms(2) f(2) by (simp add: managed_id_def)
  qed
  then show ?thesis
    using change_confined [OF assms(2,4)] change_keeps_ids [of f db i] f assms(3) by (simp add: keeps_users_def db')
qed

lemma insert_user_keeps:
  assumes "insert_user u db = Some (i, db')" "users_ok db" "au_global_role u = ''Viewer''" "scim_manageable_user u" "su_sso_provider u = None"
  shows "keeps_users db db'"
proof -
  have db': "db' = db\<lparr> sd_users := sd_users db @ [u\<lparr> au_id := sd_seq db \<rparr>], sd_seq := sd_seq db + 1 \<rparr>"
    using assms(1) by (auto simp: insert_user_def split: if_splits)
  have "confined (sd_users db) (sd_users db')" unfolding confined_def db'
    using assms(3-5) by (intro exI [of _ "sd_users db"] exI [of _ "[u\<lparr> au_id := sd_seq db \<rparr>]"])
      (simp add: list_all2_refl scim_manageable_user_def)
  moreover have "users_ok db'" using assms(2) by (auto simp: users_ok_def db')
  ultimately show ?thesis by (simp add: keeps_users_def)
qed

lemma patch_op_keeps:
  assumes "patch_op i oper db = (r, db')" "managed_id i db" "users_ok db"
  shows "keeps_users db db' \<and> managed_id i db'"
proof -
  have act: "\<exists>a' b' c'. u\<lparr> au_active := b \<rparr> = u\<lparr> au_username := a', au_email := b', au_active := c' \<rparr>" for b and u :: sso_user
    by (rule exI [of _ "au_username u"], rule exI [of _ "au_email u"], rule exI [of _ b]) simp
  have em: "\<exists>a' b' c'. u\<lparr> au_email := e \<rparr> = u\<lparr> au_username := a', au_email := b', au_active := c' \<rparr>" for e and u :: sso_user
    by (rule exI [of _ "au_username u"], rule exI [of _ e], rule exI [of _ "au_active u"]) simp
  note up = update_row_keeps [OF _ assms(2,3) act] update_row_keeps [OF _ assms(2,3) em]
  show ?thesis using assms unfolding patch_op_def Let_def
    by (auto simp: keeps_refl split: json.splits if_splits option.splits dest: up)
qed

lemma patch_ops_keeps:
  "\<lbrakk> patch_ops i opers db = (r, db'); managed_id i db; users_ok db \<rbrakk> \<Longrightarrow> keeps_users db db' \<and> managed_id i db'"
proof (induction opers arbitrary: db)
  case (Cons oper opers)
  obtain x db1 where o: "patch_op i oper db = (x, db1)" by fastforce
  note k = patch_op_keeps [OF o Cons.prems(2,3)]
  then have "users_ok db1" by (simp add: keeps_users_def)
  with o k Cons show ?case by (cases x) (auto intro: keeps_trans)
qed (simp add: keeps_refl)

lemma reload_user_db [simp]: "snd (reload_user i db) = db"
  by (simp add: reload_user_def split: option.split)

text \<open>Every route keeps the accounts within bounds.\<close>

lemma with_token_keeps:
  assumes "users_ok db" "\<And>db0. users_ok db0 \<Longrightarrow> keeps_users db0 (snd (f db0))"
  shows "keeps_users db (snd (with_scim_token E now h f db))"
proof -
  obtain r db' where w: "with_scim_token E now h f db = (r, db')" by fastforce
  from with_token_cases [OF w] show ?thesis
  proof
    assume "same_but_use db db' \<and> r = Refused 401"
    then show ?thesis using keeps_same_but_use assms(1) w by simp
  next
    assume "\<exists>i db0. require_scim_token E now h db = (Some i, db0) \<and> same_but_use db db0 \<and> f db0 = (r, db')"
    then obtain db0 where db0: "same_but_use db db0" "f db0 = (r, db')" by blast
    then have "keeps_users db db0" using keeps_same_but_use assms(1) by blast
    moreover from this have "keeps_users db0 db'" using assms(2) [of db0] db0(2) by (simp add: keeps_users_def)
    ultimately show ?thesis using keeps_trans w by simp
  qed
qed

lemma managed_user_keeps:
  assumes "users_ok db" "\<And>u. \<lbrakk> managed_id (au_id u) db \<rbrakk> \<Longrightarrow> keeps_users db (snd (f u))"
  shows "keeps_users db (snd (managed_user user_id f db))"
  using assms managed_idI by (auto simp: managed_user_def keeps_refl split: option.split)

lemma with_object_keeps:
  assumes "users_ok db" "\<And>d. keeps_users db (snd (f d))"
  shows "keeps_users db (snd (with_object data f db))"
  using assms by (auto simp: with_object_def keeps_refl split: option.split json.split)

lemma list_users_keeps: "users_ok db \<Longrightarrow> keeps_users db (snd (list_users E now h start count flt db))"
  unfolding list_users_def
  by (rule with_token_keeps) (auto simp: keeps_refl Let_def split: option.split)

lemma scim_get_user_keeps: "users_ok db \<Longrightarrow> keeps_users db (snd (scim_get_user E now h i db))"
  unfolding scim_get_user_def
  by (intro with_token_keeps managed_user_keeps) (simp_all add: keeps_refl)

lemma create_scim_user_keeps: "users_ok db \<Longrightarrow> keeps_users db (snd (create_scim_user E now h pw data db))"
proof -
  assume ok: "users_ok db"
  have ins: "keeps_users db0 db'" if "insert_user (new_scim_user n e x pw a) db0 = Some (i, db')" "x \<noteq> []" "users_ok db0" for n e x a i db0 db'
    by (rule insert_user_keeps [OF that(1,3)]) (use that(2) in \<open>simp_all add: new_scim_user_def scim_manageable_user_def truthy_def\<close>)
  show ?thesis unfolding create_scim_user_def create_scim_row_def
    by (intro with_token_keeps with_object_keeps ok)
      (auto simp: keeps_refl split: option.split json.splits prod.split dest: ins)
qed

lemma update_scim_user_keeps: "users_ok db \<Longrightarrow> keeps_users db (snd (update_scim_user E now h i data db))"
  unfolding update_scim_user_def
  by (intro with_token_keeps managed_user_keeps with_object_keeps)
    (auto simp: keeps_refl split: option.split dest!: update_row_keeps)

lemma patch_scim_user_keeps: "users_ok db \<Longrightarrow> keeps_users db (snd (patch_scim_user E now h i data db))"
  unfolding patch_scim_user_def
  by (intro with_token_keeps managed_user_keeps with_object_keeps)
    (auto simp: keeps_refl split: option.split prod.split patch_result.split dest!: patch_ops_keeps)

lemma deactivate_keeps:
  assumes "users_ok db" "managed_id i db"
  shows "keeps_users db (db\<lparr> sd_users := map (\<lambda>x. if au_id x = i then x\<lparr> au_active := False \<rparr> else x) (sd_users db) \<rparr>)"
proof -
  have "\<exists>a' b' c'. u\<lparr> au_active := False \<rparr> = u\<lparr> au_username := a', au_email := b', au_active := c' \<rparr>" for u :: sso_user
    by (rule exI [of _ "au_username u"], rule exI [of _ "au_email u"], rule exI [of _ False]) simp
  from change_confined [OF assms(2), of "\<lambda>x. x\<lparr> au_active := False \<rparr>", OF this]
  show ?thesis using change_keeps_ids [of "\<lambda>x. x\<lparr> au_active := False \<rparr>" db i] assms(1) by (simp add: keeps_users_def)
qed

lemma delete_scim_user_keeps: "users_ok db \<Longrightarrow> keeps_users db (snd (delete_scim_user E now h i db))"
  unfolding delete_scim_user_def
  by (intro with_token_keeps managed_user_keeps) (simp_all add: deactivate_keeps)

lemma mint_users: "sd_users (snd (mint_scim_token E h pt salt data db)) = sd_users db \<and> sd_seq db \<le> sd_seq (snd (mint_scim_token E h pt salt data db))"
  by (auto simp: mint_scim_token_def admin_guard_def with_object_def store_token_def Let_def
      split: outcome.split option.split json.split)

lemma revoke_users: "sd_users (snd (revoke_scim_token E h i db)) = sd_users db \<and> sd_seq (snd (revoke_scim_token E h i db)) = sd_seq db"
  by (auto simp: revoke_scim_token_def admin_guard_def scim_revoke_token_def split: outcome.split option.split)

lemma scim_step_keeps: "users_ok db \<Longrightarrow> keeps_users db (snd (scim_step E c db))"
  by (cases c) (simp_all add: list_users_keeps scim_get_user_keeps create_scim_user_keeps update_scim_user_keeps
      patch_scim_user_keeps delete_scim_user_keeps mint_users revoke_users keeps_same)

section \<open>Properties\<close>

text \<open>
  C11. Over any sequence of SCIM requests, with whatever tokens: an account that SCIM does not manage (one with the role
  \<^verbatim>\<open>SystemAdmin\<close>, or one without an external identifier) stays as it is, a managed one keeps everything but name, email
  and activity, and new accounts are viewers.
\<close>

theorem scim_confined:
  assumes "users_ok db" "db' = snd (run_cmds (scim_step E) cs db)"
  shows "confined (sd_users db) (sd_users db')"
proof -
  have "keeps_users db (snd (run_cmds (scim_step E) cs db))" using assms(1)
  proof (induction cs arbitrary: db)
    case (Cons c cs)
    obtain r db1 where c: "scim_step E c db = (r, db1)" by fastforce
    then have k: "keeps_users db db1" using scim_step_keeps [OF Cons.prems, of E c] by simp
    then have "keeps_users db1 (snd (run_cmds (scim_step E) cs db1))" using Cons.IH by (simp add: keeps_users_def)
    with k c keeps_trans show ?case by (auto split: prod.splits)
  qed (simp add: keeps_refl)
  then show ?thesis using assms(2) by (simp add: keeps_users_def)
qed

section \<open>Revoked tokens\<close>

text \<open>The row is inactive and its identifier will not be given again.\<close>

definition dead_token :: "nat \<Rightarrow> sso_db \<Rightarrow> bool" where
  "dead_token i db \<longleftrightarrow> i < sd_seq db \<and> (\<forall>t\<in>set (sd_scim_tokens db). sc_id t = i \<longrightarrow> \<not> sc_active t)"

lemma dead_token_refused: "dead_token i db \<Longrightarrow> fst (require_scim_token E now h db) \<noteq> Some i"
  by (auto simp: require_scim_token_def validate_scim_token_def dead_token_def split: option.splits dest!: find_SomeD)

lemma dead_cong: "\<lbrakk> dead_token i db; map token_fields (sd_scim_tokens db') = map token_fields (sd_scim_tokens db); sd_seq db \<le> sd_seq db' \<rbrakk>
   \<Longrightarrow> dead_token i db'"
proof -
  assume d: "dead_token i db" and m: "map token_fields (sd_scim_tokens db') = map token_fields (sd_scim_tokens db)"
    and le: "sd_seq db \<le> sd_seq db'"
  have "\<not> sc_active t" if t: "t \<in> set (sd_scim_tokens db')" "sc_id t = i" for t
  proof -
    have "token_fields t \<in> set (map token_fields (sd_scim_tokens db))" using t(1) m [symmetric] by simp
    then obtain x where "x \<in> set (sd_scim_tokens db)" "token_fields x = token_fields t" by auto
    then show ?thesis using d t(2) by (auto simp: dead_token_def token_fields_def)
  qed
  then show ?thesis using d le by (auto simp: dead_token_def)
qed

definition tokens_frame :: "sso_db \<Rightarrow> sso_db \<Rightarrow> bool" where
  "tokens_frame db db' \<longleftrightarrow> map token_fields (sd_scim_tokens db') = map token_fields (sd_scim_tokens db) \<and> sd_seq db \<le> sd_seq db'"

lemma tokens_frame_refl [simp]: "tokens_frame db db"
  by (simp add: tokens_frame_def)

lemma with_token_frame:
  assumes "\<And>db0. tokens_frame db0 (snd (f db0))"
  shows "tokens_frame db (snd (with_scim_token E now h f db))"
proof -
  obtain r db' where w: "with_scim_token E now h f db = (r, db')" by fastforce
  from with_token_cases [OF w] show ?thesis
  proof
    assume "\<exists>i db0. require_scim_token E now h db = (Some i, db0) \<and> same_but_use db db0 \<and> f db0 = (r, db')"
    then obtain db0 where db0: "same_but_use db db0" "f db0 = (r, db')" by blast
    then have "tokens_frame db0 db'" using assms [of db0] by simp
    with db0(1) w show ?thesis by (auto simp: same_but_use_def tokens_frame_def)
  qed (use w in \<open>auto simp: same_but_use_def tokens_frame_def\<close>)
qed

lemma managed_user_frame: "(\<And>u. tokens_frame db (snd (f u))) \<Longrightarrow> tokens_frame db (snd (managed_user i f db))"
  by (simp add: managed_user_def split: option.split)

lemma with_object_frame: "(\<And>d. tokens_frame db (snd (f d))) \<Longrightarrow> tokens_frame db (snd (with_object data f db))"
  by (simp add: with_object_def split: option.split json.split)

lemma update_row_frame: "update_row i f db = Some db' \<Longrightarrow> tokens_frame db db'"
  by (auto simp: update_row_def tokens_frame_def split: if_splits)

lemma insert_user_frame: "insert_user u db = Some (i, db') \<Longrightarrow> tokens_frame db db'"
  by (auto simp: insert_user_def tokens_frame_def split: if_splits)

lemma patch_op_frame: "patch_op i oper db = (r, db') \<Longrightarrow> tokens_frame db db'"
  unfolding patch_op_def Let_def by (auto split: json.splits if_splits option.splits dest: update_row_frame)

lemma patch_ops_frame: "patch_ops i opers db = (r, db') \<Longrightarrow> tokens_frame db db'"
proof (induction opers arbitrary: db)
  case (Cons oper opers)
  obtain x db1 where o: "patch_op i oper db = (x, db1)" by fastforce
  with patch_op_frame [OF o] Cons show ?case by (cases x) (fastforce simp: tokens_frame_def)+
qed simp

lemmas route_frame = with_token_frame managed_user_frame with_object_frame

lemma user_routes_frame:
  "tokens_frame db (snd (list_users E now h start count flt db))" "tokens_frame db (snd (scim_get_user E now h i db))"
  "tokens_frame db (snd (create_scim_user E now h pw data db))" "tokens_frame db (snd (update_scim_user E now h i data db))"
  "tokens_frame db (snd (patch_scim_user E now h i data db))" "tokens_frame db (snd (delete_scim_user E now h i db))"
  unfolding list_users_def scim_get_user_def create_scim_user_def create_scim_row_def update_scim_user_def patch_scim_user_def delete_scim_user_def
  by ((intro route_frame; auto simp: Let_def split: option.split prod.split patch_result.split json.split
      dest: update_row_frame insert_user_frame patch_ops_frame simp: tokens_frame_def reload_user_def)[1])+

lemma scim_step_dead: "dead_token i db \<Longrightarrow> dead_token i (snd (scim_step E c db))"
proof (cases c)
  case (Mint_Token h pt salt data)
  then show "dead_token i db \<Longrightarrow> ?thesis"
    by (auto simp: mint_scim_token_def admin_guard_def with_object_def store_token_def Let_def dead_token_def
        split: outcome.split option.split json.split)
next
  case (Revoke_Token h j)
  then show "dead_token i db \<Longrightarrow> ?thesis"
    by (auto simp: revoke_scim_token_def admin_guard_def scim_revoke_token_def dead_token_def split: outcome.split option.split)
qed (use user_routes_frame dead_cong in \<open>simp_all add: tokens_frame_def\<close>)

text \<open>
  C24. A revoked token is dead: after any further requests, minting included, no request is admitted by its row.
\<close>

theorem revoked_scim_token_dead:
  assumes "revoke_scim_token E h token_id db = (Answered n b, db1)" "\<forall>t\<in>set (sd_scim_tokens db). sc_id t < sd_seq db"
    "py_int token_id = Some (int i)" "db2 = snd (run_cmds (scim_step E) cs db1)"
  shows "fst (require_scim_token E now header db2) \<noteq> Some i"
proof -
  have "dead_token i db1" using assms(1-3)
    by (auto simp: revoke_scim_token_def admin_guard_def scim_revoke_token_def dead_token_def list_ex_iff split: outcome.splits if_splits)
  then have "dead_token i (snd (run_cmds (scim_step E) cs db1))"
  proof (induction cs arbitrary: db1)
    case (Cons c cs)
    obtain r d where "scim_step E c db1 = (r, d)" by fastforce
    with scim_step_dead [OF Cons.prems, of E c] Cons.IH [of d] show ?case by (auto split: prod.splits)
  qed simp
  then show ?thesis using assms(4) dead_token_refused by simp
qed

definition scim_resources :: "scim_reply \<Rightarrow> scim_user list" where
  "scim_resources reply = (case reply of Answered n (Scim_List k start rs) \<Rightarrow> rs | _ \<Rightarrow> [])"

text \<open>
  A client that pages through the users with a fixed count gets every active managed account, once and in order.
\<close>

theorem scim_pages_complete:
  assumes "require_scim_token E now h db = (Some i, db0)" "0 < c" "c \<le> 1000"
    "length (filter scim_manageable_user (filter au_active (sd_users db))) \<le> m * c"
  shows "concat (map (\<lambda>k. scim_resources (fst (list_users E now h (1 + int (k * c)) (int c) [] db))) [0..<m])
    = map user_record_to_scim (filter scim_manageable_user (filter au_active (sd_users db)))"
proof -
  let ?us = "filter scim_manageable_user (filter au_active (sd_users db))"
  have "sd_users db0 = sd_users db" using require_same [OF assms(1)] by (auto simp: same_but_use_def)
  then have "scim_resources (fst (list_users E now h (1 + int (k * c)) (int c) [] db)) = take c (drop (k * c) (map user_record_to_scim ?us))" for k
    using assms(1,3) by (simp add: list_users_def with_scim_token_def scim_resources_def Let_def take_map drop_map del: filter_filter of_nat_mult)
  then have "concat (map (\<lambda>k. scim_resources (fst (list_users E now h (1 + int (k * c)) (int c) [] db))) [0..<m])
      = take (m * c) (map user_record_to_scim ?us)"
    using concat_slices [OF assms(2), of "map user_record_to_scim ?us" m] by presburger
  then show ?thesis using assms(4) by (simp del: filter_filter)
qed

lemma create_answered:
  assumes "create_scim_user E now h pw data db = (Answered n (Scim_User r), db1)"
  obtains u v where "u \<in> set (sd_users db1)" "r = user_record_to_scim u" "su_sso_provider v = None" "sd_users db1 = sd_users db @ [v]"
proof -
  from with_token_cases [OF assms [unfolded create_scim_user_def]] obtain db0 where db0: "same_but_use db db0"
    and w: "with_object data (\<lambda>d. create_scim_row pw d db0) db0 = (Answered n (Scim_User r), db1)" by blast
  then obtain d where d: "create_scim_row pw d db0 = (Answered n (Scim_User r), db1)" using with_object_cases by blast
  have eq: "sd_users db0 = sd_users db" using db0 by (auto simp: same_but_use_def)
  from d show thesis
    by (auto simp: create_scim_row_def insert_user_def new_scim_user_def eq split: if_splits option.splits json.splits prod.splits
        dest!: find_SomeD intro!: that)
qed

text \<open>
  An account SCIM provisions cannot sign in through the identity provider it is provisioned from: a valid SAML response
  for its email is refused, since the account has no subject and its email is taken.
\<close>

theorem scim_user_cannot_sign_in:
  assumes "create_scim_user E now h pw data db = (Answered n (Scim_User r), db1)" "sr_emails r = [em]"
    "\<forall>u\<in>set (sd_users db). \<not> (su_sso_provider u = Some name \<and> su_sso_subject u = Some sub)"
    "saml_enabled name db1 = Some p" "truthy resp" "truthy relay" "truthy cookie"
    "parse_and_validate_response S now' p (the resp) (the relay) (the cookie) db1 = (Some (sub, em), db2)"
  shows "fst (acs S now' rnd name resp relay cookie db1) = Refused 403"
proof -
  from create_answered [OF assms(1)] obtain u v where u: "u \<in> set (sd_users db1)" "r = user_record_to_scim u"
    "su_sso_provider v = None" "sd_users db1 = sd_users db @ [v]" by metis
  have "au_email u = em" using u(2) assms(2) by (simp add: user_record_to_scim_def split: if_splits)
  moreover have users: "sd_users db2 = sd_users db1" using parse_frame(1) [OF assms(8)] .
  ultimately have "list_ex (\<lambda>u. au_email u = em) (sd_users db2)" using u(1) by (auto simp: list_ex_iff)
  moreover have "sp_name p = name" using saml_enabled_name [OF assms(4)] by simp
  moreover have "find (\<lambda>u. su_sso_provider u = Some name \<and> su_sso_subject u = Some sub) (sd_users db2) = None"
    using assms(3) u(3,4) users by (auto simp: find_None_iff)
  ultimately show ?thesis using assms(4-8) by (simp add: acs_def jit_provision_def)
qed

text \<open>
  Deprovisioning ends the sessions of the account: after the DELETE no refresh token of the account is accepted.
\<close>

theorem deprovisioned_refresh_dead:
  assumes "delete_scim_user E now h user_id db = (Answered n b, db1)"
    "users adb = map auth_user.truncate (sd_users db1)"
    "\<And>payload. se_decode S t token = Some payload \<Longrightarrow> claim_user payload = Some (dec_val user_id)"
  shows "fst (do_refresh S t token jti adb) = None"
proof -
  from with_token_cases [OF assms(1) [unfolded delete_scim_user_def]] obtain db0 u where
    "sso_user_at (dec_val user_id) db0 = Some u"
    and db1: "db1 = db0\<lparr> sd_users := map (\<lambda>x. if au_id x = au_id u then x\<lparr> au_active := False \<rparr> else x) (sd_users db0) \<rparr>"
    using managed_user_cases by (auto dest!: managed_user_cases)
  then have "au_id u = dec_val user_id" by (auto simp: sso_user_at_def dest: find_SomeD)
  then have "\<not> au_active w" if "find (\<lambda>u. au_id u = dec_val user_id) (users adb) = Some w" for w
    using find_SomeD [OF that] assms(2) db1 by (auto simp: auth_user.defs split: if_splits)
  then show ?thesis using assms(3)
    by (auto simp: do_refresh_def refresh_access_token_def split: option.split)
qed

section \<open>Examples\<close>

definition sample_scim_env :: scim_env where
  "sample_scim_env = \<lparr> pk_check = (\<lambda>t h. h = CHR ''#'' # t), pk_hash = (\<lambda>n t. CHR ''#'' # t),
     pk_decode = (\<lambda>t. Some [(''scope'', JStr ''admin:super'')]), pk_enterprise = True, pk_persist = True \<rparr>"

definition sample_scim_minted :: sso_db where
  "sample_scim_minted = snd (mint_scim_token sample_scim_env ''Bearer x'' ''tok'' 0 (Some JNull) sample_login)"

definition sample_payload :: "json option" where
  "sample_payload = Some (JObj [(''userName'', JStr ''ann''), (''externalId'', JStr ''x1''),
     (''emails'', JList [JObj [(''value'', JStr ''ann@x.org'')]])])"

definition sample_created :: "scim_reply \<times> sso_db" where
  "sample_created = create_scim_user sample_scim_env 5 ''Bearer tok'' ''pw'' sample_payload sample_scim_minted"

definition sample_scim_user :: scim_user where
  "sample_scim_user = \<lparr> sr_id = dec 4, sr_external_id = ''x1'', sr_user_name = ''ann'', sr_emails = [''ann@x.org''], sr_active = True \<rparr>"

lemma sample_created_reply: "fst sample_created = Answered 201 (Scim_User sample_scim_user)"
  by code_simp

definition sample_revoked :: "scim_reply \<times> sso_db" where
  "sample_revoked = revoke_scim_token sample_scim_env ''Bearer x'' ''3'' sample_scim_minted"

definition sample_deleted :: "scim_reply \<times> sso_db" where
  "sample_deleted = delete_scim_user sample_scim_env 6 ''Bearer tok'' ''4'' (snd sample_created)"

definition sample_parsed :: "(string \<times> string) option \<times> sso_db" where
  "sample_parsed = parse_and_validate_response sample_sso_env 6 sample_idp ''ok'' ''st'' ''bind'' (snd sample_created)"

definition sample_session :: session_env where
  "sample_session = demo_session\<lparr> se_decode := (\<lambda>t token. Some (refresh_claims demo_cfg ''default'' 4 ''j1'' 0 1000)) \<rparr>"

lemma sample_facts:
  "fst sample_revoked = Answered 204 Scim_Done" "fst sample_deleted = Answered 204 Scim_Done"
  "fst sample_parsed = Some (''ann'', ''ann@x.org'')" "fst (require_scim_token sample_scim_env 5 ''Bearer tok'' sample_scim_minted) = Some 3"
  "list_all (\<lambda>t. sc_id t < sd_seq sample_scim_minted) (sd_scim_tokens sample_scim_minted)" "py_int ''3'' = Some 3"
  "length (filter scim_manageable_user (filter au_active (sd_users sample_scim_minted))) = 0"
  "list_all (\<lambda>u. su_sso_provider u \<noteq> Some ''idp'') (sd_users sample_scim_minted)"
  "saml_enabled ''idp'' (snd sample_created) = Some sample_idp" "dec_val ''4'' = 4"
  "claim_user (refresh_claims demo_cfg ''default'' 4 ''j1'' 0 1000) = Some 4"
  by code_simp+

text \<open>
  Two accounts with an external identifier, of which one is a system administrator, and four requests: an account is
  created, the other one is renamed and deactivated, and the administrator is asked to be deactivated.
\<close>

definition sample_staff :: sso_db where
  "sample_staff = sample_scim_minted\<lparr> sd_users :=
     [(new_scim_user ''root'' ''root@x.org'' ''e1'' ''pw'' True)\<lparr> au_id := 1, au_global_role := ''SystemAdmin'' \<rparr>,
      (new_scim_user ''eve'' ''eve@x.org'' ''e2'' ''pw'' True)\<lparr> au_id := 2, au_global_role := ''OrgAdmin'' \<rparr>] \<rparr>"

definition sample_staff_run :: "scim_reply list \<times> sso_db" where
  "sample_staff_run = run_cmds (scim_step sample_scim_env)
     [Create_User 5 ''Bearer tok'' ''pw'' sample_payload,
      Update_User 6 ''Bearer tok'' ''2'' (Some (JObj [(''userName'', JStr ''eva'')])),
      Delete_User 7 ''Bearer tok'' ''2'', Delete_User 8 ''Bearer tok'' ''1''] sample_staff"

lemma sample_staff_facts:
  "map (\<lambda>r. case r of Answered n b \<Rightarrow> n | Refused n \<Rightarrow> n | Crashed \<Rightarrow> 500) (fst sample_staff_run) = [201, 200, 204, 404]"
  "map (\<lambda>u. (au_username u, au_global_role u, au_active u)) (sd_users (snd sample_staff_run))
     = [(''root'', ''SystemAdmin'', True), (''eva'', ''OrgAdmin'', False), (''ann'', ''Viewer'', True)]"
  "users_ok sample_staff"
  by code_simp+

theorem scim_confined_witness:
  "map (\<lambda>r. case r of Answered n b \<Rightarrow> n | Refused n \<Rightarrow> n | Crashed \<Rightarrow> 500) (fst sample_staff_run) = [201, 200, 204, 404]
   \<and> map (\<lambda>u. (au_username u, au_global_role u, au_active u)) (sd_users (snd sample_staff_run))
     = [(''root'', ''SystemAdmin'', True), (''eva'', ''OrgAdmin'', False), (''ann'', ''Viewer'', True)]
   \<and> confined (sd_users sample_staff) (sd_users (snd sample_staff_run))"
proof (intro conjI)
  show "confined (sd_users sample_staff) (sd_users (snd sample_staff_run))"
    by (rule scim_confined [OF sample_staff_facts(3), where E = sample_scim_env]) (simp only: sample_staff_run_def)
qed (rule sample_staff_facts(1,2))+

theorem revoked_scim_token_dead_witness:
  "fst (require_scim_token sample_scim_env 9 ''Bearer tok'' (snd sample_revoked)) \<noteq> Some 3"
proof -
  have "revoke_scim_token sample_scim_env ''Bearer x'' ''3'' sample_scim_minted = (Answered 204 Scim_Done, snd sample_revoked)"
    using sample_facts(1) by (simp add: sample_revoked_def prod_eq_iff)
  from revoked_scim_token_dead [OF this _ _ refl, where i = 3 and cs = "[]"] show ?thesis
    using sample_facts(5,6) by (simp add: list_all_iff)
qed

theorem scim_pages_complete_witness:
  "concat (map (\<lambda>k. scim_resources (fst (list_users sample_scim_env 5 ''Bearer tok'' (1 + int (k * 2)) (int 2) [] sample_scim_minted))) [0..<1])
    = map user_record_to_scim (filter scim_manageable_user (filter au_active (sd_users sample_scim_minted)))"
proof (rule scim_pages_complete)
  show "require_scim_token sample_scim_env 5 ''Bearer tok'' sample_scim_minted
      = (Some 3, snd (require_scim_token sample_scim_env 5 ''Bearer tok'' sample_scim_minted))"
    using sample_facts(4) by (simp add: prod_eq_iff)
qed (use sample_facts(7) in simp_all)

theorem scim_user_cannot_sign_in_witness:
  "fst (acs sample_sso_env 6 sample_random ''idp'' (Some ''ok'') (Some ''st'') (Some ''bind'') (snd sample_created)) = Refused 403"
proof (rule scim_user_cannot_sign_in)
  show "create_scim_user sample_scim_env 5 ''Bearer tok'' ''pw'' sample_payload sample_scim_minted
      = (Answered 201 (Scim_User sample_scim_user), snd sample_created)"
    using sample_created_reply by (simp add: sample_created_def prod_eq_iff)
  show "parse_and_validate_response sample_sso_env 6 sample_idp (the (Some ''ok'')) (the (Some ''st'')) (the (Some ''bind''))
      (snd sample_created) = (Some (''ann'', ''ann@x.org''), snd sample_parsed)"
    using sample_facts(3) by (simp add: sample_parsed_def prod_eq_iff)
  show "\<forall>u\<in>set (sd_users sample_scim_minted). \<not> (su_sso_provider u = Some ''idp'' \<and> su_sso_subject u = Some ''ann'')"
    using sample_facts(8) by (simp add: list_all_iff)
qed (simp_all add: sample_facts sample_scim_user_def truthy_def)

theorem deprovisioned_refresh_dead_witness:
  "fst (do_refresh sample_session 7 ''r'' ''j2''
     \<lparr> users = map auth_user.truncate (sd_users (snd sample_deleted)), team_members = [], revoked = [] \<rparr>) = None"
proof (rule deprovisioned_refresh_dead)
  show "delete_scim_user sample_scim_env 6 ''Bearer tok'' ''4'' (snd sample_created) = (Answered 204 Scim_Done, snd sample_deleted)"
    using sample_facts(2) by (simp add: sample_deleted_def prod_eq_iff)
qed (auto simp: sample_session_def sample_facts digit_val_def)

end
