(* ===== verification/Manager_Whois.thy ===== *)
theory Manager_Whois
  imports Manager_Admin
begin

text \<open>
  The WHOIS service of the Manager (\<^verbatim>\<open>services/whois_service.py\<close>): lookups of domains and addresses with their cache,
  the search index, the query log and the removal of old entries; the routes of \<^verbatim>\<open>blueprints/whois.py\<close> and the job
  \<^verbatim>\<open>jobs/whois_cleanup.py\<close>.

  Parameters: what the WHOIS and RDAP libraries answer, the text of an attribute error, and the address parser. Lookups run one after the other, as
  the routes run them; response times are left out of the query log.
\<close>

section \<open>State\<close>

text \<open>
  Values of the libraries: a date carries its ISO form and its text, a list its text, any other value that JSON can
  hold its truth value and its text.
\<close>

datatype whois_val =
    Wv_None
  | Wv_Str string
  | Wv_Date string string
  | Wv_List string "whois_val list"
  | Wv_Other bool string

definition wv_truthy :: "whois_val \<Rightarrow> bool" where
  "wv_truthy v = (case v of Wv_None \<Rightarrow> False | Wv_Str s \<Rightarrow> s \<noteq> [] | Wv_Date d t \<Rightarrow> True | Wv_List t vs \<Rightarrow> vs \<noteq> [] | Wv_Other b t \<Rightarrow> b)"

definition wv_str :: "whois_val \<Rightarrow> string" where
  "wv_str v = (case v of Wv_None \<Rightarrow> ''None'' | Wv_Str s \<Rightarrow> s | Wv_Date d t \<Rightarrow> t | Wv_List t vs \<Rightarrow> t | Wv_Other b t \<Rightarrow> t)"

record whois_data =
  wd_success :: bool
  wd_subject :: string
  wd_cached :: bool
  wd_error :: "string option"
  wd_registrar :: "whois_val option"
  wd_org :: "whois_val option"
  wd_creation :: "string option"
  wd_expiration :: "string option"
  wd_nameservers :: "string list"
  wd_status :: "whois_val list option"
  wd_network_name :: "whois_val option"
  wd_country :: "whois_val option"

datatype whois_kind = Domain_Query | Ip_Query

record cache_row =
  wc_id :: nat
  wc_query :: string
  wc_kind :: whois_kind
  wc_data :: whois_data
  wc_updated :: int

record index_row =
  ix_whois_id :: nat
  ix_field :: string
  ix_value :: string
  ix_at :: int

record whois_db =
  wb_cache :: "cache_row list"
  wb_index :: "index_row list"
  wb_log :: "(string \<times> whois_kind \<times> bool \<times> string option) list"
  wb_seq :: nat

text \<open>The answers of the two libraries; a lookup that raises carries the text of the exception.\<close>

datatype whois_answer =
    Whois_Timeout string
  | Whois_Raised string
  | Whois_Info "string \<Rightarrow> whois_val"

type_synonym members = "(string \<times> whois_val) list"

text \<open>
  The answer for an address: the network of RDAP and the first of the legacy networks, \<open>None\<close> where the lookup raises
  or has none.
\<close>

datatype ip_answer =
    Ip_Raised string
  | Ip_Info "members option" "members option"

record whois_env =
  we_whois :: "string \<Rightarrow> whois_answer"
  we_ipwhois :: "string \<Rightarrow> ip_answer"
  we_ip_ok :: "string \<Rightarrow> bool"
  we_attribute_error :: string
  we_retention :: int

definition DAY_US :: int where
  "DAY_US = 86400 * 1000000"

section \<open>Validation\<close>

definition whois_domain_char :: "char \<Rightarrow> bool" where
  "whois_domain_char c \<longleftrightarrow> is_letter c \<or> is_digit c \<or> c = dot \<or> c = CHR ''-''"

definition whois_valid_domain :: "string \<Rightarrow> bool" where
  "whois_valid_domain domain \<longleftrightarrow>
     domain \<noteq> [] \<and>
     (py_lower domain = ''localhost'' \<or>
      (let d = (if py_startswith domain ''*.'' then drop 2 domain else domain)
       in \<not> (length d > 255 \<or> length d < 4)
          \<and> re_dollar (\<lambda>s. s \<noteq> [] \<and> list_all whois_domain_char s) d
          \<and> dot \<in> set d
          \<and> list_all (\<lambda>part. part \<noteq> [] \<and> length part \<le> 63 \<and> hd part \<noteq> CHR ''-'' \<and> last part \<noteq> CHR ''-'') (py_split dot d)))"

section \<open>Reading the libraries' answers\<close>

definition whois_failure :: "string \<Rightarrow> string \<Rightarrow> whois_data" where
  "whois_failure subject err =
     \<lparr> wd_success = False, wd_subject = subject, wd_cached = False, wd_error = Some err, wd_registrar = None, wd_org = None,
       wd_creation = None, wd_expiration = None, wd_nameservers = [], wd_status = None, wd_network_name = None, wd_country = None \<rparr>"

definition whois_success :: "string \<Rightarrow> whois_data" where
  "whois_success subject = (whois_failure subject [])\<lparr> wd_success := True, wd_error := None \<rparr>"

text \<open>\<^verbatim>\<open>lower\<close>: \<open>None\<close> is the exception for a value without it.\<close>

definition wv_lower :: "whois_val \<Rightarrow> string option" where
  "wv_lower v = (case v of Wv_Str s \<Rightarrow> Some (py_lower s) | _ \<Rightarrow> None)"

definition whois_subject :: "string \<Rightarrow> whois_val \<Rightarrow> string option" where
  "whois_subject domain v =
     (if \<not> wv_truthy v then Some (py_lower domain) else case v of Wv_List t vs \<Rightarrow> wv_lower (hd vs) | _ \<Rightarrow> wv_lower v)"

definition date_text :: "whois_val \<Rightarrow> string" where
  "date_text v = (case v of Wv_Date d t \<Rightarrow> d | _ \<Rightarrow> wv_str v)"

definition whois_date :: "whois_val \<Rightarrow> string option" where
  "whois_date v = (if \<not> wv_truthy v then None else Some (case v of Wv_List t vs \<Rightarrow> date_text (hd vs) | _ \<Rightarrow> date_text v))"

definition whois_nameservers :: "whois_val \<Rightarrow> string list" where
  "whois_nameservers v =
     (if \<not> wv_truthy v then []
      else case v of Wv_List t vs \<Rightarrow> map (\<lambda>ns. py_lower (wv_str ns)) (filter wv_truthy vs) | _ \<Rightarrow> [py_lower (wv_str v)])"

definition if_truthy :: "whois_val \<Rightarrow> whois_val option" where
  "if_truthy v = (if wv_truthy v then Some v else None)"

definition perform_domain_whois :: "whois_env \<Rightarrow> string \<Rightarrow> whois_data" where
  "perform_domain_whois E domain =
     (case we_whois E domain of
        Whois_Timeout e \<Rightarrow> whois_failure domain (''WHOIS lookup timeout: '' @ e)
      | Whois_Raised e \<Rightarrow> whois_failure domain (''WHOIS lookup failed: '' @ e)
      | Whois_Info info \<Rightarrow>
          (case whois_subject domain (info ''domain_name'') of
             None \<Rightarrow> whois_failure domain (''WHOIS lookup failed: '' @ we_attribute_error E)
           | Some subject \<Rightarrow>
               (whois_success subject)\<lparr> wd_registrar := if_truthy (info ''registrar''), wd_org := if_truthy (info ''org''),
                  wd_creation := whois_date (info ''creation_date''), wd_expiration := whois_date (info ''expiration_date''),
                  wd_nameservers := whois_nameservers (info ''name_servers''),
                  wd_status := (if \<not> wv_truthy (info ''status'') then None
                                else case info ''status'' of Wv_List t vs \<Rightarrow> Some vs | v \<Rightarrow> Some [v]) \<rparr>))"

text \<open>RDAP first; the legacy answer fills in what it leaves open.\<close>

definition member_or :: "string \<Rightarrow> members option \<Rightarrow> whois_val option \<Rightarrow> whois_val option" where
  "member_or k net v = (case v of Some x \<Rightarrow> Some x | None \<Rightarrow> Option.bind net (\<lambda>m. map_of m k))"

definition perform_ip_whois :: "whois_env \<Rightarrow> string \<Rightarrow> whois_data" where
  "perform_ip_whois E ip =
     (case we_ipwhois E ip of
        Ip_Raised e \<Rightarrow> whois_failure ip (''IP lookup failed: '' @ e)
      | Ip_Info rdap legacy \<Rightarrow>
          (whois_success ip)\<lparr> wd_network_name := member_or ''name'' legacy (member_or ''name'' rdap None),
             wd_country := member_or ''country'' legacy (member_or ''country'' rdap None) \<rparr>)"

section \<open>Cache, index and log\<close>

definition get_cached_whois :: "whois_env \<Rightarrow> int \<Rightarrow> string \<Rightarrow> whois_kind \<Rightarrow> whois_db \<Rightarrow> whois_data option" where
  "get_cached_whois E now q kind db =
     map_option (\<lambda>c. (wc_data c)\<lparr> wd_cached := True \<rparr>)
       (find (\<lambda>c. wc_query c = q \<and> wc_kind c = kind \<and> wc_updated c \<ge> now - we_retention E * DAY_US) (wb_cache db))"

text \<open>What the columns take: text for the registrar, and no dates in the JSON.\<close>

fun json_storable :: "whois_val \<Rightarrow> bool" where
  "json_storable (Wv_Date d t) = False"
| "json_storable (Wv_List t vs) = list_all json_storable vs"
| "json_storable v = True"

definition opt_all :: "('a \<Rightarrow> bool) \<Rightarrow> 'a option \<Rightarrow> bool" where
  "opt_all P v = (case v of None \<Rightarrow> True | Some x \<Rightarrow> P x)"

definition is_wv_str :: "whois_val \<Rightarrow> bool" where
  "is_wv_str v = (case v of Wv_Str s \<Rightarrow> True | _ \<Rightarrow> False)"

definition whois_storable :: "whois_data \<Rightarrow> bool" where
  "whois_storable d \<longleftrightarrow> opt_all is_wv_str (wd_registrar d) \<and> opt_all json_storable (wd_org d)
     \<and> opt_all (list_all json_storable) (wd_status d) \<and> opt_all json_storable (wd_network_name d) \<and> opt_all json_storable (wd_country d)"

text \<open>
  The index rows of a domain; the organisation is turned into text.
\<close>

definition index_entries :: "int \<Rightarrow> nat \<Rightarrow> whois_data \<Rightarrow> index_row list" where
  "index_entries now i d =
     (let row = (\<lambda>f v. \<lparr> ix_whois_id = i, ix_field = f, ix_value = v, ix_at = now \<rparr>);
          part = (\<lambda>f v. case v of None \<Rightarrow> [] | Some x \<Rightarrow> (if wv_truthy x then [row f (py_lower (wv_str x))] else []))
      in part ''registrar'' (wd_registrar d) @ part ''organization'' (wd_org d)
         @ map (\<lambda>ns. row ''nameserver'' (py_lower ns)) (filter (\<lambda>ns. ns \<noteq> []) (wd_nameservers d)))"

definition update_search_index :: "int \<Rightarrow> nat \<Rightarrow> whois_data \<Rightarrow> whois_db \<Rightarrow> whois_db" where
  "update_search_index now i d db =
     db\<lparr> wb_index := filter (\<lambda>r. ix_whois_id r \<noteq> i) (wb_index db) @ index_entries now i d \<rparr>"

text \<open>The row of a query is looked up by its text alone.\<close>

definition stored_row :: "int \<Rightarrow> string \<Rightarrow> whois_kind \<Rightarrow> whois_data \<Rightarrow> whois_db \<Rightarrow> nat \<times> whois_db" where
  "stored_row now q kind d db =
     (case find (\<lambda>c. wc_query c = q) (wb_cache db) of
        Some c \<Rightarrow> (wc_id c, db\<lparr> wb_cache := map (\<lambda>x. if wc_id x = wc_id c
            then x\<lparr> wc_kind := kind, wc_data := d, wc_updated := now \<rparr> else x) (wb_cache db) \<rparr>)
      | None \<Rightarrow> (wb_seq db, db\<lparr> wb_cache := wb_cache db @ [\<lparr> wc_id = wb_seq db, wc_query = q, wc_kind = kind,
            wc_data = d, wc_updated = now \<rparr>], wb_seq := wb_seq db + 1 \<rparr>))"

definition cache_whois_data :: "int \<Rightarrow> string \<Rightarrow> whois_kind \<Rightarrow> whois_data \<Rightarrow> whois_db \<Rightarrow> whois_db" where
  "cache_whois_data now q kind d db =
     (if \<not> whois_storable d then db
      else (case stored_row now q kind d db of
              (i, db') \<Rightarrow> (case kind of Domain_Query \<Rightarrow> update_search_index now i d db' | Ip_Query \<Rightarrow> db')))"

definition log_query :: "string \<Rightarrow> whois_kind \<Rightarrow> bool \<Rightarrow> string option \<Rightarrow> whois_db \<Rightarrow> whois_db" where
  "log_query q kind hit client_ip db = db\<lparr> wb_log := wb_log db @ [(q, kind, hit, client_ip)] \<rparr>"

section \<open>Lookups\<close>

text \<open>The common course of both lookups; \<open>now2\<close> is the clock when the answer of the library is stored.\<close>

definition lookup ::
  "whois_env \<Rightarrow> whois_kind \<Rightarrow> whois_data \<Rightarrow> int \<Rightarrow> int \<Rightarrow> string \<Rightarrow> string option \<Rightarrow> bool \<Rightarrow> whois_db \<Rightarrow> whois_data \<times> whois_db" where
  "lookup E kind performed now now2 q client_ip force_refresh db =
     (case (if force_refresh then None else get_cached_whois E now q kind db) of
        Some d \<Rightarrow> (d, log_query q kind True client_ip db)
      | None \<Rightarrow>
          (performed, log_query q kind False client_ip (if wd_success performed then cache_whois_data now2 q kind performed db else db)))"

definition lookup_domain ::
  "whois_env \<Rightarrow> int \<Rightarrow> int \<Rightarrow> string \<Rightarrow> string option \<Rightarrow> bool \<Rightarrow> whois_db \<Rightarrow> whois_data \<times> whois_db" where
  "lookup_domain E now now2 domain client_ip force_refresh db =
     (if \<not> whois_valid_domain domain then (whois_failure domain (''Invalid domain format: '' @ domain), db)
      else lookup E Domain_Query (perform_domain_whois E domain) now now2 domain client_ip force_refresh db)"

definition lookup_ip ::
  "whois_env \<Rightarrow> int \<Rightarrow> int \<Rightarrow> string \<Rightarrow> string option \<Rightarrow> bool \<Rightarrow> whois_db \<Rightarrow> whois_data \<times> whois_db" where
  "lookup_ip E now now2 ip client_ip force_refresh db =
     (if \<not> we_ip_ok E ip then (whois_failure ip (''Invalid IP address: '' @ ip), db)
      else lookup E Ip_Query (perform_ip_whois E ip) now now2 ip client_ip force_refresh db)"

section \<open>Search, statistics and removal\<close>

text \<open>The newest rows first, rows of the same time in the order of insertion; the limit applies before the term.\<close>

definition search_window :: "string option \<Rightarrow> nat \<Rightarrow> whois_db \<Rightarrow> index_row list" where
  "search_window search_field limit db =
     take limit (sort_key (\<lambda>r. - ix_at r) (filter (\<lambda>r. if truthy search_field then ix_field r = the search_field else True) (wb_index db)))"

fun search_rows :: "string \<Rightarrow> nat list \<Rightarrow> index_row list \<Rightarrow> nat list" where
  "search_rows term seen [] = []"
| "search_rows term seen (r # rest) =
     (if \<not> sublist term (py_lower (ix_value r)) then search_rows term seen rest
      else if ix_whois_id r \<in> set seen then search_rows term seen rest
      else ix_whois_id r # search_rows term (ix_whois_id r # seen) rest)"

definition search_whois :: "string \<Rightarrow> string option \<Rightarrow> nat \<Rightarrow> whois_db \<Rightarrow> (string \<times> whois_kind \<times> whois_data) list" where
  "search_whois search_term search_field limit db =
     List.map_filter (\<lambda>i. map_option (\<lambda>c. (wc_query c, wc_kind c, wc_data c)) (find (\<lambda>c. wc_id c = i) (wb_cache db)))
       (search_rows (py_lower search_term) [] (search_window search_field limit db))"

definition whois_stats :: "whois_db \<Rightarrow> nat list \<times> nat list" where
  "whois_stats db =
     (let logs = map (\<lambda>(q, kind, rest). kind) (wb_log db); rows = map wc_kind (wb_cache db);
          counts = (\<lambda>ks. [length ks, length (filter (\<lambda>k. k = Domain_Query) ks), length (filter (\<lambda>k. k = Ip_Query) ks)])
      in (counts logs, counts rows))"

definition cleanup_old_data :: "whois_env \<Rightarrow> int \<Rightarrow> int option \<Rightarrow> whois_db \<Rightarrow> nat \<times> whois_db" where
  "cleanup_old_data E now retention_days db =
     (let days = (case retention_days of None \<Rightarrow> we_retention E | Some d \<Rightarrow> d);
          ids = map wc_id (filter (\<lambda>c. days = 0 \<or> wc_updated c < now - days * DAY_US) (wb_cache db))
      in (length ids, db\<lparr> wb_index := filter (\<lambda>r. ix_whois_id r \<notin> set ids) (wb_index db),
                          wb_cache := filter (\<lambda>c. wc_id c \<notin> set ids) (wb_cache db) \<rparr>))"

section \<open>Routes and job\<close>

datatype whois_body =
    Whois_Result whois_data
  | Whois_Found "(string \<times> whois_kind \<times> whois_data) list"
  | Whois_Counts "nat list \<times> nat list"

type_synonym whois_reply = "whois_body web_reply"

definition whois_guard :: "current_user option \<Rightarrow> bool \<Rightarrow> outcome" where
  "whois_guard user flag = (if user = None then Denied 401 else if flag then Proceed else Denied 403)"

text \<open>The status of a failure depends on whether its text has the word.\<close>

definition whois_status :: "whois_data \<Rightarrow> nat" where
  "whois_status d =
     (if wd_success d then 200
      else if sublist ''Invalid'' (case wd_error d of None \<Rightarrow> [] | Some e \<Rightarrow> e) then 400 else 502)"

definition lookup_domain_route ::
  "whois_env \<Rightarrow> bool \<Rightarrow> int \<Rightarrow> int \<Rightarrow> current_user option \<Rightarrow> string option \<Rightarrow> string \<Rightarrow> whois_db \<Rightarrow> whois_reply \<times> whois_db" where
  "lookup_domain_route E flag now now2 user client_ip domain db =
     admin_guard (whois_guard user flag)
      (if domain = [] \<or> length domain > 255 then (Refused 400, db)
       else (case lookup_domain E now now2 domain client_ip False db of (d, db') \<Rightarrow> (Answered (whois_status d) (Whois_Result d), db'))) db"

definition lookup_ip_route ::
  "whois_env \<Rightarrow> bool \<Rightarrow> int \<Rightarrow> int \<Rightarrow> current_user option \<Rightarrow> string option \<Rightarrow> string \<Rightarrow> whois_db \<Rightarrow> whois_reply \<times> whois_db" where
  "lookup_ip_route E flag now now2 user client_ip ip db =
     admin_guard (whois_guard user flag)
      (if ip = [] \<or> length ip > 45 then (Refused 400, db)
       else (case lookup_ip E now now2 ip client_ip False db of (d, db') \<Rightarrow> (Answered (whois_status d) (Whois_Result d), db'))) db"

text \<open>\<open>limit\<close> is the parameter as a number, \<open>None\<close> when it is none.\<close>

definition search_limit :: "int option \<Rightarrow> nat" where
  "search_limit limit = (case limit of None \<Rightarrow> 50 | Some n \<Rightarrow> (if n < 1 \<or> n > 1000 then 50 else nat n))"

definition search_route ::
  "bool \<Rightarrow> current_user option \<Rightarrow> string \<Rightarrow> string option \<Rightarrow> int option \<Rightarrow> whois_db \<Rightarrow> whois_reply \<times> whois_db" where
  "search_route flag user term search_field limit db =
     admin_guard (whois_guard user flag)
      (if py_strip term = [] then (Refused 400, db)
       else (Answered 200 (Whois_Found (search_whois (py_strip term) search_field (search_limit limit) db)), db)) db"

definition stats_route :: "bool \<Rightarrow> current_user option \<Rightarrow> whois_db \<Rightarrow> whois_reply \<times> whois_db" where
  "stats_route flag user db = admin_guard (whois_guard user flag) (Answered 200 (Whois_Counts (whois_stats db)), db) db"

text \<open>The job: the count of removed entries, \<open>None\<close> when the feature is off.\<close>

definition cleanup_job :: "whois_env \<Rightarrow> bool \<Rightarrow> int \<Rightarrow> whois_db \<Rightarrow> nat option \<times> whois_db" where
  "cleanup_job E flag now db =
     (if \<not> flag then (None, db) else (case cleanup_old_data E now None db of (n, db') \<Rightarrow> (Some n, db')))"

section \<open>Steps\<close>

datatype whois_cmd =
    Lookup_Domain int int string "string option" bool
  | Lookup_Ip int int string "string option" bool
  | Cleanup int "int option"

fun whois_step :: "whois_env \<Rightarrow> whois_cmd \<Rightarrow> whois_db \<Rightarrow> whois_data option \<times> whois_db" where
  "whois_step E (Lookup_Domain now now2 q ip force) db = map_prod Some id (lookup_domain E now now2 q ip force db)"
| "whois_step E (Lookup_Ip now now2 q ip force) db = map_prod Some id (lookup_ip E now now2 q ip force db)"
| "whois_step E (Cleanup now days) db = (None, snd (cleanup_old_data E now days db))"

section \<open>Invariant\<close>

text \<open>One row for a query, identifiers not given twice, and index rows of rows that exist.\<close>

definition whois_ok :: "whois_db \<Rightarrow> bool" where
  "whois_ok db \<longleftrightarrow> distinct (map wc_query (wb_cache db)) \<and> distinct (map wc_id (wb_cache db))
     \<and> (\<forall>c\<in>set (wb_cache db). wc_id c < wb_seq db) \<and> ix_whois_id ` set (wb_index db) \<subseteq> wc_id ` set (wb_cache db)"

lemma log_ok [simp]: "whois_ok (log_query q k h ip db) = whois_ok db"
  by (simp add: whois_ok_def log_query_def)

lemma map_keeps: "(\<And>x. f (g x) = f x) \<Longrightarrow> map f (map (\<lambda>x. if P x then g x else x) xs) = map f xs"
  by (induction xs) auto

lemma index_entries_id: "r \<in> set (index_entries now i d) \<Longrightarrow> ix_whois_id r = i"
  by (auto simp: index_entries_def Let_def split: option.splits if_splits)

lemma update_index_ok: "\<lbrakk> whois_ok db; i \<in> wc_id ` set (wb_cache db) \<rbrakk> \<Longrightarrow> whois_ok (update_search_index now i d db)"
  by (auto simp: whois_ok_def update_search_index_def dest!: index_entries_id)

lemma whois_ok_cong:
  assumes "map wc_query (wb_cache db') = map wc_query (wb_cache db)" "map wc_id (wb_cache db') = map wc_id (wb_cache db)"
    "wb_index db' = wb_index db" "wb_seq db' = wb_seq db"
  shows "whois_ok db' = whois_ok db"
proof -
  have "whois_ok x \<longleftrightarrow> distinct (map wc_query (wb_cache x)) \<and> distinct (map wc_id (wb_cache x))
     \<and> (\<forall>i\<in>set (map wc_id (wb_cache x)). i < wb_seq x) \<and> ix_whois_id ` set (wb_index x) \<subseteq> set (map wc_id (wb_cache x))" for x
    by (simp add: whois_ok_def)
  then show ?thesis by (simp only: assms)
qed

lemma stored_row_facts:
  assumes "stored_row now q kind d db = (i, db')" "whois_ok db"
  shows "whois_ok db' \<and> i \<in> wc_id ` set (wb_cache db') \<and> wb_index db' = wb_index db \<and> wb_log db' = wb_log db \<and>
    (\<exists>c\<in>set (wb_cache db'). wc_id c = i \<and> wc_query c = q \<and> wc_kind c = kind \<and> wc_data c = d \<and> wc_updated c = now) \<and>
    (\<forall>x. wc_query x \<noteq> q \<longrightarrow> (x \<in> set (wb_cache db') \<longleftrightarrow> x \<in> set (wb_cache db)))"
proof (cases "find (\<lambda>c. wc_query c = q) (wb_cache db)")
  case None
  then have n: "\<forall>c\<in>set (wb_cache db). wc_query c \<noteq> q" by (simp add: find_None_iff)
  from None assms(1) have "i = wb_seq db" "db' = db\<lparr> wb_cache := wb_cache db @ [\<lparr> wc_id = wb_seq db, wc_query = q, wc_kind = kind,
            wc_data = d, wc_updated = now \<rparr>], wb_seq := wb_seq db + 1 \<rparr>" by (auto simp: stored_row_def)
  then show ?thesis using assms(2) n by (auto simp: whois_ok_def)
next
  case (Some c)
  let ?g = "\<lambda>x. x\<lparr> wc_kind := kind, wc_data := d, wc_updated := now \<rparr>"
  have c: "c \<in> set (wb_cache db)" "wc_query c = q" using find_SomeD [OF Some] by auto
  from Some assms(1) have i: "i = wc_id c"
    and db': "db' = db\<lparr> wb_cache := map (\<lambda>x. if wc_id x = wc_id c then ?g x else x) (wb_cache db) \<rparr>" by (auto simp: stored_row_def)
  have m: "map wc_query (wb_cache db') = map wc_query (wb_cache db)" "map wc_id (wb_cache db') = map wc_id (wb_cache db)"
    unfolding db' by (simp_all add: map_keeps del: map_map)
  have uniq: "x = c" if "x \<in> set (wb_cache db)" "wc_id x = wc_id c" for x
    using assms(2) that c(1) unfolding whois_ok_def distinct_map by (metis inj_onD)
  have ids: "wc_id ` set (wb_cache db') = wc_id ` set (wb_cache db)" using m(2) by (metis set_map)
  have "whois_ok db'" using assms(2) whois_ok_cong [of db' db] m by (simp add: db')
  moreover have "?g c \<in> set (wb_cache db')" using c(1) by (force simp: db')
  moreover have "x \<in> set (wb_cache db') \<longleftrightarrow> x \<in> set (wb_cache db)" if "wc_query x \<noteq> q" for x
    using that c by (auto simp: db' image_iff dest: uniq)
  ultimately show ?thesis using c i ids db' by (auto intro!: bexI [of _ "?g c"])
qed

lemma cache_whois_facts:
  assumes "whois_ok db"
  shows "whois_ok (cache_whois_data now q kind d db) \<and> wb_log (cache_whois_data now q kind d db) = wb_log db \<and>
    (whois_storable d \<longrightarrow> (\<exists>c\<in>set (wb_cache (cache_whois_data now q kind d db)). wc_query c = q \<and> wc_kind c = kind \<and> wc_data c = d \<and> wc_updated c = now)) \<and>
    (\<forall>x. wc_query x \<noteq> q \<longrightarrow> (x \<in> set (wb_cache (cache_whois_data now q kind d db)) \<longleftrightarrow> x \<in> set (wb_cache db)))"
proof (cases "whois_storable d")
  case True
  obtain i db' where st: "stored_row now q kind d db = (i, db')" by fastforce
  note f = stored_row_facts [OF st assms]
  then show ?thesis
    using True st update_index_ok [of db' i now d]
    by (auto simp: cache_whois_data_def update_search_index_def split: whois_kind.split)
qed (use assms in \<open>simp add: cache_whois_data_def\<close>)

lemma lookup_ok: "whois_ok db \<Longrightarrow> whois_ok (snd (lookup E kind d now now2 q ip force db))"
  using cache_whois_facts by (auto simp: lookup_def split: option.split)

lemma lookup_others:
  "\<lbrakk> whois_ok db; wc_query x \<noteq> q \<rbrakk> \<Longrightarrow> x \<in> set (wb_cache (snd (lookup E kind d now now2 q ip force db))) \<longleftrightarrow> x \<in> set (wb_cache db)"
  using cache_whois_facts by (auto simp: lookup_def log_query_def split: option.split)

lemma cleanup_ok: "whois_ok db \<Longrightarrow> whois_ok (snd (cleanup_old_data E now days db))"
  by (auto simp: whois_ok_def cleanup_old_data_def Let_def distinct_map inj_on_def)

lemma whois_step_ok: "whois_ok db \<Longrightarrow> whois_ok (snd (whois_step E c db))"
  by (cases c) (simp_all add: lookup_domain_def lookup_ip_def lookup_ok cleanup_ok)

section \<open>Properties\<close>

text \<open>
  Over any sequence of lookups and cleanups the cache has one row for a query and every entry of the search index
  belongs to a row of the cache.
\<close>

theorem whois_index_refers:
  "whois_ok db \<Longrightarrow> whois_ok (snd (run_cmds (whois_step E) cs db))"
proof (induction cs arbitrary: db)
  case (Cons c cs)
  obtain r db1 where c: "whois_step E c db = (r, db1)" by fastforce
  with whois_step_ok [OF Cons.prems, of E c] Cons.IH [of db1] show ?case by (auto split: prod.splits)
qed simp

text \<open>
  A command that leaves a row for \<open>q\<close> written at that time alone: a lookup of another text, or a cleanup for which the row is
  not too old.
\<close>

definition spares :: "whois_env \<Rightarrow> string \<Rightarrow> int \<Rightarrow> whois_cmd \<Rightarrow> bool" where
  "spares E q written c =
     (case c of
        Lookup_Domain t t2 x ip f \<Rightarrow> x \<noteq> q
      | Lookup_Ip t t2 x ip f \<Rightarrow> x \<noteq> q
      | Cleanup t d \<Rightarrow> (let days = (case d of None \<Rightarrow> we_retention E | Some n \<Rightarrow> n) in days \<noteq> 0 \<and> t - days * DAY_US \<le> written))"

lemma cleanup_spares:
  assumes "whois_ok db" "spares E (wc_query r) (wc_updated r) (Cleanup t d)" "r \<in> set (wb_cache db)"
  shows "r \<in> set (wb_cache (snd (cleanup_old_data E t d db)))"
proof -
  have "wc_id x \<noteq> wc_id r" if "x \<in> set (wb_cache db)" "x \<noteq> r" for x
    using assms(1,3) that unfolding whois_ok_def distinct_map by (metis inj_onD)
  then show ?thesis using assms(2,3) by (fastforce simp: cleanup_old_data_def spares_def Let_def)
qed

lemma step_keeps_row:
  assumes "whois_ok db" "spares E (wc_query r) (wc_updated r) c" "r \<in> set (wb_cache db)"
  shows "r \<in> set (wb_cache (snd (whois_step E c db)))"
proof (cases c)
  case (Cleanup t d)
  have "snd (whois_step E c db) = snd (cleanup_old_data E t d db)" by (simp add: Cleanup)
  with cleanup_spares [OF assms(1) _ assms(3)] assms(2) show ?thesis by (simp add: Cleanup)
qed (use assms(2,3) lookup_others [OF assms(1)] in \<open>auto simp: spares_def lookup_domain_def lookup_ip_def\<close>)

lemma run_keeps_row:
  "\<lbrakk> whois_ok db; list_all (spares E (wc_query r) (wc_updated r)) cs; r \<in> set (wb_cache db) \<rbrakk>
    \<Longrightarrow> r \<in> set (wb_cache (snd (run_cmds (whois_step E) cs db))) \<and> whois_ok (snd (run_cmds (whois_step E) cs db))"
proof (induction cs arbitrary: db)
  case (Cons c cs)
  obtain x db1 where c: "whois_step E c db = (x, db1)" by fastforce
  have ok: "whois_ok db1" using whois_step_ok [OF Cons.prems(1), of E c] c by simp
  have "r \<in> set (wb_cache db1)" using step_keeps_row [OF Cons.prems(1), of E r c] Cons.prems(2,3) c by simp
  from Cons.IH [OF ok _ this] Cons.prems(2) c show ?case by (auto split: prod.splits)
qed simp

lemma cached_row:
  assumes "whois_ok db" "c \<in> set (wb_cache db)" "wc_updated c \<ge> now - we_retention E * DAY_US"
  shows "get_cached_whois E now (wc_query c) (wc_kind c) db = Some ((wc_data c)\<lparr> wd_cached := True \<rparr>)"
proof -
  let ?P = "\<lambda>x. wc_query x = wc_query c \<and> wc_kind x = wc_kind c \<and> wc_updated x \<ge> now - we_retention E * DAY_US"
  obtain x where x: "find ?P (wb_cache db) = Some x" using assms(2,3) find_NoneD [of ?P "wb_cache db" c] by fastforce
  then have "x \<in> set (wb_cache db)" "wc_query x = wc_query c" by (auto dest: find_SomeD)
  then have "x = c" using assms(1,2) unfolding whois_ok_def distinct_map by (metis inj_onD)
  with x show ?thesis by (simp add: get_cached_whois_def)
qed


text \<open>
  Removal is exact: the rows that stay are those younger than the retention, the count is the number of the others,
  and no entry of the search index is left without its row.
\<close>

theorem whois_cleanup_exact:
  assumes "cleanup_old_data E now (Some days) db = (n, db')" "0 < days" "whois_ok db"
  shows "wb_cache db' = filter (\<lambda>c. wc_updated c \<ge> now - days * DAY_US) (wb_cache db)
    \<and> n + length (wb_cache db') = length (wb_cache db)
    \<and> wb_index db' = filter (\<lambda>r. ix_whois_id r \<in> wc_id ` set (wb_cache db')) (wb_index db)"
proof -
  let ?old = "\<lambda>c. wc_updated c < now - days * DAY_US"
  let ?ids = "map wc_id (filter ?old (wb_cache db))"
  have n: "n = length ?ids" and db': "db' = db\<lparr> wb_index := filter (\<lambda>r. ix_whois_id r \<notin> set ?ids) (wb_index db),
       wb_cache := filter (\<lambda>c. wc_id c \<notin> set ?ids) (wb_cache db) \<rparr>"
    using assms(1,2) by (auto simp: cleanup_old_data_def Let_def)
  have uniq: "wc_id c \<in> set ?ids \<longleftrightarrow> ?old c" if "c \<in> set (wb_cache db)" for c
    using assms(3) that unfolding whois_ok_def distinct_map by (auto dest: inj_onD)
  then have cache: "wb_cache db' = filter (\<lambda>c. \<not> ?old c) (wb_cache db)" unfolding db' by (auto intro: filter_cong)
  moreover have "n + length (wb_cache db') = length (wb_cache db)" using cache n sum_length_filter_compl [of ?old "wb_cache db"] by simp
  moreover have "ix_whois_id r \<notin> set ?ids \<longleftrightarrow> ix_whois_id r \<in> wc_id ` set (wb_cache db')" if "r \<in> set (wb_index db)" for r
  proof -
    have "ix_whois_id r \<in> wc_id ` set (wb_cache db)" using assms(3) that by (auto simp: whois_ok_def)
    then obtain c where c: "c \<in> set (wb_cache db)" "wc_id c = ix_whois_id r" by auto
    have "wc_id x \<noteq> wc_id y" if "x \<in> set (wb_cache db)" "y \<in> set (wb_cache db)" "?old x" "\<not> ?old y" for x y
      using assms(3) that unfolding whois_ok_def distinct_map by (metis inj_onD)
    note sep = this
    show ?thesis
    proof (cases "?old c")
      case True
      then have "ix_whois_id r \<in> set ?ids" using c uniq [OF c(1)] by simp
      moreover have "ix_whois_id r \<notin> wc_id ` set (wb_cache db')" unfolding cache using sep [OF c(1)] True c(2) by force
      ultimately show ?thesis by simp
    next
      case False
      then have "ix_whois_id r \<notin> set ?ids" using c uniq [OF c(1)] by simp
      moreover have "ix_whois_id r \<in> wc_id ` set (wb_cache db')" unfolding cache using c False by (auto simp: image_iff)
      ultimately show ?thesis by simp
    qed
  qed
  then have "wb_index db' = filter (\<lambda>r. ix_whois_id r \<in> wc_id ` set (wb_cache db')) (wb_index db)"
    by (simp add: db' cong: filter_cong)
  ultimately show ?thesis by (simp add: not_less)
qed

text \<open>
  The cache has one row for a text, whatever its kind: looking an address up as an address removes what the cache knew
  of it as a domain, so the two lookups keep evicting each other, and the search index keeps the entries of the
  removed result for the row that now holds the other one.
\<close>

theorem other_kind_evicts:
  assumes "lookup_ip E now now2 q ip force db = (d, db1)" "wd_success d" "\<not> wd_cached d" "whois_storable d" "whois_ok db"
  shows "get_cached_whois E t q Domain_Query db1 = None \<and> wb_index db1 = wb_index db"
proof -
  have "lookup E Ip_Query (perform_ip_whois E q) now now2 q ip force db = (d, db1)"
    using assms(1,2) by (auto simp: lookup_ip_def whois_failure_def split: if_splits)
  then have d: "db1 = log_query q Ip_Query False ip (cache_whois_data now2 q Ip_Query d db)"
    using assms(2,3) by (auto simp: lookup_def get_cached_whois_def split: option.splits if_splits)
  obtain i db0 where st: "stored_row now2 q Ip_Query d db = (i, db0)" by fastforce
  then have c: "cache_whois_data now2 q Ip_Query d db = db0" using assms(4) by (simp add: cache_whois_data_def)
  note f = stored_row_facts [OF st assms(5)]
  then obtain c where c0: "c \<in> set (wb_cache db0)" "wc_query c = q" "wc_kind c = Ip_Query" by blast
  have "x = c" if "x \<in> set (wb_cache db0)" "wc_query x = q" for x
    using f c0 that unfolding whois_ok_def distinct_map by (metis inj_onD)
  then have "find (\<lambda>x. wc_query x = q \<and> wc_kind x = Domain_Query \<and> wc_updated x \<ge> t - we_retention E * DAY_US) (wb_cache db0) = None"
    using c0(3) by (auto simp: find_None_iff)
  then show ?thesis using f by (simp add: d c get_cached_whois_def log_query_def)
qed

lemma search_rows_sound:
  "i \<in> set (search_rows term seen rs) \<Longrightarrow> \<exists>r\<in>set rs. ix_whois_id r = i \<and> sublist term (py_lower (ix_value r))"
  by (induction rs arbitrary: seen) (auto split: if_splits)

text \<open>
  Everything a search returns is a row of the cache with an entry of the searched field whose value contains the term;
  it is looked for among the newest entries only, as many as the limit says, so it never returns more, and older
  matches are not found.
\<close>

theorem search_sound:
  "\<forall>(q, k, d)\<in>set (search_whois term f limit db).
     \<exists>c\<in>set (wb_cache db). \<exists>r\<in>set (search_window f limit db). wc_query c = q \<and> wc_kind c = k \<and> wc_data c = d
       \<and> ix_whois_id r = wc_id c \<and> sublist (py_lower term) (py_lower (ix_value r)) \<and> (truthy f \<longrightarrow> ix_field r = the f)"
proof (intro ballI, clarify)
  fix q k d assume "(q, k, d) \<in> set (search_whois term f limit db)"
  then obtain i c where i: "i \<in> set (search_rows (py_lower term) [] (search_window f limit db))"
    and c: "find (\<lambda>c. wc_id c = i) (wb_cache db) = Some c" "q = wc_query c" "k = wc_kind c" "d = wc_data c"
    by (auto simp: search_whois_def List.map_filter_def)
  from search_rows_sound [OF i] obtain r where r: "r \<in> set (search_window f limit db)" "ix_whois_id r = i"
    "sublist (py_lower term) (py_lower (ix_value r))" by blast
  moreover have "truthy f \<longrightarrow> ix_field r = the f" using r(1) by (auto simp: search_window_def dest!: in_set_takeD)
  moreover have "c \<in> set (wb_cache db)" "wc_id c = i" using find_SomeD [OF c(1)] by auto
  ultimately show "\<exists>c\<in>set (wb_cache db). \<exists>r\<in>set (search_window f limit db). wc_query c = q \<and> wc_kind c = k \<and> wc_data c = d
       \<and> ix_whois_id r = wc_id c \<and> sublist (py_lower term) (py_lower (ix_value r)) \<and> (truthy f \<longrightarrow> ix_field r = the f)"
    using c by (intro bexI [of _ c] bexI [of _ r]) simp_all
qed

section \<open>Examples\<close>

definition sample_whois_env :: whois_env where
  "sample_whois_env = \<lparr> we_whois = (\<lambda>d. Whois_Info (\<lambda>k. if k = ''registrar'' then Wv_Str ''Acme'' else Wv_None)),
     we_ipwhois = (\<lambda>i. Ip_Info (Some [(''name'', Wv_Str ''NET'')]) None), we_ip_ok = (\<lambda>s. s = ''1.2.3.4''),
     we_attribute_error = ''e'', we_retention = 30 \<rparr>"

definition empty_whois :: whois_db where
  "empty_whois = \<lparr> wb_cache = [], wb_index = [], wb_log = [], wb_seq = 1 \<rparr>"

definition sample_domain_lookup :: "whois_data \<times> whois_db" where
  "sample_domain_lookup = lookup_domain sample_whois_env 0 1 ''1.2.3.4'' None False empty_whois"

definition sample_ip_lookup :: "whois_data \<times> whois_db" where
  "sample_ip_lookup = lookup_ip sample_whois_env 2 3 ''1.2.3.4'' None False (snd sample_domain_lookup)"

lemma sample_whois_facts:
  "wd_success (fst sample_domain_lookup)" "\<not> wd_cached (fst sample_domain_lookup)" "whois_storable (fst sample_domain_lookup)"
  "wd_success (fst sample_ip_lookup)" "\<not> wd_cached (fst sample_ip_lookup)" "whois_storable (fst sample_ip_lookup)"
  "wb_index (snd sample_domain_lookup) = [\<lparr> ix_whois_id = 1, ix_field = ''registrar'', ix_value = ''acme'', ix_at = 1 \<rparr>]"
  by code_simp+

lemma sample_whois_ok: "whois_ok empty_whois" "whois_ok (snd sample_domain_lookup)"
proof -
  show "whois_ok empty_whois" by (simp add: whois_ok_def empty_whois_def)
  then show "whois_ok (snd sample_domain_lookup)"
    by (simp add: sample_domain_lookup_def lookup_domain_def lookup_ok)
qed

theorem whois_index_refers_witness:
  "whois_ok (snd (run_cmds (whois_step sample_whois_env)
     [Lookup_Domain 0 1 ''example.com'' None False, Lookup_Ip 2 3 ''1.2.3.4'' None True, Cleanup 4 None] empty_whois))"
  by (rule whois_index_refers [OF sample_whois_ok(1)])


theorem whois_cleanup_exact_witness:
  "wb_cache (snd (cleanup_old_data sample_whois_env 5 (Some 1) (snd sample_domain_lookup)))
   = filter (\<lambda>c. wc_updated c \<ge> 5 - 1 * DAY_US) (wb_cache (snd sample_domain_lookup))"
  using whois_cleanup_exact [OF prod.collapse [symmetric] _ sample_whois_ok(2), of 1 sample_whois_env 5] by simp

theorem other_kind_evicts_witness:
  "get_cached_whois sample_whois_env 4 ''1.2.3.4'' Domain_Query (snd sample_ip_lookup) = None
   \<and> wb_index (snd sample_ip_lookup) \<noteq> []"
proof -
  have "lookup_ip sample_whois_env 2 3 ''1.2.3.4'' None False (snd sample_domain_lookup) = (fst sample_ip_lookup, snd sample_ip_lookup)"
    by (simp add: sample_ip_lookup_def)
  from other_kind_evicts [OF this sample_whois_facts(4-6) sample_whois_ok(2)] show ?thesis using sample_whois_facts(7) by simp
qed

theorem search_sound_witness:
  "\<forall>(q, k, d)\<in>set (search_whois ''acme'' None 50 (snd sample_ip_lookup)).
     \<exists>c\<in>set (wb_cache (snd sample_ip_lookup)). \<exists>r\<in>set (search_window None 50 (snd sample_ip_lookup)). wc_query c = q \<and> wc_kind c = k
       \<and> wc_data c = d \<and> ix_whois_id r = wc_id c \<and> sublist (py_lower ''acme'') (py_lower (ix_value r))
       \<and> (truthy (None :: string option) \<longrightarrow> ix_field r = the None)"
  by (rule search_sound)

end
