(* ===== verification/Manager_Feeds.thy ===== *)
theory Manager_Feeds
  imports Manager_Network Ioc_Ingestion
begin

text \<open>
  The routes that administer threat feeds (\<^verbatim>\<open>blueprints/ioc_feeds.py\<close>) over the tables of \<^verbatim>\<open>Ioc_Ingestion\<close>.

  The caches in the state are those of the ingestion service the scheduler uses; a synchronisation builds a service of
  its own, whose caches are dropped. The description and the audit trail are left out; \<open>fe_fk\<close> is whether the
  database enforces foreign keys.
\<close>

section \<open>Guards\<close>

record ('net, 'addr) feed_env =
  fe_ip :: "('net, 'addr) ip_text"
  fe_decoders :: decoders
  fe_fetcher :: fetcher
  fe_flag :: bool
  fe_licensed :: bool
  fe_fk :: bool
  fe_interval :: int

datatype feed_body =
    Feed_Row mgr_feed
  | Feed_List "mgr_feed list"
  | Feed_Synced nat
  | Feed_Done

type_synonym feed_reply = "feed_body web_reply"

text \<open>The flag, and the licence for a format in the request; \<open>None\<close> is a request that is not JSON.\<close>

definition check_ioc_flag_and_license :: "('net, 'addr) feed_env \<Rightarrow> body option \<Rightarrow> outcome" where
  "check_ioc_flag_and_license E data =
     (if \<not> fe_flag E then Denied 403
      else (let fmt = (case data of None \<Rightarrow> JNull | Some d \<Rightarrow> json_get d ''format'')
            in if \<not> json_truthy fmt then Proceed
               else (case fmt of
                       JStr s \<Rightarrow> (if py_lower s \<in> set ENTERPRISE_FORMATS \<and> \<not> fe_licensed E then Denied 402 else Proceed)
                     | _ \<Rightarrow> Raised)))"

definition feed_writer ::
  "('net, 'addr) feed_env \<Rightarrow> current_user option \<Rightarrow> body option \<Rightarrow> (feed_reply \<times> 'net ioc_mgr) \<Rightarrow> 'net ioc_mgr \<Rightarrow> feed_reply \<times> 'net ioc_mgr" where
  "feed_writer E user data f s =
     admin_guard (requires_scope [''ioc:admin''] user) (admin_guard (check_ioc_flag_and_license E data) f s) s"

section \<open>Routes\<close>

definition feed_at :: "nat \<Rightarrow> 'net ioc_mgr \<Rightarrow> mgr_feed option" where
  "feed_at i s = find (\<lambda>f. mf_id f = i) (mfeeds s)"

definition list_ioc_feeds :: "current_user option \<Rightarrow> string option \<Rightarrow> string option \<Rightarrow> 'net ioc_mgr \<Rightarrow> feed_reply" where
  "list_ioc_feeds user active feed_ty s =
     (if user = None then Refused 401
      else Answered 200 (Feed_List
        (sort_key mf_name (filter (\<lambda>f. (case active of None \<Rightarrow> True | Some a \<Rightarrow> mf_active f = (py_lower a = ''true'')) \<and>
                     (if truthy feed_ty then mf_type f = the feed_ty else True)) (mfeeds s)))))"

definition get_ioc_feed :: "current_user option \<Rightarrow> nat \<Rightarrow> 'net ioc_mgr \<Rightarrow> feed_reply" where
  "get_ioc_feed user i s =
     (if user = None then Refused 401 else case feed_at i s of None \<Rightarrow> Refused 404 | Some f \<Rightarrow> Answered 200 (Feed_Row f))"

definition feed_types :: "json list" where
  "feed_types = map JStr [''domain'', ''ip'', ''url'', ''hash'']"

text \<open>The format is not among the columns a new feed gets.\<close>

definition created_feed :: "nat \<Rightarrow> string \<Rightarrow> string \<Rightarrow> string \<Rightarrow> int \<Rightarrow> bool \<Rightarrow> mgr_feed" where
  "created_feed i name url feed_ty interval active =
     \<lparr> mf_id = i, mf_name = name, mf_url = url, mf_type = feed_ty, mf_format = None, mf_active = active, mf_enabled = True,
       mf_interval = interval, mf_last_updated = None, mf_last_success = None, mf_entry_count = 0 \<rparr>"

definition create_ioc_feed ::
  "('net, 'addr) feed_env \<Rightarrow> current_user option \<Rightarrow> body option \<Rightarrow> 'net ioc_mgr \<Rightarrow> feed_reply \<times> 'net ioc_mgr" where
  "create_ioc_feed E user data s =
     admin_guard (requires_scope [''ioc:admin''] user)
      (validate_json [''name'', ''url'', ''feed_type''] data (\<lambda>d.
        admin_guard (check_ioc_flag_and_license E data)
         (if json_get d ''feed_type'' \<notin> set feed_types then (Refused 400, s)
          else if list_ex (\<lambda>f. JStr (mf_name f) = json_get d ''name'') (mfeeds s) then (Refused 409, s)
          else (case (col_text (json_get d ''name''), col_text (json_get d ''url''), col_text (json_get d ''feed_type''),
                      col_int (json_get_or d ''update_interval'' (JInt 24)), col_bool (json_get_or d ''active'' (JBool True))) of
                  (Some n, Some url, Some ty, Some interval, Some active) \<Rightarrow>
                    (let f = created_feed (feed_seq s) n url ty interval active
                     in (Answered 201 (Feed_Row f), s\<lparr> mfeeds := mfeeds s @ [f], feed_seq := feed_seq s + 1 \<rparr>))
                | _ \<Rightarrow> (Crashed, s))) s) s) s"

text \<open>\<^verbatim>\<open>int(v)\<close> of a JSON value.\<close>

definition py_int_of :: "json \<Rightarrow> int option" where
  "py_int_of v = (case v of JInt i \<Rightarrow> Some i | JBool b \<Rightarrow> Some (if b then 1 else 0) | JStr t \<Rightarrow> py_int t | _ \<Rightarrow> None)"

definition update_ioc_feed ::
  "('net, 'addr) feed_env \<Rightarrow> current_user option \<Rightarrow> nat \<Rightarrow> body option \<Rightarrow> 'net ioc_mgr \<Rightarrow> feed_reply \<times> 'net ioc_mgr" where
  "update_ioc_feed E user i data s =
     feed_writer E user data
      (case feed_at i s of
         None \<Rightarrow> (Refused 404, s)
       | Some f \<Rightarrow>
           get_json data (\<lambda>d.
             case (patched d ''url'' col_text (mf_url f), patched d ''update_interval'' py_int_of (mf_interval f)) of
               (Some url, Some interval) \<Rightarrow>
                 (let f' = f\<lparr> mf_url := url, mf_interval := interval,
                              mf_active := (if has_key d ''active'' then json_truthy (json_get d ''active'') else mf_active f) \<rparr>
                  in (Answered 200 (Feed_Row f'), s\<lparr> mfeeds := map (\<lambda>g. if mf_id g = i then f' else g) (mfeeds s) \<rparr>))
             | _ \<Rightarrow> (Crashed, s)) s) s"

text \<open>Without enforcement of the foreign key the entries stay.\<close>

definition delete_ioc_feed ::
  "('net, 'addr) feed_env \<Rightarrow> current_user option \<Rightarrow> nat \<Rightarrow> body option \<Rightarrow> 'net ioc_mgr \<Rightarrow> feed_reply \<times> 'net ioc_mgr" where
  "delete_ioc_feed E user i data s =
     feed_writer E user data
      (case feed_at i s of
         None \<Rightarrow> (Refused 404, s)
       | Some f \<Rightarrow>
           (Answered 200 Feed_Done,
            (if fe_fk E then delete_entries i s else s)\<lparr> mfeeds := filter (\<lambda>g. mf_id g \<noteq> i) (mfeeds s) \<rparr>)) s"

text \<open>The tables after an ingestion by another instance of the service.\<close>

definition with_tables :: "'net ioc_mgr \<Rightarrow> 'net ioc_mgr \<Rightarrow> 'net ioc_mgr" where
  "with_tables s t = s\<lparr> mfeeds := mfeeds t, mentries := mentries t, feed_seq := feed_seq t, entry_seq := entry_seq t \<rparr>"

text \<open>The reply and the tables after the ingestion: with its success the times of the feed are set.\<close>

definition sync_outcome :: "int \<Rightarrow> nat \<Rightarrow> 'net ioc_mgr \<Rightarrow> feed_result \<times> 'net ioc_mgr \<Rightarrow> feed_reply \<times> 'net ioc_mgr" where
  "sync_outcome now i s ingested =
     (let s' = with_tables s (snd ingested);
          stamped = s'\<lparr> mfeeds := map (\<lambda>g. if mf_id g = i
              then g\<lparr> mf_last_updated := Some now, mf_last_success := Some now \<rparr> else g) (mfeeds s') \<rparr>
      in case fst ingested of
           Failed e \<Rightarrow> (Refused 500, s')
         | NoIndicators \<Rightarrow> (Answered 200 (Feed_Synced 0), stamped)
         | Added n \<Rightarrow> (Answered 200 (Feed_Synced n), stamped))"

definition trigger_ioc_feed_sync ::
  "('net, 'addr) feed_env \<Rightarrow> int \<Rightarrow> current_user option \<Rightarrow> nat \<Rightarrow> body option \<Rightarrow> 'net ioc_mgr \<Rightarrow> feed_reply \<times> 'net ioc_mgr" where
  "trigger_ioc_feed_sync E now user i data s =
     feed_writer E user data
      (case feed_at i s of
         None \<Rightarrow> (Refused 404, s)
       | Some f \<Rightarrow>
           (if py_strip (mf_url f) = [] then (Refused 400, s)
            else if \<not> assert_feed_url_safe (fe_fetcher E) (mf_url f) then (Refused 500, s)
            else (case http_get (fe_fetcher E) (mf_url f) of
                    None \<Rightarrow> (Refused 500, s)
                  | Some (status, content) \<Rightarrow>
                      (if status \<noteq> 200 then (Refused 500, s)
                       else sync_outcome now i s (update_feed_from_content (fe_ip E) (fe_decoders E) None (fe_interval E) now
                              (mf_name f) content (mf_type f) (the (py_or (mf_format f) (Some ''txt''))) s))))) s"

section \<open>Steps\<close>

datatype feed_cmd =
    Create_Feed "current_user option" "body option"
  | Update_Feed "current_user option" nat "body option"
  | Delete_Feed "current_user option" nat "body option"
  | Sync_Feed int "current_user option" nat "body option"
  | Scheduled_Update int

fun feed_step :: "('net, 'addr) feed_env \<Rightarrow> feed_cmd \<Rightarrow> 'net ioc_mgr \<Rightarrow> feed_reply \<times> 'net ioc_mgr" where
  "feed_step E (Create_Feed user data) s = create_ioc_feed E user data s"
| "feed_step E (Update_Feed user i data) s = update_ioc_feed E user i data s"
| "feed_step E (Delete_Feed user i data) s = delete_ioc_feed E user i data s"
| "feed_step E (Sync_Feed now user i data) s = trigger_ioc_feed_sync E now user i data s"
| "feed_step E (Scheduled_Update now) s =
     (Answered 200 Feed_Done, snd (update_all_feeds (fe_ip E) (fe_decoders E) (fe_fetcher E) now s))"

section \<open>The tables stay well formed\<close>

lemma new_feed_tables:
  assumes "tables_ok L s" "mf_id f = feed_seq s" "\<forall>g\<in>set (mfeeds s). mf_name g \<noteq> mf_name f"
  shows "tables_ok L (s\<lparr> mfeeds := mfeeds s @ [f], feed_seq := feed_seq s + 1 \<rparr>)"
  using assms less_SucI by (fastforce simp: tables_ok_def)

lemma create_feed_tables: "tables_ok L s \<Longrightarrow> tables_ok L (snd (create_ioc_feed E user data s))"
  unfolding create_ioc_feed_def
  by (intro guard_inv [where P = "tables_ok L"] validate_inv [where P = "tables_ok L"])
    (auto simp: Let_def created_feed_def list_ex_iff col_text_def split: option.split json.splits intro!: new_feed_tables [unfolded Suc_eq_plus1 [symmetric]])

lemma tables_ok_cong:
  assumes "map mf_id (mfeeds t) = map mf_id (mfeeds s)" "map mf_name (mfeeds t) = map mf_name (mfeeds s)"
    "feed_seq t = feed_seq s" "mentries t = mentries s"
  shows "tables_ok L t = tables_ok L s"
proof -
  have "tables_ok L x \<longleftrightarrow> distinct (map mf_id (mfeeds x)) \<and> distinct (map mf_name (mfeeds x)) \<and>
     (\<forall>i\<in>set (map mf_id (mfeeds x)). i < feed_seq x) \<and>
     (\<forall>e\<in>set (mentries x). me_feed_id e \<in> set (map mf_id (mfeeds x)) \<and> typed_indicator L (me_type e) (me_indicator e))" for x
    by (auto simp: tables_ok_def)
  then show ?thesis by (simp only: assms)
qed

lemma map_feed_tables:
  assumes "tables_ok L s" "\<And>g. g \<in> set (mfeeds s) \<Longrightarrow> mf_id g = i \<Longrightarrow> mf_id (h g) = i \<and> mf_name (h g) = mf_name g"
  shows "tables_ok L (s\<lparr> mfeeds := map (\<lambda>g. if mf_id g = i then h g else g) (mfeeds s) \<rparr>)"
proof (subst tables_ok_cong [of _ s])
  show "map mf_id (mfeeds (s\<lparr> mfeeds := map (\<lambda>g. if mf_id g = i then h g else g) (mfeeds s) \<rparr>)) = map mf_id (mfeeds s)"
    "map mf_name (mfeeds (s\<lparr> mfeeds := map (\<lambda>g. if mf_id g = i then h g else g) (mfeeds s) \<rparr>)) = map mf_name (mfeeds s)"
    using assms(2) by auto
qed (use assms(1) in simp_all)

lemma feed_at_unique: "\<lbrakk> tables_ok L s; feed_at i s = Some f; g \<in> set (mfeeds s); mf_id g = i \<rbrakk> \<Longrightarrow> g = f"
proof -
  assume ok: "tables_ok L s" and f: "feed_at i s = Some f" and g: "g \<in> set (mfeeds s)" "mf_id g = i"
  have "f \<in> set (mfeeds s)" "mf_id f = i" using f by (auto simp: feed_at_def dest: find_SomeD)
  with ok g show "g = f" unfolding tables_ok_def distinct_map by (metis inj_onD)
qed

lemma update_feed_tables: "tables_ok L s \<Longrightarrow> tables_ok L (snd (update_ioc_feed E user i data s))"
proof -
  assume ok: "tables_ok L s"
  show ?thesis unfolding update_ioc_feed_def feed_writer_def
    by (intro guard_inv [where P = "tables_ok L"] find_inv [where P = "tables_ok L"] get_inv [where P = "tables_ok L"] ok)
      (auto simp: ok Let_def split: option.split intro!: map_feed_tables dest: feed_at_unique [OF ok])
qed

lemma delete_feed_tables: "\<lbrakk> tables_ok L s; fe_fk E \<rbrakk> \<Longrightarrow> tables_ok L (snd (delete_ioc_feed E user i data s))"
  unfolding delete_ioc_feed_def feed_writer_def
  by (intro guard_inv [where P = "tables_ok L"] find_inv [where P = "tables_ok L"])
    (auto simp: tables_ok_def delete_entries_def distinct_map_filter)

lemma with_tables_ok: "tables_ok L (with_tables s t) = tables_ok L t"
  by (simp add: tables_ok_def with_tables_def)

lemma update_content_tables:
  "tables_ok ipv4_text s \<Longrightarrow> tables_ok ipv4_text (snd (update_feed_from_content ipv4_text D license interval now name content ty fmt s))"
  by (rule ip4t.content_ok)

lemma sync_outcome_tables: "tables_ok L (snd p) \<Longrightarrow> tables_ok L (snd (sync_outcome now i s p))"
proof -
  assume "tables_ok L (snd p)"
  then have ok: "tables_ok L (with_tables s (snd p))" by (simp add: with_tables_ok)
  from map_feed_tables [OF this, of i "\<lambda>g. g\<lparr> mf_last_updated := Some now, mf_last_success := Some now \<rparr>"] ok
  show ?thesis by (simp add: sync_outcome_def Let_def split: feed_result.split)
qed

lemma sync_feed_tables:
  assumes "tables_ok ipv4_text s" "fe_ip E = ipv4_text"
  shows "tables_ok ipv4_text (snd (trigger_ioc_feed_sync E now user i data s))"
  unfolding trigger_ioc_feed_sync_def feed_writer_def assms(2)
  by (intro guard_inv [where P = "tables_ok ipv4_text"] find_inv [where P = "tables_ok ipv4_text"] assms(1))
    (simp_all add: assms(1) sync_outcome_tables update_content_tables split: option.split)

theorem feed_routes_keep_tables:
  assumes "tables_ok ipv4_text s" "fe_ip E = ipv4_text" "fe_fk E"
  shows "tables_ok ipv4_text (snd (run_cmds (feed_step E) cs s))"
  using assms(1)
proof (induction cs arbitrary: s)
  case (Cons c cs)
  obtain r s1 where c: "feed_step E c s = (r, s1)" by fastforce
  have "tables_ok ipv4_text (snd (feed_step E c s))"
    using Cons.prems assms(2,3) ip4t.update_all_ok
    by (cases c) (simp_all add: create_feed_tables update_feed_tables delete_feed_tables sync_feed_tables)
  with c Cons.IH [of s1] show ?case by (auto split: prod.splits)
qed simp

section \<open>Feeds without a format\<close>

text \<open>Feed \<open>i\<close> was created and has no format, if it still exists.\<close>

definition formatless :: "nat \<Rightarrow> 'net ioc_mgr \<Rightarrow> bool" where
  "formatless i s \<longleftrightarrow> i < feed_seq s \<and> (\<forall>g\<in>set (mfeeds s). mf_id g = i \<longrightarrow> mf_format g = None \<and> mf_enabled g)"

lemma formatless_map:
  "\<lbrakk> formatless i s; \<And>g. mf_id (h g) = mf_id g \<and> mf_format (h g) = mf_format g \<and> mf_enabled (h g) = mf_enabled g \<rbrakk>
    \<Longrightarrow> formatless i (s\<lparr> mfeeds := map (\<lambda>g. if c g then h g else g) (mfeeds s) \<rparr>)"
  by (auto simp: formatless_def)

lemma formatless_content:
  assumes "formatless i s"
  shows "formatless i (snd (update_feed_from_content L D license interval now name content ty fmt s))"
  using assms
  by (auto simp: update_feed_from_content_def formatless_def Let_def insert_feed_def delete_entries_def insert_entries_fields new_feed_def
      split: sum.splits option.splits)

lemma formatless_create: "formatless i s \<Longrightarrow> formatless i (snd (create_ioc_feed E user data s))"
  unfolding create_ioc_feed_def
  by (intro guard_inv [where P = "formatless i"] validate_inv [where P = "formatless i"])
    (auto simp: Let_def formatless_def created_feed_def split: option.split)

lemma formatless_update: "formatless i s \<Longrightarrow> formatless i (snd (update_ioc_feed E user j data s))"
  unfolding update_ioc_feed_def feed_writer_def
  by (intro guard_inv [where P = "formatless i"] find_inv [where P = "formatless i"] get_inv [where P = "formatless i"])
    (auto simp: formatless_def Let_def feed_at_def split: option.split dest!: find_SomeD)

lemma formatless_delete: "formatless i s \<Longrightarrow> formatless i (snd (delete_ioc_feed E user j data s))"
  unfolding delete_ioc_feed_def feed_writer_def
  by (intro guard_inv [where P = "formatless i"] find_inv [where P = "formatless i"])
    (auto simp: formatless_def delete_entries_def)

lemma formatless_with: "formatless i (with_tables s t) = formatless i t"
  by (simp add: formatless_def with_tables_def)

lemma formatless_outcome: "formatless i (snd p) \<Longrightarrow> formatless i (snd (sync_outcome now j s p))"
proof -
  assume "formatless i (snd p)"
  then have ok: "formatless i (with_tables s (snd p))" by (simp add: formatless_with)
  from formatless_map [OF this, of "\<lambda>g. g\<lparr> mf_last_updated := Some now, mf_last_success := Some now \<rparr>" "\<lambda>g. mf_id g = j"] ok
  show ?thesis by (simp add: sync_outcome_def Let_def split: feed_result.split)
qed

lemma formatless_sync: "formatless i s \<Longrightarrow> formatless i (snd (trigger_ioc_feed_sync E now user j data s))"
  unfolding trigger_ioc_feed_sync_def feed_writer_def
  by (intro guard_inv [where P = "formatless i"] find_inv [where P = "formatless i"])
    (simp_all add: formatless_outcome formatless_content split: option.split)

lemma single_feeds:
  "update_single_feed L D F now f s = Inr s' \<Longrightarrow> feed_seq s' = feed_seq s \<and>
     (\<exists>t n. mfeeds s' = map (\<lambda>g. if mf_id g = mf_id f then g\<lparr> mf_last_updated := t, mf_last_success := t, mf_entry_count := n \<rparr> else g) (mfeeds s))"
  by (fastforce simp: update_single_feed_def Let_def insert_entries_fields delete_entries_def split: if_splits option.splits sum.splits)

lemma formatless_one: "formatless i s \<Longrightarrow> formatless i (snd (update_one L D F now f (c, s)))"
  by (auto simp: update_one_def formatless_def dest!: single_feeds split: sum.split)

lemma formatless_fold: "formatless i s \<Longrightarrow> formatless i (snd (fold (update_one L D F now) fs (c, s)))"
proof (induction fs arbitrary: c s)
  case (Cons f fs)
  obtain c' s' where u: "update_one L D F now f (c, s) = (c', s')" by fastforce
  with formatless_one [OF Cons.prems, of L D F now f c] Cons.IH [of s' c'] show ?case by simp
qed simp

lemma formatless_rebuild [simp]: "formatless i (rebuild_cache L now s) = formatless i s"
  by (simp add: formatless_def)

lemma formatless_scheduled: "formatless i s \<Longrightarrow> formatless i (snd (update_all_feeds L D F now s))"
  using formatless_fold [of i s L D F now "filter mf_enabled (mfeeds s)" "\<lparr> uc_updated = 0, uc_skipped = 0, uc_failed = 0 \<rparr>"]
  by (auto simp: update_all_feeds_def split: prod.splits)

lemma formatless_step: "formatless i s \<Longrightarrow> formatless i (snd (feed_step E c s))"
  by (cases c) (simp_all add: formatless_create formatless_update formatless_delete formatless_sync formatless_scheduled)

lemma formatless_run: "formatless i s \<Longrightarrow> formatless i (snd (run_cmds (feed_step E) cs s))"
proof (induction cs arbitrary: s)
  case (Cons c cs)
  obtain r s1 where "feed_step E c s = (r, s1)" by fastforce
  with formatless_step [OF Cons.prems, of E c] Cons.IH [of s1] show ?case by (auto split: prod.splits)
qed simp

lemma insert_entries_feed:
  "e \<in> set (mentries (insert_entries fid fmt now inds s)) \<Longrightarrow> e \<in> set (mentries s) \<or> me_feed_id e = fid"
  using insert_entries_set by blast

text \<open>Nothing is stored for feed \<open>i\<close>.\<close>

definition no_entries :: "nat \<Rightarrow> 'net ioc_mgr \<Rightarrow> bool" where
  "no_entries i s \<longleftrightarrow> (\<forall>e\<in>set (mentries s). me_feed_id e \<noteq> i)"

lemma single_no_entries:
  assumes "update_single_feed L D F now f s = Inr s'" "mf_id f = i \<Longrightarrow> mf_format f = None" "mf_id f \<noteq> i \<Longrightarrow> no_entries i s"
  shows "no_entries i s'"
proof -
  obtain inds content where p: "parse_feed_content L D content (mf_type f) (the (py_or (mf_format f) (Some []))) = Inr inds"
    and s': "mentries s' = mentries (insert_entries (mf_id f) (mf_format f) now inds (delete_entries (mf_id f) s))"
    using assms(1) by (auto simp: update_single_feed_def Let_def split: if_splits option.splits sum.splits)
  show ?thesis
  proof (cases "mf_id f = i")
    case True
    then have "inds = []" using p assms(2) by (simp add: parse_feed_content_def py_or_def)
    then show ?thesis using True s' by (simp add: no_entries_def insert_entries_def delete_entries_def)
  next
    case False
    then show ?thesis using assms(3) insert_entries_feed s' by (fastforce simp: no_entries_def delete_entries_def)
  qed
qed

lemma one_no_entries:
  "\<lbrakk> no_entries i s; mf_id f = i \<Longrightarrow> mf_format f = None \<rbrakk> \<Longrightarrow> no_entries i (snd (update_one L D F now f (c, s)))"
  by (auto simp: update_one_def intro: single_no_entries split: sum.split)

lemma fold_no_entries:
  "\<lbrakk> no_entries i s; \<forall>f\<in>set fs. mf_id f = i \<longrightarrow> mf_format f = None \<rbrakk> \<Longrightarrow> no_entries i (snd (fold (update_one L D F now) fs (c, s)))"
proof (induction fs arbitrary: c s)
  case (Cons f fs)
  obtain c' s' where u: "update_one L D F now f (c, s) = (c', s')" by fastforce
  with one_no_entries [of i s f L D F now c] Cons.IH [of s' c'] Cons.prems show ?case by simp
qed simp

lemma fold_clears:
  assumes "f \<in> set fs" "mf_id f = i" "feed_due now f" "assert_feed_url_safe F (mf_url f)" "http_get F (mf_url f) = Some (200, content)"
    "\<forall>f\<in>set fs. mf_id f = i \<longrightarrow> mf_format f = None"
  shows "no_entries i (snd (fold (update_one L D F now) fs (c, s)))"
  using assms(1,6)
proof (induction fs arbitrary: c s)
  case (Cons g fs)
  obtain c' s' where u: "update_one L D F now g (c, s) = (c', s')" by fastforce
  show ?case
  proof (cases "g = f")
    case True
    have none: "mf_format f = None" using Cons.prems(2) True assms(2) by simp
    obtain t where t: "update_single_feed L D F now f s = Inr t"
      using assms(4,5) none by (simp add: update_single_feed_def parse_feed_content_def py_or_def Let_def)
    have "s' = t" using u True assms(3) t by (simp add: update_one_def)
    then have "no_entries i s'" using single_no_entries [OF t none] assms(2) by simp
    with fold_no_entries [of i s' fs L D F now c'] u Cons.prems(2) show ?thesis by simp
  next
    case False
    then show ?thesis using Cons u by simp
  qed
qed simp

text \<open>
  C37. A feed created over the API is emptied by the scheduler: the route stores no format, nothing sets one later, and to
  the scheduled update a feed without a format is one without indicators. Whatever was done with the feed in between,
  the synchronisations that filled it included, the next update that reaches its URL leaves it with no entries.
\<close>

theorem scheduled_update_empties_feed:
  assumes "create_ioc_feed E user data s = (Answered n (Feed_Row f), s1)" "tables_ok ipv4_text s"
    "s2 = snd (run_cmds (feed_step E) cs s1)" "feed_at (mf_id f) s2 = Some g" "feed_due now g"
    "assert_feed_url_safe (fe_fetcher E) (mf_url g)" "http_get (fe_fetcher E) (mf_url g) = Some (200, content)"
  shows "no_entries (mf_id f) (snd (feed_step E (Scheduled_Update now) s2))"
proof -
  have f: "mf_id f = feed_seq s" "s1 = s\<lparr> mfeeds := mfeeds s @ [f], feed_seq := feed_seq s + 1 \<rparr>" "mf_format f = None" "mf_enabled f"
    using assms(1) by (auto simp: create_ioc_feed_def validate_json_def admin_guard_def Let_def created_feed_def
        split: outcome.splits option.splits if_splits)
  have "formatless (mf_id f) s1" using assms(2) f by (auto simp: formatless_def tables_ok_def)
  then have fl: "formatless (mf_id f) s2" using formatless_run assms(3) by blast
  have g: "g \<in> set (mfeeds s2)" "mf_id g = mf_id f" using assms(4) by (auto simp: feed_at_def dest: find_SomeD)
  then have en: "g \<in> set (filter mf_enabled (mfeeds s2))" using fl by (auto simp: formatless_def)
  have "no_entries (mf_id f) (snd (fold (update_one (fe_ip E) (fe_decoders E) (fe_fetcher E) now) (filter mf_enabled (mfeeds s2))
      (\<lparr> uc_updated = 0, uc_skipped = 0, uc_failed = 0 \<rparr>, s2)))"
    by (rule fold_clears [OF en g(2) assms(5-7)]) (use fl in \<open>auto simp: formatless_def\<close>)
  then show ?thesis by (auto simp: update_all_feeds_def no_entries_def split: prod.splits)
qed

text \<open>
  Without enforced foreign keys a deleted feed goes on blocking: its entries stay, and every rebuild of the caches
  loads them again.
\<close>

theorem deleted_feed_keeps_blocking:
  assumes "delete_ioc_feed E user i data s = (Answered n b, s1)" "\<not> fe_fk E" "e \<in> set (mentries s)" "me_type e = ''domain''"
  shows "me_indicator e \<in> c_domains (rebuild_cache L now s1)"
proof -
  have "mentries s1 = mentries s" using assms(1,2)
    by (auto simp: delete_ioc_feed_def feed_writer_def admin_guard_def split: outcome.splits option.splits)
  then show ?thesis using assms(3,4) by (auto simp: rebuild_cache_def load_overrides_def Let_def)
qed

section \<open>Examples\<close>

definition sample_feed_env :: "(nat \<times> nat, nat) feed_env" where
  "sample_feed_env = \<lparr> fe_ip = ipv4_text, fe_decoders = demo_decoders,
     fe_fetcher = \<lparr> url_parts = (\<lambda>u. (''https'', Some ''f.org'')), allow_private = True, resolve_host = (\<lambda>u. None),
       disallowed = (\<lambda>a. False), http_get = (\<lambda>u. Some (200, ''evil.example'')) \<rparr>,
     fe_flag = True, fe_licensed = False, fe_fk = True, fe_interval = 6 \<rparr>"

definition feed_admin :: "current_user option" where
  "feed_admin = sample_caller ''ioc:admin'' ''SystemAdmin'' []"

definition feed_data :: "body option" where
  "feed_data = Some [(''name'', JStr ''f''), (''url'', JStr ''https://f.org''), (''feed_type'', JStr ''domain'')]"

definition sample_feed_created :: "feed_reply \<times> (nat \<times> nat) ioc_mgr" where
  "sample_feed_created = create_ioc_feed sample_feed_env feed_admin feed_data ioc_mgr_init"

definition sample_feed_synced :: "(nat \<times> nat) ioc_mgr" where
  "sample_feed_synced = snd (run_cmds (feed_step sample_feed_env) [Sync_Feed 5 feed_admin 1 None] (snd sample_feed_created))"

definition sample_feed :: mgr_feed where
  "sample_feed = created_feed 1 ''f'' ''https://f.org'' ''domain'' 24 True"

lemma sample_feed_reply: "fst sample_feed_created = Answered 201 (Feed_Row sample_feed)"
  by code_simp

definition probe_feed :: "(nat \<times> nat) ioc_mgr \<Rightarrow> mgr_feed option \<times> (string \<times> string) list \<times> feed_reply" where
  "probe_feed db = (feed_at 1 db, map (\<lambda>e. (me_indicator e, me_type e)) (mentries db),
     fst (delete_ioc_feed (sample_feed_env\<lparr> fe_fk := False \<rparr>) feed_admin 1 None db))"

lemma sample_feed_synced_facts:
  "probe_feed sample_feed_synced
   = (Some (sample_feed\<lparr> mf_last_updated := Some 5, mf_last_success := Some 5 \<rparr>), [(''evil.example'', ''domain'')],
      Answered 200 Feed_Done)"
  by code_simp

lemma sample_feed_at: "feed_at 1 sample_feed_synced = Some (sample_feed\<lparr> mf_last_updated := Some 5, mf_last_success := Some 5 \<rparr>)"
  using sample_feed_synced_facts by (simp add: probe_feed_def)

lemma sample_feed_id: "mf_id sample_feed = 1"
  by (simp add: sample_feed_def created_feed_def)

lemma sample_feed_deleted: "fst (delete_ioc_feed (sample_feed_env\<lparr> fe_fk := False \<rparr>) feed_admin 1 None sample_feed_synced) = Answered 200 Feed_Done"
  using sample_feed_synced_facts by (simp add: probe_feed_def)

lemma sample_feed_entries: "map (\<lambda>e. (me_indicator e, me_type e)) (mentries sample_feed_synced) = [(''evil.example'', ''domain'')]"
  using sample_feed_synced_facts by (simp add: probe_feed_def)

lemma empty_tables_ok: "tables_ok ipv4_text ioc_mgr_init"
  by (simp add: tables_ok_def ioc_mgr_init_def)

theorem feed_routes_keep_tables_witness:
  "tables_ok ipv4_text (snd (run_cmds (feed_step sample_feed_env)
     [Create_Feed feed_admin feed_data, Sync_Feed 5 feed_admin 1 None, Delete_Feed feed_admin 1 None] ioc_mgr_init))"
  by (rule feed_routes_keep_tables [OF empty_tables_ok]) (simp_all add: sample_feed_env_def)

theorem scheduled_update_empties_feed_witness:
  "mentries sample_feed_synced \<noteq> [] \<and>
   no_entries 1 (snd (feed_step sample_feed_env (Scheduled_Update 90000000000) sample_feed_synced))"
proof
  have c: "create_ioc_feed sample_feed_env feed_admin feed_data ioc_mgr_init = (Answered 201 (Feed_Row sample_feed), snd sample_feed_created)"
    using sample_feed_reply by (simp add: sample_feed_created_def prod_eq_iff)
  have "feed_due 90000000000 (sample_feed\<lparr> mf_last_updated := Some 5, mf_last_success := Some 5 \<rparr>)"
    by (simp add: feed_due_def sample_feed_def created_feed_def)
  from scheduled_update_empties_feed [OF c empty_tables_ok sample_feed_synced_def _ this]
  show "no_entries 1 (snd (feed_step sample_feed_env (Scheduled_Update 90000000000) sample_feed_synced))"
    using sample_feed_at sample_feed_id by (simp add: sample_feed_env_def assert_feed_url_safe_def truthy_def del: feed_step.simps)
qed (use sample_feed_entries in auto)

theorem deleted_feed_keeps_blocking_witness:
  "''evil.example'' \<in> c_domains (rebuild_cache ipv4_text 9
     (snd (delete_ioc_feed (sample_feed_env\<lparr> fe_fk := False \<rparr>) feed_admin 1 None sample_feed_synced)))"
proof -
  have "(''evil.example'', ''domain'') \<in> (\<lambda>e. (me_indicator e, me_type e)) ` set (mentries sample_feed_synced)"
    using arg_cong [OF sample_feed_entries, of set] by simp
  then obtain e where e: "e \<in> set (mentries sample_feed_synced)" "me_indicator e = ''evil.example''" and t: "me_type e = ''domain''" by auto
  have d: "delete_ioc_feed (sample_feed_env\<lparr> fe_fk := False \<rparr>) feed_admin 1 None sample_feed_synced
      = (Answered 200 Feed_Done, snd (delete_ioc_feed (sample_feed_env\<lparr> fe_fk := False \<rparr>) feed_admin 1 None sample_feed_synced))"
    using sample_feed_deleted by (simp add: prod_eq_iff)
  from deleted_feed_keeps_blocking [OF d _ e(1) t] show ?thesis using e(2) by simp
qed

end
