(* ===== verification/Doh_Client.thy ===== *)
theory Doh_Client
  imports Py_Regex "HOL-Library.Multiset"
begin

text \<open>
  The command-line client (\<^verbatim>\<open>squawk-client/bins/client.py\<close>): checks of names, record types and server addresses, the
  DNS-over-HTTPS client with its failover, the gRPC client with its fallback, and the settings of \<^verbatim>\<open>main\<close>.

  Parameters: the URL parser and printer, the IPv6 half of \<^verbatim>\<open>ipaddress\<close>, the file system, and what the network answers,
  as a function of the number of the request and the server. Requests and pauses are recorded as events.
\<close>

section \<open>Names and record types\<close>

datatype name_error =
    Name_Empty
  | Name_Too_Long nat
  | Name_Characters
  | Label_Empty nat
  | Label_Too_Long string
  | Label_Invalid string
  | Label_Hyphens string

definition invalid_chars :: "char set" where
  "invalid_chars = set (CHR 0x22 # CHR 0x27 # CHR 0x5C # CHR 0x60 # '' !@#$%^&*()+={}[]|:;<>,?/~'')"

text \<open>Label \<open>i\<close> of a name; \<open>final\<close> is whether it is the last one.\<close>

definition check_label :: "nat \<Rightarrow> bool \<Rightarrow> string \<Rightarrow> name_error option" where
  "check_label i final label =
     (if label = [] then Some (Label_Empty i)
      else if length label > 63 then Some (Label_Too_Long label)
      else if final \<and> label = ''arpa'' then None
      else if \<not> re_dollar label_pattern label then
        (if py_startswith label ''xn--'' then None else Some (Label_Invalid label))
      else if sublist ''--'' label \<and> \<not> py_startswith label ''xn--'' then Some (Label_Hyphens label)
      else None)"

fun check_labels :: "nat \<Rightarrow> string list \<Rightarrow> name_error option" where
  "check_labels i [] = None"
| "check_labels i (label # rest) =
     (case check_label i (rest = []) label of Some e \<Rightarrow> Some e | None \<Rightarrow> check_labels (i + 1) rest)"

definition validate_dns_name :: "string \<Rightarrow> name_error option" where
  "validate_dns_name domain =
     (if domain = [] then Some Name_Empty
      else if length domain > 253 then Some (Name_Too_Long (length domain))
      else (let domain' = py_rstrip_dot domain
            in if list_ex (\<lambda>c. c \<in> invalid_chars) domain' then Some Name_Characters
               else check_labels 0 (py_split dot domain')))"

definition VALID_RECORD_TYPES :: "string set" where
  "VALID_RECORD_TYPES = {''A'', ''AAAA'', ''CNAME'', ''MX'', ''TXT'', ''NS'', ''SOA'', ''PTR'', ''SRV'', ''CAA'', ''DNSKEY'', ''DS'',
     ''NAPTR'', ''SSHFP'', ''TLSA'', ''ANY''}"

text \<open>\<open>None\<close> is the \<^verbatim>\<open>ValueError\<close>.\<close>

definition validate_record_type :: "string \<Rightarrow> string option" where
  "validate_record_type record_type =
     (let t = py_upper record_type in if t \<notin> VALID_RECORD_TYPES then None else Some t)"

section \<open>Server addresses\<close>

text \<open>
  A parsed URL; the part \<open>u_rest\<close> is what the client does not look at. The port raises when it is out of range
  (\<open>None\<close>), and is absent or a number otherwise.
\<close>

record url =
  u_scheme :: string
  u_hostname :: "string option"
  u_port :: "int option option"
  u_path :: string
  u_rest :: string

record client_sys =
  cs_urlparse :: "string \<Rightarrow> url option"
  cs_geturl :: "url \<Rightarrow> string"
  cs_ipv6 :: "string \<Rightarrow> nat option"
  cs_exists :: "string \<Rightarrow> bool"
  cs_getenv :: "string \<Rightarrow> string option"

datatype url_error = Url_Empty | Url_Format | Url_Scheme string | Url_No_Host | Url_Hostname string

definition allowed_hosts :: "string list" where
  "allowed_hosts = [''dns.google'', ''dns.google.com'', ''cloudflare-dns.com'', ''1.1.1.1'', ''1.0.0.1'', ''dns.quad9.net'',
     ''dns.opendns.com'', ''doh.opendns.com'', ''dns.nextdns.io'', ''doh.cleanbrowsing.org'']"

definition is_ip_text :: "client_sys \<Rightarrow> string \<Rightarrow> bool" where
  "is_ip_text S host \<longleftrightarrow> ipv4_parse host \<noteq> None \<or> cs_ipv6 S host \<noteq> None"

definition validate_server_url :: "client_sys \<Rightarrow> string \<Rightarrow> url_error option" where
  "validate_server_url S dns_server_url =
     (if dns_server_url = [] then Some Url_Empty
      else (case cs_urlparse S dns_server_url of
              None \<Rightarrow> Some Url_Format
            | Some u \<Rightarrow>
                (if u_scheme u \<notin> {''http'', ''https''} then Some (Url_Scheme (u_scheme u))
                 else if \<not> truthy (u_hostname u) then Some Url_No_Host
                 else (let host = py_lower (the (u_hostname u))
                       in if is_ip_text S host then None
                          else if host = ''localhost'' then None
                          else if list_ex (\<lambda>allowed. host = allowed \<or> py_startswith host (allowed @ ''.'')) allowed_hosts then None
                          else Some (Url_Hostname host)))))"

text \<open>\<^verbatim>\<open>None\<close> is the exception of the parser.\<close>

definition normalize_server_url :: "client_sys \<Rightarrow> string \<Rightarrow> string option" where
  "normalize_server_url S server_url =
     (case cs_urlparse S server_url of
        None \<Rightarrow> None
      | Some u \<Rightarrow>
          (let host = (if truthy (u_hostname u) then py_lower (the (u_hostname u)) else []);
               bare = (u_path u = [] \<or> u_path u = ''/'');
               u' = (if sublist ''dns.google'' host then (if bare then u\<lparr> u_path := ''/resolve'' \<rparr> else u)
                     else if sublist ''cloudflare'' host \<or> host \<in> {''1.1.1.1'', ''1.0.0.1''}
                       then (if bare then u\<lparr> u_path := ''/dns-query'' \<rparr> else u)
                     else if sublist ''dns.quad9.net'' host then (if bare then u\<lparr> u_path := ''/dns-query'' \<rparr> else u)
                     else u)
           in Some (cs_geturl S u')))"

section \<open>The DNS-over-HTTPS client\<close>

datatype tls_verify = Verify_Bundle string | Verify_Default | Verify_Off
datatype tls_cert = No_Cert | Cert_Pair string string | Cert_File string

record doh_client =
  dc_server_urls :: "string list"
  dc_auth_token :: "string option"
  dc_max_retries :: int
  dc_retry_delay :: int
  dc_index :: nat
  dc_verify :: tls_verify
  dc_cert :: tls_cert

record doh_args =
  da_server_url :: string
  da_auth_token :: "string option"
  da_client_cert :: "string option"
  da_client_key :: "string option"
  da_ca_cert :: "string option"
  da_verify_ssl :: bool
  da_server_urls :: "string list option"
  da_max_retries :: "int option"
  da_retry_delay :: int

definition doh_defaults :: doh_args where
  "doh_defaults = \<lparr> da_server_url = ''https://dns.google/dns-query'', da_auth_token = None, da_client_cert = None,
     da_client_key = None, da_ca_cert = None, da_verify_ssl = True, da_server_urls = None, da_max_retries = None,
     da_retry_delay = 2 \<rparr>"

datatype init_error = No_Server | Invalid_Server nat url_error

definition configure_verify :: "client_sys \<Rightarrow> doh_args \<Rightarrow> tls_verify" where
  "configure_verify S a =
     (if truthy (da_ca_cert a) \<and> cs_exists S (the (da_ca_cert a)) then Verify_Bundle (the (da_ca_cert a))
      else if da_verify_ssl a then Verify_Default else Verify_Off)"

definition configure_cert :: "client_sys \<Rightarrow> doh_args \<Rightarrow> tls_cert" where
  "configure_cert S a =
     (if truthy (da_client_cert a) \<and> truthy (da_client_key a) then
        (if cs_exists S (the (da_client_cert a)) \<and> cs_exists S (the (da_client_key a))
         then Cert_Pair (the (da_client_cert a)) (the (da_client_key a)) else No_Cert)
      else if truthy (da_client_cert a) \<and> cs_exists S (the (da_client_cert a)) then Cert_File (the (da_client_cert a))
      else No_Cert)"

fun checked_urls :: "client_sys \<Rightarrow> nat \<Rightarrow> string list \<Rightarrow> init_error + string list" where
  "checked_urls S i [] = Inr []"
| "checked_urls S i (u # us) =
     (case validate_server_url S u of
        Some e \<Rightarrow> Inl (Invalid_Server i e)
      | None \<Rightarrow> (case normalize_server_url S u of
                   None \<Rightarrow> Inl (Invalid_Server i Url_Format)
                 | Some n \<Rightarrow> (case checked_urls S (i + 1) us of Inl e \<Rightarrow> Inl e | Inr ns \<Rightarrow> Inr (n # ns))))"

definition configured_urls :: "doh_args \<Rightarrow> string list option" where
  "configured_urls a =
     (case da_server_urls a of
        Some (u # us) \<Rightarrow> Some (u # us)
      | _ \<Rightarrow> (if da_server_url a \<noteq> [] then Some [da_server_url a] else None))"

definition doh_init :: "client_sys \<Rightarrow> doh_args \<Rightarrow> init_error + doh_client" where
  "doh_init S a =
     (case configured_urls a of
        None \<Rightarrow> Inl No_Server
      | Some us \<Rightarrow>
          (case checked_urls S 0 us of
             Inl e \<Rightarrow> Inl e
           | Inr ns \<Rightarrow>
               Inr \<lparr> dc_server_urls = ns, dc_auth_token = da_auth_token a,
                     dc_max_retries = (case da_max_retries a of Some m \<Rightarrow> m | None \<Rightarrow> int (length ns) * 2),
                     dc_retry_delay = da_retry_delay a, dc_index = 0, dc_verify = configure_verify S a,
                     dc_cert = configure_cert S a \<rparr>))"

section \<open>Queries with failover\<close>

text \<open>
  What one request brings: a response with its JSON value (\<open>None\<close> if the body is not JSON) and a text, or one of the
  two kinds of exceptions. A body that is not JSON raises one of the second kind.
\<close>

datatype doh_reply = Http nat "json option" string | Ssl_Error string | Request_Error string

datatype event = Get string "string option" | Sleep int

definition accepted :: "doh_reply \<Rightarrow> json option" where
  "accepted r = (case r of Http n j t \<Rightarrow> (if n = 200 then j else None) | _ \<Rightarrow> None)"

definition error_text :: "string \<Rightarrow> doh_reply \<Rightarrow> string" where
  "error_text server r =
     (case r of
        Http n j t \<Rightarrow> (if n = 200 then ''Request Error for '' @ server @ '': '' @ t
                     else ''HTTP '' @ dec n @ '' from '' @ server @ '': '' @ t)
      | Ssl_Error e \<Rightarrow> ''SSL Error for '' @ server @ '': '' @ e
      | Request_Error e \<Rightarrow> ''Request Error for '' @ server @ '': '' @ e)"

definition next_server :: "string list \<Rightarrow> nat \<Rightarrow> nat" where
  "next_server urls i = (i + 1) mod length urls"

text \<open>
  \<open>remaining\<close> attempts are left; the result is the value or the errors, the new index and the events. An event is a request
  as the client makes it: the library follows redirects by itself, and \<open>net\<close> gives what the last response brings.
\<close>

fun query_loop ::
  "(nat \<Rightarrow> string \<Rightarrow> doh_reply) \<Rightarrow> doh_client \<Rightarrow> nat \<Rightarrow> nat \<Rightarrow> nat \<Rightarrow> (string list + json) \<times> nat \<times> event list" where
  "query_loop net c 0 attempt i = (Inl [], i, [])"
| "query_loop net c (Suc remaining) attempt i =
     (let server = dc_server_urls c ! i; r = net attempt server; get = Get server (dc_auth_token c)
      in case accepted r of
           Some j \<Rightarrow> (Inr j, i, [get])
         | None \<Rightarrow>
             (case query_loop net c remaining (attempt + 1) (next_server (dc_server_urls c) i) of
                (res, i', evs) \<Rightarrow>
                  ((case res of Inl errs \<Rightarrow> Inl (error_text server r # errs) | Inr j \<Rightarrow> Inr j), i',
                   get # (if remaining > 0 then [Sleep (dc_retry_delay c)] else []) @ evs)))"

datatype query_error = Bad_Name name_error | Bad_Type | All_Failed "string list"

definition doh_query ::
  "(nat \<Rightarrow> string \<Rightarrow> doh_reply) \<Rightarrow> doh_client \<Rightarrow> string \<Rightarrow> string \<Rightarrow> (query_error + json) \<times> doh_client \<times> event list" where
  "doh_query net c domain record_type =
     (case validate_dns_name domain of
        Some e \<Rightarrow> (Inl (Bad_Name e), c, [])
      | None \<Rightarrow>
          (case validate_record_type record_type of
             None \<Rightarrow> (Inl Bad_Type, c, [])
           | Some t \<Rightarrow>
               (case query_loop net c (nat (dc_max_retries c)) 0 (dc_index c) of
                  (res, i, evs) \<Rightarrow>
                    ((case res of Inl errs \<Rightarrow> Inl (All_Failed errs) | Inr j \<Rightarrow> Inr j), c\<lparr> dc_index := i \<rparr>, evs))))"

section \<open>The gRPC client\<close>

datatype channel = Insecure string | Secure string "string option" "string option"

record grpc_client =
  gc_token :: "string option"
  gc_use_grpc :: bool
  gc_channel :: "channel option"
  gc_rest :: "doh_client option"

record grpc_args =
  ga_server_url :: string
  ga_token :: "string option"
  ga_use_grpc :: bool
  ga_ca_cert :: "string option"
  ga_available :: bool

definition is_loopback :: "string \<Rightarrow> bool" where
  "is_loopback host \<longleftrightarrow> host \<in> {''localhost'', ''127.0.0.1'', ''::1''} \<or> py_startswith host ''127.''"

definition rest_url :: "string \<Rightarrow> string" where
  "rest_url url =
     (if py_startswith url ''grpc://'' then ''https://'' @ drop 7 url
      else if py_startswith url ''grpc:'' then ''https:'' @ drop 5 url else url)"

definition init_rest :: "client_sys \<Rightarrow> grpc_args \<Rightarrow> init_error + grpc_client" where
  "init_rest S a =
     (case doh_init S (doh_defaults\<lparr> da_server_url := rest_url (ga_server_url a), da_auth_token := ga_token a \<rparr>) of
        Inl e \<Rightarrow> Inl e
      | Inr c \<Rightarrow> Inr \<lparr> gc_token = ga_token a, gc_use_grpc = False, gc_channel = None, gc_rest = Some c \<rparr>)"

definition dec_int :: "int \<Rightarrow> string" where
  "dec_int i = (if i < 0 then CHR ''-'' # dec (nat (- i)) else dec (nat i))"

text \<open>The channel of \<^verbatim>\<open>_init_grpc\<close>; \<open>None\<close> is an exception, which makes the client fall back.\<close>

definition grpc_channel :: "client_sys \<Rightarrow> grpc_args \<Rightarrow> channel option" where
  "grpc_channel S a =
     (case cs_urlparse S (py_replace ''grpc://'' ''http://'' (ga_server_url a)) of
        None \<Rightarrow> None
      | Some u \<Rightarrow>
          (case u_port u of
             None \<Rightarrow> None
           | Some p \<Rightarrow>
               (let host = (if truthy (u_hostname u) then the (u_hostname u) else ''localhost'');
                    port = (case p of Some n \<Rightarrow> (if n = 0 then 50052 else n) | None \<Rightarrow> 50052);
                    target = host @ '':'' @ dec_int port
                in if is_loopback host then Some (Insecure target)
                   else if truthy (ga_ca_cert a) then
                     (if cs_exists S (the (ga_ca_cert a))
                      then Some (Secure target (ga_ca_cert a) (if truthy (ga_token a) then ga_token a else None)) else None)
                   else Some (Secure target None (if truthy (ga_token a) then ga_token a else None)))))"

definition grpc_init :: "client_sys \<Rightarrow> grpc_args \<Rightarrow> init_error + grpc_client" where
  "grpc_init S a =
     (if ga_use_grpc a \<and> ga_available a then
        (case grpc_channel S a of
           None \<Rightarrow> init_rest S a
         | Some ch \<Rightarrow> Inr \<lparr> gc_token = ga_token a, gc_use_grpc = True, gc_channel = Some ch, gc_rest = None \<rparr>)
      else init_rest S a)"

text \<open>Messages: a query carries the token in its body, besides what the channel adds.\<close>

record query_request =
  qr_name :: string
  qr_type :: string
  qr_token :: string

record grpc_answer =
  an_name :: string
  an_type :: int
  an_ttl :: int
  an_data :: string

record grpc_metadata =
  me_timestamp :: int
  me_response_time_ms :: int
  me_from_cache :: bool
  me_ioc_blocked :: bool
  me_server_id :: string

record grpc_response =
  gr_status :: int
  gr_answers :: "grpc_answer list"
  gr_authority :: "grpc_answer list"
  gr_additional :: "grpc_answer list"
  gr_metadata :: "grpc_metadata option"

definition convert_answer :: "grpc_answer \<Rightarrow> json" where
  "convert_answer a = JObj [(''name'', JStr (an_name a)), (''type'', JInt (an_type a)), (''TTL'', JInt (an_ttl a)), (''data'', JStr (an_data a))]"

definition convert_grpc_response :: "grpc_response \<Rightarrow> json" where
  "convert_grpc_response r =
     (let metadata = (case gr_metadata r of
             None \<Rightarrow> []
           | Some m \<Rightarrow> [(''timestamp'', JInt (me_timestamp m)), (''response_time_ms'', JInt (me_response_time_ms m)),
                       (''from_cache'', JBool (me_from_cache m)), (''ioc_blocked'', JBool (me_ioc_blocked m)),
                       (''server_id'', JStr (me_server_id m))]);
          server = (case gr_metadata r of None \<Rightarrow> ''unknown'' | Some m \<Rightarrow> me_server_id m)
      in JObj [(''Status'', JInt (gr_status r)), (''Answer'', JList (map convert_answer (gr_answers r))),
               (''Authority'', JList (map convert_answer (gr_authority r))),
               (''Additional'', JList (map convert_answer (gr_additional r))), (''Comment'', JStr (''Server ID: '' @ server)),
               (''metadata'', JObj metadata)])"

text \<open>\<open>rpc\<close> is the stub: \<open>None\<close> is an exception, which the client raises again.\<close>

datatype any_error = Query_Failed query_error | Rpc_Failed | No_Rest

definition query_rest ::
  "(nat \<Rightarrow> string \<Rightarrow> doh_reply) \<Rightarrow> grpc_client \<Rightarrow> string \<Rightarrow> string \<Rightarrow> (any_error + json) \<times> grpc_client \<times> event list" where
  "query_rest net g domain record_type =
     (case gc_rest g of
        None \<Rightarrow> (Inl No_Rest, g, [])
      | Some c \<Rightarrow>
          (case doh_query net c domain record_type of
             (res, c', evs) \<Rightarrow> ((case res of Inl e \<Rightarrow> Inl (Query_Failed e) | Inr j \<Rightarrow> Inr j), g\<lparr> gc_rest := Some c' \<rparr>, evs)))"

definition request_of :: "grpc_client \<Rightarrow> string \<Rightarrow> string \<Rightarrow> query_request" where
  "request_of g domain record_type = \<lparr> qr_name = domain, qr_type = record_type, qr_token = get_default (gc_token g) [] \<rparr>"

definition grpc_query ::
  "(query_request \<Rightarrow> grpc_response option) \<Rightarrow> (nat \<Rightarrow> string \<Rightarrow> doh_reply) \<Rightarrow> grpc_client \<Rightarrow> string \<Rightarrow> string
    \<Rightarrow> (any_error + json) \<times> grpc_client \<times> event list" where
  "grpc_query rpc net g domain record_type =
     (if gc_use_grpc g then
        (case rpc (request_of g domain record_type) of
           None \<Rightarrow> (Inl Rpc_Failed, g, []) | Some r \<Rightarrow> (Inr (convert_grpc_response r), g, []))
      else query_rest net g domain record_type)"

text \<open>Without gRPC a batch is answered name by name, up to the first failure; \<open>nets\<close> is the network during each query.\<close>

fun rest_batch ::
  "(nat \<Rightarrow> nat \<Rightarrow> string \<Rightarrow> doh_reply) \<Rightarrow> nat \<Rightarrow> grpc_client \<Rightarrow> string \<Rightarrow> string list \<Rightarrow> (any_error + json list) \<times> grpc_client" where
  "rest_batch nets k g record_type [] = (Inr [], g)"
| "rest_batch nets k g record_type (d # ds) =
     (case query_rest (nets k) g d record_type of
        (Inl e, g', _) \<Rightarrow> (Inl e, g')
      | (Inr j, g', _) \<Rightarrow>
          (case rest_batch nets (k + 1) g' record_type ds of
             (Inl e, g'') \<Rightarrow> (Inl e, g'') | (Inr js, g'') \<Rightarrow> (Inr (j # js), g'')))"

definition batch_query ::
  "(query_request list \<Rightarrow> grpc_response list option) \<Rightarrow> (nat \<Rightarrow> nat \<Rightarrow> string \<Rightarrow> doh_reply) \<Rightarrow> grpc_client \<Rightarrow> string \<Rightarrow> string list
    \<Rightarrow> (any_error + json list) \<times> grpc_client" where
  "batch_query rpc nets g record_type domains =
     (if \<not> gc_use_grpc g then rest_batch nets 0 g record_type domains
      else (case rpc (map (\<lambda>d. request_of g d record_type) domains) of
              None \<Rightarrow> (Inl Rpc_Failed, g) | Some rs \<Rightarrow> (Inr (map convert_grpc_response rs), g)))"

definition health_status :: "grpc_client \<Rightarrow> int option \<Rightarrow> string" where
  "health_status g status =
     (if \<not> gc_use_grpc g then ''unknown''
      else (case status of
              None \<Rightarrow> ''unhealthy''
            | Some s \<Rightarrow> (if s = 1 then ''serving'' else if s = 2 then ''not_serving'' else if s = 3 then ''service_unknown'' else ''unknown'')))"

section \<open>The forwarder\<close>

definition forward_request ::
  "(nat \<Rightarrow> string \<Rightarrow> doh_reply) \<Rightarrow> doh_client \<Rightarrow> string \<Rightarrow> (query_error + string) \<times> doh_client \<times> event list" where
  "forward_request net c data =
     (case doh_query net c ''example.com'' ''A'' of
        (res, c', evs) \<Rightarrow> ((case res of Inl e \<Rightarrow> Inl e | Inr j \<Rightarrow> Inr []), c', evs))"

section \<open>Settings\<close>

record settings =
  se_domain :: "string option"
  se_type :: string
  se_server :: string
  se_auth :: "string option"
  se_config :: "string option"
  se_cert :: "string option"
  se_key :: "string option"
  se_ca :: "string option"
  se_verify :: bool
  se_udp :: bool
  se_tcp :: bool
  se_grpc :: bool
  se_batch :: "string option"

definition default_settings :: settings where
  "default_settings = \<lparr> se_domain = Some [], se_type = ''A'', se_server = ''https://dns.google/resolve'', se_auth = None,
     se_config = None, se_cert = None, se_key = None, se_ca = None, se_verify = True, se_udp = False, se_tcp = False,
     se_grpc = True, se_batch = None \<rparr>"

definition apply_opt :: "string \<times> string \<Rightarrow> settings \<Rightarrow> settings" where
  "apply_opt oa s =
     (let opt = fst oa; arg = snd oa
      in if opt \<in> {''-d'', ''--domain''} then s\<lparr> se_domain := Some arg \<rparr>
         else if opt \<in> {''-t'', ''--type''} then s\<lparr> se_type := arg \<rparr>
         else if opt \<in> {''-s'', ''--server''} then s\<lparr> se_server := arg \<rparr>
         else if opt \<in> {''-a'', ''--auth''} then s\<lparr> se_auth := Some arg \<rparr>
         else if opt \<in> {''-c'', ''--config''} then s\<lparr> se_config := Some arg \<rparr>
         else if opt \<in> {''-u'', ''--udp''} then s\<lparr> se_udp := True \<rparr>
         else if opt \<in> {''-T'', ''--tcp''} then s\<lparr> se_tcp := True \<rparr>
         else if opt \<in> {''-k'', ''--ca-cert''} then s\<lparr> se_ca := Some arg \<rparr>
         else if opt \<in> {''-C'', ''--client-cert''} then s\<lparr> se_cert := Some arg \<rparr>
         else if opt \<in> {''-K'', ''--client-key''} then s\<lparr> se_key := Some arg \<rparr>
         else if opt \<in> {''-v'', ''--verify''} then s\<lparr> se_verify := True \<rparr>
         else if opt = ''-g'' \<or> opt = ''--grpc'' then s\<lparr> se_grpc := True \<rparr>
         else if opt = ''--no-grpc'' then s\<lparr> se_grpc := False \<rparr>
         else if opt \<in> {''-b'', ''--batch''} then s\<lparr> se_batch := Some arg \<rparr>
         else s)"

text \<open>A configuration file: its textual entries and the entry \<^verbatim>\<open>verify_ssl\<close>, of the types they are meant to have.\<close>

record config_file =
  cf_entries :: "(string \<times> string) list"
  cf_verify :: "bool option"

definition cfg_get :: "config_file \<Rightarrow> string \<Rightarrow> string option \<Rightarrow> string option" where
  "cfg_get cf k old = (case map_of (cf_entries cf) k of Some v \<Rightarrow> Some v | None \<Rightarrow> old)"

definition apply_config :: "config_file \<Rightarrow> settings \<Rightarrow> settings" where
  "apply_config cf s =
     s\<lparr> se_domain := cfg_get cf ''domain'' (se_domain s), se_type := the (cfg_get cf ''type'' (Some (se_type s))),
        se_server := the (cfg_get cf ''server'' (Some (se_server s))), se_auth := cfg_get cf ''auth'' (se_auth s),
        se_cert := cfg_get cf ''client_cert'' (se_cert s), se_key := cfg_get cf ''client_key'' (se_key s),
        se_ca := cfg_get cf ''ca_cert'' (se_ca s), se_verify := get_default (cf_verify cf) (se_verify s) \<rparr>"

definition env_or :: "client_sys \<Rightarrow> string \<Rightarrow> string option \<Rightarrow> string option" where
  "env_or S k d = (case cs_getenv S k of Some v \<Rightarrow> Some v | None \<Rightarrow> d)"

definition keep_or :: "string option \<Rightarrow> string option \<Rightarrow> string option" where
  "keep_or v alt = (if truthy v then v else alt)"

definition doh_verify_env :: "client_sys \<Rightarrow> bool \<Rightarrow> bool" where
  "doh_verify_env S v =
     (let e = py_lower (get_default (cs_getenv S ''SQUAWK_VERIFY_SSL'') [])
      in if e \<in> {''true'', ''1'', ''yes''} then True else if e \<in> {''false'', ''0'', ''no''} then False else v)"

definition apply_env :: "client_sys \<Rightarrow> settings \<Rightarrow> settings" where
  "apply_env S s =
     s\<lparr> se_server := (if se_server s = [] \<or> se_server s = ''https://dns.google/resolve''
                      then the (env_or S ''SQUAWK_SERVER_URL'' (Some (se_server s))) else se_server s),
        se_auth := keep_or (se_auth s) (cs_getenv S ''SQUAWK_AUTH_TOKEN''),
        se_cert := keep_or (se_cert s) (env_or S ''SQUAWK_CLIENT_CERT'' (cs_getenv S ''CLIENT_CERT_PATH'')),
        se_key := keep_or (se_key s) (env_or S ''SQUAWK_CLIENT_KEY'' (cs_getenv S ''CLIENT_KEY_PATH'')),
        se_ca := keep_or (se_ca s) (env_or S ''SQUAWK_CA_CERT'' (cs_getenv S ''CA_CERT_PATH'')),
        se_domain := keep_or (se_domain s) (cs_getenv S ''SQUAWK_DOMAIN''),
        se_type := (if se_type s = ''A'' then the (env_or S ''SQUAWK_RECORD_TYPE'' (Some ''A'')) else se_type s),
        se_verify := doh_verify_env S (se_verify s) \<rparr>"

text \<open>
  From the parsed options to the settings in force. \<open>cf\<close> is the content of the configuration file; \<^verbatim>\<open>-h\<close> ends the
  program (\<open>None\<close>).
\<close>

definition resolve_settings :: "client_sys \<Rightarrow> (string \<times> string) list \<Rightarrow> (string \<Rightarrow> config_file) \<Rightarrow> settings option" where
  "resolve_settings S opts load =
     (if list_ex (\<lambda>oa. fst oa = ''-h'') opts then None
      else (let s = fold apply_opt opts default_settings;
                s' = (if truthy (se_config s) then apply_config (load (the (se_config s))) s else s)
            in Some (apply_env S s')))"

datatype any_client = Grpc_Client grpc_client | Doh doh_client

definition doh_of_settings :: "client_sys \<Rightarrow> settings \<Rightarrow> init_error + any_client" where
  "doh_of_settings S s =
     (case doh_init S (doh_defaults\<lparr> da_server_url := se_server s, da_auth_token := se_auth s, da_client_cert := se_cert s,
             da_client_key := se_key s, da_ca_cert := se_ca s, da_verify_ssl := se_verify s \<rparr>) of
        Inl e \<Rightarrow> Inl e | Inr c \<Rightarrow> Inr (Doh c))"

definition make_client :: "client_sys \<Rightarrow> bool \<Rightarrow> settings \<Rightarrow> init_error + any_client" where
  "make_client S available s =
     (if se_grpc s \<and> (py_startswith (se_server s) ''grpc://'' \<or> py_startswith (se_server s) ''grpc:'')
      then (case grpc_init S \<lparr> ga_server_url = se_server s, ga_token = se_auth s, ga_use_grpc = True, ga_ca_cert = None,
                              ga_available = available \<rparr> of
              Inr g \<Rightarrow> Inr (Grpc_Client g)
            | Inl e \<Rightarrow> doh_of_settings S s)
      else doh_of_settings S s)"

text \<open>The program ends with status 2 when it has nothing to do.\<close>

definition nothing_to_do :: "settings \<Rightarrow> bool" where
  "nothing_to_do s \<longleftrightarrow> \<not> truthy (se_domain s) \<and> \<not> truthy (se_batch s) \<and> \<not> (se_udp s \<or> se_tcp s)"

section \<open>Lemmas on the loop\<close>

definition gets :: "event list \<Rightarrow> string list" where
  "gets evs = concat (map (\<lambda>e. case e of Get s t \<Rightarrow> [s] | Sleep d \<Rightarrow> []) evs)"

definition pauses :: "event list \<Rightarrow> int" where
  "pauses evs = sum_list (map (\<lambda>e. case e of Get s t \<Rightarrow> 0 | Sleep d \<Rightarrow> d) evs)"

lemma gets_simps [simp]:
  "gets [] = []" "gets (Get s t # evs) = s # gets evs" "gets (Sleep d # evs) = gets evs" "gets (xs @ evs) = gets xs @ gets evs"
  by (simp_all add: gets_def)

lemma pauses_simps [simp]:
  "pauses [] = 0" "pauses (Get s t # evs) = pauses evs" "pauses (Sleep d # evs) = d + pauses evs"
  by (simp_all add: pauses_def)

definition index_ok :: "doh_client \<Rightarrow> bool" where
  "index_ok c \<longleftrightarrow> dc_index c < length (dc_server_urls c)"

lemma next_server_less [simp]: "i < length urls \<Longrightarrow> next_server urls i < length urls"
  unfolding next_server_def by (rule mod_less_divisor) linarith

lemma next_server_mod: "(next_server urls i + j) mod length urls = (i + Suc j) mod length urls"
  by (simp add: next_server_def mod_simps)

lemma query_loop_index:
  "\<lbrakk> query_loop net c m k i = (res, i', evs); i < length (dc_server_urls c) \<rbrakk> \<Longrightarrow> i' < length (dc_server_urls c)"
proof (induction m arbitrary: k i res i' evs)
  case (Suc m)
  obtain r1 i1 e1 where q: "query_loop net c m (k + 1) (next_server (dc_server_urls c) i) = (r1, i1, e1)" by (metis prod_cases3)
  then have "i1 < length (dc_server_urls c)" using Suc by simp
  then show ?case using Suc.prems q by (auto simp: Let_def split: option.splits)
qed simp

lemma query_loop_gets:
  "\<lbrakk> query_loop net c m k i = (res, i', evs); i < length (dc_server_urls c) \<rbrakk> \<Longrightarrow>
     length (gets evs) \<le> m
     \<and> gets evs = map (\<lambda>j. dc_server_urls c ! ((i + j) mod length (dc_server_urls c))) [0..<length (gets evs)]"
proof (induction m arbitrary: k i res i' evs)
  case (Suc m)
  let ?n = "length (dc_server_urls c)"
  show ?case
  proof (cases "accepted (net k (dc_server_urls c ! i))")
    case (Some j)
    then show ?thesis using Suc.prems by (auto simp: Let_def)
  next
    case None
    obtain r1 i1 e1 where q: "query_loop net c m (k + 1) (next_server (dc_server_urls c) i) = (r1, i1, e1)" by (metis prod_cases3)
    have ih: "length (gets e1) \<le> m"
      "gets e1 = map (\<lambda>j. dc_server_urls c ! ((next_server (dc_server_urls c) i + j) mod ?n)) [0..<length (gets e1)]"
      using Suc.IH [OF q] Suc.prems(2) by auto
    have e: "gets evs = dc_server_urls c ! i # gets e1" using Suc.prems(1) None q by (auto simp: Let_def)
    have "map (\<lambda>j. dc_server_urls c ! ((i + j) mod ?n)) [0..<Suc (length (gets e1))]
        = dc_server_urls c ! i # map (\<lambda>j. dc_server_urls c ! ((i + Suc j) mod ?n)) [0..<length (gets e1)]"
      using Suc.prems(2) by (simp add: upt_conv_Cons map_Suc_upt [symmetric] comp_def del: upt_Suc)
    also have "\<dots> = gets evs" using ih(2) unfolding next_server_mod e by (metis length_map)
    finally show ?thesis using ih(1) e by simp
  qed
qed simp

lemma query_loop_pauses:
  "\<lbrakk> query_loop net c m k i = (res, i', evs); 0 \<le> dc_retry_delay c \<rbrakk> \<Longrightarrow> pauses evs \<le> dc_retry_delay c * int (m - 1)"
proof (induction m arbitrary: k i res i' evs)
  case (Suc m)
  show ?case
  proof (cases "accepted (net k (dc_server_urls c ! i))")
    case (Some j)
    then show ?thesis using Suc.prems by (auto simp: Let_def)
  next
    case None
    obtain r1 i1 e1 where q: "query_loop net c m (k + 1) (next_server (dc_server_urls c) i) = (r1, i1, e1)" by (metis prod_cases3)
    have ih: "pauses e1 \<le> dc_retry_delay c * int (m - 1)" using Suc.IH [OF q Suc.prems(2)] .
    have e: "pauses evs = (if m > 0 then dc_retry_delay c else 0) + pauses e1"
      using Suc.prems(1) None q by (auto simp: Let_def)
    show ?thesis
    proof (cases m)
      case 0
      then show ?thesis using ih e by simp
    next
      case (Suc m')
      then show ?thesis using ih e by (simp add: algebra_simps)
    qed
  qed
qed simp

text \<open>The first server in the order of the loop that answers is reached, if there are attempts enough.\<close>

lemma query_loop_answers:
  "\<lbrakk> j < m; accepted (net (k + j) (dc_server_urls c ! ((i + j) mod length (dc_server_urls c)))) \<noteq> None;
     i < length (dc_server_urls c) \<rbrakk> \<Longrightarrow>
     \<exists>v i' evs. query_loop net c m k i = (Inr v, i', evs) \<and> length (gets evs) \<le> j + 1"
proof (induction m arbitrary: k i j)
  case (Suc m)
  show ?case
  proof (cases "accepted (net k (dc_server_urls c ! i))")
    case (Some v)
    then show ?thesis by (simp add: Let_def)
  next
    case None
    then obtain j' where j: "j = Suc j'" using Suc.prems by (cases j) auto
    let ?i = "next_server (dc_server_urls c) i"
    have "\<exists>v i' evs. query_loop net c m (k + 1) ?i = (Inr v, i', evs) \<and> length (gets evs) \<le> j' + 1"
      using Suc.IH [of j' "k + 1" ?i] Suc.prems j by (simp only: next_server_mod) (simp add: add.assoc)
    then show ?thesis using None j Suc.prems(1) by (auto simp: Let_def)
  qed
qed simp

lemma ring_reaches:
  assumes "(i :: nat) < n" "p < n"
  shows "\<exists>j<n. (i + j) mod n = p"
  by (rule exI [of _ "(p + n - i) mod n"]) (use assms in \<open>simp add: mod_simps\<close>)

text \<open>One turn around the ring of servers asks each of them once.\<close>

lemma ring_once:
  fixes urls :: "'a list"
  assumes "i < length urls" "k \<le> length urls"
  shows "mset (map (\<lambda>j. urls ! ((i + j) mod length urls)) [0..<k]) \<subseteq># mset urls"
proof -
  let ?f = "\<lambda>j. urls ! ((i + j) mod length urls)"
  have a: "map ?f [0..<length urls] = rotate i urls"
    by (rule nth_equalityI) (simp_all add: nth_rotate)
  have b: "take k (map ?f [0..<length urls]) = map ?f [0..<k]" using assms(2) by (simp add: take_map)
  have c: "mset (take k xs) \<subseteq># mset xs" for xs :: "'a list"
    by (metis append_take_drop_id mset_append mset_subset_eq_add_left)
  have d: "mset (rotate i urls) = mset urls"
    using arg_cong [OF append_take_drop_id [of "i mod length urls" urls], of mset]
    by (simp add: rotate_drop_take add.commute del: append_take_drop_id)
  have "mset (map ?f [0..<k]) \<subseteq># mset (rotate i urls)" unfolding b [symmetric] a by (rule c)
  then show ?thesis by (simp only: d)
qed

text \<open>Queries one after the other, each with what the network answers meanwhile.\<close>

definition query_step ::
  "(nat \<Rightarrow> string \<Rightarrow> doh_reply) \<times> string \<times> string \<Rightarrow> doh_client \<Rightarrow> ((query_error + json) \<times> event list) \<times> doh_client" where
  "query_step q c = (case q of (net, d, t) \<Rightarrow> (case doh_query net c d t of (res, c', evs) \<Rightarrow> ((res, evs), c')))"

lemma doh_query_frame:
  assumes "doh_query net c d t = (res, c', evs)"
  shows "\<exists>i. c' = c\<lparr> dc_index := i \<rparr>" "index_ok c \<Longrightarrow> index_ok c'"
proof -
  show "\<exists>i. c' = c\<lparr> dc_index := i \<rparr>"
    using assms by (auto simp: doh_query_def split: option.splits prod.splits intro: exI [of _ "dc_index c"])
  show "index_ok c \<Longrightarrow> index_ok c'"
    using assms by (auto simp: doh_query_def index_ok_def split: option.splits prod.splits dest: query_loop_index)
qed

lemma query_run_frame:
  "run_cmds query_step qs c = (rs, c') \<Longrightarrow> (\<exists>i. c' = c\<lparr> dc_index := i \<rparr>) \<and> (index_ok c \<longrightarrow> index_ok c')"
proof (induction qs arbitrary: c c' rs)
  case Nil
  then show ?case by (auto intro: exI [of _ "dc_index c"])
next
  case (Cons q qs)
  obtain net d t where q: "q = (net, d, t)" by (metis prod_cases3)
  obtain res c1 evs where s: "doh_query net c d t = (res, c1, evs)" by (metis prod_cases3)
  obtain rs' c2 where u: "run_cmds query_step qs c1 = (rs', c2)" by fastforce
  have "query_step q c = ((res, evs), c1)" by (simp add: query_step_def q s)
  then have "c2 = c'" using Cons.prems u by simp
  then show ?case using Cons.IH [OF u] doh_query_frame [OF s] by auto
qed

lemma checked_urls_Inr:
  "checked_urls S i us = Inr ns \<Longrightarrow>
     length ns = length us \<and> (\<forall>n\<in>set ns. \<exists>u\<in>set us. validate_server_url S u = None \<and> normalize_server_url S u = Some n)"
  by (induction us arbitrary: i ns) (fastforce split: option.splits sum.splits)+

lemma doh_init_Inr:
  assumes "doh_init S a = Inr c"
  obtains us where "configured_urls a = Some us" "us \<noteq> []" "checked_urls S 0 us = Inr (dc_server_urls c)"
    "dc_max_retries c = (case da_max_retries a of Some m \<Rightarrow> m | None \<Rightarrow> int (length (dc_server_urls c)) * 2)"
    "dc_retry_delay c = da_retry_delay a" "dc_index c = 0" "dc_auth_token c = da_auth_token a"
  using assms by (auto simp: doh_init_def configured_urls_def split: option.splits sum.splits list.splits if_splits)

lemma doh_init_index: "doh_init S a = Inr c \<Longrightarrow> index_ok c"
  by (auto elim!: doh_init_Inr dest!: checked_urls_Inr simp: index_ok_def)

section \<open>Lemmas on queries\<close>

text \<open>A client that was made and used keeps its servers, its limit and a valid index.\<close>

lemma used_client:
  assumes "doh_init S a = Inr c0" "run_cmds query_step qs c0 = (rs, c)"
  shows "dc_server_urls c = dc_server_urls c0" "dc_max_retries c = dc_max_retries c0" "dc_retry_delay c = dc_retry_delay c0"
    "dc_auth_token c = dc_auth_token c0" "index_ok c"
  using query_run_frame [OF assms(2)] doh_init_index [OF assms(1)] by auto

lemma doh_query_gets:
  assumes "doh_query net c d t = (res, c', evs)" "index_ok c"
  shows "length (gets evs) \<le> nat (dc_max_retries c)"
    "gets evs = map (\<lambda>j. dc_server_urls c ! ((dc_index c + j) mod length (dc_server_urls c))) [0..<length (gets evs)]"
    "0 \<le> dc_retry_delay c \<Longrightarrow> pauses evs \<le> dc_retry_delay c * int (nat (dc_max_retries c) - 1)"
proof -
  have "evs = [] \<or> (\<exists>r i. query_loop net c (nat (dc_max_retries c)) 0 (dc_index c) = (r, i, evs))"
    using assms(1) by (auto simp: doh_query_def split: option.splits prod.splits)
  then show "length (gets evs) \<le> nat (dc_max_retries c)"
    "gets evs = map (\<lambda>j. dc_server_urls c ! ((dc_index c + j) mod length (dc_server_urls c))) [0..<length (gets evs)]"
    "0 \<le> dc_retry_delay c \<Longrightarrow> pauses evs \<le> dc_retry_delay c * int (nat (dc_max_retries c) - 1)"
    using query_loop_gets assms(2) query_loop_pauses unfolding index_ok_def by fastforce+
qed

section \<open>Properties\<close>

text \<open>
  A query is bounded: after any use of a client, a query asks the servers in turn, starting with the one that
  served last, with at most as many requests as there are attempts, and pauses only between them.
\<close>

theorem query_bounded:
  assumes "doh_init S a = Inr c0" "run_cmds query_step qs c0 = (rs, c)" "doh_query net c domain record_type = (res, c', evs)"
    and "0 \<le> da_retry_delay a"
  shows "length (gets evs) \<le> nat (dc_max_retries c0)
    \<and> gets evs = map (\<lambda>j. dc_server_urls c0 ! ((dc_index c + j) mod length (dc_server_urls c0))) [0..<length (gets evs)]
    \<and> pauses evs \<le> da_retry_delay a * int (nat (dc_max_retries c0) - 1)"
proof -
  note u = used_client [OF assms(1,2)]
  have "dc_retry_delay c0 = da_retry_delay a" using assms(1) by (auto elim: doh_init_Inr)
  then show ?thesis using doh_query_gets [OF assms(3) u(5)] u(1-3) assms(4) by metis
qed

text \<open>
  C31. Failover works: with the default number of attempts, as long as one of its servers answers, a client in any
  state answers every query with a valid name and type, after at most one request for each server it is configured with.
\<close>

theorem failover_answers:
  assumes "doh_init S a = Inr c0" "da_max_retries a = None" "run_cmds query_step qs c0 = (rs, c)"
    and "validate_dns_name domain = None" "validate_record_type record_type \<noteq> None"
    and "server \<in> set (dc_server_urls c0)" "\<And>k. accepted (net k server) \<noteq> None"
  shows "\<exists>v c' evs. doh_query net c domain record_type = (Inr v, c', evs) \<and> mset (gets evs) \<subseteq># mset (dc_server_urls c0)"
proof -
  note u = used_client [OF assms(1,3)]
  let ?urls = "dc_server_urls c0"
  obtain p where p: "p < length ?urls" "?urls ! p = server" using assms(6) by (auto simp: in_set_conv_nth)
  have i: "dc_index c < length ?urls" using u(1,5) by (simp add: index_ok_def)
  obtain j where j: "j < length ?urls" "(dc_index c + j) mod length ?urls = p" using ring_reaches [OF i p(1)] by blast
  have "dc_max_retries c0 = int (length ?urls) * 2" using assms(1,2) by (auto elim!: doh_init_Inr)
  then have "j < nat (dc_max_retries c)" using j(1) u(2) by simp
  from query_loop_answers [OF this, of net 0 c "dc_index c"] obtain v i' evs
    where q: "query_loop net c (nat (dc_max_retries c)) 0 (dc_index c) = (Inr v, i', evs)" and l: "length (gets evs) \<le> j + 1"
    using assms(7) p(2) j(2) u(1) i by auto
  have "gets evs = map (\<lambda>j. ?urls ! ((dc_index c + j) mod length ?urls)) [0..<length (gets evs)]"
    using query_loop_gets [OF q] i u(1) by simp
  then have "mset (gets evs) \<subseteq># mset ?urls" using ring_once [OF i, of "length (gets evs)"] l j(1) by simp
  then show ?thesis using assms(4,5) q by (auto simp: doh_query_def)
qed

text \<open>
  What the client relies on of the URL library: an HTTP URL with a host is parsed back from its print, as it was or with one
  of the two paths that the client fills in for an empty one.
\<close>

definition urls_reparse :: "client_sys \<Rightarrow> bool" where
  "urls_reparse S \<longleftrightarrow>
     (\<forall>s u p. cs_urlparse S s = Some u \<and> u_scheme u \<in> {''http'', ''https''} \<and> truthy (u_hostname u)
        \<and> (p = u_path u \<or> (u_path u = [] \<or> u_path u = ''/'') \<and> p \<in> {''/resolve'', ''/dns-query''})
      \<longrightarrow> cs_urlparse S (cs_geturl S (u\<lparr> u_path := p \<rparr>)) = Some (u\<lparr> u_path := p \<rparr>))"

text \<open>
  C32. The client itself asks, with its token, only servers that passed the address check: every URL it ever gives to the
  HTTP library parses to an HTTP or HTTPS one whose host is an address, \<^verbatim>\<open>localhost\<close>, or begins with a listed name.
  Where the library is redirected to is not checked.
\<close>

theorem requests_to_checked_hosts:
  assumes "urls_reparse S"
    and "doh_init S a = Inr c0" "run_cmds query_step qs c0 = (rs, c)" "doh_query net c domain record_type = (res, c', evs)"
    and "server \<in> set (gets evs)"
  shows "\<exists>u host. cs_urlparse S server = Some u \<and> u_scheme u \<in> {''http'', ''https''} \<and> u_hostname u = Some host
    \<and> (is_ip_text S (py_lower host) \<or> py_lower host = ''localhost''
       \<or> (\<exists>allowed\<in>set allowed_hosts. py_lower host = allowed \<or> py_startswith (py_lower host) (allowed @ ''.'')))"
proof -
  note u = used_client [OF assms(2,3)]
  let ?n = "length (dc_server_urls c)"
  have "server \<in> set (map (\<lambda>j. dc_server_urls c ! ((dc_index c + j) mod ?n)) [0..<length (gets evs)])"
    using assms(5) doh_query_gets(2) [OF assms(4) u(5)] by simp
  moreover have "(dc_index c + j) mod ?n < ?n" for j using u(5) unfolding index_ok_def by (metis mod_less_divisor not_less_zero gr0I)
  ultimately have "server \<in> set (dc_server_urls c0)" using u(1) by (auto intro!: nth_mem)
  then obtain x where x: "validate_server_url S x = None" "normalize_server_url S x = Some server"
    using assms(2) by (auto elim!: doh_init_Inr dest!: checked_urls_Inr)
  obtain w where w: "cs_urlparse S x = Some w" using x(2) by (auto simp: normalize_server_url_def split: option.splits)
  have h: "u_scheme w \<in> {''http'', ''https''}" "truthy (u_hostname w)"
    using x(1) w by (auto simp: validate_server_url_def split: if_splits)
  have "\<exists>p. server = cs_geturl S (w\<lparr> u_path := p \<rparr>)
      \<and> (p = u_path w \<or> (u_path w = [] \<or> u_path w = ''/'') \<and> p \<in> {''/resolve'', ''/dns-query''})"
    using x(2) w by (auto simp: normalize_server_url_def Let_def split: if_splits intro: exI [of _ "u_path w"])
  then obtain p where "cs_urlparse S server = Some (w\<lparr> u_path := p \<rparr>)"
    using assms(1) w h unfolding urls_reparse_def by blast
  then show ?thesis
    using x(1) w by (auto simp: validate_server_url_def Let_def list_ex_iff truthy_def split: if_splits option.splits)
qed

text \<open>
  The list of public providers is matched as a prefix, not as a suffix: whoever registers a domain under which a
  listed name is a label prefix passes the check that is meant to admit only the providers and their subdomains.
\<close>

theorem lookalike_host_accepted:
  assumes "allowed \<in> set allowed_hosts" "cs_urlparse S s = Some u" "s \<noteq> []" "u_scheme u = ''https''"
    and "u_hostname u = Some (allowed @ ''.'' @ rest)"
  shows "validate_server_url S s = None"
proof -
  have "py_lower allowed = allowed" using assms(1) by (auto simp: allowed_hosts_def py_lower_def lower_char_def)
  then have "py_lower (allowed @ ''.'' @ rest) = allowed @ ''.'' @ py_lower rest" by (simp add: py_lower_def lower_char_def)
  then have "py_startswith (py_lower (allowed @ ''.'' @ rest)) (allowed @ ''.'')" by simp
  then show ?thesis using assms by (auto simp: validate_server_url_def Let_def list_ex_iff)
qed

text \<open>
  The bearer token leaves in the clear for hosts that are not loopback: a host name that begins with \<^verbatim>\<open>127.\<close> gets a
  plaintext channel, and every query on it carries the token in its body.
\<close>

theorem plaintext_channel_carries_token:
  assumes "ga_use_grpc a" "ga_available a" "ga_token a = Some token"
    and "cs_urlparse S (py_replace ''grpc://'' ''http://'' (ga_server_url a)) = Some u"
    and "u_hostname u = Some (''127.'' @ rest)" "u_port u = Some None"
  shows "\<exists>g. grpc_init S a = Inr g \<and> gc_channel g = Some (Insecure (''127.'' @ rest @ '':50052''))
    \<and> (\<forall>domain record_type. qr_token (request_of g domain record_type) = token)"
proof -
  have "digit_chr 5 = CHR ''5''" "digit_chr 0 = CHR ''0''" "digit_chr 2 = CHR ''2''" by code_simp+
  then have port: "dec_int 50052 = ''50052''" by (simp add: dec_int_def dec.simps)
  have "truthy (u_hostname u)" "the (u_hostname u) = ''127.'' @ rest" using assms(5) by (simp_all add: truthy_def)
  moreover have "is_loopback (''127.'' @ rest)" by (simp add: is_loopback_def)
  ultimately have "grpc_channel S a = Some (Insecure ((''127.'' @ rest) @ '':'' @ dec_int 50052))"
    unfolding grpc_channel_def assms(4,6) option.case Let_def by simp
  then have "grpc_init S a = Inr \<lparr> gc_token = Some token, gc_use_grpc = True,
      gc_channel = Some (Insecure (''127.'' @ rest @ '':50052'')), gc_rest = None \<rparr>"
    using assms(1-3) by (simp add: grpc_init_def port)
  then show ?thesis by (simp add: request_of_def get_default_def)
qed

text \<open>
  The environment has the last word on the verification of certificates, also against an explicit
  \<^verbatim>\<open>--verify\<close> and against the configuration file.
\<close>

theorem environment_disables_verification:
  assumes "cs_getenv S ''SQUAWK_VERIFY_SSL'' = Some ''false''" "resolve_settings S (opts @ [(''--verify'', [])]) load = Some s"
    and "make_client S available s = Inr (Doh c)" "\<not> truthy (se_ca s)"
  shows "dc_verify c = Verify_Off"
proof -
  have "py_lower ''false'' = ''false''" by code_simp
  then have v: "\<not> doh_verify_env S b" for b using assms(1) by (simp add: doh_verify_env_def get_default_def)
  obtain s' where "s = apply_env S s'" using assms(2) unfolding resolve_settings_def Let_def by (metis option.distinct(1) option.inject)
  then have "\<not> se_verify s" using v by (simp add: apply_env_def)
  moreover have "doh_of_settings S s = Inr (Doh c)"
    using assms(3) by (auto simp: make_client_def split: if_splits sum.splits)
  ultimately show ?thesis
    using assms(4) by (auto simp: doh_of_settings_def doh_init_def configure_verify_def split: sum.splits option.splits)
qed

section \<open>A concrete client\<close>

text \<open>A parser for URLs of the form \<^verbatim>\<open>scheme://host/path\<close>, enough for the runs below.\<close>

definition sample_urlparse :: "string \<Rightarrow> url option" where
  "sample_urlparse s =
     (let scheme = takeWhile (\<lambda>c. c \<noteq> CHR '':'') s; r = drop (length scheme + 3) s; host = takeWhile (\<lambda>c. c \<noteq> CHR ''/'') r
      in Some \<lparr> u_scheme = scheme, u_hostname = (if host = [] then None else Some host), u_port = Some None,
                u_path = drop (length host) r, u_rest = [] \<rparr>)"

definition sample_geturl :: "url \<Rightarrow> string" where
  "sample_geturl u = u_scheme u @ ''://'' @ get_default (u_hostname u) [] @ u_path u"

definition sample_sys :: client_sys where
  "sample_sys = \<lparr> cs_urlparse = sample_urlparse, cs_geturl = sample_geturl, cs_ipv6 = (\<lambda>s. None), cs_exists = (\<lambda>f. True),
     cs_getenv = (\<lambda>k. if k = ''SQUAWK_VERIFY_SSL'' then Some ''false'' else None) \<rparr>"

definition sample_args :: doh_args where
  "sample_args = doh_defaults\<lparr> da_server_urls := Some [''https://localhost/dns-query'', ''https://dns.google/''], da_auth_token := Some ''t'' \<rparr>"

definition sample_client :: doh_client where
  "sample_client = \<lparr> dc_server_urls = [''https://localhost/dns-query'', ''https://dns.google/resolve''], dc_auth_token = Some ''t'',
     dc_max_retries = 4, dc_retry_delay = 2, dc_index = 0, dc_verify = Verify_Default, dc_cert = No_Cert \<rparr>"

text \<open>The first server is down.\<close>

definition sample_net :: "nat \<Rightarrow> string \<Rightarrow> doh_reply" where
  "sample_net k server = (if server = ''https://dns.google/resolve'' then Http 200 (Some (JInt 0)) [] else Request_Error ''refused'')"

lemma sample_client_made: "doh_init sample_sys sample_args = Inr sample_client"
  by code_simp

theorem query_bounded_witness:
  "length (gets (snd (snd (doh_query sample_net sample_client ''example.com'' ''a'')))) \<le> 4"
proof -
  obtain res c' evs where q: "doh_query sample_net sample_client ''example.com'' ''a'' = (res, c', evs)" by (metis prod_cases3)
  have r: "run_cmds query_step [] sample_client = ([], sample_client)" by simp
  have "0 \<le> da_retry_delay sample_args" "dc_max_retries sample_client = 4"
    by (simp_all add: sample_args_def doh_defaults_def sample_client_def)
  from query_bounded [OF sample_client_made r q this(1)] this(2) q show ?thesis by simp
qed

theorem failover_answers_witness:
  "\<exists>v c' evs. doh_query sample_net sample_client ''example.com'' ''a'' = (Inr v, c', evs)
     \<and> mset (gets evs) \<subseteq># {# ''https://localhost/dns-query'', ''https://dns.google/resolve'' #}"
proof -
  have r: "run_cmds query_step [] sample_client = ([], sample_client)" by simp
  have a: "da_max_retries sample_args = None" "validate_dns_name ''example.com'' = None" "validate_record_type ''a'' \<noteq> None"
    by code_simp+
  have b: "''https://dns.google/resolve'' \<in> set (dc_server_urls sample_client)"
    "mset (dc_server_urls sample_client) = {# ''https://localhost/dns-query'', ''https://dns.google/resolve'' #}"
    by (simp_all add: sample_client_def)
  have f: "accepted (sample_net k ''https://dns.google/resolve'') \<noteq> None" for k by (simp add: sample_net_def accepted_def)
  from failover_answers [where net = sample_net, OF sample_client_made a(1) r a(2,3) b(1) f] b(2) show ?thesis by simp
qed

lemma sample_urlparse_of:
  assumes "CHR '':'' \<notin> set sch" "CHR ''/'' \<notin> set h" "h \<noteq> []" "p = [] \<or> hd p = CHR ''/''"
  shows "sample_urlparse (sch @ ''://'' @ h @ p)
    = Some \<lparr> u_scheme = sch, u_hostname = Some h, u_port = Some None, u_path = p, u_rest = [] \<rparr>"
proof -
  have "takeWhile (\<lambda>c. c \<noteq> CHR '':'') (sch @ ''://'' @ h @ p) = sch" using assms(1) by (auto simp: takeWhile_append)
  moreover have "takeWhile (\<lambda>c. c \<noteq> CHR ''/'') (h @ p) = h" using assms(2,4) by (cases p) (auto simp: takeWhile_append)
  ultimately show ?thesis using assms(3) by (simp add: sample_urlparse_def Let_def numeral_3_eq_3)
qed

lemma sample_urls_reparse: "urls_reparse sample_sys"
proof -
  have "sample_urlparse (sample_geturl (u\<lparr> u_path := p \<rparr>)) = Some (u\<lparr> u_path := p \<rparr>)"
    if u: "sample_urlparse s = Some u" and t: "truthy (u_hostname u)" and p: "p = u_path u \<or> p \<in> {''/resolve'', ''/dns-query''}"
    for s u p
  proof -
    define sch where "sch = takeWhile (\<lambda>c. c \<noteq> CHR '':'') s"
    define r where "r = drop (length sch + 3) s"
    define h where "h = takeWhile (\<lambda>c. c \<noteq> CHR ''/'') r"
    have ud: "u = \<lparr> u_scheme = sch, u_hostname = Some h, u_port = Some None, u_path = drop (length h) r, u_rest = [] \<rparr>" "h \<noteq> []"
      using u t by (auto simp: sample_urlparse_def Let_def truthy_def sch_def r_def h_def split: if_splits)
    have "CHR '':'' \<notin> set sch" "CHR ''/'' \<notin> set h" by (auto simp: sch_def h_def dest: set_takeWhileD)
    moreover have "drop (length h) r = dropWhile (\<lambda>c. c \<noteq> CHR ''/'') r" by (simp add: h_def dropWhile_eq_drop)
    then have "drop (length h) r = [] \<or> hd (drop (length h) r) = CHR ''/''"
      using hd_dropWhile [of "\<lambda>c. c \<noteq> CHR ''/''" r] by auto
    then have "p = [] \<or> hd p = CHR ''/''" using p ud(1) by auto
    ultimately show ?thesis using sample_urlparse_of [of sch h p] ud by (simp add: sample_geturl_def get_default_def)
  qed
  then show ?thesis unfolding urls_reparse_def sample_sys_def by (simp, blast)
qed

theorem requests_to_checked_hosts_witness:
  "\<exists>u host. cs_urlparse sample_sys ''https://dns.google/resolve'' = Some u \<and> u_scheme u \<in> {''http'', ''https''} \<and> u_hostname u = Some host
    \<and> (is_ip_text sample_sys (py_lower host) \<or> py_lower host = ''localhost''
       \<or> (\<exists>allowed\<in>set allowed_hosts. py_lower host = allowed \<or> py_startswith (py_lower host) (allowed @ ''.'')))"
proof -
  have r: "run_cmds query_step [] sample_client = ([], sample_client)" by simp
  obtain res c' evs where q: "doh_query sample_net sample_client ''a.b'' ''A'' = (res, c', evs)" by (metis prod_cases3)
  have "''https://dns.google/resolve'' \<in> set (gets (snd (snd (doh_query sample_net sample_client ''a.b'' ''A''))))"
    by code_simp
  then have g: "''https://dns.google/resolve'' \<in> set (gets evs)" using q by simp
  show ?thesis by (rule requests_to_checked_hosts [OF sample_urls_reparse sample_client_made r q g])
qed

theorem lookalike_host_accepted_witness: "validate_server_url sample_sys ''https://dns.google.evil.example/q'' = None"
proof -
  let ?s = "''https://dns.google.evil.example/q''"
  let ?u = "the (sample_urlparse ?s)"
  have a: "''dns.google'' \<in> set allowed_hosts" "cs_urlparse sample_sys ?s = Some ?u" "u_scheme ?u = ''https''"
    "u_hostname ?u = Some (''dns.google'' @ ''.'' @ ''evil.example'')" by code_simp+
  show ?thesis by (rule lookalike_host_accepted [OF a(1,2) _ a(3,4)]) simp
qed

theorem plaintext_channel_carries_token_witness:
  "\<exists>g. grpc_init sample_sys \<lparr> ga_server_url = ''grpc://127.evil.example'', ga_token = Some ''t'', ga_use_grpc = True, ga_ca_cert = None,
      ga_available = True \<rparr> = Inr g \<and> gc_channel g = Some (Insecure ''127.evil.example:50052'')"
proof -
  let ?a = "\<lparr> ga_server_url = ''grpc://127.evil.example'', ga_token = Some ''t'', ga_use_grpc = True, ga_ca_cert = None,
      ga_available = True \<rparr>"
  have p: "py_replace ''grpc://'' ''http://'' (ga_server_url ?a) = ''http://127.evil.example''" by code_simp
  let ?u = "the (sample_urlparse ''http://127.evil.example'')"
  have u: "cs_urlparse sample_sys (py_replace ''grpc://'' ''http://'' (ga_server_url ?a)) = Some ?u"
    "u_hostname ?u = Some (''127.'' @ ''evil.example'')" "u_port ?u = Some None"
    unfolding p by code_simp+
  from plaintext_channel_carries_token [where token = "''t''", OF _ _ _ u] show ?thesis by auto
qed

theorem environment_disables_verification_witness:
  "\<exists>c. make_client sample_sys False (the (resolve_settings sample_sys [(''-s'', ''https://localhost/''), (''--verify'', [])] (\<lambda>f. \<lparr> cf_entries = [], cf_verify = None \<rparr>)))
     = Inr (Doh c) \<and> dc_verify c = Verify_Off"
proof -
  let ?load = "\<lambda>f :: string. \<lparr> cf_entries = [], cf_verify = None \<rparr>"
  let ?s = "the (resolve_settings sample_sys ([(''-s'', ''https://localhost/'')] @ [(''--verify'', [])]) ?load)"
  have g: "cs_getenv sample_sys ''SQUAWK_VERIFY_SSL'' = Some ''false''" by (simp add: sample_sys_def)
  have s: "resolve_settings sample_sys ([(''-s'', ''https://localhost/'')] @ [(''--verify'', [])]) ?load = Some ?s"
    by (simp add: resolve_settings_def Let_def)
  have ca: "\<not> truthy (se_ca ?s)" by code_simp
  have "case make_client sample_sys False ?s of Inr (Doh c) \<Rightarrow> True | _ \<Rightarrow> False" by code_simp
  then obtain c where c: "make_client sample_sys False ?s = Inr (Doh c)" by (auto split: sum.splits any_client.splits)
  from environment_disables_verification [OF g s c ca] c show ?thesis by auto
qed

end
