(* ===== verification/Byte_Codec.thy ===== *)
theory Byte_Codec
  imports Prelude "HOL-Library.Word"
begin

text \<open>
  Byte strings, Python slices, the big-endian unsigned formats of the \<^verbatim>\<open>struct\<close> module, and framed
  streams: the loops that read length-prefixed items from a buffer at a moving offset (NTS-KE records,
  NTP extension fields) share the contract \<open>framing\<close>.
\<close>

type_synonym bytes = "8 word list"

text \<open>\<^verbatim>\<open>data[a:b]\<close> for \<open>0 \<le> a\<close>, \<open>0 \<le> b\<close>.\<close>

definition py_slice :: "nat \<Rightarrow> nat \<Rightarrow> 'a list \<Rightarrow> 'a list" where
  "py_slice a b xs = take (b - a) (drop a xs)"

fun be_bytes :: "nat \<Rightarrow> int \<Rightarrow> bytes" where
  "be_bytes 0 v = []"
| "be_bytes (Suc n) v = be_bytes n (v div 256) @ [word_of_int v]"

text \<open>\<^verbatim>\<open>struct.pack\<close> of an unsigned field of \<open>n\<close> bytes; \<open>None\<close> is \<^verbatim>\<open>struct.error\<close>.\<close>

definition pack :: "nat \<Rightarrow> int \<Rightarrow> bytes option" where
  "pack n v = (if 0 \<le> v \<and> v < 256 ^ n then Some (be_bytes n v) else None)"

definition unpack :: "bytes \<Rightarrow> int" where
  "unpack bs = foldl (\<lambda>a b. a * 256 + uint b) 0 bs"

text \<open>The next multiple of four: \<^verbatim>\<open>if n % 4 != 0: n += 4 - (n % 4)\<close>.\<close>

definition pad4 :: "nat \<Rightarrow> nat" where
  "pad4 n = (if n mod 4 \<noteq> 0 then n + (4 - n mod 4) else n)"

lemma length_be_bytes [simp]: "length (be_bytes n v) = n"
  by (induction n arbitrary: v) auto

lemma length_pack [simp]: "pack n v = Some bs \<Longrightarrow> length bs = n"
  by (auto simp: pack_def split: if_splits)

lemma unpack_snoc: "unpack (bs @ [b]) = unpack bs * 256 + uint b"
  by (simp add: unpack_def)

lemma unpack_be_bytes: "0 \<le> v \<Longrightarrow> unpack (be_bytes n v) = v mod 256 ^ n"
proof (induction n arbitrary: v)
  case (Suc n)
  have "uint (word_of_int v :: 8 word) = v mod 256" by (simp add: uint_word_of_int)
  moreover have "v mod 256 ^ Suc n = 256 * (v div 256 mod 256 ^ n) + v mod 256"
    using zmod_zmult2_eq [of "256 ^ n" v 256] by simp
  moreover have "unpack (be_bytes n (v div 256)) = v div 256 mod 256 ^ n"
    using Suc by (simp add: pos_imp_zdiv_nonneg_iff)
  ultimately show ?case by (simp add: unpack_snoc)
qed (simp add: unpack_def)

lemma unpack_pack [simp]: "pack n v = Some bs \<Longrightarrow> unpack bs = v"
  by (auto simp: pack_def unpack_be_bytes split: if_splits)

lemma pack_Some: "\<lbrakk> 0 \<le> v; v < 256 ^ n \<rbrakk> \<Longrightarrow> \<exists>bs. pack n v = Some bs"
  by (simp add: pack_def)

lemma unpack_nonneg: "0 \<le> unpack bs"
  by (induction bs rule: rev_induct) (simp_all add: unpack_snoc, simp add: unpack_def)

lemma unpack_bound: "unpack bs < 256 ^ length bs"
proof (induction bs rule: rev_induct)
  case (snoc b bs)
  have "uint b \<le> 255" using uint_lt2p [of b] by simp
  with snoc show ?case by (simp add: unpack_snoc)
qed (simp add: unpack_def)

lemma length_slice [simp]: "length (py_slice a b xs) = min (b - a) (length xs - a)"
  by (simp add: py_slice_def)

lemma slice_app:
  assumes "length pre = a" "length mid = b - a"
  shows "py_slice a b (pre @ mid @ rest) = mid"
  using assms by (simp add: py_slice_def)

lemma slice_in:
  assumes "length pre \<le> a" "b \<le> length pre + length mid"
  shows "py_slice a b (pre @ mid @ rest) = py_slice (a - length pre) (b - length pre) mid"
proof -
  have "drop a (pre @ mid @ rest) = drop (a - length pre) (mid @ rest)"
    using assms(1) by simp
  moreover have "take (b - a) (drop (a - length pre) (mid @ rest)) =
      take (b - a) (drop (a - length pre) mid)"
    using assms by (cases "a \<le> b") simp_all
  ultimately show ?thesis using assms(1) by (simp add: py_slice_def)
qed

lemma pad4_bounds: "n \<le> pad4 n" "pad4 n < n + 4" "pad4 n mod 4 = 0"
proof -
  have m: "n mod 4 < 4" by simp
  then show "n \<le> pad4 n" unfolding pad4_def by presburger
  show "pad4 n < n + 4" unfolding pad4_def by presburger
  show "pad4 n mod 4 = 0" unfolding pad4_def by presburger
qed

section \<open>Framed streams\<close>

text \<open>
  \<open>get data off\<close> reads one item and the offset behind it, \<open>parse\<close> is the loop, \<open>put\<close> the encoder
  (\<open>None\<close> when a field does not fit); \<open>seen r\<close> is how the reader sees what was written as \<open>r\<close> (padding).
\<close>

locale framing =
  fixes get :: "bytes \<Rightarrow> nat \<Rightarrow> ('r \<times> nat) option"
    and parse :: "bytes \<Rightarrow> nat \<Rightarrow> 'r list"
    and put :: "'r \<Rightarrow> bytes option"
    and seen :: "'r \<Rightarrow> 'r"
  assumes get_put: "put r = Some bs \<Longrightarrow>
        get (pre @ bs @ rest) (length pre) = Some (seen r, length pre + length bs)"
    and put_nonempty: "put r = Some bs \<Longrightarrow> bs \<noteq> []"
    and parse_unfold: "parse data off =
        (if length data \<le> off then [] else
           (case get data off of None \<Rightarrow> [] | Some (r, n) \<Rightarrow> r # parse data n))"
begin

lemma parse_end: "length data \<le> off \<Longrightarrow> parse data off = []"
  by (subst parse_unfold) simp

lemma parse_step:
  assumes "put r = Some bs"
  shows "parse (pre @ bs @ rest) (length pre) = seen r # parse (pre @ bs @ rest) (length pre + length bs)"
  using put_nonempty [OF assms]
  by (subst parse_unfold) (simp add: get_put [OF assms])

text \<open>The loop reads back every item of a stream of written items.\<close>

lemma parse_stream:
  "list_all2 (\<lambda>r bs. put r = Some bs) rs bss \<Longrightarrow>
     parse (pre @ concat bss) (length pre) = map seen rs"
proof (induction arbitrary: pre rule: list_all2_induct)
  case Nil
  show ?case by (simp add: parse_end)
next
  case (Cons r rs bs bss)
  have "parse (pre @ bs @ concat bss) (length pre) =
      seen r # parse ((pre @ bs) @ concat bss) (length (pre @ bs))"
    using parse_step [OF Cons(1), of pre "concat bss"] by simp
  then show ?case using Cons(3) [of "pre @ bs"] by simp
qed

end

end
