(* ===== verification/Nts_Wire.thy ===== *)
theory Nts_Wire
  imports Byte_Codec
begin

text \<open>
  The wire formats of the NTP/NTS server (\<^verbatim>\<open>ntp-server/bins/server.py\<close>): NTS-KE records, NTP extension
  fields, and the search for the Authenticator field. Both streams meet the contract \<open>framing\<close>.
\<close>

unbundle bit_operations_syntax

section \<open>Constants\<close>

definition END_OF_MESSAGE :: int where "END_OF_MESSAGE = 0"
definition NEXT_PROTOCOL :: int where "NEXT_PROTOCOL = 1"
definition KE_ERROR :: int where "KE_ERROR = 2"
definition AEAD_ALGORITHM :: int where "AEAD_ALGORITHM = 4"
definition NEW_COOKIE :: int where "NEW_COOKIE = 5"
definition SQUAWK_AUTH_TOKEN :: int where "SQUAWK_AUTH_TOKEN = 16384"

definition AEAD_AES_SIV_CMAC_256 :: int where "AEAD_AES_SIV_CMAC_256 = 15"

definition UNIQUE_IDENTIFIER :: int where "UNIQUE_IDENTIFIER = 0x0104"
definition NTS_COOKIE :: int where "NTS_COOKIE = 0x0204"
definition NTS_AUTHENTICATOR :: int where "NTS_AUTHENTICATOR = 0x0404"

lemmas nts_constants = END_OF_MESSAGE_def NEXT_PROTOCOL_def KE_ERROR_def AEAD_ALGORITHM_def
  NEW_COOKIE_def SQUAWK_AUTH_TOKEN_def AEAD_AES_SIV_CMAC_256_def UNIQUE_IDENTIFIER_def
  NTS_COOKIE_def NTS_AUTHENTICATOR_def

section \<open>NTS-KE records\<close>

text \<open>Record type, body, critical bit.\<close>

type_synonym ke_record = "int \<times> bytes \<times> bool"

definition ke_encode :: "int \<Rightarrow> bytes \<Rightarrow> bool \<Rightarrow> bytes option" where
  "ke_encode record_type body critical =
     (let type_field = (if critical then push_bit 15 1 OR record_type else record_type);
          body_len = length body;
          total_len = pad4 (4 + body_len);
          padding = total_len - 4 - body_len
      in case (pack 2 type_field, pack 2 (int body_len)) of
           (Some t, Some l) \<Rightarrow> Some (t @ l @ body @ replicate padding 0)
         | _ \<Rightarrow> None)"

definition ke_decode :: "bytes \<Rightarrow> nat \<Rightarrow> (ke_record \<times> nat) option" where
  "ke_decode data offset =
     (if length data < offset + 4 then None
      else
        (let type_field = unpack (py_slice offset (offset + 2) data);
             body_len = nat (unpack (py_slice (offset + 2) (offset + 4) data));
             critical = (type_field AND push_bit 15 1 \<noteq> 0);
             record_type = type_field AND 0x7FFF
         in if length data < offset + 4 + body_len then None
            else Some ((record_type, py_slice (offset + 4) (offset + 4 + body_len) data, critical),
                       offset + pad4 (4 + body_len))))"

lemma ke_decode_progress: "ke_decode data off = Some (r, n) \<Longrightarrow> off + 4 \<le> n \<and> off < length data"
  using pad4_bounds(1) [of "4 + nat (unpack (py_slice (off + 2) (off + 4) data))"]
  by (auto simp: ke_decode_def Let_def split: if_splits)

function ke_parse_from :: "bytes \<Rightarrow> nat \<Rightarrow> ke_record list" where
  "ke_parse_from data offset =
     (if length data \<le> offset then []
      else (case ke_decode data offset of
              None \<Rightarrow> []
            | Some (r, next_offset) \<Rightarrow> r # ke_parse_from data next_offset))"
  by pat_completeness auto
termination
  by (relation "measure (\<lambda>(data, off). length data - off)") (auto dest: ke_decode_progress)

declare ke_parse_from.simps [simp del]

definition parse_all :: "bytes \<Rightarrow> ke_record list" where
  "parse_all data = ke_parse_from data 0"

section \<open>NTP extension fields\<close>

type_synonym ext_field = "int \<times> bytes"

definition build_ef :: "int \<Rightarrow> bytes \<Rightarrow> bytes option" where
  "build_ef ef_type data =
     (let padded = data @ replicate (pad4 (length data) - length data) 0;
          ef_len = 4 + length padded
      in case (pack 2 ef_type, pack 2 (int ef_len)) of
           (Some t, Some l) \<Rightarrow> Some (t @ l @ padded)
         | _ \<Rightarrow> None)"

text \<open>One round of the loop over the extension fields; \<open>None\<close> leaves the loop.\<close>

definition next_ef :: "bytes \<Rightarrow> nat \<Rightarrow> (ext_field \<times> nat) option" where
  "next_ef data offset =
     (if length data < offset + 4 then None
      else
        (let ef_type = unpack (py_slice offset (offset + 2) data);
             ef_len = nat (unpack (py_slice (offset + 2) (offset + 4) data))
         in if ef_len < 4 \<or> ef_len mod 4 \<noteq> 0 then None
            else if length data < offset + ef_len then None
            else Some ((ef_type, py_slice (offset + 4) (offset + ef_len) data), offset + ef_len)))"

lemma next_ef_progress: "next_ef data off = Some (r, n) \<Longrightarrow> off + 4 \<le> n \<and> n \<le> length data"
  by (auto simp: next_ef_def Let_def split: if_splits)

function ef_loop :: "bytes \<Rightarrow> nat \<Rightarrow> ext_field list" where
  "ef_loop data offset =
     (if length data \<le> offset then []
      else (case next_ef data offset of
              None \<Rightarrow> []
            | Some (ef, next_offset) \<Rightarrow> ef # ef_loop data next_offset))"
  by pat_completeness auto
termination
  by (relation "measure (\<lambda>(data, off). length data - off)") (auto dest: next_ef_progress)

declare ef_loop.simps [simp del]

function authenticator_from :: "bytes \<Rightarrow> nat \<Rightarrow> (bytes \<times> bytes) option" where
  "authenticator_from data offset =
     (case next_ef data offset of
        None \<Rightarrow> None
      | Some ((ef_type, body), next_offset) \<Rightarrow>
          (if ef_type = NTS_AUTHENTICATOR then Some (take offset data, body)
           else authenticator_from data next_offset))"
  by pat_completeness auto
termination
  by (relation "measure (\<lambda>(data, off). length data - off)") (auto dest: next_ef_progress)

declare authenticator_from.simps [simp del]

definition extract_authenticator :: "bytes \<Rightarrow> (bytes \<times> bytes) option" where
  "extract_authenticator data =
     (if length data < 48 then None else authenticator_from data 48)"

section \<open>The streams are framed\<close>

lemma type_field_bits:
  assumes "0 \<le> rt" "rt < (32768 :: int)"
  shows "(push_bit 15 1 OR rt) AND 0x7FFF = rt" "rt AND 0x7FFF = rt"
    "(push_bit 15 1 OR rt) AND push_bit 15 1 \<noteq> 0" "rt AND push_bit 15 1 = 0"
    "0 \<le> push_bit 15 1 OR rt" "push_bit 15 1 OR rt < 65536"
proof -
  have t: "take_bit 15 rt = rt" using assms by (simp add: take_bit_int_eq_self)
  have m: "(0x7FFF :: int) = mask 15" by (simp add: mask_eq_exp_minus_1)
  show "rt AND 0x7FFF = rt" unfolding m using t by (simp add: take_bit_eq_mask)
  show "(push_bit 15 1 OR rt) AND 0x7FFF = rt"
    unfolding m using t by (simp add: bit.conj_disj_distrib2 flip: take_bit_eq_mask)
  have b: "\<not> bit rt 15" using t by (metis bit_take_bit_iff less_irrefl)
  have p: "push_bit 15 1 = (2 ^ 15 :: int)" by (simp add: push_bit_eq_mult)
  show "rt AND push_bit 15 1 = 0" unfolding p and_exp_eq_0_iff_not_bit by (rule b)
  show "(push_bit 15 1 OR rt) AND push_bit 15 1 \<noteq> 0"
    unfolding p and_exp_eq_0_iff_not_bit by (simp only: bit_or_iff bit_exp_iff) simp
  show "0 \<le> push_bit 15 1 OR rt" using assms by simp
  have "(push_bit 15 1 :: int) = 32768" by (simp add: push_bit_eq_mult)
  then show "push_bit 15 1 OR rt < 65536" using OR_upper [of "32768" 16 rt] assms by simp
qed

text \<open>A record within the documented range of types.\<close>

definition ke_put :: "ke_record \<Rightarrow> bytes option" where
  "ke_put r = (case r of (t, body, critical) \<Rightarrow>
     if 0 \<le> t \<and> t < 32768 then ke_encode t body critical else None)"

definition ef_put :: "ext_field \<Rightarrow> bytes option" where
  "ef_put r = (case r of (t, data) \<Rightarrow> build_ef t data)"

definition ef_seen :: "ext_field \<Rightarrow> ext_field" where
  "ef_seen r = (case r of (t, data) \<Rightarrow> (t, data @ replicate (pad4 (length data) - length data) 0))"

lemma ke_encode_Some:
  assumes "ke_encode t body c = Some bs"
  obtains tb lb where "pack 2 (if c then push_bit 15 1 OR t else t) = Some tb"
    "pack 2 (int (length body)) = Some lb"
    "bs = tb @ lb @ body @ replicate (pad4 (4 + length body) - 4 - length body) 0"
  using assms by (auto simp: ke_encode_def Let_def split: option.splits)

lemma ke_encode_length: "ke_encode t body c = Some bs \<Longrightarrow> length bs = pad4 (4 + length body)"
  using pad4_bounds(1) [of "4 + length body"] by (auto elim!: ke_encode_Some)

lemma header_slices:
  assumes "length tb = 2" "length lb = 2"
  shows "py_slice (length pre) (length pre + 2) (pre @ tb @ lb @ rest) = tb"
    "py_slice (length pre + 2) (length pre + 4) (pre @ tb @ lb @ rest) = lb"
    "n = length pre + 4 + length body \<Longrightarrow>
       py_slice (length pre + 4) n (pre @ tb @ lb @ body @ rest') = body"
  using assms by (simp_all add: py_slice_def)

lemma ke_decode_put:
  assumes "ke_put r = Some bs"
  shows "ke_decode (pre @ bs @ rest) (length pre) = Some (r, length pre + length bs)"
proof -
  obtain t body c where r: "r = (t, body, c)" by (cases r)
  with assms have t: "0 \<le> t" "t < 32768" and e: "ke_encode t body c = Some bs"
    by (auto simp: ke_put_def split: if_splits)
  from e obtain tb lb where p: "pack 2 (if c then push_bit 15 1 OR t else t) = Some tb"
    "pack 2 (int (length body)) = Some lb"
    and bs: "bs = tb @ lb @ body @ replicate (pad4 (4 + length body) - 4 - length body) 0"
    by (rule ke_encode_Some)
  have l: "length tb = 2" "length lb = 2" using p by simp_all
  have u: "unpack tb = (if c then push_bit 15 1 OR t else t)" "unpack lb = int (length body)"
    using unpack_pack [OF p(1)] unpack_pack [OF p(2)] by simp_all
  have n: "length bs = pad4 (4 + length body)" by (rule ke_encode_length [OF e])
  have le: "4 + length body \<le> length bs" unfolding n by (rule pad4_bounds)
  define pd where "pd = replicate (pad4 (4 + length body) - 4 - length body) (0 :: 8 word)"
  have q: "pre @ bs @ rest = pre @ tb @ lb @ body @ pd @ rest" using bs by (simp add: pd_def)
  have s: "py_slice (length pre + 4) (length pre + 4 + length body) (pre @ tb @ lb @ body @ pd @ rest) = body"
    using l by (simp add: py_slice_def)
  have k: "nat (unpack lb) = length body" using u(2) by simp
  have "ke_decode (pre @ tb @ lb @ body @ pd @ rest) (length pre) =
      Some ((unpack tb AND 0x7FFF, body, unpack tb AND push_bit 15 1 \<noteq> 0),
            length pre + pad4 (4 + length body))"
    unfolding ke_decode_def Let_def header_slices(1,2) [OF l] k s using l by simp
  then show ?thesis unfolding q n using u(1) r type_field_bits [OF t] by (cases c) simp_all
qed

interpretation ke: framing ke_decode ke_parse_from ke_put "\<lambda>r. r"
proof
  show "ke_put r = Some bs \<Longrightarrow>
      ke_decode (pre @ bs @ rest) (length pre) = Some (r, length pre + length bs)" for r bs pre rest
    by (rule ke_decode_put)
  show "bs \<noteq> []" if h: "ke_put r = Some bs" for r bs
  proof -
    obtain t body c where "ke_encode t body c = Some bs"
      using h by (cases r) (auto simp: ke_put_def split: if_splits)
    from ke_encode_length [OF this] pad4_bounds(1) [of "4 + length body"] show ?thesis by auto
  qed
qed (rule ke_parse_from.simps)

lemma build_ef_Some:
  assumes "build_ef t data = Some bs"
  obtains tb lb where "pack 2 t = Some tb"
    "pack 2 (int (4 + pad4 (length data))) = Some lb"
    "bs = tb @ lb @ data @ replicate (pad4 (length data) - length data) 0"
  using assms pad4_bounds(1) [of "length data"]
  by (auto simp: build_ef_def Let_def split: option.splits)

lemma build_ef_length: "build_ef t data = Some bs \<Longrightarrow> length bs = 4 + pad4 (length data)"
  using pad4_bounds(1) [of "length data"] by (auto elim!: build_ef_Some)

lemma next_ef_put:
  assumes "ef_put r = Some bs"
  shows "next_ef (pre @ bs @ rest) (length pre) = Some (ef_seen r, length pre + length bs)"
proof -
  obtain t data where r: "r = (t, data)" by (cases r)
  with assms have e: "build_ef t data = Some bs" by (simp add: ef_put_def)
  let ?p = "data @ replicate (pad4 (length data) - length data) 0"
  have lp: "length ?p = pad4 (length data)" using pad4_bounds(1) [of "length data"] by simp
  from e obtain tb lb where p: "pack 2 t = Some tb" "pack 2 (int (4 + pad4 (length data))) = Some lb"
    and bs: "bs = tb @ lb @ ?p" by (rule build_ef_Some)
  have l: "length tb = 2" "length lb = 2" using p by simp_all
  have u: "unpack tb = t" "nat (unpack lb) = 4 + pad4 (length data)"
    using p(1) unpack_pack [OF p(2)] by simp_all
  have m: "(4 + pad4 (length data)) mod 4 = 0" using pad4_bounds(3) [of "length data"] by simp
  have s: "py_slice (length pre + 4) (length pre + (4 + pad4 (length data))) (pre @ tb @ lb @ ?p @ rest) = ?p"
    using lp l by (simp add: py_slice_def)
  have n: "length bs = 4 + pad4 (length data)" by (rule build_ef_length [OF e])
  have q: "pre @ bs @ rest = pre @ tb @ lb @ ?p @ rest" using bs by simp
  have "next_ef (pre @ tb @ lb @ ?p @ rest) (length pre) = Some ((t, ?p), length pre + (4 + pad4 (length data)))"
    unfolding next_ef_def Let_def header_slices(1,2) [OF l] u s
    using m lp l by simp
  then show ?thesis unfolding q n using r by (simp add: ef_seen_def)
qed

interpretation ef: framing next_ef ef_loop ef_put ef_seen
proof
  show "ef_put r = Some bs \<Longrightarrow>
      next_ef (pre @ bs @ rest) (length pre) = Some (ef_seen r, length pre + length bs)" for r bs pre rest
    by (rule next_ef_put)
  show "bs \<noteq> []" if "ef_put r = Some bs" for r bs
    using that by (auto simp: ef_put_def split: prod.splits dest: build_ef_length)
qed (rule ef_loop.simps)

text \<open>The search skips every other field and stops at the first Authenticator.\<close>

lemma authenticator_from_stream:
  assumes "list_all2 (\<lambda>r bs. ef_put r = Some bs) rs bss"
    and "\<forall>r\<in>set rs. fst r \<noteq> NTS_AUTHENTICATOR"
    and "build_ef NTS_AUTHENTICATOR tag = Some aef"
  shows "authenticator_from (pre @ concat bss @ aef @ rest) (length pre) =
    Some (pre @ concat bss, tag @ replicate (pad4 (length tag) - length tag) 0)"
  using assms(1,2)
proof (induction arbitrary: pre rule: list_all2_induct)
  case Nil
  have "ef_put (NTS_AUTHENTICATOR, tag) = Some aef" using assms(3) by (simp add: ef_put_def)
  then show ?case
    by (subst authenticator_from.simps) (simp add: next_ef_put ef_seen_def)
next
  case (Cons r rs bs bss)
  have f: "fst (ef_seen r) \<noteq> NTS_AUTHENTICATOR"
    using Cons.prems by (cases r) (simp add: ef_seen_def)
  have "authenticator_from (pre @ bs @ concat bss @ aef @ rest) (length pre) =
      authenticator_from ((pre @ bs) @ concat bss @ aef @ rest) (length (pre @ bs))"
    using f by (subst authenticator_from.simps)
      (auto simp: next_ef_put [OF Cons.hyps(1)] split: prod.splits)
  also have "\<dots> = Some ((pre @ bs) @ concat bss, tag @ replicate (pad4 (length tag) - length tag) 0)"
    using Cons.prems by (intro Cons.IH) auto
  finally show ?case by simp
qed


section \<open>Properties\<close>

text \<open>
  C33. NTS-KE framing round trip: encoding records of the documented type range, whose bodies fit the
  length field, and concatenating them gives a message that the parser reads back record by record, all of them,
  with types, bodies (padding removed) and critical bits intact. An end-of-message record is one like the others.
\<close>

theorem parse_all_encode:
  assumes "list_all2 (\<lambda>(t, body, critical) bs. ke_encode t body critical = Some bs) rs bss"
    and "\<forall>r\<in>set rs. 0 \<le> fst r \<and> fst r < 32768"
  shows "parse_all (concat bss) = rs"
proof -
  have "list_all2 (\<lambda>r bs. ke_put r = Some bs) rs bss"
    using assms by (auto simp: ke_put_def list_all2_conv_all_nth all_set_conv_all_nth split: prod.splits)
  from ke.parse_stream [OF this, of "[]"] show ?thesis by (simp add: parse_all_def)
qed

theorem parse_all_encode_witness:
  "ke_encode 1 [0, 0] True = Some [0x80, 1, 0, 2, 0, 0, 0, 0] \<and>
   ke_encode 16384 [97, 98, 99] False = Some [0x40, 0, 0, 3, 97, 98, 99, 0] \<and>
   parse_all ([0x80, 1, 0, 2, 0, 0, 0, 0] @ [0x40, 0, 0, 3, 97, 98, 99, 0]) =
     [(1, [0, 0], True), (16384, [97, 98, 99], False)]"
proof -
  have e: "ke_encode 1 [0, 0] True = Some [0x80, 1, 0, 2, 0, 0, 0, 0]"
    "ke_encode 16384 [97, 98, 99] False = Some [0x40, 0, 0, 3, 97, 98, 99, 0]"
    by code_simp+
  with parse_all_encode [of "[(1, [0, 0], True), (16384, [97, 98, 99], False)]"
      "[[0x80, 1, 0, 2, 0, 0, 0, 0], [0x40, 0, 0, 3, 97, 98, 99, 0]]"]
  show ?thesis by simp
qed

text \<open>
  C34. Whatever bytes arrive, the parser returns, and what it returns was framed inside the message: the
  four-byte headers and the bodies of all records together are no longer than the message.
\<close>

theorem parse_all_bounded:
  "4 * length (parse_all data) + sum_list (map (\<lambda>(t, body, c). length body) (parse_all data))
     \<le> length data"
  unfolding parse_all_def
proof -
  have "4 * length (ke_parse_from data off) + sum_list (map (\<lambda>(t, body, c). length body) (ke_parse_from data off))
      \<le> length data - off" for off
  proof (induction data off rule: ke_parse_from.induct)
    case (1 data off)
    show ?case
    proof (cases "off < length data \<and> ke_decode data off \<noteq> None")
      case True
      then obtain t body c n where d: "ke_decode data off = Some ((t, body, c), n)" by auto
      then have b: "off + 4 + length body \<le> length data" "off + 4 + length body \<le> n"
        using pad4_bounds(1) [of "4 + nat (unpack (py_slice (off + 2) (off + 4) data))"]
        by (auto simp: ke_decode_def Let_def split: if_splits)
      have "ke_parse_from data off = (t, body, c) # ke_parse_from data n"
        using True d by (subst ke_parse_from.simps) simp
      with 1 [OF _ d] True b show ?thesis by auto
    next
      case False
      then have "ke_parse_from data off = []" by (subst ke_parse_from.simps) (auto split: option.split)
      then show ?thesis by simp
    qed
  qed
  then show "4 * length (ke_parse_from data 0) +
    sum_list (map (\<lambda>(t, body, c). length body) (ke_parse_from data 0)) \<le> length data"
    by (meson diff_le_self le_trans)
qed

end
