(* ===== verification/Ntp_Server.thy ===== *)
theory Ntp_Server
  imports Nts_Wire Jwt_Verify Complex_Main "HOL-Library.AList"
begin

text \<open>
  The NTP/NTS server (\<^verbatim>\<open>ntp-server/bins/server.py\<close>): cookies and master-key rotation, packet parsing and
  building, the UDP request handler with its rate limit and receive loop, and the NTS-KE exchange.

  AES-SIV is a parameter (\<open>aead_lib\<close>; \<open>None\<close> is an exception), with what the code relies on in
  \<open>aead_ok\<close>. Clock readings are rational numbers, arguments of the operations; random keys are
  arguments. An operation that may raise returns a sum, \<open>Inl\<close> the exception.
\<close>

section \<open>Results\<close>

datatype exn = StructError | IndexError | KeyError | ValueError | CryptoError

fun res_bind :: "exn + 'a \<Rightarrow> ('a \<Rightarrow> exn + 'b) \<Rightarrow> exn + 'b" where
  "res_bind (Inl e) f = Inl e"
| "res_bind (Inr x) f = f x"

definition or_raise :: "exn \<Rightarrow> 'a option \<Rightarrow> exn + 'a" where
  "or_raise e v = (case v of None \<Rightarrow> Inl e | Some x \<Rightarrow> Inr x)"

lemma res_bind_Inr: "res_bind m f = Inr y \<longleftrightarrow> (\<exists>x. m = Inr x \<and> f x = Inr y)"
  by (cases m) auto

lemma or_raise_Inr [simp]: "or_raise e v = Inr x \<longleftrightarrow> v = Some x"
  by (auto simp: or_raise_def split: option.splits)

lemma or_raise_simps [simp]: "or_raise e None = Inl e" "or_raise e (Some x) = Inr x"
  by (simp_all add: or_raise_def)

text \<open>\<^verbatim>\<open>struct.pack\<close> that raises, and the concatenation of packed fields.\<close>

definition packE :: "nat \<Rightarrow> int \<Rightarrow> exn + bytes" where
  "packE n v = or_raise StructError (pack n v)"

fun pack_fields :: "(nat \<times> int) list \<Rightarrow> exn + bytes" where
  "pack_fields [] = Inr []"
| "pack_fields ((n, v) # fs) =
     res_bind (packE n v) (\<lambda>bs. res_bind (pack_fields fs) (\<lambda>rest. Inr (bs @ rest)))"

section \<open>Cookies\<close>

record aead_lib =
  siv_encrypt :: "bytes \<Rightarrow> bytes \<Rightarrow> bytes \<Rightarrow> bytes option"
  siv_decrypt :: "bytes \<Rightarrow> bytes \<Rightarrow> bytes \<Rightarrow> bytes option"

record nts_cookie =
  ck_sealed :: bytes
  ck_version :: int
  ck_created_at :: rat
  ck_expiry :: rat

record cookie_mgr =
  master_key_version :: int
  master_keys :: "(int \<times> bytes) list"
  previous_key_expires_at :: rat

definition cookie_mgr_init :: "bytes \<Rightarrow> rat \<Rightarrow> cookie_mgr" where
  "cookie_mgr_init key now =
     \<lparr> master_key_version = 0, master_keys = [(0, key)], previous_key_expires_at = now + 3600 \<rparr>"

definition seal_cookie ::
  "aead_lib \<Rightarrow> rat \<Rightarrow> bytes \<Rightarrow> bytes \<Rightarrow> int \<Rightarrow> cookie_mgr \<Rightarrow> exn + nts_cookie" where
  "seal_cookie A now c2s_key s2c_key aead_id cm =
     (let expiry = \<lfloor>now + 86400\<rfloor> in
      res_bind (pack_fields [(2, aead_id), (8, expiry)]) (\<lambda>tail.
      res_bind (packE 1 (master_key_version cm)) (\<lambda>aad.
      res_bind (or_raise KeyError (map_of (master_keys cm) (master_key_version cm))) (\<lambda>key.
      res_bind (or_raise CryptoError (siv_encrypt A key (c2s_key @ s2c_key @ tail) aad)) (\<lambda>sealed.
      Inr \<lparr> ck_sealed = sealed, ck_version = master_key_version cm, ck_created_at = now,
            ck_expiry = of_int expiry \<rparr>)))))"

definition unseal_cookie ::
  "aead_lib \<Rightarrow> rat \<Rightarrow> nts_cookie \<Rightarrow> cookie_mgr \<Rightarrow> (bytes \<times> bytes \<times> int) option" where
  "unseal_cookie A now cookie cm =
     (case map_of (master_keys cm) (ck_version cookie) of
        None \<Rightarrow> None
      | Some key \<Rightarrow>
          (case pack 1 (ck_version cookie) of
             None \<Rightarrow> None
           | Some aad \<Rightarrow>
               (case siv_decrypt A key (ck_sealed cookie) aad of
                  None \<Rightarrow> None
                | Some plaintext \<Rightarrow>
                    (let c2s_key = take 32 plaintext;
                         s2c_key = py_slice 32 64 plaintext;
                         tail = py_slice 64 74 plaintext
                     in if length tail \<noteq> 10 then None
                        else (let aead_id = unpack (take 2 tail); expiry = unpack (drop 2 tail)
                              in if now > of_int expiry then None
                                 else Some (c2s_key, s2c_key, aead_id))))))"

definition wire_encode :: "nts_cookie \<Rightarrow> exn + bytes" where
  "wire_encode cookie =
     res_bind (packE 1 (ck_version cookie)) (\<lambda>v.
       let body = v @ ck_sealed cookie in
       res_bind (packE 2 (int (length body))) (\<lambda>l. Inr (l @ body)))"

text \<open>\<^verbatim>\<open>body[0]\<close> raises on an empty body.\<close>

definition wire_decode :: "rat \<Rightarrow> bytes \<Rightarrow> exn + nts_cookie option" where
  "wire_decode now data =
     (if length data < 3 then Inr None
      else (let body_len = nat (unpack (take 2 data)); body = py_slice 2 (2 + body_len) data
            in if length body \<noteq> body_len then Inr None
               else (case body of
                       [] \<Rightarrow> Inl IndexError
                     | v # sealed \<Rightarrow>
                         Inr (Some \<lparr> ck_sealed = sealed, ck_version = uint v, ck_created_at = now,
                                     ck_expiry = now + 86400 \<rparr>))))"

definition rotate_key :: "rat \<Rightarrow> bytes \<Rightarrow> cookie_mgr \<Rightarrow> cookie_mgr" where
  "rotate_key now new_key cm =
     (let old_version = master_key_version cm - 1;
          keys = (if now > previous_key_expires_at cm
                  then (if map_of (master_keys cm) old_version \<noteq> None \<and> 0 \<le> old_version
                        then AList.delete old_version (master_keys cm) else master_keys cm)
                  else master_keys cm);
          v = master_key_version cm + 1
      in \<lparr> master_key_version = v, master_keys = AList.update v new_key keys,
           previous_key_expires_at = now + 3600 \<rparr>)"

section \<open>Packets\<close>

text \<open>
  Timestamps are floats. \<^verbatim>\<open>(ts >> 32) + ((ts & 0xFFFFFFFF) / 2**32)\<close> is \<open>ts / 2\<^sup>3\<^sup>2\<close> rounded to a
  53-bit significand, half to even; every other float operation of the code on times is exact.
\<close>

definition round53 :: "int \<Rightarrow> int" where
  "round53 ts =
     (let s = length (takeWhile (\<lambda>k. 2 ^ (53 + k) \<le> ts) [0..<11]);
          p = 2 ^ s; q = ts div p; r = ts mod p
      in if 2 * r < p \<or> (2 * r = p \<and> even q) then q * p else (q + 1) * p)"

definition ntp_to_float :: "int \<Rightarrow> rat" where
  "ntp_to_float ts = of_int (round53 ts) / 2 ^ 32"

record ntp_packet =
  p_version :: int
  p_mode :: int
  p_stratum :: int
  p_poll :: int
  p_precision :: int
  p_root_delay :: rat
  p_root_dispersion :: rat
  p_reference_id :: int
  p_reference_timestamp :: rat
  p_origin_timestamp :: rat
  p_receive_timestamp :: rat
  p_transmit_timestamp :: rat
  p_extension_fields :: "(int \<times> bytes) list"

definition field :: "nat \<Rightarrow> nat \<Rightarrow> bytes \<Rightarrow> int" where
  "field off n data = unpack (py_slice off (off + n) data)"

definition signed_byte :: "int \<Rightarrow> int" where
  "signed_byte b = (if b \<ge> 128 then b - 256 else b)"

definition parse_ntp_packet :: "bytes \<Rightarrow> ntp_packet option" where
  "parse_ntp_packet data =
     (if length data < 48 then None
      else (let byte0 = field 0 1 data in
        Some \<lparr> p_version = drop_bit 3 byte0 AND 0x07, p_mode = byte0 AND 0x07,
               p_stratum = field 1 1 data, p_poll = field 2 1 data,
               p_precision = signed_byte (field 3 1 data),
               p_root_delay = of_int (field 4 4 data) / 2 ^ 16,
               p_root_dispersion = of_int (field 8 4 data) / 2 ^ 16,
               p_reference_id = field 12 4 data,
               p_reference_timestamp = ntp_to_float (field 16 8 data),
               p_origin_timestamp = ntp_to_float (field 24 8 data),
               p_receive_timestamp = ntp_to_float (field 32 8 data),
               p_transmit_timestamp = ntp_to_float (field 40 8 data),
               p_extension_fields =
                 fold (\<lambda>(t, d). AList.update t d) (ef_loop data 48) [] \<rparr>))"

definition NTP_EPOCH_OFFSET :: int where
  "NTP_EPOCH_OFFSET = 2208988800"

definition compute_authenticator :: "aead_lib \<Rightarrow> bytes \<Rightarrow> int \<Rightarrow> bytes \<Rightarrow> exn + bytes" where
  "compute_authenticator A key aead_id aad =
     (if aead_id \<noteq> AEAD_AES_SIV_CMAC_256 then Inl ValueError
      else res_bind (or_raise CryptoError (siv_encrypt A key [] aad)) (\<lambda>sealed. Inr (take 16 sealed)))"

definition verify_authenticator :: "aead_lib \<Rightarrow> bytes \<Rightarrow> int \<Rightarrow> bytes \<Rightarrow> bytes \<Rightarrow> bool" where
  "verify_authenticator A key aead_id aad tag =
     (if aead_id \<noteq> AEAD_AES_SIV_CMAC_256 then False
      else (case compute_authenticator A key aead_id aad of
              Inl _ \<Rightarrow> False
            | Inr computed_tag \<Rightarrow> tag = computed_tag))"

text \<open>The 48 header bytes of a response; \<open>-20\<close> is packed as a signed byte.\<close>

definition response_header :: "rat \<Rightarrow> ntp_packet \<Rightarrow> exn + bytes" where
  "response_header now request =
     (let ntp_now_int = \<lfloor>now\<rfloor> + NTP_EPOCH_OFFSET;
          ntp_frac = \<lfloor>(now - of_int \<lfloor>now\<rfloor>) * 2 ^ 32\<rfloor>;
          transmit_ts = push_bit 32 ntp_now_int OR ntp_frac;
          byte0 = push_bit 3 4 OR 4;
          origin = (if p_origin_timestamp request \<noteq> 0
                    then \<lfloor>p_origin_timestamp request * 2 ^ 32\<rfloor> else 0)
      in pack_fields
           [(1, byte0), (1, 2), (1, 3), (1, 256 - 20), (4, 65), (4, 65), (4, 0),
            (8, transmit_ts), (8, origin), (8, \<lfloor>now * 2 ^ 32\<rfloor>), (8, transmit_ts)])"

definition build_efE :: "int \<Rightarrow> bytes \<Rightarrow> exn + bytes" where
  "build_efE t data = or_raise StructError (build_ef t data)"

definition build_ntp_response ::
  "aead_lib \<Rightarrow> rat \<Rightarrow> ntp_packet \<Rightarrow> bytes \<Rightarrow> bytes \<Rightarrow> int \<Rightarrow> bytes option \<Rightarrow> cookie_mgr \<Rightarrow> exn + bytes" where
  "build_ntp_response A now request c2s_key s2c_key aead_id unique_id cm =
     res_bind (response_header now request) (\<lambda>header.
     res_bind (case unique_id of
                 None \<Rightarrow> Inr []
               | Some uid \<Rightarrow> if uid = [] then Inr [] else build_efE UNIQUE_IDENTIFIER uid) (\<lambda>uid_ef.
     res_bind (seal_cookie A now c2s_key s2c_key aead_id cm) (\<lambda>new_cookie.
     res_bind (wire_encode new_cookie) (\<lambda>wire.
     res_bind (build_efE NTS_COOKIE wire) (\<lambda>cookie_ef.
       let response = header @ uid_ef @ cookie_ef in
       res_bind (compute_authenticator A s2c_key aead_id response) (\<lambda>authenticator.
       res_bind (build_efE NTS_AUTHENTICATOR authenticator) (\<lambda>auth_ef.
       Inr (response @ auth_ef))))))))"

section \<open>The UDP server\<close>

record udp_server =
  us_cookies :: cookie_mgr
  us_rate_max :: int
  us_rate_state :: "(string \<times> rat \<times> int) list"

definition RATE_LIMIT_MAX_TRACKED :: int where
  "RATE_LIMIT_MAX_TRACKED = 50000"

text \<open>The window is one second.\<close>

definition prune_rate_limit_state :: "rat \<Rightarrow> (string \<times> rat \<times> int) list \<Rightarrow> (string \<times> rat \<times> int) list" where
  "prune_rate_limit_state now st = filter (\<lambda>(ip, start, count). \<not> start < now - 1 * 10) st"

definition rate_limited :: "rat \<Rightarrow> string \<Rightarrow> udp_server \<Rightarrow> bool \<times> udp_server" where
  "rate_limited now ip s =
     (let st = us_rate_state s in
      case map_of st ip of
        None \<Rightarrow>
          (let st' = AList.update ip (now, 1) st in
           (False, s\<lparr> us_rate_state := if int (length st') > RATE_LIMIT_MAX_TRACKED
                                       then prune_rate_limit_state now st' else st' \<rparr>))
      | Some (window_start, count) \<Rightarrow>
          (if now - window_start \<ge> 1 then
             (let st' = AList.update ip (now, 1) st in
              (False, s\<lparr> us_rate_state := if int (length st') > RATE_LIMIT_MAX_TRACKED
                                          then prune_rate_limit_state now st' else st' \<rparr>))
           else if count \<ge> us_rate_max s then (True, s)
           else (False, s\<lparr> us_rate_state := AList.update ip (window_start, count + 1) st \<rparr>)))"

text \<open>
  A \<^verbatim>\<open>bytes\<close> value is true when it is not empty. \<^verbatim>\<open>handle_request\<close> after the rate limit:
\<close>

definition answer_request :: "aead_lib \<Rightarrow> rat \<Rightarrow> bytes \<Rightarrow> cookie_mgr \<Rightarrow> exn + bytes option" where
  "answer_request A now data cm =
     (case parse_ntp_packet data of
        None \<Rightarrow> Inr None
      | Some packet \<Rightarrow>
          (let efs = p_extension_fields packet; cookie_ef = map_of efs NTS_COOKIE in
           if cookie_ef = None \<or> cookie_ef = Some [] then Inr None
           else (case extract_authenticator data of
                   None \<Rightarrow> Inr None
                 | Some (aad, tag) \<Rightarrow>
                     res_bind (wire_decode now (the cookie_ef)) (\<lambda>sealed_cookie.
                       case sealed_cookie of
                         None \<Rightarrow> Inr None
                       | Some cookie \<Rightarrow>
                           (case unseal_cookie A now cookie cm of
                              None \<Rightarrow> Inr None
                            | Some (c2s_key, s2c_key, aead_id) \<Rightarrow>
                                (if \<not> verify_authenticator A c2s_key aead_id aad tag then Inr None
                                 else res_bind (build_ntp_response A now packet c2s_key s2c_key aead_id
                                                  (map_of efs UNIQUE_IDENTIFIER) cm)
                                        (\<lambda>resp. Inr (Some resp))))))))"

definition handle_request ::
  "aead_lib \<Rightarrow> rat \<Rightarrow> bytes \<Rightarrow> string \<Rightarrow> udp_server \<Rightarrow> (exn + bytes option) \<times> udp_server" where
  "handle_request A now data ip s =
     (case rate_limited now ip s of
        (True, s') \<Rightarrow> (Inr None, s')
      | (False, s') \<Rightarrow> (answer_request A now data (us_cookies s'), s'))"

text \<open>
  The receive loop over the datagrams that arrive: the responses sent, and whether the loop is still
  running. An exception other than \<^verbatim>\<open>BlockingIOError\<close> leaves the loop and closes the socket.
\<close>

fun udp_run ::
  "aead_lib \<Rightarrow> (rat \<times> bytes \<times> string) list \<Rightarrow> udp_server \<Rightarrow> (string \<times> bytes) list \<times> bool \<times> udp_server" where
  "udp_run A [] s = ([], True, s)"
| "udp_run A ((now, data, ip) # rest) s =
     (case handle_request A now data ip s of
        (Inl e, s') \<Rightarrow> ([], False, s')
      | (Inr None, s') \<Rightarrow> udp_run A rest s'
      | (Inr (Some resp), s') \<Rightarrow>
          (case udp_run A rest s' of (out, alive, s'') \<Rightarrow> ((ip, resp) # out, alive, s'')))"

section \<open>The NTS-KE server\<close>

text \<open>
  A connection: what \<^verbatim>\<open>recv\<close> gives and the TLS exporter (\<open>None\<close> is an exception), and whether \<^verbatim>\<open>send\<close>
  succeeds. \<open>decode_utf8\<close> gives \<open>None\<close> for bytes that are not UTF-8.
\<close>

record ke_conn =
  kc_recv :: "bytes option"
  kc_export :: "bytes \<Rightarrow> nat \<Rightarrow> bytes \<Rightarrow> bytes option"
  kc_send_ok :: bool

record ke_env =
  ke_aead :: aead_lib
  ke_jwt :: jwt_lib
  ke_cfg :: jwt_cfg
  ke_env_key :: "string option"
  ke_keys :: key_ring
  ke_decode_utf8 :: "bytes \<Rightarrow> string option"

definition extract_nts_ke_auth_token :: "(bytes \<Rightarrow> string option) \<Rightarrow> bytes \<Rightarrow> string option" where
  "extract_nts_ke_auth_token decode_utf8 client_request =
     (case find (\<lambda>(t, body, c). t = SQUAWK_AUTH_TOKEN) (parse_all client_request) of
        None \<Rightarrow> None
      | Some (t, body, c) \<Rightarrow>
          (case decode_utf8 body of
             None \<Rightarrow> None
           | Some s \<Rightarrow> (let token = py_strip s in if token = [] then None else Some token)))"

definition ke_encodeE :: "int \<Rightarrow> bytes \<Rightarrow> bool \<Rightarrow> exn + bytes" where
  "ke_encodeE t body critical = or_raise StructError (ke_encode t body critical)"

fun encode_cookies :: "nts_cookie list \<Rightarrow> exn + bytes" where
  "encode_cookies [] = Inr []"
| "encode_cookies (c # cs) =
     res_bind (wire_encode c) (\<lambda>w. res_bind (ke_encodeE NEW_COOKIE w False) (\<lambda>bs.
       res_bind (encode_cookies cs) (\<lambda>rest. Inr (bs @ rest))))"

definition build_nts_ke_response :: "int \<Rightarrow> nts_cookie list \<Rightarrow> exn + bytes" where
  "build_nts_ke_response aead_id cookies =
     res_bind (packE 2 0) (\<lambda>next_proto_body.
     res_bind (ke_encodeE NEXT_PROTOCOL next_proto_body True) (\<lambda>r1.
     res_bind (packE 2 aead_id) (\<lambda>aead_body.
     res_bind (ke_encodeE AEAD_ALGORITHM aead_body False) (\<lambda>r2.
     res_bind (encode_cookies cookies) (\<lambda>r3.
     res_bind (ke_encodeE END_OF_MESSAGE [] True) (\<lambda>r4.
     Inr (r1 @ r2 @ r3 @ r4)))))))"

fun seal_cookies ::
  "aead_lib \<Rightarrow> rat \<Rightarrow> bytes \<Rightarrow> bytes \<Rightarrow> int \<Rightarrow> cookie_mgr \<Rightarrow> nat \<Rightarrow> exn + nts_cookie list" where
  "seal_cookies A now c2s s2c aead_id cm 0 = Inr []"
| "seal_cookies A now c2s s2c aead_id cm (Suc n) =
     res_bind (seal_cookie A now c2s s2c aead_id cm) (\<lambda>c.
     res_bind (seal_cookies A now c2s s2c aead_id cm n) (\<lambda>cs. Inr (c # cs)))"

definition ascii :: "string \<Rightarrow> bytes" where
  "ascii s = map (\<lambda>c. of_nat (of_char c)) s"

text \<open>What \<^verbatim>\<open>handle_client\<close> sends; the connection is closed on every path.\<close>

definition handle_client :: "ke_env \<Rightarrow> rat \<Rightarrow> ke_conn \<Rightarrow> cookie_mgr \<Rightarrow> bytes list" where
  "handle_client E now conn cm =
     (let send = (\<lambda>bs. if kc_send_ok conn then [bs] else []);
          key_error = ascii ''ERROR: Key export failed'' in
      case kc_recv conn of
        None \<Rightarrow> []
      | Some client_request \<Rightarrow>
          if client_request = [] then []
          else
            (let token = extract_nts_ke_auth_token (ke_decode_utf8 E) client_request in
             if \<not> truthy token
                \<or> \<not> verify_jwt (ke_jwt E) (ke_cfg E) (ke_env_key E) (ke_keys E) (the token) (Some ''ntp:client'')
             then (case res_bind (packE 2 1) (\<lambda>b. res_bind (ke_encodeE KE_ERROR b True) (\<lambda>r1.
                          res_bind (ke_encodeE END_OF_MESSAGE [] True) (\<lambda>r2. Inr (r1 @ r2)))) of
                     Inl _ \<Rightarrow> [] | Inr error_response \<Rightarrow> send error_response)
             else
               (let label = ascii ''EXPORTER-network-time-security'';
                    aead = AEAD_AES_SIV_CMAC_256 in
                case (pack_fields [(2, 0), (2, aead), (1, 0)], pack_fields [(2, 0), (2, aead), (1, 1)]) of
                  (Inr c2s_context, Inr s2c_context) \<Rightarrow>
                    (case (kc_export conn label 32 c2s_context, kc_export conn label 32 s2c_context) of
                       (Some c2s_key, Some s2c_key) \<Rightarrow>
                         (if length c2s_key \<noteq> 32 \<or> length s2c_key \<noteq> 32 then send key_error
                          else (case res_bind (seal_cookies (ke_aead E) now c2s_key s2c_key aead cm 8)
                                       (\<lambda>cookies. build_nts_ke_response aead cookies) of
                                  Inl _ \<Rightarrow> send key_error
                                | Inr response \<Rightarrow> send response))
                     | _ \<Rightarrow> send key_error)
                | _ \<Rightarrow> [])))"


section \<open>The HTTP pages\<close>

text \<open>
  The feature flag denies when the client is not configured, and when its call raises (\<open>None\<close>). The status page
  reads the version of the master key from the NTS-KE server, when one runs.
\<close>

record ntp_http =
  nh_posthog_configured :: bool
  nh_feature_enabled :: "string \<Rightarrow> string \<Rightarrow> bool option"
  nh_nts_ke_server :: "cookie_mgr option"

datatype ntp_page =
  Page_Time rat int int string
| Page_Status "int option"
| Page_Health int
| Page_Error nat string

definition ntp_feature_enabled :: "ntp_http \<Rightarrow> string \<Rightarrow> string \<Rightarrow> bool" where
  "ntp_feature_enabled H flag_key distinct_id =
     (if \<not> nh_posthog_configured H then False
      else (case nh_feature_enabled H flag_key distinct_id of None \<Rightarrow> False | Some b \<Rightarrow> b))"

definition ntp_time :: "ntp_http \<Rightarrow> rat \<Rightarrow> string \<Rightarrow> ntp_page" where
  "ntp_time H now iso8601 =
     (if \<not> ntp_feature_enabled H ''squawkdns.ntp-server'' ''server'' then Page_Error 503 ''NTP service disabled''
      else Page_Time now (\<lfloor>now\<rfloor> + NTP_EPOCH_OFFSET) \<lfloor>frac now * 2 ^ 32\<rfloor> iso8601)"

definition ntp_status :: "ke_env \<Rightarrow> ntp_http \<Rightarrow> string \<Rightarrow> ntp_page" where
  "ntp_status E H auth_header =
     (let token = (if prefix ''Bearer '' auth_header then py_remove ''Bearer '' auth_header else []) in
      if \<not> verify_jwt (ke_jwt E) (ke_cfg E) (ke_env_key E) (ke_keys E) token (Some ''ntp:admin'')
      then Page_Error 403 ''Unauthorized''
      else Page_Status (map_option master_key_version (nh_nts_ke_server H)))"

definition ntp_health :: "rat \<Rightarrow> ntp_page" where
  "ntp_health now = Page_Health (\<lfloor>now\<rfloor> + NTP_EPOCH_OFFSET)"

text \<open>The time page speaks the format of the packets: its fraction is a field of four bytes, and reading its two numbers
  as an NTP timestamp gives the time back up to one unit of the fraction.\<close>

lemma ntp_time_page:
  assumes "ntp_time H now iso8601 = Page_Time t secs fr iso8601'"
  shows "t = now" "0 \<le> fr" "fr < 2 ^ 32" "of_int (secs - NTP_EPOCH_OFFSET) + of_int fr / 2 ^ 32 \<le> now"
    "now < of_int (secs - NTP_EPOCH_OFFSET) + (of_int fr + 1) / 2 ^ 32"
proof -
  have d: "t = now" "secs = \<lfloor>now\<rfloor> + NTP_EPOCH_OFFSET" "fr = \<lfloor>frac now * 2 ^ 32\<rfloor>"
    using assms by (auto simp: ntp_time_def split: if_splits)
  have b: "0 \<le> frac now" "frac now < 1" by (simp_all add: frac_lt_1)
  have f: "(of_int fr :: rat) \<le> frac now * 2 ^ 32" "frac now * 2 ^ 32 < (of_int fr :: rat) + 1"
    unfolding d(3) by linarith+
  show "t = now" by (fact d(1))
  show "0 \<le> fr" using b unfolding d(3) by simp
  show "fr < 2 ^ 32" unfolding d(3) by (rule floor_less_iff [THEN iffD2]) (use b in simp)
  show "of_int (secs - NTP_EPOCH_OFFSET) + of_int fr / 2 ^ 32 \<le> now"
    using f(1) by (simp add: d(2) frac_def field_simps)
  show "now < of_int (secs - NTP_EPOCH_OFFSET) + (of_int fr + 1) / 2 ^ 32"
    using f(2) by (simp add: d(2) frac_def field_simps)
qed

section \<open>What the code relies on of AES-SIV\<close>

text \<open>Decryption with the same key and associated data inverts encryption; the ciphertext is 16 bytes longer.\<close>

definition aead_ok :: "aead_lib \<Rightarrow> bool" where
  "aead_ok A \<longleftrightarrow> (\<forall>k pt aad ct. siv_encrypt A k pt aad = Some ct \<longrightarrow>
     siv_decrypt A k ct aad = Some pt \<and> length ct = length pt + 16)"

lemma aead_okD:
  assumes "aead_ok A" "siv_encrypt A k pt aad = Some ct"
  shows "siv_decrypt A k ct aad = Some pt" "length ct = length pt + 16"
  using assms unfolding aead_ok_def by blast+

section \<open>Lemmas on cookies\<close>

lemma packE_Inr [simp]: "packE n v = Inr bs \<longleftrightarrow> pack n v = Some bs"
  by (simp add: packE_def)

lemma pack_fields_length: "pack_fields fs = Inr bs \<Longrightarrow> length bs = sum_list (map fst fs)"
  by (induction fs arbitrary: bs rule: pack_fields.induct) (auto simp: res_bind_Inr)

lemma seal_cookie_Inr:
  assumes "seal_cookie A now c2s s2c aid cm = Inr ck"
  obtains a e aad key where
    "pack 2 aid = Some a" "pack 8 \<lfloor>now + 86400\<rfloor> = Some e" "pack 1 (master_key_version cm) = Some aad"
    "map_of (master_keys cm) (master_key_version cm) = Some key"
    "siv_encrypt A key (c2s @ s2c @ a @ e) aad = Some (ck_sealed ck)"
    "ck_version ck = master_key_version cm" "ck_expiry ck = of_int \<lfloor>now + 86400\<rfloor>"
  using assms by (auto simp: seal_cookie_def Let_def res_bind_Inr)

text \<open>A sealed cookie opens, until it expires, wherever its master key is held.\<close>

lemma unseal_seal:
  assumes "aead_ok A" "seal_cookie A t c2s s2c aid cm = Inr ck"
    and "length c2s = 32" "length s2c = 32" "now \<le> ck_expiry ck"
    and "map_of (master_keys cm') (ck_version ck) = map_of (master_keys cm) (ck_version ck)"
    and "ck_sealed ck' = ck_sealed ck" "ck_version ck' = ck_version ck"
  shows "unseal_cookie A now ck' cm' = Some (c2s, s2c, aid)"
proof -
  from assms(2) obtain a e aad key where s:
    "pack 2 aid = Some a" "pack 8 \<lfloor>t + 86400\<rfloor> = Some e" "pack 1 (master_key_version cm) = Some aad"
    "map_of (master_keys cm) (master_key_version cm) = Some key"
    "siv_encrypt A key (c2s @ s2c @ a @ e) aad = Some (ck_sealed ck)"
    "ck_version ck = master_key_version cm" "ck_expiry ck = of_int \<lfloor>t + 86400\<rfloor>"
    by (rule seal_cookie_Inr)
  have l: "length a = 2" "length e = 8" using s by simp_all
  have u: "unpack a = aid" "unpack e = \<lfloor>t + 86400\<rfloor>" using s by simp_all
  have d: "siv_decrypt A key (ck_sealed ck) aad = Some (c2s @ s2c @ a @ e)"
    by (rule aead_okD(1) [OF assms(1) s(5)])
  have p: "take 32 (c2s @ s2c @ a @ e) = c2s" "py_slice 32 64 (c2s @ s2c @ a @ e) = s2c"
    "py_slice 64 74 (c2s @ s2c @ a @ e) = a @ e"
    using l assms(3,4) by (simp_all add: py_slice_def)
  have "take 2 (a @ e) = a" "drop 2 (a @ e) = e" "length (a @ e) = 10" using l by simp_all
  with s(3,4,6,7) assms(5-8) d p u show ?thesis by (simp add: unseal_cookie_def Let_def)
qed

text \<open>The length prefix removes the padding of the extension field.\<close>

lemma wire_decode_encode:
  assumes "wire_encode ck = Inr w"
  shows "wire_decode now (w @ replicate k 0) =
    Inr (Some (ck\<lparr> ck_created_at := now, ck_expiry := now + 86400 \<rparr>))"
proof -
  from assms obtain v l where
    p: "pack 1 (ck_version ck) = Some v" "pack 2 (int (length (v @ ck_sealed ck))) = Some l"
    and w: "w = l @ v @ ck_sealed ck"
    by (auto simp: wire_encode_def Let_def res_bind_Inr)
  have "length v = 1" using p(1) by simp
  then obtain b where v: "v = [b]" by (auto simp: length_Suc_conv)
  have b: "uint b = ck_version ck" using unpack_pack [OF p(1)] v by (simp add: unpack_def)
  have l: "length l = 2" "unpack l = int (length (v @ ck_sealed ck))"
    using p(2) unpack_pack [OF p(2)] by simp_all
  have t: "take 2 (w @ replicate k 0) = l" using l w by simp
  have s: "py_slice 2 (2 + length (v @ ck_sealed ck)) (w @ replicate k 0) = v @ ck_sealed ck"
    using l(1) w by (simp add: py_slice_def)
  have n: "nat (unpack l) = length (v @ ck_sealed ck)" using l(2) by simp
  have "\<not> length (w @ replicate k 0) < 3" using l v w by simp
  then show ?thesis unfolding wire_decode_def Let_def t n s using v b by simp
qed

lemma rotate_key_simps [simp]:
  "master_key_version (rotate_key t k cm) = master_key_version cm + 1"
  "previous_key_expires_at (rotate_key t k cm) = t + 3600"
  by (simp_all add: rotate_key_def Let_def)

lemma map_of_rotate_key:
  "map_of (master_keys (rotate_key t k cm)) v =
     (if v = master_key_version cm + 1 then Some k
      else if t > previous_key_expires_at cm \<and> v = master_key_version cm - 1 \<and> 0 \<le> v then None
      else map_of (master_keys cm) v)"
  by (auto simp: rotate_key_def Let_def update_conv' delete_conv')


definition rotate_all :: "(rat \<times> bytes) list \<Rightarrow> cookie_mgr \<Rightarrow> cookie_mgr" where
  "rotate_all rs = fold (\<lambda>(t, k). rotate_key t k) rs"

lemma rotate_all_simps [simp]:
  "rotate_all [] cm = cm" "rotate_all ((t, k) # rs) cm = rotate_all rs (rotate_key t k cm)"
  by (simp_all add: rotate_all_def)

lemma rotate_all_version: "master_key_version (rotate_all rs cm) = master_key_version cm + int (length rs)"
  by (induction rs arbitrary: cm) auto

text \<open>A key two generations back is out of reach of every further rotation.\<close>

lemma rotate_all_keeps:
  "v < master_key_version cm - 1 \<Longrightarrow> map_of (master_keys (rotate_all rs cm)) v = map_of (master_keys cm) v"
  by (induction rs arbitrary: cm) (auto simp: map_of_rotate_key)

section \<open>Lemmas on packets\<close>

lemma map_of_fold_update:
  "map_of (fold (\<lambda>(t, d). AList.update t d) xs acc) = map_of acc ++ map_of (rev xs)"
proof (induction xs arbitrary: acc)
  case (Cons x xs)
  then show ?case by (cases x) (simp add: update_conv' map_add_def fun_eq_iff split: option.splits)
qed simp

lemma rate_limited_cookies: "rate_limited now ip s = (b, s') \<Longrightarrow> us_cookies s' = us_cookies s"
  by (auto simp: rate_limited_def Let_def split: option.splits if_splits prod.splits)

lemma authenticator_from_take:
  "authenticator_from data off = Some (aad, tag) \<Longrightarrow> \<exists>n\<ge>off. n \<le> length data \<and> aad = take n data"
proof (induction data off rule: authenticator_from.induct)
  case (1 data off)
  then obtain t body n where e: "next_ef data off = Some ((t, body), n)"
    by (auto simp: authenticator_from.simps [of data off] split: option.splits)
  show ?case
  proof (cases "t = NTS_AUTHENTICATOR")
    case True
    with 1(2) e next_ef_progress [OF e] show ?thesis
      by (auto simp: authenticator_from.simps [of data off] intro!: exI [of _ off])
  next
    case False
    with 1(2) e have "authenticator_from data n = Some (aad, tag)"
      by (simp add: authenticator_from.simps [of data off])
    with 1(1) [OF e refl refl False] obtain m where "n \<le> m" "m \<le> length data" "aad = take m data" by auto
    with next_ef_progress [OF e] show ?thesis by (intro exI [of _ m]) simp
  qed
qed

lemma verify_authenticator_iff:
  "verify_authenticator A key aid aad tag \<longleftrightarrow> aid = AEAD_AES_SIV_CMAC_256 \<and>
     compute_authenticator A key aid aad = Inr tag"
  by (auto simp: verify_authenticator_def split: sum.splits)

lemma answer_request_Some:
  assumes "answer_request A now data cm = Inr (Some resp)"
  obtains packet cookie_ef aad tag ck c2s s2c where
    "parse_ntp_packet data = Some packet" "map_of (p_extension_fields packet) NTS_COOKIE = Some cookie_ef"
    "extract_authenticator data = Some (aad, tag)" "wire_decode now cookie_ef = Inr (Some ck)"
    "unseal_cookie A now ck cm = Some (c2s, s2c, AEAD_AES_SIV_CMAC_256)"
    "compute_authenticator A c2s AEAD_AES_SIV_CMAC_256 aad = Inr tag"
    "build_ntp_response A now packet c2s s2c AEAD_AES_SIV_CMAC_256
       (map_of (p_extension_fields packet) UNIQUE_IDENTIFIER) cm = Inr resp"
proof -
  note def = answer_request_def Let_def
  from assms obtain packet where p: "parse_ntp_packet data = Some packet"
    by (cases "parse_ntp_packet data") (auto simp: def)
  from assms p obtain ce where ce: "map_of (p_extension_fields packet) NTS_COOKIE = Some ce" "ce \<noteq> []"
    by (cases "map_of (p_extension_fields packet) NTS_COOKIE") (auto simp: def split: if_splits)
  from assms p ce obtain aad tag where x: "extract_authenticator data = Some (aad, tag)"
    by (cases "extract_authenticator data") (auto simp: def)
  from assms p ce x obtain ck where w: "wire_decode now ce = Inr (Some ck)"
    by (cases "wire_decode now ce") (auto simp: def split: option.splits)
  from assms p ce x w obtain c2s s2c aid where u: "unseal_cookie A now ck cm = Some (c2s, s2c, aid)"
    by (cases "unseal_cookie A now ck cm") (auto simp: def)
  from assms p ce x w u have v: "verify_authenticator A c2s aid aad tag"
    and "build_ntp_response A now packet c2s s2c aid
       (map_of (p_extension_fields packet) UNIQUE_IDENTIFIER) cm = Inr resp"
    by (auto simp: def res_bind_Inr split: if_splits)
  with p ce x w u show ?thesis using that by (auto simp: verify_authenticator_iff)
qed

lemma parse_ntp_packet_fields:
  assumes "parse_ntp_packet data = Some p"
  shows "p_extension_fields p = fold (\<lambda>(t, d). AList.update t d) (ef_loop data 48) []"
    "48 \<le> length data" "p_origin_timestamp p = ntp_to_float (field 24 8 data)"
    "p_version p = drop_bit 3 (field 0 1 data) AND 0x07" "p_mode p = field 0 1 data AND 0x07"
  using assms by (auto simp: parse_ntp_packet_def Let_def split: if_splits)

text \<open>A response, taken apart into its header and extension fields.\<close>

definition uid_fields :: "bytes option \<Rightarrow> ext_field list" where
  "uid_fields uid = (case uid of None \<Rightarrow> [] | Some u \<Rightarrow> if u = [] then [] else [(UNIQUE_IDENTIFIER, u)])"

lemma build_ntp_response_Inr:
  assumes "build_ntp_response A now req c2s s2c aid uid cm = Inr resp"
  obtains h ck w bss tag aef where
    "response_header now req = Inr h" "seal_cookie A now c2s s2c aid cm = Inr ck" "wire_encode ck = Inr w"
    "list_all2 (\<lambda>r bs. ef_put r = Some bs) (uid_fields uid @ [(NTS_COOKIE, w)]) bss"
    "compute_authenticator A s2c aid (h @ concat bss) = Inr tag"
    "build_ef NTS_AUTHENTICATOR tag = Some aef" "resp = h @ concat bss @ aef"
proof -
  from assms obtain h u ck w c tag aef where r: "response_header now req = Inr h"
    "(case uid of None \<Rightarrow> Inr [] | Some uid \<Rightarrow> if uid = [] then Inr [] else build_efE UNIQUE_IDENTIFIER uid) = Inr u"
    "seal_cookie A now c2s s2c aid cm = Inr ck" "wire_encode ck = Inr w" "build_ef NTS_COOKIE w = Some c"
    "compute_authenticator A s2c aid (h @ u @ c) = Inr tag" "build_ef NTS_AUTHENTICATOR tag = Some aef"
    "resp = (h @ u @ c) @ aef"
    by (auto simp: build_ntp_response_def build_efE_def res_bind_Inr Let_def)
  define us where "us = (if uid_fields uid = [] then [] else [u])"
  have u: "u = concat us" "list_all2 (\<lambda>r bs. ef_put r = Some bs) (uid_fields uid) us"
    using r(2) by (auto simp: us_def uid_fields_def build_efE_def ef_put_def split: option.splits if_splits)
  have "list_all2 (\<lambda>r bs. ef_put r = Some bs) (uid_fields uid @ [(NTS_COOKIE, w)]) (us @ [c])"
    using u(2) r(5) by (intro list_all2_appendI) (simp_all add: ef_put_def)
  with r u(1) show ?thesis by (intro that [of h ck w "us @ [c]" tag aef]) simp_all
qed

lemma response_header_Inr:
  assumes "response_header now req = Inr h"
  shows "length h = 48" "field 0 1 (h @ rest) = 36"
proof -
  have b: "push_bit 3 4 OR 4 = (36 :: int)" by (simp add: push_bit_eq_mult)
  show "length h = 48"
    using pack_fields_length [OF assms [unfolded response_header_def Let_def]] by simp
  from assms obtain b0 tl where "pack 1 36 = Some b0" "h = b0 @ tl"
    unfolding response_header_def Let_def b by (auto simp only: pack_fields.simps res_bind_Inr packE_Inr)
  then show "field 0 1 (h @ rest) = 36"
    using length_pack [of 1 36 b0] by (simp add: field_def py_slice_def)
qed

text \<open>What a reader finds in a response: the first Authenticator with its tag, and the fields in order.\<close>

lemma response_fields:
  assumes "aead_ok A" "build_ntp_response A now req c2s s2c aid uid cm = Inr resp"
  obtains h aad ck w tag where
    "response_header now req = Inr h" "\<exists>rest. resp = h @ rest"
    "seal_cookie A now c2s s2c aid cm = Inr ck" "wire_encode ck = Inr w"
    "extract_authenticator resp = Some (aad, tag)" "verify_authenticator A s2c aid aad tag"
    "ef_loop resp 48 = map ef_seen (uid_fields uid @ [(NTS_COOKIE, w), (NTS_AUTHENTICATOR, tag)])"
proof -
  from assms(2) obtain h ck w bss tag aef where r: "response_header now req = Inr h"
    "seal_cookie A now c2s s2c aid cm = Inr ck" "wire_encode ck = Inr w"
    and st: "list_all2 (\<lambda>r bs. ef_put r = Some bs) (uid_fields uid @ [(NTS_COOKIE, w)]) bss"
    and t: "compute_authenticator A s2c aid (h @ concat bss) = Inr tag"
    and a: "build_ef NTS_AUTHENTICATOR tag = Some aef" and resp: "resp = h @ concat bss @ aef"
    by (rule build_ntp_response_Inr)
  have h: "length h = 48" by (rule response_header_Inr(1) [OF r(1)])
  have aid: "aid = AEAD_AES_SIV_CMAC_256" and "length tag = 16"
    using t aead_okD(2) [OF assms(1)] by (auto simp: compute_authenticator_def res_bind_Inr split: if_splits)
  then have nopad: "tag @ replicate (pad4 (length tag) - length tag) 0 = tag" by (simp add: pad4_def)
  have other: "\<forall>r\<in>set (uid_fields uid @ [(NTS_COOKIE, w)]). fst r \<noteq> NTS_AUTHENTICATOR"
    by (auto simp: uid_fields_def nts_constants split: option.splits if_splits)
  have x: "extract_authenticator resp = Some (h @ concat bss, tag)"
    using authenticator_from_stream [OF st other a, of h "[]"] h nopad
    by (simp add: extract_authenticator_def resp)
  have efs: "ef_loop resp 48 = map ef_seen (uid_fields uid @ [(NTS_COOKIE, w), (NTS_AUTHENTICATOR, tag)])"
    using ef.parse_stream [of "uid_fields uid @ [(NTS_COOKIE, w), (NTS_AUTHENTICATOR, tag)]" "bss @ [aef]" h]
      list_all2_appendI [OF st, of "[(NTS_AUTHENTICATOR, tag)]" "[aef]"] a h
    by (simp add: resp ef_put_def)
  have "verify_authenticator A s2c aid (h @ concat bss) tag" using t aid by (simp add: verify_authenticator_iff)
  with that r x efs resp show ?thesis by blast
qed

lemma pack_fields_overflow:
  "\<lbrakk> (n, v) \<in> set fs; \<not> (0 \<le> v \<and> v < 256 ^ n) \<rbrakk> \<Longrightarrow> pack_fields fs = Inl StructError"
proof (induction fs rule: pack_fields.induct)
  case (2 m w fs)
  show ?case
  proof (cases "pack m w")
    case (Some bs)
    with 2 have "(n, v) \<in> set fs" by (auto simp: pack_def)
    with 2 Some show ?thesis by (simp add: packE_def)
  qed (simp add: packE_def)
qed simp

lemma round53_top:
  assumes "2 ^ 64 - 1024 \<le> ts" "ts < 2 ^ 64"
  shows "round53 ts = 2 ^ 64"
proof -
  have "takeWhile (\<lambda>k. 2 ^ (53 + k) \<le> ts) [0..<11] = [0..<11]"
    using assms(1) by (simp add: takeWhile_eq_all_conv upt_rec)
  then have s: "length (takeWhile (\<lambda>k. 2 ^ (53 + k) \<le> ts) [0..<11]) = 11"
    using length_upt [of 0 11] by (metis diff_zero)
  have q: "ts div 2048 = 9007199254740991" using assms by simp
  have r: "ts mod 2048 \<ge> 1024" using assms q div_mult_mod_eq [of ts 2048] by simp
  show ?thesis unfolding round53_def Let_def s using q r by simp
qed

section \<open>A concrete AEAD for the witnesses\<close>

definition demo_tag :: "bytes \<Rightarrow> bytes \<Rightarrow> bytes \<Rightarrow> bytes" where
  "demo_tag k pt aad = replicate 16 (foldl (\<lambda>a b. 3 * a + b) 7 (k @ pt @ aad))"

definition demo_aead :: aead_lib where
  "demo_aead = \<lparr> siv_encrypt = (\<lambda>k pt aad. Some (demo_tag k pt aad @ pt)),
     siv_decrypt = (\<lambda>k ct aad. if take 16 ct = demo_tag k (drop 16 ct) aad then Some (drop 16 ct) else None) \<rparr>"

lemma demo_aead_ok: "aead_ok demo_aead"
  by (simp add: aead_ok_def demo_aead_def demo_tag_def)

section \<open>Properties\<close>

text \<open>
  C22. A cookie works for its whole life: whatever the server sealed at time \<open>t\<close>, once encoded for the
  wire and padded by an extension field, decodes and opens to the same keys and algorithm at any time
  up to its expiry, although the master key is rotated meanwhile, as long as rotations are more than a
  day apart, as the rotation task makes them.
\<close>

theorem cookie_usable_until_expiry:
  assumes "aead_ok A" "seal_cookie A t c2s s2c aid cm = Inr ck"
    and "length c2s = 32" "length s2c = 32" "wire_encode ck = Inr w"
    and "sorted_wrt (\<lambda>a b. fst a + 86400 < fst b) rs" "\<forall>r\<in>set rs. t \<le> fst r \<and> fst r \<le> now"
    and "now \<le> ck_expiry ck"
  shows "\<exists>ck'. wire_decode now (w @ replicate k 0) = Inr (Some ck') \<and>
    unseal_cookie A now ck' (rotate_all rs cm) = Some (c2s, s2c, aid)"
proof -
  have v: "ck_version ck = master_key_version cm" and e: "ck_expiry ck \<le> t + 86400"
    using assms(2) by (auto elim!: seal_cookie_Inr)
  have "length rs \<le> 1"
  proof (rule ccontr)
    assume "\<not> length rs \<le> 1"
    then obtain a b xs where "rs = a # b # xs" by (cases rs; cases "tl rs") auto
    then show False using assms(6-8) e by auto
  qed
  then have "map_of (master_keys (rotate_all rs cm)) (ck_version ck) = map_of (master_keys cm) (ck_version ck)"
    using v by (cases rs) (auto simp: map_of_rotate_key)
  from unseal_seal [OF assms(1-4,8) this] wire_decode_encode [OF assms(5)] show ?thesis
    by (intro exI [of _ "ck\<lparr> ck_created_at := now, ck_expiry := now + 86400 \<rparr>"]) simp
qed

theorem cookie_usable_until_expiry_witness:
  "\<exists>ck w ck'. seal_cookie demo_aead 0 (replicate 32 1) (replicate 32 2) 15 (cookie_mgr_init [9] 0) = Inr ck \<and>
     wire_encode ck = Inr w \<and> wire_decode 86400 (w @ replicate 1 0) = Inr (Some ck') \<and>
     unseal_cookie demo_aead 86400 ck' (rotate_all [(100, [8])] (cookie_mgr_init [9] 0)) =
       Some (replicate 32 1, replicate 32 2, 15)"
proof -
  let ?s = "seal_cookie demo_aead 0 (replicate 32 1) (replicate 32 2) 15 (cookie_mgr_init [9] 0)"
  have "\<exists>ck w. ?s = Inr ck \<and> wire_encode ck = Inr w \<and> ck_expiry ck = 86400"
    by (simp add: seal_cookie_def cookie_mgr_init_def packE_def pack_def demo_aead_def Let_def
        wire_encode_def demo_tag_def)
  then obtain ck w where s: "?s = Inr ck" and w: "wire_encode ck = Inr w" and e: "ck_expiry ck = 86400"
    by blast
  have "\<exists>ck'. wire_decode 86400 (w @ replicate 1 0) = Inr (Some ck') \<and>
     unseal_cookie demo_aead 86400 ck' (rotate_all [(100, [8])] (cookie_mgr_init [9] 0)) =
       Some (replicate 32 1, replicate 32 2, 15)"
    by (rule cookie_usable_until_expiry [OF demo_aead_ok s _ _ w]) (simp_all add: e)
  with s w show ?thesis by blast
qed

text \<open>
  Two rotations after a key was current it is gone exactly when they were more than the hour of
  grace apart; when they were not, no later rotation removes it, so that cookies sealed under it stay
  openable until they expire.
\<close>

theorem rotation_retires_key:
  assumes "map_of (master_keys cm) (master_key_version cm) = Some key" "0 \<le> master_key_version cm"
  shows "map_of (master_keys (rotate_all ((t1, k1) # (t2, k2) # rs) cm)) (master_key_version cm) =
    (if t2 > t1 + 3600 then None else Some key)"
proof -
  let ?cm = "rotate_key t2 k2 (rotate_key t1 k1 cm)"
  have "map_of (master_keys (rotate_all rs ?cm)) (master_key_version cm) =
      map_of (master_keys ?cm) (master_key_version cm)"
    by (rule rotate_all_keeps) simp
  with assms show ?thesis by (simp add: map_of_rotate_key)
qed

theorem rotation_retires_key_witness:
  "map_of (master_keys (rotate_all [(1, [1]), (2, [2]), (90000, [3])] (cookie_mgr_init [9] 0))) 0 = Some [9]
   \<and> map_of (master_keys (rotate_all [(1, [1]), (86401, [2])] (cookie_mgr_init [9] 0))) 0 = None"
  using rotation_retires_key [of "cookie_mgr_init [9] 0" "[9]" 1 "[1]" 2 "[2]" "[(90000, [3])]"]
    rotation_retires_key [of "cookie_mgr_init [9] 0" "[9]" 1 "[1]" 86401 "[2]" "[]"]
  by (simp add: cookie_mgr_init_def)

text \<open>
  After 256 rotations (256 days of uptime) the version no longer fits the byte that carries it: no
  cookie can be sealed, so that neither server can answer any client until it is restarted.
\<close>

theorem no_cookie_after_256_rotations:
  assumes "256 \<le> length rs"
  shows "\<nexists>ck. seal_cookie A now c2s s2c aid (rotate_all rs (cookie_mgr_init key t)) = Inr ck"
proof
  assume "\<exists>ck. seal_cookie A now c2s s2c aid (rotate_all rs (cookie_mgr_init key t)) = Inr ck"
  then obtain aad where "pack 1 (master_key_version (rotate_all rs (cookie_mgr_init key t))) = Some aad"
    by (auto elim!: seal_cookie_Inr)
  then show False using assms
    by (simp add: pack_def rotate_all_version cookie_mgr_init_def split: if_splits)
qed

theorem no_cookie_after_256_rotations_witness:
  "\<nexists>ck. seal_cookie demo_aead 0 [] [] 15 (rotate_all (replicate 256 (0, [])) (cookie_mgr_init [9] 0)) = Inr ck"
  by (rule no_cookie_after_256_rotations) simp


text \<open>
  C5. No response to a forged request: the UDP server answers a datagram only when its source is within
  the rate limit, the datagram carries a cookie that opens under a master key the server holds and has
  not expired, the algorithm is AES-SIV-CMAC-256, and the Authenticator field is the tag of everything
  before it under the client's key from that cookie.
\<close>

theorem response_only_if_authenticated:
  assumes "handle_request A now data ip s = (Inr (Some resp), s')"
  shows "\<not> fst (rate_limited now ip s) \<and>
    (\<exists>cookie_ef ck c2s s2c n tag.
       (NTS_COOKIE, cookie_ef) \<in> set (ef_loop data 48) \<and> wire_decode now cookie_ef = Inr (Some ck) \<and>
       unseal_cookie A now ck (us_cookies s) = Some (c2s, s2c, AEAD_AES_SIV_CMAC_256) \<and>
       48 \<le> n \<and> n \<le> length data \<and> extract_authenticator data = Some (take n data, tag) \<and>
       compute_authenticator A c2s AEAD_AES_SIV_CMAC_256 (take n data) = Inr tag)"
proof -
  obtain s1 where r: "rate_limited now ip s = (False, s1)"
    and a: "answer_request A now data (us_cookies s1) = Inr (Some resp)"
    using assms by (auto simp: handle_request_def split: prod.splits bool.splits)
  from a obtain packet cookie_ef aad tag ck c2s s2c where
    p: "parse_ntp_packet data = Some packet" "map_of (p_extension_fields packet) NTS_COOKIE = Some cookie_ef"
    and x: "extract_authenticator data = Some (aad, tag)" and w: "wire_decode now cookie_ef = Inr (Some ck)"
    and u: "unseal_cookie A now ck (us_cookies s1) = Some (c2s, s2c, AEAD_AES_SIV_CMAC_256)"
    and t: "compute_authenticator A c2s AEAD_AES_SIV_CMAC_256 aad = Inr tag"
    by (rule answer_request_Some)
  have "map_of (rev (ef_loop data 48)) NTS_COOKIE = Some cookie_ef"
    using p parse_ntp_packet_fields(1) [OF p(1)] by (simp add: map_of_fold_update)
  then have c: "(NTS_COOKIE, cookie_ef) \<in> set (ef_loop data 48)"
    by (auto dest: map_of_SomeD)
  from x obtain n where n: "48 \<le> n" "n \<le> length data" "aad = take n data"
    by (auto simp: extract_authenticator_def split: if_splits dest!: authenticator_from_take)
  show ?thesis using r c w u t x n rate_limited_cookies [OF r] by auto
qed


definition demo_udp :: udp_server where
  "demo_udp = \<lparr> us_cookies = cookie_mgr_init [9] 0, us_rate_max = 20, us_rate_state = [] \<rparr>"

text \<open>A request with a cookie sealed at time 0 and the tag of a client that holds its keys.\<close>

definition demo_request :: bytes where
  "demo_request =
     (case res_bind (seal_cookie demo_aead 0 (replicate 32 1) (replicate 32 2) 15 (cookie_mgr_init [9] 0))
             (\<lambda>ck. res_bind (wire_encode ck) (\<lambda>w. res_bind (build_efE NTS_COOKIE w) (\<lambda>c.
                let aad = 0x23 # replicate 47 0 @ c in
                res_bind (compute_authenticator demo_aead (replicate 32 1) 15 aad) (\<lambda>tag.
                res_bind (build_efE NTS_AUTHENTICATOR tag) (\<lambda>a. Inr (aad @ a)))))) of
        Inl _ \<Rightarrow> [] | Inr data \<Rightarrow> data)"

theorem response_only_if_authenticated_witness:
  "\<exists>resp s'. handle_request demo_aead 10 demo_request ''192.0.2.1'' demo_udp = (Inr (Some resp), s') \<and>
     (\<exists>n tag. 48 \<le> n \<and> extract_authenticator demo_request = Some (take n demo_request, tag))"
proof -
  have "(case fst (handle_request demo_aead 10 demo_request ''192.0.2.1'' demo_udp) of
      Inr (Some _) \<Rightarrow> True | _ \<Rightarrow> False)"
    by code_simp
  then obtain resp s' where
    h: "handle_request demo_aead 10 demo_request ''192.0.2.1'' demo_udp = (Inr (Some resp), s')"
    by (cases "handle_request demo_aead 10 demo_request ''192.0.2.1'' demo_udp")
      (auto split: sum.splits option.splits)
  from response_only_if_authenticated [OF h] h show ?thesis by blast
qed


text \<open>
  What the server answers is what an NTS client accepts: the response has protocol version 4 and
  mode 4, its Authenticator field is found and verifies under the server-to-client key over everything
  before it, it echoes the unique identifier of the request, and it carries a fresh cookie that the
  server opens to the same keys.
\<close>

theorem response_accepted_by_client:
  assumes "aead_ok A" "build_ntp_response A now req c2s s2c aid uid cm = Inr resp"
    and "length c2s = 32" "length s2c = 32"
  shows "\<exists>p aad tag wire ck. parse_ntp_packet resp = Some p \<and> p_version p = 4 \<and> p_mode p = 4 \<and>
    extract_authenticator resp = Some (aad, tag) \<and> verify_authenticator A s2c aid aad tag \<and>
    (\<forall>u. uid = Some u \<and> u \<noteq> [] \<and> length u mod 4 = 0 \<longrightarrow>
       map_of (p_extension_fields p) UNIQUE_IDENTIFIER = Some u) \<and>
    map_of (p_extension_fields p) NTS_COOKIE = Some wire \<and> wire_decode now wire = Inr (Some ck) \<and>
    unseal_cookie A now ck cm = Some (c2s, s2c, aid)"
proof -
  from assms(1,2) obtain h aad ck w tag where hd: "response_header now req = Inr h" "\<exists>rest. resp = h @ rest"
    and r: "seal_cookie A now c2s s2c aid cm = Inr ck" "wire_encode ck = Inr w"
    and x: "extract_authenticator resp = Some (aad, tag)" "verify_authenticator A s2c aid aad tag"
    and efs: "ef_loop resp 48 = map ef_seen (uid_fields uid @ [(NTS_COOKIE, w), (NTS_AUTHENTICATOR, tag)])"
    by (rule response_fields)
  obtain p where p: "parse_ntp_packet resp = Some p"
    using hd(2) response_header_Inr(1) [OF hd(1)] by (auto simp: parse_ntp_packet_def Let_def)
  note pf = parse_ntp_packet_fields [OF p]
  have "field 0 1 resp = 36" using hd(2) response_header_Inr(2) [OF hd(1)] by auto
  then have v: "p_version p = 4" "p_mode p = 4" using pf(4,5) by (simp_all add: drop_bit_eq_div)
  let ?wire = "w @ replicate (pad4 (length w) - length w) 0"
  have m: "map_of (p_extension_fields p) =
      map_of (rev (map ef_seen (uid_fields uid @ [(NTS_COOKIE, w), (NTS_AUTHENTICATOR, tag)])))"
    unfolding pf(1) efs map_of_fold_update by simp
  have c: "map_of (p_extension_fields p) NTS_COOKIE = Some ?wire"
    unfolding m by (simp add: ef_seen_def nts_constants)
  have i: "map_of (p_extension_fields p) UNIQUE_IDENTIFIER = Some u"
    if "uid = Some u \<and> u \<noteq> [] \<and> length u mod 4 = 0" for u
    unfolding m using that by (simp add: ef_seen_def nts_constants uid_fields_def pad4_def)
  have e: "now \<le> ck_expiry ck"
  proof -
    have "ck_expiry ck = of_int \<lfloor>now + 86400\<rfloor>" using r(1) by (rule seal_cookie_Inr)
    then show ?thesis by linarith
  qed
  let ?ck = "ck\<lparr> ck_created_at := now, ck_expiry := now + 86400 \<rparr>"
  have w: "wire_decode now ?wire = Inr (Some ?ck)" by (rule wire_decode_encode [OF r(2)])
  have u: "unseal_cookie A now ?ck cm = Some (c2s, s2c, aid)"
    by (rule unseal_seal [OF assms(1) r(1) assms(3,4) e]) simp_all
  from p v x i c w u show ?thesis by blast
qed


theorem response_accepted_by_client_witness:
  "\<exists>resp p. build_ntp_response demo_aead 0 (the (parse_ntp_packet (replicate 48 0))) (replicate 32 1)
       (replicate 32 2) 15 (Some [1, 2, 3, 4]) (cookie_mgr_init [9] 0) = Inr resp \<and>
     parse_ntp_packet resp = Some p \<and> map_of (p_extension_fields p) UNIQUE_IDENTIFIER = Some [1, 2, 3, 4]"
proof -
  let ?b = "build_ntp_response demo_aead 0 (the (parse_ntp_packet (replicate 48 0))) (replicate 32 1)
       (replicate 32 2) 15 (Some [1, 2, 3, 4]) (cookie_mgr_init [9] 0)"
  have "(case ?b of Inr _ \<Rightarrow> True | Inl _ \<Rightarrow> False)" by code_simp
  then obtain resp where b: "?b = Inr resp" by (cases ?b) auto
  from response_accepted_by_client [OF demo_aead_ok b] b show ?thesis by auto
qed

text \<open>
  C38. A datagram from anyone, with no key, stops the time service: when the cookie field begins with
  the length zero and an Authenticator field of any content is present, decoding the cookie raises, the
  receive loop ends with the socket closed, and none of the later requests is answered.
\<close>

theorem empty_cookie_stops_server:
  assumes "parse_ntp_packet data = Some p" "map_of (p_extension_fields p) NTS_COOKIE = Some (0 # 0 # b # rest)"
    and "extract_authenticator data \<noteq> None" "\<not> fst (rate_limited now ip s)"
  shows "udp_run A ((now, data, ip) # later) s = ([], False, snd (rate_limited now ip s))"
proof -
  obtain s1 where r: "rate_limited now ip s = (False, s1)"
    using assms(4) by (cases "rate_limited now ip s") auto
  have "wire_decode now (0 # 0 # b # rest) = Inl IndexError"
    by (simp add: wire_decode_def unpack_def py_slice_def)
  then have "answer_request A now data (us_cookies s1) = Inl IndexError"
    using assms(1-3) by (auto simp: answer_request_def Let_def)
  with r show ?thesis by (simp add: handle_request_def)
qed

theorem empty_cookie_stops_server_witness:
  "udp_run demo_aead
     [(1, replicate 48 0 @ [2, 4, 0, 8, 0, 0, 0, 0] @ [4, 4, 0, 4], ''203.0.113.5''),
      (2, demo_request, ''192.0.2.1'')] demo_udp
   = ([], False, snd (rate_limited 1 ''203.0.113.5'' demo_udp))"
proof -
  let ?d = "replicate 48 0 @ [2, 4, 0, 8, 0, 0, 0, 0] @ [4, 4, 0, 4]"
  have "map_option (\<lambda>p. map_of (p_extension_fields p) NTS_COOKIE) (parse_ntp_packet ?d) = Some (Some [0, 0, 0, 0])"
    and e: "extract_authenticator ?d \<noteq> None" and r: "\<not> fst (rate_limited 1 ''203.0.113.5'' demo_udp)"
    by code_simp+
  then obtain p where "parse_ntp_packet ?d = Some p" "map_of (p_extension_fields p) NTS_COOKIE = Some (0 # 0 # 0 # [0])"
    by auto
  from empty_cookie_stops_server [OF this e r] show ?thesis by simp
qed

text \<open>
  Two header fields can leave their eight bytes, and the exception then ends the service in the same
  way: the transmit timestamp from 7 February 2036 on (seconds since 1900 reach 32 bits), and at any
  time the echoed origin timestamp when a client sends one of the highest 1024 values, which rounding
  to a float lifts to \<open>2\<^sup>6\<^sup>4\<close>.
\<close>

theorem response_header_overflow:
  assumes "0 \<le> now \<and> 2 ^ 32 \<le> \<lfloor>now\<rfloor> + NTP_EPOCH_OFFSET \<or>
    p_origin_timestamp req = ntp_to_float ts \<and> 2 ^ 64 - 1024 \<le> ts \<and> ts < 2 ^ 64"
  shows "response_header now req = Inl StructError"
  using assms
proof
  assume n: "0 \<le> now \<and> 2 ^ 32 \<le> \<lfloor>now\<rfloor> + NTP_EPOCH_OFFSET"
  let ?f = "\<lfloor>(now - of_int \<lfloor>now\<rfloor>) * 2 ^ 32\<rfloor>" and ?t = "push_bit 32 (\<lfloor>now\<rfloor> + NTP_EPOCH_OFFSET)"
  have "0 \<le> ?f" by simp
  then have "?t \<le> ?t OR ?f" by (rule or_greater_eq)
  moreover have "2 ^ 64 \<le> ?t" using n by (simp add: push_bit_eq_mult)
  ultimately have "\<not> (0 \<le> ?t OR ?f \<and> ?t OR ?f < 256 ^ 8)" by simp
  then show ?thesis unfolding response_header_def Let_def
    by (rule pack_fields_overflow [rotated]) (simp del: push_bit_of_1)
next
  assume o: "p_origin_timestamp req = ntp_to_float ts \<and> 2 ^ 64 - 1024 \<le> ts \<and> ts < 2 ^ 64"
  then have "round53 ts = 2 ^ 64" by (intro round53_top) simp_all
  with o have t: "p_origin_timestamp req = 2 ^ 32" by (simp add: ntp_to_float_def)
  show ?thesis unfolding response_header_def Let_def t
    by (rule pack_fields_overflow [of 8 "2 ^ 64"]) simp_all
qed

theorem response_header_overflow_witness:
  "response_header 0 (the (parse_ntp_packet (replicate 48 255))) = Inl StructError \<and>
   response_header 2085978496 (the (parse_ntp_packet (replicate 48 0))) = Inl StructError"
proof
  have "field 24 8 (replicate 48 255) = 2 ^ 64 - 1" by code_simp
  then have "p_origin_timestamp (the (parse_ntp_packet (replicate 48 255))) = ntp_to_float (2 ^ 64 - 1)"
    by (simp add: parse_ntp_packet_def Let_def)
  then show "response_header 0 (the (parse_ntp_packet (replicate 48 255))) = Inl StructError"
    by (intro response_header_overflow [where ts = "2 ^ 64 - 1"]) simp
  show "response_header 2085978496 (the (parse_ntp_packet (replicate 48 0))) = Inl StructError"
    by (intro response_header_overflow) (simp add: NTP_EPOCH_OFFSET_def)
qed


section \<open>Properties of the key establishment\<close>

lemma encode_cookies_Inr:
  assumes "encode_cookies cs = Inr bs"
  shows "\<exists>ws bss. list_all2 (\<lambda>c w. wire_encode c = Inr w) cs ws \<and>
    list_all2 (\<lambda>r b. ke_put r = Some b) (map (\<lambda>w. (NEW_COOKIE, w, False)) ws) bss \<and> bs = concat bss"
  using assms
proof (induction cs arbitrary: bs)
  case (Cons c cs)
  from Cons.prems obtain w b rest where s: "wire_encode c = Inr w" "ke_encode NEW_COOKIE w False = Some b"
    "encode_cookies cs = Inr rest" "bs = b @ rest"
    by (auto simp: res_bind_Inr ke_encodeE_def)
  from Cons.IH [OF s(3)] obtain ws bss where i: "list_all2 (\<lambda>c w. wire_encode c = Inr w) cs ws"
    "list_all2 (\<lambda>r b. ke_put r = Some b) (map (\<lambda>w. (NEW_COOKIE, w, False)) ws) bss" "rest = concat bss"
    by blast
  show ?case
    by (rule exI [of _ "w # ws"], rule exI [of _ "b # bss"])
      (use s i in \<open>simp add: ke_put_def nts_constants\<close>)
qed simp

lemma seal_cookies_Inr:
  "seal_cookies A now c2s s2c aid cm n = Inr cs \<Longrightarrow>
     length cs = n \<and> (\<forall>c\<in>set cs. seal_cookie A now c2s s2c aid cm = Inr c)"
  by (induction n arbitrary: cs) (auto simp: res_bind_Inr)

lemma parse_ke_response:
  assumes "build_nts_ke_response aid cs = Inr resp"
  shows "\<exists>ws. list_all2 (\<lambda>c w. wire_encode c = Inr w) cs ws \<and>
    parse_all resp = (NEXT_PROTOCOL, [0, 0], True) # (AEAD_ALGORITHM, be_bytes 2 aid, False) #
      map (\<lambda>w. (NEW_COOKIE, w, False)) ws @ [(END_OF_MESSAGE, [], True)]"
proof -
  have z: "pack 2 0 = Some [0, 0]" by (simp add: pack_def numeral_2_eq_2)
  from assms obtain a r1 r2 r3 r4 where r: "ke_encode NEXT_PROTOCOL [0, 0] True = Some r1"
    "pack 2 aid = Some a" "ke_encode AEAD_ALGORITHM a False = Some r2"
    "encode_cookies cs = Inr r3" "ke_encode END_OF_MESSAGE [] True = Some r4" "resp = r1 @ r2 @ r3 @ r4"
    by (auto simp: build_nts_ke_response_def res_bind_Inr ke_encodeE_def z)
  have a: "a = be_bytes 2 aid" using r(2) by (auto simp: pack_def split: if_splits)
  from encode_cookies_Inr [OF r(4)] obtain ws bss where w: "list_all2 (\<lambda>c w. wire_encode c = Inr w) cs ws"
    "list_all2 (\<lambda>r b. ke_put r = Some b) (map (\<lambda>w. (NEW_COOKIE, w, False)) ws) bss" "r3 = concat bss"
    by blast
  let ?rs = "(NEXT_PROTOCOL, [0, 0], True) # (AEAD_ALGORITHM, a, False) #
      map (\<lambda>w. (NEW_COOKIE, w, False)) ws @ [(END_OF_MESSAGE, [], True)]"
  have p: "ke_put (NEXT_PROTOCOL, [0, 0], True) = Some r1" "ke_put (AEAD_ALGORITHM, a, False) = Some r2"
    "ke_put (END_OF_MESSAGE, [], True) = Some r4"
    using r(1,3,5) by (simp_all add: ke_put_def nts_constants)
  have "list_all2 (\<lambda>r b. ke_put r = Some b) ?rs (r1 # r2 # bss @ [r4])"
    using w(2) p by (simp add: list_all2_appendI)
  from ke.parse_stream [OF this, of "[]"] have "parse_all resp = ?rs"
    by (simp add: parse_all_def r(6) w(3))
  with w(1) a show ?thesis by blast
qed

text \<open>
  The key establishment hands out working cookies: what it sends to a client parses to the
  negotiated protocol and algorithm, eight cookies and the end marker, and the UDP server, over the same
  cookie manager, opens each of the eight to exactly the keys derived for that client.
\<close>

theorem ke_cookies_work:
  assumes "aead_ok A" "seal_cookies A t c2s s2c AEAD_AES_SIV_CMAC_256 cm 8 = Inr cookies"
    and "build_nts_ke_response AEAD_AES_SIV_CMAC_256 cookies = Inr resp"
    and "length c2s = 32" "length s2c = 32" "t \<le> now" "now \<le> t + 86399"
  shows "\<exists>ws. length ws = 8 \<and>
    parse_all resp = (NEXT_PROTOCOL, [0, 0], True) # (AEAD_ALGORITHM, [0, 15], False) #
      map (\<lambda>w. (NEW_COOKIE, w, False)) ws @ [(END_OF_MESSAGE, [], True)] \<and>
    (\<forall>w\<in>set ws. \<exists>ck. wire_decode now (w @ replicate k 0) = Inr (Some ck) \<and>
       unseal_cookie A now ck cm = Some (c2s, s2c, AEAD_AES_SIV_CMAC_256))"
proof -
  from parse_ke_response [OF assms(3)] obtain ws where
    w: "list_all2 (\<lambda>c w. wire_encode c = Inr w) cookies ws"
    and p: "parse_all resp = (NEXT_PROTOCOL, [0, 0], True) # (AEAD_ALGORITHM, be_bytes 2 AEAD_AES_SIV_CMAC_256, False) #
      map (\<lambda>w. (NEW_COOKIE, w, False)) ws @ [(END_OF_MESSAGE, [], True)]" by blast
  have b: "be_bytes 2 AEAD_AES_SIV_CMAC_256 = [0, 15]" by code_simp
  note c = seal_cookies_Inr [OF assms(2)]
  have "\<exists>ck. wire_decode now (w @ replicate k 0) = Inr (Some ck) \<and>
       unseal_cookie A now ck cm = Some (c2s, s2c, AEAD_AES_SIV_CMAC_256)" if h: "w \<in> set ws" for w
  proof -
    from h obtain i where "i < length ws" "w = ws ! i" by (auto simp: in_set_conv_nth)
    with list_all2_nthD2 [OF w] list_all2_lengthD [OF w]
    have ck: "cookies ! i \<in> set cookies" "wire_encode (cookies ! i) = Inr w" by auto
    define ck where "ck = cookies ! i"
    note ck = ck [folded ck_def]
    then have s: "seal_cookie A t c2s s2c AEAD_AES_SIV_CMAC_256 cm = Inr ck" using c by blast
    then have "ck_expiry ck = of_int \<lfloor>t + 86400\<rfloor>" by (rule seal_cookie_Inr)
    then have "now \<le> ck_expiry ck" using assms(7) by linarith
    from unseal_seal [OF assms(1) s assms(4,5) this] wire_decode_encode [OF ck(2), of now k]
    show ?thesis by simp
  qed
  with w c p b show ?thesis by (intro exI [of _ ws]) (auto dest: list_all2_lengthD)
qed


lemma demo_ke_messages:
  "\<exists>cookies resp. seal_cookies demo_aead 0 (replicate 32 1) (replicate 32 2) AEAD_AES_SIV_CMAC_256
       (cookie_mgr_init [9] 0) 8 = Inr cookies \<and>
     build_nts_ke_response AEAD_AES_SIV_CMAC_256 cookies = Inr resp"
proof -
  let ?s = "seal_cookies demo_aead 0 (replicate 32 1) (replicate 32 2) AEAD_AES_SIV_CMAC_256 (cookie_mgr_init [9] 0) 8"
  have "(case res_bind ?s (build_nts_ke_response AEAD_AES_SIV_CMAC_256) of Inr _ \<Rightarrow> True | Inl _ \<Rightarrow> False)"
    by code_simp
  then show ?thesis by (cases ?s) (auto split: sum.splits)
qed

theorem ke_cookies_work_witness:
  "\<exists>cookies resp ws. seal_cookies demo_aead 0 (replicate 32 1) (replicate 32 2) AEAD_AES_SIV_CMAC_256
       (cookie_mgr_init [9] 0) 8 = Inr cookies \<and>
     build_nts_ke_response AEAD_AES_SIV_CMAC_256 cookies = Inr resp \<and> length ws = 8 \<and>
     parse_all resp = (NEXT_PROTOCOL, [0, 0], True) # (AEAD_ALGORITHM, [0, 15], False) #
       map (\<lambda>w. (NEW_COOKIE, w, False)) ws @ [(END_OF_MESSAGE, [], True)]"
proof -
  from demo_ke_messages obtain cookies resp where
    c: "seal_cookies demo_aead 0 (replicate 32 1) (replicate 32 2) AEAD_AES_SIV_CMAC_256
       (cookie_mgr_init [9] 0) 8 = Inr cookies"
    and b: "build_nts_ke_response AEAD_AES_SIV_CMAC_256 cookies = Inr resp" by blast
  from ke_cookies_work [OF demo_aead_ok c b, of 0] c b show ?thesis by auto
qed

lemma ke_cookie_authorised:
  assumes "msg \<in> set (handle_client E now conn cm)" "(NEW_COOKIE, w, c) \<in> set (parse_all msg)"
  shows "\<exists>request token. kc_recv conn = Some request \<and>
    extract_nts_ke_auth_token (ke_decode_utf8 E) request = Some token \<and>
    verify_jwt (ke_jwt E) (ke_cfg E) (ke_env_key E) (ke_keys E) token (Some ''ntp:client'')"
proof -
  obtain request where r: "kc_recv conn = Some request" "request \<noteq> []"
    using assms(1) by (cases "kc_recv conn") (auto simp: handle_client_def Let_def split: if_splits)
  let ?token = "extract_nts_ke_auth_token (ke_decode_utf8 E) request"
  let ?err = "res_bind (packE 2 1) (\<lambda>b. res_bind (ke_encodeE KE_ERROR b True) (\<lambda>r1.
                          res_bind (ke_encodeE END_OF_MESSAGE [] True) (\<lambda>r2. Inr (r1 @ r2))))"
  have e: "?err = Inr [0x80, 2, 0, 2, 0, 1, 0, 0, 0x80, 0, 0, 0]" by code_simp
  have n: "parse_all [0x80, 2, 0, 2, 0, 1, 0, 0, 0x80, 0, 0, 0] = [(2, [0, 1], True), (0, [], True)]"
    by code_simp
  show ?thesis
  proof (rule ccontr)
    assume "\<not> ?thesis"
    with r have "\<not> truthy ?token \<or>
        \<not> verify_jwt (ke_jwt E) (ke_cfg E) (ke_env_key E) (ke_keys E) (the ?token) (Some ''ntp:client'')"
      by (cases ?token) (auto simp: truthy_def)
    with assms(1) r have "msg = [0x80, 2, 0, 2, 0, 1, 0, 0, 0x80, 0, 0, 0]"
      unfolding handle_client_def Let_def e by (auto split: if_splits)
    with assms(2) n show False by (simp add: NEW_COOKIE_def)
  qed
qed

text \<open>
  Cookies only for authorised clients: whatever the connection delivers, a message sent by the key
  establishment that contains a cookie goes to a client whose request carried a token that the verifier
  accepts with the scope \<^verbatim>\<open>ntp:client\<close>.
\<close>

theorem ke_cookies_only_to_authorised:
  assumes "msg \<in> set (handle_client E now conn cm)" "(NEW_COOKIE, w, c) \<in> set (parse_all msg)"
  shows "\<exists>request token. kc_recv conn = Some request \<and>
    extract_nts_ke_auth_token (ke_decode_utf8 E) request = Some token \<and>
    verify_jwt (ke_jwt E) (ke_cfg E) (ke_env_key E) (ke_keys E) token (Some ''ntp:client'')"
  using ke_cookie_authorised [OF assms] .

definition demo_ke_env :: ke_env where
  "demo_ke_env = \<lparr> ke_aead = demo_aead, ke_jwt = demo_jwt, ke_cfg = demo_cfg, ke_env_key = None,
     ke_keys = [(''k1'', ''PEM1'')],
     ke_decode_utf8 = (\<lambda>bs. if list_all (\<lambda>b. b < 128) bs then Some (map (\<lambda>b. char_of (uint b)) bs) else None) \<rparr>"

definition demo_ke_conn :: ke_conn where
  "demo_ke_conn = \<lparr> kc_recv = ke_encode SQUAWK_AUTH_TOKEN (ascii ''tok-k1'') True,
     kc_export = (\<lambda>label n context. Some (replicate n (1 + last context))), kc_send_ok = True \<rparr>"

theorem ke_cookies_only_to_authorised_witness:
  "handle_client demo_ke_env 0 demo_ke_conn (cookie_mgr_init [9] 0) \<noteq> [] \<and>
   (\<exists>request. kc_recv demo_ke_conn = Some request \<and>
      extract_nts_ke_auth_token (ke_decode_utf8 demo_ke_env) request \<noteq> None)"
proof -
  let ?h = "handle_client demo_ke_env 0 demo_ke_conn (cookie_mgr_init [9] 0)"
  obtain cookies resp where
    c: "seal_cookies demo_aead 0 (replicate 32 1) (replicate 32 2) AEAD_AES_SIV_CMAC_256
       (cookie_mgr_init [9] 0) 8 = Inr cookies"
    and b: "build_nts_ke_response AEAD_AES_SIV_CMAC_256 cookies = Inr resp"
    using demo_ke_messages by blast
  have r: "kc_recv demo_ke_conn = Some [0xC0, 0, 0, 6, 116, 111, 107, 45, 107, 49, 0, 0]" by code_simp
  have t: "extract_nts_ke_auth_token (ke_decode_utf8 demo_ke_env) [0xC0, 0, 0, 6, 116, 111, 107, 45, 107, 49, 0, 0]
      = Some ''tok-k1''" by code_simp
  have v: "verify_jwt (ke_jwt demo_ke_env) (ke_cfg demo_ke_env) (ke_env_key demo_ke_env) (ke_keys demo_ke_env)
      ''tok-k1'' (Some ''ntp:client'')" by code_simp
  have x: "pack_fields [(2, 0), (2, AEAD_AES_SIV_CMAC_256), (1, 0)] = Inr [0, 0, 0, 15, 0]"
    "pack_fields [(2, 0), (2, AEAD_AES_SIV_CMAC_256), (1, 1)] = Inr [0, 0, 0, 15, 1]" by code_simp+
  have e: "kc_export demo_ke_conn l 32 [0, 0, 0, 15, 0] = Some (replicate 32 1)"
    "kc_export demo_ke_conn l 32 [0, 0, 0, 15, 1] = Some (replicate 32 2)" for l
    by (simp_all add: demo_ke_conn_def)
  have a: "ke_aead demo_ke_env = demo_aead" "kc_send_ok demo_ke_conn"
    by (simp_all add: demo_ke_env_def demo_ke_conn_def)
  have h: "?h = [resp]"
    unfolding handle_client_def Let_def r x prod.case sum.case e a
    using t v c b a(2) by (simp add: truthy_def)
  obtain ws where w: "length ws = 8" "parse_all resp = (NEXT_PROTOCOL, [0, 0], True) # (AEAD_ALGORITHM, be_bytes 2 AEAD_AES_SIV_CMAC_256, False) #
      map (\<lambda>w. (NEW_COOKIE, w, False)) ws @ [(END_OF_MESSAGE, [], True)]"
    using parse_ke_response [OF b] seal_cookies_Inr [OF c] by (auto dest: list_all2_lengthD)
  have "(NEW_COOKIE, hd ws, False) \<in> set (parse_all resp)" using w by (cases ws) auto
  from ke_cookies_only_to_authorised [of resp demo_ke_env 0 demo_ke_conn "cookie_mgr_init [9] 0", OF _ this] h
  show ?thesis by auto
qed

end
