(* ===== verification/Dhcp_Server.thy ===== *)
theory Dhcp_Server
  imports Jwt_Verify Ip_Address "HOL-Library.Multiset"
begin

text \<open>
  The DHCP server: input validation (\<^verbatim>\<open>dhcp-server/app/validation.py\<close>), leases
  (\<^verbatim>\<open>dhcp-server/app/db.py\<close>) and the HTTP handlers (\<^verbatim>\<open>dhcp-server/bins/server.py\<close>).

  The database library is outside the repository. A table is a list of rows; what the library fixes
  about a query is that it returns the matching rows, in no particular order: the order is a parameter,
  with the law of the locale \<open>query_order\<close>. Times are microseconds, the clock an argument for each time the code
  reads it. A request body is any JSON value; a numeral with a fraction, which no check accepts, has no constructor.
\<close>

section \<open>Input validation\<close>

definition is_hex :: "char \<Rightarrow> bool" where
  "is_hex c \<longleftrightarrow> c \<in> set ''0123456789ABCDEFabcdef''"

text \<open>\<^verbatim>\<open>^([0-9A-Fa-f]{2}:){5}[0-9A-Fa-f]{2}\Z\<close>\<close>

definition is_valid_mac :: "string \<Rightarrow> bool" where
  "is_valid_mac mac =
     (let parts = py_split CHR '':'' mac
      in length parts = 6 \<and> list_all (\<lambda>p. length p = 2 \<and> list_all is_hex p) parts)"

definition is_alnum :: "char \<Rightarrow> bool" where
  "is_alnum c \<longleftrightarrow>
     c \<in> set ''ABCDEFGHIJKLMNOPQRSTUVWXYZabcdefghijklmnopqrstuvwxyz0123456789''"

text \<open>The check rejects everything that is no string.\<close>

definition is_mac_value :: "json \<Rightarrow> bool" where
  "is_mac_value mac = (case mac of JStr s \<Rightarrow> is_valid_mac s | _ \<Rightarrow> False)"

text \<open>One label of \<^verbatim>\<open>_HOSTNAME_RE\<close>, which ends with \<^verbatim>\<open>\Z\<close>.\<close>

definition hostname_label :: "string \<Rightarrow> bool" where
  "hostname_label l \<longleftrightarrow>
     l \<noteq> [] \<and> length l \<le> 63 \<and> is_alnum (hd l) \<and> is_alnum (last l) \<and>
     list_all (\<lambda>c. is_alnum c \<or> c = CHR ''-'') l"

definition sanitize_hostname :: "string \<Rightarrow> string option" where
  "sanitize_hostname hostname =
     (let stripped = py_strip hostname in
      if stripped = [] \<or> length stripped > 253 then None
      else if list_ex (\<lambda>c. (of_char c :: nat) < 0x20 \<or> (of_char c :: nat) = 0x7F) stripped then None
      else if \<not> list_all hostname_label (labels stripped) then None
      else Some stripped)"

definition sanitize_hostname_value :: "json \<Rightarrow> string option" where
  "sanitize_hostname_value hostname = (case hostname of JStr s \<Rightarrow> sanitize_hostname s | _ \<Rightarrow> None)"

section \<open>Tables\<close>

record lease_row =
  l_id :: int
  l_pool_id :: int
  l_mac :: string
  l_ip :: string
  l_hostname :: "string option"
  l_start :: int
  l_end :: int
  l_status :: string

record reservation_row =
  rv_pool_id :: int
  rv_mac :: string
  rv_ip :: string

text \<open>
  \<open>pl_subnet_mask\<close> is what reading \<^verbatim>\<open>pool.subnet_mask\<close> gives: the schema has no such column, and \<open>None\<close>
  is a row object that raises for it.
\<close>

record pool_row =
  pl_id :: int
  pl_gateway :: "string option"
  pl_dns_servers :: "string list option"
  pl_subnet_mask :: "string option option"
  pl_lease_duration :: int

record dhcp_db =
  leases :: "lease_row list"
  reservations :: "reservation_row list"
  pools :: "pool_row list"
  next_lease_id :: int

record dhcp_cfg =
  POOL_START :: string
  POOL_END :: string
  GATEWAY :: string
  DNS_SERVERS :: "string list"
  LEASE_TIME :: int
  jwt_secret_set :: bool

text \<open>
  \<open>de_number_text\<close> is the text that a number is compared with and stored as in a text column: its numeral in
  SQLite, which applies the affinity of the column; \<open>None\<close> is a database that raises for it.
\<close>

record dhcp_env =
  de_cfg :: dhcp_cfg
  de_jwt :: jwt_lib
  de_jwt_cfg :: jwt_cfg
  de_public_key :: "string option"
  de_public_keys :: key_ring
  de_feature_enabled :: bool
  de_order :: "lease_row list \<Rightarrow> lease_row list"
  de_res_order :: "reservation_row list \<Rightarrow> reservation_row list"
  de_number_text :: "int \<Rightarrow> string option"

record dhcp_lease =
  dl_mac :: string
  dl_ip :: json
  dl_hostname :: "string option"
  dl_start :: int
  dl_end :: int
  dl_status :: string
  dl_subnet_mask :: string
  dl_gateway :: "string option"
  dl_dns_servers :: "string list"
  dl_lease_time :: int
  dl_renewal_time :: int
  dl_rebinding_time :: int

definition first :: "'a list \<Rightarrow> 'a option" where
  "first xs = (case xs of [] \<Rightarrow> None | x # _ \<Rightarrow> Some x)"

definition select_leases :: "dhcp_env \<Rightarrow> (lease_row \<Rightarrow> bool) \<Rightarrow> dhcp_db \<Rightarrow> lease_row list" where
  "select_leases E P db = de_order E (filter P (leases db))"

definition update_leases :: "(lease_row \<Rightarrow> bool) \<Rightarrow> (lease_row \<Rightarrow> lease_row) \<Rightarrow> dhcp_db \<Rightarrow> dhcp_db" where
  "update_leases P f db = db\<lparr> leases := map (\<lambda>r. if P r then f r else r) (leases db) \<rparr>"

section \<open>Leases\<close>

definition is_expired :: "int \<Rightarrow> lease_row \<Rightarrow> bool" where
  "is_expired now lease \<longleftrightarrow> now > l_end lease"

abbreviation active_on :: "int \<Rightarrow> string \<Rightarrow> lease_row \<Rightarrow> bool" where
  "active_on pool_id ip r \<equiv> l_ip r = ip \<and> l_pool_id r = pool_id \<and> l_status r = ''active''"

abbreviation lease_of :: "int \<Rightarrow> string \<Rightarrow> lease_row \<Rightarrow> bool" where
  "lease_of pool_id mac r \<equiv> l_mac r = mac \<and> l_pool_id r = pool_id"

text \<open>\<^verbatim>\<open>ipaddress.IPv4Address\<close> takes a text or an integer, and a truth value is an integer.\<close>

definition ipv4_of :: "json \<Rightarrow> nat option" where
  "ipv4_of ip =
     (case ip of
        JStr s \<Rightarrow> ipv4_parse s
      | JInt i \<Rightarrow> (if 0 \<le> i \<and> i < 2 ^ 32 then Some (nat i) else None)
      | JBool b \<Rightarrow> Some (if b then 1 else 0)
      | _ \<Rightarrow> None)"

definition ip_column :: "dhcp_env \<Rightarrow> json \<Rightarrow> string option" where
  "ip_column E ip =
     (case ip of
        JStr s \<Rightarrow> Some s
      | JInt i \<Rightarrow> de_number_text E i
      | JBool b \<Rightarrow> de_number_text E (if b then 1 else 0)
      | _ \<Rightarrow> None)"

definition is_in_range :: "dhcp_cfg \<Rightarrow> json \<Rightarrow> bool" where
  "is_in_range cfg ip =
     (case (ipv4_of ip, ipv4_parse (POOL_START cfg), ipv4_parse (POOL_END cfg)) of
        (Some i, Some s, Some e) \<Rightarrow> s \<le> i \<and> i \<le> e
      | _ \<Rightarrow> False)"

text \<open>The outer \<open>None\<close> is an exception (a malformed bound of the pool).\<close>

definition find_free_ip :: "dhcp_env \<Rightarrow> int \<Rightarrow> dhcp_db \<Rightarrow> string option option" where
  "find_free_ip E pool_id db =
     (case (ipv4_parse (POOL_START (de_cfg E)), ipv4_parse (POOL_END (de_cfg E))) of
        (Some s, Some e) \<Rightarrow>
          Some (find (\<lambda>ip_str. first (select_leases E (active_on pool_id ip_str) db) = None)
                  (map ipv4_str [s..<e + 1]))
      | _ \<Rightarrow> None)"

definition get_offer ::
  "dhcp_env \<Rightarrow> int \<Rightarrow> int \<Rightarrow> string \<Rightarrow> json \<Rightarrow> dhcp_db \<Rightarrow> json option option" where
  "get_offer E now pool_id mac requested_ip db =
     (let existing_lease = first (select_leases E (\<lambda>r. lease_of pool_id mac r \<and> l_status r = ''active'') db) in
      if existing_lease \<noteq> None \<and> \<not> is_expired now (the existing_lease)
      then Some (Some (JStr (l_ip (the existing_lease))))
      else
        (case first (de_res_order E (filter (\<lambda>r. rv_mac r = mac \<and> rv_pool_id r = pool_id) (reservations db))) of
           Some reservation \<Rightarrow> Some (Some (JStr (rv_ip reservation)))
         | None \<Rightarrow>
             (let free = map_option (map_option JStr) (find_free_ip E pool_id db) in
              if json_truthy requested_ip \<and> is_in_range (de_cfg E) requested_ip
              then (case ip_column E requested_ip of
                      None \<Rightarrow> None
                    | Some ip \<Rightarrow> (if first (select_leases E (active_on pool_id ip) db) = None
                                then Some (Some requested_ip) else free))
              else free)))"

text \<open>The outer \<open>None\<close> is an exception of the database.\<close>

definition validate_requested_ip ::
  "dhcp_env \<Rightarrow> int \<Rightarrow> int \<Rightarrow> string \<Rightarrow> json \<Rightarrow> dhcp_db \<Rightarrow> string option option" where
  "validate_requested_ip E now pool_id mac requested_ip db =
     (if ipv4_of requested_ip = None then Some (Some ''invalid IP address'')
      else if \<not> is_in_range (de_cfg E) requested_ip then Some (Some ''requested IP is outside the pool range'')
      else (case ip_column E requested_ip of
              None \<Rightarrow> None
            | Some ip \<Rightarrow>
                (case first (select_leases E (\<lambda>r. active_on pool_id ip r \<and> l_mac r \<noteq> mac) db) of
                   Some conflicting \<Rightarrow>
                     (if \<not> is_expired now conflicting
                      then Some (Some ''requested IP is already leased to another client'') else Some None)
                 | None \<Rightarrow> Some None)))"

text \<open>
  \<^verbatim>\<open>pool.dns_servers or [...]\<close>, \<^verbatim>\<open>pool.subnet_mask or ...\<close>; \<open>None\<close> is the missing attribute. The address of the
  answer is given apart: a new lease has the requested one, as it was sent.
\<close>

definition lease_details :: "pool_row \<Rightarrow> json \<Rightarrow> lease_row \<Rightarrow> dhcp_lease option" where
  "lease_details pool ip r =
     (case pl_subnet_mask pool of
        None \<Rightarrow> None
      | Some subnet \<Rightarrow>
          Some \<lparr> dl_mac = l_mac r, dl_ip = ip, dl_hostname = l_hostname r, dl_start = l_start r,
                 dl_end = l_end r, dl_status = l_status r,
                 dl_subnet_mask = (if truthy subnet then the subnet else ''255.255.255.0''),
                 dl_gateway = pl_gateway pool,
                 dl_dns_servers = (case pl_dns_servers pool of
                                     Some (d # ds) \<Rightarrow> d # ds | _ \<Rightarrow> [''8.8.8.8'', ''8.8.4.4'']),
                 dl_lease_time = pl_lease_duration pool,
                 dl_renewal_time = pl_lease_duration pool div 2,
                 dl_rebinding_time = pl_lease_duration pool * 7 div 8 \<rparr>)"

definition create_lease ::
  "dhcp_env \<Rightarrow> int \<Rightarrow> int \<Rightarrow> string \<Rightarrow> json \<Rightarrow> string option \<Rightarrow> dhcp_db \<Rightarrow> dhcp_lease option \<times> dhcp_db" where
  "create_lease E now pool_id mac requested_ip hostname db =
     (case ip_column E requested_ip of None \<Rightarrow> (None, db) | Some ip \<Rightarrow>
      let lease_end = now + LEASE_TIME (de_cfg E) * 1000000;
          db' = (case first (select_leases E (lease_of pool_id mac) db) of
                   Some _ \<Rightarrow>
                     update_leases (lease_of pool_id mac)
                       (\<lambda>r. r\<lparr> l_ip := ip, l_hostname := hostname, l_start := now, l_end := lease_end,
                              l_status := ''active'' \<rparr>) db
                 | None \<Rightarrow>
                     db\<lparr> leases := leases db @
                           [\<lparr> l_id = next_lease_id db, l_pool_id = pool_id, l_mac = mac, l_ip = ip,
                              l_hostname = hostname, l_start = now, l_end = lease_end,
                              l_status = ''active'' \<rparr>],
                         next_lease_id := next_lease_id db + 1 \<rparr>)
      in (case first (filter (\<lambda>p. pl_id p = pool_id) (pools db')) of
            None \<Rightarrow> (None, db')
          | Some pool \<Rightarrow>
              (lease_details pool requested_ip \<lparr> l_id = 0, l_pool_id = pool_id, l_mac = mac, l_ip = ip,
                 l_hostname = hostname, l_start = now, l_end = lease_end, l_status = ''active'' \<rparr>, db')))"

definition release_lease :: "dhcp_env \<Rightarrow> int \<Rightarrow> string \<Rightarrow> dhcp_db \<Rightarrow> bool \<times> dhcp_db" where
  "release_lease E pool_id mac db =
     (case first (select_leases E (lease_of pool_id mac) db) of
        None \<Rightarrow> (False, db)
      | Some _ \<Rightarrow> (True, update_leases (lease_of pool_id mac) (\<lambda>r. r\<lparr> l_status := ''released'' \<rparr>) db))"

text \<open>The outer \<open>None\<close> is an exception.\<close>

definition get_lease :: "dhcp_env \<Rightarrow> int \<Rightarrow> int \<Rightarrow> string \<Rightarrow> dhcp_db \<Rightarrow> dhcp_lease option option \<times> dhcp_db" where
  "get_lease E now pool_id mac db =
     (case first (select_leases E (lease_of pool_id mac) db) of
        None \<Rightarrow> (Some None, db)
      | Some lease \<Rightarrow>
          (if is_expired now lease
           then (Some None, update_leases (\<lambda>r. l_id r = l_id lease) (\<lambda>r. r\<lparr> l_status := ''expired'' \<rparr>) db)
           else (case first (filter (\<lambda>p. pl_id p = pool_id) (pools db)) of
                   None \<Rightarrow> (Some None, db)
                 | Some pool \<Rightarrow> (map_option Some (lease_details pool (JStr (l_ip lease)) lease), db))))"

definition expire_old_leases :: "dhcp_env \<Rightarrow> int \<Rightarrow> int \<Rightarrow> dhcp_db \<Rightarrow> nat \<times> dhcp_db" where
  "expire_old_leases E now pool_id db =
     (let P = (\<lambda>r. l_pool_id r = pool_id \<and> l_status r = ''active'' \<and> l_end r < now);
          count = length (select_leases E P db)
      in (count, if count > 0 then update_leases P (\<lambda>r. r\<lparr> l_status := ''expired'' \<rparr>) db else db))"

definition get_pool_stats :: "dhcp_env \<Rightarrow> int \<Rightarrow> int \<Rightarrow> dhcp_db \<Rightarrow> (int \<times> int \<times> int) option" where
  "get_pool_stats E now pool_id db =
     (let active = int (length (filter (\<lambda>r. l_pool_id r = pool_id \<and> l_status r = ''active'' \<and> l_end r > now)
                                  (leases db)))
      in case (ipv4_parse (POOL_END (de_cfg E)), ipv4_parse (POOL_START (de_cfg E))) of
           (Some e, Some s) \<Rightarrow>
             (let total = int e - int s + 1 in Some (active, total - active, total))
         | _ \<Rightarrow> None)"


section \<open>HTTP handlers\<close>

datatype dhcp_resp =
    Http_Error nat string
  | Server_Error
  | Offer json
  | Ack dhcp_lease
  | Released bool
  | Lease_Info dhcp_lease
  | Lease_Not_Found
  | Pool_Stats int int int

text \<open>
  Feature flag and authorisation, the common opening of the protected handlers: \<open>Some\<close> is the early
  response. \<open>Server_Error\<close> stands for an exception the framework turns into a 500.
\<close>

definition jwt_error_response :: "dhcp_env \<Rightarrow> nat \<Rightarrow> dhcp_resp" where
  "jwt_error_response E status_code =
     (if \<not> jwt_secret_set (de_cfg E) then Http_Error 500 ''Server misconfigured''
      else Http_Error status_code (if status_code = 403 then ''Unauthorized'' else ''Invalid or expired token''))"

definition guard :: "dhcp_env \<Rightarrow> string \<Rightarrow> string \<Rightarrow> dhcp_resp option" where
  "guard E auth_header scope =
     (if \<not> de_feature_enabled E then Some (Http_Error 503 ''Service unavailable'')
      else (case check_auth (de_jwt E) (de_jwt_cfg E) (de_public_key E) (de_public_keys E) auth_header scope of
              None \<Rightarrow> Some Server_Error
            | Some (status_code, payload) \<Rightarrow>
                (if status_code \<noteq> 200 then Some (jwt_error_response E status_code) else None)))"

text \<open>
  The body: absent is null. What is true but no object has no \<^verbatim>\<open>get\<close> and raises.
\<close>

definition with_body :: "json \<Rightarrow> 'a \<Rightarrow> 'a \<Rightarrow> ((string \<times> json) list \<Rightarrow> 'a) \<Rightarrow> 'a" where
  "with_body body invalid raised f =
     (if \<not> json_truthy body then invalid else case body of JObj data \<Rightarrow> f data | _ \<Rightarrow> raised)"

definition dhcp_discover ::
  "dhcp_env \<Rightarrow> int \<Rightarrow> string \<Rightarrow> json \<Rightarrow> dhcp_db \<Rightarrow> dhcp_resp" where
  "dhcp_discover E now auth_header body db =
     (case guard E auth_header ''dhcp:read'' of
        Some r \<Rightarrow> r
      | None \<Rightarrow>
          with_body body (Http_Error 400 ''Invalid request body'') Server_Error
           (\<lambda>data. let mac = json_get data ''mac_address''; hostname = json_get data ''hostname'' in
               if \<not> json_truthy mac then Http_Error 400 ''MAC address required''
               else if \<not> is_mac_value mac then Http_Error 400 ''Invalid MAC address format''
               else if hostname \<noteq> JNull \<and> sanitize_hostname_value hostname = None then Http_Error 400 ''Invalid hostname''
               else (case get_offer E now 1 (case mac of JStr m \<Rightarrow> m | _ \<Rightarrow> []) (json_get data ''requested_ip'') db of
                       None \<Rightarrow> Server_Error
                     | Some None \<Rightarrow> Http_Error 503 ''No IP addresses available''
                     | Some (Some offered_ip) \<Rightarrow>
                         if \<not> json_truthy offered_ip then Http_Error 503 ''No IP addresses available''
                         else Offer offered_ip)))"

text \<open>The clock is read for the check, \<open>now\<close>, and again for the lease, \<open>now2\<close>.\<close>

definition dhcp_request ::
  "dhcp_env \<Rightarrow> int \<Rightarrow> int \<Rightarrow> string \<Rightarrow> json \<Rightarrow> dhcp_db \<Rightarrow> dhcp_resp \<times> dhcp_db" where
  "dhcp_request E now now2 auth_header body db =
     (case guard E auth_header ''dhcp:read'' of
        Some r \<Rightarrow> (r, db)
      | None \<Rightarrow>
          with_body body (Http_Error 400 ''Invalid request body'', db) (Server_Error, db)
           (\<lambda>data.
               let mac_value = json_get data ''mac_address''; requested_ip = json_get data ''requested_ip'';
                   host_value = json_get data ''hostname'' in
               if \<not> json_truthy mac_value \<or> \<not> json_truthy requested_ip
               then (Http_Error 400 ''MAC address and requested IP required'', db)
               else if \<not> is_mac_value mac_value then (Http_Error 400 ''Invalid MAC address format'', db)
               else if host_value \<noteq> JNull \<and> sanitize_hostname_value host_value = None
               then (Http_Error 400 ''Invalid hostname'', db)
               else
                 (let mac = (case mac_value of JStr m \<Rightarrow> m | _ \<Rightarrow> []); hostname = sanitize_hostname_value host_value in
                  case validate_requested_ip E now 1 mac requested_ip db of
                    None \<Rightarrow> (Server_Error, db)
                  | Some (Some reason) \<Rightarrow> (Http_Error 400 (''Request rejected: '' @ reason), db)
                  | Some None \<Rightarrow>
                      (case create_lease E now2 1 mac requested_ip hostname db of
                         (None, db') \<Rightarrow> (Server_Error, db')
                       | (Some lease, db') \<Rightarrow> (Ack lease, db')))))"

definition dhcp_release ::
  "dhcp_env \<Rightarrow> string \<Rightarrow> json \<Rightarrow> dhcp_db \<Rightarrow> dhcp_resp \<times> dhcp_db" where
  "dhcp_release E auth_header body db =
     (case guard E auth_header ''dhcp:read'' of
        Some r \<Rightarrow> (r, db)
      | None \<Rightarrow>
          with_body body (Http_Error 400 ''Invalid request body'', db) (Server_Error, db)
           (\<lambda>data. let mac = json_get data ''mac_address'' in
               if \<not> json_truthy mac then (Http_Error 400 ''MAC address required'', db)
               else if \<not> is_mac_value mac then (Http_Error 400 ''Invalid MAC address format'', db)
               else (case release_lease E 1 (case mac of JStr m \<Rightarrow> m | _ \<Rightarrow> []) db of
                       (success, db') \<Rightarrow> (Released success, db'))))"

text \<open>\<^verbatim>\<open>/dhcp/config\<close> takes the address from the query string, \<^verbatim>\<open>/dhcp/lease/<mac>\<close> from the path.\<close>

definition lease_answer :: "dhcp_lease option option \<times> dhcp_db \<Rightarrow> dhcp_resp \<times> dhcp_db" where
  "lease_answer r =
     (case r of
        (None, db') \<Rightarrow> (Server_Error, db')
      | (Some None, db') \<Rightarrow> (Lease_Not_Found, db')
      | (Some (Some lease), db') \<Rightarrow> (Lease_Info lease, db'))"

definition dhcp_config ::
  "dhcp_env \<Rightarrow> int \<Rightarrow> string \<Rightarrow> string option \<Rightarrow> dhcp_db \<Rightarrow> dhcp_resp \<times> dhcp_db" where
  "dhcp_config E now auth_header mac db =
     (case guard E auth_header ''dhcp:read'' of
        Some r \<Rightarrow> (r, db)
      | None \<Rightarrow>
          if \<not> truthy mac then (Http_Error 400 ''MAC address required'', db)
          else if \<not> is_valid_mac (the mac) then (Http_Error 400 ''Invalid MAC address format'', db)
          else lease_answer (get_lease E now 1 (the mac) db))"

definition get_lease_handler ::
  "dhcp_env \<Rightarrow> int \<Rightarrow> string \<Rightarrow> string \<Rightarrow> dhcp_db \<Rightarrow> dhcp_resp \<times> dhcp_db" where
  "get_lease_handler E now auth_header mac db =
     (case guard E auth_header ''dhcp:read'' of
        Some r \<Rightarrow> (r, db)
      | None \<Rightarrow>
          if \<not> is_valid_mac mac then (Http_Error 400 ''Invalid MAC address format'', db)
          else lease_answer (get_lease E now 1 mac db))"

definition stats_answer :: "(int \<times> int \<times> int) option \<Rightarrow> dhcp_resp" where
  "stats_answer r = (case r of None \<Rightarrow> Server_Error | Some (a, v, t) \<Rightarrow> Pool_Stats a v t)"

definition list_leases :: "dhcp_env \<Rightarrow> int \<Rightarrow> string \<Rightarrow> dhcp_db \<Rightarrow> dhcp_resp" where
  "list_leases E now auth_header db =
     (case guard E auth_header ''dhcp:admin'' of
        Some r \<Rightarrow> r
      | None \<Rightarrow> stats_answer (get_pool_stats E now 1 db))"

definition health :: "dhcp_env \<Rightarrow> int \<Rightarrow> dhcp_db \<Rightarrow> dhcp_resp" where
  "health E now db = stats_answer (get_pool_stats E now 1 db)"


section \<open>What a query promises\<close>

locale query_order =
  fixes ord :: "'a list \<Rightarrow> 'a list"
  assumes same_rows: "mset (ord xs) = mset xs"
begin

lemma set_ord: "set (ord xs) = set xs"
  using same_rows by (metis set_mset_mset)

lemma length_ord: "length (ord xs) = length xs"
  using same_rows by (metis size_mset)

lemma first_None: "first (ord xs) = None \<longleftrightarrow> xs = []"
  using set_ord [of xs] by (cases "ord xs") (auto simp: first_def)

lemma first_Some: "first (ord xs) = Some x \<Longrightarrow> x \<in> set xs"
  using set_ord [of xs] by (cases "ord xs") (auto simp: first_def)

end

text \<open>Rows in insertion order, as the default SQLite database returns them.\<close>

interpretation insertion_order: query_order "\<lambda>xs. xs"
  by unfold_locales simp

lemma select_None:
  "query_order (de_order E) \<Longrightarrow> first (select_leases E P db) = None \<longleftrightarrow> (\<forall>r\<in>set (leases db). \<not> P r)"
  by (simp add: select_leases_def query_order.first_None filter_empty_conv)

lemma select_Some:
  "\<lbrakk> query_order (de_order E); first (select_leases E P db) = Some r \<rbrakk> \<Longrightarrow> r \<in> set (leases db) \<and> P r"
  using query_order.first_Some [of "de_order E" "filter P (leases db)" r] by (auto simp: select_leases_def)

lemma in_range_iff:
  "is_in_range cfg ip \<longleftrightarrow> (\<exists>i s e. ipv4_parse (POOL_START cfg) = Some s \<and> ipv4_parse (POOL_END cfg) = Some e \<and>
     s \<le> i \<and> i \<le> e \<and> ipv4_of ip = Some i)"
  by (auto simp: is_in_range_def split: option.splits)

lemma find_free_ip_Some:
  assumes "query_order (de_order E)" "find_free_ip E pool_id db = Some (Some ip)"
  shows "is_in_range (de_cfg E) (JStr ip) \<and> (\<forall>r\<in>set (leases db). \<not> active_on pool_id ip r)"
proof -
  from assms(2) obtain s e where se: "ipv4_parse (POOL_START (de_cfg E)) = Some s"
    "ipv4_parse (POOL_END (de_cfg E)) = Some e"
    and f: "find (\<lambda>ip. first (select_leases E (active_on pool_id ip) db) = None) (map ipv4_str [s..<e + 1]) = Some ip"
    by (auto simp: find_free_ip_def split: option.splits)
  from find_SomeD [OF f]
  have "first (select_leases E (active_on pool_id ip) db) = None" "ip \<in> set (map ipv4_str [s..<e + 1])"
    by simp_all
  moreover have "e < 2 ^ 32" using se(2) by (rule ipv4_parse_bound)
  ultimately obtain i where "s \<le> i" "i \<le> e" "i < 2 ^ 32" "ip = ipv4_str i" by (auto simp del: upt_Suc)
  then have "is_in_range (de_cfg E) (JStr ip)" using se by (auto simp: in_range_iff ipv4_of_def simp del: upt_Suc)
  moreover have "\<forall>r\<in>set (leases db). \<not> active_on pool_id ip r"
    using \<open>first (select_leases E (active_on pool_id ip) db) = None\<close>
      select_None [OF assms(1), of "active_on pool_id ip" db] by simp
  ultimately show ?thesis ..
qed

lemma find_free_ip_None:
  assumes "query_order (de_order E)" "find_free_ip E pool_id db = Some None" "is_in_range (de_cfg E) (JStr ip)"
  shows "\<exists>r\<in>set (leases db). active_on pool_id ip r"
proof -
  from assms(3) obtain i s e where se: "ipv4_parse (POOL_START (de_cfg E)) = Some s"
    "ipv4_parse (POOL_END (de_cfg E)) = Some e" "s \<le> i" "i \<le> e" "ip = ipv4_str i"
    unfolding in_range_iff using ipv4_parse_iff by (auto simp: ipv4_of_def)
  then have "find (\<lambda>ip. first (select_leases E (active_on pool_id ip) db) = None) (map ipv4_str [s..<e + 1]) = None"
    using assms(2) by (simp add: find_free_ip_def)
  from find_NoneD [OF this, of ip] have "first (select_leases E (active_on pool_id ip) db) \<noteq> None"
    using se by (auto simp del: upt_Suc)
  then show ?thesis using select_None [OF assms(1), of "active_on pool_id ip" db] by auto
qed

lemma update_leases_simps [simp]:
  "leases (update_leases P f db) = map (\<lambda>r. if P r then f r else r) (leases db)"
  "pools (update_leases P f db) = pools db" "reservations (update_leases P f db) = reservations db"
  by (simp_all add: update_leases_def)

text \<open>Where the rows of the table come from after a lease was created or renewed.\<close>

lemma create_lease_rows:
  assumes "query_order (de_order E)" "create_lease E now pool_id mac v hostname db = (res, db')" "ip_column E v = Some ip"
  shows "\<exists>r\<in>set (leases db'). lease_of pool_id mac r \<and> active_on pool_id ip r \<and>
      l_end r = now + LEASE_TIME (de_cfg E) * 1000000"
    and "r \<in> set (leases db') \<Longrightarrow> lease_of pool_id mac r \<and> active_on pool_id ip r \<or>
      r \<in> set (leases db) \<and> \<not> lease_of pool_id mac r"
    and "r \<in> set (leases db) \<Longrightarrow> \<not> lease_of pool_id mac r \<Longrightarrow> r \<in> set (leases db')"
proof -
  let ?own = "first (select_leases E (lease_of pool_id mac) db)"
  let ?upd = "\<lambda>r. r\<lparr> l_ip := ip, l_hostname := hostname, l_start := now,
      l_end := now + LEASE_TIME (de_cfg E) * 1000000, l_status := ''active'' \<rparr>"
  consider (renew) r0 where "?own = Some r0" "db' = update_leases (lease_of pool_id mac) ?upd db"
    | (new) n where "?own = None" "leases db' = leases db @ [n]" "lease_of pool_id mac n" "active_on pool_id ip n"
        "l_end n = now + LEASE_TIME (de_cfg E) * 1000000"
    using assms(2,3) by (cases ?own) (auto simp: create_lease_def Let_def split: option.splits)
  note cs = this
  show "\<exists>r\<in>set (leases db'). lease_of pool_id mac r \<and> active_on pool_id ip r \<and>
      l_end r = now + LEASE_TIME (de_cfg E) * 1000000"
    using cs
  proof cases
    case renew
    with select_Some [OF assms(1) renew(1)] have "r0 \<in> set (leases db)" "lease_of pool_id mac r0" by simp_all
    then have "?upd r0 \<in> set (leases db')" using renew(2) by (auto intro!: image_eqI [of _ _ r0])
    then show ?thesis using \<open>lease_of pool_id mac r0\<close> by (intro bexI [of _ "?upd r0"]) simp_all
  qed auto
  show "r \<in> set (leases db') \<Longrightarrow> lease_of pool_id mac r \<and> active_on pool_id ip r \<or>
      r \<in> set (leases db) \<and> \<not> lease_of pool_id mac r"
    using cs
  proof cases
    case new
    then show "r \<in> set (leases db') \<Longrightarrow> lease_of pool_id mac r \<and> active_on pool_id ip r \<or>
      r \<in> set (leases db) \<and> \<not> lease_of pool_id mac r"
      using select_None [OF assms(1), of "lease_of pool_id mac" db] by auto
  qed (auto split: if_splits)
  show "r \<in> set (leases db) \<Longrightarrow> \<not> lease_of pool_id mac r \<Longrightarrow> r \<in> set (leases db')"
    using cs by cases (auto intro!: image_eqI [of _ _ r])
qed

text \<open>A request that is acknowledged or changes the table passed every check and reached the lease.\<close>

lemma dhcp_request_leased:
  assumes "dhcp_request E now now2 auth (JObj data) db = (resp, db')" "(\<exists>lease. resp = Ack lease) \<or> db' \<noteq> db"
  obtains mac hostname res where "json_get data ''mac_address'' = JStr mac"
    "validate_requested_ip E now 1 mac (json_get data ''requested_ip'') db = Some None"
    "create_lease E now2 1 mac (json_get data ''requested_ip'') hostname db = (res, db')"
    "\<And>lease. resp = Ack lease \<Longrightarrow> res = Some lease"
proof -
  note def = dhcp_request_def Let_def with_body_def
  have g: "guard E auth ''dhcp:read'' = None"
    using assms by (cases "guard E auth ''dhcp:read''")
      (auto simp: def guard_def jwt_error_response_def split: if_splits option.splits prod.splits)
  have v: "is_mac_value (json_get data ''mac_address'')" using assms g by (auto simp: def split: if_splits)
  then obtain mac where m: "json_get data ''mac_address'' = JStr mac" by (auto simp: is_mac_value_def split: json.splits)
  have w: "validate_requested_ip E now 1 mac (json_get data ''requested_ip'') db = Some None"
    using assms g m by (auto simp: def split: if_splits option.splits)
  then obtain hostname res where "create_lease E now2 1 mac (json_get data ''requested_ip'') hostname db = (res, db')"
    "\<And>lease. resp = Ack lease \<Longrightarrow> res = Some lease"
    using assms g m by (auto simp: def split: if_splits option.splits prod.splits)
  with that m w show ?thesis by blast
qed

section \<open>Properties\<close>

text \<open>
  An offer is justified and a refusal means the pool is full: the address offered is the client's
  own unexpired lease, the client's reservation, or an address of the pool range that no lease row
  holds; no address is offered only when the client has no reservation and every address of the range is
  held by an active row. (A malformed pool bound raises instead.)
\<close>

theorem get_offer_sound_complete:
  assumes "query_order (de_order E)" "query_order (de_res_order E)"
    and "get_offer E now pool_id mac requested db = Some offer"
  shows "case offer of
      Some v \<Rightarrow>
        (\<exists>r\<in>set (leases db). lease_of pool_id mac r \<and> l_status r = ''active'' \<and> \<not> is_expired now r \<and> v = JStr (l_ip r)) \<or>
        (\<exists>w\<in>set (reservations db). rv_mac w = mac \<and> rv_pool_id w = pool_id \<and> v = JStr (rv_ip w)) \<or>
        is_in_range (de_cfg E) v \<and> (\<exists>ip. ip_column E v = Some ip \<and> (\<forall>r\<in>set (leases db). \<not> active_on pool_id ip r))
    | None \<Rightarrow>
        (\<forall>v\<in>set (reservations db). \<not> (rv_mac v = mac \<and> rv_pool_id v = pool_id)) \<and>
        (\<forall>ip. is_in_range (de_cfg E) (JStr ip) \<longrightarrow> (\<exists>r\<in>set (leases db). active_on pool_id ip r))"
proof -
  let ?own = "first (select_leases E (\<lambda>r. lease_of pool_id mac r \<and> l_status r = ''active'') db)"
  let ?res = "first (de_res_order E (filter (\<lambda>r. rv_mac r = mac \<and> rv_pool_id r = pool_id) (reservations db)))"
  consider (own) r where "?own = Some r" "\<not> is_expired now r" "offer = Some (JStr (l_ip r))"
    | (res) v where "?res = Some v" "offer = Some (JStr (rv_ip v))"
    | (req) ip where "is_in_range (de_cfg E) requested" "ip_column E requested = Some ip"
        "first (select_leases E (active_on pool_id ip) db) = None" "offer = Some requested"
    | (free) found where "?res = None" "find_free_ip E pool_id db = Some found" "offer = map_option JStr found"
  proof (cases "?own \<noteq> None \<and> \<not> is_expired now (the ?own)")
    case True
    then show thesis using assms(3) own by (auto simp: get_offer_def Let_def)
  next
    case f: False
    note g = assms(3) [unfolded get_offer_def Let_def, unfolded if_not_P [OF f]]
    show thesis
    proof (cases ?res)
      case None
      show thesis using g req free None by (auto split: if_splits option.splits)
    qed (use g res in simp)
  qed
  then show ?thesis
  proof cases
    case own
    then show ?thesis using select_Some [OF assms(1) own(1)] by auto
  next
    case res
    then show ?thesis using query_order.first_Some [OF assms(2) res(1)] by auto
  next
    case req
    then show ?thesis using select_None [OF assms(1)] by auto
  next
    case free
    have "\<forall>v\<in>set (reservations db). \<not> (rv_mac v = mac \<and> rv_pool_id v = pool_id)"
      using free(1) query_order.first_None [OF assms(2)] by (simp add: filter_empty_conv)
    with free(2,3) show ?thesis
      using find_free_ip_Some [OF assms(1)] find_free_ip_None [OF assms(1)]
      by (cases found) (auto simp: ip_column_def)
  qed
qed


section \<open>A concrete server for the witnesses\<close>

definition demo_dhcp :: dhcp_env where
  "demo_dhcp = \<lparr> de_cfg = \<lparr> POOL_START = ''0.0.0.10'', POOL_END = ''0.0.0.11'', GATEWAY = ''0.0.0.1'',
                            DNS_SERVERS = [''8.8.8.8''], LEASE_TIME = 1, jwt_secret_set = True \<rparr>,
     de_jwt = demo_jwt, de_jwt_cfg = demo_cfg, de_public_key = Some ''PEM2'', de_public_keys = [],
     de_feature_enabled = True, de_order = (\<lambda>xs. xs), de_res_order = (\<lambda>xs. xs),
     de_number_text = (\<lambda>n. Some (dec (nat n))) \<rparr>"

definition demo_db :: dhcp_db where
  "demo_db = \<lparr> leases = [], reservations = [],
     pools = [\<lparr> pl_id = 1, pl_gateway = None, pl_dns_servers = None, pl_subnet_mask = Some None,
                pl_lease_duration = 1 \<rparr>], next_lease_id = 1 \<rparr>"

definition demo_body :: "string \<Rightarrow> json \<Rightarrow> json" where
  "demo_body mac ip = JObj [(''mac_address'', JStr mac), (''requested_ip'', ip)]"

abbreviation mac_a :: string where "mac_a \<equiv> ''aa:00:00:00:00:0a''"
abbreviation mac_b :: string where "mac_b \<equiv> ''bb:00:00:00:00:0b''"
abbreviation mac_c :: string where "mac_c \<equiv> ''cc:00:00:00:00:0c''"

definition ack_of :: "dhcp_env \<Rightarrow> int \<Rightarrow> string \<Rightarrow> string \<Rightarrow> dhcp_db \<Rightarrow> dhcp_db" where
  "ack_of E now mac ip db = snd (dhcp_request E now now ''Bearer tok-2'' (demo_body mac (JStr ip)) db)"

lemma demo_orders: "query_order (de_order demo_dhcp)" "query_order (de_res_order demo_dhcp)"
  by (simp_all add: demo_dhcp_def insertion_order.query_order_axioms)

theorem get_offer_sound_complete_witness:
  "get_offer demo_dhcp 5 1 mac_b JNull (ack_of demo_dhcp 0 mac_a ''0.0.0.10'' demo_db) = Some (Some (JStr ''0.0.0.11'')) \<and>
   list_all (\<lambda>r. \<not> active_on 1 ''0.0.0.11'' r) (leases (ack_of demo_dhcp 0 mac_a ''0.0.0.10'' demo_db))"
proof -
  let ?db = "ack_of demo_dhcp 0 mac_a ''0.0.0.10'' demo_db"
  have g: "get_offer demo_dhcp 5 1 mac_b JNull ?db = Some (Some (JStr ''0.0.0.11''))" by code_simp
  have n: "list_all (\<lambda>r. \<not> lease_of 1 mac_b r) (leases ?db)" "reservations ?db = []" by code_simp+
  from get_offer_sound_complete [OF demo_orders g] g n show ?thesis by (auto simp: list_all_iff ip_column_def)
qed

text \<open>
  C35. In a swept table no lease is taken over by its text: when no active row of the pool has expired and the address is
  requested as a text, a request that is acknowledged, or changes the table although its reply fails, leaves every active
  row for that text in the hands of the requesting client, the address lies in the pool range, and the client holds it for
  the configured time.
\<close>

theorem request_exclusive_when_swept:
  assumes "query_order (de_order E)" "dhcp_request E now now2 auth (JObj data) db = (resp, db')"
    and "(\<exists>lease. resp = Ack lease) \<or> db' \<noteq> db" "json_get data ''requested_ip'' = JStr ip"
    and "\<forall>r\<in>set (leases db). l_pool_id r = 1 \<and> l_status r = ''active'' \<longrightarrow> \<not> is_expired now r"
  shows "\<exists>mac. json_get data ''mac_address'' = JStr mac \<and> is_in_range (de_cfg E) (JStr ip) \<and>
    (\<forall>r\<in>set (leases db'). active_on 1 ip r \<longrightarrow> l_mac r = mac) \<and>
    (\<exists>r\<in>set (leases db'). active_on 1 ip r \<and> l_mac r = mac \<and>
       l_end r = now2 + LEASE_TIME (de_cfg E) * 1000000)"
proof -
  from assms(2,3) obtain mac h res where m: "json_get data ''mac_address'' = JStr mac"
    and v: "validate_requested_ip E now 1 mac (JStr ip) db = Some None"
    and c: "create_lease E now2 1 mac (JStr ip) h db = (res, db')"
    by (rule dhcp_request_leased) (simp_all add: assms(4))
  have ic: "ip_column E (JStr ip) = Some ip" by (simp add: ip_column_def)
  let ?conflict = "\<lambda>r. active_on 1 ip r \<and> l_mac r \<noteq> mac"
  have "is_in_range (de_cfg E) (JStr ip)" using v by (auto simp: validate_requested_ip_def split: if_splits)
  moreover have "first (select_leases E ?conflict db) = None"
  proof (cases "first (select_leases E ?conflict db)")
    case (Some r)
    with select_Some [OF assms(1) Some] assms(5) have "\<not> is_expired now r" by simp
    with v Some ic show ?thesis by (auto simp: validate_requested_ip_def split: if_splits)
  qed
  then have "\<forall>r\<in>set (leases db). \<not> ?conflict r" using select_None [OF assms(1), of ?conflict db] by simp
  then have "\<forall>r\<in>set (leases db'). active_on 1 ip r \<longrightarrow> l_mac r = mac"
    using create_lease_rows(2) [OF assms(1) c ic] by blast
  ultimately show ?thesis using create_lease_rows(1) [OF assms(1) c ic] m by blast
qed

theorem request_exclusive_when_swept_witness:
  "\<exists>resp db'. dhcp_request demo_dhcp 5 6 ''Bearer tok-2'' (demo_body mac_b (JStr ''0.0.0.11''))
       (ack_of demo_dhcp 0 mac_a ''0.0.0.10'' demo_db) = (resp, db') \<and>
     list_all (\<lambda>r. active_on 1 ''0.0.0.11'' r \<longrightarrow> l_mac r = mac_b) (leases db') \<and>
     list_ex (\<lambda>r. active_on 1 ''0.0.0.11'' r \<and> l_end r = 1000006) (leases db')"
proof -
  let ?db = "ack_of demo_dhcp 0 mac_a ''0.0.0.10'' demo_db"
  let ?data = "[(''mac_address'', JStr mac_b), (''requested_ip'', JStr ''0.0.0.11'')]"
  let ?r = "dhcp_request demo_dhcp 5 6 ''Bearer tok-2'' (JObj ?data) ?db"
  have "(case fst ?r of Ack _ \<Rightarrow> True | _ \<Rightarrow> False)" by code_simp
  then obtain lease db' where r: "?r = (Ack lease, db')" by (cases ?r) (auto split: dhcp_resp.splits)
  have "list_all (\<lambda>r. l_pool_id r = 1 \<and> l_status r = ''active'' \<longrightarrow> \<not> is_expired 5 r) (leases ?db)" by code_simp
  then have s: "\<forall>r\<in>set (leases ?db). l_pool_id r = 1 \<and> l_status r = ''active'' \<longrightarrow> \<not> is_expired 5 r"
    unfolding list_all_iff .
  have d: "json_get ?data ''requested_ip'' = JStr ''0.0.0.11''" "json_get ?data ''mac_address'' = JStr mac_b"
    "LEASE_TIME (de_cfg demo_dhcp) = 1" by code_simp+
  from request_exclusive_when_swept [OF demo_orders(1) r _ d(1) s] d(2,3) r show ?thesis
    by (auto simp: list_all_iff list_ex_iff demo_body_def)
qed

text \<open>
  The check compares texts, and \<^verbatim>\<open>IPv4Address\<close> accepts a number: in a swept table a client that sends an address as a
  JSON number gets a lease for it although another client holds the address, because no row has the numeral as its text.
\<close>

theorem numeric_request_takes_leased_address:
  assumes "query_order (de_order E)" "guard E auth ''dhcp:read'' = None" "is_valid_mac mac"
    and "ipv4_parse ip = Some n" "0 < n" "is_in_range (de_cfg E) (JStr ip)" "de_number_text E (int n) = Some digits"
    and "live \<in> set (leases db)" "active_on 1 ip live" "l_mac live \<noteq> mac" "\<forall>r\<in>set (leases db). l_ip r \<noteq> digits"
    and "\<exists>pool subnet. first (filter (\<lambda>p. pl_id p = 1) (pools db)) = Some pool \<and> pl_subnet_mask pool = Some subnet"
  shows "\<exists>lease db'. dhcp_request E now now2 auth (JObj [(''mac_address'', JStr mac), (''requested_ip'', JInt (int n))]) db
      = (Ack lease, db') \<and> ipv4_of (dl_ip lease) = ipv4_parse ip \<and> dl_mac lease = mac \<and> live \<in> set (leases db')"
proof -
  let ?v = "JInt (int n)"
  have b: "n < 2 ^ 32" using ipv4_parse_bound [OF assms(4)] .
  then have v: "ipv4_of ?v = Some n" by (simp add: ipv4_of_def)
  have rng: "is_in_range (de_cfg E) ?v" using assms(4,6) v by (auto simp: is_in_range_def ipv4_of_def split: option.splits)
  have ic: "ip_column E ?v = Some digits" using assms(7) by (simp add: ip_column_def)
  have me: "mac \<noteq> []" using assms(3) by (auto simp: is_valid_mac_def)
  have "first (select_leases E (\<lambda>r. active_on 1 digits r \<and> l_mac r \<noteq> mac) db) = None"
    using select_None [OF assms(1)] assms(11) by blast
  then have val: "validate_requested_ip E now 1 mac ?v db = Some None"
    using v rng ic by (simp add: validate_requested_ip_def)
  obtain res db' where c: "create_lease E now2 1 mac ?v None db = (res, db')" by fastforce
  from assms(12) obtain pool subnet where p: "first (filter (\<lambda>p. pl_id p = 1) (pools db)) = Some pool"
    "pl_subnet_mask pool = Some subnet" by blast
  have "\<exists>lease. res = Some lease \<and> dl_ip lease = ?v \<and> dl_mac lease = mac"
    using c p ic by (auto simp: create_lease_def lease_details_def Let_def update_leases_def split: option.splits)
  then obtain lease where l: "res = Some lease" "dl_ip lease = ?v" "dl_mac lease = mac" by blast
  have "dhcp_request E now now2 auth (JObj [(''mac_address'', JStr mac), (''requested_ip'', ?v)]) db = (Ack lease, db')"
    using assms(2,3,5) val c l(1) me
    by (simp add: dhcp_request_def with_body_def Let_def json_get_def is_mac_value_def sanitize_hostname_value_def)
  moreover have "live \<in> set (leases db')" using create_lease_rows(3) [OF assms(1) c ic assms(8)] assms(10) by blast
  ultimately show ?thesis using l v assms(4) by auto
qed

theorem numeric_request_takes_leased_address_witness:
  "\<exists>lease db'. dhcp_request demo_dhcp 5 6 ''Bearer tok-2'' (JObj [(''mac_address'', JStr mac_b), (''requested_ip'', JInt 10)])
       (ack_of demo_dhcp 0 mac_a ''0.0.0.10'' demo_db) = (Ack lease, db') \<and> ipv4_of (dl_ip lease) = ipv4_parse ''0.0.0.10''"
proof -
  let ?db = "ack_of demo_dhcp 0 mac_a ''0.0.0.10'' demo_db"
  have a: "guard demo_dhcp ''Bearer tok-2'' ''dhcp:read'' = None" "is_valid_mac mac_b" "ipv4_parse ''0.0.0.10'' = Some 10"
    "is_in_range (de_cfg demo_dhcp) (JStr ''0.0.0.10'')" "de_number_text demo_dhcp (int 10) = Some ''10''"
    "leases ?db \<noteq> []" "active_on 1 ''0.0.0.10'' (hd (leases ?db))" "l_mac (hd (leases ?db)) \<noteq> mac_b"
    "list_all (\<lambda>r. l_ip r \<noteq> ''10'') (leases ?db)" "first (filter (\<lambda>p. pl_id p = 1) (pools ?db)) = Some (hd (pools demo_db))"
    "pl_subnet_mask (hd (pools demo_db)) = Some None"
    by code_simp+
  have "hd (leases ?db) \<in> set (leases ?db)" "\<forall>r\<in>set (leases ?db). l_ip r \<noteq> ''10''"
    "\<exists>pool subnet. first (filter (\<lambda>p. pl_id p = 1) (pools ?db)) = Some pool \<and> pl_subnet_mask pool = Some subnet"
    using a(6,9,10,11) by (auto simp: list_all_iff)
  from numeric_request_takes_leased_address [OF demo_orders(1) a(1,2,3) _ a(4,5) this(1) a(7,8) this(2,3), of 5 6]
  show ?thesis by auto
qed

text \<open>
  Between two sweeps a lease can be taken over: the conflict check looks at one row only, and when
  that row is an expired one still marked active, a request for the address is acknowledged although
  another client holds an unexpired lease on it; both then hold the address.
\<close>

theorem stale_row_hides_live_lease:
  assumes "query_order (de_order E)" "guard E auth ''dhcp:read'' = None" "is_valid_mac mac" "is_in_range (de_cfg E) (JStr ip)"
    and "first (select_leases E (\<lambda>r. active_on 1 ip r \<and> l_mac r \<noteq> mac) db) = Some stale" "is_expired now stale"
    and "live \<in> set (leases db)" "active_on 1 ip live" "l_mac live \<noteq> mac" "\<not> is_expired now live"
    and "body = JObj [(''mac_address'', JStr mac), (''requested_ip'', JStr ip)]"
    and "0 \<le> LEASE_TIME (de_cfg E)"
  shows "\<exists>resp db' r. dhcp_request E now now auth body db = (resp, db') \<and> live \<in> set (leases db') \<and>
    r \<in> set (leases db') \<and> active_on 1 ip r \<and> l_mac r = mac \<and> \<not> is_expired now r"
proof -
  have p: "ipv4_parse ip \<noteq> None" using assms(4) by (auto simp: is_in_range_def ipv4_of_def split: option.splits)
  have ic: "ip_column E (JStr ip) = Some ip" by (simp add: ip_column_def)
  from p have ne: "ip \<noteq> []" by (auto simp: ipv4_parse_def labels_def)
  have me: "mac \<noteq> []" using assms(3) by (auto simp: is_valid_mac_def)
  have v: "validate_requested_ip E now 1 mac (JStr ip) db = Some None"
    using p ic assms(4-6) by (simp add: validate_requested_ip_def ipv4_of_def)
  obtain res db' where c: "create_lease E now 1 mac (JStr ip) None db = (res, db')" by fastforce
  have d: "\<exists>resp. dhcp_request E now now auth body db = (resp, db')"
    using assms(2,3,11) v c ne me
    by (simp add: dhcp_request_def with_body_def Let_def json_get_def is_mac_value_def sanitize_hostname_value_def split: option.splits)
  have "live \<in> set (leases db')" using create_lease_rows(3) [OF assms(1) c ic assms(7)] assms(9) by blast
  moreover obtain r where "r \<in> set (leases db')" "active_on 1 ip r" "l_mac r = mac"
    "l_end r = now + LEASE_TIME (de_cfg E) * 1000000"
    using create_lease_rows(1) [OF assms(1) c ic] by blast
  moreover from this(4) assms(12) have "\<not> is_expired now r" by (simp add: is_expired_def)
  ultimately show ?thesis using d by blast
qed


theorem stale_row_hides_live_lease_witness:
  "\<exists>resp db' live r. dhcp_request demo_dhcp 2500000 2500000 ''Bearer tok-2'' (demo_body mac_c (JStr ''0.0.0.10''))
       (ack_of demo_dhcp 2000000 mac_b ''0.0.0.10'' (ack_of demo_dhcp 0 mac_a ''0.0.0.10'' demo_db)) = (resp, db') \<and>
     live \<in> set (leases db') \<and> active_on 1 ''0.0.0.10'' live \<and> l_mac live = mac_b \<and> \<not> is_expired 2500000 live \<and>
     r \<in> set (leases db') \<and> active_on 1 ''0.0.0.10'' r \<and> l_mac r = mac_c \<and> \<not> is_expired 2500000 r"
proof -
  let ?db = "ack_of demo_dhcp 2000000 mac_b ''0.0.0.10'' (ack_of demo_dhcp 0 mac_a ''0.0.0.10'' demo_db)"
  let ?stale = "\<lparr> l_id = 1, l_pool_id = 1, l_mac = mac_a, l_ip = ''0.0.0.10'', l_hostname = None, l_start = 0,
                   l_end = 1000000, l_status = ''active'' \<rparr>"
  let ?live = "\<lparr> l_id = 2, l_pool_id = 1, l_mac = mac_b, l_ip = ''0.0.0.10'', l_hostname = None, l_start = 2000000,
                   l_end = 3000000, l_status = ''active'' \<rparr>"
  have l: "leases ?db = [?stale, ?live]" by code_simp
  have f: "first (select_leases demo_dhcp (\<lambda>r. active_on 1 ''0.0.0.10'' r \<and> l_mac r \<noteq> mac_c) ?db) = Some ?stale"
    by code_simp
  have g: "guard demo_dhcp ''Bearer tok-2'' ''dhcp:read'' = None" "is_valid_mac mac_c"
    "is_in_range (de_cfg demo_dhcp) (JStr ''0.0.0.10'')" "0 \<le> LEASE_TIME (de_cfg demo_dhcp)"
    by code_simp+
  have e: "is_expired 2500000 ?stale" "\<not> is_expired 2500000 ?live" by (simp_all add: is_expired_def)
  have "\<exists>resp db' r. dhcp_request demo_dhcp 2500000 2500000 ''Bearer tok-2'' (demo_body mac_c (JStr ''0.0.0.10'')) ?db = (resp, db') \<and>
      ?live \<in> set (leases db') \<and> r \<in> set (leases db') \<and> active_on 1 ''0.0.0.10'' r \<and> l_mac r = mac_c \<and>
      \<not> is_expired 2500000 r" (is "\<exists>resp db' r. ?Q resp db' r")
    by (rule stale_row_hides_live_lease [OF demo_orders(1) g(1-3) f e(1) _ _ _ e(2) _ g(4)])
      (simp_all add: l demo_body_def)
  then obtain resp db' r where "?Q resp db' r" by blast
  with e(2) show ?thesis by (intro exI [of _ resp] exI [of _ db'] exI [of _ ?live] exI [of _ r]) simp
qed

text \<open>
  The sweep does what the exclusiveness above needs: afterwards no active row of the pool ended
  before the sweep, rows are changed only from active and ended to expired, and the number reported is
  the number changed.
\<close>

theorem expire_old_leases_sweeps:
  assumes "query_order (de_order E)" "expire_old_leases E now pool_id db = (n, db')"
  shows "(\<forall>r\<in>set (leases db'). l_pool_id r = pool_id \<and> l_status r = ''active'' \<longrightarrow> \<not> l_end r < now) \<and>
    leases db' = map (\<lambda>r. if l_pool_id r = pool_id \<and> l_status r = ''active'' \<and> l_end r < now
                         then r\<lparr> l_status := ''expired'' \<rparr> else r) (leases db) \<and>
    n = length (filter (\<lambda>r. l_pool_id r = pool_id \<and> l_status r = ''active'' \<and> l_end r < now) (leases db))"
proof -
  let ?P = "\<lambda>r. l_pool_id r = pool_id \<and> l_status r = ''active'' \<and> l_end r < now"
  have n: "n = length (filter ?P (leases db))"
    using assms by (auto simp: expire_old_leases_def select_leases_def query_order.length_ord Let_def)
  have m: "leases db' = map (\<lambda>r. if ?P r then r\<lparr> l_status := ''expired'' \<rparr> else r) (leases db)"
  proof (cases "n = 0")
    case True
    then have "\<forall>r\<in>set (leases db). \<not> ?P r" using n by (simp add: filter_empty_conv)
    moreover have "db' = db" using assms(2) True by (auto simp: expire_old_leases_def Let_def)
    ultimately show ?thesis by (simp add: map_idI)
  qed (use assms(2) in \<open>auto simp: expire_old_leases_def Let_def\<close>)
  have "\<not> ?P r'" if h: "r' \<in> set (leases db')" for r'
  proof -
    from h m obtain r where "r' = (if ?P r then r\<lparr> l_status := ''expired'' \<rparr> else r)"
      unfolding m set_map by (elim imageE)
    then show ?thesis by (cases "?P r") simp_all
  qed
  with n m show ?thesis by blast
qed

theorem expire_old_leases_sweeps_witness:
  "\<exists>db'. expire_old_leases demo_dhcp 2000000 1 (ack_of demo_dhcp 0 mac_a ''0.0.0.10'' demo_db) = (1, db') \<and>
     list_all (\<lambda>r. \<not> (l_pool_id r = 1 \<and> l_status r = ''active'' \<and> l_end r < 2000000)) (leases db')"
proof -
  let ?e = "expire_old_leases demo_dhcp 2000000 1 (ack_of demo_dhcp 0 mac_a ''0.0.0.10'' demo_db)"
  have "fst ?e = 1" by code_simp
  then have e: "?e = (1, snd ?e)" by (simp add: prod_eq_iff)
  from expire_old_leases_sweeps [OF demo_orders(1) e]
  have "list_all (\<lambda>r. \<not> (l_pool_id r = 1 \<and> l_status r = ''active'' \<and> l_end r < 2000000)) (leases (snd ?e))"
    unfolding list_all_iff by blast
  with e show ?thesis by blast
qed


text \<open>
  Only an authorised call with the feature enabled is acknowledged, releases anything or changes the
  tables: otherwise the handlers for requests and releases leave the database as it was.
\<close>

theorem dhcp_writes_need_authorisation:
  assumes "\<not> de_feature_enabled E \<or>
    (\<forall>p. check_auth (de_jwt E) (de_jwt_cfg E) (de_public_key E) (de_public_keys E) auth ''dhcp:read'' \<noteq> Some (200, p))"
  shows "snd (dhcp_request E now now2 auth body db) = db \<and> snd (dhcp_release E auth body db) = db \<and>
    snd (dhcp_config E now auth mac db) = db \<and> snd (get_lease_handler E now auth m db) = db \<and>
    (\<forall>lease. fst (dhcp_request E now now2 auth body db) \<noteq> Ack lease) \<and>
    (\<forall>ok. fst (dhcp_release E auth body db) \<noteq> Released ok) \<and>
    (\<forall>ip. dhcp_discover E now auth body db \<noteq> Offer ip)"
proof -
  let ?c = "check_auth (de_jwt E) (de_jwt_cfg E) (de_public_key E) (de_public_keys E) auth ''dhcp:read''"
  obtain r where r: "guard E auth ''dhcp:read'' = Some r"
    and e: "r = Server_Error \<or> (\<exists>n msg. r = Http_Error n msg)"
  proof (cases "de_feature_enabled E")
    case True
    with assms have "\<And>p. ?c \<noteq> Some (200, p)" by simp
    then have "?c = None \<or> (\<exists>n p. ?c = Some (n, p) \<and> n \<noteq> 200)" by (cases ?c) auto
    then have "\<exists>r. guard E auth ''dhcp:read'' = Some r \<and> (r = Server_Error \<or> (\<exists>n msg. r = Http_Error n msg))"
      using True by (auto simp: guard_def jwt_error_response_def)
    with that show thesis by blast
  qed (use that in \<open>simp add: guard_def\<close>)
  from e show ?thesis
    by (auto simp: dhcp_request_def dhcp_release_def dhcp_config_def get_lease_handler_def dhcp_discover_def r)
qed

theorem dhcp_writes_need_authorisation_witness:
  "snd (dhcp_request demo_dhcp 0 0 ''Bearer forged'' (demo_body mac_a (JStr ''0.0.0.10'')) demo_db) = demo_db"
proof -
  have "check_auth (de_jwt demo_dhcp) (de_jwt_cfg demo_dhcp) (de_public_key demo_dhcp) (de_public_keys demo_dhcp)
      ''Bearer forged'' ''dhcp:read'' = Some (401, None)" by code_simp
  then show ?thesis using dhcp_writes_need_authorisation [of demo_dhcp "''Bearer forged''"] by simp
qed

text \<open>
  A released lease is still reported as the client's current lease: after a release, the lookup
  behind \<^verbatim>\<open>/dhcp/config\<close> and \<^verbatim>\<open>/dhcp/lease\<close> returns a lease with status \<^verbatim>\<open>released\<close> until its time is up.
\<close>

theorem released_lease_still_reported:
  assumes "query_order (de_order E)" "release_lease E pool_id mac db = (True, db')"
    and "\<forall>r\<in>set (leases db). lease_of pool_id mac r \<longrightarrow> \<not> is_expired now r"
    and "first (filter (\<lambda>p. pl_id p = pool_id) (pools db)) = Some pool" "pl_subnet_mask pool \<noteq> None"
  shows "\<exists>lease. get_lease E now pool_id mac db' = (Some (Some lease), db') \<and> dl_mac lease = mac \<and>
    dl_status lease = ''released''"
proof -
  let ?f = "\<lambda>r. r\<lparr> l_status := ''released'' \<rparr>"
  obtain r0 where r0: "first (select_leases E (lease_of pool_id mac) db) = Some r0"
    and db': "db' = update_leases (lease_of pool_id mac) ?f db"
    using assms(2) by (auto simp: release_lease_def split: option.splits)
  have "?f r0 \<in> set (leases db')" "lease_of pool_id mac (?f r0)"
    using select_Some [OF assms(1) r0] by (auto simp: db' intro!: image_eqI [of _ _ r0])
  then obtain r where r: "first (select_leases E (lease_of pool_id mac) db') = Some r"
    using select_None [OF assms(1), of "lease_of pool_id mac" db'] by fastforce
  from select_Some [OF assms(1) r] obtain r1 where "r1 \<in> set (leases db)"
    "r = (if lease_of pool_id mac r1 then ?f r1 else r1)" "lease_of pool_id mac r"
    unfolding db' update_leases_simps set_map by (elim conjE imageE) blast
  then have s: "l_status r = ''released''" "l_mac r = mac" "\<not> is_expired now r"
    using assms(3) by (auto simp: is_expired_def split: if_splits)
  have p: "first (filter (\<lambda>p. pl_id p = pool_id) (pools db')) = Some pool" using assms(4) by (simp add: db')
  show ?thesis
    using r s p assms(5) by (auto simp: get_lease_def lease_details_def split: option.splits)
qed

theorem released_lease_still_reported_witness:
  "\<exists>lease db'. get_lease demo_dhcp 5 1 mac_a db' = (Some (Some lease), db') \<and> dl_status lease = ''released'' \<and>
     release_lease demo_dhcp 1 mac_a (ack_of demo_dhcp 0 mac_a ''0.0.0.10'' demo_db) = (True, db')"
proof -
  let ?db = "ack_of demo_dhcp 0 mac_a ''0.0.0.10'' demo_db"
  let ?r = "release_lease demo_dhcp 1 mac_a ?db"
  have "fst ?r" by code_simp
  then have r: "?r = (True, snd ?r)" by (simp add: prod_eq_iff)
  have "list_all (\<lambda>r. lease_of 1 mac_a r \<longrightarrow> \<not> is_expired 5 r) (leases ?db)" by code_simp
  then have e: "\<forall>r\<in>set (leases ?db). lease_of 1 mac_a r \<longrightarrow> \<not> is_expired 5 r" unfolding list_all_iff .
  have p: "first (filter (\<lambda>p. pl_id p = 1) (pools ?db)) = Some (hd (pools demo_db))"
    "pl_subnet_mask (hd (pools demo_db)) \<noteq> None" by code_simp+
  from released_lease_still_reported [OF demo_orders(1) r e p] r show ?thesis by blast
qed

end
