(* ===== verification/Manager_Servers.thy ===== *)
theory Manager_Servers
  imports Manager_Config Manager_Machine Manager_Mfa "HOL-Library.Countable"
begin

text \<open>
  How DNS servers join and authenticate to the Manager: join keys and their service
  (\<^verbatim>\<open>services/join_key_service.py\<close>), per-server tokens (\<^verbatim>\<open>services/auth_service.py\<close>), SPIFFE identities
  (\<^verbatim>\<open>services/spiffe.py\<close>), the decorator of the server routes (\<^verbatim>\<open>middleware/auth.py\<close>), the routes themselves
  (\<^verbatim>\<open>blueprints/dns_servers.py\<close>) and the gRPC service (\<^verbatim>\<open>grpc_server.py\<close>).

  SHA-256, Fernet, HS256 signing and the check of user tokens are parameters. Random keys and secrets are
  arguments. Times are microseconds; a token carries seconds. A server identifier that is no JSON integer
  finds no row. Text is ASCII where digits matter.
\<close>

section \<open>State\<close>

record 'net server_db =
  sv_servers :: "dns_server_row list"
  sv_metrics :: "server_metrics_row list"
  sv_seq :: nat
  sv_zones :: "dns_zone_row list"
  sv_records :: "dns_record_row list"
  sv_ioc :: "'net ioc_mgr"
  sv_tokens :: "dns_token_row list"

text \<open>
  \<open>se_hs_decode now leeway require secret token\<close> is \<^verbatim>\<open>jwt.decode\<close> with HS256; \<open>require\<close> asks for the claims
  \<^verbatim>\<open>exp\<close> and \<^verbatim>\<open>iat\<close>. \<open>se_decrypt\<close> yields \<open>None\<close> where Fernet raises. \<open>se_settings_ok\<close> is whether the
  generated message class takes the settings dict.
\<close>

record server_env =
  se_sha256 :: "string \<Rightarrow> string"
  se_encrypt :: "string \<Rightarrow> string"
  se_decrypt :: "string \<Rightarrow> string option"
  se_encode :: "claims \<Rightarrow> string \<Rightarrow> string"
  se_unverified :: "string \<Rightarrow> claims option"
  se_hs_decode :: "int \<Rightarrow> int \<Rightarrow> bool \<Rightarrow> string \<Rightarrow> string \<Rightarrow> claims option"
  se_user_decode :: "int \<Rightarrow> string \<Rightarrow> claims option"
  se_spiffe_enabled :: bool
  se_trust_domain :: string
  se_hash :: "string \<Rightarrow> int"
  se_latest :: "mgr_entry list \<Rightarrow> mgr_entry option"
  se_conf :: "string \<Rightarrow> json \<Rightarrow> json"
  se_settings_ok :: bool

definition server_at :: "int \<Rightarrow> 'net server_db \<Rightarrow> dns_server_row option" where
  "server_at i db = find (\<lambda>r. int (ds_id r) = i) (sv_servers db)"

definition update_server :: "nat \<Rightarrow> (dns_server_row \<Rightarrow> dns_server_row) \<Rightarrow> 'net server_db \<Rightarrow> 'net server_db" where
  "update_server i f db = db\<lparr> sv_servers := map (\<lambda>r. if ds_id r = i then f r else r) (sv_servers db) \<rparr>"

section \<open>Join keys\<close>

text \<open>A key whose hash is taken breaks the unique constraint: \<open>None\<close>, nothing is written.\<close>

definition create_dns_server ::
  "server_env \<Rightarrow> int \<Rightarrow> string \<Rightarrow> string \<Rightarrow> string \<Rightarrow> string \<Rightarrow> 'net server_db \<Rightarrow> (nat \<times> string) option \<times> 'net server_db" where
  "create_dns_server E now jkey jwt_secret name region db =
     (if list_ex (\<lambda>r. ds_join_key_hash r = se_sha256 E jkey) (sv_servers db) then (None, db)
      else (Some (sv_seq db, jkey),
            db\<lparr> sv_servers := sv_servers db @
                  [\<lparr> ds_id = sv_seq db, ds_name = name, ds_join_key_hash = se_sha256 E jkey,
                     ds_jwt_secret = se_encrypt E jwt_secret, ds_status = ''offline'', ds_last_heartbeat = None,
                     ds_version = None, ds_region = region, ds_hostname = None, ds_created_at = now, ds_updated_at = None \<rparr>],
                sv_seq := sv_seq db + 1 \<rparr>))"

definition server_by_key :: "server_env \<Rightarrow> string \<Rightarrow> 'net server_db \<Rightarrow> dns_server_row option" where
  "server_by_key E jkey db = find (\<lambda>r. ds_join_key_hash r = se_sha256 E jkey) (sv_servers db)"

text \<open>The row with its decrypted secret; the outer \<open>None\<close> is the exception of a secret that does not decrypt.\<close>

definition with_secret :: "server_env \<Rightarrow> dns_server_row \<Rightarrow> (dns_server_row \<times> string) option option" where
  "with_secret E row = (case se_decrypt E (ds_jwt_secret row) of None \<Rightarrow> None | Some k \<Rightarrow> Some (Some (row, k)))"

definition validate_join_key :: "server_env \<Rightarrow> string \<Rightarrow> 'net server_db \<Rightarrow> (dns_server_row \<times> string) option option" where
  "validate_join_key E jkey db =
     (case server_by_key E jkey db of None \<Rightarrow> Some None | Some row \<Rightarrow> with_secret E row)"

definition register_server ::
  "server_env \<Rightarrow> int \<Rightarrow> string \<Rightarrow> string \<Rightarrow> string \<Rightarrow> 'net server_db \<Rightarrow>
   (dns_server_row \<times> string) option option \<times> 'net server_db" where
  "register_server E now jkey hostname version db =
     (case server_by_key E jkey db of
        None \<Rightarrow> (Some None, db)
      | Some row \<Rightarrow>
          (with_secret E row,
           update_server (ds_id row) (\<lambda>r. r\<lparr> ds_hostname := Some hostname, ds_version := Some version, ds_status := ''online'',
             ds_last_heartbeat := Some now, ds_updated_at := Some now \<rparr>) db))"

text \<open>A new key whose hash another server has breaks the unique constraint: \<open>None\<close>, nothing is written.\<close>

definition revoke_join_key ::
  "server_env \<Rightarrow> int \<Rightarrow> string \<Rightarrow> string \<Rightarrow> nat \<Rightarrow> 'net server_db \<Rightarrow> bool option \<times> 'net server_db" where
  "revoke_join_key E now new_join_key new_jwt_secret i db =
     (case server_at (int i) db of
        None \<Rightarrow> (Some False, db)
      | Some _ \<Rightarrow>
          (if list_ex (\<lambda>r. ds_id r \<noteq> i \<and> ds_join_key_hash r = se_sha256 E new_join_key) (sv_servers db) then (None, db)
           else (Some True, update_server i (\<lambda>r. r\<lparr> ds_join_key_hash := se_sha256 E new_join_key,
             ds_jwt_secret := se_encrypt E new_jwt_secret, ds_status := ''offline'', ds_updated_at := Some now \<rparr>) db)))"

definition get_server_by_id :: "nat \<Rightarrow> 'net server_db \<Rightarrow> dns_server_row option" where
  "get_server_by_id i db = server_at (int i) db"

section \<open>Server tokens\<close>

definition server_claims :: "nat \<Rightarrow> int \<Rightarrow> claims" where
  "server_claims i now =
     [(''server_id'', JInt (int i)), (''type'', JStr ''server''),
      (''exp'', JInt (now div 1000000 + 86400)), (''iat'', JInt (now div 1000000))]"

definition create_server_jwt :: "server_env \<Rightarrow> int \<Rightarrow> nat \<Rightarrow> string \<Rightarrow> string" where
  "create_server_jwt E now i jwt_secret = se_encode E (server_claims i now) jwt_secret"

definition decode_server_jwt_with_grace :: "server_env \<Rightarrow> int \<Rightarrow> string \<Rightarrow> string \<Rightarrow> int \<Rightarrow> claims option" where
  "decode_server_jwt_with_grace E now token jwt_secret grace_seconds =
     (case se_hs_decode E now grace_seconds True jwt_secret token of
        None \<Rightarrow> None
      | Some payload \<Rightarrow> (if json_get payload ''type'' \<noteq> JStr ''server'' then None else Some payload))"

text \<open>\<^verbatim>\<open>decode_token\<close> with a secret: an empty one is no secret, and the token is checked as a user token.\<close>

definition decode_token_with :: "server_env \<Rightarrow> int \<Rightarrow> string \<Rightarrow> string \<Rightarrow> claims option" where
  "decode_token_with E now token secret_key =
     (if secret_key \<noteq> [] then se_hs_decode E now 0 False secret_key token else se_user_decode E now token)"

definition verify_server_jwt_from_db :: "server_env \<Rightarrow> int \<Rightarrow> string \<Rightarrow> 'net server_db \<Rightarrow> nat option" where
  "verify_server_jwt_from_db E now token db =
     (case se_unverified E token of
        None \<Rightarrow> None
      | Some unverified \<Rightarrow>
          (case json_get unverified ''server_id'' of
             JInt i \<Rightarrow>
               (if i = 0 \<or> json_get unverified ''type'' \<noteq> JStr ''server'' then None
                else (case server_at i db of
                        None \<Rightarrow> None
                      | Some row \<Rightarrow>
                          (case se_decrypt E (ds_jwt_secret row) of
                             None \<Rightarrow> None
                           | Some k \<Rightarrow> (case decode_token_with E now token k of
                                          None \<Rightarrow> None | Some payload \<Rightarrow> if payload = [] then None else Some (ds_id row)))))
           | _ \<Rightarrow> None))"

section \<open>SPIFFE identities\<close>

record spiffe_id =
  sp_trust_domain :: string
  sp_segments :: "string list"

definition SPIFFE_SCHEME :: string where
  "SPIFFE_SCHEME = ''spiffe://''"

definition DNS_SERVER_SERVICE :: string where
  "DNS_SERVER_SERVICE = ''dns-server''"

text \<open>\<open>None\<close> is the ValueError of a malformed identity.\<close>

definition spiffe_parse :: "string \<Rightarrow> spiffe_id option" where
  "spiffe_parse uri =
     (if uri = [] \<or> \<not> py_startswith uri SPIFFE_SCHEME then None
      else (case py_split CHR ''/'' (drop (length SPIFFE_SCHEME) uri) of
              td # path \<Rightarrow> (if td = [] then None
                            else Some \<lparr> sp_trust_domain = td, sp_segments = filter (\<lambda>s. s \<noteq> []) path \<rparr>)
            | [] \<Rightarrow> None))"

definition spiffe_str :: "spiffe_id \<Rightarrow> string" where
  "spiffe_str sid = SPIFFE_SCHEME @ sp_trust_domain sid @
     (if sp_segments sid = [] then [] else CHR ''/'' # py_join CHR ''/'' (sp_segments sid))"

definition in_trust_domain :: "spiffe_id \<Rightarrow> string \<Rightarrow> bool" where
  "in_trust_domain sid trust_domain \<longleftrightarrow> trust_domain \<noteq> [] \<and> sp_trust_domain sid = trust_domain"

definition spiffe_unquote :: "string \<Rightarrow> string" where
  "spiffe_unquote raw =
     (let v = py_strip raw in
      if 2 \<le> length v \<and> hd v = CHR 34 \<and> last v = CHR 34 then butlast (tl v) else v)"

definition xfcc_uri :: "string \<Rightarrow> string list" where
  "xfcc_uri pair =
     (if CHR ''='' \<notin> set pair then []
      else (let key = takeWhile (\<lambda>c. c \<noteq> CHR ''='') pair;
                v = spiffe_unquote (drop (Suc (length key)) pair)
            in if py_lower (py_strip key) = ''uri'' \<and> py_startswith v SPIFFE_SCHEME then [v] else []))"

definition extract_spiffe_ids_from_xfcc :: "string \<Rightarrow> string list" where
  "extract_spiffe_ids_from_xfcc header =
     (if header = [] then []
      else concat (map (\<lambda>element. concat (map xfcc_uri (py_split CHR '';'' element))) (py_split CHR '','' header)))"

record dns_server_identity =
  di_env :: string
  di_server_id :: int
  di_spiffe_id :: string

definition identity_of :: "string \<Rightarrow> string \<Rightarrow> dns_server_identity option" where
  "identity_of trust_domain uri =
     (case spiffe_parse uri of
        None \<Rightarrow> None
      | Some sid \<Rightarrow>
          (if \<not> in_trust_domain sid trust_domain then None
           else (case sp_segments sid of
                   [env, service, i] \<Rightarrow>
                     (if service \<noteq> DNS_SERVER_SERVICE \<or> i = [] \<or> \<not> list_all is_digit i then None
                      else map_option (\<lambda>n. \<lparr> di_env = env, di_server_id = n, di_spiffe_id = spiffe_str sid \<rparr>) (py_int i))
                 | _ \<Rightarrow> None)))"

fun first_identity :: "string \<Rightarrow> string list \<Rightarrow> dns_server_identity option" where
  "first_identity trust_domain [] = None"
| "first_identity trust_domain (uri # rest) =
     (case identity_of trust_domain uri of None \<Rightarrow> first_identity trust_domain rest | Some i \<Rightarrow> Some i)"

definition resolve_dns_server_identity :: "string option \<Rightarrow> string \<Rightarrow> dns_server_identity option" where
  "resolve_dns_server_identity xfcc_header trust_domain =
     (if \<not> truthy xfcc_header \<or> trust_domain = [] then None
      else first_identity trust_domain (extract_spiffe_ids_from_xfcc (the xfcc_header)))"

section \<open>Authenticated routes\<close>

record server_req =
  rq_xfcc :: "string option"
  rq_authorization :: "string option"

definition authenticate_server_via_spiffe :: "server_env \<Rightarrow> server_req \<Rightarrow> 'net server_db \<Rightarrow> dns_server_row option" where
  "authenticate_server_via_spiffe E req db =
     (if \<not> se_spiffe_enabled E then None
      else (case resolve_dns_server_identity (rq_xfcc req) (se_trust_domain E) of
              None \<Rightarrow> None | Some identity \<Rightarrow> server_at (di_server_id identity) db))"

datatype server_auth = Via_Spiffe nat | Via_Jwt nat | Rejected nat

definition server_auth_of :: "server_env \<Rightarrow> int \<Rightarrow> server_req \<Rightarrow> 'net server_db \<Rightarrow> server_auth" where
  "server_auth_of E now req db =
     (case authenticate_server_via_spiffe E req db of
        Some row \<Rightarrow> Via_Spiffe (ds_id row)
      | None \<Rightarrow>
          (if \<not> truthy (rq_authorization req) then Rejected 401
           else (case py_split CHR '' '' (the (rq_authorization req)) of
                   _ # token # _ \<Rightarrow>
                     (if token = [] then Rejected 401
                      else (case verify_server_jwt_from_db E now token db of None \<Rightarrow> Rejected 401 | Some i \<Rightarrow> Via_Jwt i))
                 | _ \<Rightarrow> Rejected 401)))"

datatype server_body =
    Created_Body nat string
  | Server_Body dns_server_row
  | Config_Body server_config
  | Beat_Body int bool
  | Jwt_Body string
  | Registered_Body string nat server_config
  | Message_Body nat

datatype reply = Reply nat server_body | Error_Reply nat | Unhandled

text \<open>The token path runs the route inside its \<^verbatim>\<open>try\<close>: an exception of the route becomes a 401 as well.\<close>

definition server_token_required ::
  "server_env \<Rightarrow> int \<Rightarrow> server_req \<Rightarrow> (nat \<Rightarrow> 'net server_db \<Rightarrow> reply \<times> 'net server_db) \<Rightarrow> 'net server_db \<Rightarrow>
   reply \<times> 'net server_db" where
  "server_token_required E now req f db =
     (case server_auth_of E now req db of
        Rejected n \<Rightarrow> (Error_Reply n, db)
      | Via_Spiffe i \<Rightarrow> f i db
      | Via_Jwt i \<Rightarrow> (case f i db of (Unhandled, db') \<Rightarrow> (Error_Reply 401, db') | r \<Rightarrow> r))"

definition current_config :: "server_env \<Rightarrow> int \<Rightarrow> 'net server_db \<Rightarrow> server_config" where
  "current_config E now db = get_server_config (se_conf E) (se_hash E) (se_latest E) now (sv_zones db) (sv_records db) (sv_ioc db)"

definition get_dns_server_config ::
  "server_env \<Rightarrow> int \<Rightarrow> server_req \<Rightarrow> nat \<Rightarrow> 'net server_db \<Rightarrow> reply \<times> 'net server_db" where
  "get_dns_server_config E now req i =
     server_token_required E now req
       (\<lambda>cur db. if cur \<noteq> i then (Error_Reply 403, db) else (Reply 200 (Config_Body (current_config E now db)), db))"

text \<open>\<open>body\<close> is the JSON object of the request, \<open>None\<close> for another content type.\<close>

definition dns_server_heartbeat ::
  "server_env \<Rightarrow> int \<Rightarrow> server_req \<Rightarrow> nat \<Rightarrow> (string \<times> json) list option \<Rightarrow> 'net server_db \<Rightarrow> reply \<times> 'net server_db" where
  "dns_server_heartbeat E now req i body =
     server_token_required E now req
       (\<lambda>cur db. case body of
          None \<Rightarrow> (Error_Reply 400, db)
        | Some metrics \<Rightarrow>
            (if \<not> list_all (\<lambda>k. k \<in> fst ` set metrics) [''queries_total'', ''cache_hits'', ''errors''] then (Error_Reply 400, db)
             else if cur \<noteq> i then (Error_Reply 403, db)
             else (case record_heartbeat now i metrics
                          (get_config_version (se_hash E) (se_latest E) (sv_zones db) (sv_records db) (sv_ioc db))
                          (sv_servers db, sv_metrics db) of
                     ((version, sync), servers, metrics_rows) \<Rightarrow>
                       (Reply 200 (Beat_Body version sync), db\<lparr> sv_servers := servers, sv_metrics := metrics_rows \<rparr>))))"

definition refresh_server_token ::
  "server_env \<Rightarrow> int \<Rightarrow> server_req \<Rightarrow> nat \<Rightarrow> 'net server_db \<Rightarrow> reply \<times> 'net server_db" where
  "refresh_server_token E now req i =
     server_token_required E now req
       (\<lambda>cur db. if cur \<noteq> i then (Error_Reply 403, db)
          else (case server_at (int i) db of
                  None \<Rightarrow> (Error_Reply 404, db)
                | Some row \<Rightarrow> (case se_decrypt E (ds_jwt_secret row) of
                                 None \<Rightarrow> (Unhandled, db)
                               | Some k \<Rightarrow> (Reply 200 (Jwt_Body (create_server_jwt E now (ds_id row) k)), db))))"

section \<open>Administration and registration\<close>

definition scope_guard ::
  "string \<Rightarrow> current_user option \<Rightarrow> (reply \<times> 'net server_db) \<Rightarrow> 'net server_db \<Rightarrow> reply \<times> 'net server_db" where
  "scope_guard scope user body db =
     (case requires_scope [scope] user of Proceed \<Rightarrow> body | Denied n \<Rightarrow> (Error_Reply n, db) | Raised \<Rightarrow> (Unhandled, db))"

definition create_dns_server_route ::
  "server_env \<Rightarrow> int \<Rightarrow> string \<Rightarrow> string \<Rightarrow> current_user option \<Rightarrow> string \<Rightarrow> string option \<Rightarrow> 'net server_db \<Rightarrow> reply \<times> 'net server_db" where
  "create_dns_server_route E now jkey secret user name region db =
     scope_guard ''servers:write'' user
       (case create_dns_server E now jkey secret name (case region of None \<Rightarrow> ''default'' | Some r \<Rightarrow> r) db of
          (None, db') \<Rightarrow> (Unhandled, db') | (Some (i, key), db') \<Rightarrow> (Reply 201 (Created_Body i key), db')) db"

definition get_dns_server :: "current_user option \<Rightarrow> nat \<Rightarrow> 'net server_db \<Rightarrow> reply \<times> 'net server_db" where
  "get_dns_server user i db =
     scope_guard ''servers:write'' user
       (case get_server_by_id i db of None \<Rightarrow> (Error_Reply 404, db) | Some row \<Rightarrow> (Reply 200 (Server_Body row), db)) db"

text \<open>Deleting a server deletes its metrics by the cascade of the foreign key.\<close>

definition delete_dns_server :: "current_user option \<Rightarrow> nat \<Rightarrow> 'net server_db \<Rightarrow> reply \<times> 'net server_db" where
  "delete_dns_server user i db =
     scope_guard ''servers:admin'' user
       (case server_at (int i) db of
          None \<Rightarrow> (Error_Reply 404, db)
        | Some _ \<Rightarrow> (Reply 200 (Message_Body i),
                      db\<lparr> sv_servers := filter (\<lambda>r. ds_id r \<noteq> i) (sv_servers db),
                          sv_metrics := filter (\<lambda>m. sm_server_id m \<noteq> i) (sv_metrics db) \<rparr>)) db"

definition regenerate_join_key ::
  "server_env \<Rightarrow> int \<Rightarrow> string \<Rightarrow> string \<Rightarrow> current_user option \<Rightarrow> nat \<Rightarrow> 'net server_db \<Rightarrow> reply \<times> 'net server_db" where
  "regenerate_join_key E now new_key new_secret user i db =
     scope_guard ''servers:admin'' user
       (case revoke_join_key E now new_key new_secret i db of
          (None, db') \<Rightarrow> (Unhandled, db')
        | (Some ok, db') \<Rightarrow> (if \<not> ok then Error_Reply 404 else Reply 200 (Message_Body i), db')) db"

definition register_dns_server ::
  "server_env \<Rightarrow> int \<Rightarrow> string \<Rightarrow> string option \<Rightarrow> string option \<Rightarrow> 'net server_db \<Rightarrow> reply \<times> 'net server_db" where
  "register_dns_server E now jkey hostname version db =
     (case register_server E now jkey (case hostname of None \<Rightarrow> ''unknown'' | Some h \<Rightarrow> h)
             (case version of None \<Rightarrow> ''unknown'' | Some v \<Rightarrow> v) db of
        (None, db') \<Rightarrow> (Unhandled, db')
      | (Some None, db') \<Rightarrow> (Error_Reply 401, db')
      | (Some (Some (row, k)), db') \<Rightarrow>
          (Reply 200 (Registered_Body (create_server_jwt E now (ds_id row) k) (ds_id row) (current_config E now db')), db'))"

section \<open>The gRPC service\<close>

definition INTERCEPTOR_EXEMPT_METHODS :: "string list" where
  "INTERCEPTOR_EXEMPT_METHODS =
     [''/squawkdns.manager.ManagerService/RegisterServer'', ''/squawkdns.manager.ManagerService/RefreshToken'']"

text \<open>Call metadata as a dict: the last of several entries with one key counts.\<close>

definition grpc_extract_bearer_token :: "(string \<times> string) list \<Rightarrow> string" where
  "grpc_extract_bearer_token metadata =
     (let md = map_of (rev metadata);
          auth_header = (case md ''authorization'' of None \<Rightarrow> [] | Some h \<Rightarrow> h)
      in if py_startswith (py_lower auth_header) ''bearer '' then py_strip (drop 7 auth_header)
         else py_strip (case md ''server-jwt'' of None \<Rightarrow> [] | Some t \<Rightarrow> t))"

datatype grpc_status = INVALID_ARGUMENT | NOT_FOUND | UNAUTHENTICATED | INTERNAL | UNKNOWN

record proto_config =
  pc_zones :: "zone_cfg list"
  pc_ioc_feeds :: "feed list"

datatype grpc_reply =
    Register_Response string nat proto_config
  | Refresh_Response string
  | Config_Response proto_config int
  | Validate_Response bool "string list"
  | Ioc_Response bool
  | Abort grpc_status

text \<open>Whether a call reaches its handler.\<close>

definition intercept_service :: "server_env \<Rightarrow> int \<Rightarrow> string \<Rightarrow> (string \<times> string) list \<Rightarrow> 'net server_db \<Rightarrow> bool" where
  "intercept_service E now rpc_method metadata db =
     (rpc_method \<in> set INTERCEPTOR_EXEMPT_METHODS
      \<or> (let token = grpc_extract_bearer_token metadata in
         token \<noteq> [] \<and> verify_server_jwt_from_db E now token db \<noteq> None))"

definition team_str :: "json \<Rightarrow> json" where
  "team_str j = (case j of JInt i \<Rightarrow> JStr (if i < 0 then CHR ''-'' # dec (nat (- i)) else dec (nat i)) | _ \<Rightarrow> j)"

definition ttl_fits :: "int option \<Rightarrow> bool" where
  "ttl_fits ttl = (case ttl of None \<Rightarrow> True | Some t \<Rightarrow> - (2 ^ 31) \<le> t \<and> t < 2 ^ 31)"

definition proto_record :: "zone_rec \<Rightarrow> zone_rec" where
  "proto_record r = r\<lparr> rec_ttl := Some (case rec_ttl r of None \<Rightarrow> 0 | Some t \<Rightarrow> t) \<rparr>"

text \<open>
  The message classes raise for a TTL beyond 32 bits and for settings that are no strings (\<open>None\<close>). The
  entries of a feed are left empty.
\<close>

definition build_config_message :: "server_env \<Rightarrow> server_config \<Rightarrow> proto_config option" where
  "build_config_message E config =
     (if \<not> list_all (\<lambda>z. list_all (\<lambda>r. ttl_fits (rec_ttl r)) (case zc_records z of None \<Rightarrow> [] | Some rs \<Rightarrow> rs)) (sc_zones config)
         \<or> \<not> se_settings_ok E then None
      else Some \<lparr> pc_zones = map (\<lambda>z. z\<lparr> zc_records := Some (map proto_record (case zc_records z of None \<Rightarrow> [] | Some rs \<Rightarrow> rs)),
                                            zc_allowed_teams := Some (map team_str (case zc_allowed_teams z of None \<Rightarrow> [] | Some ts \<Rightarrow> ts)) \<rparr>)
                             (sc_zones config),
                  pc_ioc_feeds = map (\<lambda>f. f\<lparr> feed_entries := [] \<rparr>) (sc_ioc_feeds config) \<rparr>)"

definition RegisterServer ::
  "server_env \<Rightarrow> int \<Rightarrow> string \<Rightarrow> string \<Rightarrow> string \<Rightarrow> 'net server_db \<Rightarrow> grpc_reply \<times> 'net server_db" where
  "RegisterServer E now jkey hostname version db =
     (case register_server E now jkey hostname version db of
        (None, db') \<Rightarrow> (Abort UNKNOWN, db')
      | (Some None, db') \<Rightarrow> (Abort UNAUTHENTICATED, db')
      | (Some (Some (row, k)), db') \<Rightarrow>
          (case build_config_message E (current_config E now db') of
             None \<Rightarrow> (Abort UNKNOWN, db')
           | Some m \<Rightarrow> (Register_Response (create_server_jwt E now (ds_id row) k) (ds_id row) m, db')))"

definition presented_jwt_ok :: "server_env \<Rightarrow> int \<Rightarrow> string \<Rightarrow> dns_server_row \<Rightarrow> bool" where
  "presented_jwt_ok E now presented row =
     (presented \<noteq> [] \<and>
      (case se_decrypt E (ds_jwt_secret row) of
         None \<Rightarrow> False
       | Some k \<Rightarrow> (case decode_server_jwt_with_grace E now presented k 300 of
                      None \<Rightarrow> False | Some c \<Rightarrow> json_get c ''server_id'' = JInt (int (ds_id row)))))"

definition RefreshToken ::
  "server_env \<Rightarrow> int \<Rightarrow> string \<Rightarrow> string \<Rightarrow> string \<Rightarrow> 'net server_db \<Rightarrow> grpc_reply" where
  "RefreshToken E now sid presented jkey db =
     (let mint = (\<lambda>row. case se_decrypt E (ds_jwt_secret row) of
                          None \<Rightarrow> Abort INTERNAL
                        | Some k \<Rightarrow> Refresh_Response (create_server_jwt E now (ds_id row) k))
      in case py_int sid of
           None \<Rightarrow> Abort INVALID_ARGUMENT
         | Some i \<Rightarrow>
             (case server_at i db of
                None \<Rightarrow> Abort NOT_FOUND
              | Some row \<Rightarrow>
                  (if presented_jwt_ok E now (py_strip presented) row then mint row
                   else if py_strip jkey = [] then Abort UNAUTHENTICATED
                   else (case validate_join_key E (py_strip jkey) db of
                           None \<Rightarrow> Abort UNKNOWN
                         | Some None \<Rightarrow> Abort UNAUTHENTICATED
                         | Some (Some (key_row, _)) \<Rightarrow>
                             (if ds_id key_row = ds_id row then mint row else Abort UNAUTHENTICATED)))))"

definition GetConfig :: "server_env \<Rightarrow> int \<Rightarrow> string \<Rightarrow> 'net server_db \<Rightarrow> grpc_reply" where
  "GetConfig E now sid db =
     (case py_int sid of
        None \<Rightarrow> Abort INTERNAL
      | Some _ \<Rightarrow> (case build_config_message E (current_config E now db) of
                      None \<Rightarrow> Abort INTERNAL
                    | Some m \<Rightarrow> Config_Response m (sc_version (current_config E now db))))"

text \<open>The team of a token is an integer or None; neither can be iterated, and the loop over it raises.\<close>

definition iterate_team :: "nat option \<Rightarrow> string list option" where
  "iterate_team team_id = None"

definition ValidateToken :: "server_env \<Rightarrow> int \<Rightarrow> string \<Rightarrow> 'net server_db \<Rightarrow> grpc_reply \<times> 'net server_db" where
  "ValidateToken E now token db =
     (case validate_dns_token (se_sha256 E) now (map (\<lambda>z. (dz_name z, dz_team_id z)) (sv_zones db)) token (sv_tokens db) of
        (None, toks) \<Rightarrow> (Validate_Response False [], db\<lparr> sv_tokens := toks \<rparr>)
      | (Some (i, team, zones), toks) \<Rightarrow>
          (case iterate_team team of
             None \<Rightarrow> (Validate_Response False [], db\<lparr> sv_tokens := toks \<rparr>)
           | Some _ \<Rightarrow> (Validate_Response True zones, db\<lparr> sv_tokens := toks \<rparr>)))"

definition CheckIOC :: "string \<Rightarrow> grpc_reply" where
  "CheckIOC request = Ioc_Response False"

section \<open>Lemmas on server rows\<close>

lemma server_at_Some: "server_at i db = Some r \<Longrightarrow> r \<in> set (sv_servers db) \<and> int (ds_id r) = i"
  by (auto simp: server_at_def find_Some_iff)

lemma verify_server_jwt_Some:
  assumes "verify_server_jwt_from_db E now token db = Some i"
  shows "\<exists>row k payload. server_at (int i) db = Some row \<and> se_decrypt E (ds_jwt_secret row) = Some k \<and>
    decode_token_with E now token k = Some payload"
  using assms
  by (auto simp: verify_server_jwt_from_db_def dest: server_at_Some split: option.splits json.splits if_splits)

lemma spiffe_Some:
  assumes "authenticate_server_via_spiffe E req db = Some row"
  shows "row \<in> set (sv_servers db) \<and> se_spiffe_enabled E \<and>
    (\<exists>idn. resolve_dns_server_identity (rq_xfcc req) (se_trust_domain E) = Some idn \<and> di_server_id idn = int (ds_id row))"
  using assms by (auto simp: authenticate_server_via_spiffe_def dest: server_at_Some split: if_splits option.splits)

section \<open>Reachable states\<close>

inductive server_reach :: "server_env \<Rightarrow> 'net server_db \<Rightarrow> bool" for E where
  init: "\<lbrakk> sv_servers db = []; 0 < sv_seq db \<rbrakk> \<Longrightarrow> server_reach E db"
| create: "server_reach E db \<Longrightarrow> server_reach E (snd (create_dns_server_route E t k s user n r db))"
| delete: "server_reach E db \<Longrightarrow> server_reach E (snd (delete_dns_server user i db))"
| regenerate: "server_reach E db \<Longrightarrow> server_reach E (snd (regenerate_join_key E t k s user i db))"
| register: "server_reach E db \<Longrightarrow> server_reach E (snd (register_dns_server E t k h v db))"
| rpc_register: "server_reach E db \<Longrightarrow> server_reach E (snd (RegisterServer E t k hn vn db))"
| heartbeat: "server_reach E db \<Longrightarrow> server_reach E (snd (dns_server_heartbeat E t req i body db))"
| refresh: "server_reach E db \<Longrightarrow> server_reach E (snd (refresh_server_token E t req i db))"

definition server_inv :: "dns_server_row list \<Rightarrow> nat \<Rightarrow> bool" where
  "server_inv rows n \<longleftrightarrow> 0 < n \<and> distinct (map ds_id rows) \<and> distinct (map ds_join_key_hash rows) \<and>
     ds_id ` set rows \<subseteq> {0<..<n}"

abbreviation db_inv :: "'net server_db \<Rightarrow> bool" where
  "db_inv db \<equiv> server_inv (sv_servers db) (sv_seq db)"

lemma server_inv_same_keys:
  assumes "server_inv rows n" "map ds_id rows' = map ds_id rows" "map ds_join_key_hash rows' = map ds_join_key_hash rows"
  shows "server_inv rows' n"
proof -
  have "ds_id ` set rows' = ds_id ` set rows" using assms(2) by (metis list.set_map)
  then show ?thesis using assms unfolding server_inv_def by simp
qed

lemma map_row_update:
  assumes "\<And>r. f (g r) = f r"
  shows "map f (map (\<lambda>r. if ds_id r = i then g r else r) rows) = map f rows"
  using assms by (induction rows) auto

lemma update_server_inv:
  assumes "db_inv db" "\<And>r. ds_id (f r) = ds_id r" "\<And>r. ds_join_key_hash (f r) = ds_join_key_hash r"
  shows "db_inv (update_server i f db)"
proof -
  have "server_inv (map (\<lambda>r. if ds_id r = i then f r else r) (sv_servers db)) (sv_seq db)"
    by (rule server_inv_same_keys [OF assms(1)]; rule map_row_update; rule assms)
  then show ?thesis by (simp add: update_server_def)
qed

lemma server_inv_append:
  "\<lbrakk> server_inv rows n; ds_id r = n; ds_join_key_hash r \<notin> ds_join_key_hash ` set rows \<rbrakk> \<Longrightarrow> server_inv (rows @ [r]) (Suc n)"
  unfolding server_inv_def by force

lemma create_server_inv: "db_inv db \<Longrightarrow> db_inv (snd (create_dns_server E t k s n r db))"
  by (auto simp: create_dns_server_def list_ex_iff intro!: server_inv_append)

lemma register_server_inv:
  assumes "db_inv db"
  shows "db_inv (snd (register_server E t k h v db))"
proof (cases "server_by_key E k db")
  case None
  then show ?thesis using assms by (simp add: register_server_def)
next
  case (Some row)
  have "db_inv (update_server (ds_id row) (\<lambda>r. r\<lparr> ds_hostname := Some h, ds_version := Some v, ds_status := ''online'',
             ds_last_heartbeat := Some t, ds_updated_at := Some t \<rparr>) db)"
    by (rule update_server_inv [OF assms]) simp_all
  then show ?thesis by (simp add: register_server_def Some)
qed

lemma distinct_map_update:
  assumes "distinct (map ds_id rows)" "distinct (map ds_join_key_hash rows)"
    "\<forall>r\<in>set rows. ds_id r \<noteq> i \<longrightarrow> ds_join_key_hash r \<noteq> h" "\<And>r. ds_join_key_hash (f r) = h"
  shows "distinct (map ds_join_key_hash (map (\<lambda>r. if ds_id r = i then f r else r) rows))"
proof -
  have e: "map ds_join_key_hash (map (\<lambda>r. if ds_id r = i then f r else r) rows) =
      map (\<lambda>r. if ds_id r = i then h else ds_join_key_hash r) rows"
    using assms(4) by simp
  have "inj_on (\<lambda>r. if ds_id r = i then h else ds_join_key_hash r) (set rows)"
  proof (rule inj_onI)
    fix x y assume xy: "x \<in> set rows" "y \<in> set rows"
      and eq: "(if ds_id x = i then h else ds_join_key_hash x) = (if ds_id y = i then h else ds_join_key_hash y)"
    have "ds_id x = i \<longleftrightarrow> ds_id y = i" using assms(3) xy eq by metis
    moreover have "ds_id x = ds_id y \<Longrightarrow> x = y" "ds_join_key_hash x = ds_join_key_hash y \<Longrightarrow> x = y"
      using assms(1,2) xy by (metis distinct_map inj_onD)+
    ultimately show "x = y" using eq by metis
  qed
  then show ?thesis using assms(1) unfolding e by (simp add: distinct_map)
qed

lemma revoke_server_inv:
  assumes inv: "db_inv db"
  shows "db_inv (snd (revoke_join_key E t k s i db))"
proof (cases "server_at (int i) db = None \<or> list_ex (\<lambda>r. ds_id r \<noteq> i \<and> ds_join_key_hash r = se_sha256 E k) (sv_servers db)")
  case True
  then show ?thesis using inv by (auto simp: revoke_join_key_def split: option.splits)
next
  case False
  let ?f = "\<lambda>r. r\<lparr> ds_join_key_hash := se_sha256 E k, ds_jwt_secret := se_encrypt E s, ds_status := ''offline'', ds_updated_at := Some t \<rparr>"
  let ?rows = "map (\<lambda>r. if ds_id r = i then ?f r else r) (sv_servers db)"
  have ids: "map ds_id ?rows = map ds_id (sv_servers db)" by (rule map_row_update) simp
  have "distinct (map ds_join_key_hash ?rows)"
    using inv False by (intro distinct_map_update [where h = "se_sha256 E k"]) (auto simp: server_inv_def list_ex_iff)
  moreover have "ds_id ` set ?rows = ds_id ` set (sv_servers db)" using ids by (metis list.set_map)
  ultimately have "server_inv ?rows (sv_seq db)" using inv unfolding server_inv_def ids by blast
  then show ?thesis using False by (auto simp: revoke_join_key_def update_server_def split: option.splits)
qed

lemma delete_server_inv: "server_inv rows n \<Longrightarrow> server_inv (filter P rows) n"
  unfolding server_inv_def by (auto simp: distinct_map_filter)

lemma beat_server_inv: "server_inv rows n \<Longrightarrow> server_inv (fst (snd (record_heartbeat t i m v (rows, mr)))) n"
  unfolding record_heartbeat_def fst_conv snd_conv
  by (erule server_inv_same_keys; rule map_row_update) simp_all

lemma scope_guard_keeps: "\<lbrakk> I db; I (snd body) \<rbrakk> \<Longrightarrow> I (snd (scope_guard sc user body db))"
  by (auto simp: scope_guard_def split: outcome.splits)

lemma server_token_required_cases:
  "snd (server_token_required E t req f db) = db \<or> (\<exists>i. snd (server_token_required E t req f db) = snd (f i db))"
proof (cases "server_auth_of E t req db")
  case (Via_Jwt i)
  then have "snd (server_token_required E t req f db) = snd (f i db)"
    by (cases "f i db"; cases "fst (f i db)") (auto simp: server_token_required_def)
  then show ?thesis by blast
qed (auto simp: server_token_required_def)

lemma server_token_required_keeps:
  "\<lbrakk> I db; \<And>i. I (snd (f i db)) \<rbrakk> \<Longrightarrow> I (snd (server_token_required E t req f db))"
  using server_token_required_cases [of E t req f db] by auto

lemma reach_server_inv: "server_reach E db \<Longrightarrow> db_inv db"
proof (induction rule: server_reach.induct)
  case (create db t k s user n r)
  have c: "db_inv (snd (create_dns_server E t k s n rg db))" for rg by (rule create_server_inv [OF create.IH])
  obtain res db' where v: "create_dns_server E t k s n (case r of None \<Rightarrow> ''default'' | Some r \<Rightarrow> r) db = (res, db')" by fastforce
  have "db_inv db'" using c [of "case r of None \<Rightarrow> ''default'' | Some r \<Rightarrow> r"] v by simp
  then show ?case unfolding create_dns_server_route_def v
    using create.IH by (intro scope_guard_keeps [where I = db_inv]) (auto split: option.splits)
next
  case (delete db user i)
  then show ?case unfolding delete_dns_server_def
    by (intro scope_guard_keeps [where I = db_inv]) (auto simp: delete_server_inv split: option.splits)
next
  case (regenerate db t k s user i)
  obtain res db' where v: "revoke_join_key E t k s i db = (res, db')" by fastforce
  have "db_inv db'" using revoke_server_inv [OF regenerate.IH, of E t k s i] v by simp
  then show ?case unfolding regenerate_join_key_def v
    using regenerate.IH by (intro scope_guard_keeps [where I = db_inv]) (auto split: option.splits)
next
  case (register db t k h v)
  obtain res db' where r: "register_server E t k (case h of None \<Rightarrow> ''unknown'' | Some h \<Rightarrow> h)
      (case v of None \<Rightarrow> ''unknown'' | Some v \<Rightarrow> v) db = (res, db')" by fastforce
  have "db_inv db'" using register_server_inv [OF register.IH] r by (metis snd_conv)
  then show ?case unfolding register_dns_server_def r by (auto split: prod.splits option.splits)
next
  case (rpc_register db t k hn vn)
  obtain res db' where r: "register_server E t k hn vn db = (res, db')" by fastforce
  have "db_inv db'" using register_server_inv [OF rpc_register.IH] r by (metis snd_conv)
  then show ?case unfolding RegisterServer_def r by (auto split: prod.splits option.splits)
next
  case (heartbeat db t req i body)
  show ?case unfolding dns_server_heartbeat_def
    using heartbeat.IH beat_server_inv [OF heartbeat.IH]
    by (intro server_token_required_keeps [where I = db_inv]) (auto split: option.splits prod.splits, metis fst_conv snd_conv)
next
  case (refresh db t req i)
  then show ?case unfolding refresh_server_token_def
    by (intro server_token_required_keeps [where I = db_inv]) (auto split: option.splits)
qed (simp add: server_inv_def)

section \<open>Who is let in\<close>

text \<open>A request proves that it comes from server \<open>i\<close>: by the mesh's identity, or by a token its stored secret verifies.\<close>

definition proves_server :: "server_env \<Rightarrow> int \<Rightarrow> server_req \<Rightarrow> nat \<Rightarrow> 'net server_db \<Rightarrow> bool" where
  "proves_server E now req i db \<longleftrightarrow>
     (\<exists>row\<in>set (sv_servers db). ds_id row = i \<and>
        (se_spiffe_enabled E \<and>
           (\<exists>idn. resolve_dns_server_identity (rq_xfcc req) (se_trust_domain E) = Some idn \<and> di_server_id idn = int i) \<or>
         (\<exists>scheme token rest k payload. py_split CHR '' '' (the (rq_authorization req)) = scheme # token # rest \<and>
            se_decrypt E (ds_jwt_secret row) = Some k \<and> decode_token_with E now token k = Some payload)))"

lemma server_auth_proves:
  assumes "server_auth_of E now req db \<in> {Via_Spiffe i, Via_Jwt i}"
  shows "proves_server E now req i db"
proof (cases "authenticate_server_via_spiffe E req db")
  case (Some row)
  then have "ds_id row = i" using assms by (auto simp: server_auth_of_def)
  then show ?thesis using spiffe_Some [OF Some] by (auto simp: proves_server_def)
next
  case None
  then obtain scheme token rest where t: "py_split CHR '' '' (the (rq_authorization req)) = scheme # token # rest"
    and v: "verify_server_jwt_from_db E now token db = Some i"
    using assms by (auto simp: server_auth_of_def split: if_splits list.splits option.splits)
  obtain row k payload where "server_at (int i) db = Some row" "se_decrypt E (ds_jwt_secret row) = Some k"
    "decode_token_with E now token k = Some payload" using verify_server_jwt_Some [OF v] by blast
  then show ?thesis using t server_at_Some [of "int i" db row] unfolding proves_server_def by auto
qed

lemma server_token_required_acts:
  assumes "server_token_required E now req f db = (r, db')" "(\<exists>n b. r = Reply n b) \<or> db' \<noteq> db"
    "\<And>cur. cur \<noteq> i \<Longrightarrow> snd (f cur db) = db \<and> \<not> (\<exists>n b. fst (f cur db) = Reply n b)"
  shows "proves_server E now req i db"
proof -
  obtain cur where cur: "server_auth_of E now req db \<in> {Via_Spiffe cur, Via_Jwt cur}"
    using assms(1,2) by (cases "server_auth_of E now req db") (auto simp: server_token_required_def)
  have "cur = i"
  proof (rule ccontr)
    assume n: "cur \<noteq> i"
    then have "snd (f cur db) = db" "\<not> (\<exists>n b. fst (f cur db) = Reply n b)" using assms(3) by auto
    then show False using assms(1,2) cur
      by (cases "f cur db"; cases "fst (f cur db)") (auto simp: server_token_required_def)
  qed
  then show ?thesis using server_auth_proves cur by blast
qed

text \<open>
  C21. The routes of the DNS servers act for a server only on proof of its identity: whenever the
  configuration, the heartbeat or the refresh route of server \<open>i\<close> answers with data or changes a
  row, the request carries a SPIFFE identity of the configured trust domain that names \<open>i\<close>, or a token
  that the stored secret of \<open>i\<close> verifies.
\<close>

theorem server_route_authenticated:
  assumes "route \<in> {get_dns_server_config E now req i, dns_server_heartbeat E now req i body, refresh_server_token E now req i}"
    "route db = (r, db')" "(\<exists>n b. r = Reply n b) \<or> db' \<noteq> db"
  shows "proves_server E now req i db"
  using assms(1)
proof (elim insertE emptyE)
  assume e: "route = get_dns_server_config E now req i"
  show ?thesis
    by (rule server_token_required_acts [OF assms(2) [unfolded e get_dns_server_config_def] assms(3)]) auto
next
  assume e: "route = dns_server_heartbeat E now req i body"
  show ?thesis
    by (rule server_token_required_acts [OF assms(2) [unfolded e dns_server_heartbeat_def] assms(3)]) (auto split: option.splits)
next
  assume e: "route = refresh_server_token E now req i"
  show ?thesis
    by (rule server_token_required_acts [OF assms(2) [unfolded e refresh_server_token_def] assms(3)]) auto
qed

section \<open>The life of a server token\<close>

text \<open>
  What the libraries promise for the tokens the Manager mints: the unverified claims are those signed, the
  text has no blanks, the right secret verifies it between its two times (stretched by the leeway), another
  secret never does; Fernet opens what it sealed.
\<close>

definition server_jwt_laws :: "server_env \<Rightarrow> bool" where
  "server_jwt_laws E \<longleftrightarrow>
     (\<forall>i t k. se_unverified E (create_server_jwt E t i k) = Some (server_claims i t) \<and>
        CHR '' '' \<notin> set (create_server_jwt E t i k) \<and> create_server_jwt E t i k \<noteq> []) \<and>
     (\<forall>i t k now leeway req. t div 1000000 * 1000000 \<le> now + leeway * 1000000 \<and>
        now < (t div 1000000 + 86400 + leeway) * 1000000 \<longrightarrow>
        se_hs_decode E now leeway req k (create_server_jwt E t i k) = Some (server_claims i t)) \<and>
     (\<forall>i t k k' now leeway req. k' \<noteq> k \<longrightarrow> se_hs_decode E now leeway req k' (create_server_jwt E t i k) = None) \<and>
     (\<forall>k. se_decrypt E (se_encrypt E k) = Some k)"

abbreviation bearer :: "string \<Rightarrow> server_req" where
  "bearer token \<equiv> \<lparr> rq_xfcc = None, rq_authorization = Some (''Bearer '' @ token) \<rparr>"

lemma split_bearer:
  assumes "CHR '' '' \<notin> set token"
  shows "py_split CHR '' '' (''Bearer '' @ token) = [''Bearer'', token]"
proof -
  have "py_split CHR '' '' (''Bearer'' @ CHR '' '' # token) = py_split CHR '' '' ''Bearer'' @ py_split CHR '' '' token"
    by (rule py_split_append_sep)
  also have "py_split CHR '' '' ''Bearer'' = [''Bearer'']" by (rule py_split_single) simp
  also have "py_split CHR '' '' token = [token]" by (rule py_split_single [OF assms])
  finally show ?thesis by simp
qed

lemma server_claims_get:
  "json_get (server_claims i t) ''server_id'' = JInt (int i)" "json_get (server_claims i t) ''type'' = JStr ''server''"
  by (simp_all add: server_claims_def json_get_def)

lemma server_claims_not_Nil: "server_claims i t \<noteq> []"
  by (simp add: server_claims_def)

lemma auth_of_minted:
  assumes "server_jwt_laws E" "server_at (int i) db = Some row" "se_decrypt E (ds_jwt_secret row) = Some k'" "0 < i"
  shows "server_auth_of E now (bearer (create_server_jwt E t i k)) db =
    (case decode_token_with E now (create_server_jwt E t i k) k' of None \<Rightarrow> Rejected 401 | Some p \<Rightarrow> if p = [] then Rejected 401 else Via_Jwt i)"
proof -
  let ?tok = "create_server_jwt E t i k"
  have u: "se_unverified E ?tok = Some (server_claims i t)" and ns: "CHR '' '' \<notin> set ?tok" and ne: "?tok \<noteq> []"
    using assms(1) by (auto simp: server_jwt_laws_def)
  have "ds_id row = i" using server_at_Some [OF assms(2)] by simp
  then have "verify_server_jwt_from_db E now ?tok db =
      (case decode_token_with E now ?tok k' of None \<Rightarrow> None | Some p \<Rightarrow> if p = [] then None else Some i)"
    using assms(2-4) by (simp add: verify_server_jwt_from_db_def u server_claims_get split: option.split)
  then show ?thesis using ne
    by (simp add: server_auth_of_def authenticate_server_via_spiffe_def resolve_dns_server_identity_def split_bearer [OF ns] py_split_single [OF ns]
        split: option.splits)
qed

text \<open>
  C19. A server that joins is served for a day: a server created in a reachable state registers with the
  key it was given, and the token of its registration opens its configuration route at every time from
  the registration until twenty-four hours later (to the second), with the zones and feeds of the tables.
\<close>

theorem registration_grants_access:
  assumes "server_reach E db" "server_jwt_laws E" "secret \<noteq> []"
    "create_dns_server E t0 key secret name region db = (Some (i, key'), db1)"
    "t1 \<le> now" "now < (t1 div 1000000 + 86400) * 1000000"
    "register_dns_server E t1 key' hostname version db1 = (r, db2)"
  shows "\<exists>token. r = Reply 200 (Registered_Body token i (current_config E t1 db2)) \<and>
    get_dns_server_config E now (bearer token) i db2 = (Reply 200 (Config_Body (current_config E now db2)), db2)"
proof -
  let ?row = "\<lparr> ds_id = i, ds_name = name, ds_join_key_hash = se_sha256 E key, ds_jwt_secret = se_encrypt E secret,
     ds_status = ''offline'', ds_last_heartbeat = None, ds_version = None, ds_region = region, ds_hostname = None,
     ds_created_at = t0, ds_updated_at = None \<rparr>"
  have inv: "db_inv db" by (rule reach_server_inv [OF assms(1)])
  have c: "i = sv_seq db" "key' = key" "sv_servers db1 = sv_servers db @ [?row]"
    "\<forall>r\<in>set (sv_servers db). ds_join_key_hash r \<noteq> se_sha256 E key"
    using assms(4) by (auto simp: create_dns_server_def list_ex_iff split: if_splits)
  have i: "0 < i" "\<forall>r\<in>set (sv_servers db). ds_id r \<noteq> i" using inv c(1) by (auto simp: server_inv_def)
  have dec: "se_decrypt E (se_encrypt E secret) = Some secret" using assms(2) by (simp add: server_jwt_laws_def)
  have k: "server_by_key E key' db1 = Some ?row"
  proof -
    have "find (\<lambda>r. ds_join_key_hash r = se_sha256 E key) (sv_servers db) = None" using c(4) by (simp add: find_None_iff)
    then show ?thesis by (simp add: server_by_key_def c(2,3) find_append)
  qed
  obtain h v where db2: "db2 = update_server i (\<lambda>r. r\<lparr> ds_hostname := Some h, ds_version := Some v, ds_status := ''online'',
             ds_last_heartbeat := Some t1, ds_updated_at := Some t1 \<rparr>) db1"
    and r: "r = Reply 200 (Registered_Body (create_server_jwt E t1 i secret) i (current_config E t1 db2))"
    using assms(7) by (auto simp: register_dns_server_def register_server_def k with_secret_def dec)
  have at: "\<exists>row. server_at (int i) db2 = Some row \<and> ds_jwt_secret row = se_encrypt E secret"
  proof -
    have "find (\<lambda>r. int (ds_id r) = int i) (map (\<lambda>r. if ds_id r = i then f r else r) (sv_servers db)) = None" for f
      using i(2) by (auto simp: find_None_iff)
    then show ?thesis using c(3) by (simp add: server_at_def db2 update_server_def find_append)
  qed
  then obtain row where row: "server_at (int i) db2 = Some row" "se_decrypt E (ds_jwt_secret row) = Some secret"
    using dec by auto
  have "decode_token_with E now (create_server_jwt E t1 i secret) secret = Some (server_claims i t1)"
  proof -
    have "t1 div 1000000 * 1000000 \<le> now" using assms(5) by linarith
    then have "t1 div 1000000 * 1000000 \<le> now + 0 * 1000000 \<and> now < (t1 div 1000000 + 86400 + 0) * 1000000"
      using assms(6) by simp
    then have "se_hs_decode E now 0 False secret (create_server_jwt E t1 i secret) = Some (server_claims i t1)"
      using assms(2) unfolding server_jwt_laws_def by blast
    then show ?thesis using assms(3) by (simp add: decode_token_with_def)
  qed
  then have "server_auth_of E now (bearer (create_server_jwt E t1 i secret)) db2 = Via_Jwt i"
    using auth_of_minted [OF assms(2) row i(1)] server_claims_not_Nil by simp
  then show ?thesis using r by (simp add: get_dns_server_config_def server_token_required_def)
qed

lemma server_at_update:
  assumes "\<And>r. ds_id (f r) = ds_id r"
  shows "server_at (int i) (update_server i f db) = map_option f (server_at (int i) db)"
proof -
  have "find (\<lambda>r. ds_id r = i) (map (\<lambda>r. if ds_id r = i then f r else r) rows) = map_option f (find (\<lambda>r. ds_id r = i) rows)" for rows
    using assms by (induction rows) auto
  then show ?thesis by (simp add: server_at_def update_server_def)
qed

text \<open>
  C20. A regenerated key shuts the server out at once: after the administrator regenerates the key of server
  \<open>i\<close>, no token minted for it under the former secret opens any server route at any time, and the former
  join key registers nothing.
\<close>

theorem revoked_server_shut_out:
  assumes "server_reach E db" "server_jwt_laws E" "server_at (int i) db = Some row"
    "se_decrypt E (ds_jwt_secret row) = Some old_secret" "se_sha256 E old_key = ds_join_key_hash row"
    "new_secret \<noteq> []" "new_secret \<noteq> old_secret" "se_sha256 E new_key \<noteq> se_sha256 E old_key"
    "regenerate_join_key E t0 new_key new_secret user i db = (Reply 200 b, db')"
  shows "server_auth_of E now (bearer (create_server_jwt E t i old_secret)) db' = Rejected 401 \<and>
    register_dns_server E now old_key hostname version db' = (Error_Reply 401, db')"
proof -
  let ?f = "\<lambda>r. r\<lparr> ds_join_key_hash := se_sha256 E new_key, ds_jwt_secret := se_encrypt E new_secret, ds_status := ''offline'',
    ds_updated_at := Some t0 \<rparr>"
  have inv: "db_inv db" by (rule reach_server_inv [OF assms(1)])
  have row: "row \<in> set (sv_servers db)" "ds_id row = i" using server_at_Some [OF assms(3)] by auto
  have ipos: "0 < i" using inv row by (auto simp: server_inv_def)
  have db': "db' = update_server i ?f db"
    using assms(9) by (auto simp: regenerate_join_key_def scope_guard_def revoke_join_key_def assms(3)
        split: outcome.splits if_splits)
  have at: "server_at (int i) db' = Some (?f row)"
    by (simp add: db' server_at_update assms(3))
  have dec: "se_decrypt E (ds_jwt_secret (?f row)) = Some new_secret"
    using assms(2) by (simp add: server_jwt_laws_def)
  have "decode_token_with E now (create_server_jwt E t i old_secret) new_secret = None"
    using assms(2,6,7) by (simp add: decode_token_with_def server_jwt_laws_def)
  then have out: "server_auth_of E now (bearer (create_server_jwt E t i old_secret)) db' = Rejected 401"
    using auth_of_minted [OF assms(2) at dec ipos] by simp
  have "distinct (map ds_join_key_hash (sv_servers db))" using inv by (simp add: server_inv_def)
  then have "ds_join_key_hash r \<noteq> se_sha256 E old_key" if "r \<in> set (sv_servers db)" "ds_id r \<noteq> i" for r
    using row that assms(5) by (metis distinct_map inj_onD)
  then have "find (\<lambda>r. ds_join_key_hash r = se_sha256 E old_key) (sv_servers db') = None"
    using assms(8) by (auto simp: find_None_iff db' update_server_def)
  then have "register_dns_server E now old_key hostname version db' = (Error_Reply 401, db')"
    by (simp add: register_dns_server_def register_server_def server_by_key_def)
  with out show ?thesis by simp
qed

text \<open>
  No one learns the regenerated key: the reply of the route is the same whatever key and secret were
  drawn (as long as the key is new), so the server that has to register again has nothing to register with.
\<close>

theorem regenerated_key_never_disclosed:
  assumes "list_all (\<lambda>r. ds_join_key_hash r \<noteq> se_sha256 E k1 \<and> ds_join_key_hash r \<noteq> se_sha256 E k2) (sv_servers db)"
  shows "fst (regenerate_join_key E t k1 s1 user i db) = fst (regenerate_join_key E t k2 s2 user i db)"
proof -
  have "\<not> list_ex (\<lambda>r. ds_id r \<noteq> i \<and> ds_join_key_hash r = se_sha256 E k) (sv_servers db)" if "k \<in> {k1, k2}" for k
    using assms that by (auto simp: list_all_iff list_ex_iff)
  then show ?thesis
    by (simp add: regenerate_join_key_def scope_guard_def revoke_join_key_def split: option.split outcome.split)
qed

text \<open>
  A new token for a server is minted by the gRPC refresh call only for a caller that shows a token the
  server's secret verifies (at most five minutes past its expiry) and that names this server, or its join key.
\<close>

theorem grpc_refresh_needs_proof:
  assumes "RefreshToken E now sid presented key db = Refresh_Response token"
  shows "\<exists>row k. row \<in> set (sv_servers db) \<and> py_int sid = Some (int (ds_id row)) \<and> se_decrypt E (ds_jwt_secret row) = Some k \<and>
    token = create_server_jwt E now (ds_id row) k \<and>
    ((\<exists>c. se_hs_decode E now 300 True k (py_strip presented) = Some c \<and> json_get c ''server_id'' = JInt (int (ds_id row)) \<and>
        json_get c ''type'' = JStr ''server'') \<or>
     (\<exists>key_row\<in>set (sv_servers db). ds_id key_row = ds_id row \<and> ds_join_key_hash key_row = se_sha256 E (py_strip key)))"
proof -
  obtain i row where r: "py_int sid = Some i" "server_at i db = Some row"
    using assms by (auto simp: RefreshToken_def Let_def split: option.splits)
  have row: "row \<in> set (sv_servers db)" "i = int (ds_id row)" using server_at_Some [OF r(2)] by auto
  obtain k where k: "se_decrypt E (ds_jwt_secret row) = Some k" "token = create_server_jwt E now (ds_id row) k"
    using assms by (auto simp: RefreshToken_def Let_def r split: option.splits if_splits)
  show ?thesis
  proof (cases "presented_jwt_ok E now (py_strip presented) row")
    case True
    then have "\<exists>c. se_hs_decode E now 300 True k (py_strip presented) = Some c \<and> json_get c ''server_id'' = JInt (int (ds_id row)) \<and>
        json_get c ''type'' = JStr ''server''"
      by (auto simp: presented_jwt_ok_def k decode_server_jwt_with_grace_def split: option.splits if_splits)
    then show ?thesis using row r k by blast
  next
    case False
    then obtain key_row s where v: "validate_join_key E (py_strip key) db = Some (Some (key_row, s))" "ds_id key_row = ds_id row"
      using assms by (auto simp: RefreshToken_def Let_def r split: option.splits if_splits)
    then have "key_row \<in> set (sv_servers db) \<and> ds_join_key_hash key_row = se_sha256 E (py_strip key)"
      by (auto simp: validate_join_key_def server_by_key_def with_secret_def find_Some_iff split: option.splits)
    then show ?thesis using row r k v(2) by blast
  qed
qed

section \<open>What the gRPC service does not deliver\<close>

text \<open>
  The gRPC token check finds no token valid, whatever the tables hold: for a valid token it iterates over
  the team number, which raises, and the handler turns the exception into an invalid answer.
\<close>

lemma grpc_validates_no_token:
  "fst (ValidateToken E now token db) = Validate_Response False []"
  by (auto simp: ValidateToken_def iterate_team_def split: prod.splits option.splits)

text \<open>
  The feeds of a configuration delivered over gRPC block nothing: a DNS server that loads them blocks no
  name, although the REST route delivers the same feeds with their entries.
\<close>

theorem grpc_feeds_block_nothing:
  assumes "GetConfig E now sid db = Config_Response m v"
  shows "\<not> is_blocked (load_feeds L (pc_ioc_feeds m) st) d \<and> \<not> is_ip_blocked L (load_feeds L (pc_ioc_feeds m) st) ip"
proof -
  have "list_all (\<lambda>f. feed_entries f = []) (pc_ioc_feeds m)"
    using assms by (auto simp: GetConfig_def build_config_message_def list_all_iff split: option.splits if_splits)
  then have "feed_indicators (pc_ioc_feeds m) = {}" by (auto simp: feed_indicators_def list_all_iff)
  then show ?thesis
    by (auto simp: is_blocked_state is_ip_blocked_def Let_def list_ex_iff load_feeds_state exact_of_def wild_of_def
        singles_of_def cidrs_of_def nets_of_def split: option.splits)
qed

section \<open>SPIFFE identities resolve to the server they name\<close>

lemma int_digits_foldl:
  "\<lbrakk> list_all is_digit s; s \<noteq> [] \<or> after_digit \<rbrakk> \<Longrightarrow>
     int_digits after_digit acc s = Some (foldl (\<lambda>a c. 10 * a + digit_val c) acc s)"
  by (induction s arbitrary: after_digit acc) auto

lemma strip_trimmed:
  assumes "s \<noteq> []" "\<not> py_isspace (hd s)" "\<not> py_isspace (last s)"
  shows "py_strip s = s"
proof -
  have "dropWhile py_isspace s = s" using assms by (cases s) auto
  moreover have "dropWhile py_isspace (rev s) = rev s" using assms by (cases "rev s") (auto simp: last_rev hd_rev)
  ultimately show ?thesis by (simp add: py_strip_def py_rstrip_by_def)
qed

lemma digit_not_space: "is_digit c \<Longrightarrow> \<not> py_isspace c"
  by (auto simp: is_digit_def py_isspace_def Let_def)

lemma py_int_dec: "py_int (dec n) = Some (int n)"
proof -
  have d: "list_all is_digit (dec n)" by (rule dec_digits)
  obtain c cs where c: "dec n = c # cs" using dec_not_Nil [of n] by (cases "dec n") auto
  have h: "is_digit c" "list_all is_digit (c # cs)" using d by (simp_all add: c)
  have "last (dec n) \<in> set (dec n)" using dec_not_Nil by (rule last_in_set)
  then have "py_strip (dec n) = dec n"
    using d h by (intro strip_trimmed) (auto simp: list_all_iff digit_not_space c)
  moreover have "int_digits False 0 (c # cs) = Some (dec_val (dec n))"
    using int_digits_foldl [OF h(2), of False 0] by (simp add: dec_val_def c)
  moreover have "c \<noteq> CHR ''-''" "c \<noteq> CHR ''+''" using h(1) by (auto simp: is_digit_def)
  ultimately show ?thesis using c dec_val_dec [of n] by (simp add: py_int_def del: int_digits.simps dec_val_dec)
qed

definition plain_segment :: "string \<Rightarrow> bool" where
  "plain_segment s \<longleftrightarrow> s \<noteq> [] \<and> list_all (\<lambda>c. c \<notin> {CHR ''/'', CHR '','', CHR '';''}) s"

definition server_spiffe_id :: "string \<Rightarrow> string \<Rightarrow> nat \<Rightarrow> spiffe_id" where
  "server_spiffe_id td env n = \<lparr> sp_trust_domain = td, sp_segments = [env, DNS_SERVER_SERVICE, dec n] \<rparr>"

lemma plain_dec: "plain_segment (dec n)"
  using dec_digits [of n] by (auto simp: plain_segment_def list_all_iff is_digit_def)

lemma plain_free: "plain_segment s \<Longrightarrow> c \<in> {CHR ''/'', CHR '','', CHR '';''} \<Longrightarrow> c \<notin> set s"
  unfolding plain_segment_def list_all_iff by blast

lemma plain_service: "plain_segment DNS_SERVER_SERVICE"
  by (simp add: plain_segment_def DNS_SERVER_SERVICE_def)

lemma spiffe_str_server:
  "spiffe_str (server_spiffe_id td env n) = SPIFFE_SCHEME @ py_join CHR ''/'' [td, env, DNS_SERVER_SERVICE, dec n]"
  by (simp add: spiffe_str_def server_spiffe_id_def)

lemma spiffe_parse_server:
  assumes "plain_segment td" "plain_segment env"
  shows "spiffe_parse (spiffe_str (server_spiffe_id td env n)) = Some (server_spiffe_id td env n)"
proof -
  have free: "CHR ''/'' \<notin> set w" if "w \<in> set [td, env, DNS_SERVER_SERVICE, dec n]" for w
    using that assms plain_dec [of n] plain_service plain_free [of w "CHR ''/''"] by auto
  have s: "py_split CHR ''/'' (py_join CHR ''/'' [td, env, DNS_SERVER_SERVICE, dec n]) = [td, env, DNS_SERVER_SERVICE, dec n]"
    by (rule py_split_join) (use free in auto)
  have ne: "td \<noteq> []" "env \<noteq> []" using assms by (auto simp: plain_segment_def)
  have parse: "spiffe_parse (SPIFFE_SCHEME @ y) = (case py_split CHR ''/'' y of
      td # path \<Rightarrow> (if td = [] then None else Some \<lparr> sp_trust_domain = td, sp_segments = filter (\<lambda>s. s \<noteq> []) path \<rparr>)
    | [] \<Rightarrow> None)" for y
    by (simp add: spiffe_parse_def SPIFFE_SCHEME_def)
  show ?thesis unfolding spiffe_str_server parse s using ne by (simp add: server_spiffe_id_def DNS_SERVER_SERVICE_def)
qed

text \<open>
  A SPIFFE identity in the forwarded header resolves to the server it names: the identity
  \<^verbatim>\<open>spiffe://td/env/dns-server/n\<close>, printed into the header and resolved in its trust domain, gives
  environment and number back.
\<close>

theorem spiffe_identity_roundtrip:
  assumes "plain_segment td" "plain_segment env"
  shows "resolve_dns_server_identity (Some (''By=mesh;URI='' @ spiffe_str (server_spiffe_id td env n))) td =
    Some \<lparr> di_env = env, di_server_id = int n, di_spiffe_id = spiffe_str (server_spiffe_id td env n) \<rparr>"
proof -
  let ?u = "spiffe_str (server_spiffe_id td env n)"
  have ulist: "set ?u \<subseteq> set SPIFFE_SCHEME \<union> {CHR ''/''} \<union> set td \<union> set env \<union> set DNS_SERVER_SERVICE \<union> set (dec n)"
    unfolding spiffe_str_server by auto
  have free: "c \<notin> set ?u" if c: "c \<in> {CHR '','', CHR '';''}" for c
  proof -
    have "c \<notin> set td" "c \<notin> set env" "c \<notin> set DNS_SERVER_SERVICE" "c \<notin> set (dec n)"
      using c plain_free [of _ c] assms plain_dec [of n] plain_service by auto
    moreover have "c \<notin> set SPIFFE_SCHEME" "c \<noteq> CHR ''/''" using c by (auto simp: SPIFFE_SCHEME_def)
    ultimately show ?thesis using ulist by blast
  qed
  have l: "last ?u = last (dec n)" "is_digit (last (dec n))"
    using dec_digits [of n] by (auto simp: spiffe_str_server list_all_iff DNS_SERVER_SERVICE_def)
  have hd: "?u \<noteq> []" "hd ?u = CHR ''s''" by (simp_all add: spiffe_str_server SPIFFE_SCHEME_def)
  have strip: "py_strip ?u = ?u"
    by (rule strip_trimmed [OF hd(1)]) (simp_all add: hd(2) l(1) digit_not_space l(2), simp add: py_isspace_def)
  have unq: "spiffe_unquote ?u = ?u" by (simp add: spiffe_unquote_def strip Let_def hd(2))
  have c: "py_split CHR '','' (''By=mesh;URI='' @ ?u) = [''By=mesh;URI='' @ ?u]"
    by (rule py_split_single) (use free in auto)
  have sc: "py_split CHR '';'' (''By=mesh'' @ CHR '';'' # (''URI='' @ ?u)) = [''By=mesh'', ''URI='' @ ?u]"
    using py_split_append_sep [of "CHR '';''" "''By=mesh''" "''URI='' @ ?u"] py_split_single [of "CHR '';''" "''URI='' @ ?u"] free
    by simp
  have p: "py_startswith ?u SPIFFE_SCHEME" by (simp add: spiffe_str_server)
  have key: "py_lower (py_strip ''URI'') = ''uri''" "py_lower (py_strip ''By'') = ''by''" by code_simp+
  have x: "xfcc_uri (''URI='' @ ?u) = [?u]" using key(1) p by (simp add: xfcc_uri_def Let_def unq)
  have x': "xfcc_uri ''By=mesh'' = []" using key(2) by (simp add: xfcc_uri_def Let_def)
  have e: "extract_spiffe_ids_from_xfcc (''By=mesh;URI='' @ ?u) = [?u]"
    using c sc x x' by (simp add: extract_spiffe_ids_from_xfcc_def del: py_split.simps)
  have "identity_of td ?u = Some \<lparr> di_env = env, di_server_id = int n, di_spiffe_id = ?u \<rparr>"
    using assms dec_digits [of n]
    by (simp add: identity_of_def spiffe_parse_server in_trust_domain_def plain_segment_def)
       (simp add: server_spiffe_id_def py_int_dec)
  then show ?thesis using assms(1) by (simp add: resolve_dns_server_identity_def e plain_segment_def del: append.simps)
qed

theorem spiffe_identity_roundtrip_witness:
  "resolve_dns_server_identity (Some (''By=mesh;URI='' @ spiffe_str (server_spiffe_id ''penguintech.io'' ''beta'' 12))) ''penguintech.io'' =
    Some \<lparr> di_env = ''beta'', di_server_id = int 12, di_spiffe_id = spiffe_str (server_spiffe_id ''penguintech.io'' ''beta'' 12) \<rparr>"
  by (rule spiffe_identity_roundtrip) (simp_all add: plain_segment_def)

section \<open>A concrete Manager\<close>

text \<open>Tokens that carry server, time of issue and secret as one number; Fernet and SHA-256 are tags.\<close>

definition sample_claims :: "int \<Rightarrow> int \<Rightarrow> claims" where
  "sample_claims i t = [(''server_id'', JInt i), (''type'', JStr ''server''), (''exp'', JInt (t + 86400)), (''iat'', JInt t)]"

definition json_number :: "json \<Rightarrow> int" where
  "json_number j = (case j of JInt i \<Rightarrow> i | _ \<Rightarrow> 0)"

definition sample_read :: "string \<Rightarrow> int \<times> int \<times> string" where
  "sample_read token = from_nat (dec_val token)"

definition sample_servers :: server_env where
  "sample_servers = \<lparr> se_sha256 = (\<lambda>s. ''#'' @ s), se_encrypt = (\<lambda>s. ''$'' @ s), se_decrypt = (\<lambda>s. if s = [] then None else Some (tl s)),
     se_encode = (\<lambda>c k. dec (to_nat (json_number (json_get c ''server_id''), json_number (json_get c ''iat''), k))),
     se_unverified = (\<lambda>token. case sample_read token of (i, t, k) \<Rightarrow> Some (sample_claims i t)),
     se_hs_decode = (\<lambda>now leeway req k' token. case sample_read token of (i, t, k) \<Rightarrow>
        if k = k' \<and> t * 1000000 \<le> now + leeway * 1000000 \<and> now < (t + 86400 + leeway) * 1000000 then Some (sample_claims i t) else None),
     se_user_decode = (\<lambda>now token. None), se_spiffe_enabled = False, se_trust_domain = [], se_hash = (\<lambda>s. 0),
     se_latest = (\<lambda>es. None), se_conf = (\<lambda>k d. d), se_settings_ok = True \<rparr>"

lemma sample_minted [simp]: "sample_read (create_server_jwt sample_servers t i k) = (int i, t div 1000000, k)"
  by (simp add: sample_read_def create_server_jwt_def sample_servers_def server_claims_def json_get_def json_number_def)

lemma sample_laws: "server_jwt_laws sample_servers"
proof -
  have c: "server_claims i t = sample_claims (int i) (t div 1000000)" for i t
    by (simp add: server_claims_def sample_claims_def)
  have u: "se_unverified sample_servers tok = (case sample_read tok of (i, t, k) \<Rightarrow> Some (sample_claims i t))" for tok
    by (simp add: sample_servers_def)
  have h: "se_hs_decode sample_servers now leeway req k' tok = (case sample_read tok of (i, t, k) \<Rightarrow>
      if k = k' \<and> t * 1000000 \<le> now + leeway * 1000000 \<and> now < (t + 86400 + leeway) * 1000000 then Some (sample_claims i t) else None)"
    for now leeway req k' tok by (simp add: sample_servers_def)
  have d: "CHR '' '' \<notin> set (create_server_jwt sample_servers t i k) \<and> create_server_jwt sample_servers t i k \<noteq> []" for t i k
    using dec_digits by (auto simp: create_server_jwt_def sample_servers_def list_all_iff is_digit_def) force
  have e: "se_decrypt sample_servers (se_encrypt sample_servers k) = Some k" for k by (simp add: sample_servers_def)
  show ?thesis unfolding server_jwt_laws_def u h c using d by (simp add: e)
qed

definition sample_state :: "(nat \<times> nat) server_db" where
  "sample_state = \<lparr> sv_servers = [], sv_metrics = [], sv_seq = 1, sv_zones = [], sv_records = [], sv_ioc = ioc_mgr_init, sv_tokens = [] \<rparr>"

definition sample_joined :: "(nat \<times> nat) server_db" where
  "sample_joined = snd (create_dns_server sample_servers 0 ''key'' ''secret'' ''ns1'' ''default'' sample_state)"

lemma sample_join:
  "create_dns_server sample_servers 0 ''key'' ''secret'' ''ns1'' ''default'' sample_state = (Some (1, ''key''), sample_joined)"
  by (simp add: sample_joined_def create_dns_server_def sample_state_def)

lemma sample_joined_rows: "sv_servers sample_joined =
    [\<lparr> ds_id = 1, ds_name = ''ns1'', ds_join_key_hash = ''#key'', ds_jwt_secret = ''$secret'', ds_status = ''offline'', ds_last_heartbeat = None,
       ds_version = None, ds_region = ''default'', ds_hostname = None, ds_created_at = 0, ds_updated_at = None \<rparr>]"
  by (simp add: sample_joined_def create_dns_server_def sample_state_def sample_servers_def)

lemma sample_reach: "server_reach sample_servers sample_state"
  by (rule server_reach.init) (simp_all add: sample_state_def)

lemma sample_joined_reach: "server_reach sample_servers sample_joined"
proof -
  have "sample_joined = snd (create_dns_server_route sample_servers 0 ''key'' ''secret'' (Some \<lparr> cu_user_id = JNull, cu_username = JNull, cu_scope = JStr ''servers:write'',
      cu_global_role = JNull, cu_team_roles = [] \<rparr>) ''ns1'' None sample_state)"
    by (simp add: create_dns_server_route_def sample_join scope_guard_def requires_scope_def user_scopes_def py_words_def py_isspace_def)
  then show ?thesis using server_reach.create [OF sample_reach] by metis
qed

theorem registration_grants_access_witness:
  "\<exists>token. fst (register_dns_server sample_servers 5000000 ''key'' None None sample_joined) =
      Reply 200 (Registered_Body token 1 (current_config sample_servers 5000000 (snd (register_dns_server sample_servers 5000000 ''key'' None None sample_joined)))) \<and>
    get_dns_server_config sample_servers 60000000 (bearer token) 1 (snd (register_dns_server sample_servers 5000000 ''key'' None None sample_joined)) =
      (Reply 200 (Config_Body (current_config sample_servers 60000000 (snd (register_dns_server sample_servers 5000000 ''key'' None None sample_joined)))),
       snd (register_dns_server sample_servers 5000000 ''key'' None None sample_joined))"
  by (rule registration_grants_access [OF sample_reach sample_laws _ sample_join]) simp_all

definition sample_admin :: "current_user option" where
  "sample_admin = Some \<lparr> cu_user_id = JNull, cu_username = JNull, cu_scope = JStr ''servers:admin'', cu_global_role = JNull, cu_team_roles = [] \<rparr>"

lemma sample_regenerate:
  "regenerate_join_key sample_servers 9 ''new'' ''other'' sample_admin 1 sample_joined =
    (Reply 200 (Message_Body 1), snd (regenerate_join_key sample_servers 9 ''new'' ''other'' sample_admin 1 sample_joined))"
proof -
  have "fst (regenerate_join_key sample_servers 9 ''new'' ''other'' sample_admin 1 sample_joined) = Reply 200 (Message_Body 1)"
    by (simp add: regenerate_join_key_def scope_guard_def requires_scope_def user_scopes_def py_words_def py_isspace_def sample_admin_def
        revoke_join_key_def server_at_def sample_joined_rows)
  then show ?thesis by (metis prod.collapse)
qed

theorem revoked_server_shut_out_witness:
  "server_auth_of sample_servers 60000000 (bearer (create_server_jwt sample_servers 5000000 1 ''secret''))
     (snd (regenerate_join_key sample_servers 9 ''new'' ''other'' sample_admin 1 sample_joined)) = Rejected 401 \<and>
   register_dns_server sample_servers 60000000 ''key'' None None
     (snd (regenerate_join_key sample_servers 9 ''new'' ''other'' sample_admin 1 sample_joined)) =
     (Error_Reply 401, snd (regenerate_join_key sample_servers 9 ''new'' ''other'' sample_admin 1 sample_joined))"
  by (rule revoked_server_shut_out [where row = "hd (sv_servers sample_joined)" and old_secret = "''secret''" and new_secret = "''other''"
        and new_key = "''new''", OF sample_joined_reach sample_laws _ _ _ _ _ _ sample_regenerate])
     (simp_all add: server_at_def sample_joined_rows, simp_all add: sample_servers_def)

theorem regenerated_key_never_disclosed_witness:
  "fst (regenerate_join_key sample_servers 9 ''new'' ''other'' sample_admin 1 sample_joined) =
   fst (regenerate_join_key sample_servers 9 ''newer'' ''third'' sample_admin 1 sample_joined)"
  by (rule regenerated_key_never_disclosed) (simp add: sample_joined_rows, simp add: sample_servers_def)

lemma sample_token_authentic:
  "get_dns_server_config sample_servers 60000000 (bearer (create_server_jwt sample_servers 5000000 1 ''secret'')) 1 sample_joined =
     (Reply 200 (Config_Body (current_config sample_servers 60000000 sample_joined)), sample_joined)"
proof -
  have at: "server_at (int 1) sample_joined = Some (hd (sv_servers sample_joined))" by (simp add: server_at_def sample_joined_rows)
  have dec: "se_decrypt sample_servers (ds_jwt_secret (hd (sv_servers sample_joined))) = Some ''secret''"
    by (simp add: sample_joined_rows) (simp add: sample_servers_def)
  have "decode_token_with sample_servers 60000000 (create_server_jwt sample_servers 5000000 1 ''secret'') ''secret'' = Some (server_claims 1 5000000)"
    using sample_laws by (simp add: decode_token_with_def server_jwt_laws_def)
  then have "server_auth_of sample_servers 60000000 (bearer (create_server_jwt sample_servers 5000000 1 ''secret'')) sample_joined = Via_Jwt 1"
    using auth_of_minted [OF sample_laws at dec] server_claims_not_Nil by simp
  then show ?thesis by (simp add: get_dns_server_config_def server_token_required_def)
qed

theorem server_route_authenticated_witness:
  "proves_server sample_servers 60000000 (bearer (create_server_jwt sample_servers 5000000 1 ''secret'')) 1 sample_joined"
  by (rule server_route_authenticated [where body = None and db = sample_joined and db' = sample_joined and
        route = "get_dns_server_config sample_servers 60000000 (bearer (create_server_jwt sample_servers 5000000 1 ''secret'')) 1" and
        r = "Reply 200 (Config_Body (current_config sample_servers 60000000 sample_joined))"])
     (simp, rule sample_token_authentic, blast)

lemma sample_refresh:
  "RefreshToken sample_servers 60000000 ''1'' [] ''key'' sample_joined = Refresh_Response (create_server_jwt sample_servers 60000000 1 ''secret'')"
proof -
  have s: "py_strip ''1'' = ''1''" "py_strip ''key'' = ''key''" "py_strip [] = []" by code_simp+
  have i: "py_int ''1'' = Some 1" by code_simp
  have h: "se_sha256 sample_servers k = ''#'' @ k" "se_decrypt sample_servers (CHR ''$'' # x) = Some x" for k x
    by (simp_all add: sample_servers_def)
  show ?thesis
    by (simp add: RefreshToken_def i s server_at_def sample_joined_rows presented_jwt_ok_def validate_join_key_def
        server_by_key_def with_secret_def h)
qed

theorem grpc_refresh_needs_proof_witness:
  "\<exists>row k. row \<in> set (sv_servers sample_joined) \<and> py_int ''1'' = Some (int (ds_id row)) \<and>
    se_decrypt sample_servers (ds_jwt_secret row) = Some k \<and>
    create_server_jwt sample_servers 60000000 1 ''secret'' = create_server_jwt sample_servers 60000000 (ds_id row) k \<and>
    ((\<exists>c. se_hs_decode sample_servers 60000000 300 True k (py_strip []) = Some c \<and> json_get c ''server_id'' = JInt (int (ds_id row)) \<and>
        json_get c ''type'' = JStr ''server'') \<or>
     (\<exists>key_row\<in>set (sv_servers sample_joined). ds_id key_row = ds_id row \<and>
        ds_join_key_hash key_row = se_sha256 sample_servers (py_strip ''key'')))"
  by (rule grpc_refresh_needs_proof [OF sample_refresh])

theorem grpc_feeds_block_nothing_witness:
  "\<exists>m v. GetConfig sample_servers 0 ''1'' (sample_state\<lparr> sv_ioc := demo_feed_state \<rparr>) = Config_Response m v \<and> pc_ioc_feeds m \<noteq> [] \<and>
    \<not> is_blocked (load_feeds ipv4_lib (pc_ioc_feeds m) ioc_init) ''evil.example'' \<and>
    \<not> is_ip_blocked ipv4_lib (load_feeds ipv4_lib (pc_ioc_feeds m) ioc_init) ''192.0.2.1''"
proof -
  have "case GetConfig sample_servers 0 ''1'' (sample_state\<lparr> sv_ioc := demo_feed_state \<rparr>) of
      Config_Response m v \<Rightarrow> pc_ioc_feeds m \<noteq> [] | _ \<Rightarrow> False" by code_simp
  then obtain m v where "GetConfig sample_servers 0 ''1'' (sample_state\<lparr> sv_ioc := demo_feed_state \<rparr>) = Config_Response m v"
    "pc_ioc_feeds m \<noteq> []" by (auto split: grpc_reply.splits)
  with grpc_feeds_block_nothing [OF this(1)] show ?thesis by blast
qed

end
