(* ===== verification/Dns_Metrics.thy ===== *)
theory Dns_Metrics
  imports Prelude "HOL-Library.Multiset" Complex_Main
begin

text \<open>
  The metrics of the DNS server (\<^verbatim>\<open>dns-server/app/services/prometheus_metrics.py\<close>): the counters it
  increments, with their labels, the in-memory statistics behind them and the summary the server sends to
  the Manager. The Prometheus library is represented by the list of increments asked of it; SHA-256 is a
  parameter. A default dict is an association list in the order of first insertion. Averages and rates are
  exact rationals.
\<close>

section \<open>State\<close>

text \<open>Increments and observations with their labels, in the order of the constructor's comment in the code.\<close>

datatype metric_inc =
    Queries_Total string string string
  | Cache_Hits string
  | Cache_Misses string
  | Query_Duration string string rat
  | Blocked_Queries string
  | User_Queries string string
  | Auth_Failures string
  | Policy_Denials string
  | Rate_Limit_Requests string string
  | Rate_Limit_Exceeded string
  | Upstream_Duration string rat
  | Cache_Entries nat
  | Cache_Hit_Rate rat
  | Ioc_Entries string nat
  | Server_Health bool
  | Top_Domain string nat nat

record metrics_state =
  pm_log :: "metric_inc list"
  pm_query_stats :: "(string \<times> nat) list"
  pm_times :: "rat list"
  pm_domains :: "(string \<times> nat) list"
  pm_errors :: "(string \<times> nat) list"
  pm_hit_rate :: rat

definition metrics_init :: metrics_state where
  "metrics_init = \<lparr> pm_log = [], pm_query_stats = [], pm_times = [], pm_domains = [], pm_errors = [], pm_hit_rate = 0 \<rparr>"

definition MAX_TOP_DOMAINS :: nat where
  "MAX_TOP_DOMAINS = 1000"

definition MAX_RESPONSE_TIMES :: nat where
  "MAX_RESPONSE_TIMES = 1000"

fun bump :: "string \<Rightarrow> (string \<times> nat) list \<Rightarrow> (string \<times> nat) list" where
  "bump k [] = [(k, 1)]"
| "bump k ((k', n) # rest) = (if k' = k then (k', n + 1) # rest else (k', n) # bump k rest)"

text \<open>The entries with the highest counts first; among equal counts the order is kept.\<close>

definition most_common :: "nat \<Rightarrow> (string \<times> nat) list \<Rightarrow> (string \<times> nat) list" where
  "most_common n counts = take n (sort_key (\<lambda>e. - int (snd e)) counts)"

section \<open>Recording\<close>

definition sanitize_source :: "(string \<Rightarrow> string) \<Rightarrow> string \<Rightarrow> string" where
  "sanitize_source sha256 source =
     (if source = [] then ''unknown''
      else if 64 < length source \<or> 2 \<le> length (filter (\<lambda>c. c = CHR ''.'') source) then take 8 (sha256 source)
      else source)"

definition user_type_from_token :: "string \<Rightarrow> string" where
  "user_type_from_token token_hash =
     (if sublist ''enterprise'' (py_lower token_hash) then ''enterprise''
      else if sublist ''premium'' (py_lower token_hash) then ''premium'' else ''community'')"

record query_record =
  qr_domain :: string
  qr_type :: string
  qr_status :: string
  qr_time :: rat
  qr_cache_hit :: bool
  qr_token_hash :: "string option"
  qr_source :: string
  qr_blocked :: bool
  qr_block_reason :: "string option"
  qr_identity_type :: "string option"

definition query_increments :: "(string \<Rightarrow> string) \<Rightarrow> query_record \<Rightarrow> metric_inc list" where
  "query_increments sha256 q =
     (if truthy (qr_identity_type q) then [Rate_Limit_Requests ''allowed'' (the (qr_identity_type q))] else [])
     @ [Queries_Total (qr_type q) (qr_status q) (sanitize_source sha256 (qr_source q))]
     @ [if qr_cache_hit q then Cache_Hits (qr_type q) else Cache_Misses (qr_type q)]
     @ [Query_Duration (qr_type q) (if qr_cache_hit q then ''hit'' else ''miss'') (qr_time q)]
     @ (if qr_blocked q then [Blocked_Queries (the (py_or (qr_block_reason q) (Some ''unknown'')))] else [])
     @ (if truthy (qr_token_hash q)
        then [User_Queries (take 8 (the (qr_token_hash q))) (user_type_from_token (the (qr_token_hash q)))] else [])"

definition record_query :: "(string \<Rightarrow> string) \<Rightarrow> query_record \<Rightarrow> metrics_state \<Rightarrow> metrics_state" where
  "record_query sha256 q s =
     (let times = pm_times s @ [qr_time q];
          domains = bump (qr_domain q) (pm_domains s)
      in \<lparr> pm_log = pm_log s @ query_increments sha256 q,
           pm_query_stats = bump (qr_type q @ ''_'' @ qr_status q) (pm_query_stats s),
           pm_times = drop (length times - MAX_RESPONSE_TIMES) times,
           pm_domains = (if MAX_TOP_DOMAINS < length domains then most_common MAX_TOP_DOMAINS domains else domains),
           pm_errors = (if qr_status q \<noteq> ''success'' then bump (qr_status q) (pm_errors s) else pm_errors s),
           pm_hit_rate = pm_hit_rate s \<rparr>)"

definition log_inc :: "metric_inc list \<Rightarrow> metrics_state \<Rightarrow> metrics_state" where
  "log_inc incs s = s\<lparr> pm_log := pm_log s @ incs \<rparr>"

definition record_authentication_failure :: "string \<Rightarrow> metrics_state \<Rightarrow> metrics_state" where
  "record_authentication_failure failure_type = log_inc [Auth_Failures failure_type]"

definition record_policy_denial :: "string \<Rightarrow> metrics_state \<Rightarrow> metrics_state" where
  "record_policy_denial outcome = log_inc [Policy_Denials outcome]"

definition record_rate_limited_query :: "string \<Rightarrow> metrics_state \<Rightarrow> metrics_state" where
  "record_rate_limited_query identity_type =
     log_inc [Rate_Limit_Requests ''limited'' identity_type, Rate_Limit_Exceeded identity_type]"

definition record_upstream_query :: "string \<Rightarrow> rat \<Rightarrow> metrics_state \<Rightarrow> metrics_state" where
  "record_upstream_query upstream response_time = log_inc [Upstream_Duration upstream response_time]"

definition update_cache_stats :: "nat \<Rightarrow> rat \<Rightarrow> metrics_state \<Rightarrow> metrics_state" where
  "update_cache_stats total_entries hit_rate s =
     (log_inc [Cache_Entries total_entries, Cache_Hit_Rate hit_rate] s)\<lparr> pm_hit_rate := hit_rate \<rparr>"

definition update_ioc_stats :: "(string \<times> nat) list \<Rightarrow> metrics_state \<Rightarrow> metrics_state" where
  "update_ioc_stats feed_details = log_inc (map (\<lambda>(name, n). Ioc_Entries name n) feed_details)"

definition update_server_health :: "bool \<Rightarrow> metrics_state \<Rightarrow> metrics_state" where
  "update_server_health is_healthy = log_inc [Server_Health is_healthy]"

definition safe_domain :: "string \<Rightarrow> string" where
  "safe_domain domain = take 50 (map (\<lambda>c. if c = CHR ''.'' \<or> c = CHR ''-'' then CHR ''_'' else c) domain)"

definition update_top_domains :: "nat \<Rightarrow> metrics_state \<Rightarrow> metrics_state" where
  "update_top_domains limit s =
     log_inc (map (\<lambda>(rank, (domain, n)). Top_Domain (safe_domain domain) rank n)
       (zip [1..<limit + 1] (most_common limit (pm_domains s)))) s"

definition reset_periodic_stats :: "metrics_state \<Rightarrow> metrics_state" where
  "reset_periodic_stats s = s\<lparr> pm_times := [] \<rparr>"

text \<open>The summary; \<open>show\<close> is the JSON form of a number that is no integer.\<close>

definition total_queries :: "metrics_state \<Rightarrow> nat" where
  "total_queries s = sum_list (map snd (pm_query_stats s))"

definition get_current_stats :: "(rat \<Rightarrow> json) \<Rightarrow> metrics_state \<Rightarrow> (string \<times> json) list" where
  "get_current_stats show s =
     [(''total_queries'', JInt (int (total_queries s))),
      (''average_response_time_ms'',
         show ((if pm_times s = [] then 0 else sum_list (pm_times s) / of_nat (length (pm_times s))) * 1000)),
      (''cache_hit_rate'', show (pm_hit_rate s)),
      (''error_rate'', show (of_nat (sum_list (map snd (pm_errors s))) / of_nat (max (total_queries s) 1))),
      (''top_domains'', JObj (map (\<lambda>(d, n). (d, JInt (int n))) (most_common 10 (pm_domains s))))]"

section \<open>Lemmas\<close>

lemma bump_keys: "set (map fst (bump k cs)) = insert k (set (map fst cs))"
  by (induction k cs rule: bump.induct) auto

lemma bump_distinct: "distinct (map fst cs) \<Longrightarrow> distinct (map fst (bump k cs))"
  by (induction k cs rule: bump.induct) (auto simp: bump_keys [unfolded set_map] image_iff)

lemma bump_length: "length (bump k cs) \<le> length cs + 1"
  by (induction k cs rule: bump.induct) auto

lemma bump_sum: "sum_list (map snd (bump k cs)) = sum_list (map snd cs) + 1"
  by (induction k cs rule: bump.induct) auto

lemma most_common_length: "length (most_common n cs) \<le> n"
  by (simp add: most_common_def)

lemma most_common_distinct: "distinct (map fst cs) \<Longrightarrow> distinct (map fst (most_common n cs))"
proof -
  assume d: "distinct (map fst cs)"
  have "mset (map fst (sort_key (\<lambda>e. - int (snd e)) cs)) = mset (map fst cs)" by simp
  then have "distinct (map fst (sort_key (\<lambda>e. - int (snd e)) cs))" using d by (metis mset_eq_imp_distinct_iff)
  then show ?thesis by (simp add: most_common_def take_map [symmetric] distinct_take)
qed

text \<open>The invariant of the statistics.\<close>

definition metrics_ok :: "metrics_state \<Rightarrow> bool" where
  "metrics_ok s \<longleftrightarrow> length (pm_times s) \<le> MAX_RESPONSE_TIMES \<and> length (pm_domains s) \<le> MAX_TOP_DOMAINS \<and>
     distinct (map fst (pm_domains s)) \<and> distinct (map fst (pm_query_stats s))"

lemma record_query_ok: "metrics_ok s \<Longrightarrow> metrics_ok (record_query sha256 q s)"
  using most_common_length [of MAX_TOP_DOMAINS "bump (qr_domain q) (pm_domains s)"]
  by (auto simp: metrics_ok_def record_query_def Let_def bump_distinct most_common_distinct)

definition dots :: "string \<Rightarrow> nat" where
  "dots s = length (filter (\<lambda>c. c = CHR ''.'') s)"

definition label_ok :: "string \<Rightarrow> bool" where
  "label_ok s \<longleftrightarrow> s \<noteq> [] \<and> length s \<le> 64 \<and> dots s < 2"

lemma sanitize_source_ok:
  assumes "\<And>s. dots (sha256 s) = 0" "\<And>s. length (sha256 s) = 64"
  shows "label_ok (sanitize_source sha256 source)"
proof -
  have "filter (\<lambda>c. c = CHR ''.'') (sha256 source) = []" using assms(1) [of source] by (simp add: dots_def)
  then have "CHR ''.'' \<notin> set (sha256 source)" by (auto simp: filter_empty_conv)
  then have "CHR ''.'' \<notin> set (take 8 (sha256 source))" by (meson in_set_takeD)
  then have "dots (take 8 (sha256 source)) = 0" by (auto simp: dots_def filter_empty_conv)
  moreover have "take 8 (sha256 source) \<noteq> []" using assms(2) [of source] by auto
  ultimately show ?thesis by (auto simp: label_ok_def sanitize_source_def dots_def)
qed

section \<open>Properties\<close>

fun source_labels :: "metric_inc list \<Rightarrow> string list" where
  "source_labels [] = []"
| "source_labels (Queries_Total ty st src # rest) = src # source_labels rest"
| "source_labels (_ # rest) = source_labels rest"

lemma source_labels_append: "source_labels (xs @ ys) = source_labels xs @ source_labels ys"
  by (induction xs rule: source_labels.induct) auto

lemma source_labels_query: "source_labels (query_increments sha256 q) = [sanitize_source sha256 (qr_source q)]"
  by (auto simp: query_increments_def source_labels_append)

lemma record_queries:
  assumes "\<And>s. dots (sha256 s) = 0" "\<And>s. length (sha256 s) = 64"
  shows "metrics_ok s \<Longrightarrow> list_all label_ok (source_labels (pm_log s)) \<Longrightarrow>
     metrics_ok (fold (record_query sha256) qs s) \<and>
     total_queries (fold (record_query sha256) qs s) = total_queries s + length qs \<and>
     list_all label_ok (source_labels (pm_log (fold (record_query sha256) qs s)))"
proof (induction qs arbitrary: s)
  case (Cons q qs)
  have "list_all label_ok (source_labels (pm_log (record_query sha256 q s)))"
    using Cons.prems(2) sanitize_source_ok [OF assms]
    by (simp add: record_query_def Let_def source_labels_append source_labels_query)
  moreover have "total_queries (record_query sha256 q s) = total_queries s + 1"
    by (simp add: total_queries_def record_query_def Let_def bump_sum)
  ultimately show ?case using Cons.IH [OF record_query_ok [OF Cons.prems(1)]] by simp
qed simp

text \<open>
  The memory of the metrics is bounded and their labels leak no token: whatever queries are recorded, at
  most a thousand response times and a thousand domains are kept, every query is counted once, and each
  source label has at most 64 characters with fewer than two dots, so no signed token appears in it.
\<close>

theorem metrics_bounded:
  assumes "\<And>s. dots (sha256 s) = 0" "\<And>s. length (sha256 s) = 64"
  shows "metrics_ok (fold (record_query sha256) qs metrics_init) \<and>
    total_queries (fold (record_query sha256) qs metrics_init) = length qs \<and>
    list_all label_ok (source_labels (pm_log (fold (record_query sha256) qs metrics_init)))"
  using record_queries [OF assms, where s = metrics_init and qs = qs]
  by (simp add: metrics_ok_def metrics_init_def total_queries_def)

definition sample_query :: query_record where
  "sample_query = \<lparr> qr_domain = ''a.example'', qr_type = ''A'', qr_status = ''success'', qr_time = 1, qr_cache_hit = False,
     qr_token_hash = None, qr_source = ''h.p.s'', qr_blocked = False, qr_block_reason = None, qr_identity_type = Some ''ip'' \<rparr>"

theorem metrics_bounded_witness:
  "metrics_ok (fold (record_query (\<lambda>s. replicate 64 CHR ''a'')) [sample_query, sample_query] metrics_init) \<and>
   total_queries (fold (record_query (\<lambda>s. replicate 64 CHR ''a'')) [sample_query, sample_query] metrics_init)
     = length [sample_query, sample_query] \<and>
   list_all label_ok (source_labels (pm_log (fold (record_query (\<lambda>s. replicate 64 CHR ''a'')) [sample_query, sample_query] metrics_init)))"
  by (rule metrics_bounded) (simp_all add: dots_def)

end
