(* ===== verification/Manager_Link.thy ===== *)
theory Manager_Link
  imports Manager_Client Manager_Servers Dns_Metrics
begin

text \<open>
  The link between a DNS server and the Manager, both ends at once: the requests of the client
  (\<^verbatim>\<open>dns-server/app/services/manager_client.py\<close>) against the route tables of the blueprints that hold the
  paths below \<^verbatim>\<open>/api/v1/dns-servers\<close> and \<^verbatim>\<open>/api/v1/tokens\<close> (\<^verbatim>\<open>blueprints/dns_servers.py\<close>,
  \<^verbatim>\<open>blueprints/tokens.py\<close>), and the heartbeat body built from the statistics of \<^verbatim>\<open>prometheus_metrics.py\<close>
  against the members the route asks for. A server identifier is its number in decimal, as the reply to a registration
  gives it.
\<close>

section \<open>Routes\<close>

datatype seg = Lit string | Int_Seg

fun seg_matches :: "seg \<Rightarrow> string \<Rightarrow> bool" where
  "seg_matches (Lit s) w = (w = s)"
| "seg_matches Int_Seg w = (w \<noteq> [] \<and> list_all is_digit w)"

type_synonym route = "string \<times> seg list"

definition dns_server_routes :: "route list" where
  "dns_server_routes =
     (let base = [Lit [], Lit ''api'', Lit ''v1'', Lit ''dns-servers''];
          one = base @ [Int_Seg]
      in [(''GET'', base), (''POST'', base), (''GET'', one), (''DELETE'', one),
          (''POST'', one @ [Lit ''regenerate-key'']), (''POST'', base @ [Lit ''register'']),
          (''GET'', one @ [Lit ''config'']), (''POST'', one @ [Lit ''heartbeat'']),
          (''POST'', one @ [Lit ''refresh-token'']), (''GET'', one @ [Lit ''metrics''])])"

definition token_routes :: "route list" where
  "token_routes =
     (let base = [Lit [], Lit ''api'', Lit ''v1'', Lit ''tokens''];
          one = base @ [Int_Seg]
      in [(''GET'', base), (''POST'', base), (''GET'', one), (''PUT'', one), (''DELETE'', one),
          (''POST'', one @ [Lit ''revoke'']), (''POST'', one @ [Lit ''regenerate''])])"

definition routed :: "string \<Rightarrow> string \<Rightarrow> bool" where
  "routed verb path =
     list_ex (\<lambda>(v, segs). v = verb \<and> list_all2 seg_matches segs (py_split CHR ''/'' path)) (dns_server_routes @ token_routes)"

section \<open>The client's requests\<close>

definition register_url :: string where
  "register_url = ''/api/v1/dns-servers/register''"

definition config_url :: "string \<Rightarrow> string" where
  "config_url sid = ''/api/v1/dns-servers/'' @ sid @ ''/config''"

definition heartbeat_url :: "string \<Rightarrow> string" where
  "heartbeat_url sid = ''/api/v1/dns-servers/'' @ sid @ ''/heartbeat''"

definition refresh_url :: "string \<Rightarrow> string" where
  "refresh_url sid = ''/api/v1/dns-servers/'' @ sid @ ''/refresh''"

definition validate_url :: string where
  "validate_url = ''/api/v1/tokens/validate''"

text \<open>The answer to a request without a route is 404, whatever a handler would say.\<close>

definition manager_answer :: "string \<Rightarrow> string \<Rightarrow> http_resp \<Rightarrow> http_resp" where
  "manager_answer verb path r = (if routed verb path then r else StatusNot200 404)"

lemma split_server_path:
  assumes "list_all is_digit sid" "CHR ''/'' \<notin> set tail"
  shows "py_split CHR ''/'' (''/api/v1/dns-servers/'' @ sid @ CHR ''/'' # tail) = [[], ''api'', ''v1'', ''dns-servers'', sid, tail]"
proof -
  have s: "CHR ''/'' \<notin> set sid" using assms(1) by (auto simp: list_all_iff is_digit_def)
  have "py_split CHR ''/'' (sid @ CHR ''/'' # tail) = [sid, tail]"
    using s assms(2) by (simp add: py_split_append_sep py_split_single)
  then show ?thesis by simp
qed

text \<open>
  The client and the Manager disagree on two paths: registration, configuration and heartbeat requests
  of a registered server meet a route, but there is none for its token refresh, which the Manager serves under
  another name, nor for the validation of tokens. Every refresh with a token in hand therefore ends in a registration with
  the join key, whatever the refresh route would answer.
\<close>

theorem refresh_never_reaches_manager:
  assumes "jwt_token c = Some jwt" "jwt \<noteq> []"
  shows "routed ''POST'' register_url \<and> routed ''GET'' (config_url (dec n)) \<and> routed ''POST'' (heartbeat_url (dec n)) \<and>
    \<not> routed ''POST'' (refresh_url (dec n)) \<and> \<not> routed ''POST'' validate_url \<and>
    refresh_jwt now c (manager_answer ''POST'' (refresh_url (dec n)) r # w) = register now c w"
proof -
  have d: "list_all is_digit (dec n)" by (rule dec_digits)
  have t: "py_split CHR ''/'' (config_url (dec n)) = [[], ''api'', ''v1'', ''dns-servers'', dec n, ''config'']"
    "py_split CHR ''/'' (heartbeat_url (dec n)) = [[], ''api'', ''v1'', ''dns-servers'', dec n, ''heartbeat'']"
    "py_split CHR ''/'' (refresh_url (dec n)) = [[], ''api'', ''v1'', ''dns-servers'', dec n, ''refresh'']"
    using split_server_path [OF d, of "''config''"] split_server_path [OF d, of "''heartbeat''"]
      split_server_path [OF d, of "''refresh''"]
    by (simp_all add: config_url_def heartbeat_url_def refresh_url_def)
  have "routed ''GET'' (config_url (dec n))" "routed ''POST'' (heartbeat_url (dec n))"
    using d by (simp_all add: routed_def t dns_server_routes_def token_routes_def Let_def)
  moreover have un: "\<not> routed ''POST'' (refresh_url (dec n))"
    by (simp add: routed_def t dns_server_routes_def token_routes_def Let_def)
  moreover have "routed ''POST'' register_url" "\<not> routed ''POST'' validate_url" by code_simp+
  moreover have "refresh_jwt now c (manager_answer ''POST'' (refresh_url (dec n)) r # w) = register now c w"
    using assms un by (simp add: manager_answer_def refresh_jwt_def truthy_def)
  ultimately show ?thesis by blast
qed

definition joined_client :: mclient where
  "joined_client = \<lparr> join_key = Some ''k'', jwt_token = Some ''t'', server_id = Some ''7'', config_cache = empty_config,
     cached_at = None, cache_file = None, cache_writable = True \<rparr>"

theorem refresh_never_reaches_manager_witness:
  "refresh_jwt 0 joined_client (manager_answer ''POST'' (refresh_url (dec 7)) (RefreshOk ''new'') # [RequestException]) =
     (Some False, joined_client, [])"
  using refresh_never_reaches_manager [of joined_client "''t''" 7 0 "RefreshOk ''new''" "[RequestException]"]
  by (simp add: joined_client_def register_def truthy_def)

text \<open>
  No heartbeat is ever recorded: the body a DNS server sends is the summary of its metrics, which lacks
  the members the route requires, so in every state of both sides the route answers with an error and changes no
  row.
\<close>

theorem heartbeats_never_recorded:
  "\<exists>n. dns_server_heartbeat E now req i (Some (get_current_stats show s)) db = (Error_Reply n, db)"
  by (auto simp: dns_server_heartbeat_def server_token_required_def get_current_stats_def split: server_auth.splits)

end
