(* ===== verification/Selective_Dns.thy ===== *)
theory Selective_Dns
  imports Domain_Policy
begin

text \<open>
  Group-based DNS visibility (\<^verbatim>\<open>dns-server/app/services/selective_dns_routing.py\<close>): tokens are users, users
  belong to groups, groups see visibility levels and single zones. The five tables are lists of rows;
  SHA-256 is a parameter, and so is \<open>fk\<close>, whether the database enforces the declared foreign keys
  (SQLite does not unless told to), which decides what deleting a group takes with it.

  The abstract specification \<open>acl\<close> is an access-control relation; the tables refine it over every
  sequence of administrative commands.
\<close>

section \<open>State\<close>

record token_row =
  tk_id :: nat
  tk_hash :: string

record group_row =
  g_id :: nat
  g_name :: string
  g_description :: string
  g_levels :: "string list option"

record assignment_row =
  ga_user :: nat
  ga_group :: nat
  ga_role :: string

record routing_zone =
  rz_id :: nat
  rz_name :: string
  rz_visibility :: string
  rz_description :: string

record grant_row =
  gr_group :: nat
  gr_zone :: nat

record sd_db =
  sd_tokens :: "token_row list"
  sd_groups :: "group_row list"
  sd_assignments :: "assignment_row list"
  sd_zones :: "routing_zone list"
  sd_grants :: "grant_row list"
  sd_next_group :: nat
  sd_next_zone :: nat

definition zone_visibility_levels :: "string list" where
  "zone_visibility_levels = [''public'', ''internal'', ''restricted'', ''private'']"

section \<open>Administration\<close>

text \<open>Every command returns whether it succeeded, and the identifier it created or found.\<close>

datatype sd_result = Done | Created nat | Exists "nat option" | Refused

definition create_group :: "string \<Rightarrow> string \<Rightarrow> string list option \<Rightarrow> sd_db \<Rightarrow> sd_result \<times> sd_db" where
  "create_group name description levels db =
     (if list_ex (\<lambda>g. g_name g = name) (sd_groups db) then (Exists None, db)
      else (Created (sd_next_group db),
            db\<lparr> sd_groups := sd_groups db @ [\<lparr> g_id = sd_next_group db, g_name = name, g_description = description,
                                              g_levels = levels \<rparr>],
                sd_next_group := sd_next_group db + 1 \<rparr>))"

definition group_exists :: "nat \<Rightarrow> sd_db \<Rightarrow> bool" where
  "group_exists gid db = list_ex (\<lambda>g. g_id g = gid) (sd_groups db)"

definition zone_exists :: "nat \<Rightarrow> sd_db \<Rightarrow> bool" where
  "zone_exists zid db = list_ex (\<lambda>z. rz_id z = zid) (sd_zones db)"

definition assign_user_to_group :: "bool \<Rightarrow> nat \<Rightarrow> nat \<Rightarrow> string \<Rightarrow> sd_db \<Rightarrow> sd_result \<times> sd_db" where
  "assign_user_to_group fk user_id group_id role db =
     (if list_ex (\<lambda>a. ga_user a = user_id \<and> ga_group a = group_id) (sd_assignments db)
      then (Done, db\<lparr> sd_assignments := map (\<lambda>a. if ga_user a = user_id \<and> ga_group a = group_id
                                                then a\<lparr> ga_role := role \<rparr> else a) (sd_assignments db) \<rparr>)
      else if fk \<and> \<not> group_exists group_id db then (Refused, db)
      else (Done, db\<lparr> sd_assignments := sd_assignments db @
                        [\<lparr> ga_user = user_id, ga_group = group_id, ga_role = role \<rparr>] \<rparr>))"

definition create_dns_zone :: "string \<Rightarrow> string \<Rightarrow> string \<Rightarrow> sd_db \<Rightarrow> sd_result \<times> sd_db" where
  "create_dns_zone zname visibility description db =
     (case find (\<lambda>z. rz_name z = zname) (sd_zones db) of
        Some z \<Rightarrow> (Exists (Some (rz_id z)), db)
      | None \<Rightarrow>
          (if visibility \<notin> set zone_visibility_levels then (Refused, db)
           else (Created (sd_next_zone db),
                 db\<lparr> sd_zones := sd_zones db @ [\<lparr> rz_id = sd_next_zone db, rz_name = zname, rz_visibility = visibility,
                                                 rz_description = description \<rparr>],
                     sd_next_zone := sd_next_zone db + 1 \<rparr>)))"

definition grant_zone_access_to_group :: "bool \<Rightarrow> nat \<Rightarrow> nat \<Rightarrow> sd_db \<Rightarrow> sd_result \<times> sd_db" where
  "grant_zone_access_to_group fk zone_id group_id db =
     (if list_ex (\<lambda>g. gr_group g = group_id \<and> gr_zone g = zone_id) (sd_grants db) then (Done, db)
      else if fk \<and> \<not> (group_exists group_id db \<and> zone_exists zone_id db) then (Refused, db)
      else (Done, db\<lparr> sd_grants := sd_grants db @ [\<lparr> gr_group = group_id, gr_zone = zone_id \<rparr>] \<rparr>))"

definition revoke_zone_access_from_group :: "nat \<Rightarrow> nat \<Rightarrow> sd_db \<Rightarrow> sd_result \<times> sd_db" where
  "revoke_zone_access_from_group zone_id group_id db =
     (Done, db\<lparr> sd_grants := filter (\<lambda>g. \<not> (gr_group g = group_id \<and> gr_zone g = zone_id)) (sd_grants db) \<rparr>)"

definition remove_user_from_group :: "nat \<Rightarrow> nat \<Rightarrow> sd_db \<Rightarrow> sd_result \<times> sd_db" where
  "remove_user_from_group user_id group_id db =
     (Done, db\<lparr> sd_assignments := filter (\<lambda>a. \<not> (ga_user a = user_id \<and> ga_group a = group_id)) (sd_assignments db) \<rparr>)"

definition delete_group :: "bool \<Rightarrow> nat \<Rightarrow> sd_db \<Rightarrow> sd_result \<times> sd_db" where
  "delete_group fk group_id db =
     (let db' = db\<lparr> sd_groups := filter (\<lambda>g. g_id g \<noteq> group_id) (sd_groups db) \<rparr>
      in (Done, if fk then db'\<lparr> sd_assignments := filter (\<lambda>a. ga_group a \<noteq> group_id) (sd_assignments db'),
                                sd_grants := filter (\<lambda>g. gr_group g \<noteq> group_id) (sd_grants db') \<rparr>
                else db'))"

definition get_routing_stats :: "sd_db \<Rightarrow> nat \<times> nat \<times> nat \<times> nat" where
  "get_routing_stats db =
     (length (sd_groups db), length (sd_zones db), length (sd_assignments db), length (sd_grants db))"

definition get_user_groups :: "nat \<Rightarrow> sd_db \<Rightarrow> (nat \<times> string \<times> string \<times> string list) list" where
  "get_user_groups user_id db =
     List.map_filter (\<lambda>a. map_option (\<lambda>g. (g_id g, g_name g, g_description g, case g_levels g of None \<Rightarrow> [] | Some ls \<Rightarrow> ls))
                            (find (\<lambda>g. g_id g = ga_group a) (sd_groups db)))
       (filter (\<lambda>a. ga_user a = user_id) (sd_assignments db))"

section \<open>Resolution\<close>

definition sd_is_valid_domain :: "string \<Rightarrow> bool" where
  "sd_is_valid_domain domain =
     (if domain = [] then False
      else if sublist ''..'' domain \<or> py_startswith domain ''-'' \<or> py_endswith domain ''-'' then False
      else \<not> length domain > 253)"

text \<open>The names looked up for a domain, in order: itself, the star, and every parent with its wildcard form.\<close>

definition zone_candidates :: "string \<Rightarrow> string list" where
  "zone_candidates domain =
     domain # ''*'' # concat (map (\<lambda>parent. [parent, ''*.'' @ parent]) (parents_from 0 domain))"

fun first_named :: "sd_db \<Rightarrow> string list \<Rightarrow> routing_zone option" where
  "first_named db [] = None"
| "first_named db (n # ns) =
     (case find (\<lambda>z. rz_name z = n) (sd_zones db) of Some z \<Rightarrow> Some z | None \<Rightarrow> first_named db ns)"

definition sd_find_zone :: "sd_db \<Rightarrow> string \<Rightarrow> routing_zone option" where
  "sd_find_zone db domain = first_named db (zone_candidates domain)"

definition get_user_id_from_token :: "(string \<Rightarrow> string) \<Rightarrow> sd_db \<Rightarrow> string \<Rightarrow> nat option" where
  "get_user_id_from_token sha256 db tok = map_option tk_id (find (\<lambda>t. tk_hash t = sha256 tok) (sd_tokens db))"

definition can_resolve_domain :: "(string \<Rightarrow> string) \<Rightarrow> sd_db \<Rightarrow> string option \<Rightarrow> string \<Rightarrow> bool" where
  "can_resolve_domain sha256 db tok domain =
     (if domain = [] then False
      else if \<not> sd_is_valid_domain domain then False
      else (case sd_find_zone db domain of
              None \<Rightarrow> True
            | Some zone \<Rightarrow>
                (if rz_visibility zone = ''public'' then True
                 else if \<not> truthy tok then False
                 else (case get_user_id_from_token sha256 db (the tok) of
                         None \<Rightarrow> False
                       | Some user_id \<Rightarrow>
                           (let user_assignments = filter (\<lambda>a. ga_user a = user_id) (sd_assignments db) in
                            if user_assignments = [] then False
                            else if list_ex (\<lambda>a. case find (\<lambda>g. g_id g = ga_group a) (sd_groups db) of
                                        None \<Rightarrow> False
                                      | Some grp \<Rightarrow> rz_visibility zone \<in> set (case g_levels grp of None \<Rightarrow> [] | Some ls \<Rightarrow> ls))
                                      user_assignments then True
                            else list_ex (\<lambda>a. list_ex (\<lambda>g. gr_group g = ga_group a \<and> gr_zone g = rz_id zone) (sd_grants db))
                                   user_assignments)))))"

record filtered_response =
  fr_status :: int
  fr_answer :: "json list"
  fr_name :: string
  fr_comment :: string

definition filter_dns_response ::
  "(string \<Rightarrow> string) \<Rightarrow> sd_db \<Rightarrow> string option \<Rightarrow> string \<Rightarrow> 'resp \<Rightarrow> filtered_response + 'resp" where
  "filter_dns_response sha256 db tok domain original =
     (if \<not> can_resolve_domain sha256 db tok domain
      then Inl \<lparr> fr_status = 3, fr_answer = [], fr_name = domain, fr_comment = ''Domain not found'' \<rparr>
      else Inr original)"

definition get_zone_access_level :: "sd_db \<Rightarrow> string \<Rightarrow> string" where
  "get_zone_access_level db domain = (case sd_find_zone db domain of Some z \<Rightarrow> rz_visibility z | None \<Rightarrow> ''public'')"

section \<open>Commands\<close>

datatype acl_cmd =
    CreateGroup string string "string list option"
  | Assign nat nat string
  | CreateZone string string string
  | Grant nat nat
  | Revoke nat nat
  | Remove nat nat
  | DeleteGroup nat

fun run_cmd :: "bool \<Rightarrow> acl_cmd \<Rightarrow> sd_db \<Rightarrow> sd_result \<times> sd_db" where
  "run_cmd fk (CreateGroup n d ls) db = create_group n d ls db"
| "run_cmd fk (Assign u g r) db = assign_user_to_group fk u g r db"
| "run_cmd fk (CreateZone n v d) db = create_dns_zone n v d db"
| "run_cmd fk (Grant z g) db = grant_zone_access_to_group fk z g db"
| "run_cmd fk (Revoke z g) db = revoke_zone_access_from_group z g db"
| "run_cmd fk (Remove u g) db = remove_user_from_group u g db"
| "run_cmd fk (DeleteGroup g) db = delete_group fk g db"

section \<open>The abstract specification\<close>

text \<open>
  Users by token hash, groups by id with name and visible levels, zones by name with id and visibility,
  and two relations: who is a member of which group, which group has been granted which zone.
\<close>

record acl =
  ac_user :: "string \<rightharpoonup> nat"
  ac_group :: "nat \<rightharpoonup> string \<times> string set"
  ac_member :: "(nat \<times> nat) set"
  ac_zone :: "string \<rightharpoonup> nat \<times> string"
  ac_grant :: "(nat \<times> nat) set"
  ac_next_group :: nat
  ac_next_zone :: nat

definition acl_zone_ids :: "acl \<Rightarrow> nat set" where
  "acl_zone_ids A = fst ` ran (ac_zone A)"

fun acl_step :: "bool \<Rightarrow> acl_cmd \<Rightarrow> acl \<Rightarrow> sd_result \<times> acl" where
  "acl_step fk (CreateGroup n d ls) A =
     (if n \<in> fst ` ran (ac_group A) then (Exists None, A)
      else (Created (ac_next_group A),
            A\<lparr> ac_group := (ac_group A)(ac_next_group A \<mapsto> (n, set (case ls of None \<Rightarrow> [] | Some l \<Rightarrow> l))),
               ac_next_group := ac_next_group A + 1 \<rparr>))"
| "acl_step fk (Assign u g r) A =
     (if (u, g) \<notin> ac_member A \<and> fk \<and> g \<notin> dom (ac_group A) then (Refused, A)
      else (Done, A\<lparr> ac_member := insert (u, g) (ac_member A) \<rparr>))"
| "acl_step fk (CreateZone n v d) A =
     (case ac_zone A n of
        Some (i, _) \<Rightarrow> (Exists (Some i), A)
      | None \<Rightarrow> (if v \<notin> set zone_visibility_levels then (Refused, A)
                 else (Created (ac_next_zone A),
                       A\<lparr> ac_zone := (ac_zone A)(n \<mapsto> (ac_next_zone A, v)), ac_next_zone := ac_next_zone A + 1 \<rparr>)))"
| "acl_step fk (Grant z g) A =
     (if (g, z) \<notin> ac_grant A \<and> fk \<and> \<not> (g \<in> dom (ac_group A) \<and> z \<in> acl_zone_ids A) then (Refused, A)
      else (Done, A\<lparr> ac_grant := insert (g, z) (ac_grant A) \<rparr>))"
| "acl_step fk (Revoke z g) A = (Done, A\<lparr> ac_grant := ac_grant A - {(g, z)} \<rparr>)"
| "acl_step fk (Remove u g) A = (Done, A\<lparr> ac_member := ac_member A - {(u, g)} \<rparr>)"
| "acl_step fk (DeleteGroup g) A =
     (Done, A\<lparr> ac_group := (ac_group A)(g := None),
               ac_member := (if fk then {m \<in> ac_member A. snd m \<noteq> g} else ac_member A),
               ac_grant := (if fk then {m \<in> ac_grant A. fst m \<noteq> g} else ac_grant A) \<rparr>)"

text \<open>Who may resolve what: a name without a zone or in a public zone, or a member of a group that sees its level or was granted it.\<close>

definition acl_zone_of :: "acl \<Rightarrow> string \<Rightarrow> (nat \<times> string) option" where
  "acl_zone_of A d =
     (case find (\<lambda>n. n \<in> dom (ac_zone A)) (zone_candidates d) of None \<Rightarrow> None | Some n \<Rightarrow> ac_zone A n)"

definition acl_allows :: "(string \<Rightarrow> string) \<Rightarrow> acl \<Rightarrow> string option \<Rightarrow> string \<Rightarrow> bool" where
  "acl_allows sha256 A tok d \<longleftrightarrow>
     sd_is_valid_domain d \<and>
     (\<forall>zid vis. acl_zone_of A d = Some (zid, vis) \<longrightarrow>
        vis = ''public'' \<or>
        (\<exists>t u g. tok = Some t \<and> t \<noteq> [] \<and> ac_user A (sha256 t) = Some u \<and> (u, g) \<in> ac_member A \<and>
           ((\<exists>n ls. ac_group A g = Some (n, ls) \<and> vis \<in> ls) \<or> (g, zid) \<in> ac_grant A)))"

section \<open>Refinement\<close>

definition acl_of :: "sd_db \<Rightarrow> acl" where
  "acl_of db = \<lparr>
     ac_user = map_of (map (\<lambda>t. (tk_hash t, tk_id t)) (sd_tokens db)),
     ac_group = map_of (map (\<lambda>g. (g_id g, (g_name g, set (case g_levels g of None \<Rightarrow> [] | Some ls \<Rightarrow> ls)))) (sd_groups db)),
     ac_member = set (map (\<lambda>a. (ga_user a, ga_group a)) (sd_assignments db)),
     ac_zone = map_of (map (\<lambda>z. (rz_name z, (rz_id z, rz_visibility z))) (sd_zones db)),
     ac_grant = set (map (\<lambda>g. (gr_group g, gr_zone g)) (sd_grants db)),
     ac_next_group = sd_next_group db, ac_next_zone = sd_next_zone db \<rparr>"

definition sd_inv :: "sd_db \<Rightarrow> bool" where
  "sd_inv db \<longleftrightarrow>
     distinct (map g_id (sd_groups db)) \<and> (\<forall>g\<in>set (sd_groups db). g_id g < sd_next_group db) \<and>
     distinct (map rz_name (sd_zones db))"

lemma map_of_find: "map_of (map (\<lambda>x. (k x, v x)) xs) n = map_option v (find (\<lambda>x. k x = n) xs)"
  by (induction xs) auto

lemma map_of_snoc: "n \<notin> fst ` set xs \<Longrightarrow> [n \<mapsto> v] ++ map_of xs = (map_of xs)(n \<mapsto> v)"
proof -
  assume "n \<notin> fst ` set xs"
  then have "map_of xs n = None" by (simp add: map_of_eq_None_iff)
  then show ?thesis by (auto simp: fun_eq_iff map_add_def split: option.splits)
qed

lemma map_of_delete:
  "map_of (map (\<lambda>x. (k x, v x)) (filter (\<lambda>x. k x \<noteq> n) xs)) = (map_of (map (\<lambda>x. (k x, v x)) xs))(n := None)"
  by (induction xs) (auto simp: fun_eq_iff)

lemma find_ex: "find P xs = None \<longleftrightarrow> \<not> list_ex P xs"
  by (auto simp: find_None_iff list_ex_iff)

lemma acl_group_ids: "g \<in> dom (ac_group (acl_of db)) \<longleftrightarrow> group_exists g db"
  by (auto simp: acl_of_def group_exists_def map_of_find domIff find_ex)

lemma acl_group_names:
  assumes "sd_inv db"
  shows "n \<in> fst ` ran (ac_group (acl_of db)) \<longleftrightarrow> list_ex (\<lambda>g. g_name g = n) (sd_groups db)"
proof -
  have "distinct (map fst (map (\<lambda>g. (g_id g, (g_name g, set (case g_levels g of None \<Rightarrow> [] | Some ls \<Rightarrow> ls)))) (sd_groups db)))"
    using assms by (simp add: sd_inv_def comp_def)
  then show ?thesis by (auto simp: acl_of_def ran_distinct list_ex_iff image_iff)
qed

lemma acl_zone_exists:
  assumes "sd_inv db"
  shows "z \<in> acl_zone_ids (acl_of db) \<longleftrightarrow> zone_exists z db"
proof -
  have "distinct (map fst (map (\<lambda>z. (rz_name z, (rz_id z, rz_visibility z))) (sd_zones db)))"
    using assms by (simp add: sd_inv_def comp_def)
  then show ?thesis by (auto simp: acl_zone_ids_def acl_of_def ran_distinct zone_exists_def list_ex_iff image_iff)
qed

lemma acl_member_iff: "(u, g) \<in> ac_member (acl_of db) \<longleftrightarrow> list_ex (\<lambda>a. ga_user a = u \<and> ga_group a = g) (sd_assignments db)"
  by (auto simp: acl_of_def list_ex_iff)

lemma acl_grant_iff: "(g, z) \<in> ac_grant (acl_of db) \<longleftrightarrow> list_ex (\<lambda>r. gr_group r = g \<and> gr_zone r = z) (sd_grants db)"
  by (auto simp: acl_of_def list_ex_iff)

lemma acl_zone_find: "ac_zone (acl_of db) n = map_option (\<lambda>z. (rz_id z, rz_visibility z)) (find (\<lambda>z. rz_name z = n) (sd_zones db))"
  by (simp add: acl_of_def map_of_find)

lemmas acl_views = acl_group_ids acl_group_names acl_zone_exists acl_member_iff acl_grant_iff acl_zone_find

lemma run_cmd_inv: "sd_inv db \<Longrightarrow> sd_inv (snd (run_cmd fk c db))"
  by (cases c)
    (auto simp: sd_inv_def create_group_def assign_user_to_group_def create_dns_zone_def grant_zone_access_to_group_def
      revoke_zone_access_from_group_def remove_user_from_group_def delete_group_def Let_def find_None_iff
      distinct_map_filter less_SucI split: option.splits)

lemma acl_step_sim: "sd_inv db \<Longrightarrow> acl_step fk c (acl_of db) = map_prod id acl_of (run_cmd fk c db)"
proof -
  assume i: "sd_inv db"
  show ?thesis
  proof (cases c)
    case (CreateGroup n d ls)
    have "sd_next_group db \<notin> g_id ` set (sd_groups db)" using i by (auto simp: sd_inv_def)
    then show ?thesis
      using CreateGroup i
      by (auto simp: acl_group_names create_group_def) (auto simp: acl_of_def map_of_snoc image_image)
  next
    case (Assign u g r)
    have "map (\<lambda>a. (ga_user a, ga_group a)) (map (\<lambda>a. if ga_user a = u \<and> ga_group a = g then a\<lparr>ga_role := r\<rparr> else a) as) =
       map (\<lambda>a. (ga_user a, ga_group a)) as" for as :: "assignment_row list" by simp
    then have "set (map (\<lambda>a. (ga_user a, ga_group a)) (map (\<lambda>a. if ga_user a = u \<and> ga_group a = g then a\<lparr>ga_role := r\<rparr> else a) as)) =
       set (map (\<lambda>a. (ga_user a, ga_group a)) as)" for as :: "assignment_row list"
      by (simp only:)
    then show ?thesis
      using Assign i
      by (auto simp: acl_views assign_user_to_group_def) (auto simp: acl_of_def list_ex_iff image_iff)
  next
    case (CreateZone n v d)
    show ?thesis
    proof (cases "find (\<lambda>z. rz_name z = n) (sd_zones db)")
      case None
      then have "n \<notin> fst ` set (map (\<lambda>z. (rz_name z, (rz_id z, rz_visibility z))) (sd_zones db))"
        by (auto simp: find_None_iff)
      with CreateZone None show ?thesis
        by (simp add: acl_zone_find create_dns_zone_def) (simp add: acl_of_def map_of_snoc)
    qed (use CreateZone in \<open>simp add: acl_zone_find create_dns_zone_def\<close>)
  next
    case (Grant z g)
    then show ?thesis
      using i by (auto simp: acl_views grant_zone_access_to_group_def) (auto simp: acl_of_def list_ex_iff image_iff)
  next
    case (Revoke z g)
    have "(\<lambda>r. (gr_group r, gr_zone r)) ` {r \<in> G. \<not> (gr_group r = g \<and> gr_zone r = z)} =
        (\<lambda>r. (gr_group r, gr_zone r)) ` G - {(g, z)}" for G :: "grant_row set" by auto
    with Revoke show ?thesis by (simp add: revoke_zone_access_from_group_def acl_of_def)
  next
    case (Remove u g)
    have "(\<lambda>a. (ga_user a, ga_group a)) ` {a \<in> G. \<not> (ga_user a = u \<and> ga_group a = g)} =
        (\<lambda>a. (ga_user a, ga_group a)) ` G - {(u, g)}" for G :: "assignment_row set" by auto
    with Remove show ?thesis by (simp add: remove_user_from_group_def acl_of_def)
  next
    case (DeleteGroup g)
    have gr: "(h, z) \<in> ac_grant (snd (acl_step fk (DeleteGroup g) (acl_of db))) \<longleftrightarrow>
        (h, z) \<in> ac_grant (acl_of (snd (delete_group fk g db)))" for h z
      by (cases fk) (auto simp: acl_grant_iff delete_group_def Let_def list_ex_iff)
    have "snd (acl_step fk (DeleteGroup g) (acl_of db)) = acl_of (snd (delete_group fk g db))"
    proof (rule acl.equality)
      show "ac_group (snd (acl_step fk (DeleteGroup g) (acl_of db))) = ac_group (acl_of (snd (delete_group fk g db)))"
        by (simp add: delete_group_def Let_def acl_of_def map_of_delete)
      show "ac_member (snd (acl_step fk (DeleteGroup g) (acl_of db))) = ac_member (acl_of (snd (delete_group fk g db)))"
        by (cases fk) (auto simp: delete_group_def Let_def acl_of_def)
      show "ac_grant (snd (acl_step fk (DeleteGroup g) (acl_of db))) = ac_grant (acl_of (snd (delete_group fk g db)))"
        by (intro subset_antisym subrelI) (simp_all only: gr)
    qed (simp_all add: delete_group_def Let_def acl_of_def)
    moreover have "fst (acl_step fk (DeleteGroup g) (acl_of db)) = fst (delete_group fk g db)"
      by (simp add: delete_group_def Let_def)
    ultimately show ?thesis using DeleteGroup by (simp add: prod_eq_iff del: acl_step.simps)
  qed
qed

interpretation acl: refinement "run_cmd fk" "acl_step fk" acl_of sd_inv for fk
  by unfold_locales (simp_all add: run_cmd_inv acl_step_sim)

text \<open>The zone lookup of the tables is the one of the specification, and so is the decision.\<close>

lemma first_named_acl:
  "map_option (\<lambda>z. (rz_id z, rz_visibility z)) (first_named db ns) =
     (case find (\<lambda>n. n \<in> dom (ac_zone (acl_of db))) ns of None \<Rightarrow> None | Some n \<Rightarrow> ac_zone (acl_of db) n)"
  by (induction ns) (auto simp: acl_zone_find domIff split: option.splits)

lemma sd_find_zone_acl: "map_option (\<lambda>z. (rz_id z, rz_visibility z)) (sd_find_zone db d) = acl_zone_of (acl_of db) d"
  by (simp add: sd_find_zone_def acl_zone_of_def first_named_acl)

lemma acl_group_find:
  "ac_group (acl_of db) g =
     map_option (\<lambda>g. (g_name g, set (case g_levels g of None \<Rightarrow> [] | Some ls \<Rightarrow> ls))) (find (\<lambda>x. g_id x = g) (sd_groups db))"
  by (simp add: acl_of_def map_of_find)

lemma acl_user_find: "ac_user (acl_of db) h = map_option tk_id (find (\<lambda>t. tk_hash t = h) (sd_tokens db))"
  by (simp add: acl_of_def map_of_find)

lemma member_access:
  assumes "find (\<lambda>t. tk_hash t = h) (sd_tokens db) = Some t"
  shows "(\<exists>g. (tk_id t, g) \<in> ac_member (acl_of db) \<and>
        ((\<exists>n ls. ac_group (acl_of db) g = Some (n, ls) \<and> vis \<in> ls) \<or> (g, zid) \<in> ac_grant (acl_of db))) \<longleftrightarrow>
    (let as = filter (\<lambda>a. ga_user a = tk_id t) (sd_assignments db) in
       list_ex (\<lambda>a. case find (\<lambda>g. g_id g = ga_group a) (sd_groups db) of
           None \<Rightarrow> False | Some grp \<Rightarrow> vis \<in> set (case g_levels grp of None \<Rightarrow> [] | Some ls \<Rightarrow> ls)) as \<or>
       list_ex (\<lambda>a. list_ex (\<lambda>g. gr_group g = ga_group a \<and> gr_zone g = zid) (sd_grants db)) as)"
proof -
  have g: "(\<exists>n ls. ac_group (acl_of db) g = Some (n, ls) \<and> vis \<in> ls) \<longleftrightarrow>
      (case find (\<lambda>x. g_id x = g) (sd_groups db) of
         None \<Rightarrow> False | Some grp \<Rightarrow> vis \<in> set (case g_levels grp of None \<Rightarrow> [] | Some ls \<Rightarrow> ls))" for g
    unfolding acl_group_find by (auto split: option.splits)
  show ?thesis unfolding g acl_member_iff acl_grant_iff Let_def by (auto simp: list_ex_iff)
qed

lemma can_resolve_acl: "can_resolve_domain sha256 db tok d = acl_allows sha256 (acl_of db) tok d"
proof (cases "sd_find_zone db d")
  case None
  then have "acl_zone_of (acl_of db) d = None" using sd_find_zone_acl [of db d] by simp
  with None show ?thesis by (auto simp: can_resolve_domain_def acl_allows_def sd_is_valid_domain_def)
next
  case (Some z)
  then have z: "acl_zone_of (acl_of db) d = Some (rz_id z, rz_visibility z)" using sd_find_zone_acl [of db d] by simp
  show ?thesis
  proof (cases "rz_visibility z = ''public'' \<or> \<not> truthy tok")
    case True
    with Some z show ?thesis by (auto simp: can_resolve_domain_def acl_allows_def sd_is_valid_domain_def)
  next
    case False
    then obtain t where t: "tok = Some t" "t \<noteq> []" by (cases tok) auto
    show ?thesis
    proof (cases "find (\<lambda>x. tk_hash x = sha256 t) (sd_tokens db)")
      case None
      with False Some z t show ?thesis
        by (simp add: can_resolve_domain_def acl_allows_def get_user_id_from_token_def acl_user_find)
    next
      case (Some u)
      with False \<open>sd_find_zone db d = Some z\<close> z t member_access [OF Some, of "rz_visibility z" "rz_id z"]
      show ?thesis
        by (auto simp: can_resolve_domain_def acl_allows_def get_user_id_from_token_def acl_user_find Let_def
            sd_is_valid_domain_def)
    qed
  qed
qed

lemma sd_valid_nonempty: "sd_is_valid_domain d \<Longrightarrow> d \<noteq> []"
  by (auto simp: sd_is_valid_domain_def)

section \<open>Properties\<close>

text \<open>
  C2. The tables implement the access-control specification: over every sequence of administrative
  commands from tables in order, the results returned are those of the specification, and afterwards
  exactly the resolutions are allowed that the specification allows in the state it has reached.
\<close>

theorem selective_routing_refines:
  assumes "sd_inv db"
  shows "fst (run_cmds (run_cmd fk) cs db) = fst (run_cmds (acl_step fk) cs (acl_of db)) \<and>
    (\<forall>tok d. can_resolve_domain sha256 (snd (run_cmds (run_cmd fk) cs db)) tok d =
       acl_allows sha256 (snd (run_cmds (acl_step fk) cs (acl_of db))) tok d)"
  using acl.run_refines [OF assms, of fk cs] by (simp add: can_resolve_acl)

definition sd_demo :: sd_db where
  "sd_demo = \<lparr> sd_tokens = [\<lparr> tk_id = 7, tk_hash = ''h'' \<rparr>], sd_groups = [], sd_assignments = [], sd_zones = [],
     sd_grants = [], sd_next_group = 1, sd_next_zone = 1 \<rparr>"

definition sd_demo_cmds :: "acl_cmd list" where
  "sd_demo_cmds = [CreateGroup ''ops'' [] None, CreateZone ''corp.example'' ''private'' [], Assign 7 1 ''member'', Grant 1 1]"

theorem selective_routing_refines_witness:
  "acl_allows (\<lambda>_. ''h'') (snd (run_cmds (acl_step True) sd_demo_cmds (acl_of sd_demo))) (Some ''t'') ''corp.example'' \<and>
   \<not> acl_allows (\<lambda>_. ''h'') (snd (run_cmds (acl_step True) sd_demo_cmds (acl_of sd_demo))) None ''corp.example''"
proof -
  have i: "sd_inv sd_demo" by (simp add: sd_inv_def sd_demo_def)
  have c: "can_resolve_domain (\<lambda>_. ''h'') (snd (run_cmds (run_cmd True) sd_demo_cmds sd_demo)) (Some ''t'') ''corp.example''"
    "\<not> can_resolve_domain (\<lambda>_. ''h'') (snd (run_cmds (run_cmd True) sd_demo_cmds sd_demo)) None ''corp.example''"
    by code_simp+
  from selective_routing_refines [OF i, of True sd_demo_cmds "\<lambda>_. ''h''"] c show ?thesis by blast
qed

text \<open>
  A zone named by the star decides every name that is not itself a zone: a public star zone opens
  private zones below it to everyone, because the star is looked up before the parents of the name.
\<close>

theorem star_zone_overrides_parents:
  assumes "sd_is_valid_domain d" "find (\<lambda>z. rz_name z = d) (sd_zones db) = None"
    and "find (\<lambda>z. rz_name z = ''*'') (sd_zones db) = Some z" "rz_visibility z = ''public''"
  shows "can_resolve_domain sha256 db tok d"
  using assms sd_valid_nonempty [OF assms(1)] by (simp add: can_resolve_domain_def sd_find_zone_def zone_candidates_def)

theorem star_zone_overrides_parents_witness:
  "can_resolve_domain (\<lambda>_. ''h'') (snd (run_cmds (run_cmd True)
     [CreateZone ''*'' ''public'' [], CreateZone ''corp.example'' ''private'' []] sd_demo)) None ''db.corp.example''"
proof -
  let ?db = "snd (run_cmds (run_cmd True) [CreateZone ''*'' ''public'' [], CreateZone ''corp.example'' ''private'' []] sd_demo)"
  have "sd_is_valid_domain ''db.corp.example''" "find (\<lambda>z. rz_name z = ''db.corp.example'') (sd_zones ?db) = None"
    "find (\<lambda>z. rz_name z = ''*'') (sd_zones ?db) =
       Some \<lparr> rz_id = 1, rz_name = ''*'', rz_visibility = ''public'', rz_description = [] \<rparr>" by code_simp+
  then show ?thesis by (rule star_zone_overrides_parents) simp
qed

text \<open>
  Deleting a group: where the database enforces foreign keys its grants go with it, so that a
  user whose only group it was no longer reaches the zone; where it does not, the grant and the membership stay
  behind and the user keeps the access.
\<close>

theorem deleted_group_keeps_grants:
  assumes "sd_is_valid_domain d" "sd_find_zone db d = Some z" "rz_visibility z \<noteq> ''public''"
    and "get_user_id_from_token sha256 db t = Some u" "t \<noteq> []"
    and "list_ex (\<lambda>a. ga_user a = u \<and> ga_group a = g) (sd_assignments db)"
    and "list_ex (\<lambda>r. gr_group r = g \<and> gr_zone r = rz_id z) (sd_grants db)"
    and "\<forall>a\<in>set (sd_assignments db). ga_user a = u \<longrightarrow> ga_group a = g"
  shows "can_resolve_domain sha256 (snd (delete_group False g db)) (Some t) d \<and>
    \<not> can_resolve_domain sha256 (snd (delete_group True g db)) (Some t) d"
proof -
  let ?n = "snd (delete_group False g db)" and ?f = "snd (delete_group True g db)"
  have "first_named ?n ns = first_named db ns" "first_named ?f ns = first_named db ns" for ns
    by (induction ns) (simp_all add: delete_group_def Let_def split: option.splits)
  then have z: "sd_find_zone ?n d = Some z" "sd_find_zone ?f d = Some z" using assms(2) by (simp_all add: sd_find_zone_def)
  have u: "get_user_id_from_token sha256 ?n t = Some u" "get_user_id_from_token sha256 ?f t = Some u"
    using assms(4) by (simp_all add: get_user_id_from_token_def delete_group_def Let_def)
  have k: "sd_assignments ?n = sd_assignments db" "sd_grants ?n = sd_grants db" by (simp_all add: delete_group_def Let_def)
  have "filter (\<lambda>a. ga_user a = u) (sd_assignments ?f) = []"
    using assms(8) by (auto simp: delete_group_def Let_def filter_empty_conv)
  moreover have "list_ex (\<lambda>a. list_ex (\<lambda>r. gr_group r = ga_group a \<and> gr_zone r = rz_id z) (sd_grants db))
      (filter (\<lambda>a. ga_user a = u) (sd_assignments db))" "filter (\<lambda>a. ga_user a = u) (sd_assignments db) \<noteq> []"
    using assms(6,7) by (auto simp: list_ex_iff filter_empty_conv)
  ultimately show ?thesis
    using assms(1,3,5) sd_valid_nonempty [OF assms(1)] z u by (simp add: can_resolve_domain_def k Let_def)
qed

end
