(* ===== verification/Client_Config.thy ===== *)
theory Client_Config
  imports Manager_Machine
begin

text \<open>
  Client configurations (\<^verbatim>\<open>manager/backend/app/services/client_config_service.py\<close>) and their routes
  (\<^verbatim>\<open>blueprints/client_config.py\<close>): deployment domains with signed tokens, versioned configurations with
  their history, and the clients that register with a domain and pull from it.

  Signing, verification and SHA-256 are parameters; a signature may use randomness, the nonce of a signing
  operation. Tables are lists of rows in insertion order, and a query that takes one row takes the first.
  Text members of a request are strings or absent. Times are microseconds.
\<close>

section \<open>State\<close>

record deployment_domain =
  dd_id :: nat
  dd_name :: string
  dd_description :: string
  dd_jwt_hash :: string
  dd_jwt_expires :: int
  dd_active :: bool

record client_config =
  cc_id :: nat
  cc_name :: string
  cc_domain_id :: nat
  cc_data :: json
  cc_version :: nat
  cc_description :: string
  cc_created_by :: string
  cc_active :: bool
  cc_created_at :: int

record client_instance =
  ci_id :: nat
  ci_client_id :: string
  ci_domain_id :: nat
  ci_config_id :: "nat option"
  ci_hostname :: string
  ci_ip_address :: string
  ci_last_checkin :: "int option"
  ci_last_config_pull :: "int option"
  ci_client_version :: string
  ci_os_info :: string
  ci_status :: string
  ci_registered_at :: int

record config_history =
  ch_config_id :: nat
  ch_version :: nat
  ch_data :: json
  ch_description :: string
  ch_changed_by :: string

record config_role =
  cr_name :: string
  cr_permissions :: string
  cr_description :: string

record client_db =
  cd_domains :: "deployment_domain list"
  cd_configs :: "client_config list"
  cd_history :: "config_history list"
  cd_clients :: "client_instance list"
  cd_client_seq :: nat
  cd_roles :: "config_role list"
  cd_tokens :: "dns_token_row list"

text \<open>
  \<open>ce_sign\<close> is \<^verbatim>\<open>jwt.encode\<close> with the Manager's key pair, \<open>ce_decode\<close> is \<^verbatim>\<open>jwt.decode\<close> with its public key,
  issuer, audience and required claims. \<open>ce_fk\<close> is whether the database enforces foreign keys and \<open>ce_keeps\<close>
  whether it keeps the updates of a connection that is closed without a commit. \<open>ce_repr\<close> is the text of a JSON
  array or object.
\<close>

record client_env =
  ce_sha256 :: "string \<Rightarrow> string"
  ce_sign :: "nat \<Rightarrow> claims \<Rightarrow> string"
  ce_decode :: "int \<Rightarrow> string \<Rightarrow> claims option"
  ce_jwt_cfg :: jwt_cfg
  ce_fk :: bool
  ce_keeps :: bool
  ce_flag :: bool
  ce_repr :: "json \<Rightarrow> string"

datatype client_error =
    Domain_Exists | Domain_Not_Found | Invalid_Config_Data | Config_Not_Found | Token_Invalid
  | Certificate_Mismatch | Jwt_Invalid | Registered_Elsewhere | Not_Registered | No_Configuration
  | Client_Not_Found | Other_Domain | Internal_Failure

datatype client_result =
    Client_Failed client_error
  | Domain_Created nat string string
  | Rolled_Over string int
  | Config_Saved nat nat
  | Client_Registered nat string
  | Config_Pulled client_config
  | Config_Assigned
  | Cleaned nat

section \<open>Validation\<close>

definition has_port :: "json \<Rightarrow> bool" where
  "has_port j = (case j of JInt n \<Rightarrow> 1 \<le> n \<and> n \<le> 65535 | JBool b \<Rightarrow> b | _ \<Rightarrow> False)"

text \<open>A boolean is an integer in Python; a value of the wrong type raises, which is caught.\<close>

definition validate_config_data :: "json \<Rightarrow> bool" where
  "validate_config_data config_data =
     (case config_data of
        JObj kvs \<Rightarrow>
          list_all (\<lambda>k. k \<in> fst ` set kvs) [''server_url'', ''dns_port'', ''cache_enabled'']
          \<and> (case json_get kvs ''server_url'' of
               JStr url \<Rightarrow> py_startswith url ''http://'' \<or> py_startswith url ''https://''
             | _ \<Rightarrow> False)
          \<and> has_port (json_get kvs ''dns_port'')
      | _ \<Rightarrow> False)"

fun first_cn :: "string list \<Rightarrow> string option" where
  "first_cn [] = None"
| "first_cn (part # rest) =
     (let p = py_strip part in if py_startswith p ''CN='' then Some (drop 3 p) else first_cn rest)"

definition extract_cn_from_subject :: "string \<Rightarrow> string option" where
  "extract_cn_from_subject subject_dn = first_cn (py_split CHR '','' subject_dn)"

definition default_roles :: "config_role list" where
  "default_roles =
     [\<lparr> cr_name = ''Client-Reader'', cr_permissions = ''read_config,pull_config'',
        cr_description = ''Can read and pull client configurations'' \<rparr>,
      \<lparr> cr_name = ''Client-Maintainer'', cr_permissions = ''read_config,create_config,update_config,pull_config'',
        cr_description = ''Can maintain client configurations'' \<rparr>,
      \<lparr> cr_name = ''Domain-Admin'',
        cr_permissions = ''read_config,create_config,update_config,delete_config,pull_config,rollover_jwt,manage_clients'',
        cr_description = ''Full domain administration'' \<rparr>]"

definition initialize_default_roles :: "client_db \<Rightarrow> client_db" where
  "initialize_default_roles db =
     db\<lparr> cd_roles := fold (\<lambda>r rs. if list_ex (\<lambda>x. cr_name x = cr_name r) rs then rs else rs @ [r])
                       default_roles (cd_roles db) \<rparr>"

section \<open>Deployment domains\<close>

definition day :: int where "day = 86400 * 1000000"

definition domain_claims :: "client_env \<Rightarrow> int \<Rightarrow> string \<Rightarrow> claims" where
  "domain_claims E now domain_name =
     [(''domain'', JStr domain_name), (''type'', JStr ''deployment_domain''),
      (''iss'', JStr (JWT_ISSUER (ce_jwt_cfg E))), (''aud'', JStr (JWT_AUDIENCE (ce_jwt_cfg E))),
      (''iat'', JInt (now div 1000000)), (''exp'', JInt ((now + 365 * day) div 1000000))]"

definition generate_domain_jwt :: "client_env \<Rightarrow> int \<Rightarrow> nat \<Rightarrow> string \<Rightarrow> string" where
  "generate_domain_jwt E now nonce domain_name = ce_sign E nonce (domain_claims E now domain_name)"

definition create_deployment_domain ::
  "client_env \<Rightarrow> int \<Rightarrow> nat \<Rightarrow> string \<Rightarrow> string \<Rightarrow> client_db \<Rightarrow> client_result \<times> client_db" where
  "create_deployment_domain E now nonce name description db =
     (if list_ex (\<lambda>d. dd_name d = name) (cd_domains db) then (Client_Failed Domain_Exists, db)
      else (let domain_jwt = generate_domain_jwt E now nonce name;
                i = length (cd_domains db) + 1
            in if list_ex (\<lambda>d. dd_jwt_hash d = ce_sha256 E domain_jwt) (cd_domains db)
               then (Client_Failed Internal_Failure, db)
               else (Domain_Created i name domain_jwt,
                     db\<lparr> cd_domains := cd_domains db @
                           [\<lparr> dd_id = i, dd_name = name, dd_description = description,
                              dd_jwt_hash = ce_sha256 E domain_jwt, dd_jwt_expires = now + 365 * day,
                              dd_active = True \<rparr>] \<rparr>)))"

definition domain_at :: "nat \<Rightarrow> client_db \<Rightarrow> deployment_domain option" where
  "domain_at i db = find (\<lambda>d. dd_id d = i) (cd_domains db)"

definition rollover_domain_jwt :: "client_env \<Rightarrow> int \<Rightarrow> nat \<Rightarrow> nat \<Rightarrow> client_db \<Rightarrow> client_result \<times> client_db" where
  "rollover_domain_jwt E now nonce domain_id db =
     (case domain_at domain_id db of
        None \<Rightarrow> (Client_Failed Domain_Not_Found, db)
      | Some domain \<Rightarrow>
          (let new_jwt = generate_domain_jwt E now nonce (dd_name domain); h = ce_sha256 E new_jwt
           in if list_ex (\<lambda>d. dd_id d \<noteq> domain_id \<and> dd_jwt_hash d = h) (cd_domains db)
              then (Client_Failed Internal_Failure, db)
              else (Rolled_Over new_jwt (now + 365 * day),
                    db\<lparr> cd_domains := map (\<lambda>d. if dd_id d = domain_id
                          then d\<lparr> dd_jwt_hash := h, dd_jwt_expires := now + 365 * day \<rparr> else d) (cd_domains db) \<rparr>)))"

definition verify_domain_jwt :: "client_env \<Rightarrow> int \<Rightarrow> string \<Rightarrow> client_db \<Rightarrow> deployment_domain option" where
  "verify_domain_jwt E now jwt_token db =
     (case ce_decode E now jwt_token of
        None \<Rightarrow> None
      | Some payload \<Rightarrow>
          (let domain_name = json_get payload ''domain'' in
           if \<not> json_truthy domain_name then None
           else find (\<lambda>d. JStr (dd_name d) = domain_name \<and> dd_jwt_hash d = ce_sha256 E jwt_token \<and> dd_active d)
                  (cd_domains db)))"

section \<open>Configurations\<close>

definition config_at :: "nat \<Rightarrow> client_db \<Rightarrow> client_config option" where
  "config_at i db = find (\<lambda>c. cc_id c = i) (cd_configs db)"

text \<open>Rows of this table are never deleted, so that the next identifier is one more than their number.\<close>

definition create_client_config ::
  "client_env \<Rightarrow> int \<Rightarrow> string \<Rightarrow> nat \<Rightarrow> json \<Rightarrow> string \<Rightarrow> string \<Rightarrow> client_db \<Rightarrow> client_result \<times> client_db" where
  "create_client_config E now name domain_id config_data description created_by db =
     (if \<not> validate_config_data config_data then (Client_Failed Invalid_Config_Data, db)
      else if ce_fk E \<and> domain_at domain_id db = None then (Client_Failed Internal_Failure, db)
      else (let i = length (cd_configs db) + 1
            in (Config_Saved i 1,
                db\<lparr> cd_configs := cd_configs db @
                      [\<lparr> cc_id = i, cc_name = name, cc_domain_id = domain_id, cc_data = config_data, cc_version = 1,
                         cc_description = description, cc_created_by = created_by, cc_active = True, cc_created_at = now \<rparr>],
                    cd_history := cd_history db @
                      [\<lparr> ch_config_id = i, ch_version = 1, ch_data = config_data,
                         ch_description = ''Initial configuration'', ch_changed_by = created_by \<rparr>] \<rparr>)))"

definition update_client_config ::
  "nat \<Rightarrow> json \<Rightarrow> string \<Rightarrow> string \<Rightarrow> client_db \<Rightarrow> client_result \<times> client_db" where
  "update_client_config config_id config_data description changed_by db =
     (case config_at config_id db of
        None \<Rightarrow> (Client_Failed Config_Not_Found, db)
      | Some config \<Rightarrow>
          (if \<not> validate_config_data config_data then (Client_Failed Invalid_Config_Data, db)
           else (let new_version = cc_version config + 1
                 in (Config_Saved config_id new_version,
                     db\<lparr> cd_configs := map (\<lambda>c. if cc_id c = config_id
                           then c\<lparr> cc_data := config_data, cc_version := new_version, cc_description := description \<rparr> else c)
                           (cd_configs db),
                         cd_history := cd_history db @
                           [\<lparr> ch_config_id = config_id, ch_version = new_version, ch_data = config_data,
                              ch_description = description, ch_changed_by = changed_by \<rparr>] \<rparr>))))"

section \<open>Clients\<close>

text \<open>The state of a success carries the time of use, not yet committed.\<close>

definition verify_user_token ::
  "client_env \<Rightarrow> int \<Rightarrow> string \<Rightarrow> string option \<Rightarrow> client_db \<Rightarrow> (client_error + nat) \<times> client_db" where
  "verify_user_token E now user_token client_cert_subject db =
     (case find (\<lambda>r. dt_hash r = ce_sha256 E user_token \<and> dt_active r) (cd_tokens db) of
        None \<Rightarrow> (Inl Token_Invalid, db)
      | Some token_record \<Rightarrow>
          (let cert_cn = (if truthy client_cert_subject then extract_cn_from_subject (the client_cert_subject) else None)
           in if truthy cert_cn \<and> the cert_cn \<noteq> dt_name token_record then (Inl Certificate_Mismatch, db)
              else (Inr (dt_id token_record),
                    db\<lparr> cd_tokens := map (\<lambda>r. if dt_id r = dt_id token_record then r\<lparr> dt_last_used := Some now \<rparr> else r)
                                       (cd_tokens db) \<rparr>)))"

text \<open>The start both client operations share: the optional user token, then the token of the domain.\<close>

definition authenticate_client ::
  "client_env \<Rightarrow> int \<Rightarrow> string \<Rightarrow> string option \<Rightarrow> string option \<Rightarrow> client_db \<Rightarrow>
   (client_error + deployment_domain) \<times> client_db" where
  "authenticate_client E now domain_jwt user_token client_cert_subject db =
     (case (if truthy user_token then verify_user_token E now (the user_token) client_cert_subject db else (Inr 0, db)) of
        (Inl e, db1) \<Rightarrow> (Inl e, db1)
      | (Inr _, db1) \<Rightarrow> (case verify_domain_jwt E now domain_jwt db of
                          None \<Rightarrow> (Inl Jwt_Invalid, db1) | Some domain \<Rightarrow> (Inr domain, db1)))"

text \<open>What a failed operation leaves behind: the uncommitted update of the user token, if it is kept.\<close>

definition dropped :: "client_env \<Rightarrow> client_db \<Rightarrow> client_db \<Rightarrow> client_db" where
  "dropped E db db1 = (if ce_keeps E then db1 else db)"

definition register_client ::
  "client_env \<Rightarrow> int \<Rightarrow> string \<Rightarrow> string \<Rightarrow> string \<Rightarrow> string \<Rightarrow> string \<Rightarrow> string \<Rightarrow> string option \<Rightarrow> string option \<Rightarrow>
   client_db \<Rightarrow> client_result \<times> client_db" where
  "register_client E now client_id domain_jwt hostname ip_address client_version os_info user_token client_cert_subject db =
     (case authenticate_client E now domain_jwt user_token client_cert_subject db of
        (Inl e, db1) \<Rightarrow> (Client_Failed e, dropped E db db1)
      | (Inr domain, db1) \<Rightarrow>
          (case find (\<lambda>c. ci_client_id c = client_id \<and> ci_domain_id c = dd_id domain) (cd_clients db1) of
             Some existing \<Rightarrow>
               (Client_Registered (ci_id existing) (dd_name domain),
                db1\<lparr> cd_clients := map (\<lambda>c. if ci_client_id c = client_id \<and> ci_domain_id c = dd_id domain
                       then c\<lparr> ci_hostname := hostname, ci_ip_address := ip_address, ci_last_checkin := Some now,
                               ci_client_version := client_version, ci_os_info := os_info, ci_status := ''active'' \<rparr>
                       else c) (cd_clients db1) \<rparr>)
           | None \<Rightarrow>
               (if list_ex (\<lambda>c. ci_client_id c = client_id) (cd_clients db1)
                then (Client_Failed Registered_Elsewhere, dropped E db db1)
                else (Client_Registered (cd_client_seq db1) (dd_name domain),
                      db1\<lparr> cd_clients := cd_clients db1 @
                             [\<lparr> ci_id = cd_client_seq db1, ci_client_id = client_id, ci_domain_id = dd_id domain,
                                ci_config_id = None, ci_hostname = hostname, ci_ip_address = ip_address,
                                ci_last_checkin = Some now, ci_last_config_pull = None,
                                ci_client_version = client_version, ci_os_info = os_info, ci_status = ''active'',
                                ci_registered_at = now \<rparr>],
                           cd_client_seq := cd_client_seq db1 + 1 \<rparr>))))"

text \<open>The configuration a client is due: the assigned one, or the active one named \<^verbatim>\<open>default\<close> of its domain.\<close>

definition config_for :: "deployment_domain \<Rightarrow> client_instance \<Rightarrow> client_db \<Rightarrow> client_config option" where
  "config_for domain client db =
     (if ci_config_id client \<noteq> None \<and> ci_config_id client \<noteq> Some 0
      then find (\<lambda>c. cc_id c = the (ci_config_id client) \<and> cc_active c) (cd_configs db)
      else find (\<lambda>c. cc_domain_id c = dd_id domain \<and> cc_name c = ''default'' \<and> cc_active c) (cd_configs db))"

definition pull_client_config ::
  "client_env \<Rightarrow> int \<Rightarrow> string \<Rightarrow> string \<Rightarrow> string option \<Rightarrow> string option \<Rightarrow> client_db \<Rightarrow> client_result \<times> client_db" where
  "pull_client_config E now client_id domain_jwt user_token client_cert_subject db =
     (case authenticate_client E now domain_jwt user_token client_cert_subject db of
        (Inl e, db1) \<Rightarrow> (Client_Failed e, dropped E db db1)
      | (Inr domain, db1) \<Rightarrow>
          (case find (\<lambda>c. ci_client_id c = client_id \<and> ci_domain_id c = dd_id domain \<and> ci_status c = ''active'')
                  (cd_clients db1) of
             None \<Rightarrow> (Client_Failed Not_Registered, dropped E db db1)
           | Some client \<Rightarrow>
               (case config_for domain client db1 of
                  None \<Rightarrow> (Client_Failed No_Configuration, dropped E db db1)
                | Some config \<Rightarrow>
                    (Config_Pulled config,
                     db1\<lparr> cd_clients := map (\<lambda>c. if ci_id c = ci_id client
                            then c\<lparr> ci_last_config_pull := Some now, ci_last_checkin := Some now \<rparr> else c)
                            (cd_clients db1) \<rparr>))))"

definition assign_config_to_client :: "string \<Rightarrow> nat \<Rightarrow> client_db \<Rightarrow> client_result \<times> client_db" where
  "assign_config_to_client client_id config_id db =
     (case find (\<lambda>c. ci_client_id c = client_id) (cd_clients db) of
        None \<Rightarrow> (Client_Failed Client_Not_Found, db)
      | Some client \<Rightarrow>
          (case config_at config_id db of
             None \<Rightarrow> (Client_Failed Config_Not_Found, db)
           | Some config \<Rightarrow>
               (if cc_domain_id config \<noteq> ci_domain_id client then (Client_Failed Other_Domain, db)
                else (Config_Assigned,
                      db\<lparr> cd_clients := map (\<lambda>c. if ci_client_id c = client_id then c\<lparr> ci_config_id := Some config_id \<rparr> else c)
                            (cd_clients db) \<rparr>))))"

text \<open>Each client with the name of its configuration.\<close>

definition get_domain_clients :: "nat \<Rightarrow> client_db \<Rightarrow> (client_instance \<times> string option) list" where
  "get_domain_clients domain_id db =
     map (\<lambda>c. (c, if ci_config_id c \<noteq> None \<and> ci_config_id c \<noteq> Some 0
                  then map_option cc_name (config_at (the (ci_config_id c)) db) else None))
       (filter (\<lambda>c. ci_domain_id c = domain_id) (cd_clients db))"

record client_stats =
  cs_domains :: "nat \<times> nat"
  cs_clients :: "nat \<times> nat \<times> nat \<times> nat"
  cs_configs :: "nat \<times> nat"

definition since :: "int \<Rightarrow> int option \<Rightarrow> bool" where
  "since t0 v = (case v of None \<Rightarrow> False | Some t \<Rightarrow> t0 \<le> t)"

definition get_client_stats :: "int \<Rightarrow> client_db \<Rightarrow> client_stats" where
  "get_client_stats now db =
     \<lparr> cs_domains = (length (filter (\<lambda>d. dd_id d > 0) (cd_domains db)), length (filter dd_active (cd_domains db))),
       cs_clients = (length (filter (\<lambda>c. ci_id c > 0) (cd_clients db)),
                     length (filter (\<lambda>c. ci_status c = ''active'') (cd_clients db)),
                     length (filter (\<lambda>c. since (now - day) (ci_last_checkin c)) (cd_clients db)),
                     length (filter (\<lambda>c. since (now - day) (ci_last_config_pull c)) (cd_clients db))),
       cs_configs = (length (filter (\<lambda>c. cc_id c > 0) (cd_configs db)), length (filter cc_active (cd_configs db))) \<rparr>"

definition cleanup_inactive_clients :: "int \<Rightarrow> int \<Rightarrow> client_db \<Rightarrow> nat \<times> client_db" where
  "cleanup_inactive_clients now inactive_days db =
     (let gone = (\<lambda>c. case ci_last_checkin c of None \<Rightarrow> True | Some t \<Rightarrow> t < now - inactive_days * day)
      in (length (filter gone (cd_clients db)), db\<lparr> cd_clients := filter (\<lambda>c. \<not> gone c) (cd_clients db) \<rparr>))"

section \<open>Routes\<close>

datatype client_reply = Client_Reply nat client_result | Client_Denied nat | Client_Raised

definition json_str_of :: "client_env \<Rightarrow> json \<Rightarrow> string" where
  "json_str_of E j =
     (case j of JStr s \<Rightarrow> s | JInt i \<Rightarrow> (if i < 0 then CHR ''-'' # dec (nat (- i)) else dec (nat i))
      | JBool b \<Rightarrow> (if b then ''True'' else ''False'') | JNull \<Rightarrow> ''None'' | _ \<Rightarrow> ce_repr E j)"

definition actor_id :: "client_env \<Rightarrow> current_user option \<Rightarrow> string" where
  "actor_id E user =
     (case user of
        None \<Rightarrow> ''unknown''
      | Some u \<Rightarrow> json_str_of E (if json_truthy (cu_user_id u) then cu_user_id u
                              else if json_truthy (cu_username u) then cu_username u else JStr ''unknown''))"

text \<open>\<^verbatim>\<open>_check_client_config_flag\<close>, the only guard of the two client routes.\<close>

definition flag_guard :: "client_env \<Rightarrow> (client_reply \<times> client_db) \<Rightarrow> client_db \<Rightarrow> client_reply \<times> client_db" where
  "flag_guard E body db = (if ce_flag E then body else (Client_Denied 403, db))"

definition client_guard ::
  "client_env \<Rightarrow> string \<Rightarrow> current_user option \<Rightarrow> (client_reply \<times> client_db) \<Rightarrow> client_db \<Rightarrow> client_reply \<times> client_db" where
  "client_guard E scope user body db =
     (case requires_scope [scope] user of
        Denied n \<Rightarrow> (Client_Denied n, db) | Raised \<Rightarrow> (Client_Raised, db) | Proceed \<Rightarrow> flag_guard E body db)"

definition client_reply_of :: "nat \<Rightarrow> nat \<Rightarrow> client_result \<times> client_db \<Rightarrow> client_reply \<times> client_db" where
  "client_reply_of ok bad r =
     (case r of (Client_Failed e, db') \<Rightarrow> (Client_Reply bad (Client_Failed e), db') | (x, db') \<Rightarrow> (Client_Reply ok x, db'))"

definition text_or :: "string \<Rightarrow> string option \<Rightarrow> string" where
  "text_or d v = (case v of None \<Rightarrow> d | Some s \<Rightarrow> s)"

definition create_domain_route ::
  "client_env \<Rightarrow> int \<Rightarrow> nat \<Rightarrow> current_user option \<Rightarrow> string option \<Rightarrow> string option \<Rightarrow> client_db \<Rightarrow> client_reply \<times> client_db" where
  "create_domain_route E now nonce user name description db =
     client_guard E ''config:write'' user
       (case name of
          None \<Rightarrow> (Client_Denied 400, db)
        | Some n \<Rightarrow> client_reply_of 201 400 (create_deployment_domain E now nonce n (text_or [] description) db)) db"

definition rollover_jwt_route ::
  "client_env \<Rightarrow> int \<Rightarrow> nat \<Rightarrow> current_user option \<Rightarrow> nat \<Rightarrow> client_db \<Rightarrow> client_reply \<times> client_db" where
  "rollover_jwt_route E now nonce user domain_id db =
     client_guard E ''config:admin'' user (client_reply_of 200 404 (rollover_domain_jwt E now nonce domain_id db)) db"

definition create_config_route ::
  "client_env \<Rightarrow> int \<Rightarrow> current_user option \<Rightarrow> nat \<Rightarrow> string option \<Rightarrow> json option \<Rightarrow> string option \<Rightarrow> client_db \<Rightarrow>
   client_reply \<times> client_db" where
  "create_config_route E now user domain_id name config_data description db =
     client_guard E ''config:write'' user
       (case (name, config_data) of
          (Some n, Some d) \<Rightarrow>
            client_reply_of 201 400 (create_client_config E now n domain_id d (text_or [] description) (actor_id E user) db)
        | _ \<Rightarrow> (Client_Denied 400, db)) db"

definition update_config_route ::
  "client_env \<Rightarrow> current_user option \<Rightarrow> nat \<Rightarrow> json option \<Rightarrow> string option \<Rightarrow> client_db \<Rightarrow> client_reply \<times> client_db" where
  "update_config_route E user config_id config_data description db =
     client_guard E ''config:write'' user
       (case config_data of
          None \<Rightarrow> (Client_Denied 400, db)
        | Some d \<Rightarrow> client_reply_of 200 400 (update_client_config config_id d (text_or [] description) (actor_id E user) db)) db"

text \<open>The certificate of the connection is not passed on by the two client routes.\<close>

definition register_client_route ::
  "client_env \<Rightarrow> int \<Rightarrow> string option \<Rightarrow> string option \<Rightarrow> string option \<Rightarrow> string option \<Rightarrow> string option \<Rightarrow>
   string option \<Rightarrow> string option \<Rightarrow> client_db \<Rightarrow> client_reply \<times> client_db" where
  "register_client_route E now client_id domain_jwt hostname ip_address client_version os_info user_token db =
     flag_guard E
       (case (client_id, domain_jwt, hostname, ip_address) of
          (Some c, Some j, Some h, Some ip) \<Rightarrow>
            client_reply_of 201 400
              (register_client E now c j h ip (text_or [] client_version) (text_or [] os_info) user_token None db)
        | _ \<Rightarrow> (Client_Denied 400, db)) db"

definition pull_config_route ::
  "client_env \<Rightarrow> int \<Rightarrow> string option \<Rightarrow> string option \<Rightarrow> string option \<Rightarrow> client_db \<Rightarrow> client_reply \<times> client_db" where
  "pull_config_route E now client_id domain_jwt user_token db =
     flag_guard E
       (case (client_id, domain_jwt) of
          (Some c, Some j) \<Rightarrow> client_reply_of 200 404 (pull_client_config E now c j user_token None db)
        | _ \<Rightarrow> (Client_Denied 400, db)) db"

definition assign_config_route ::
  "client_env \<Rightarrow> current_user option \<Rightarrow> string option \<Rightarrow> nat option \<Rightarrow> client_db \<Rightarrow> client_reply \<times> client_db" where
  "assign_config_route E user client_id config_id db =
     client_guard E ''config:write'' user
       (case (client_id, config_id) of
          (Some c, Some i) \<Rightarrow> client_reply_of 200 404 (assign_config_to_client c i db)
        | _ \<Rightarrow> (Client_Denied 400, db)) db"

section \<open>Runs\<close>

datatype client_cmd =
    Create_Domain int nat string string
  | Rollover int nat nat
  | Create_Config int string nat json string string
  | Update_Config nat json string string
  | Register int string string string string string string "string option" "string option"
  | Pull int string string "string option" "string option"
  | Assign string nat
  | Cleanup int int

fun client_step :: "client_env \<Rightarrow> client_cmd \<Rightarrow> client_db \<Rightarrow> client_result \<times> client_db" where
  "client_step E (Create_Domain now nonce name description) db = create_deployment_domain E now nonce name description db"
| "client_step E (Rollover now nonce i) db = rollover_domain_jwt E now nonce i db"
| "client_step E (Create_Config now name i d descr actor) db = create_client_config E now name i d descr actor db"
| "client_step E (Update_Config i d descr actor) db = update_client_config i d descr actor db"
| "client_step E (Register now c j h ip ver os tok cert) db = register_client E now c j h ip ver os tok cert db"
| "client_step E (Pull now c j tok cert) db = pull_client_config E now c j tok cert db"
| "client_step E (Assign c i) db = assign_config_to_client c i db"
| "client_step E (Cleanup now days) db = (case cleanup_inactive_clients now days db of (n, db') \<Rightarrow> (Cleaned n, db'))"

definition fresh_clients :: "dns_token_row list \<Rightarrow> client_db" where
  "fresh_clients toks = initialize_default_roles
     \<lparr> cd_domains = [], cd_configs = [], cd_history = [], cd_clients = [], cd_client_seq = 1, cd_roles = [],
       cd_tokens = toks \<rparr>"

abbreviation client_run :: "client_env \<Rightarrow> client_cmd list \<Rightarrow> client_db \<Rightarrow> client_result list \<times> client_db" where
  "client_run E \<equiv> run_cmds (client_step E)"

definition history_of :: "nat \<Rightarrow> client_db \<Rightarrow> config_history list" where
  "history_of i db = filter (\<lambda>h. ch_config_id h = i) (cd_history db)"

definition history_complete :: "client_db \<Rightarrow> client_config \<Rightarrow> bool" where
  "history_complete db c \<longleftrightarrow>
     map ch_version (history_of (cc_id c) db) = [1..<Suc (cc_version c)] \<and> 0 < cc_version c
     \<and> ch_data (last (history_of (cc_id c) db)) = cc_data c"

definition domains_inv :: "client_db \<Rightarrow> bool" where
  "domains_inv db \<longleftrightarrow> map dd_id (cd_domains db) = [1..<Suc (length (cd_domains db))]
     \<and> distinct (map dd_name (cd_domains db)) \<and> distinct (map dd_jwt_hash (cd_domains db))"

definition configs_inv :: "client_db \<Rightarrow> bool" where
  "configs_inv db \<longleftrightarrow> map cc_id (cd_configs db) = [1..<Suc (length (cd_configs db))]
     \<and> (\<forall>c\<in>set (cd_configs db). history_complete db c)
     \<and> (\<forall>h\<in>set (cd_history db). ch_config_id h \<le> length (cd_configs db))"

definition clients_inv :: "client_db \<Rightarrow> bool" where
  "clients_inv db \<longleftrightarrow> distinct (map ci_client_id (cd_clients db))
     \<and> (\<forall>c\<in>set (cd_clients db). \<forall>k. ci_config_id c = Some k \<longrightarrow>
          (\<exists>cfg\<in>set (cd_configs db). cc_id cfg = k \<and> cc_domain_id cfg = ci_domain_id c))"

definition client_inv :: "client_db \<Rightarrow> bool" where
  "client_inv db \<longleftrightarrow> domains_inv db \<and> configs_inv db \<and> clients_inv db"

lemma clients_same:
  "\<lbrakk> clients_inv db; cd_clients db' = cd_clients db; cd_configs db' = cd_configs db \<rbrakk> \<Longrightarrow> clients_inv db'"
  by (simp add: clients_inv_def)

lemma configs_same:
  "\<lbrakk> configs_inv db; cd_history db' = cd_history db; cd_configs db' = cd_configs db \<rbrakk> \<Longrightarrow> configs_inv db'"
  by (simp add: configs_inv_def history_complete_def history_of_def)

lemma domains_same: "\<lbrakk> domains_inv db; cd_domains db' = cd_domains db \<rbrakk> \<Longrightarrow> domains_inv db'"
  by (simp add: domains_inv_def)

text \<open>Rewriting rows by a function that keeps the two keys and the assignment keeps the client table sound.\<close>

lemma clients_map:
  assumes "clients_inv db" "cd_configs db' = cd_configs db" "cd_clients db' = map f (cd_clients db)"
    and "\<And>c. ci_client_id (f c) = ci_client_id c" "\<And>c. ci_domain_id (f c) = ci_domain_id c"
      "\<And>c. ci_config_id (f c) = ci_config_id c"
  shows "clients_inv db'"
  using assms by (auto simp: clients_inv_def comp_def)

lemma clients_filter:
  "\<lbrakk> clients_inv db; cd_configs db' = cd_configs db; cd_clients db' = filter P (cd_clients db) \<rbrakk> \<Longrightarrow> clients_inv db'"
  by (auto simp: clients_inv_def distinct_map_filter)

lemma distinct_hash_update:
  assumes "distinct (map h xs)" "distinct (map k xs)" "\<forall>x\<in>set xs. k x \<noteq> i \<longrightarrow> h x \<noteq> v" "\<And>x. h (f x) = v" "\<And>x. k (f x) = k x"
  shows "distinct (map h (map (\<lambda>x. if k x = i then f x else x) xs))"
  using assms(1-3) by (induction xs) (auto simp: assms(4,5) image_iff)

lemma create_domain_inv:
  assumes "domains_inv db" "create_deployment_domain E now nonce name description db = (r, db')"
  shows "domains_inv db'"
proof -
  have h: "ce_sha256 E (generate_domain_jwt E now nonce name) \<notin> dd_jwt_hash ` set (cd_domains db)"
    if "\<forall>d\<in>set (cd_domains db). dd_jwt_hash d \<noteq> ce_sha256 E (generate_domain_jwt E now nonce name)"
    using that by force
  show ?thesis
    using assms h by (auto simp: create_deployment_domain_def domains_inv_def Let_def list_ex_iff split: if_splits)
qed

lemma rollover_inv:
  assumes "domains_inv db" "rollover_domain_jwt E now nonce i db = (r, db')"
  shows "domains_inv db'"
proof (cases "db' = db")
  case False
  then obtain d where d: "domain_at i db = Some d"
    using assms(2) by (auto simp: rollover_domain_jwt_def split: option.splits)
  let ?h = "ce_sha256 E (generate_domain_jwt E now nonce (dd_name d))"
  let ?f = "\<lambda>d. d\<lparr> dd_jwt_hash := ?h, dd_jwt_expires := now + 365 * day \<rparr>"
  let ?g = "\<lambda>x. if dd_id x = i then ?f x else x"
  have db': "cd_domains db' = map ?g (cd_domains db)" "\<forall>x\<in>set (cd_domains db). dd_id x \<noteq> i \<longrightarrow> dd_jwt_hash x \<noteq> ?h"
    using assms(2) False d by (auto simp: rollover_domain_jwt_def Let_def list_ex_iff split: if_splits)
  have ids: "map dd_id (cd_domains db) = [1..<Suc (length (cd_domains db))]"
    using assms(1) by (simp add: domains_inv_def)
  then have "distinct (map dd_id (cd_domains db))" by (metis distinct_upt)
  then have "distinct (map dd_jwt_hash (map ?g (cd_domains db)))"
    by (intro distinct_hash_update [where v = ?h]) (use assms(1) db'(2) in \<open>auto simp: domains_inv_def\<close>)
  moreover have "map dd_id (map ?g (cd_domains db)) = map dd_id (cd_domains db)"
    "map dd_name (map ?g (cd_domains db)) = map dd_name (cd_domains db)" by simp_all
  ultimately show ?thesis using assms(1) ids by (simp add: domains_inv_def db'(1) del: upt_Suc map_map)
qed (use assms in simp)

lemma history_append:
  "history_of i (db\<lparr> cd_history := cd_history db @ [h] \<rparr>) = history_of i db @ (if ch_config_id h = i then [h] else [])"
  by (simp add: history_of_def)

lemma config_ids:
  assumes "configs_inv db" "c \<in> set (cd_configs db)"
  shows "1 \<le> cc_id c \<and> cc_id c \<le> length (cd_configs db)"
proof -
  have "cc_id c \<in> set (map cc_id (cd_configs db))" using assms(2) by simp
  also have "\<dots> = {1..<Suc (length (cd_configs db))}" using assms(1) by (simp add: configs_inv_def del: upt_Suc)
  finally show ?thesis by simp
qed

lemma create_config_inv:
  assumes "configs_inv db" "create_client_config E now name i d descr actor db = (r, db')"
  shows "configs_inv db'"
proof (cases "db' = db")
  case False
  let ?n = "length (cd_configs db) + 1"
  let ?c = "\<lparr> cc_id = ?n, cc_name = name, cc_domain_id = i, cc_data = d, cc_version = 1, cc_description = descr,
    cc_created_by = actor, cc_active = True, cc_created_at = now \<rparr>"
  let ?h = "\<lparr> ch_config_id = ?n, ch_version = 1, ch_data = d, ch_description = ''Initial configuration'',
    ch_changed_by = actor \<rparr>"
  have db': "cd_configs db' = cd_configs db @ [?c]" "cd_history db' = cd_history db @ [?h]"
    using assms(2) False by (auto simp: create_client_config_def Let_def split: if_splits)
  have none: "history_of ?n db = []"
    using assms(1) by (auto simp: configs_inv_def history_of_def filter_empty_conv)
  have h: "history_of k db' = history_of k db @ (if ?n = k then [?h] else [])" for k
    by (simp add: history_of_def db')
  have "history_complete db' c" if "c \<in> set (cd_configs db)" for c
    using assms(1) config_ids [OF assms(1) that] that
    by (auto simp: configs_inv_def history_complete_def h simp del: upt_Suc)
  moreover have "history_complete db' ?c" using none by (simp add: history_complete_def h)
  ultimately show ?thesis using assms(1) by (auto simp: configs_inv_def db' simp del: One_nat_def)
qed (use assms in simp)

lemma update_config_inv:
  assumes "configs_inv db" "update_client_config i d descr actor db = (r, db')"
  shows "configs_inv db'"
proof (cases "db' = db")
  case False
  then obtain c0 where c0: "config_at i db = Some c0"
    using assms(2) by (auto simp: update_client_config_def split: option.splits)
  then have c0': "c0 \<in> set (cd_configs db)" "cc_id c0 = i" by (auto simp: config_at_def dest: find_SomeD)
  let ?v = "cc_version c0 + 1"
  let ?g = "\<lambda>c. if cc_id c = i then c\<lparr> cc_data := d, cc_version := ?v, cc_description := descr \<rparr> else c"
  let ?h = "\<lparr> ch_config_id = i, ch_version = ?v, ch_data = d, ch_description = descr, ch_changed_by = actor \<rparr>"
  have db': "cd_configs db' = map ?g (cd_configs db)" "cd_history db' = cd_history db @ [?h]"
    using assms(2) False c0 by (auto simp: update_client_config_def Let_def split: if_splits)
  have h: "history_of k db' = history_of k db @ (if i = k then [?h] else [])" for k
    by (simp add: history_of_def db')
  have ids: "map cc_id (cd_configs db) = [1..<Suc (length (cd_configs db))]"
    using assms(1) by (simp add: configs_inv_def)
  have "history_complete db' (?g c)" if "c \<in> set (cd_configs db)" for c
    using assms(1) that c0' by (auto simp: configs_inv_def history_complete_def h)
  then have "\<forall>c\<in>set (cd_configs db'). history_complete db' c" unfolding db'(1) set_map by blast
  moreover have "map cc_id (cd_configs db') = map cc_id (cd_configs db)" by (simp add: db'(1))
  moreover have "i \<le> length (cd_configs db)" using config_ids [OF assms(1) c0'(1)] c0'(2) by simp
  moreover have "length (cd_configs db') = length (cd_configs db)" by (simp add: db'(1))
  ultimately show ?thesis using assms(1) ids
    by (simp add: configs_inv_def db'(2) del: upt_Suc)
qed (use assms in simp)

text \<open>Operations that leave domains, configurations and history alone, and authentication.\<close>

lemma verify_user_token_frame:
  assumes "verify_user_token E now t cert db = (r, db1)"
  shows "cd_domains db1 = cd_domains db" "cd_configs db1 = cd_configs db" "cd_history db1 = cd_history db"
    "cd_clients db1 = cd_clients db"
  using assms by (auto simp: verify_user_token_def Let_def split: option.splits if_splits)

lemma authenticate_frame:
  assumes "authenticate_client E now j tok cert db = (r, db1)"
  shows "cd_domains db1 = cd_domains db" "cd_configs db1 = cd_configs db" "cd_history db1 = cd_history db"
    "cd_clients db1 = cd_clients db"
  using assms verify_user_token_frame [of E now "the tok" cert db]
  by (auto simp: authenticate_client_def split: if_splits prod.splits sum.splits option.splits)

lemma authenticate_Inr:
  "authenticate_client E now j tok cert db = (Inr d, db1) \<Longrightarrow> verify_domain_jwt E now j db = Some d"
  by (auto simp: authenticate_client_def split: if_splits prod.splits sum.splits option.splits)

lemma dropped_frame:
  assumes "authenticate_client E now j tok cert db = (r, db1)"
  shows "cd_domains (dropped E db db1) = cd_domains db" "cd_configs (dropped E db db1) = cd_configs db"
    "cd_history (dropped E db db1) = cd_history db" "cd_clients (dropped E db db1) = cd_clients db"
  using authenticate_frame [OF assms] by (simp_all add: dropped_def)

lemma register_frame:
  assumes "register_client E now c j h ip ver os tok cert db = (r, db')"
  shows "cd_domains db' = cd_domains db" "cd_configs db' = cd_configs db" "cd_history db' = cd_history db"
  using assms
  by (auto simp: register_client_def authenticate_frame dropped_frame split: prod.splits sum.splits option.splits if_splits)

lemma pull_frame:
  assumes "pull_client_config E now c j tok cert db = (r, db')"
  shows "cd_domains db' = cd_domains db" "cd_configs db' = cd_configs db" "cd_history db' = cd_history db"
  using assms
  by (auto simp: pull_client_config_def authenticate_frame dropped_frame split: prod.splits sum.splits option.splits if_splits)

lemma register_clients_inv:
  assumes "clients_inv db" "register_client E now c j h ip ver os tok cert db = (r, db')"
  shows "clients_inv db'"
proof -
  note fr = register_frame [OF assms(2)]
  obtain a db1 where a: "authenticate_client E now j tok cert db = (a, db1)" by fastforce
  note f1 = authenticate_frame [OF a] dropped_frame [OF a]
  show ?thesis
  proof (cases a)
    case (Inl e)
    then show ?thesis using assms a f1 clients_same [OF assms(1), of db'] by (simp add: register_client_def)
  next
    case (Inr domain)
    show ?thesis
    proof (cases "find (\<lambda>x. ci_client_id x = c \<and> ci_domain_id x = dd_id domain) (cd_clients db1)")
      case None
      show ?thesis
      proof (cases "list_ex (\<lambda>x. ci_client_id x = c) (cd_clients db1)")
        case True
        then show ?thesis using assms a f1 Inr None clients_same [OF assms(1), of db'] by (simp add: register_client_def)
      next
        case False
        then obtain new where "cd_clients db' = cd_clients db @ [new]" "ci_client_id new = c" "ci_config_id new = None"
          using assms a f1 Inr None by (fastforce simp: register_client_def)
        then show ?thesis using assms(1) fr False f1 by (auto simp: clients_inv_def list_ex_iff)
      qed
    next
      case (Some ex)
      show ?thesis
        by (rule clients_map [OF assms(1) fr(2), where f = "\<lambda>x. if ci_client_id x = c \<and> ci_domain_id x = dd_id domain
              then x\<lparr> ci_hostname := h, ci_ip_address := ip, ci_last_checkin := Some now,
                      ci_client_version := ver, ci_os_info := os, ci_status := ''active'' \<rparr> else x"])
          (use assms(2) a Inr Some f1 in \<open>auto simp: register_client_def\<close>)
    qed
  qed
qed

lemma pull_clients_inv:
  assumes "clients_inv db" "pull_client_config E now c j tok cert db = (r, db')"
  shows "clients_inv db'"
proof -
  note fr = pull_frame [OF assms(2)]
  obtain a db1 where a: "authenticate_client E now j tok cert db = (a, db1)" by fastforce
  note f1 = authenticate_frame [OF a] dropped_frame [OF a]
  have "cd_clients db' = cd_clients db \<or> (\<exists>i. cd_clients db' = map (\<lambda>x. if ci_id x = i
      then x\<lparr> ci_last_config_pull := Some now, ci_last_checkin := Some now \<rparr> else x) (cd_clients db))"
    using assms(2) a f1 by (auto simp: pull_client_config_def split: sum.splits option.splits)
  then show ?thesis
  proof
    assume "cd_clients db' = cd_clients db"
    then show ?thesis using clients_same [OF assms(1)] fr by simp
  next
    assume "\<exists>i. cd_clients db' = map (\<lambda>x. if ci_id x = i
      then x\<lparr> ci_last_config_pull := Some now, ci_last_checkin := Some now \<rparr> else x) (cd_clients db)"
    then show ?thesis by (elim exE) (rule clients_map [OF assms(1) fr(2)], assumption, auto)
  qed
qed

lemma assign_clients_inv:
  assumes "clients_inv db" "assign_config_to_client c i db = (r, db')"
  shows "clients_inv db' \<and> cd_domains db' = cd_domains db \<and> cd_configs db' = cd_configs db \<and> cd_history db' = cd_history db"
proof (cases "db' = db")
  case False
  then obtain cl cfg where x: "find (\<lambda>x. ci_client_id x = c) (cd_clients db) = Some cl" "config_at i db = Some cfg"
    "cc_domain_id cfg = ci_domain_id cl"
    and db': "db' = db\<lparr> cd_clients := map (\<lambda>x. if ci_client_id x = c then x\<lparr> ci_config_id := Some i \<rparr> else x) (cd_clients db) \<rparr>"
    using assms(2) by (auto simp: assign_config_to_client_def split: option.splits if_splits)
  have cl: "cl \<in> set (cd_clients db)" "ci_client_id cl = c" using find_SomeD [OF x(1)] by simp_all
  have only: "y = cl" if "y \<in> set (cd_clients db)" "ci_client_id y = c" for y
    using assms(1) that cl by (auto simp: clients_inv_def distinct_map dest: inj_onD)
  have cfg: "cfg \<in> set (cd_configs db)" "cc_id cfg = i" using x(2) by (auto simp: config_at_def dest: find_SomeD)
  have "map ci_client_id (cd_clients db') = map ci_client_id (cd_clients db)" by (simp add: db')
  moreover have "\<exists>g\<in>set (cd_configs db). cc_id g = k \<and> cc_domain_id g = ci_domain_id y"
    if "y \<in> set (cd_clients db')" "ci_config_id y = Some k" for y k
    using that assms(1) only cfg x(3) by (auto simp: db' clients_inv_def split: if_splits)
  ultimately show ?thesis using assms(1) unfolding clients_inv_def by (simp add: db' del: map_map)
qed (use assms in simp)

definition config_owners :: "client_db \<Rightarrow> (nat \<times> nat) set" where
  "config_owners db = (\<lambda>c. (cc_id c, cc_domain_id c)) ` set (cd_configs db)"

lemma more_configs_clients_inv:
  assumes "clients_inv db" "cd_clients db' = cd_clients db" "config_owners db \<subseteq> config_owners db'"
  shows "clients_inv db'"
proof -
  have "\<exists>y\<in>set (cd_configs db'). cc_id y = cc_id x \<and> cc_domain_id y = cc_domain_id x" if "x \<in> set (cd_configs db)" for x
  proof -
    have "(cc_id x, cc_domain_id x) \<in> config_owners db'" using assms(3) that by (auto simp: config_owners_def)
    then obtain y where "y \<in> set (cd_configs db')" "cc_id x = cc_id y" "cc_domain_id x = cc_domain_id y"
      by (auto simp: config_owners_def)
    then show ?thesis by (intro bexI [of _ y]) simp_all
  qed
  then show ?thesis using assms(1,2) unfolding clients_inv_def by metis
qed

lemma update_config_owners:
  assumes "update_client_config i d descr actor db = (r, db')"
  shows "config_owners db' = config_owners db"
proof (cases "config_at i db = None \<or> \<not> validate_config_data d")
  case False
  then obtain c where c: "config_at i db = Some c" by auto
  then have "cd_configs db' = map (\<lambda>x. if cc_id x = i
      then x\<lparr> cc_data := d, cc_version := cc_version c + 1, cc_description := descr \<rparr> else x) (cd_configs db)"
    using assms False by (auto simp: update_client_config_def Let_def)
  then have "map (\<lambda>c. (cc_id c, cc_domain_id c)) (cd_configs db') = map (\<lambda>c. (cc_id c, cc_domain_id c)) (cd_configs db)"
    by simp
  then show ?thesis unfolding config_owners_def by (metis list.set_map)
qed (use assms in \<open>auto simp: update_client_config_def split: option.splits\<close>)

lemma client_step_inv:
  assumes "client_inv db" "client_step E cmd db = (r, db')"
  shows "client_inv db'"
proof -
  have inv: "domains_inv db" "configs_inv db" "clients_inv db" using assms(1) by (simp_all add: client_inv_def)
  show ?thesis
  proof (cases cmd)
    case (Create_Domain now nonce name description)
    with assms(2) have e: "create_deployment_domain E now nonce name description db = (r, db')" by simp
    have "cd_clients db' = cd_clients db" "cd_configs db' = cd_configs db" "cd_history db' = cd_history db"
      using e by (auto simp: create_deployment_domain_def Let_def split: if_splits)
    then show ?thesis using create_domain_inv [OF inv(1) e] inv clients_same configs_same by (simp add: client_inv_def)
  next
    case (Rollover now nonce i)
    with assms(2) have e: "rollover_domain_jwt E now nonce i db = (r, db')" by simp
    have "cd_clients db' = cd_clients db" "cd_configs db' = cd_configs db" "cd_history db' = cd_history db"
      using e by (auto simp: rollover_domain_jwt_def Let_def split: if_splits option.splits)
    then show ?thesis using rollover_inv [OF inv(1) e] inv clients_same configs_same by (simp add: client_inv_def)
  next
    case (Create_Config now name i d descr actor)
    with assms(2) have e: "create_client_config E now name i d descr actor db = (r, db')" by simp
    have "cd_clients db' = cd_clients db" "cd_domains db' = cd_domains db" "config_owners db \<subseteq> config_owners db'"
      using e by (auto simp: create_client_config_def config_owners_def Let_def split: if_splits)
    then show ?thesis
      using create_config_inv [OF inv(2) e] inv more_configs_clients_inv [OF inv(3), of db'] domains_same
      by (simp add: client_inv_def)
  next
    case (Update_Config i d descr actor)
    with assms(2) have e: "update_client_config i d descr actor db = (r, db')" by simp
    have "cd_clients db' = cd_clients db" "cd_domains db' = cd_domains db"
      using e by (auto simp: update_client_config_def Let_def split: if_splits option.splits)
    then show ?thesis
      using update_config_inv [OF inv(2) e] inv more_configs_clients_inv [OF inv(3), of db'] update_config_owners [OF e] domains_same
      by (simp add: client_inv_def)
  next
    case (Register now c j h ip ver os tok cert)
    with assms(2) have e: "register_client E now c j h ip ver os tok cert db = (r, db')" by simp
    show ?thesis using register_clients_inv [OF inv(3) e] register_frame [OF e] inv configs_same domains_same
      by (simp add: client_inv_def)
  next
    case (Pull now c j tok cert)
    with assms(2) have e: "pull_client_config E now c j tok cert db = (r, db')" by simp
    show ?thesis using pull_clients_inv [OF inv(3) e] pull_frame [OF e] inv configs_same domains_same
      by (simp add: client_inv_def)
  next
    case (Assign c i)
    with assms(2) have e: "assign_config_to_client c i db = (r, db')" by simp
    show ?thesis using assign_clients_inv [OF inv(3) e] inv configs_same domains_same by (simp add: client_inv_def)
  next
    case (Cleanup now days)
    with assms(2) have e: "\<exists>P. cd_clients db' = filter P (cd_clients db)" "cd_configs db' = cd_configs db"
      "cd_history db' = cd_history db" "cd_domains db' = cd_domains db"
      by (auto simp: cleanup_inactive_clients_def Let_def)
    from e(1) have "clients_inv db'" by (elim exE) (rule clients_filter [OF inv(3) e(2)])
    then show ?thesis using inv e configs_same domains_same by (simp add: client_inv_def)
  qed
qed

lemma fresh_clients_inv: "client_inv (fresh_clients toks)"
  by (simp add: client_inv_def fresh_clients_def initialize_default_roles_def domains_inv_def configs_inv_def clients_inv_def)

lemma client_run_inv: "client_inv db \<Longrightarrow> client_inv (snd (client_run E cmds db))"
proof (induction cmds arbitrary: db)
  case (Cons c cmds)
  obtain r db1 where s: "client_step E c db = (r, db1)" by fastforce
  with Cons.IH [of db1] client_step_inv [OF Cons.prems s] show ?case by (auto split: prod.splits)
qed simp

text \<open>The tokens handed out by a run, and the hashes that can be in the table after it.\<close>

definition issued_tokens :: "client_result list \<Rightarrow> string list" where
  "issued_tokens rs = concat (map (\<lambda>r. case r of Domain_Created i n t \<Rightarrow> [t] | Rolled_Over t e \<Rightarrow> [t] | _ \<Rightarrow> []) rs)"

lemma step_hashes:
  assumes "client_step E cmd db = (r, db')"
  shows "dd_jwt_hash ` set (cd_domains db') \<subseteq> dd_jwt_hash ` set (cd_domains db) \<union> ce_sha256 E ` set (issued_tokens [r])"
proof (cases cmd)
  case (Create_Domain now nonce name description)
  with assms show ?thesis by (auto simp: create_deployment_domain_def issued_tokens_def Let_def split: if_splits)
next
  case (Rollover now nonce i)
  with assms show ?thesis
    by (auto simp: rollover_domain_jwt_def issued_tokens_def Let_def split: if_splits option.splits)
next
  case (Create_Config now name i d descr actor)
  with assms show ?thesis by (auto simp: create_client_config_def Let_def split: if_splits)
next
  case (Update_Config i d descr actor)
  with assms show ?thesis by (auto simp: update_client_config_def Let_def split: if_splits option.splits)
next
  case (Register now c j h ip ver os tok cert)
  with assms have "cd_domains db' = cd_domains db" using register_frame(1) by simp
  then show ?thesis by simp
next
  case (Pull now c j tok cert)
  with assms have "cd_domains db' = cd_domains db" using pull_frame(1) by simp
  then show ?thesis by simp
next
  case (Assign c i)
  with assms show ?thesis by (auto simp: assign_config_to_client_def split: if_splits option.splits)
next
  case (Cleanup now days)
  with assms show ?thesis by (auto simp: cleanup_inactive_clients_def Let_def)
qed

lemma run_hashes:
  "client_run E cmds db = (rs, db') \<Longrightarrow>
   dd_jwt_hash ` set (cd_domains db') \<subseteq> dd_jwt_hash ` set (cd_domains db) \<union> ce_sha256 E ` set (issued_tokens rs)"
proof (induction cmds arbitrary: db rs)
  case (Cons c cmds)
  obtain r db1 where s: "client_step E c db = (r, db1)" by fastforce
  obtain rs' db2 where t: "client_run E cmds db1 = (rs', db2)" by fastforce
  have e: "rs = r # rs'" "db' = db2" using Cons.prems s t by auto
  have i: "set (issued_tokens rs) = set (issued_tokens [r]) \<union> set (issued_tokens rs')" by (simp add: issued_tokens_def e)
  show ?case using step_hashes [OF s] Cons.IH [of db1 rs'] t unfolding e(2) i image_Un by blast
qed (simp add: issued_tokens_def)

section \<open>Properties\<close>

text \<open>
  C25. The history of every configuration is complete: after any run its recorded versions are exactly one up to
  the current version, in order, and the last of them holds the current data.
\<close>

theorem config_history_complete:
  assumes "client_run E cmds (fresh_clients toks) = (rs, db)" "config \<in> set (cd_configs db)"
  shows "map ch_version (history_of (cc_id config) db) = [1..<Suc (cc_version config)]
    \<and> history_of (cc_id config) db \<noteq> [] \<and> ch_data (last (history_of (cc_id config) db)) = cc_data config"
proof -
  have "client_inv db" using client_run_inv [OF fresh_clients_inv, of E cmds toks] assms(1) by simp
  then have h: "history_complete db config" using assms(2) by (simp add: client_inv_def configs_inv_def)
  then have "length (map ch_version (history_of (cc_id config) db)) = cc_version config"
    by (simp add: history_complete_def del: upt_Suc length_map)
  then have "history_of (cc_id config) db \<noteq> []" using h by (auto simp: history_complete_def)
  then show ?thesis using h by (simp add: history_complete_def)
qed

text \<open>
  C27. Deployment domains are isolated from each other: after any run a configuration is handed only to an
  active client of an active domain, on the current token of that domain, and the configuration is an active
  one of the same domain, whatever was assigned to whom.
\<close>

theorem pulled_config_isolated:
  assumes "client_run E cmds (fresh_clients toks) = (rs, db)"
    and "pull_client_config E now client_id domain_jwt user_token cert db = (Config_Pulled config, db')"
  shows "\<exists>payload. \<exists>d\<in>set (cd_domains db). \<exists>c\<in>set (cd_clients db).
    ce_decode E now domain_jwt = Some payload \<and> json_get payload ''domain'' = JStr (dd_name d)
    \<and> dd_jwt_hash d = ce_sha256 E domain_jwt \<and> dd_active d
    \<and> ci_client_id c = client_id \<and> ci_domain_id c = dd_id d \<and> ci_status c = ''active''
    \<and> config \<in> set (cd_configs db) \<and> cc_domain_id config = dd_id d \<and> cc_active config"
proof -
  have inv: "clients_inv db" "configs_inv db"
    using client_run_inv [OF fresh_clients_inv, of E cmds toks] assms(1) by (simp_all add: client_inv_def)
  obtain a db1 where a: "authenticate_client E now domain_jwt user_token cert db = (a, db1)" by fastforce
  note f1 = authenticate_frame [OF a]
  obtain d c where d: "a = Inr d"
    and c: "find (\<lambda>c. ci_client_id c = client_id \<and> ci_domain_id c = dd_id d \<and> ci_status c = ''active'') (cd_clients db) = Some c"
    and cfg: "config_for d c db1 = Some config"
    using assms(2) a f1 by (auto simp: pull_client_config_def split: sum.splits option.splits)
  have v: "verify_domain_jwt E now domain_jwt db = Some d" using authenticate_Inr a d by simp
  then obtain payload where p: "ce_decode E now domain_jwt = Some payload" "json_get payload ''domain'' = JStr (dd_name d)"
    "dd_jwt_hash d = ce_sha256 E domain_jwt" "dd_active d" "d \<in> set (cd_domains db)"
    by (auto simp: verify_domain_jwt_def Let_def dest!: find_SomeD split: option.splits if_splits)
  have c': "c \<in> set (cd_clients db)" "ci_client_id c = client_id" "ci_domain_id c = dd_id d" "ci_status c = ''active''"
    using find_SomeD [OF c] by auto
  have cfg': "config \<in> set (cd_configs db)" "cc_active config"
    using cfg f1 by (auto simp: config_for_def dest!: find_SomeD split: if_splits)
  have "cc_domain_id config = dd_id d"
  proof (cases "ci_config_id c \<noteq> None \<and> ci_config_id c \<noteq> Some 0")
    case True
    then obtain k where k: "ci_config_id c = Some k" by auto
    then obtain x where x: "x \<in> set (cd_configs db)" "cc_id x = k" "cc_domain_id x = dd_id d"
      using inv(1) c'(1,3) unfolding clients_inv_def by metis
    have "cc_id config = k" using cfg True k by (auto simp: config_for_def dest: find_SomeD)
    moreover have "distinct (map cc_id (cd_configs db))"
      using inv(2) by (metis configs_inv_def distinct_upt)
    ultimately have "config = x" using x cfg'(1) by (auto simp: distinct_map dest: inj_onD)
    then show ?thesis using x by simp
  next
    case False
    then show ?thesis using cfg by (auto simp: config_for_def dest: find_SomeD)
  qed
  then show ?thesis using p c' cfg' by blast
qed

text \<open>
  C26. Rolling a domain over ends its former token for good: whatever happens later, the former token registers
  and pulls nothing, unless SHA-256 collides or a signature repeats.
\<close>

theorem rolled_over_token_dead:
  assumes "client_run E before (fresh_clients toks) = (rs0, db)" "verify_domain_jwt E t old db = Some d"
    and "rollover_domain_jwt E now nonce (dd_id d) db = (Rolled_Over new expiry, db1)"
    and "client_run E later db1 = (rs, db2)" "ce_sha256 E old \<notin> ce_sha256 E ` set (new # issued_tokens rs)"
  shows "(\<exists>e. fst (pull_client_config E t' client_id old user_token cert db2) = Client_Failed e)
    \<and> (\<exists>e. fst (register_client E t' client_id old h ip ver os user_token cert db2) = Client_Failed e)"
proof -
  have inv: "domains_inv db" using client_run_inv [OF fresh_clients_inv, of E before toks] assms(1) by (simp add: client_inv_def)
  have d: "d \<in> set (cd_domains db)" "dd_jwt_hash d = ce_sha256 E old"
    using assms(2) by (auto simp: verify_domain_jwt_def Let_def dest!: find_SomeD split: option.splits if_splits)
  have "x = d" if "x \<in> set (cd_domains db)" "dd_jwt_hash x = ce_sha256 E old" for x
    using inv that d unfolding domains_inv_def distinct_map by (metis inj_onD)
  then have "ce_sha256 E old \<notin> dd_jwt_hash ` set (cd_domains db1)"
    using assms(3,5) by (auto simp: rollover_domain_jwt_def Let_def split: option.splits if_splits)
  then have "ce_sha256 E old \<notin> dd_jwt_hash ` set (cd_domains db2)" using run_hashes [OF assms(4)] assms(5) by auto
  then have none: "verify_domain_jwt E t' old db2 = None"
    by (force simp: verify_domain_jwt_def Let_def find_None_iff split: option.splits)
  obtain a db3 where a: "authenticate_client E t' old user_token cert db2 = (a, db3)" by fastforce
  then obtain e where "a = Inl e" using none authenticate_Inr by (cases a) auto
  then show ?thesis using a by (simp add: pull_client_config_def register_client_def)
qed

text \<open>
  A new client that registers with the current token of its domain is served: from then on, as long as the
  token is valid, it pulls the default configuration of the domain, at its latest version.
\<close>

theorem registered_client_served:
  assumes "register_client E now client_id domain_jwt h ip ver os None None db = (Client_Registered i name, db1)"
    and "\<forall>c\<in>set (cd_clients db). ci_client_id c \<noteq> client_id"
    and "verify_domain_jwt E now' domain_jwt db = Some d" "verify_domain_jwt E now domain_jwt db = Some d"
    and "find (\<lambda>c. cc_domain_id c = dd_id d \<and> cc_name c = ''default'' \<and> cc_active c) (cd_configs db) = Some config"
  shows "fst (pull_client_config E now' client_id domain_jwt None None db1) = Config_Pulled config"
proof -
  have n: "find (\<lambda>c. ci_client_id c = client_id \<and> ci_domain_id c = dd_id d) (cd_clients db) = None"
    "find (\<lambda>c. ci_client_id c = client_id \<and> ci_domain_id c = dd_id d \<and> ci_status c = ''active'') (cd_clients db) = None"
    using assms(2) by (auto simp: find_None_iff)
  obtain new where db1: "cd_clients db1 = cd_clients db @ [new]" "ci_client_id new = client_id" "ci_domain_id new = dd_id d"
    "ci_status new = ''active''" "ci_config_id new = None" "cd_domains db1 = cd_domains db" "cd_configs db1 = cd_configs db"
    using assms(1,2,4) n by (auto simp: register_client_def authenticate_client_def list_ex_iff)
  have "find (\<lambda>c. ci_client_id c = client_id \<and> ci_domain_id c = dd_id d \<and> ci_status c = ''active'') (cd_clients db1) = Some new"
    using n(2) db1 by (simp add: find_append)
  moreover have "verify_domain_jwt E now' domain_jwt db1 = verify_domain_jwt E now' domain_jwt db"
    unfolding verify_domain_jwt_def db1(6) by (rule refl)
  moreover have "config_for d new db1 = Some config" using assms(5) db1 by (simp add: config_for_def)
  ultimately show ?thesis using assms(3) by (simp add: pull_client_config_def authenticate_client_def)
qed

section \<open>Witnesses\<close>

definition sample_client_env :: client_env where
  "sample_client_env = \<lparr> ce_sha256 = (\<lambda>s. s), ce_sign = (\<lambda>n c. dec n),
     ce_decode = (\<lambda>now t. Some [(''domain'', JStr ''corp'')]), ce_jwt_cfg = \<lparr> JWT_AUDIENCE = ''squawk'', JWT_ISSUER = ''m'' \<rparr>,
     ce_fk = True, ce_keeps = False, ce_flag = True, ce_repr = (\<lambda>j. []) \<rparr>"

definition sample_data :: "int \<Rightarrow> json" where
  "sample_data port = JObj [(''server_url'', JStr ''https://dns''), (''dns_port'', JInt port), (''cache_enabled'', JBool True)]"

definition sample_cmds :: "client_cmd list" where
  "sample_cmds = [Create_Domain 0 7 ''corp'' [], Create_Config 0 ''default'' 1 (sample_data 53) [] ''ann'',
     Update_Config 1 (sample_data 853) ''tls'' ''bob'', Register 5 ''c1'' ''7'' ''h'' ''10.0.0.1'' [] [] None None]"

definition sample_client_db :: client_db where
  "sample_client_db = snd (client_run sample_client_env sample_cmds (fresh_clients []))"

lemma sample_run:
  "client_run sample_client_env sample_cmds (fresh_clients []) =
     (fst (client_run sample_client_env sample_cmds (fresh_clients [])), sample_client_db)"
  by (simp add: sample_client_db_def)

theorem config_history_complete_witness:
  "map ch_version (history_of 1 sample_client_db) = [1..<3]
    \<and> ch_data (last (history_of 1 sample_client_db)) = sample_data 853"
proof -
  have c: "hd (cd_configs sample_client_db) \<in> set (cd_configs sample_client_db)"
    "cc_id (hd (cd_configs sample_client_db)) = 1" "cc_version (hd (cd_configs sample_client_db)) = 2"
    "cc_data (hd (cd_configs sample_client_db)) = sample_data 853" by code_simp+
  from config_history_complete [OF sample_run c(1)] show ?thesis by (simp add: c(2-4) del: upt_Suc)
qed

theorem pulled_config_isolated_witness:
  "\<exists>config db'. pull_client_config sample_client_env 9 ''c1'' ''7'' None None sample_client_db = (Config_Pulled config, db')
    \<and> cc_domain_id config = 1 \<and> cc_active config"
proof -
  define config where "config = hd (cd_configs sample_client_db)"
  have "fst (pull_client_config sample_client_env 9 ''c1'' ''7'' None None sample_client_db) = Config_Pulled config"
    unfolding config_def by code_simp
  then obtain db' where p: "pull_client_config sample_client_env 9 ''c1'' ''7'' None None sample_client_db = (Config_Pulled config, db')"
    by (metis prod.collapse)
  have d: "\<forall>d\<in>set (cd_domains sample_client_db). dd_id d = 1" by code_simp
  from pulled_config_isolated [OF sample_run p] obtain x where
    "x \<in> set (cd_domains sample_client_db)" "cc_domain_id config = dd_id x \<and> cc_active config" by auto
  with d have "cc_domain_id config = 1 \<and> cc_active config" by simp
  with p show ?thesis by blast
qed

theorem rolled_over_token_dead_witness:
  "\<exists>e. fst (pull_client_config sample_client_env 30 ''c1'' ''7'' None None
     (snd (rollover_domain_jwt sample_client_env 20 8 1 sample_client_db))) = Client_Failed e"
proof -
  let ?db1 = "snd (rollover_domain_jwt sample_client_env 20 8 1 sample_client_db)"
  define d where "d = hd (cd_domains sample_client_db)"
  have v: "verify_domain_jwt sample_client_env 10 ''7'' sample_client_db = Some d" "dd_id d = 1"
    unfolding d_def by code_simp+
  have "fst (rollover_domain_jwt sample_client_env 20 8 1 sample_client_db) = Rolled_Over ''8'' (20 + 365 * day)" by code_simp
  then have r: "rollover_domain_jwt sample_client_env 20 8 (dd_id d) sample_client_db = (Rolled_Over ''8'' (20 + 365 * day), ?db1)"
    by (metis prod.collapse v(2))
  have "client_run sample_client_env [] ?db1 = ([], ?db1)" by simp
  from rolled_over_token_dead [OF sample_run v(1) r this, of 30 "''c1''" None None "''h''" "''10.0.0.1''" "[]" "[]"]
  show ?thesis by (simp add: sample_client_env_def issued_tokens_def)
qed

theorem registered_client_served_witness:
  "\<exists>config. fst (pull_client_config sample_client_env 9 ''c2'' ''7'' None None
     (snd (register_client sample_client_env 8 ''c2'' ''7'' ''h'' ''10.0.0.2'' [] [] None None sample_client_db))) = Config_Pulled config"
proof -
  let ?r = "register_client sample_client_env 8 ''c2'' ''7'' ''h'' ''10.0.0.2'' [] [] None None sample_client_db"
  have "fst ?r = Client_Registered 2 ''corp''" by code_simp
  then have r: "?r = (Client_Registered 2 ''corp'', snd ?r)" by (metis prod.collapse)
  have n: "\<forall>c\<in>set (cd_clients sample_client_db). ci_client_id c \<noteq> ''c2''" by code_simp
  have v: "verify_domain_jwt sample_client_env 9 ''7'' sample_client_db = Some (hd (cd_domains sample_client_db))"
    "verify_domain_jwt sample_client_env 8 ''7'' sample_client_db = Some (hd (cd_domains sample_client_db))" by code_simp+
  have f: "find (\<lambda>c. cc_domain_id c = dd_id (hd (cd_domains sample_client_db)) \<and> cc_name c = ''default'' \<and> cc_active c)
      (cd_configs sample_client_db) = Some (hd (cd_configs sample_client_db))" by code_simp
  from registered_client_served [OF r n v f] show ?thesis by blast
qed

end
