(* ===== verification/Spec2Isabelle.thy ===== *)
theory Spec2Isabelle
  imports Rate_Valkey Manager_Network Manager_Scim Manager_Whois Manager_Feeds Doh_Client Dns_Query Ntp_Server Dhcp_Server Manager_Link Selective_Dns Client_Config Manager_Admin
begin

text \<open>
  Squawk is a DNS service made of several programs. A DNS server answers DNS-over-HTTPS queries, a time server
  speaks NTP with NTS, a DHCP server hands out leases, and the Manager holds users, zones, threat feeds and
  machine identities and configures the DNS servers; a command-line client asks the DNS servers. This development models their logic from the Python
  sources and proves what makes them correct. Paths below are relative to \<^verbatim>\<open>src/\<close>.

  \<^bold>\<open>How the programs interact.\<close> Users, machine clients and servers authenticate to the Manager and hold signed
  tokens. A DNS server registers with a join key, pulls its zones and feeds, and decides each query with the
  claims of the caller's token. The time server and the DHCP server accept the Manager's tokens too. The
  programs share claim sets and configuration messages: \<open>claims\<close>, \<open>zone_cfg\<close> and \<open>feed\<close> are the same types on
  both sides, so that what one side writes is what the other side reads.

  \<^bold>\<open>Theories.\<close>
  \<^item> \<open>Prelude\<close>: Python strings, truth values, JSON values, dotted names and the order \<open>in_zone\<close> on them.
  \<^item> \<open>Domain_Policy\<close>: \<^verbatim>\<open>dns-server/app/utils/domain_policy.py\<close>, \<^verbatim>\<open>manager/backend/app/utils/domain_validation.py\<close>.
  \<^item> \<open>Ip_Address\<close>, \<open>Py_Regex\<close>: the IPv4 part of the standard library's \<^verbatim>\<open>ipaddress\<close> and the patterns the programs share.
  \<^item> \<open>Jwt_Verify\<close>: the token checks of the three servers (\<^verbatim>\<open>dns-server/app/utils/jwt_verify.py\<close>,
    \<^verbatim>\<open>dhcp-server/app/auth.py\<close>, \<^verbatim>\<open>ntp-server/bins/server.py\<close>) over one contract of the JWT library.
  \<^item> \<open>Ioc_Checker\<close>, \<open>Selective_Router\<close>, \<open>Selective_Dns\<close>, \<open>Rate_Limiter\<close>, \<open>Rate_Valkey\<close>, \<open>Manager_Client\<close>, \<open>Dns_Query\<close>,
    \<open>Dns_Metrics\<close>: the DNS server, \<^verbatim>\<open>dns-server/app/services/\<close>, \<^verbatim>\<open>dns-server/app/utils/resilience.py\<close> and
    \<^verbatim>\<open>dns-server/app/main.py\<close>. \<open>Dns_Query\<close> composes the others the way the request handler does, with the
    in-memory backend of the limiter; \<open>Rate_Valkey\<close> is the distributed one.
  \<^item> \<open>Byte_Codec\<close>, \<open>Nts_Wire\<close>, \<open>Ntp_Server\<close>: the time server, \<^verbatim>\<open>ntp-server/bins/server.py\<close>, from framed byte streams to the
    UDP loop and the key exchange.
  \<^item> \<open>Dhcp_Server\<close>: \<^verbatim>\<open>dhcp-server/app/\<close> and \<^verbatim>\<open>dhcp-server/bins/server.py\<close>.
  \<^item> \<open>Manager_Rbac\<close>, \<open>Manager_Auth\<close>, \<open>Manager_Mfa\<close>, \<open>Manager_Machine\<close>: scopes and access checks, password logins and
    refresh tokens, the second factor with cookies and CSRF, machine clients with DPoP
    (\<^verbatim>\<open>manager/backend/app/services/\<close>, \<^verbatim>\<open>middleware/\<close> and \<^verbatim>\<open>blueprints/\<close>).
  \<^item> \<open>Ioc_Ingestion\<close>, \<open>Manager_Config\<close>, \<open>Manager_Servers\<close>: threat feeds, the configuration delivered to DNS servers,
    and how servers enrol, authenticate and refresh (REST and gRPC).
  \<^item> \<open>Manager_Admin\<close>, \<open>Manager_Network\<close>, \<open>Manager_Feeds\<close>, \<open>Manager_Whois\<close>: the administration routes for users, teams, zones,
    tokens, address pools, time servers and feeds, and the WHOIS service (\<^verbatim>\<open>manager/backend/app/blueprints/\<close>).
  \<^item> \<open>Manager_Sso\<close>, \<open>Manager_Scim\<close>, \<open>Client_Config\<close>: sign-in through OIDC and SAML providers, provisioning of accounts, and
    the configurations that clients pull.
  \<^item> \<open>Doh_Client\<close>: the command-line client, \<^verbatim>\<open>squawk-client/bins/client.py\<close>.
  \<^item> \<open>Manager_Link\<close> and this theory: properties that need both ends of a connection.

  \<^bold>\<open>State and effects.\<close> A Python object or a set of database tables is a record; a table is a list of rows in insertion
  order; an operation takes the state and returns a result with the new state. Raised exceptions, error replies
  and early returns are values of a sum, an option or a result type. Loops over data are structural recursions
  or folds. The parsers of framed streams take fuel, the length of the input, and \<open>parse_all_bounded\<close> shows that
  this is enough because every step consumes at least a header; the UDP loop runs over a list of datagrams.
  Bytes are \<^typ>\<open>8 word\<close>; protocol integers are \<^typ>\<open>int\<close> packed with an explicit range check, as
  \<^verbatim>\<open>struct.pack\<close> does. Floating-point times are rationals, with the rounding of the clock written out where it
  decides a result (\<open>round53\<close>). The clock and every random value are arguments.

  \<^bold>\<open>Parameters.\<close> Code that is not in the repository is an argument: the JWT library, dnspython, Redis, AES-SIV, bcrypt,
  SHA-256, Fernet, pyotp, pysaml2, the WHOIS libraries, URL splitting, and the decoders of JSON, CSV and XML text. What the
  services rely on is a named contract or a locale (\<open>aead_ok\<close>, \<open>decoder_ok\<close>, \<open>urls_reparse\<close>; \<open>jwt_gate\<close>, \<open>framing\<close>,
  \<open>ip_library\<close>, \<open>ip_printing\<close>, \<open>answer_store\<close>, \<open>counter_store\<close>, \<open>query_order\<close>, \<open>refinement\<close>), and every locale is interpreted
  on the model's own definitions. What a database does with a value of another type than its column's is not fixed by the
  sources; the routes are modelled as raising there, and where the DHCP server compares a number with stored text, the text
  the library makes of the number is a parameter.

  \<^bold>\<open>What is shown.\<close> Each property is the theorem that follows a block of text beginning with its number.
  \<^item> Gates: what a reply proves about the request (DNS queries, NTS replies and cookies, DHCP leases, server
    routes, tokens of machine clients, sign-ins with a second factor or through a provider, configurations pulled, servers
    the client asks).
  \<^item> Single use and bounds: refresh tokens, DPoP proofs, pre-authentication tokens, SAML responses, password guesses, rate
    limits, tracked keys and metrics, over arbitrary sequences of operations; revoked and rolled-over tokens stay dead.
  \<^item> Confinement: what callers without a scope or without access to a team leave as it is, and what provisioning never
    changes, over arbitrary sequences of requests.
  \<^item> Functional correctness: allowlist and threat matching, zone lookup, address allocation, cookies and
    authenticators, the WHOIS cache.
  \<^item> Refinement and invariants: group-based visibility refines an access-control relation; the feed tables and their
    caches keep their normal form in every reachable state, histories are complete, reservations are unique.
  \<^item> Round trips, termination and availability: wire formats, SPIFFE identities, parsers on any input, registered
    servers, valid cookies, records from their creation to the answer, failover of the client.
  \<^item> Divergences: theorems that state, on the model, where the code departs from its comments or intent.

  \<^bold>\<open>Not modelled.\<close> Transport and process start-up (HTTP/3, TLS listeners, gRPC channels, the gRPC front end of the DNS
  server), cloud signing providers and X.509 handling (calls into their libraries), redirects that the client's HTTP library
  follows, the metadata page of SAML, telemetry, licence calls, reports over the tables and the audit trail, the installer,
  the tray application and the templates. JSON numbers with a fraction have no constructor. IPv6 is behind the parameter of
  the address library; the invariants of the feed tables are instantiated for IPv4. Concurrency between requests is modelled
  where the code's own order decides a property, as sequences of operations; data races inside one operation are not.
\<close>

section \<open>Machine clients and the resolver\<close>

text \<open>
  A stored allowlist that does not parse as JSON lifts the restriction instead of failing: the client
  is granted a token without domains, and the policy gate of a DNS server that verifies this token admits
  every name.
\<close>

theorem corrupt_allowlist_lifts_restriction:
  assumes "request_credentials req = (cid, secret)" "verify_machine_client E cid secret db = Some mc"
    "mcl_allowed_domains mc = Some stored" "mv_loads E stored = None"
    "tr_grant_type req = ''client_credentials''" "token_endpoint E now req db = (TokenOk c ty scopes, db')"
    "main_verify V token = Some c"
  shows "policy_gate V name token = Some True"
proof -
  obtain dpf db1 where pf: "(if py_strip (tr_dpop req) = [] then (None, db)
      else validate_proof E now (py_strip (tr_dpop req)) (tr_method req) (tr_uri req) db) = (dpf, db1)" by fastforce
  have "mm_clients db1 = mm_clients db"
    using pf validate_proof_frame(1) [of E now "py_strip (tr_dpop req)" "tr_method req" "tr_uri req" db] by (auto split: if_splits)
  then have v: "verify_machine_client E cid secret db1 = Some mc" using assms(2) by (simp add: verify_machine_client_def)
  have g: "client_credentials_grant E now req (map_option dp_jkt dpf) db1 = (TokenOk c ty scopes, db')"
    using assms(5,6) pf by (auto simp: token_endpoint_def Let_def split: if_splits)
  have "c = machine_claims (mv_jwt_cfg E) (mcl_client_id mc) (mcl_tenant mc) scopes (map_option dp_jkt dpf) None
      (now div 1000000) (mv_ttl E)"
    using client_grant_claims [OF g assms(1)] v assms(3,4) by (auto simp: parsed_domains_def)
  then show ?thesis using assms(7) by (simp add: policy_gate_def json_get_machine_domains claim_policy_def)
qed

definition corrupt_db :: machine_db where
  "corrupt_db = update_clients (\<lambda>c. True) (\<lambda>c. c\<lparr> mcl_allowed_domains := Some ''!'' \<rparr>) sample_registered"

definition corrupt_claims :: claims where
  "corrupt_claims = machine_claims (mv_jwt_cfg sample_env) ''sqk_mc_x'' ''acme'' ''zones:read'' (Some ''thumb'') None 100 900"

definition corrupt_verify :: verify_env where
  "corrupt_verify = \<lparr> ve_jwt = \<lparr> unverified_kid = (\<lambda>t. Some None), jwt_decode = (\<lambda>t k algs aud iss req. Inr corrupt_claims) \<rparr>,
     ve_cfg = mv_jwt_cfg sample_env, ve_public_key = Some ''PEM'', ve_public_keys = [] \<rparr>"

theorem corrupt_allowlist_lifts_restriction_witness:
  "policy_gate corrupt_verify ''anything.example'' ''t'' = Some True"
proof -
  have "fst (token_endpoint sample_env 100000000 sample_request corrupt_db) = TokenOk corrupt_claims ''DPoP'' ''zones:read''" by code_simp
  then obtain db' where t: "token_endpoint sample_env 100000000 sample_request corrupt_db = (TokenOk corrupt_claims ''DPoP'' ''zones:read'', db')"
    by (metis prod.collapse)
  have v: "verify_machine_client sample_env ''sqk_mc_x'' ''s'' corrupt_db = Some (hd (mm_clients corrupt_db))"
    "mcl_allowed_domains (hd (mm_clients corrupt_db)) = Some ''!''" "mv_loads sample_env ''!'' = None"
    "request_credentials sample_request = (''sqk_mc_x'', ''s'')" "tr_grant_type sample_request = ''client_credentials''"
    "main_verify corrupt_verify ''t'' = Some corrupt_claims" by code_simp+
  show ?thesis by (rule corrupt_allowlist_lifts_restriction [OF v(4) v(1) v(2) v(3) v(5) t v(6)])
qed

section \<open>The Manager and the time server\<close>

text \<open>Every claim set the Manager signs with its key pair.\<close>

inductive manager_issued :: "machine_env \<Rightarrow> claims \<Rightarrow> bool" for E where
  access: "manager_issued E (access_claims cfg tenant uid name role teams t life)"
| refresh: "manager_issued E (refresh_claims cfg tenant uid jti t life)"
| pre_auth: "manager_issued E (pre_auth_claims cfg tenant uid jti t)"
| domain: "manager_issued E (domain_claims C t name)"
| machine: "\<lbrakk> machine_reach E db; token_endpoint E t req db = (TokenOk c ty scopes, db') \<rbrakk> \<Longrightarrow> manager_issued E c"

definition ntp_scopes :: "string set" where
  "ntp_scopes = {''ntp:client'', ''ntp:admin''}"

lemma no_role_has_ntp: "s \<in> ntp_scopes \<Longrightarrow> s \<notin> set all_valid_scopes"
  by (auto simp: ntp_scopes_def all_valid_scopes_def ROLE_SCOPES_def READ_SCOPES_def SUPERADMIN_SCOPE_def)

lemma role_bundle_valid: "set (role_bundle r) \<subseteq> set all_valid_scopes"
proof (cases "map_of ROLE_SCOPES (the (py_or r (Some [])))")
  case (Some scopes)
  then have "scopes \<in> snd ` set ROLE_SCOPES" by (force dest: map_of_SomeD)
  then show ?thesis by (auto simp: role_bundle_def all_valid_scopes_def Some)
qed (simp add: role_bundle_def)

lemma issued_lacks_ntp: "\<lbrakk> manager_issued E c; s \<in> ntp_scopes \<rbrakk> \<Longrightarrow> \<not> ntp_accepts (Some s) c"
proof (induction rule: manager_issued.induct)
  case (access cfg tenant uid name role teams t life)
  then have "s \<notin> set (py_words (scope_string role))"
    using no_role_has_ntp role_bundle_valid [of role] by (auto simp: words_scope_string)
  then show ?case using access by (auto simp: ntp_accepts_def scope_words_def access_claims_def ntp_scopes_def)
next
  case (pre_auth cfg tenant uid jti t)
  have "py_words ''mfa:verify'' = [''mfa:verify'']" by code_simp
  then show ?case using pre_auth by (auto simp: ntp_accepts_def scope_words_def pre_auth_claims_def ntp_scopes_def)
next
  case (machine db t req c ty scopes db')
  then have "s \<notin> set (py_words scopes)" "json_get c ''scope'' = JStr scopes"
    using granted_scopes_known [OF machine(1,2)] no_role_has_ntp by auto
  then show ?case using machine(3) by (auto simp: ntp_accepts_def scope_words_def json_get_def ntp_scopes_def split: option.splits)
qed (auto simp: ntp_accepts_def scope_words_def refresh_claims_def domain_claims_def ntp_scopes_def)

text \<open>
  C40. No token of the Manager opens the time service: where the keys of the time server verify only tokens
  the Manager signs, no message of the key establishment carries a cookie, whatever token a client presents,
  for no role and no registrable scope contains \<^verbatim>\<open>ntp:client\<close>.
\<close>

theorem manager_tokens_never_open_nts:
  assumes "\<And>token p. admits (ke_jwt K) (ke_cfg K) (ke_env_key K) (ke_keys K) token p \<Longrightarrow> manager_issued E p"
  shows "list_all (\<lambda>msg. list_all (\<lambda>r. fst r \<noteq> NEW_COOKIE) (parse_all msg)) (handle_client K now conn cm)"
proof -
  have "fst r \<noteq> NEW_COOKIE" if m: "msg \<in> set (handle_client K now conn cm)" and r: "r \<in> set (parse_all msg)" for msg r
  proof
    assume "fst r = NEW_COOKIE"
    then obtain w c where "(NEW_COOKIE, w, c) \<in> set (parse_all msg)" using r by (cases r) auto
    then obtain token where "verify_jwt (ke_jwt K) (ke_cfg K) (ke_env_key K) (ke_keys K) token (Some ''ntp:client'')"
      using ke_cookie_authorised [OF m] by blast
    then show False using verify_jwt_admits assms issued_lacks_ntp by (fastforce simp: ntp_scopes_def)
  qed
  then show ?thesis by (auto simp: list_all_iff)
qed

definition admin_ke_env :: ke_env where
  "admin_ke_env = demo_ke_env\<lparr> ke_jwt := \<lparr> unverified_kid = (\<lambda>t. Some None),
     jwt_decode = (\<lambda>t k algs aud iss req. Inr (access_claims demo_cfg ''acme'' 1 ''root'' (Some ''SystemAdmin'') [] 0 900)) \<rparr>,
     ke_env_key := Some ''PEM'', ke_keys := [] \<rparr>"

theorem manager_tokens_never_open_nts_witness:
  "list_all (\<lambda>msg. list_all (\<lambda>r. fst r \<noteq> NEW_COOKIE) (parse_all msg))
     (handle_client admin_ke_env 0 demo_ke_conn (cookie_mgr_init [9] 0))"
proof (rule manager_tokens_never_open_nts [where E = sample_env])
  fix token p
  assume "admits (ke_jwt admin_ke_env) (ke_cfg admin_ke_env) (ke_env_key admin_ke_env) (ke_keys admin_ke_env) token p"
  then have "p = access_claims demo_cfg ''acme'' 1 ''root'' (Some ''SystemAdmin'') [] 0 900"
    by (auto simp: admits_def admin_ke_env_def)
  then show "manager_issued sample_env p" by (simp add: manager_issued.access)
qed

text \<open>The status page of the time server is out of reach in the same way, for everybody the Manager knows.\<close>

theorem ntp_status_unreachable:
  assumes "\<And>token p. admits (ke_jwt K) (ke_cfg K) (ke_env_key K) (ke_keys K) token p \<Longrightarrow> manager_issued E p"
  shows "ntp_status K H auth_header = Page_Error 403 ''Unauthorized''"
proof -
  have "\<not> verify_jwt (ke_jwt K) (ke_cfg K) (ke_env_key K) (ke_keys K) token (Some ''ntp:admin'')" for token
    using verify_jwt_admits assms issued_lacks_ntp by (fastforce simp: ntp_scopes_def)
  then show ?thesis by (simp add: ntp_status_def Let_def)
qed

end
